(* ===== verification/GoPrelude.thy ===== *)
theory GoPrelude
  imports Main "HOL-Library.Sublist"
begin

text \<open>
  The part of Go's language and standard library the components share: a Go string is a
  sequence of bytes, modelled as \<^typ>\<open>char list\<close>; \<open>strings.HasPrefix\<close>,
  \<open>Contains\<close>, \<open>Index\<close>, \<open>TrimSpace\<close>, \<open>Trim\<close>, \<open>Split\<close>, \<open>Join\<close>,
  \<open>Replace\<close>, \<open>ToLower\<close> and \<open>strconv.Itoa\<close>/\<open>Atoi\<close> as executable functions, with the
  algebra the component proofs use.  \<open>to_lower\<close> maps the ASCII letters, as Go does for an
  ASCII string, and leaves every byte from 0x80 on as it is.
  Map iteration order, which Go leaves open, is a permutation the caller supplies.
\<close>

type_synonym gostring = string

named_theorems gostr \<open>facts about Go's string functions\<close>
named_theorems err_iff \<open>inversion of operations that can fail\<close>

subsection \<open>Prefixes, suffixes and substrings\<close>

fun has_prefix :: "'a list \<Rightarrow> 'a list \<Rightarrow> bool" where
  "has_prefix s [] = True"
| "has_prefix [] (p # ps) = False"
| "has_prefix (c # s) (p # ps) = (c = p \<and> has_prefix s ps)"

lemma has_prefix_iff: "has_prefix s p \<longleftrightarrow> (\<exists>r. s = p @ r)"
  by (induction s p rule: has_prefix.induct) auto

lemma has_prefix_append [simp]: "has_prefix (p @ r) p"
  by (auto simp: has_prefix_iff)

lemma has_prefix_self [simp]: "has_prefix p p"
  by (auto simp: has_prefix_iff)

lemma has_prefix_mono: "has_prefix s p \<Longrightarrow> has_prefix (s @ t) p"
  by (auto simp: has_prefix_iff)

lemma has_prefix_drop: "has_prefix s p \<Longrightarrow> s = p @ drop (length p) s"
  by (auto simp: has_prefix_iff)

lemma has_prefix_length: "has_prefix s p \<Longrightarrow> length p \<le> length s"
  by (auto simp: has_prefix_iff)

definition has_suffix :: "'a list \<Rightarrow> 'a list \<Rightarrow> bool" where
  "has_suffix s p = has_prefix (rev s) (rev p)"

lemma has_suffix_iff: "has_suffix s p \<longleftrightarrow> (\<exists>r. s = r @ p)"
proof
  assume "has_suffix s p"
  then obtain r where "rev s = rev p @ r" by (auto simp: has_suffix_def has_prefix_iff)
  then have "s = rev r @ p" by (metis rev_append rev_rev_ident)
  then show "\<exists>r. s = r @ p" ..
next
  assume "\<exists>r. s = r @ p"
  then show "has_suffix s p" by (auto simp: has_suffix_def)
qed

lemma has_suffix_append [simp]: "has_suffix (r @ p) p"
  by (auto simp: has_suffix_iff)

definition trim_prefix :: "'a list \<Rightarrow> 'a list \<Rightarrow> 'a list" where
  "trim_prefix s p = (if has_prefix s p then drop (length p) s else s)"

definition trim_suffix :: "'a list \<Rightarrow> 'a list \<Rightarrow> 'a list" where
  "trim_suffix s p = (if has_suffix s p then take (length s - length p) s else s)"

lemma trim_prefix_append [simp]: "trim_prefix (p @ s) p = s"
  by (simp add: trim_prefix_def)

lemma trim_suffix_append [simp]: "trim_suffix (s @ p) p = s"
  by (simp add: trim_suffix_def has_suffix_iff)

lemma length_trim_prefix [simp]: "length (trim_prefix s p) \<le> length s"
  by (simp add: trim_prefix_def)

fun index_of :: "'a list \<Rightarrow> 'a list \<Rightarrow> nat option" where
  "index_of [] p = (if p = [] then Some 0 else None)"
| "index_of (c # s) p =
     (if has_prefix (c # s) p then Some 0 else map_option Suc (index_of s p))"

definition contains_sub :: "'a list \<Rightarrow> 'a list \<Rightarrow> bool" where
  "contains_sub s p = (index_of s p \<noteq> None)"

lemma index_of_Some:
  "index_of s p = Some n \<Longrightarrow>
     n + length p \<le> length s \<and> s = take n s @ p @ drop (n + length p) s"
proof (induction s p arbitrary: n rule: index_of.induct)
  case (1 p)
  then show ?case by (simp split: if_splits)
next
  case (2 c s p)
  show ?case
  proof (cases "has_prefix (c # s) p")
    case True
    with 2(2) show ?thesis
      using has_prefix_drop [OF True] has_prefix_length [OF True] by auto
  next
    case False
    with 2(2) obtain m where "index_of s p = Some m" and "n = Suc m" by auto
    with 2(1) [OF False] show ?thesis by auto
  qed
qed

lemma index_of_None: "index_of s p = None \<Longrightarrow> s \<noteq> u @ p @ v"
proof (induction s p arbitrary: u rule: index_of.induct)
  case (1 p)
  then show ?case by (auto split: if_splits)
next
  case (2 c s p)
  then have np: "\<not> has_prefix (c # s) p" and tl: "index_of s p = None"
    by (auto split: if_splits)
  show ?case
  proof
    assume eq: "c # s = u @ p @ v"
    show False
    proof (cases u)
      case Nil
      with eq have "c # s = p @ v" by simp
      then have "has_prefix (c # s) p" by (auto simp: has_prefix_iff)
      with np show False ..
    next
      case (Cons d u')
      with eq have "s = u' @ p @ v" by simp
      with "2.IH" [OF np tl] show False by blast
    qed
  qed
qed

lemma contains_sub_iff: "contains_sub s p \<longleftrightarrow> (\<exists>u v. s = u @ p @ v)"
proof
  assume "contains_sub s p"
  then obtain n where "index_of s p = Some n" by (auto simp: contains_sub_def)
  then show "\<exists>u v. s = u @ p @ v" using index_of_Some by blast
next
  assume "\<exists>u v. s = u @ p @ v"
  then show "contains_sub s p" using index_of_None unfolding contains_sub_def by blast
qed

lemma contains_sub_mid [simp]: "contains_sub (u @ p @ v) p"
  by (auto simp: contains_sub_iff)

lemma contains_sub_self [simp]: "contains_sub p p"
  using contains_sub_mid [of "[]" p "[]"] by simp

lemma contains_sub_left: "contains_sub s p \<Longrightarrow> contains_sub (s @ t) p"
  unfolding contains_sub_iff by (metis append.assoc)

lemma contains_sub_right: "contains_sub t p \<Longrightarrow> contains_sub (s @ t) p"
  unfolding contains_sub_iff by (metis append.assoc)

definition count_sub_step :: "'a list \<Rightarrow> 'a list \<Rightarrow> 'a list option" where
  "count_sub_step s p = map_option (\<lambda>n. drop (n + length p) s) (index_of s p)"

lemma count_sub_step_shorter:
  assumes "count_sub_step s p = Some r" and "p \<noteq> []"
  shows "length r < length s"
proof -
  from assms(1) obtain n where n: "index_of s p = Some n" and r: "r = drop (n + length p) s"
    by (auto simp: count_sub_step_def)
  from index_of_Some [OF n] have "n + length p \<le> length s" by blast
  moreover have "0 < length p" using assms(2) by simp
  ultimately show ?thesis unfolding r length_drop by arith
qed

function count_sub :: "'a list \<Rightarrow> 'a list \<Rightarrow> nat" where
  "count_sub s p =
     (if p = [] then Suc (length s)
      else case count_sub_step s p of None \<Rightarrow> 0 | Some r \<Rightarrow> Suc (count_sub r p))"
  by pat_completeness auto
termination
  by (relation "measure (\<lambda>(s, p). length s)")
     (simp_all add: count_sub_step_shorter)

declare count_sub.simps [simp del]

subsection \<open>Case folding\<close>

definition lower_char :: "char \<Rightarrow> char" where
  "lower_char c = (let n = (of_char c :: nat) in
     if 65 \<le> n \<and> n \<le> 90 then char_of (n + 32) else c)"

definition to_lower :: "gostring \<Rightarrow> gostring" where
  "to_lower s = map lower_char s"

definition upper_char :: "char \<Rightarrow> char" where
  "upper_char c = (let n = (of_char c :: nat) in
     if 97 \<le> n \<and> n \<le> 122 then char_of (n - 32) else c)"

definition to_upper :: "gostring \<Rightarrow> gostring" where
  "to_upper s = map upper_char s"

definition equal_fold :: "gostring \<Rightarrow> gostring \<Rightarrow> bool" where
  "equal_fold s t = (to_lower s = to_lower t)"

lemma lower_char_idem [simp]: "lower_char (lower_char c) = lower_char c"
  by (auto simp: lower_char_def Let_def)

lemma to_lower_idem [simp]: "to_lower (to_lower s) = to_lower s"
  by (simp add: to_lower_def)

lemma to_lower_Nil [simp]: "to_lower [] = []"
  by (simp add: to_lower_def)

lemma to_lower_eq_Nil [simp]: "to_lower s = [] \<longleftrightarrow> s = []"
  by (simp add: to_lower_def)

lemma to_lower_append [simp]: "to_lower (s @ t) = to_lower s @ to_lower t"
  by (simp add: to_lower_def)

lemma length_to_lower [simp]: "length (to_lower s) = length s"
  by (simp add: to_lower_def)

lemma to_lower_Cons: "to_lower (c # s) = lower_char c # to_lower s"
  by (simp add: to_lower_def)

lemma contains_sub_to_lower: "contains_sub s p \<Longrightarrow> contains_sub (to_lower s) (to_lower p)"
  unfolding contains_sub_iff by (metis to_lower_append)

lemma equal_fold_refl [simp]: "equal_fold s s"
  by (simp add: equal_fold_def)

subsection \<open>Trimming\<close>

text \<open>
  \<open>strings.TrimSpace\<close> removes the code points of Unicode's White_Space property: the ASCII ones
  and the UTF-8 encodings of U+0085, U+00A0, U+1680, U+2000 to U+200A, U+2028, U+2029, U+202F,
  U+205F and U+3000.
\<close>

definition bytes :: "nat list \<Rightarrow> gostring" where
  "bytes ns = map char_of ns"

definition space_runes :: "gostring list" where
  "space_runes = map bytes
     ([[9], [10], [11], [12], [13], [32], [194, 133], [194, 160], [225, 154, 128]] @
      map (\<lambda>k. [226, 128, k]) ([128 ..< 139] @ [168, 169, 175]) @
      [[226, 129, 159], [227, 128, 128]])"

lemma find_word_shorter:
  assumes "find (\<lambda>w. w \<noteq> [] \<and> has_prefix s w) ws = Some w"
  shows "length (drop (length w) s) < length s"
proof -
  from assms have "w \<noteq> []" and p: "has_prefix s w" by (auto simp: find_Some_iff)
  moreover have "length w \<le> length s" using has_prefix_length [OF p] .
  moreover have "0 < length w" using \<open>w \<noteq> []\<close> by simp
  ultimately show ?thesis unfolding length_drop by arith
qed

function strip_words :: "'a list list \<Rightarrow> 'a list \<Rightarrow> 'a list" where
  "strip_words ws s =
     (case find (\<lambda>w. w \<noteq> [] \<and> has_prefix s w) ws of
        None \<Rightarrow> s
      | Some w \<Rightarrow> strip_words ws (drop (length w) s))"
  by pat_completeness auto
termination
  by (relation "measure (\<lambda>(ws, s). length s)")
     (simp_all only: in_measure prod.case wf_measure find_word_shorter)

declare strip_words.simps [simp del]

lemma strip_words_None:
  "find (\<lambda>w. w \<noteq> [] \<and> has_prefix s w) ws = None \<Longrightarrow> strip_words ws s = s"
  by (subst strip_words.simps) simp

lemma strip_words_Some:
  "find (\<lambda>w. w \<noteq> [] \<and> has_prefix s w) ws = Some w \<Longrightarrow>
     strip_words ws s = strip_words ws (drop (length w) s)"
  by (subst strip_words.simps) simp

lemma strip_words_suffix: "\<exists>u. s = u @ strip_words ws s"
proof (induction ws s rule: strip_words.induct)
  case (1 ws s)
  show ?case
  proof (cases "find (\<lambda>w. w \<noteq> [] \<and> has_prefix s w) ws")
    case None
    then show ?thesis by (simp add: strip_words_None)
  next
    case (Some w)
    then have p: "has_prefix s w" by (auto simp: find_Some_iff)
    from "1.IH" [OF Some] obtain u where "drop (length w) s = u @ strip_words ws (drop (length w) s)"
      by blast
    with has_prefix_drop [OF p] have "s = (w @ u) @ strip_words ws (drop (length w) s)"
      by (metis append.assoc)
    then show ?thesis unfolding strip_words_Some [OF Some] by blast
  qed
qed

lemma strip_words_stops:
  "w \<in> set ws \<Longrightarrow> w \<noteq> [] \<Longrightarrow> \<not> has_prefix (strip_words ws s) w"
proof (induction ws s rule: strip_words.induct)
  case (1 ws s)
  show ?case
  proof (cases "find (\<lambda>w. w \<noteq> [] \<and> has_prefix s w) ws")
    case None
    with "1.prems" show ?thesis by (auto simp: strip_words_None find_None_iff)
  next
    case (Some v)
    with 1 show ?thesis by (simp add: strip_words_Some)
  qed
qed

lemma strip_words_id:
  "(\<And>w. w \<in> set ws \<Longrightarrow> w \<noteq> [] \<Longrightarrow> \<not> has_prefix s w) \<Longrightarrow> strip_words ws s = s"
  by (rule strip_words_None) (auto simp: find_None_iff)

lemma strip_words_idem [simp]: "strip_words ws (strip_words ws s) = strip_words ws s"
  by (rule strip_words_id) (rule strip_words_stops)

lemma length_strip_words: "length (strip_words ws s) \<le> length s"
  using strip_words_suffix [of s ws] by (metis length_append le_add2)

definition trim_left_space :: "gostring \<Rightarrow> gostring" where
  "trim_left_space s = strip_words space_runes s"

definition trim_right_space :: "gostring \<Rightarrow> gostring" where
  "trim_right_space s = rev (strip_words (map rev space_runes) (rev s))"

definition trim_space :: "gostring \<Rightarrow> gostring" where
  "trim_space s = trim_right_space (trim_left_space s)"

lemma space_runes_nonempty: "w \<in> set space_runes \<Longrightarrow> w \<noteq> []"
  by (auto simp: space_runes_def bytes_def)

lemma trim_right_space_prefix: "\<exists>v. s = trim_right_space s @ v"
proof -
  obtain u where "rev s = u @ strip_words (map rev space_runes) (rev s)"
    using strip_words_suffix by blast
  then have "s = rev (strip_words (map rev space_runes) (rev s)) @ rev u"
    by (metis rev_append rev_rev_ident)
  then show ?thesis unfolding trim_right_space_def by blast
qed

lemma trim_right_space_idem [simp]: "trim_right_space (trim_right_space s) = trim_right_space s"
  by (simp add: trim_right_space_def)

lemma trim_left_of_prefix:
  assumes "trim_left_space s = s" and "s = t @ v"
  shows "trim_left_space t = t"
proof -
  have "\<not> has_prefix t w" if "w \<in> set space_runes" "w \<noteq> []" for w
    using strip_words_stops [OF that, of s] assms
    by (metis has_prefix_mono trim_left_space_def)
  then show ?thesis unfolding trim_left_space_def by (rule strip_words_id)
qed

lemma trim_space_idem [simp]: "trim_space (trim_space s) = trim_space s"
proof -
  let ?l = "trim_left_space s"
  have "trim_left_space ?l = ?l" by (simp add: trim_left_space_def)
  moreover obtain v where "?l = trim_right_space ?l @ v" using trim_right_space_prefix by blast
  ultimately have "trim_left_space (trim_right_space ?l) = trim_right_space ?l"
    by (rule trim_left_of_prefix)
  then show ?thesis by (simp add: trim_space_def)
qed

lemma trim_space_infix: "\<exists>u v. s = u @ trim_space s @ v"
proof -
  obtain u where "s = u @ trim_left_space s"
    using strip_words_suffix unfolding trim_left_space_def by blast
  moreover obtain v where "trim_left_space s = trim_space s @ v"
    using trim_right_space_prefix unfolding trim_space_def by blast
  ultimately show ?thesis by metis
qed

lemma length_trim_space: "length (trim_space s) \<le> length s"
proof -
  obtain u v where "s = u @ trim_space s @ v" using trim_space_infix by blast
  then show ?thesis by (metis le_add1 le_add2 le_trans length_append)
qed

lemma trim_space_Nil [simp]: "trim_space [] = []"
  using length_trim_space [of "[]"] by simp

lemma trimmed_sides:
  assumes "trim_space s = s" shows "trim_left_space s = s" and "trim_right_space s = s"
proof -
  obtain u where u: "s = u @ trim_left_space s"
    using strip_words_suffix unfolding trim_left_space_def by blast
  obtain v where v: "trim_left_space s = trim_space s @ v"
    using trim_right_space_prefix unfolding trim_space_def by blast
  have "length s = length u + length s + length v"
    using arg_cong [OF u, of length] arg_cong [OF v, of length] assms by simp
  then have "u = []" by simp
  with u show l: "trim_left_space s = s" by simp
  with assms show "trim_right_space s = s" by (simp add: trim_space_def)
qed

lemma find_space:
  "find (\<lambda>w. w \<noteq> [] \<and> has_prefix (CHR '' '' # s) w) space_runes = Some '' ''"
  "find (\<lambda>w. w \<noteq> [] \<and> has_prefix (CHR '' '' # s) w) (map rev space_runes) = Some '' ''"
  by (simp_all add: space_runes_def bytes_def char_of_def bit_iff_odd)

lemma trim_space_space [simp]: "trim_space (CHR '' '' # s) = trim_space s"
  by (simp add: trim_space_def trim_left_space_def strip_words_Some [OF find_space(1)])

lemma trim_right_space_space [simp]: "trim_right_space (s @ '' '') = trim_right_space s"
  by (simp add: trim_right_space_def strip_words_Some [OF find_space(2)])

text \<open>A string whose first and last bytes are graphic ASCII characters is its own trim.\<close>

definition graphic :: "char \<Rightarrow> bool" where
  "graphic c \<longleftrightarrow> 32 < (of_char c :: nat) \<and> (of_char c :: nat) < 128"

lemma space_runes_edges:
  assumes "w \<in> set space_runes" shows "\<not> graphic (hd w)" and "\<not> graphic (last w)"
  using assms by (auto simp: space_runes_def bytes_def graphic_def)

lemma strip_words_graphic:
  assumes "\<And>w. w \<in> set ws \<Longrightarrow> \<not> graphic (hd w)" and "graphic (hd s)"
  shows "strip_words ws s = s"
proof (rule strip_words_id)
  fix w assume w: "w \<in> set ws" "w \<noteq> []"
  show "\<not> has_prefix s w"
    using assms(1) [OF w(1)] assms(2) w(2) by (cases w; cases s) auto
qed

lemma trim_space_graphic:
  assumes "graphic (hd s)" and "graphic (last s)" shows "trim_space s = s"
proof (cases "s = []")
  case False
  have l: "trim_left_space s = s"
    unfolding trim_left_space_def using assms(1) space_runes_edges(1) by (rule strip_words_graphic [rotated])
  have "\<not> graphic (hd w)" if "w \<in> set (map rev space_runes)" for w
    using that space_runes_edges(2) by (auto simp: hd_rev)
  moreover have "graphic (hd (rev s))" using assms(2) by (simp add: hd_rev)
  ultimately have "strip_words (map rev space_runes) (rev s) = rev s" by (rule strip_words_graphic)
  with l show ?thesis by (simp add: trim_space_def trim_right_space_def)
qed simp

text \<open>No white-space encoding contains a letter, so trimming commutes with case folding.\<close>

definition letterless :: "gostring \<Rightarrow> bool" where
  "letterless w = list_all (\<lambda>c. to_lower [c] = [c] \<and>
     \<not> (97 \<le> (of_char c :: nat) \<and> (of_char c :: nat) \<le> 122)) w"

lemma lower_char_eq_letterless:
  assumes "letterless [d]" shows "lower_char c = d \<longleftrightarrow> c = d"
proof
  assume e: "lower_char c = d"
  with assms show "c = d"
    by (auto simp: letterless_def lower_char_def Let_def split: if_splits)
next
  assume "c = d"
  with assms show "lower_char c = d" by (simp add: letterless_def to_lower_def)
qed

lemma has_prefix_to_lower:
  "letterless w \<Longrightarrow> has_prefix (to_lower s) w = has_prefix s w"
proof (induction s w rule: has_prefix.induct)
  case (3 c s p ps)
  then have "letterless [p]" and "letterless ps" by (simp_all add: letterless_def)
  with 3 show ?case by (simp add: to_lower_Cons lower_char_eq_letterless)
qed simp_all

lemma to_lower_drop: "to_lower (drop n s) = drop n (to_lower s)"
  by (simp add: to_lower_def drop_map)

lemma to_lower_take: "to_lower (take n s) = take n (to_lower s)"
  by (simp add: to_lower_def take_map)

lemma to_lower_rev: "to_lower (rev s) = rev (to_lower s)"
  by (simp add: to_lower_def rev_map)

lemma strip_words_to_lower:
  "list_all letterless ws \<Longrightarrow> strip_words ws (to_lower s) = to_lower (strip_words ws s)"
proof (induction ws s rule: strip_words.induct)
  case (1 ws s)
  have same: "find (\<lambda>w. w \<noteq> [] \<and> has_prefix (to_lower s) w) ws = find (\<lambda>w. w \<noteq> [] \<and> has_prefix s w) ws"
    using "1.prems" by (intro find_cong) (auto simp: list_all_iff has_prefix_to_lower)
  show ?case
  proof (cases "find (\<lambda>w. w \<noteq> [] \<and> has_prefix s w) ws")
    case None
    with same show ?thesis by (simp add: strip_words_None)
  next
    case (Some w)
    with same 1 show ?thesis by (simp add: strip_words_Some to_lower_drop)
  qed
qed

definition letterless_bytes :: "nat list \<Rightarrow> bool" where
  "letterless_bytes ns = list_all (\<lambda>n. n < 65 \<or> 90 < n \<and> n < 97 \<or> 122 < n \<and> n < 256) ns"

lemma letterless_bytesD: "letterless_bytes ns \<Longrightarrow> letterless (bytes ns)"
  by (induction ns)
     (auto simp: letterless_bytes_def letterless_def bytes_def to_lower_def lower_char_def Let_def)

lemma letterless_rev [simp]: "letterless (rev w) = letterless w"
  by (simp add: letterless_def)

lemma space_runes_letterless: "list_all letterless space_runes" "list_all letterless (map rev space_runes)"
proof -
  show "list_all letterless space_runes"
    unfolding space_runes_def list.pred_map comp_def
    by (simp add: letterless_bytesD letterless_bytes_def)
  then show "list_all letterless (map rev space_runes)"
    by (simp add: list_all_iff)
qed

lemma trim_space_to_lower: "trim_space (to_lower s) = to_lower (trim_space s)"
  by (simp add: trim_space_def trim_left_space_def trim_right_space_def strip_words_to_lower
      space_runes_letterless to_lower_rev [symmetric] del: rev_map)

text \<open>\<open>strings.TrimRight\<close> and \<open>strings.Trim\<close> with a set of ASCII characters.\<close>

definition trim_right_set :: "'a list \<Rightarrow> 'a list \<Rightarrow> 'a list" where
  "trim_right_set cs s = rev (dropWhile (\<lambda>c. c \<in> set cs) (rev s))"

definition trim_set :: "'a list \<Rightarrow> 'a list \<Rightarrow> 'a list" where
  "trim_set cs s = trim_right_set cs (dropWhile (\<lambda>c. c \<in> set cs) s)"

lemma dropWhile_idem: "dropWhile P (dropWhile P s) = dropWhile P s"
  by (induction s) auto

lemma trim_right_set_idem [simp]: "trim_right_set cs (trim_right_set cs s) = trim_right_set cs s"
  by (simp add: trim_right_set_def dropWhile_idem)

lemma trim_right_set_prefix: "\<exists>v. s = trim_right_set cs s @ v \<and> set v \<subseteq> set cs"
proof (intro exI conjI)
  let ?v = "rev (takeWhile (\<lambda>c. c \<in> set cs) (rev s))"
  show "s = trim_right_set cs s @ ?v"
    unfolding trim_right_set_def by (metis rev_append rev_rev_ident takeWhile_dropWhile_id)
  show "set ?v \<subseteq> set cs" by (auto dest: set_takeWhileD)
qed

lemma trim_right_set_last:
  "trim_right_set cs s \<noteq> [] \<Longrightarrow> last (trim_right_set cs s) \<notin> set cs"
  unfolding trim_right_set_def
  by (metis (mono_tags, lifting) hd_dropWhile last_rev rev_is_Nil_conv)

lemma trim_set_hd:
  assumes "trim_set cs s \<noteq> []" shows "hd (trim_set cs s) \<notin> set cs"
proof -
  let ?d = "dropWhile (\<lambda>c. c \<in> set cs) s"
  obtain v where "?d = trim_set cs s @ v"
    using trim_right_set_prefix [of ?d cs] by (auto simp: trim_set_def)
  with assms have "hd ?d = hd (trim_set cs s)" and "?d \<noteq> []" by auto
  then show ?thesis using hd_dropWhile [of "\<lambda>c. c \<in> set cs" s] by simp
qed

lemma trim_set_id: "s = [] \<or> hd s \<notin> set cs \<and> last s \<notin> set cs \<Longrightarrow> trim_set cs s = s"
proof (cases "s = []")
  case True
  then show ?thesis by (simp add: trim_set_def trim_right_set_def)
next
  case False
  assume "s = [] \<or> hd s \<notin> set cs \<and> last s \<notin> set cs"
  with False have "hd s \<notin> set cs" and "hd (rev s) \<notin> set cs"
    by (auto simp: hd_rev)
  moreover have "dropWhile (\<lambda>c. c \<in> set cs) xs = xs" if "hd xs \<notin> set cs" for xs
    using that by (cases xs) auto
  ultimately show ?thesis by (simp add: trim_set_def trim_right_set_def)
qed

lemma trim_set_last: "trim_set cs s \<noteq> [] \<Longrightarrow> last (trim_set cs s) \<notin> set cs"
  unfolding trim_set_def by (rule trim_right_set_last)

lemma trim_set_idem [simp]: "trim_set cs (trim_set cs s) = trim_set cs s"
  by (rule trim_set_id) (use trim_set_hd trim_set_last in blast)

subsection \<open>Splitting, joining and replacing\<close>

fun split_on :: "'a \<Rightarrow> 'a list \<Rightarrow> 'a list list" where
  "split_on c [] = [[]]"
| "split_on c (x # s) =
     (if x = c then [] # split_on c s
      else case split_on c s of [] \<Rightarrow> [[x]] | w # ws \<Rightarrow> (x # w) # ws)"

fun join_with :: "'a list \<Rightarrow> 'a list list \<Rightarrow> 'a list" where
  "join_with sep [] = []"
| "join_with sep [w] = w"
| "join_with sep (w # ws) = w @ sep @ join_with sep ws"

lemma split_on_nonempty [simp]: "split_on c s \<noteq> []"
  by (induction s) (auto split: list.split)

lemma join_with_Cons: "ws \<noteq> [] \<Longrightarrow> join_with sep (w # ws) = w @ sep @ join_with sep ws"
  by (cases ws) auto

lemma join_split: "join_with [c] (split_on c s) = s"
proof (induction s)
  case Nil
  then show ?case by simp
next
  case (Cons x s)
  obtain w ws where "split_on c s = w # ws"
    using split_on_nonempty by (meson neq_Nil_conv)
  with Cons show ?case by (cases ws) (auto simp: join_with_Cons)
qed

lemma split_on_no_sep: "w \<in> set (split_on c s) \<Longrightarrow> c \<notin> set w"
  by (induction s arbitrary: w) (fastforce split: if_splits list.splits)+

lemma split_on_none: "c \<notin> set s \<Longrightarrow> split_on c s = [s]"
  by (induction s) auto

lemma split_on_append: "split_on c (s @ c # t) = split_on c s @ split_on c t"
  by (induction s) (auto split: list.split)

lemma split_on_sep_append:
  "c \<notin> set w \<Longrightarrow> split_on c (w @ c # s) = w # split_on c s"
  by (induction w) auto

lemma split_join:
  "ws \<noteq> [] \<Longrightarrow> (\<And>w. w \<in> set ws \<Longrightarrow> c \<notin> set w) \<Longrightarrow> split_on c (join_with [c] ws) = ws"
proof (induction ws)
  case Nil
  then show ?case by simp
next
  case (Cons w ws)
  then show ?case
    by (cases ws) (auto simp: split_on_none split_on_sep_append)
qed

text \<open>\<open>strings.NewReplacer\<close> over single-byte keys, and \<open>ReplaceAll\<close> of one byte.\<close>

definition replace_chars :: "(char \<times> gostring) list \<Rightarrow> gostring \<Rightarrow> gostring" where
  "replace_chars tab s =
     concat (map (\<lambda>c. case map_of tab c of None \<Rightarrow> [c] | Some r \<Rightarrow> r) s)"

lemma replace_chars_append [simp]:
  "replace_chars tab (s @ t) = replace_chars tab s @ replace_chars tab t"
  by (simp add: replace_chars_def)

lemma replace_chars_Nil [simp]: "replace_chars tab [] = []"
  by (simp add: replace_chars_def)

lemma replace_chars_Cons:
  "replace_chars tab (c # s) = (case map_of tab c of None \<Rightarrow> [c] | Some r \<Rightarrow> r) @ replace_chars tab s"
  by (simp add: replace_chars_def)

subsection \<open>Decimal numbers\<close>

definition digit_char :: "nat \<Rightarrow> char" where
  "digit_char d = char_of (48 + d)"

fun nat_digits :: "nat \<Rightarrow> gostring" where
  "nat_digits n = (if n < 10 then [digit_char n] else nat_digits (n div 10) @ [digit_char (n mod 10)])"

declare nat_digits.simps [simp del]

definition itoa_go :: "int \<Rightarrow> gostring" where
  "itoa_go n = (if n < 0 then CHR ''-'' # nat_digits (nat (- n)) else nat_digits (nat n))"

definition is_digit :: "char \<Rightarrow> bool" where
  "is_digit c = (48 \<le> (of_char c :: nat) \<and> (of_char c :: nat) \<le> 57)"

definition digits_value :: "gostring \<Rightarrow> nat" where
  "digits_value s = foldl (\<lambda>acc c. 10 * acc + ((of_char c :: nat) - 48)) 0 s"

text \<open>\<open>strconv.Atoi\<close>: an optional sign, then decimal digits, in the range of a 64-bit \<open>int\<close>.\<close>

definition atoi_go :: "gostring \<Rightarrow> int option" where
  "atoi_go s =
     (let (neg, ds) = (case s of [] \<Rightarrow> (False, [])
          | c # r \<Rightarrow> if c = CHR ''-'' then (True, r) else if c = CHR ''+'' then (False, r) else (False, s))
      in if ds = [] \<or> \<not> list_all is_digit ds then None
         else let v = int (digits_value ds); n = (if neg then - v else v)
              in if - (2 ^ 63) \<le> n \<and> n < 2 ^ 63 then Some n else None)"

lemma digits_value_snoc:
  "digits_value (s @ [c]) = 10 * digits_value s + ((of_char c :: nat) - 48)"
  by (simp add: digits_value_def)

lemma of_char_digit [simp]: "d < 10 \<Longrightarrow> (of_char (digit_char d) :: nat) = 48 + d"
  by (simp add: digit_char_def)

lemma is_digit_digit [simp]: "d < 10 \<Longrightarrow> is_digit (digit_char d)"
  by (simp add: is_digit_def)

lemma nat_digits_nonempty [simp]: "nat_digits n \<noteq> []"
  by (subst nat_digits.simps) simp

lemma nat_digits_digits: "list_all is_digit (nat_digits n)"
proof (induction n rule: nat_digits.induct)
  case (1 n)
  then show ?case by (subst nat_digits.simps) simp
qed

lemma digits_value_nat_digits [simp]: "digits_value (nat_digits n) = n"
proof (induction n rule: nat_digits.induct)
  case (1 n)
  show ?case
  proof (cases "n < 10")
    case True
    then show ?thesis by (subst nat_digits.simps) (simp add: digits_value_def)
  next
    case False
    with 1 show ?thesis by (subst nat_digits.simps) (simp add: digits_value_snoc)
  qed
qed

lemma hd_nat_digits: "nat_digits n = c # r \<Longrightarrow> c \<noteq> CHR ''-'' \<and> c \<noteq> CHR ''+''"
  using nat_digits_digits [of n] by (auto simp: is_digit_def)

lemma atoi_itoa: "- (2 ^ 63) \<le> n \<Longrightarrow> n < 2 ^ 63 \<Longrightarrow> atoi_go (itoa_go n) = Some n"
proof (cases "n < 0")
  case True
  assume "- (2 ^ 63) \<le> n" and "n < 2 ^ 63"
  with True show ?thesis
    by (simp add: atoi_go_def itoa_go_def Let_def nat_digits_digits)
next
  case False
  assume b: "- (2 ^ 63) \<le> n" "n < 2 ^ 63"
  obtain c r where cr: "nat_digits (nat n) = c # r"
    using nat_digits_nonempty by (meson neq_Nil_conv)
  have "list_all is_digit (c # r)" and "digits_value (c # r) = nat n"
    using nat_digits_digits [of "nat n"] digits_value_nat_digits [of "nat n"] cr by simp_all
  with False b cr hd_nat_digits [OF cr] show ?thesis
    by (simp add: atoi_go_def itoa_go_def Let_def)
qed

subsection \<open>Map iteration\<close>

text \<open>
  \<open>for k := range m\<close> visits the keys of a Go map in an order the language leaves open: the model
  takes it as a function on the list of keys, of which only this is known.
\<close>

definition map_order :: "('a list \<Rightarrow> 'a list) \<Rightarrow> bool" where
  "map_order ord \<longleftrightarrow> (\<forall>xs. set (ord xs) = set xs \<and> (distinct xs \<longrightarrow> distinct (ord xs)))"

lemma map_orderD:
  assumes "map_order ord"
  shows "set (ord xs) = set xs" and "distinct xs \<Longrightarrow> distinct (ord xs)"
  using assms by (auto simp: map_order_def)

lemma map_order_id: "map_order (\<lambda>xs. xs)" and map_order_rev: "map_order rev"
  by (auto simp: map_order_def)

text \<open>Insertion of a key in a Go map used as a set, kept as the list of its keys.\<close>

definition set_add :: "'a \<Rightarrow> 'a list \<Rightarrow> 'a list" where
  "set_add x xs = (if x \<in> set xs then xs else xs @ [x])"

lemma set_set_add [simp]: "set (set_add x xs) = insert x (set xs)"
  by (auto simp: set_add_def)

lemma distinct_set_add [simp]: "distinct (set_add x xs) = distinct xs"
  by (auto simp: set_add_def)

end
