(* ===== verification/Machines.thy ===== *)
theory Machines
  imports GoPrelude
begin

text \<open>
  The interfaces the stateful components share.  A component is a step function from an event and
  a state to a new state and an output; \<open>machine\<close> is the contract "every step on an
  admissible event keeps the invariant", \<open>refined_machine\<close> adds "every step is simulated, with the same output, by a step
  of an abstract machine".  What follows for whole runs is proved once here; the components
  interpret the locales on their own step functions.
\<close>

fun run_steps :: "('e \<Rightarrow> 's \<Rightarrow> 's \<times> 'r) \<Rightarrow> 'e list \<Rightarrow> 's \<Rightarrow> 's \<times> 'r list" where
  "run_steps step [] s = (s, [])"
| "run_steps step (e # es) s =
     (let (s', r) = step e s; (s'', rs) = run_steps step es s' in (s'', r # rs))"

lemma run_steps_Cons_iff [err_iff]:
  "run_steps step (e # es) s = (t, rs) \<longleftrightarrow>
     (\<exists>s' r rs'. step e s = (s', r) \<and> run_steps step es s' = (t, rs') \<and> rs = r # rs')"
  by (cases "step e s"; cases "run_steps step es (fst (step e s))") auto

lemma run_steps_append:
  "run_steps step (es @ fs) s =
     (let (s', rs) = run_steps step es s; (s'', rs') = run_steps step fs s' in (s'', rs @ rs'))"
  by (induction es arbitrary: s) (auto simp: Let_def split: prod.split)

lemma length_run_steps: "run_steps step es s = (t, rs) \<Longrightarrow> length rs = length es"
  by (induction es arbitrary: s rs) (auto simp: run_steps_Cons_iff simp del: run_steps.simps(2))

lemma fst_run_steps: "fst (run_steps step es s) = fold (\<lambda>e s. fst (step e s)) es s"
proof (induction es arbitrary: s)
  case Nil
  then show ?case by simp
next
  case (Cons e es)
  then show ?case
    by (cases "step e s"; cases "run_steps step es (fst (step e s))") (metis Cons.IH fst_conv
        fold_simps(2) run_steps_Cons_iff)
qed

locale machine =
  fixes step :: "'e \<Rightarrow> 's \<Rightarrow> 's \<times> 'r"
    and ok :: "'e \<Rightarrow> bool"
    and inv :: "'s \<Rightarrow> bool"
  assumes step_inv: "inv s \<Longrightarrow> ok e \<Longrightarrow> step e s = (s', r) \<Longrightarrow> inv s'"
begin

lemma run_inv: "inv s \<Longrightarrow> list_all ok es \<Longrightarrow> run_steps step es s = (t, rs) \<Longrightarrow> inv t"
proof (induction es arbitrary: s rs)
  case Nil
  then show ?case by simp
next
  case (Cons e es)
  from Cons.prems(3) obtain s' r rs'
    where "step e s = (s', r)" and "run_steps step es s' = (t, rs')"
    unfolding run_steps_Cons_iff by blast
  moreover from Cons.prems(2) have "ok e" and "list_all ok es" by simp_all
  ultimately show ?case using Cons.IH step_inv [OF Cons.prems(1)] by blast
qed

lemma run_inv_fst: "inv s \<Longrightarrow> list_all ok es \<Longrightarrow> inv (fst (run_steps step es s))"
  using run_inv by (metis prod.collapse)

end

locale refined_machine = machine step ok inv
  for step :: "'e \<Rightarrow> 's \<Rightarrow> 's \<times> 'r" and ok :: "'e \<Rightarrow> bool" and inv :: "'s \<Rightarrow> bool" +
  fixes astep :: "'e \<Rightarrow> 'a \<Rightarrow> 'a \<times> 'r"
    and abs :: "'s \<Rightarrow> 'a"
  assumes step_sim: "inv s \<Longrightarrow> ok e \<Longrightarrow> step e s = (s', r) \<Longrightarrow> astep e (abs s) = (abs s', r)"
begin

lemma run_sim:
  "inv s \<Longrightarrow> list_all ok es \<Longrightarrow> run_steps step es s = (t, rs) \<Longrightarrow>
     run_steps astep es (abs s) = (abs t, rs)"
proof (induction es arbitrary: s rs)
  case Nil
  then show ?case by simp
next
  case (Cons e es)
  from Cons.prems(2) have ok: "ok e" "list_all ok es" by simp_all
  from Cons.prems(3) obtain s' r rs'
    where 1: "step e s = (s', r)" and 2: "run_steps step es s' = (t, rs')" and 3: "rs = r # rs'"
    unfolding run_steps_Cons_iff by blast
  from step_inv [OF Cons.prems(1) ok(1) 1] Cons.IH ok(2) 2
  have "run_steps astep es (abs s') = (abs t, rs')" by blast
  with step_sim [OF Cons.prems(1) ok(1) 1] 3 show ?case by (simp add: run_steps_Cons_iff)
qed

lemma run_refines:
  "inv s \<Longrightarrow> list_all ok es \<Longrightarrow>
     map_prod abs id (run_steps step es s) = run_steps astep es (abs s)"
  using run_sim by (metis id_apply map_prod_simp prod.collapse)

end

text \<open>
  A front end turns some of its inputs into steps of a machine behind it and answers the others by
  itself.  What a run of the front end does behind it is a run of the machine.
\<close>

fun run_front :: "('m \<Rightarrow> 't \<Rightarrow> 't option) \<Rightarrow> 'm list \<Rightarrow> 't \<Rightarrow> 't option" where
  "run_front front [] t = Some t"
| "run_front front (m # ms) t = Option.bind (front m t) (run_front front ms)"

locale front_end =
  fixes step :: "'e \<Rightarrow> 's \<Rightarrow> 's \<times> 'r"
    and front :: "'m \<Rightarrow> 't \<Rightarrow> 't option"
    and core :: "'t \<Rightarrow> 's"
    and asks :: "'m \<Rightarrow> 'e \<Rightarrow> bool"
  assumes front_step: "front m t = Some t' \<Longrightarrow> core t' = core t \<or> (\<exists>e. asks m e \<and> core t' = fst (step e (core t)))"
begin

lemma run_front_steps:
  assumes "run_front front ms t = Some t'"
  shows "\<exists>es rs. run_steps step es (core t) = (core t', rs) \<and> (\<forall>e\<in>set es. \<exists>m\<in>set ms. asks m e)"
  using assms
proof (induction ms arbitrary: t)
  case Nil
  then show ?case by (intro exI [of _ "[]"]) simp
next
  case (Cons m ms)
  then obtain u where u: "front m t = Some u" and run: "run_front front ms u = Some t'"
    by (auto simp: bind_eq_Some_conv)
  from Cons.IH [OF run] obtain es rs where es: "run_steps step es (core u) = (core t', rs)"
      "\<forall>e\<in>set es. \<exists>m\<in>set ms. asks m e" by blast
  from front_step [OF u] show ?case
  proof
    assume "core u = core t"
    with es show ?thesis by auto
  next
    assume "\<exists>e. asks m e \<and> core u = fst (step e (core t))"
    then obtain e r where e: "asks m e" "step e (core t) = (core u, r)" by (metis prod.collapse)
    with es have "run_steps step (e # es) (core t) = (core t', r # rs)" by simp
    with es(2) e(1) show ?thesis by (intro exI [of _ "e # es"] exI [of _ "r # rs"]) auto
  qed
qed

end

end
