(* ===== verification/Breaker.thy ===== *)
theory Breaker
  imports Machines
begin

text \<open>
  \<open>pkg/reliability/circuit_breaker.go\<close>: the circuit breaker that guards the IMAP connection.
  The first part is the breaker as a caller sees it, one \<open>Execute\<close> at a time, and its refinement
  of a three-state abstract breaker; the second is the same code cut at its lock releases and
  atomic operations, as a step relation over any number of goroutines.
  Times and durations are nanoseconds as \<^typ>\<open>int\<close>; the zero \<open>time.Time\<close> is the field value the
  constructor leaves, and is only read when the state is open, after a failure has set it.
\<close>

subsection \<open>Errors\<close>

text \<open>
  The two sentinel errors of the package are compared by identity in the code, so they are
  constructors of their own; every other error is known by its \<open>Error()\<close> text.
\<close>

datatype go_error = ErrCircuitBreakerOpen | ErrTooManyRequests | Err gostring

fun error_text :: "go_error \<Rightarrow> gostring" where
  "error_text ErrCircuitBreakerOpen = ''circuit breaker is open''"
| "error_text ErrTooManyRequests = ''too many requests''"
| "error_text (Err s) = s"

text \<open>\<open>fmt.Errorf("what: %w", err)\<close>, of which only the text is kept.\<close>

definition Errorf :: "gostring \<Rightarrow> go_error \<Rightarrow> go_error" where
  "Errorf what e = Err (what @ '': '' @ error_text e)"

subsection \<open>State\<close>

datatype breaker_state = StateClosed | StateHalfOpen | StateOpen

fun breaker_state_string :: "breaker_state \<Rightarrow> gostring" where
  "breaker_state_string StateClosed = ''closed''"
| "breaker_state_string StateHalfOpen = ''half_open''"
| "breaker_state_string StateOpen = ''open''"

record circuit_breaker =
  maxFailures :: int
  cb_timeout :: int
  failures :: int
  lastFailureTime :: int
  cb_state :: breaker_state
  maxHalfOpenRequests :: int
  halfOpenRequests :: int

definition newCircuitBreaker :: "int \<Rightarrow> int \<Rightarrow> go_error + circuit_breaker" where
  "newCircuitBreaker maxF tmo =
     (if maxF \<le> 0 then Inl (Err ''maxFailures must be greater than 0'')
      else if tmo \<le> 0 then Inl (Err ''timeout must be greater than 0'')
      else Inr \<lparr> maxFailures = maxF, cb_timeout = tmo, failures = 0, lastFailureTime = 0,
                 cb_state = StateClosed, maxHalfOpenRequests = 1, halfOpenRequests = 0 \<rparr>)"

text \<open>A state change is reported to the callback as the pair of the old and the new state.\<close>

type_synonym notices = "(breaker_state \<times> breaker_state) list"

definition open_to_half :: "int \<Rightarrow> circuit_breaker \<Rightarrow> circuit_breaker \<times> notices" where
  "open_to_half now cb =
     (if cb_state cb = StateOpen \<and> now - lastFailureTime cb > cb_timeout cb
      then (cb\<lparr>cb_state := StateHalfOpen, halfOpenRequests := 0\<rparr>, [(StateOpen, StateHalfOpen)])
      else (cb, []))"

definition admit_half_open :: "circuit_breaker \<Rightarrow> (go_error + bool) \<times> circuit_breaker" where
  "admit_half_open cb =
     (let n = halfOpenRequests cb + 1 in
      if n > maxHalfOpenRequests cb then (Inl ErrTooManyRequests, cb)
      else (Inr True, cb\<lparr>halfOpenRequests := n\<rparr>))"

definition checkStateAndIncrement ::
  "int \<Rightarrow> circuit_breaker \<Rightarrow> (go_error + bool) \<times> circuit_breaker \<times> notices" where
  "checkStateAndIncrement now cb =
     (case cb_state cb of
        StateOpen \<Rightarrow>
          (let (cb', ns) = (if now - lastFailureTime cb > cb_timeout cb
                            then open_to_half now cb else (cb, []))
           in if cb_state cb' = StateOpen then (Inl ErrCircuitBreakerOpen, cb', ns)
              else let (r, cb'') = admit_half_open cb' in (r, cb'', ns))
      | StateHalfOpen \<Rightarrow> let (r, cb') = admit_half_open cb in (r, cb', [])
      | StateClosed \<Rightarrow> (Inr False, cb, []))"

definition recordResult ::
  "int \<Rightarrow> go_error option \<Rightarrow> circuit_breaker \<Rightarrow> circuit_breaker \<times> notices" where
  "recordResult now err cb =
     (let old = cb_state cb;
          cb1 = (case err of
                   None \<Rightarrow> cb\<lparr>failures := 0, cb_state := StateClosed\<rparr>
                 | Some e \<Rightarrow>
                     (let c = cb\<lparr>failures := failures cb + 1, lastFailureTime := now\<rparr>
                      in if failures c \<ge> maxFailures c then c\<lparr>cb_state := StateOpen\<rparr> else c));
          cb2 = (if old = StateHalfOpen \<and> cb_state cb1 \<noteq> StateHalfOpen
                 then cb1\<lparr>halfOpenRequests := 0\<rparr> else cb1)
      in (cb2, if old \<noteq> cb_state cb2 then [(old, cb_state cb2)] else []))"

definition cb_reset :: "circuit_breaker \<Rightarrow> circuit_breaker" where
  "cb_reset cb = cb\<lparr>failures := 0, cb_state := StateClosed, halfOpenRequests := 0\<rparr>"

text \<open>
  What the guarded function does, and what \<open>Execute\<close> hands back: the function's own error or
  success, the breaker's rejection, or the function's panic passing through the deferred
  decrement (\<open>recordResult\<close> is not reached then).
\<close>

datatype fn_outcome = FnOk | FnErr go_error | FnPanic

datatype exec_result = Ran "go_error option" | Rejected go_error | Panicked

definition release_slot :: "bool \<Rightarrow> circuit_breaker \<Rightarrow> circuit_breaker" where
  "release_slot sd cb = (if sd then cb\<lparr>halfOpenRequests := halfOpenRequests cb - 1\<rparr> else cb)"

definition cb_execute ::
  "int \<Rightarrow> int \<Rightarrow> fn_outcome \<Rightarrow> circuit_breaker \<Rightarrow> circuit_breaker \<times> exec_result \<times> notices" where
  "cb_execute now done fn cb =
     (case checkStateAndIncrement now cb of
        (Inl e, cb1, ns) \<Rightarrow> (cb1, Rejected e, ns)
      | (Inr sd, cb1, ns) \<Rightarrow>
          (case fn of
             FnPanic \<Rightarrow> (release_slot sd cb1, Panicked, ns)
           | FnOk \<Rightarrow> (let (cb2, ns') = recordResult done None cb1
                      in (release_slot sd cb2, Ran None, ns @ ns'))
           | FnErr e \<Rightarrow> (let (cb2, ns') = recordResult done (Some e) cb1
                         in (release_slot sd cb2, Ran (Some e), ns @ ns'))))"

subsection \<open>One caller at a time\<close>

text \<open>
  An event is a call of \<open>Execute\<close> (when it starts, when the function returns and what it does) or
  a manual \<open>Reset\<close>.  Between calls the half-open counter is 0 while the state is half-open;
  elsewhere it may be left at -1, because \<open>recordResult\<close> has already cleared it when the deferred
  decrement runs: the next transition to half-open stores 0 again before it is read.
\<close>

datatype cb_event = CbExecute int int fn_outcome | CbReset

fun cb_step :: "cb_event \<Rightarrow> circuit_breaker \<Rightarrow> circuit_breaker \<times> (exec_result option \<times> notices)" where
  "cb_step (CbExecute now done fn) cb =
     (let (cb', r, ns) = cb_execute now done fn cb in (cb', Some r, ns))"
| "cb_step CbReset cb = (cb_reset cb, None, [])"

definition cb_inv :: "circuit_breaker \<Rightarrow> bool" where
  "cb_inv cb \<longleftrightarrow>
     0 < maxFailures cb \<and> 0 < cb_timeout cb \<and> maxHalfOpenRequests cb = 1 \<and> 0 \<le> failures cb \<and>
     (cb_state cb = StateClosed \<longrightarrow> failures cb < maxFailures cb) \<and>
     (cb_state cb \<noteq> StateClosed \<longrightarrow> maxFailures cb \<le> failures cb) \<and>
     (cb_state cb = StateHalfOpen \<longrightarrow> halfOpenRequests cb = 0) \<and>
     halfOpenRequests cb \<in> {-1, 0}"

lemmas cb_defs = cb_execute_def checkStateAndIncrement_def open_to_half_def admit_half_open_def
  recordResult_def release_slot_def Let_def

lemma newCircuitBreaker_inv: "newCircuitBreaker m t = Inr cb \<Longrightarrow> cb_inv cb"
  by (auto simp: newCircuitBreaker_def cb_inv_def split: if_splits)

lemma cb_execute_inv: "cb_inv cb \<Longrightarrow> cb_execute now d fn cb = (cb', r, ns) \<Longrightarrow> cb_inv cb'"
  by (cases "cb_state cb"; cases fn)
     (auto simp: cb_defs cb_inv_def split: if_splits)

lemma cb_step_inv: "cb_inv cb \<Longrightarrow> cb_step e cb = (cb', r) \<Longrightarrow> cb_inv cb'"
proof (cases e)
  case (CbExecute now d fn)
  assume "cb_inv cb" and "cb_step e cb = (cb', r)"
  with CbExecute show ?thesis
    by (cases "cb_execute now d fn cb") (auto intro: cb_execute_inv)
next
  case CbReset
  assume "cb_inv cb" and "cb_step e cb = (cb', r)"
  with CbReset show ?thesis by (auto simp: cb_reset_def cb_inv_def)
qed

text \<open>
  The abstract breaker: the count of consecutive failures while closed, the time of the failure
  that opened it, or a pending probe.  It has no request counter at all.
\<close>

datatype abs_breaker = AClosed int | AOpen int | AProbe

fun spec_record :: "int \<Rightarrow> int \<Rightarrow> fn_outcome \<Rightarrow> abs_breaker \<Rightarrow> abs_breaker" where
  "spec_record maxF d FnOk b = AClosed 0"
| "spec_record maxF d (FnErr e) (AClosed n) = (if n + 1 \<ge> maxF then AOpen d else AClosed (n + 1))"
| "spec_record maxF d (FnErr e) b = AOpen d"
| "spec_record maxF d FnPanic b = b"

fun abs_name :: "abs_breaker \<Rightarrow> breaker_state" where
  "abs_name (AClosed n) = StateClosed"
| "abs_name (AOpen t) = StateOpen"
| "abs_name AProbe = StateHalfOpen"

definition change :: "abs_breaker \<Rightarrow> abs_breaker \<Rightarrow> notices" where
  "change a b = (if abs_name a = abs_name b then [] else [(abs_name a, abs_name b)])"

fun outcome_result :: "fn_outcome \<Rightarrow> exec_result" where
  "outcome_result FnOk = Ran None"
| "outcome_result (FnErr e) = Ran (Some e)"
| "outcome_result FnPanic = Panicked"

fun spec_step :: "cb_event \<Rightarrow> int \<times> int \<times> abs_breaker \<Rightarrow>
    (int \<times> int \<times> abs_breaker) \<times> (exec_result option \<times> notices)" where
  "spec_step CbReset (maxF, tmo, b) = ((maxF, tmo, AClosed 0), None, [])"
| "spec_step (CbExecute now d fn) (maxF, tmo, b) =
     (case b of
        AOpen t \<Rightarrow>
          (if now - t > tmo
           then let b' = spec_record maxF d fn AProbe
                in ((maxF, tmo, b'), Some (outcome_result fn), change b AProbe @ change AProbe b')
           else ((maxF, tmo, b), Some (Rejected ErrCircuitBreakerOpen), []))
      | _ \<Rightarrow> let b' = spec_record maxF d fn b
             in ((maxF, tmo, b'), Some (outcome_result fn), change b b'))"

definition cb_abs :: "circuit_breaker \<Rightarrow> int \<times> int \<times> abs_breaker" where
  "cb_abs cb = (maxFailures cb, cb_timeout cb,
     (case cb_state cb of
        StateClosed \<Rightarrow> AClosed (failures cb)
      | StateOpen \<Rightarrow> AOpen (lastFailureTime cb)
      | StateHalfOpen \<Rightarrow> AProbe))"

lemma cb_step_sim: "cb_inv cb \<Longrightarrow> cb_step e cb = (cb', r) \<Longrightarrow> spec_step e (cb_abs cb) = (cb_abs cb', r)"
proof (cases e)
  case CbReset
  assume "cb_step e cb = (cb', r)"
  with CbReset show ?thesis by (auto simp: cb_reset_def cb_abs_def)
next
  case (CbExecute now d fn)
  assume "cb_inv cb" and "cb_step e cb = (cb', r)"
  with CbExecute show ?thesis
    by (cases "cb_state cb"; cases fn)
       (auto simp: cb_defs cb_inv_def cb_abs_def change_def split: if_splits)
qed

interpretation breaker: refined_machine cb_step "\<lambda>_. True" cb_inv spec_step cb_abs
  by unfold_locales (blast intro: cb_step_inv cb_step_sim)+

text \<open>
  C2: over any sequence of \<open>Execute\<close> and \<open>Reset\<close> calls made one at a time, a breaker built by
  \<open>NewCircuitBreaker\<close> gives exactly the results and state-change callbacks of the three-state
  abstract breaker, whatever the guarded function does, panics included.
\<close>

theorem breaker_refines_spec:
  assumes "newCircuitBreaker maxF tmo = Inr cb"
  shows "run_steps spec_step es (maxF, tmo, AClosed 0) =
    map_prod cb_abs id (run_steps cb_step es cb)"
proof -
  from assms have "cb_abs cb = (maxF, tmo, AClosed 0)"
    by (auto simp: newCircuitBreaker_def cb_abs_def split: if_splits)
  then show ?thesis using breaker.run_refines [OF newCircuitBreaker_inv [OF assms]] by (simp add: list_all_iff)
qed

theorem breaker_refines_spec_witness:
  "\<exists>cb. newCircuitBreaker 1 10 = Inr cb \<and>
     snd (run_steps cb_step [CbExecute 0 1 (FnErr (Err ''eof'')), CbExecute 2 3 FnOk, CbExecute 12 13 FnOk] cb) =
       [(Some (Ran (Some (Err ''eof''))), [(StateClosed, StateOpen)]),
        (Some (Rejected ErrCircuitBreakerOpen), []),
        (Some (Ran None), [(StateOpen, StateHalfOpen), (StateHalfOpen, StateClosed)])]"
proof -
  obtain cb where cb: "newCircuitBreaker 1 10 = Inr cb" by (simp add: newCircuitBreaker_def)
  have eq: "snd (run_steps cb_step es cb) = snd (run_steps spec_step es (1, 10, AClosed 0))" for es
    using breaker_refines_spec [OF cb, of es] by simp
  have "snd (run_steps cb_step [CbExecute 0 1 (FnErr (Err ''eof'')), CbExecute 2 3 FnOk, CbExecute 12 13 FnOk] cb) =
       [(Some (Ran (Some (Err ''eof''))), [(StateClosed, StateOpen)]),
        (Some (Rejected ErrCircuitBreakerOpen), []),
        (Some (Ran None), [(StateOpen, StateHalfOpen), (StateHalfOpen, StateClosed)])]"
    unfolding eq by (simp add: change_def)
  with cb show ?thesis by blast
qed

end
