(* ===== verification/BreakerConc.thy ===== *)
theory BreakerConc
  imports Breaker
begin

text \<open>
  The circuit breaker under concurrency: \<open>Execute\<close> cut at every lock release and atomic
  operation, with any number of goroutines, each at one of the program points below.  The
  clock readings of the rules are free, so every schedule of the code is a run of the relation.
\<close>

datatype cb_pc =
    Outside              \<comment> \<open>not in \<open>Execute\<close>, or just returned from it\<close>
  | AtWriteLock          \<comment> \<open>saw an open breaker past its timeout\<close>
  | Notifying            \<comment> \<open>made the transition, running the callback\<close>
  | Admitting            \<comment> \<open>about to add 1 to the half-open counter\<close>
  | OverLimit            \<comment> \<open>added 1 past the limit, about to take it back\<close>
  | Running bool         \<comment> \<open>in the guarded function; the flag is \<open>shouldDecrement\<close>\<close>
  | Releasing bool       \<comment> \<open>result recorded, deferred decrement still to run\<close>

record breaker_sys =
  breaker :: circuit_breaker
  pcs :: "nat \<Rightarrow> cb_pc"

definition goto :: "breaker_sys \<Rightarrow> nat \<Rightarrow> cb_pc \<Rightarrow> circuit_breaker \<Rightarrow> breaker_sys" where
  "goto s i p cb = s\<lparr>breaker := cb, pcs := (pcs s)(i := p)\<rparr>"

definition due :: "int \<Rightarrow> circuit_breaker \<Rightarrow> bool" where
  "due now cb = (now - lastFailureTime cb > cb_timeout cb)"

definition after_lock :: "circuit_breaker \<Rightarrow> cb_pc" where
  "after_lock cb = (if cb_state cb = StateOpen then Outside else Admitting)"

inductive cb_conc :: "breaker_sys \<Rightarrow> breaker_sys \<Rightarrow> bool" where
  enter_closed: "pcs s i = Outside \<Longrightarrow> cb_state (breaker s) = StateClosed \<Longrightarrow>
     cb_conc s (goto s i (Running False) (breaker s))"
| enter_half: "pcs s i = Outside \<Longrightarrow> cb_state (breaker s) = StateHalfOpen \<Longrightarrow>
     cb_conc s (goto s i Admitting (breaker s))"
| enter_open: "pcs s i = Outside \<Longrightarrow> cb_state (breaker s) = StateOpen \<Longrightarrow> due now (breaker s) \<Longrightarrow>
     cb_conc s (goto s i AtWriteLock (breaker s))"
| transition: "pcs s i = AtWriteLock \<Longrightarrow> open_to_half now (breaker s) = (cb, [n]) \<Longrightarrow>
     cb_conc s (goto s i Notifying cb)"
| no_transition: "pcs s i = AtWriteLock \<Longrightarrow> open_to_half now (breaker s) = (cb, []) \<Longrightarrow>
     cb_conc s (goto s i (after_lock cb) cb)"
| notified: "pcs s i = Notifying \<Longrightarrow>
     cb_conc s (goto s i (after_lock (breaker s)) (breaker s))"
| admit: "pcs s i = Admitting \<Longrightarrow> n = halfOpenRequests (breaker s) + 1 \<Longrightarrow>
     cb_conc s (goto s i (if n > maxHalfOpenRequests (breaker s) then OverLimit else Running True)
       ((breaker s)\<lparr>halfOpenRequests := n\<rparr>))"
| back_out: "pcs s i = OverLimit \<Longrightarrow>
     cb_conc s (goto s i Outside (release_slot True (breaker s)))"
| returned: "pcs s i = Running sd \<Longrightarrow>
     cb_conc s (goto s i (Releasing sd) (fst (recordResult now err (breaker s))))"
| panicked: "pcs s i = Running sd \<Longrightarrow>
     cb_conc s (goto s i (Releasing sd) (breaker s))"
| released: "pcs s i = Releasing sd \<Longrightarrow>
     cb_conc s (goto s i Outside (release_slot sd (breaker s)))"
| reset: "cb_conc s (s\<lparr>breaker := cb_reset (breaker s)\<rparr>)"

definition breaker_start :: "circuit_breaker \<Rightarrow> breaker_sys" where
  "breaker_start cb = \<lparr>breaker = cb, pcs = (\<lambda>_. Outside)\<rparr>"

inductive cb_reachable :: "circuit_breaker \<Rightarrow> breaker_sys \<Rightarrow> bool" for cb0 where
  start: "cb_reachable cb0 (breaker_start cb0)"
| more: "cb_reachable cb0 s \<Longrightarrow> cb_conc s t \<Longrightarrow> cb_reachable cb0 t"

text \<open>
  A goroutine holds a slot of the half-open counter from its increment to its decrement.  The
  counter never exceeds the number of holders: increments and decrements are paired with them,
  and the two places that store 0 can only lower it.
\<close>

fun holds_slot :: "cb_pc \<Rightarrow> bool" where
  "holds_slot OverLimit = True"
| "holds_slot (Running sd) = sd"
| "holds_slot (Releasing sd) = sd"
| "holds_slot _ = False"

definition holders :: "breaker_sys \<Rightarrow> nat set" where
  "holders s = {i. holds_slot (pcs s i)}"

definition conc_inv :: "breaker_sys \<Rightarrow> bool" where
  "conc_inv s \<longleftrightarrow>
     finite (holders s) \<and> halfOpenRequests (breaker s) \<le> int (card (holders s)) \<and>
     0 < maxFailures (breaker s) \<and> maxHalfOpenRequests (breaker s) = 1 \<and>
     (cb_state (breaker s) = StateClosed \<longleftrightarrow> failures (breaker s) < maxFailures (breaker s))"

lemma holders_goto:
  "holders (goto s i p cb) = (if holds_slot p then insert i (holders s) else holders s - {i})"
  by (auto simp: holders_def goto_def)

lemma breaker_goto [simp]: "breaker (goto s i p cb) = cb"
  by (simp add: goto_def)

lemma holders_reset [simp]: "holders (s\<lparr>breaker := cb\<rparr>) = holders s"
  by (simp add: holders_def)

lemma in_holders: "i \<in> holders s \<longleftrightarrow> holds_slot (pcs s i)"
  by (simp add: holders_def)

lemma recordResult_counter:
  "halfOpenRequests (fst (recordResult now err cb)) \<in> {0, halfOpenRequests cb}"
  by (auto simp: recordResult_def Let_def split: option.split)

lemma recordResult_fields:
  "maxFailures (fst (recordResult now err cb)) = maxFailures cb"
  "maxHalfOpenRequests (fst (recordResult now err cb)) = maxHalfOpenRequests cb"
  by (auto simp: recordResult_def Let_def split: option.split)

lemma recordResult_closed:
  assumes "0 < maxFailures cb" and "cb_state cb = StateClosed \<longleftrightarrow> failures cb < maxFailures cb"
  shows "cb_state (fst (recordResult now err cb)) = StateClosed \<longleftrightarrow>
     failures (fst (recordResult now err cb)) < maxFailures cb"
  using assms by (cases err) (auto simp: recordResult_def Let_def)

lemma open_to_half_cases:
  assumes "open_to_half now cb = (cb', ns)"
  shows "cb' = cb \<and> ns = [] \<or>
    cb_state cb = StateOpen \<and> cb' = cb\<lparr>cb_state := StateHalfOpen, halfOpenRequests := 0\<rparr>"
  using assms by (auto simp: open_to_half_def split: if_splits)

lemma holders_frame: "holds_slot p = holds_slot (pcs s i) \<Longrightarrow> holders (goto s i p cb) = holders s"
  by (auto simp: holders_def goto_def)

lemma holders_leave:
  assumes "holds_slot (pcs s i)" and "\<not> holds_slot p" and "finite (holders s)"
  shows "finite (holders (goto s i p cb))"
    and "int (card (holders (goto s i p cb))) = int (card (holders s)) - 1"
proof -
  have "i \<in> holders s" using assms(1) by (simp add: in_holders)
  then have "card (holders s) = Suc (card (holders s - {i}))"
    by (rule card.remove [OF assms(3)])
  then show "finite (holders (goto s i p cb))"
    and "int (card (holders (goto s i p cb))) = int (card (holders s)) - 1"
    using assms by (simp_all add: holders_goto)
qed

lemma conc_inv_frame:
  "conc_inv s \<Longrightarrow> holds_slot p = holds_slot (pcs s i) \<Longrightarrow> conc_inv (goto s i p (breaker s))"
  by (simp add: conc_inv_def holders_frame)

lemma cb_conc_inv: "cb_conc s t \<Longrightarrow> conc_inv s \<Longrightarrow> conc_inv t"
proof (induction rule: cb_conc.induct)
  case (transition s i now cb n)
  then have "holders (goto s i Notifying cb) = holders s" by (simp add: holders_frame)
  with transition show ?case
    using open_to_half_cases [OF transition.hyps(2)] by (auto simp: conc_inv_def)
next
  case (no_transition s i now cb)
  from no_transition.hyps(2) have "cb = breaker s" by (auto simp: open_to_half_def split: if_splits)
  with no_transition show ?case by (simp add: conc_inv_frame after_lock_def)
next
  case (admit s i n)
  then have "i \<notin> holders s" by (simp add: in_holders)
  with admit show ?case by (simp add: conc_inv_def holders_goto)
next
  case (back_out s i)
  then have "finite (holders s)" by (simp add: conc_inv_def)
  with back_out holders_leave [of s i Outside] show ?case
    by (simp add: conc_inv_def release_slot_def)
next
  case (returned s i sd now err)
  then have "holders (goto s i (Releasing sd) cb) = holders s" for cb by (simp add: holders_frame)
  with returned show ?case
    using recordResult_counter [of now err "breaker s"] recordResult_closed [of "breaker s" now err]
    by (auto simp: conc_inv_def recordResult_fields)
next
  case (released s i sd)
  then have "finite (holders s)" by (simp add: conc_inv_def)
  with released holders_leave [of s i Outside] show ?case
    by (cases sd) (simp_all add: conc_inv_def release_slot_def holders_frame)
next
  case (reset s)
  then show ?case by (simp add: conc_inv_def cb_reset_def)
qed (simp_all add: conc_inv_frame after_lock_def)

lemma cb_reachable_inv:
  assumes "newCircuitBreaker maxF tmo = Inr cb" and "cb_reachable cb s"
  shows "conc_inv s"
  using assms(2)
proof (induction rule: cb_reachable.induct)
  case start
  then show ?case
    using assms(1)
    by (auto simp: conc_inv_def breaker_start_def holders_def newCircuitBreaker_def split: if_splits)
next
  case (more s t)
  then show ?case by (blast intro: cb_conc_inv)
qed


subsection \<open>A schedule with two probes\<close>

text \<open>
  The run below: a call (0) enters while the breaker is closed and is slow; a second (1) fails and
  opens it; after the timeout a third (2) becomes the half-open probe; now the slow call fails,
  which re-opens the breaker and clears the counter although the probe is still running; after
  another timeout a fourth (3) becomes a second probe.
\<close>

definition two_probe_breaker :: circuit_breaker where
  "two_probe_breaker = \<lparr>maxFailures = 1, cb_timeout = 10, failures = 0, lastFailureTime = 0,
     cb_state = StateClosed, maxHalfOpenRequests = 1, halfOpenRequests = 0\<rparr>"

definition opened_at :: "int \<Rightarrow> int \<Rightarrow> circuit_breaker" where
  "opened_at n t = two_probe_breaker\<lparr>failures := n, lastFailureTime := t, cb_state := StateOpen\<rparr>"

definition probing :: "int \<Rightarrow> int \<Rightarrow> circuit_breaker" where
  "probing n t = (opened_at n t)\<lparr>cb_state := StateHalfOpen, halfOpenRequests := 1\<rparr>"

lemmas two_probe_defs = opened_at_def probing_def two_probe_breaker_def due_def goto_def
  recordResult_def Let_def open_to_half_def after_lock_def

lemma fail_opens:
  assumes "pcs s i = Running sd" and "breaker s = b" and "cb_state b \<noteq> StateOpen"
    and "failures b = n" and "fst (recordResult t (Some e) b) = opened_at (n + 1) t"
  shows "cb_conc s (goto s i (Releasing sd) (opened_at (n + 1) t))"
  using cb_conc.returned [OF assms(1), of t "Some e"] assms(2,5) by simp

lemma become_probe:
  assumes "pcs s i = Outside" and "breaker s = opened_at n t" and "cb_reachable cb0 s"
  shows "cb_reachable cb0 (goto s i (Running True) (probing n t))"
proof -
  let ?half = "(probing n t)\<lparr>halfOpenRequests := 0\<rparr>"
  let ?s1 = "goto s i AtWriteLock (opened_at n t)"
  let ?s2 = "goto ?s1 i Notifying ?half"
  let ?s3 = "goto ?s2 i Admitting ?half"
  have c1: "cb_conc s ?s1"
    using cb_conc.enter_open [OF assms(1), of "t + 11"] assms(2) by (simp add: two_probe_defs)
  have c2: "cb_conc ?s1 ?s2"
    by (rule cb_conc.transition [where now = "t + 11" and n = "(StateOpen, StateHalfOpen)"])
       (simp_all add: two_probe_defs)
  have c3: "cb_conc ?s2 ?s3"
    using cb_conc.notified [of ?s2 i] by (simp add: two_probe_defs)
  have c4: "cb_conc ?s3 (goto s i (Running True) (probing n t))"
    using cb_conc.admit [of ?s3 i 1] by (simp add: two_probe_defs)
  note more = cb_reachable.more
  show ?thesis by (rule more [OF more [OF more [OF more [OF assms(3) c1] c2] c3] c4])
qed

text \<open>
  The limit on half-open requests is not kept under concurrency: from a fresh breaker that
  allows one probe, a state is reachable in which two goroutines run the guarded function as
  probes at once, while the counter of probes in flight reads 1.
\<close>

theorem two_probes_reachable:
  "\<exists>s. newCircuitBreaker 1 10 = Inr two_probe_breaker \<and> cb_reachable two_probe_breaker s \<and>
     cb_state (breaker s) = StateHalfOpen \<and> maxHalfOpenRequests (breaker s) = 1 \<and>
     halfOpenRequests (breaker s) = 1 \<and> pcs s 2 = Running True \<and> pcs s 3 = Running True"
proof -
  let ?s0 = "breaker_start two_probe_breaker"
  let ?s1 = "goto ?s0 0 (Running False) two_probe_breaker"
  let ?s2 = "goto ?s1 1 (Running False) two_probe_breaker"
  let ?s3 = "goto ?s2 1 (Releasing False) (opened_at 1 5)"
  let ?s4 = "goto ?s3 2 (Running True) (probing 1 5)"
  let ?s5 = "goto ?s4 0 (Releasing False) (opened_at 2 20)"
  let ?s6 = "goto ?s5 3 (Running True) (probing 2 20)"
  have 0: "cb_reachable two_probe_breaker ?s0" by (rule cb_reachable.start)
  have c1: "cb_conc ?s0 ?s1"
    using cb_conc.enter_closed [of ?s0 0] by (simp add: breaker_start_def two_probe_defs)
  have c2: "cb_conc ?s1 ?s2"
    using cb_conc.enter_closed [of ?s1 1] by (simp add: breaker_start_def two_probe_defs)
  have c3: "cb_conc ?s2 ?s3"
    using fail_opens [of ?s2 1 False two_probe_breaker 0 5 "Err ''eof''"]
    by (simp add: two_probe_defs)
  note more = cb_reachable.more
  have "cb_reachable two_probe_breaker ?s3" by (rule more [OF more [OF more [OF 0 c1] c2] c3])
  then have 4: "cb_reachable two_probe_breaker ?s4"
    by (intro become_probe) (simp_all add: breaker_start_def goto_def)
  have "cb_conc ?s4 ?s5"
    using fail_opens [of ?s4 0 False "probing 1 5" 1 20 "Err ''eof''"]
    by (simp add: two_probe_defs)
  with 4 have "cb_reachable two_probe_breaker ?s5" by (rule cb_reachable.more)
  then have "cb_reachable two_probe_breaker ?s6"
    by (intro become_probe) (simp_all add: breaker_start_def goto_def)
  moreover have "newCircuitBreaker 1 10 = Inr two_probe_breaker"
    by (simp add: newCircuitBreaker_def two_probe_breaker_def)
  ultimately show ?thesis
    by (intro exI [of _ ?s6]) (simp add: goto_def probing_def opened_at_def two_probe_breaker_def)
qed


end
