(* ===== verification/Retry.thy ===== *)
theory Retry
  imports Complex_Main "HOL-Library.Word" Breaker
begin

text \<open>
  \<open>pkg/reliability/retry.go\<close>: error categories, the backoff delay and the retry loop.
  A \<open>float64\<close> is NaN, an infinity or a rational; rounding and \<open>math.Log\<close>/\<open>math.Exp\<close>, whose
  results the language leaves to the platform, are a parameter (\<open>fpu\<close>) of the definitions that
  use them.  Durations are nanoseconds.
\<close>

unbundle bit_operations_syntax

subsection \<open>Error categories\<close>

datatype error_category =
  ErrorTemporary | ErrorPermanent | ErrorAuthentication | ErrorNetwork | ErrorTimeout

definition contains_fold :: "gostring \<Rightarrow> gostring \<Rightarrow> bool" where
  "contains_fold s p = contains_sub (to_lower s) (to_lower p)"

definition auth_patterns :: "gostring list" where
  "auth_patterns = [''authentication failed'', ''login failed'', ''invalid credentials'',
     ''bad credentials'', ''access denied'', ''unauthorized'', ''authentication error'',
     ''authenticationfailed'']"

definition network_patterns :: "gostring list" where
  "network_patterns = [''connection refused'', ''connection reset'', ''network unreachable'',
     ''host unreachable'', ''no such host'', ''broken pipe'', ''connection lost'']"

definition timeout_patterns :: "gostring list" where
  "timeout_patterns = [''timeout'', ''i/o timeout'', ''deadline exceeded'']"

definition permanent_patterns :: "gostring list" where
  "permanent_patterns = [''no mailbox'', ''mailbox does not exist'', ''permission denied'',
     ''quota exceeded'', ''invalid mailbox'']"

definition matches_any :: "gostring \<Rightarrow> gostring list \<Rightarrow> bool" where
  "matches_any s ps = list_ex (contains_fold s) ps"

definition CategorizeError :: "go_error option \<Rightarrow> error_category" where
  "CategorizeError err = (case err of None \<Rightarrow> ErrorTemporary
     | Some e \<Rightarrow>
        (let s = to_lower (error_text e) in
         if matches_any s auth_patterns then ErrorAuthentication
         else if matches_any s network_patterns then ErrorNetwork
         else if matches_any s timeout_patterns then ErrorTimeout
         else if matches_any s permanent_patterns then ErrorPermanent
         else ErrorTemporary))"

definition ShouldRetry :: "go_error option \<Rightarrow> bool" where
  "ShouldRetry err =
     (if err = Some ErrCircuitBreakerOpen \<or> err = Some ErrTooManyRequests then True
      else case CategorizeError err of
             ErrorTemporary \<Rightarrow> True | ErrorNetwork \<Rightarrow> True | ErrorTimeout \<Rightarrow> True
           | ErrorAuthentication \<Rightarrow> False | ErrorPermanent \<Rightarrow> False)"

definition retryable_patterns :: "gostring list" where
  "retryable_patterns = [''connection refused'', ''connection reset'', ''connection timeout'',
     ''timeout'', ''operation timed out'', ''temporary failure'', ''network unreachable'',
     ''host unreachable'', ''no such host'', ''i/o timeout'', ''broken pipe'',
     ''use of closed network connection'', ''connection lost'', ''server misbehaving'',
     ''cannot read tag'', ''unexpected eof'']"

definition imap_retryable_patterns :: "gostring list" where
  "imap_retryable_patterns = [''* bye'', ''no unavailable'', ''bad serverbug'',
     ''no contactadmin'', ''bad [clientbug]'', ''server temporarily unavailable'',
     ''temporary failure in name resolution'', ''mailbox unavailable'', ''idle already'',
     ''already running'', ''idle command already'']"

definition matchesIMAPPattern :: "gostring \<Rightarrow> gostring \<Rightarrow> bool" where
  "matchesIMAPPattern errStr pat =
     (let e = to_lower errStr; p = to_lower pat in
      if has_prefix p ''* '' then has_prefix e p \<or> contains_sub e (CHR 0x0A # p)
      else if has_prefix p ''no '' \<or> has_prefix p ''bad '' then
        contains_sub e p \<and>
        (has_prefix e p \<or> contains_sub e (CHR '' '' # p) \<or> contains_sub e (CHR 0x0A # p))
      else contains_sub e p)"

definition IsRetryableError :: "go_error option \<Rightarrow> bool" where
  "IsRetryableError err = (case err of None \<Rightarrow> False
     | Some e \<Rightarrow> matches_any (error_text e) retryable_patterns \<or>
                 list_ex (matchesIMAPPattern (error_text e)) imap_retryable_patterns)"

lemma contains_fold_lower [simp]: "contains_fold (to_lower s) p = contains_fold s p"
  by (simp add: contains_fold_def)

lemma matches_any_lower [simp]: "matches_any (to_lower s) ps = matches_any s ps"
  by (simp add: matches_any_def list_ex_iff)

text \<open>
  The retry decision: breaker rejections are always retried; otherwise an authentication phrase
  always stops the retries, and a permanent-failure phrase stops them unless a network or timeout
  phrase is there too.
\<close>

lemma ShouldRetry_spec:
  "ShouldRetry (Some (Err s)) \<longleftrightarrow>
     \<not> matches_any s auth_patterns \<and>
     (matches_any s network_patterns \<or> matches_any s timeout_patterns \<or>
      \<not> matches_any s permanent_patterns)"
  by (simp add: ShouldRetry_def CategorizeError_def Let_def)

lemma ShouldRetry_breaker [simp]:
  "ShouldRetry (Some ErrCircuitBreakerOpen)" "ShouldRetry (Some ErrTooManyRequests)"
  by (simp_all add: ShouldRetry_def)

subsection \<open>Floating point\<close>

datatype gofloat = NaN | PInf | NInf | Fin rat

record fpu =
  fround :: "rat \<Rightarrow> gofloat"
  flog :: "gofloat \<Rightarrow> gofloat"
  fexp :: "gofloat \<Rightarrow> gofloat"

fun fsgn :: "gofloat \<Rightarrow> rat" where
  "fsgn (Fin x) = sgn x"
| "fsgn PInf = 1"
| "fsgn NInf = -1"
| "fsgn NaN = 0"

definition finf :: "rat \<Rightarrow> gofloat" where
  "finf g = (if g = 0 then NaN else if g > 0 then PInf else NInf)"

definition fmul :: "fpu \<Rightarrow> gofloat \<Rightarrow> gofloat \<Rightarrow> gofloat" where
  "fmul u a b = (if a = NaN \<or> b = NaN then NaN
     else case (a, b) of (Fin x, Fin y) \<Rightarrow> fround u (x * y) | _ \<Rightarrow> finf (fsgn a * fsgn b))"

definition fdiv :: "fpu \<Rightarrow> gofloat \<Rightarrow> gofloat \<Rightarrow> gofloat" where
  "fdiv u a b = (if a = NaN \<or> b = NaN then NaN
     else case (a, b) of
       (Fin x, Fin y) \<Rightarrow> if y = 0 then finf (sgn x) else fround u (x / y)
     | (Fin x, _) \<Rightarrow> Fin 0
     | (_, Fin y) \<Rightarrow> if y = 0 then a else finf (fsgn a * sgn y)
     | _ \<Rightarrow> NaN)"

definition fadd :: "fpu \<Rightarrow> gofloat \<Rightarrow> gofloat \<Rightarrow> gofloat" where
  "fadd u a b = (if a = NaN \<or> b = NaN then NaN
     else case (a, b) of
       (Fin x, Fin y) \<Rightarrow> fround u (x + y)
     | (Fin x, _) \<Rightarrow> b
     | (_, Fin y) \<Rightarrow> a
     | _ \<Rightarrow> if a = b then a else NaN)"

text \<open>The comparison \<open>a > b\<close>, false as soon as a NaN takes part.\<close>

fun fgt :: "gofloat \<Rightarrow> gofloat \<Rightarrow> bool" where
  "fgt (Fin x) (Fin y) = (x > y)"
| "fgt PInf (Fin y) = True"
| "fgt PInf NInf = True"
| "fgt (Fin x) NInf = True"
| "fgt _ _ = False"

definition fle :: "gofloat \<Rightarrow> gofloat \<Rightarrow> bool" where
  "fle a b = (a \<noteq> NaN \<and> b \<noteq> NaN \<and> \<not> fgt a b)"

definition fof_int :: "fpu \<Rightarrow> int \<Rightarrow> gofloat" where
  "fof_int u n = fround u (of_int n)"

definition bad_float :: "gofloat \<Rightarrow> bool" where
  "bad_float a = (a = NaN \<or> a = PInf \<or> a = NInf)"

text \<open>
  \<open>time.Duration(delay)\<close>: truncation towards zero; out of the range of \<open>int64\<close> the language
  leaves the value open, and the model takes the smallest \<open>int64\<close>, as amd64 does.
\<close>

fun to_int64 :: "gofloat \<Rightarrow> int" where
  "to_int64 (Fin x) =
     (let n = (if x < 0 then - \<lfloor>- x\<rfloor> else \<lfloor>x\<rfloor>)
      in if - (2 ^ 63) \<le> n \<and> n < 2 ^ 63 then n else - (2 ^ 63))"
| "to_int64 _ = - (2 ^ 63)"

subsection \<open>The random number of the jitter\<close>

definition bytes_word :: "8 word list \<Rightarrow> 64 word" where
  "bytes_word bs = foldl (\<lambda>u b. push_bit 8 u OR ucast b) 0 bs"

definition secureRandFloat64 :: "8 word list option \<Rightarrow> gofloat \<Rightarrow> gofloat" where
  "secureRandFloat64 rd fallback = (case rd of
       None \<Rightarrow> fallback
     | Some bs \<Rightarrow> Fin (of_nat (unat (drop_bit 11 (bytes_word bs))) / 2 ^ 53))"

lemma drop_bit_11_bound: "unat (drop_bit 11 (w :: 64 word)) < 2 ^ 53"
proof -
  have "unat w < 2 ^ 64" using unsigned_less [of w] by simp
  then have "unat w div 2 ^ 11 < 2 ^ 53" by (simp add: less_mult_imp_div_less)
  then show ?thesis unfolding unat_drop_bit_eq by (simp add: drop_bit_eq_div)
qed

text \<open>
  The jitter factor drawn from eight random bytes lies in [0, 1).
\<close>

theorem secureRand_unit:
  "\<exists>x. secureRandFloat64 (Some bs) fb = Fin x \<and> 0 \<le> x \<and> x < 1"
proof -
  have unit: "0 \<le> (of_nat n / 2 ^ 53 :: rat) \<and> (of_nat n / 2 ^ 53 :: rat) < 1" if "n < 2 ^ 53" for n
  proof -
    have "(of_nat n :: rat) < of_nat (2 ^ 53)" unfolding of_nat_less_iff using that .
    then show ?thesis by (simp add: divide_less_eq)
  qed
  show ?thesis
    unfolding secureRandFloat64_def option.case
    using unit [OF drop_bit_11_bound [of "bytes_word bs"]] by blast
qed

subsection \<open>The backoff delay\<close>

record retry_config =
  MaxAttempts :: int
  InitialDelay :: int
  MaxDelay :: int
  BackoffFactor :: gofloat
  Jitter :: bool

definition ms :: int where "ms = 1000000"
definition second :: int where "second = 1000 * ms"
definition minute :: int where "minute = 60 * second"

definition DefaultRetryConfig :: retry_config where
  "DefaultRetryConfig = \<lparr>MaxAttempts = 3, InitialDelay = 100 * ms, MaxDelay = 30 * second,
     BackoffFactor = Fin 2, Jitter = True\<rparr>"

definition NetworkRetryConfig :: retry_config where
  "NetworkRetryConfig = \<lparr>MaxAttempts = 5, InitialDelay = 250 * ms, MaxDelay = 60 * second,
     BackoffFactor = Fin 2, Jitter = True\<rparr>"

definition IDLEStartupRetryConfig :: retry_config where
  "IDLEStartupRetryConfig = \<lparr>MaxAttempts = 3, InitialDelay = 500 * ms, MaxDelay = 5 * second,
     BackoffFactor = Fin 2, Jitter = True\<rparr>"

definition cap_delay :: "fpu \<Rightarrow> retry_config \<Rightarrow> gofloat \<Rightarrow> gofloat" where
  "cap_delay u c d = (if fgt d (fof_int u (MaxDelay c)) then fof_int u (MaxDelay c) else d)"

definition calculateDelay :: "fpu \<Rightarrow> retry_config \<Rightarrow> int \<Rightarrow> gofloat \<Rightarrow> int" where
  "calculateDelay u c attempt rand =
     (let mx = fof_int u (MaxDelay c);
          e = fmul u (fof_int u attempt) (flog u (BackoffFactor c));
          maxE = flog u (fdiv u mx (fof_int u (InitialDelay c)));
          delay = (if bad_float e \<or> fgt e maxE then mx
                   else let m = fexp u e in
                     if bad_float m then mx
                     else cap_delay u c (fmul u (fof_int u (InitialDelay c)) m));
          delay2 = (if Jitter c
                    then cap_delay u c (fadd u delay (fmul u rand (fmul u delay (Fin (1 / 4)))))
                    else delay);
          delay3 = (if bad_float delay2 \<or> fgt (Fin 0) delay2 then mx else delay2)
      in to_int64 delay3)"

text \<open>What is used of IEEE arithmetic: integers up to \<open>2^53\<close> are represented exactly.\<close>

definition exact_ints :: "fpu \<Rightarrow> bool" where
  "exact_ints u \<longleftrightarrow> (\<forall>n. \<bar>n\<bar> \<le> 2 ^ 53 \<longrightarrow> fround u (of_int n) = Fin (of_int n))"

lemma to_int64_bounds:
  assumes "0 \<le> x" and "x \<le> of_int m" and "m < 2 ^ 63"
  shows "0 \<le> to_int64 (Fin x) \<and> to_int64 (Fin x) \<le> m"
proof -
  have "0 \<le> \<lfloor>x\<rfloor>" and "\<lfloor>x\<rfloor> \<le> m"
    using assms by (simp_all add: floor_le_iff le_floor_iff)
  moreover have "\<lfloor>x\<rfloor> < 2 ^ 63" using \<open>\<lfloor>x\<rfloor> \<le> m\<close> assms(3) by linarith
  ultimately show ?thesis using assms(1)
    by (simp add: Let_def del: floor_less_iff floor_less_numeral zero_le_floor)
qed

lemma sanitized_delay:
  assumes "mx = Fin (of_int m)" and "0 \<le> m" and "\<not> fgt d mx"
    and "d' = (if bad_float d \<or> fgt (Fin 0) d then mx else d)"
  shows "\<exists>x. d' = Fin x \<and> 0 \<le> x \<and> x \<le> of_int m"
  using assms by (cases d) (auto simp: bad_float_def)

lemma cap_delay_le:
  assumes "fof_int u (MaxDelay c) = Fin m" shows "\<not> fgt (cap_delay u c d) (Fin m)"
  using assms by (auto simp: cap_delay_def)

lemma calculateDelay_bounds_lemma:
  assumes "exact_ints u" and "0 \<le> MaxDelay c" and "MaxDelay c \<le> 2 ^ 53"
  shows "0 \<le> calculateDelay u c attempt rand \<and> calculateDelay u c attempt rand \<le> MaxDelay c"
proof -
  have mx: "fof_int u (MaxDelay c) = Fin (of_int (MaxDelay c))"
    using assms by (simp add: exact_ints_def fof_int_def)
  note capped = cap_delay_le [OF mx]
  have le: "\<not> fgt (Fin (of_int (MaxDelay c))) (Fin (of_int (MaxDelay c)))" by simp
  have fin: "to_int64 (if bad_float d \<or> fgt (Fin 0) d then Fin (of_int (MaxDelay c)) else d)
      \<in> {0..MaxDelay c}" if "\<not> fgt d (Fin (of_int (MaxDelay c)))" for d
    using sanitized_delay [OF refl assms(2) that refl] to_int64_bounds [of _ "MaxDelay c"] assms(3)
    by fastforce
  show ?thesis
    unfolding calculateDelay_def Let_def mx
    using fin capped le by (auto split: if_split)
qed

text \<open>
  The backoff delay never leaves [0, MaxDelay], whatever the platform's logarithm,
  exponential and rounding do (overflow, infinities and NaN included), whatever the attempt
  number, the backoff factor and the random draw are, with or without jitter; of the arithmetic
  only the exactness of integers up to \<open>2^53\<close> is used.
\<close>

theorem calculateDelay_bounds:
  assumes "exact_ints u" and "0 \<le> MaxDelay c" and "MaxDelay c \<le> 2 ^ 53"
  shows "0 \<le> calculateDelay u c attempt rand \<and> calculateDelay u c attempt rand \<le> MaxDelay c"
  by (rule calculateDelay_bounds_lemma [OF assms])

text \<open>
  A platform to evaluate on: exact arithmetic, logarithm and exponential to base 2 on powers of
  two (the logarithm truncated in between).
\<close>

definition base2_fpu :: fpu where
  "base2_fpu = \<lparr>fround = Fin,
     flog = (\<lambda>x. case x of Fin q \<Rightarrow> if q < 1 then NInf
               else Fin (of_nat (length (takeWhile (\<lambda>k. 2 ^ Suc k \<le> q) [0 ..< 64]))) | _ \<Rightarrow> x),
     fexp = (\<lambda>x. case x of Fin q \<Rightarrow> Fin (2 ^ nat \<lfloor>q\<rfloor>) | _ \<Rightarrow> x)\<rparr>"

lemma base2_exact: "exact_ints base2_fpu"
  by (simp add: exact_ints_def base2_fpu_def)

theorem calculateDelay_bounds_witness:
  "exact_ints base2_fpu \<and>
   0 \<le> calculateDelay base2_fpu NetworkRetryConfig 70 (Fin (1 / 2)) \<and>
   calculateDelay base2_fpu NetworkRetryConfig 70 (Fin (1 / 2)) \<le> 60 * second"
  using calculateDelay_bounds [OF base2_exact, of NetworkRetryConfig 70 "Fin (1 / 2)"] base2_exact
  by (simp add: NetworkRetryConfig_def second_def ms_def)

lemma calculateDelay_doubles:
  "map (\<lambda>k. calculateDelay base2_fpu (NetworkRetryConfig\<lparr>Jitter := False\<rparr>) k NaN) [0, 1, 2, 3] =
     [250 * ms, 500 * ms, 1000 * ms, 2000 * ms]"
  by code_simp

subsection \<open>The retry loop\<close>

definition normalize_config :: "retry_config \<Rightarrow> retry_config" where
  "normalize_config c0 =
     (let c1 = (if MaxAttempts c0 \<le> 0 then c0\<lparr>MaxAttempts := 1\<rparr> else c0);
          c2 = (if InitialDelay c1 \<le> 0 then c1\<lparr>InitialDelay := 100 * ms\<rparr> else c1);
          c3 = (if MaxDelay c2 \<le> 0 then c2\<lparr>MaxDelay := 30 * second\<rparr> else c2);
          c4 = (if fle (BackoffFactor c3) (Fin 1) then c3\<lparr>BackoffFactor := Fin 2\<rparr> else c3)
      in if MaxDelay c4 < InitialDelay c4 then c4\<lparr>MaxDelay := InitialDelay c4\<rparr> else c4)"

definition breaker_wait :: int where
  "breaker_wait = 2 * minute + 30 * second"

definition retry_wait :: "go_error \<Rightarrow> int \<Rightarrow> int" where
  "retry_wait err delay =
     (if (err = ErrCircuitBreakerOpen \<or> err = ErrTooManyRequests) \<and> delay < breaker_wait
      then breaker_wait else delay)"

text \<open>
  The loop's environment by attempt number: what \<open>fn\<close> returns, what \<open>ctx.Err()\<close> reads after a
  failed attempt, and whether the wait ended by the timer (\<open>None\<close>) or by the context's
  cancellation (its error).  The outcome holds the returned error, the waits started, and the
  number of calls of \<open>fn\<close>.
\<close>

record retry_env =
  fn_at :: "nat \<Rightarrow> go_error option"
  ctx_at :: "nat \<Rightarrow> go_error option"
  wait_at :: "nat \<Rightarrow> go_error option"

record retry_outcome =
  returned_err :: "go_error option"
  waits :: "int list"
  calls :: nat

definition add_wait :: "int \<Rightarrow> retry_outcome \<Rightarrow> retry_outcome" where
  "add_wait w r = r\<lparr>waits := w # waits r\<rparr>"

fun retry_loop :: "(nat \<Rightarrow> int) \<Rightarrow> retry_env \<Rightarrow> nat \<Rightarrow> nat \<Rightarrow> go_error option \<Rightarrow> retry_outcome" where
  "retry_loop delay env 0 attempt lastErr = \<lparr>returned_err = lastErr, waits = [], calls = attempt\<rparr>"
| "retry_loop delay env (Suc left) attempt lastErr =
     (let stop = (\<lambda>e. \<lparr>returned_err = e, waits = [], calls = Suc attempt\<rparr>) in
      case fn_at env attempt of
        None \<Rightarrow> stop None
      | Some err \<Rightarrow>
          if left = 0 then stop (Some err)
          else if \<not> ShouldRetry (Some err) then stop (Some err)
          else case ctx_at env attempt of
                 Some e \<Rightarrow> stop (Some e)
               | None \<Rightarrow>
                   let w = retry_wait err (delay attempt) in
                   add_wait w (case wait_at env attempt of
                     Some e \<Rightarrow> stop (Some e)
                   | None \<Rightarrow> retry_loop delay env left (Suc attempt) (Some err)))"

definition RetryWithBackoff ::
  "fpu \<Rightarrow> (nat \<Rightarrow> gofloat) \<Rightarrow> retry_config \<Rightarrow> retry_env \<Rightarrow> retry_outcome" where
  "RetryWithBackoff u rand c0 env =
     (let c = normalize_config c0
      in retry_loop (\<lambda>k. calculateDelay u c (int k) (rand k)) env (nat (MaxAttempts c)) 0 None)"

lemma normalize_config_ok:
  "0 < MaxAttempts (normalize_config c)" "0 < InitialDelay (normalize_config c)"
  "InitialDelay (normalize_config c) \<le> MaxDelay (normalize_config c)"
  by (auto simp: normalize_config_def Let_def ms_def second_def)

lemma normalize_config_MaxDelay:
  "MaxDelay (normalize_config c) = (let i = (if InitialDelay c \<le> 0 then 100 * ms else InitialDelay c);
     m = (if MaxDelay c \<le> 0 then 30 * second else MaxDelay c) in max i m)"
  by (auto simp: normalize_config_def Let_def max_def)

text \<open>What lets the loop go on past attempt \<open>k\<close>.\<close>

definition goes_on :: "retry_env \<Rightarrow> nat \<Rightarrow> bool" where
  "goes_on env k \<longleftrightarrow> (\<exists>e. fn_at env k = Some e \<and> ShouldRetry (Some e)) \<and>
     ctx_at env k = None \<and> wait_at env k = None"

lemma retry_loop_calls:
  "0 < left \<Longrightarrow> attempt < calls (retry_loop delay env left attempt le) \<and>
     calls (retry_loop delay env left attempt le) \<le> attempt + left"
proof (induction left arbitrary: attempt le)
  case 0
  then show ?case by simp
next
  case (Suc left)
  show ?case
    using Suc.IH [of "Suc attempt"]
    by (cases left) (auto simp: Let_def add_wait_def split: option.split)
qed

lemma retry_loop_success:
  "0 < left \<Longrightarrow> returned_err (retry_loop delay env left attempt le) = None \<longleftrightarrow>
     (\<exists>k. attempt \<le> k \<and> k < attempt + left \<and> fn_at env k = None \<and>
        (\<forall>j. attempt \<le> j \<and> j < k \<longrightarrow> goes_on env j))"
proof (induction left arbitrary: attempt le)
  case 0
  then show ?case by simp
next
  case (Suc left)
  let ?P = "\<lambda>a n. \<exists>k. a \<le> k \<and> k < a + n \<and> fn_at env k = None \<and> (\<forall>j. a \<le> j \<and> j < k \<longrightarrow> goes_on env j)"
  have split: "?P attempt (Suc left) \<longleftrightarrow>
      fn_at env attempt = None \<or> goes_on env attempt \<and> ?P (Suc attempt) left"
  proof
    assume "?P attempt (Suc left)"
    then obtain k where k: "attempt \<le> k" "k < attempt + Suc left" "fn_at env k = None"
      and before: "\<forall>j. attempt \<le> j \<and> j < k \<longrightarrow> goes_on env j" by blast
    show "fn_at env attempt = None \<or> goes_on env attempt \<and> ?P (Suc attempt) left"
    proof (cases "k = attempt")
      case True
      with k show ?thesis by simp
    next
      case False
      with k before show ?thesis by (auto intro!: exI [of _ k])
    qed
  next
    assume "fn_at env attempt = None \<or> goes_on env attempt \<and> ?P (Suc attempt) left"
    then show "?P attempt (Suc left)"
    proof
      assume "fn_at env attempt = None"
      then show ?thesis by (intro exI [of _ attempt]) auto
    next
      assume "goes_on env attempt \<and> ?P (Suc attempt) left"
      then obtain k where "goes_on env attempt" "Suc attempt \<le> k" "k < Suc attempt + left"
        "fn_at env k = None" "\<forall>j. Suc attempt \<le> j \<and> j < k \<longrightarrow> goes_on env j" by blast
      then show ?thesis
        by (intro exI [of _ k]) (metis Suc_leI add_Suc_shift le_neq_implies_less less_imp_le Suc_le_lessD)
    qed
  qed
  have "?P (Suc attempt) 0 \<longleftrightarrow> False" by auto
  with Suc.IH [of "Suc attempt"] split show ?case
    by (cases left) (auto simp: Let_def add_wait_def goes_on_def split: option.split)
qed

lemma retry_loop_waits:
  assumes "\<And>k. lo \<le> delay k \<and> delay k \<le> hi" and "hi \<le> hi'" and "breaker_wait \<le> hi'"
  shows "\<forall>w \<in> set (waits (retry_loop delay env left attempt le)). lo \<le> w \<and> w \<le> hi'"
proof (induction left arbitrary: attempt le)
  case 0
  then show ?case by simp
next
  case (Suc left)
  have "lo \<le> retry_wait e (delay k) \<and> retry_wait e (delay k) \<le> hi'" for e k
    using assms(1) [of k] assms(2,3) by (auto simp: retry_wait_def)
  with Suc.IH show ?case
    by (auto simp: Let_def add_wait_def split: option.split)
qed

text \<open>
  C5: \<open>RetryWithBackoff\<close> returns success exactly when some attempt within the (normalised) limit
  succeeds and every earlier one failed with a retryable error, uncancelled; it always calls the
  function, and never more often than the limit.
\<close>

theorem RetryWithBackoff_spec:
  "(returned_err (RetryWithBackoff u rand c env) = None \<longleftrightarrow>
      (\<exists>k. int k < max 1 (MaxAttempts c) \<and> fn_at env k = None \<and> list_all (goes_on env) [0 ..< k])) \<and>
   0 < calls (RetryWithBackoff u rand c env) \<and>
   int (calls (RetryWithBackoff u rand c env)) \<le> max 1 (MaxAttempts c)"
proof -
  let ?d = "\<lambda>k. calculateDelay u (normalize_config c) (int k) (rand k)"
  define n where "n = nat (MaxAttempts (normalize_config c))"
  have n: "0 < n" and m: "max 1 (MaxAttempts c) = int n"
    using normalize_config_ok(1) [of c] by (auto simp: n_def normalize_config_def Let_def)
  have "returned_err (retry_loop ?d env n 0 None) = None \<longleftrightarrow>
      (\<exists>k. k < n \<and> fn_at env k = None \<and> list_all (goes_on env) [0 ..< k])"
    unfolding retry_loop_success [OF n] by (auto simp: list_all_iff)
  moreover have "0 < calls (retry_loop ?d env n 0 None)"
    and "calls (retry_loop ?d env n 0 None) \<le> n"
    using retry_loop_calls [OF n, of 0 ?d env None] by auto
  ultimately show ?thesis
    unfolding m RetryWithBackoff_def Let_def n_def [symmetric] by simp
qed

text \<open>
  Every wait between two attempts lies between 0 and the larger of the effective maximum delay
  and the two and a half minutes given to an open breaker.
\<close>

theorem RetryWithBackoff_waits:
  assumes "exact_ints u" and "MaxDelay (normalize_config c) \<le> 2 ^ 53"
  shows "\<forall>w \<in> set (waits (RetryWithBackoff u rand c env)).
    0 \<le> w \<and> w \<le> max (MaxDelay (normalize_config c)) breaker_wait"
  unfolding RetryWithBackoff_def Let_def
proof (rule retry_loop_waits)
  have "0 \<le> MaxDelay (normalize_config c)" using normalize_config_ok [of c] by linarith
  then show "0 \<le> calculateDelay u (normalize_config c) (int k) (rand k) \<and>
      calculateDelay u (normalize_config c) (int k) (rand k) \<le> MaxDelay (normalize_config c)" for k
    using calculateDelay_bounds_lemma assms by blast
qed simp_all

theorem RetryWithBackoff_waits_witness:
  "waits (RetryWithBackoff base2_fpu (\<lambda>_. Fin 0) DefaultRetryConfig
      \<lparr>fn_at = (\<lambda>k. [Some ErrCircuitBreakerOpen, None] ! k),
       ctx_at = (\<lambda>_. None), wait_at = (\<lambda>_. None)\<rparr>) = [150 * second] \<and>
   0 \<le> 150 * second \<and> 150 * second \<le> max (MaxDelay (normalize_config DefaultRetryConfig)) breaker_wait"
  (is "waits (RetryWithBackoff _ ?rand _ ?env) = _ \<and> _")
proof -
  have w: "waits (RetryWithBackoff base2_fpu ?rand DefaultRetryConfig ?env) = [150 * second]"
    by code_simp
  have "MaxDelay (normalize_config DefaultRetryConfig) \<le> 2 ^ 53" by code_simp
  from RetryWithBackoff_waits [OF base2_exact this, of ?rand ?env] show ?thesis
    unfolding w by simp
qed

end
