(* ===== verification/Coordinator.thy ===== *)
theory Coordinator
  imports Machines
begin

text \<open>
  \<open>pkg/coordinator/state_coordinator.go\<close>: the component that folds the events of the INBOX
  connection, the Sent connection and the circuit breaker into the one bridge state shown to the
  user.  One clock reading per event stands for the handler's calls of \<open>time.Now\<close>; a
  \<open>time.Time\<close> that was never set is \<open>None\<close>.  The bridge's own queue is outside the repository:
  what is handed to it is the output of the step.
\<close>

subsection \<open>Events and states\<close>

text \<open>\<open>EventType\<close> is a Go string type and any string can arrive through \<open>ReportSimpleEvent\<close>.\<close>

definition EventConnectionStarted :: gostring where "EventConnectionStarted = ''connection_started''"
definition EventConnectionEstablished :: gostring where "EventConnectionEstablished = ''connection_established''"
definition EventConnectionLost :: gostring where "EventConnectionLost = ''connection_lost''"
definition EventConnectionClosed :: gostring where "EventConnectionClosed = ''connection_closed''"
definition EventIdleStarted :: gostring where "EventIdleStarted = ''idle_started''"
definition EventIdleFailed :: gostring where "EventIdleFailed = ''idle_failed''"
definition EventIdleRecovered :: gostring where "EventIdleRecovered = ''idle_recovered''"
definition EventCircuitOpened :: gostring where "EventCircuitOpened = ''circuit_opened''"
definition EventCircuitClosed :: gostring where "EventCircuitClosed = ''circuit_closed''"
definition EventCircuitHalfOpen :: gostring where "EventCircuitHalfOpen = ''circuit_half_open''"

lemmas event_names = EventConnectionStarted_def EventConnectionEstablished_def
  EventConnectionLost_def EventConnectionClosed_def EventIdleStarted_def EventIdleFailed_def
  EventIdleRecovered_def EventCircuitOpened_def EventCircuitClosed_def EventCircuitHalfOpen_def

definition EmailConnectionFailed :: gostring where "EmailConnectionFailed = ''E-EMAIL-002''"
definition EmailIdleFailed :: gostring where "EmailIdleFailed = ''E-EMAIL-003''"
definition EmailCircuitOpen :: gostring where "EmailCircuitOpen = ''E-EMAIL-007''"

text \<open>The four values of the bridge library's \<open>status.BridgeStateEvent\<close> the code uses.\<close>

datatype bridge_state_event =
  StateStarting | StateBridgeUnreachable | StateTransientDisconnect | StateConnected

datatype 'm info_value = InfoBool bool | InfoString gostring | InfoInt int | InfoTime int | InfoMeta 'm

record 'm connection_event =
  ev_component :: gostring
  ev_event :: gostring
  ev_connected :: bool
  ev_error :: gostring
  ev_metadata :: "(gostring \<rightharpoonup> 'm) option"
  ev_timestamp :: int

record connection_state =
  connected :: bool
  idleRunning :: bool
  lastEvent :: gostring
  lastError :: gostring
  lastUpdate :: "int option"
  failureCount :: int

record state_coordinator =
  login_set :: bool
  inbox :: connection_state
  sent :: connection_state
  circuitState :: gostring
  currentState :: bridge_state_event
  currentError :: gostring
  lastSent :: "int option"
  throttleDuration :: int

record 'm bridge_state =
  bs_event :: bridge_state_event
  bs_error :: gostring
  bs_info :: "gostring \<rightharpoonup> 'm info_value"

definition zero_connection :: connection_state where
  "zero_connection = \<lparr>connected = False, idleRunning = False, lastEvent = [], lastError = [],
     lastUpdate = None, failureCount = 0\<rparr>"

definition NewStateCoordinator :: "bool \<Rightarrow> state_coordinator" where
  "NewStateCoordinator has_login = \<lparr>login_set = has_login, inbox = zero_connection,
     sent = zero_connection, circuitState = ''closed'', currentState = StateStarting,
     currentError = [], lastSent = None, throttleDuration = 30 * 1000000000\<rparr>"

subsection \<open>The operations\<close>

definition update_connection :: "int \<Rightarrow> 'm connection_event \<Rightarrow> connection_state \<Rightarrow> connection_state" where
  "update_connection now ev cs0 =
     (let cs = cs0\<lparr>lastEvent := ev_event ev, lastUpdate := Some now, lastError := ev_error ev\<rparr>;
          e = ev_event ev in
      if e = EventConnectionStarted then cs
      else if e = EventConnectionEstablished then cs\<lparr>connected := True, failureCount := 0\<rparr>
      else if e = EventConnectionLost \<or> e = EventConnectionClosed
        then cs\<lparr>connected := False, failureCount := failureCount cs + 1\<rparr>
      else if e = EventIdleStarted then cs\<lparr>idleRunning := True\<rparr>
      else if e = EventIdleFailed then cs\<lparr>idleRunning := False, failureCount := failureCount cs + 1\<rparr>
      else if e = EventIdleRecovered then cs\<lparr>idleRunning := True, failureCount := 0\<rparr>
      else cs)"

definition updateComponentState ::
  "int \<Rightarrow> 'm connection_event \<Rightarrow> state_coordinator \<Rightarrow> state_coordinator" where
  "updateComponentState now ev sc =
     (let c = ev_component ev; e = ev_event ev in
      if c = ''inbox'' then sc\<lparr>inbox := update_connection now ev (inbox sc)\<rparr>
      else if c = ''sent'' then sc\<lparr>sent := update_connection now ev (sent sc)\<rparr>
      else if c = ''circuit_breaker'' then
        (if e = EventCircuitOpened then sc\<lparr>circuitState := ''open''\<rparr>
         else if e = EventCircuitClosed then sc\<lparr>circuitState := ''closed''\<rparr>
         else if e = EventCircuitHalfOpen then sc\<lparr>circuitState := ''half_open''\<rparr>
         else sc)
      else sc)"

definition computeBridgeState :: "state_coordinator \<Rightarrow> bridge_state_event \<times> gostring" where
  "computeBridgeState sc =
     (if circuitState sc = ''open'' then (StateBridgeUnreachable, EmailCircuitOpen)
      else if \<not> connected (inbox sc) then
        (if lastError (inbox sc) \<noteq> [] then (StateBridgeUnreachable, lastError (inbox sc))
         else (StateBridgeUnreachable, EmailConnectionFailed))
      else if connected (inbox sc) \<and> \<not> idleRunning (inbox sc) then
        (if lastError (inbox sc) \<noteq> [] then (StateTransientDisconnect, lastError (inbox sc))
         else (StateTransientDisconnect, EmailIdleFailed))
      else if connected (inbox sc) \<and> idleRunning (inbox sc) then (StateConnected, [])
      else (StateStarting, []))"

text \<open>\<open>time.Since\<close> of a time never set is longer than any throttle period.\<close>

definition since_exceeds :: "int \<Rightarrow> int option \<Rightarrow> int \<Rightarrow> bool" where
  "since_exceeds now t d = (case t of None \<Rightarrow> True | Some t0 \<Rightarrow> now - t0 > d)"

definition shouldSendState :: "int \<Rightarrow> bridge_state_event \<Rightarrow> gostring \<Rightarrow> state_coordinator \<Rightarrow> bool" where
  "shouldSendState now newState newError sc =
     (if newState \<noteq> currentState sc \<or> newError \<noteq> currentError sc then True
      else if since_exceeds now (lastSent sc) (throttleDuration sc) then True else False)"

definition state_info ::
  "int \<Rightarrow> (gostring \<rightharpoonup> 'm) option \<Rightarrow> state_coordinator \<Rightarrow> (gostring \<rightharpoonup> 'm info_value)" where
  "state_info now md sc =
     (let base = (case md of None \<Rightarrow> Map.empty | Some m \<Rightarrow> (\<lambda>k. map_option InfoMeta (m k)));
          i1 = base(''inbox_connected'' \<mapsto> InfoBool (connected (inbox sc)),
                    ''inbox_idle_running'' \<mapsto> InfoBool (idleRunning (inbox sc)),
                    ''sent_connected'' \<mapsto> InfoBool (connected (sent sc)),
                    ''sent_idle_running'' \<mapsto> InfoBool (idleRunning (sent sc)),
                    ''circuit_breaker_state'' \<mapsto> InfoString (circuitState sc),
                    ''coordinator_update'' \<mapsto> InfoTime now);
          i2 = (if failureCount (inbox sc) > 0
                then i1(''inbox_failure_count'' \<mapsto> InfoInt (failureCount (inbox sc))) else i1)
      in if failureCount (sent sc) > 0
         then i2(''sent_failure_count'' \<mapsto> InfoInt (failureCount (sent sc))) else i2)"

definition sendBridgeState ::
  "int \<Rightarrow> bridge_state_event \<Rightarrow> gostring \<Rightarrow> (gostring \<rightharpoonup> 'm) option \<Rightarrow> state_coordinator \<Rightarrow>
     state_coordinator \<times> 'm bridge_state option" where
  "sendBridgeState now newState newError md sc =
     (if \<not> login_set sc then (sc, None)
      else (sc\<lparr>currentState := newState, currentError := newError, lastSent := Some now\<rparr>,
            Some \<lparr>bs_event = newState, bs_error = newError, bs_info = state_info now md sc\<rparr>))"

definition ReportEvent ::
  "int \<Rightarrow> 'm connection_event \<Rightarrow> state_coordinator \<Rightarrow> state_coordinator \<times> 'm bridge_state option" where
  "ReportEvent now ev sc =
     (let sc1 = updateComponentState now ev sc;
          (newState, newError) = computeBridgeState sc1
      in if shouldSendState now newState newError sc1
         then sendBridgeState now newState newError (ev_metadata ev) sc1
         else (sc1, None))"

definition ReportSimpleEvent ::
  "int \<Rightarrow> gostring \<Rightarrow> gostring \<Rightarrow> bool \<Rightarrow> gostring \<Rightarrow> (gostring \<rightharpoonup> 'm) option \<Rightarrow>
     state_coordinator \<Rightarrow> state_coordinator \<times> 'm bridge_state option" where
  "ReportSimpleEvent now component event conn err md sc =
     ReportEvent now \<lparr>ev_component = component, ev_event = event, ev_connected = conn,
       ev_error = err, ev_metadata = md, ev_timestamp = now\<rparr> sc"

subsection \<open>What the user is shown\<close>

text \<open>The coordinator as a machine over timed events, its output what it hands to the bridge.\<close>

fun coord_step :: "int \<times> 'm connection_event \<Rightarrow> state_coordinator \<Rightarrow>
    state_coordinator \<times> 'm bridge_state option" where
  "coord_step (now, ev) sc = ReportEvent now ev sc"

definition shown_state :: "state_coordinator \<Rightarrow> bridge_state_event \<times> gostring" where
  "shown_state sc = (currentState sc, currentError sc)"

lemma computeBridgeState_frame:
  "computeBridgeState (sc\<lparr>currentState := a, currentError := b, lastSent := c\<rparr>) = computeBridgeState sc"
  by (simp add: computeBridgeState_def)

lemma updateComponentState_frame:
  "login_set (updateComponentState now ev sc) = login_set sc"
  "currentState (updateComponentState now ev sc) = currentState sc"
  "currentError (updateComponentState now ev sc) = currentError sc"
  "lastSent (updateComponentState now ev sc) = lastSent sc"
  "throttleDuration (updateComponentState now ev sc) = throttleDuration sc"
  by (auto simp: updateComponentState_def Let_def)

lemma ReportEvent_shows_computed:
  assumes "login_set sc" and "ReportEvent now ev sc = (sc', out)"
  shows "shown_state sc' = computeBridgeState sc' \<and> login_set sc' \<and>
    computeBridgeState sc' = computeBridgeState (updateComponentState now ev sc)"
  using assms
  by (auto simp: ReportEvent_def sendBridgeState_def shouldSendState_def shown_state_def Let_def
      computeBridgeState_frame updateComponentState_frame split: prod.splits if_splits)

text \<open>
  A step keeps this invariant: unless it has just been created, the state last handed to the
  bridge is the one computed from the components.
\<close>

definition coord_inv :: "state_coordinator \<Rightarrow> bool" where
  "coord_inv sc \<longleftrightarrow> login_set sc \<and>
     (shown_state sc = computeBridgeState sc \<or> sc = NewStateCoordinator True)"

text \<open>
  The abstract coordinator keeps four facts: the breaker's state and, of the INBOX, whether it is
  connected, whether IDLE runs, and the last error code.  Its output is the state to show.
\<close>

record view =
  v_circuit :: gostring
  v_connected :: bool
  v_idle :: bool
  v_error :: gostring

definition view_of :: "state_coordinator \<Rightarrow> view" where
  "view_of sc = \<lparr>v_circuit = circuitState sc, v_connected = connected (inbox sc),
     v_idle = idleRunning (inbox sc), v_error = lastError (inbox sc)\<rparr>"

definition view_state :: "view \<Rightarrow> bridge_state_event \<times> gostring" where
  "view_state v =
     (let err = (\<lambda>d. if v_error v = [] then d else v_error v) in
      if v_circuit v = ''open'' then (StateBridgeUnreachable, EmailCircuitOpen)
      else if \<not> v_connected v then (StateBridgeUnreachable, err EmailConnectionFailed)
      else if \<not> v_idle v then (StateTransientDisconnect, err EmailIdleFailed)
      else (StateConnected, []))"

definition view_step :: "int \<times> 'm connection_event \<Rightarrow> view \<Rightarrow> view \<times> (bridge_state_event \<times> gostring)" where
  "view_step te v =
     (let ev = snd te; e = ev_event ev;
          v' = (if ev_component ev = ''inbox'' then
                  v\<lparr>v_error := ev_error ev,
                    v_connected := (if e = EventConnectionEstablished then True
                       else if e \<in> {EventConnectionLost, EventConnectionClosed} then False
                       else v_connected v),
                    v_idle := (if e \<in> {EventIdleStarted, EventIdleRecovered} then True
                       else if e = EventIdleFailed then False else v_idle v)\<rparr>
                else if ev_component ev = ''circuit_breaker'' then
                  v\<lparr>v_circuit := (if e = EventCircuitOpened then ''open''
                       else if e = EventCircuitClosed then ''closed''
                       else if e = EventCircuitHalfOpen then ''half_open'' else v_circuit v)\<rparr>
                else v)
      in (v', view_state v'))"

definition shown_step :: "int \<times> 'm connection_event \<Rightarrow> state_coordinator \<Rightarrow>
    state_coordinator \<times> (bridge_state_event \<times> gostring)" where
  "shown_step te sc = (let sc' = fst (coord_step te sc) in (sc', shown_state sc'))"

lemma computeBridgeState_view: "computeBridgeState sc = view_state (view_of sc)"
  by (simp add: computeBridgeState_def view_state_def view_of_def Let_def)

lemma view_of_update:
  "view_of (updateComponentState now ev sc) = fst (view_step (now, ev) (view_of sc))"
  by (simp add: updateComponentState_def update_connection_def view_of_def view_step_def Let_def
      event_names)

lemma view_of_ReportEvent:
  "view_of (fst (ReportEvent now ev sc)) = view_of (updateComponentState now ev sc)"
  by (auto simp: ReportEvent_def sendBridgeState_def view_of_def Let_def split: prod.splits)

lemma view_step_output: "view_step te v = (w, r) \<Longrightarrow> r = view_state w"
  by (auto simp: view_step_def Let_def)

lemma shown_step_inv: "coord_inv sc \<Longrightarrow> shown_step te sc = (sc', r) \<Longrightarrow> coord_inv sc'"
  by (cases te; cases "ReportEvent (fst te) (snd te) sc")
     (auto simp: shown_step_def coord_inv_def Let_def dest: ReportEvent_shows_computed)

lemma shown_step_sim:
  assumes "coord_inv sc" and "shown_step te sc = (sc', r)"
  shows "view_step te (view_of sc) = (view_of sc', r)"
proof -
  obtain now ev where te: "te = (now, ev)" by (cases te)
  obtain out where rep: "ReportEvent now ev sc = (sc', out)" and r: "r = shown_state sc'"
    using assms(2) te by (cases "ReportEvent now ev sc") (auto simp: shown_step_def Let_def)
  have "view_of sc' = fst (view_step te (view_of sc))"
    using view_of_ReportEvent [of now ev sc] view_of_update [of now ev sc] rep te by simp
  moreover have "r = view_state (view_of sc')"
    using ReportEvent_shows_computed [OF _ rep] assms(1) r
    by (simp add: coord_inv_def computeBridgeState_view)
  ultimately show ?thesis
    using view_step_output [of te "view_of sc"] by (metis prod.collapse)
qed

interpretation coord: refined_machine shown_step "\<lambda>_. True" coord_inv view_step view_of
  by unfold_locales (blast intro: shown_step_inv shown_step_sim)+


lemma view_step_sent: "ev_component (snd te) = ''sent'' \<Longrightarrow> fst (view_step te v) = v"
  by (simp add: view_step_def Let_def)

lemma view_fold_no_sent:
  "fold (\<lambda>te v. fst (view_step te v)) es v =
     fold (\<lambda>te v. fst (view_step te v)) (filter (\<lambda>te. ev_component (snd te) \<noteq> ''sent'') es) v"
  by (induction es arbitrary: v) (auto simp: view_step_sent)

text \<open>
  Events of the Sent connection cannot change what the user is shown: dropping them from any
  history leaves the final state and error code the same.
\<close>

theorem sent_events_invisible:
  fixes es :: "(int \<times> 'm connection_event) list"
  shows
  "computeBridgeState (fst (run_steps shown_step es (NewStateCoordinator True))) =
   computeBridgeState (fst (run_steps shown_step
     (filter (\<lambda>te. ev_component (snd te) \<noteq> ''sent'') es) (NewStateCoordinator True)))"
proof -
  have inv: "coord_inv (NewStateCoordinator True)"
    by (simp add: coord_inv_def NewStateCoordinator_def)
  have "view_of (fst (run_steps shown_step fs (NewStateCoordinator True))) =
      fold (\<lambda>te v. fst (view_step te v)) fs (view_of (NewStateCoordinator True))"
    for fs :: "(int \<times> 'm connection_event) list"
    using coord.run_refines [OF inv, of fs] fst_run_steps [of view_step fs]
    by (metis (mono_tags, lifting) fst_map_prod list_all_iff)
  then show ?thesis
    unfolding computeBridgeState_view by (metis view_fold_no_sent)
qed

text \<open>
  A state goes to the bridge only when it differs from the last one sent or the throttle
  period has passed since then, and what is sent is the computed state with the connection
  facts in its info map.
\<close>

theorem ReportEvent_sends:
  assumes "ReportEvent now ev sc = (sc', Some b)"
  shows "(bs_event b, bs_error b) = computeBridgeState (updateComponentState now ev sc) \<and>
    ((bs_event b, bs_error b) \<noteq> shown_state sc \<or>
      since_exceeds now (lastSent sc) (throttleDuration sc)) \<and>
    lastSent sc' = Some now \<and>
    bs_info b ''inbox_connected'' = Some (InfoBool (connected (inbox sc')))"
proof -
  let ?sc1 = "updateComponentState now ev sc"
  obtain st er where c: "computeBridgeState ?sc1 = (st, er)" by fastforce
  with assms have send: "shouldSendState now st er ?sc1" "login_set ?sc1"
    and b: "b = \<lparr>bs_event = st, bs_error = er, bs_info = state_info now (ev_metadata ev) ?sc1\<rparr>"
    and sc': "sc' = ?sc1\<lparr>currentState := st, currentError := er, lastSent := Some now\<rparr>"
    by (auto simp: ReportEvent_def sendBridgeState_def Let_def split: if_splits)
  have "bs_info b ''inbox_connected'' = Some (InfoBool (connected (inbox sc')))"
    by (simp add: b sc' state_info_def Let_def)
  moreover have "(st, er) \<noteq> shown_state sc \<or> since_exceeds now (lastSent sc) (throttleDuration sc)"
    using send(1) by (auto simp: shouldSendState_def shown_state_def updateComponentState_frame split: if_splits)
  ultimately show ?thesis using b c sc' by simp
qed

definition established :: "nat connection_event" where
  "established = \<lparr>ev_component = ''inbox'', ev_event = EventConnectionEstablished,
     ev_connected = True, ev_error = [], ev_metadata = None, ev_timestamp = 5\<rparr>"

theorem ReportEvent_sends_witness:
  "\<exists>sc' b. ReportEvent 5 established (NewStateCoordinator True) = (sc', Some b) \<and>
     bs_event b = StateTransientDisconnect \<and> bs_error b = EmailIdleFailed \<and>
     bs_info b ''inbox_connected'' = Some (InfoBool True)"
proof -
  obtain sc' b where r: "ReportEvent 5 established (NewStateCoordinator True) = (sc', Some b)"
    and i: "connected (inbox sc')"
    by (simp add: ReportEvent_def updateComponentState_def update_connection_def Let_def event_names
        computeBridgeState_def NewStateCoordinator_def zero_connection_def shouldSendState_def
        sendBridgeState_def established_def)
  have "computeBridgeState (updateComponentState 5 established (NewStateCoordinator True)) =
      (StateTransientDisconnect, EmailIdleFailed)"
    by (simp add: updateComponentState_def update_connection_def Let_def event_names
        computeBridgeState_def NewStateCoordinator_def zero_connection_def established_def)
  with ReportEvent_sends [OF r] r i show ?thesis by auto
qed

text \<open>
  A connection that is lost and re-established keeps the \<open>IdleRunning\<close> flag of the old one, so
  the coordinator shows it as connected although no IDLE has been started on it.
\<close>

lemma stale_idle_shown_connected:
  "view_state (fst (run_steps view_step
     (map (\<lambda>e. (0, established\<lparr>ev_event := e\<rparr>))
        [EventConnectionEstablished, EventIdleStarted, EventConnectionLost, EventConnectionEstablished])
     (view_of (NewStateCoordinator True)))) = (StateConnected, [])"
  by (simp add: view_step_def view_state_def view_of_def NewStateCoordinator_def
      zero_connection_def established_def event_names Let_def)

end
