(* ===== verification/Threading.thy ===== *)
theory Threading
  imports Machines "HOL-Library.AList"
begin

text \<open>
  \<open>pkg/email/threading.go\<close>: the thread manager, which decides the conversation an email belongs
  to and keeps the state replies are built from.  The code shares one \<open>*EmailThread\<close> between its
  cache and two indexes and mutates it in place, so the model has a heap of threads and the tables
  hold references.  A Go map that is ranged over is an association list with distinct keys.
  Parameters: \<open>parse\<close> for \<open>net/mail.ParseAddress\<close> (its address part), \<open>stamp\<close> for the date layout
  of generated IDs, \<open>ord\<close> for the order in which Go ranges over a map, \<open>now\<close> for the clock.
\<close>

subsection \<open>Threads and parsed emails\<close>

record email_thread =
  ThreadID :: gostring
  Subject :: gostring
  Participants :: "gostring list"
  MessageID :: gostring
  InReplyTo :: gostring
  References :: "gostring list"
  CcList :: "gostring list"
  IsDraft :: bool
  AddedParticipants :: "gostring list"
  RemovedParticipants :: "gostring list"
  GmailThreadID :: gostring
  LastDeliveredTo :: gostring
  LastFrom :: gostring
  LastTo :: "gostring list"
  LastCc :: "gostring list"
  LastDate :: "int option"
  LastTextBody :: gostring
  LastHTMLBody :: gostring
  LastAccessed :: int

definition empty_thread :: email_thread where
  "empty_thread = \<lparr>ThreadID = [], Subject = [], Participants = [], MessageID = [], InReplyTo = [],
     References = [], CcList = [], IsDraft = False, AddedParticipants = [],
     RemovedParticipants = [], GmailThreadID = [], LastDeliveredTo = [], LastFrom = [],
     LastTo = [], LastCc = [], LastDate = None, LastTextBody = [], LastHTMLBody = [],
     LastAccessed = 0\<rparr>"

text \<open>
  In a parsed email a \<open>nil\<close> slice of recipients (\<open>None\<close>) is told from an empty one; a zero
  \<open>time.Time\<close> is \<open>None\<close>.
\<close>

record parsed_email =
  pe_MessageID :: gostring
  pe_InReplyTo :: gostring
  pe_References :: "gostring list"
  pe_Subject :: gostring
  pe_From :: gostring
  pe_To :: "gostring list option"
  pe_Cc :: "gostring list option"
  pe_Date :: "int option"
  pe_TextContent :: gostring
  pe_HTMLContent :: gostring
  pe_IsDraft :: bool
  pe_GmailThreadID :: gostring
  pe_DeliveredTo :: gostring

definition slice :: "'a list option \<Rightarrow> 'a list" where
  "slice xs = (case xs of None \<Rightarrow> [] | Some ys \<Rightarrow> ys)"

lemma slice_simps [simp]: "slice None = []" "slice (Some xs) = xs"
  by (simp_all add: slice_def)

subsection \<open>Helper functions\<close>

definition MaxQuoteBodyBytes :: nat where "MaxQuoteBodyBytes = 64 * 1024"

definition capBody :: "gostring \<Rightarrow> gostring" where
  "capBody s = (if length s \<le> MaxQuoteBodyBytes then s else take MaxQuoteBodyBytes s)"

definition cleanMessageID :: "gostring \<Rightarrow> gostring" where
  "cleanMessageID m = trim_suffix (trim_prefix (trim_space m) ''<'') ''>''"

text \<open>All leftmost matches of the regular expression \<open><([^>]+)>\<close>, by their group.\<close>

function angle_groups :: "gostring \<Rightarrow> gostring list" where
  "angle_groups [] = []"
| "angle_groups (c # s) =
     (let w = takeWhile (\<lambda>d. d \<noteq> CHR ''>'') s; r = dropWhile (\<lambda>d. d \<noteq> CHR ''>'') s in
      if c = CHR ''<'' \<and> w \<noteq> [] \<and> r \<noteq> [] then w # angle_groups (tl r) else angle_groups s)"
  by pat_completeness auto
termination
proof (relation "measure length", simp_all)
  fix s :: gostring
  show "length (dropWhile (\<lambda>d. d \<noteq> CHR ''>'') s) - Suc 0 < Suc (length s)"
    using length_dropWhile_le [of "\<lambda>d. d \<noteq> CHR ''>''" s] by simp
qed

definition parseReferences :: "gostring \<Rightarrow> gostring list" where
  "parseReferences references = angle_groups references"

definition extractEmailAddress :: "(gostring \<Rightarrow> gostring option) \<Rightarrow> gostring \<Rightarrow> gostring" where
  "extractEmailAddress parse input0 =
     (let input = trim_space input0 in
      if input = [] then []
      else case parse input of
        Some a \<Rightarrow> a
      | None \<Rightarrow> (case angle_groups input of
            g # gs \<Rightarrow> g
          | [] \<Rightarrow> if contains_sub input ''@'' \<and> contains_sub input ''.'' then input else []))"

definition subject_prefixes :: "gostring list" where
  "subject_prefixes = [''re:'', ''fwd:'', ''fw:'', ''re['', ''fwd['', ''fw['']"

definition strip_subject_prefix :: "gostring \<Rightarrow> gostring option" where
  "strip_subject_prefix s =
     (case find (has_prefix s) subject_prefixes of
        None \<Rightarrow> None
      | Some p \<Rightarrow>
          (let rest = drop (length p) s in
           Some (if has_suffix p ''['' then
                   (case index_of rest '']'' of
                      Some cb \<Rightarrow>
                        (let t = trim_space (drop (cb + 1) rest) in
                         if has_prefix t '':'' then trim_space (tl t) else t)
                    | None \<Rightarrow> trim_space rest)
                 else trim_space rest)))"

lemma strip_subject_prefix_shorter:
  assumes "strip_subject_prefix s = Some t" shows "length t < length s"
proof -
  from assms obtain p where p: "find (has_prefix s) subject_prefixes = Some p"
    by (auto simp: strip_subject_prefix_def split: option.splits)
  then have "p \<in> set subject_prefixes" and "has_prefix s p" by (auto simp: find_Some_iff)
  then have "0 < length p" and "length p \<le> length s"
    by (auto simp: subject_prefixes_def dest: has_prefix_length)
  then have rest: "length (drop (length p) s) < length s" unfolding length_drop by linarith
  obtain rest where rest_eq: "drop (length p) s = rest" by blast
  have b1: "length (trim_space (drop n rest)) \<le> length rest" for n
    using length_trim_space [of "drop n rest"] by simp
  have b2: "length (trim_space (tl (trim_space (drop n rest)))) \<le> length rest" for n
    using length_trim_space [of "tl (trim_space (drop n rest))"] b1 [of n] by simp
  from assms p have "length t \<le> length rest"
    by (auto simp: strip_subject_prefix_def Let_def rest_eq b1 b2 length_trim_space
        simp del: drop_drop split: option.splits if_splits)
  with rest show ?thesis unfolding rest_eq by simp
qed

function strip_subject :: "gostring \<Rightarrow> gostring" where
  "strip_subject s = (case strip_subject_prefix s of None \<Rightarrow> s | Some t \<Rightarrow> strip_subject t)"
  by pat_completeness auto
termination
  by (relation "measure length") (simp_all add: strip_subject_prefix_shorter)

declare strip_subject.simps [simp del]

definition normalizeSubject :: "gostring \<Rightarrow> gostring" where
  "normalizeSubject subject = strip_subject (to_lower (trim_space subject))"

definition generateThreadID :: "(int option \<Rightarrow> gostring) \<Rightarrow> gostring \<Rightarrow> int option \<Rightarrow> gostring" where
  "generateThreadID stamp subject date =
     (let n0 = normalizeSubject subject; n = (if n0 = [] then ''no-subject'' else n0)
      in replace_chars [(CHR '' '', ''-'')] n @ ''-'' @ stamp date)"

definition appendUnique :: "'a list \<Rightarrow> 'a \<Rightarrow> 'a list" where
  "appendUnique xs x = (if x \<in> set xs then xs else xs @ [x])"

definition isForwardedMessage :: "parsed_email \<Rightarrow> bool" where
  "isForwardedMessage email =
     (let subject = to_lower (trim_space (pe_Subject email));
          content = to_lower (pe_TextContent email @ '' '' @ pe_HTMLContent email)
      in list_ex (has_prefix subject) [''fwd:'', ''fw:'', ''forward:''] \<or>
         list_ex (contains_sub content)
           [''-----original message-----'', ''begin forwarded message'', ''forwarded message'',
            ''---------- forwarded message ----------''])"

subsection \<open>The manager's state\<close>

type_synonym thread_ref = nat

record thread_manager =
  heap :: "thread_ref \<Rightarrow> email_thread option"
  next_ref :: thread_ref
  knownThreads :: "(gostring \<times> thread_ref) list"
  messageIDIndex :: "gostring \<rightharpoonup> thread_ref"
  gmailThreadIDIndex :: "gostring \<rightharpoonup> thread_ref"
  lastCleanup :: int

definition NewThreadManager :: "int \<Rightarrow> thread_manager" where
  "NewThreadManager now = \<lparr>heap = Map.empty, next_ref = 0, knownThreads = [],
     messageIDIndex = Map.empty, gmailThreadIDIndex = Map.empty, lastCleanup = now\<rparr>"

definition deref :: "thread_manager \<Rightarrow> thread_ref \<Rightarrow> email_thread" where
  "deref tm r = (case heap tm r of Some th \<Rightarrow> th | None \<Rightarrow> empty_thread)"

definition store :: "thread_ref \<Rightarrow> email_thread \<Rightarrow> thread_manager \<Rightarrow> thread_manager" where
  "store r th tm = tm\<lparr>heap := (heap tm)(r \<mapsto> th)\<rparr>"

definition alloc :: "email_thread \<Rightarrow> thread_manager \<Rightarrow> thread_ref \<times> thread_manager" where
  "alloc th tm = (next_ref tm, tm\<lparr>heap := (heap tm)(next_ref tm \<mapsto> th), next_ref := Suc (next_ref tm)\<rparr>)"

definition scoped :: "gostring \<Rightarrow> gostring \<Rightarrow> gostring" where
  "scoped receiver key = receiver @ ''|'' @ key"

definition maxCachedThreads :: nat where "maxCachedThreads = 10000"

definition threadCacheTTL :: int where "threadCacheTTL = 24 * 3600 * 1000000000"

definition hour :: int where "hour = 3600 * 1000000000"

subsection \<open>The indexes\<close>

definition index_ids :: "email_thread \<Rightarrow> gostring list" where
  "index_ids th =
     (if ThreadID th \<noteq> [] then [ThreadID th] else []) @
     filter (\<lambda>r. r \<noteq> []) (References th) @
     (if MessageID th \<noteq> [] \<and> MessageID th \<noteq> ThreadID th then [MessageID th] else [])"

definition updateMessageIDIndex :: "gostring \<Rightarrow> thread_ref \<Rightarrow> thread_manager \<Rightarrow> thread_manager" where
  "updateMessageIDIndex receiver r tm =
     (let th = deref tm r;
          tm1 = tm\<lparr>messageIDIndex := fold (\<lambda>k m. m(k \<mapsto> r)) (index_ids th) (messageIDIndex tm)\<rparr>
      in if GmailThreadID th \<noteq> []
         then tm1\<lparr>gmailThreadIDIndex := (gmailThreadIDIndex tm1)(scoped receiver (GmailThreadID th) \<mapsto> r)\<rparr>
         else tm1)"

definition removal_ids :: "email_thread \<Rightarrow> gostring list" where
  "removal_ids th =
     (if ThreadID th \<noteq> [] then [ThreadID th] else []) @
     (if MessageID th \<noteq> [] then [MessageID th] else []) @
     filter (\<lambda>x. x \<noteq> []) (References th)"

definition removeFromMessageIDIndex :: "thread_ref \<Rightarrow> thread_manager \<Rightarrow> thread_manager" where
  "removeFromMessageIDIndex r tm =
     tm\<lparr>messageIDIndex := fold (\<lambda>k m. m(k := None)) (removal_ids (deref tm r)) (messageIDIndex tm),
        gmailThreadIDIndex := (\<lambda>k. if gmailThreadIDIndex tm k = Some r then None
                                   else gmailThreadIDIndex tm k)\<rparr>"

definition drop_known :: "gostring \<Rightarrow> thread_manager \<Rightarrow> thread_manager" where
  "drop_known key tm =
     (let tm1 = (case map_of (knownThreads tm) key of
                   Some r \<Rightarrow> removeFromMessageIDIndex r tm | None \<Rightarrow> tm)
      in tm1\<lparr>knownThreads := AList.delete key (knownThreads tm1)\<rparr>)"

definition findThreadByMessageID :: "gostring \<Rightarrow> thread_manager \<Rightarrow> thread_ref option" where
  "findThreadByMessageID messageID tm = messageIDIndex tm messageID"

definition findByGmailThreadID :: "gostring \<Rightarrow> gostring \<Rightarrow> thread_manager \<Rightarrow> thread_ref option" where
  "findByGmailThreadID receiver gtid tm =
     (if gtid = [] then None else gmailThreadIDIndex tm (scoped receiver gtid))"

subsection \<open>Expiry and eviction\<close>

definition cleanupExpiredThreadsIfNeeded :: "int \<Rightarrow> thread_manager \<Rightarrow> thread_manager" where
  "cleanupExpiredThreadsIfNeeded now tm =
     (if now - lastCleanup tm < hour then tm
      else let expired = map fst (filter (\<lambda>(k, r). LastAccessed (deref tm r) < now - threadCacheTTL)
                                   (knownThreads tm))
           in fold drop_known expired (tm\<lparr>lastCleanup := now\<rparr>))"

text \<open>
  The insertion sort of \<open>evictOldestThreads\<close>: each entry moves left past the entries that are
  strictly later.
\<close>

definition insert_entry :: "('a \<Rightarrow> int) \<Rightarrow> 'a list \<Rightarrow> 'a \<Rightarrow> 'a list" where
  "insert_entry at xs e =
     (let later = takeWhile (\<lambda>x. at x > at e) (rev xs)
      in take (length xs - length later) xs @ e # rev later)"

definition sort_entries :: "('a \<Rightarrow> int) \<Rightarrow> 'a list \<Rightarrow> 'a list" where
  "sort_entries at xs = foldl (insert_entry at) [] xs"

definition evictOldestThreads ::
  "((gostring \<times> thread_ref) list \<Rightarrow> (gostring \<times> thread_ref) list) \<Rightarrow> nat \<Rightarrow> thread_manager \<Rightarrow> thread_manager" where
  "evictOldestThreads ord n tm =
     (if length (knownThreads tm) \<le> n then tm
      else let entries = map (\<lambda>(k, r). (k, LastAccessed (deref tm r))) (ord (knownThreads tm));
               sorted_entries = sort_entries snd entries
           in fold drop_known (map fst (take n sorted_entries)) tm)"

definition enforce_limit ::
  "((gostring \<times> thread_ref) list \<Rightarrow> (gostring \<times> thread_ref) list) \<Rightarrow> thread_manager \<Rightarrow> thread_manager" where
  "enforce_limit ord tm =
     (if length (knownThreads tm) > maxCachedThreads
      then evictOldestThreads ord (maxCachedThreads div 4) tm else tm)"

subsection \<open>Lookup and caching\<close>

definition touch :: "int \<Rightarrow> thread_ref \<Rightarrow> thread_manager \<Rightarrow> thread_manager" where
  "touch now r tm = store r ((deref tm r)\<lparr>LastAccessed := now\<rparr>) tm"

definition GetThreadByID ::
  "int \<Rightarrow> gostring \<Rightarrow> gostring \<Rightarrow> thread_manager \<Rightarrow> thread_ref option \<times> thread_manager" where
  "GetThreadByID now receiver threadID tm0 =
     (let tm = cleanupExpiredThreadsIfNeeded now tm0 in
      case map_of (knownThreads tm) (scoped receiver threadID) of
        Some r \<Rightarrow> (Some r, touch now r tm)
      | None \<Rightarrow> (case map_of (knownThreads tm) threadID of
            Some r \<Rightarrow> (Some r, touch now r tm)
          | None \<Rightarrow> (None, tm)))"

definition cacheThread ::
  "((gostring \<times> thread_ref) list \<Rightarrow> (gostring \<times> thread_ref) list) \<Rightarrow> int \<Rightarrow> gostring \<Rightarrow>
     thread_ref option \<Rightarrow> thread_manager \<Rightarrow> thread_manager" where
  "cacheThread ord now receiver thread tm =
     (case thread of
        None \<Rightarrow> tm
      | Some r \<Rightarrow>
          if ThreadID (deref tm r) = [] then tm
          else let tm1 = touch now r tm;
                   tm2 = tm1\<lparr>knownThreads :=
                     AList.update (scoped receiver (ThreadID (deref tm r))) r (knownThreads tm1)\<rparr>
               in enforce_limit ord (updateMessageIDIndex receiver r tm2))"

subsection \<open>Participants\<close>

definition lower_set :: "gostring list \<Rightarrow> gostring list" where
  "lower_set xs = fold (\<lambda>p s. set_add (to_lower p) s) xs []"

definition email_participants :: "(gostring \<Rightarrow> gostring option) \<Rightarrow> parsed_email \<Rightarrow> gostring list" where
  "email_participants parse email =
     lower_set (filter (\<lambda>a. a \<noteq> [])
       (map (extractEmailAddress parse) (pe_From email # slice (pe_To email) @ slice (pe_Cc email))))"

definition merge_email ::
  "(gostring \<Rightarrow> gostring option) \<Rightarrow> (gostring list \<Rightarrow> gostring list) \<Rightarrow> parsed_email \<Rightarrow>
     email_thread \<Rightarrow> email_thread" where
  "merge_email parse ord email th =
     (let old = lower_set (Participants th);
          cur = email_participants parse email;
          everyone = fold set_add (ord cur) (fold set_add (ord old) []);
          added = filter (\<lambda>p. p \<notin> set old) (ord cur);
          removed = (if Participants th = [] then [] else filter (\<lambda>p. p \<notin> set cur) (ord old))
      in th\<lparr>Participants := ord everyone,
            AddedParticipants := added,
            RemovedParticipants := removed,
            References := (if pe_MessageID email \<noteq> []
                           then appendUnique (References th) (pe_MessageID email) else References th),
            GmailThreadID := (if pe_GmailThreadID email \<noteq> [] then pe_GmailThreadID email
                              else GmailThreadID th),
            LastDeliveredTo := (if pe_DeliveredTo email \<noteq> [] then pe_DeliveredTo email
                                else LastDeliveredTo th),
            LastFrom := (if pe_From email \<noteq> [] then pe_From email else LastFrom th),
            LastTo := (case pe_To email of None \<Rightarrow> LastTo th | Some xs \<Rightarrow> xs),
            LastCc := (case pe_Cc email of None \<Rightarrow> LastCc th | Some xs \<Rightarrow> xs),
            LastDate := (case pe_Date email of None \<Rightarrow> LastDate th | Some d \<Rightarrow> Some d),
            LastTextBody := capBody (pe_TextContent email),
            LastHTMLBody := capBody (pe_HTMLContent email)\<rparr>)"

text \<open>The environment of a call: the parameters that stand for library code and the clock.\<close>

record thread_env =
  parse_addr :: "gostring \<Rightarrow> gostring option"
  fmt_stamp :: "int option \<Rightarrow> gostring"
  range_addrs :: "gostring list \<Rightarrow> gostring list"
  range_known :: "(gostring \<times> thread_ref) list \<Rightarrow> (gostring \<times> thread_ref) list"
  clock :: int
  resolver :: "(gostring \<Rightarrow> gostring \<Rightarrow> gostring option) option"

definition addToExistingThread ::
  "thread_env \<Rightarrow> thread_ref \<Rightarrow> parsed_email \<Rightarrow> thread_manager \<Rightarrow> thread_ref \<times> thread_manager" where
  "addToExistingThread env r email tm =
     (r, store r (merge_email (parse_addr env) (range_addrs env) email (deref tm r)) tm)"

definition new_thread :: "thread_env \<Rightarrow> parsed_email \<Rightarrow> email_thread" where
  "new_thread env email =
     empty_thread\<lparr>
       ThreadID := (if pe_MessageID email = []
                    then generateThreadID (fmt_stamp env) (pe_Subject email) (pe_Date email)
                    else pe_MessageID email),
       Subject := pe_Subject email,
       Participants := range_addrs env (email_participants (parse_addr env) email),
       MessageID := pe_MessageID email,
       InReplyTo := pe_InReplyTo email,
       References := pe_References email,
       GmailThreadID := pe_GmailThreadID email,
       LastDeliveredTo := pe_DeliveredTo email,
       LastFrom := pe_From email,
       LastTo := slice (pe_To email),
       LastCc := slice (pe_Cc email),
       LastDate := pe_Date email,
       LastTextBody := capBody (pe_TextContent email),
       LastHTMLBody := capBody (pe_HTMLContent email),
       LastAccessed := clock env\<rparr>"

definition createNewThread ::
  "thread_env \<Rightarrow> parsed_email \<Rightarrow> thread_manager \<Rightarrow> thread_ref \<times> thread_manager" where
  "createNewThread env email tm =
     (let th = new_thread env email; (r, tm1) = alloc th tm;
          tm2 = tm1\<lparr>knownThreads := AList.update (ThreadID th) r (knownThreads tm1)\<rparr>
      in (r, enforce_limit (range_known env) tm2))"

subsection \<open>The decision\<close>

text \<open>A thread the resolver knows by ID: the cached one, or a fresh one under that ID.\<close>

definition resolved_thread ::
  "thread_env \<Rightarrow> gostring \<Rightarrow> gostring \<Rightarrow> parsed_email \<Rightarrow> thread_manager \<Rightarrow> thread_ref \<times> thread_manager" where
  "resolved_thread env receiver tid email tm =
     (case GetThreadByID (clock env) receiver tid tm of
        (Some r, tm1) \<Rightarrow> addToExistingThread env r email tm1
      | (None, tm1) \<Rightarrow>
          (let (r, tm2) = alloc (empty_thread\<lparr>ThreadID := tid, Subject := pe_Subject email\<rparr>) tm1
           in addToExistingThread env r email tm2))"

definition resolve_id :: "thread_env \<Rightarrow> gostring \<Rightarrow> gostring \<Rightarrow> gostring option" where
  "resolve_id env receiver mid =
     (case resolver env of
        None \<Rightarrow> None
      | Some f \<Rightarrow> (case f receiver mid of Some tid \<Rightarrow> if tid \<noteq> [] then Some tid else None | None \<Rightarrow> None))"

fun first_some :: "('a \<Rightarrow> 'b option) \<Rightarrow> 'a list \<Rightarrow> 'b option" where
  "first_some f [] = None"
| "first_some f (x # xs) = (case f x of Some y \<Rightarrow> Some y | None \<Rightarrow> first_some f xs)"

definition reply_ids :: "parsed_email \<Rightarrow> gostring list" where
  "reply_ids email = (if pe_InReplyTo email \<noteq> [] then [pe_InReplyTo email] else []) @ pe_References email"

definition DetermineThread ::
  "thread_env \<Rightarrow> gostring \<Rightarrow> parsed_email \<Rightarrow> thread_manager \<Rightarrow> thread_ref \<times> thread_manager" where
  "DetermineThread env receiver email tm =
     (if isForwardedMessage email then createNewThread env email tm
      else case first_some (resolve_id env receiver) (reply_ids email) of
        Some tid \<Rightarrow> resolved_thread env receiver tid email tm
      | None \<Rightarrow>
          (case first_some (\<lambda>m. findThreadByMessageID m tm) (reply_ids email) of
             Some r \<Rightarrow> addToExistingThread env r email tm
           | None \<Rightarrow>
               (case (if pe_GmailThreadID email = [] then None
                      else findByGmailThreadID receiver (pe_GmailThreadID email) tm) of
                  Some r \<Rightarrow> addToExistingThread env r email tm
                | None \<Rightarrow> createNewThread env email tm)))"

text \<open>
  One inbound email as \<open>ProcessParsedEmail\<close> gives it to the manager: decide, then cache for the
  receiver.  The other operation the rest of the program calls is the lookup by thread ID.
\<close>

definition thread_incoming ::
  "thread_env \<Rightarrow> gostring \<Rightarrow> parsed_email \<Rightarrow> thread_manager \<Rightarrow> thread_ref \<times> thread_manager" where
  "thread_incoming env receiver email tm =
     (let (r, tm1) = DetermineThread env receiver email tm
      in (r, cacheThread (range_known env) (clock env) receiver (Some r) tm1))"

datatype tm_event =
    Incoming thread_env gostring parsed_email
  | Lookup int gostring gostring

fun tm_step :: "tm_event \<Rightarrow> thread_manager \<Rightarrow> thread_manager \<times> thread_ref option" where
  "tm_step (Incoming env receiver email) tm =
     (let (r, tm') = thread_incoming env receiver email tm in (tm', Some r))"
| "tm_step (Lookup now receiver tid) tm =
     (let (r, tm') = GetThreadByID now receiver tid tm in (tm', r))"

end
