(* ===== verification/ThreadFacts.thy ===== *)
theory ThreadFacts
  imports Threading
begin

text \<open>
  What the thread manager guarantees: subjects normalise to a fixed point, participants are never
  lost, the tables stay sound under every operation, replies land in the conversation they answer,
  expiry and eviction remove exactly the oldest threads.
\<close>

subsection \<open>Subjects\<close>

lemma strip_subject_None: "strip_subject_prefix s = None \<Longrightarrow> strip_subject s = s"
  by (subst strip_subject.simps) simp

lemma strip_subject_Some: "strip_subject_prefix s = Some t \<Longrightarrow> strip_subject s = strip_subject t"
  by (subst strip_subject.simps) simp

lemma strip_subject_stops: "strip_subject_prefix (strip_subject s) = None"
proof (induction s rule: strip_subject.induct)
  case (1 s)
  then show ?case
    by (cases "strip_subject_prefix s") (simp_all add: strip_subject_None strip_subject_Some)
qed

definition canonical :: "gostring \<Rightarrow> bool" where
  "canonical s \<longleftrightarrow> trim_space s = s \<and> to_lower s = s"

lemma canonical_trim: "to_lower s = s \<Longrightarrow> canonical (trim_space s)"
  by (metis canonical_def trim_space_idem trim_space_to_lower)

lemma to_lower_tl: "to_lower s = s \<Longrightarrow> to_lower (tl s) = tl s"
  by (metis to_lower_drop drop_Suc drop_0)

lemma strip_prefix_canonical:
  assumes "canonical s" and "strip_subject_prefix s = Some t" shows "canonical t"
proof -
  have low: "to_lower (drop n s) = drop n s" for n
    using assms(1) by (simp add: canonical_def to_lower_drop)
  have "to_lower (trim_space (drop n s)) = trim_space (drop n s)" for n
    using canonical_trim [OF low] by (simp add: canonical_def)
  then have "canonical (trim_space (tl (trim_space (drop n s))))" and "canonical (trim_space (drop n s))" for n
    using canonical_trim low to_lower_tl by blast+
  with assms(2) show ?thesis
    by (auto simp: strip_subject_prefix_def Let_def split: option.splits if_splits)
qed

lemma strip_subject_canonical: "canonical s \<Longrightarrow> canonical (strip_subject s)"
proof (induction s rule: strip_subject.induct)
  case (1 s)
  then show ?case
    by (cases "strip_subject_prefix s")
       (auto simp: strip_subject_None strip_subject_Some dest: strip_prefix_canonical)
qed

text \<open>
  Normalising a subject removes every leading reply and forward prefix, in whatever case,
  order and number, leaves it trimmed and lower-case, and is idempotent.
\<close>

theorem normalizeSubject_normal:
  "strip_subject_prefix (normalizeSubject s) = None \<and>
   trim_space (normalizeSubject s) = normalizeSubject s \<and>
   normalizeSubject (normalizeSubject s) = normalizeSubject s"
proof -
  have "canonical (to_lower (trim_space s))"
    by (simp add: canonical_def trim_space_to_lower)
  then have c: "canonical (normalizeSubject s)"
    by (simp add: normalizeSubject_def strip_subject_canonical)
  have n: "strip_subject_prefix (normalizeSubject s) = None"
    by (simp add: normalizeSubject_def strip_subject_stops)
  with c show ?thesis
    by (metis canonical_def normalizeSubject_def strip_subject_None)
qed

subsection \<open>Participants\<close>

lemma fold_set_add: "set (fold set_add xs ys) = set xs \<union> set ys"
  by (induction xs arbitrary: ys) auto

lemma distinct_fold_set_add: "distinct ys \<Longrightarrow> distinct (fold set_add xs ys)"
  by (induction xs arbitrary: ys) auto

lemma lower_set_alt: "lower_set xs = fold set_add (map to_lower xs) []"
  unfolding lower_set_def by (simp add: fold_map comp_def)

lemma set_lower_set [simp]: "set (lower_set xs) = to_lower ` set xs"
  by (simp add: lower_set_alt fold_set_add)

lemma distinct_lower_set [simp]: "distinct (lower_set xs)"
  by (simp add: lower_set_alt distinct_fold_set_add)

lemma distinct_email_participants [simp]: "distinct (email_participants parse e)"
  by (simp add: email_participants_def)

lemma participants_lower: "p \<in> set (email_participants parse e) \<Longrightarrow> to_lower p = p"
  by (auto simp: email_participants_def)

text \<open>
  Adding an email to a thread never loses a participant: the new list is, without duplicates,
  the lower-cased old participants together with the senders and recipients of the email, and the
  two deltas for the room are exactly who is new and who the email left out.
\<close>

theorem merge_email_participants:
  assumes "map_order ord"
  shows "set (Participants (merge_email parse ord e th)) =
      to_lower ` set (Participants th) \<union> set (email_participants parse e) \<and>
    distinct (Participants (merge_email parse ord e th)) \<and>
    set (AddedParticipants (merge_email parse ord e th)) =
      set (email_participants parse e) - to_lower ` set (Participants th) \<and>
    set (RemovedParticipants (merge_email parse ord e th)) =
      to_lower ` set (Participants th) - set (email_participants parse e)"
proof -
  note o = map_orderD [OF assms]
  have "distinct (ord (lower_set (Participants th)))" by (simp add: o(2))
  then show ?thesis
    by (auto simp: merge_email_def Let_def o fold_set_add distinct_fold_set_add)
qed

definition plain_parse :: "gostring \<Rightarrow> gostring option" where
  "plain_parse s = (if contains_sub s ''@'' \<and> \<not> contains_sub s '' '' then Some s else None)"

definition mail :: "gostring \<Rightarrow> gostring \<Rightarrow> gostring list \<Rightarrow> gostring \<Rightarrow> parsed_email" where
  "mail mid parent refs from = \<lparr>pe_MessageID = mid, pe_InReplyTo = parent, pe_References = refs,
     pe_Subject = ''Plans'', pe_From = from, pe_To = Some [''bob@x.org''], pe_Cc = None,
     pe_Date = Some 0, pe_TextContent = ''hi'', pe_HTMLContent = [], pe_IsDraft = False,
     pe_GmailThreadID = [], pe_DeliveredTo = []\<rparr>"

lemma mail_sel [simp]:
  "pe_MessageID (mail mid parent refs from) = mid"
  "pe_InReplyTo (mail mid parent refs from) = parent"
  "pe_References (mail mid parent refs from) = refs"
  by (simp_all add: mail_def)

theorem merge_email_participants_witness:
  "map_order rev \<and>
   set (Participants (merge_email plain_parse rev (mail ''m'' [] [] ''Ann@x.org'')
     (empty_thread\<lparr>Participants := [''Carl@x.org'']\<rparr>))) = {''carl@x.org'', ''ann@x.org'', ''bob@x.org''}"
proof -
  have "to_lower ` set (Participants (empty_thread\<lparr>Participants := [''Carl@x.org'']\<rparr>)) = {''carl@x.org''}"
    by (simp add: empty_thread_def to_lower_def lower_char_def char_of_def bit_iff_odd)
  moreover have "set (email_participants plain_parse (mail ''m'' [] [] ''Ann@x.org'')) =
      {''ann@x.org'', ''bob@x.org''}"
    by (simp add: email_participants_def extractEmailAddress_def mail_def plain_parse_def
        trim_space_graphic graphic_def contains_sub_def to_lower_def lower_char_def char_of_def bit_iff_odd)
  ultimately show ?thesis
    using merge_email_participants [OF map_order_rev, of plain_parse "mail ''m'' [] [] ''Ann@x.org''"
        "empty_thread\<lparr>Participants := [''Carl@x.org'']\<rparr>"] map_order_rev
    by auto
qed

lemma merge_email_fields:
  "ThreadID (merge_email parse ord e th) = ThreadID th"
  "MessageID (merge_email parse ord e th) = MessageID th"
  "set (References (merge_email parse ord e th)) =
     set (References th) \<union> (if pe_MessageID e = [] then {} else {pe_MessageID e})"
  by (auto simp: merge_email_def Let_def appendUnique_def)

lemma merge_email_bodies:
  "length (LastTextBody (merge_email parse ord e th)) \<le> MaxQuoteBodyBytes"
  "length (LastHTMLBody (merge_email parse ord e th)) \<le> MaxQuoteBodyBytes"
  by (auto simp: merge_email_def Let_def capBody_def)

lemma index_ids_merge: "set (index_ids th) \<subseteq> set (index_ids (merge_email parse ord e th))"
  by (auto simp: index_ids_def merge_email_fields)

subsection \<open>Heap and tables\<close>

lemma deref_store [simp]: "deref (store r th tm) r' = (if r' = r then th else deref tm r')"
  by (simp add: deref_def store_def)

lemma store_fields [simp]:
  "knownThreads (store r th tm) = knownThreads tm"
  "messageIDIndex (store r th tm) = messageIDIndex tm"
  "gmailThreadIDIndex (store r th tm) = gmailThreadIDIndex tm"
  "next_ref (store r th tm) = next_ref tm"
  "lastCleanup (store r th tm) = lastCleanup tm"
  "heap (store r th tm) = (heap tm)(r \<mapsto> th)"
  by (simp_all add: store_def)

lemma touch_fields [simp]:
  "knownThreads (touch now r tm) = knownThreads tm"
  "messageIDIndex (touch now r tm) = messageIDIndex tm"
  "gmailThreadIDIndex (touch now r tm) = gmailThreadIDIndex tm"
  "next_ref (touch now r tm) = next_ref tm"
  "deref (touch now r tm) r' = (if r' = r then (deref tm r)\<lparr>LastAccessed := now\<rparr> else deref tm r')"
  by (simp_all add: touch_def)

lemma index_ids_touch [simp]: "index_ids (th\<lparr>LastAccessed := now\<rparr>) = index_ids th"
  by (simp add: index_ids_def)

lemma deref_update_tables [simp]:
  "deref (tm\<lparr>knownThreads := k\<rparr>) r = deref tm r"
  "deref (tm\<lparr>messageIDIndex := i\<rparr>) r = deref tm r"
  "deref (tm\<lparr>gmailThreadIDIndex := g\<rparr>) r = deref tm r"
  "deref (tm\<lparr>lastCleanup := c\<rparr>) r = deref tm r"
  "deref (tm\<lparr>next_ref := n\<rparr>) r = deref tm r"
  by (simp_all add: deref_def)

lemma fold_put: "fold (\<lambda>k m. m(k \<mapsto> r)) ks m k = (if k \<in> set ks then Some r else m k)"
  by (induction ks arbitrary: m) auto

lemma fold_del: "fold (\<lambda>k m. m(k := None)) ks m k = (if k \<in> set ks then None else m k)"
  by (induction ks arbitrary: m) auto

lemma set_removal_ids: "set (removal_ids th) = set (index_ids th)"
  by (auto simp: index_ids_def removal_ids_def)

lemma removeFromMessageIDIndex_fields [simp]:
  "heap (removeFromMessageIDIndex r tm) = heap tm"
  "next_ref (removeFromMessageIDIndex r tm) = next_ref tm"
  "knownThreads (removeFromMessageIDIndex r tm) = knownThreads tm"
  "messageIDIndex (removeFromMessageIDIndex r tm) k =
     (if k \<in> set (index_ids (deref tm r)) then None else messageIDIndex tm k)"
  "gmailThreadIDIndex (removeFromMessageIDIndex r tm) k =
     (if gmailThreadIDIndex tm k = Some r then None else gmailThreadIDIndex tm k)"
  by (simp_all add: removeFromMessageIDIndex_def fold_del set_removal_ids)

lemma drop_known_fields [simp]:
  "heap (drop_known key tm) = heap tm"
  "next_ref (drop_known key tm) = next_ref tm"
  "deref (drop_known key tm) = deref tm"
  "knownThreads (drop_known key tm) = AList.delete key (knownThreads tm)"
  by (auto simp: drop_known_def Let_def deref_def fun_eq_iff split: option.split)

lemma drop_known_index_sub:
  "messageIDIndex (drop_known key tm) k \<in> {None, messageIDIndex tm k}"
  "gmailThreadIDIndex (drop_known key tm) k \<in> {None, gmailThreadIDIndex tm k}"
  by (auto simp: drop_known_def Let_def split: option.split)

lemma fold_drop_known [simp]:
  "heap (fold drop_known ks tm) = heap tm"
  "next_ref (fold drop_known ks tm) = next_ref tm"
  "deref (fold drop_known ks tm) = deref tm"
  "knownThreads (fold drop_known ks tm) = filter (\<lambda>e. fst e \<notin> set ks) (knownThreads tm)"
  by (induction ks arbitrary: tm)
     (auto simp: AList.delete_eq intro!: filter_cong)

lemma fold_drop_known_index:
  "messageIDIndex (fold drop_known ks tm) k \<in> {None, messageIDIndex tm k}"
  "gmailThreadIDIndex (fold drop_known ks tm) k \<in> {None, gmailThreadIDIndex tm k}"
proof (induction ks arbitrary: tm)
  case (Cons x ks)
  { case 1 then show ?case using Cons(1) [of "drop_known x tm"] drop_known_index_sub(1) [of x tm k] by auto }
  { case 2 then show ?case using Cons(2) [of "drop_known x tm"] drop_known_index_sub(2) [of x tm k] by auto }
qed simp_all

text \<open>The invariant of the manager.\<close>

definition known_key :: "thread_manager \<Rightarrow> gostring \<Rightarrow> thread_ref \<Rightarrow> bool" where
  "known_key tm k r \<longleftrightarrow> k = ThreadID (deref tm r) \<or> (\<exists>recv. k = scoped recv (ThreadID (deref tm r)))"

text \<open>Every thread has an ID, and its tail is one of the messages it lists.\<close>

definition thread_wf :: "email_thread \<Rightarrow> bool" where
  "thread_wf th \<longleftrightarrow> ThreadID th \<noteq> [] \<and>
     (MessageID th = [] \<or> MessageID th = ThreadID th \<or> MessageID th \<in> set (References th))"

lemma thread_wf_touch [simp]: "thread_wf (th\<lparr>LastAccessed := now\<rparr>) = thread_wf th"
  by (simp add: thread_wf_def)

lemma thread_wf_merge: "thread_wf th \<Longrightarrow> thread_wf (merge_email parse ord e th)"
  by (auto simp: thread_wf_def merge_email_fields)

lemma thread_wf_empty [simp]: "thread_wf (empty_thread\<lparr>ThreadID := tid, Subject := s\<rparr>) = (tid \<noteq> [])"
  by (simp add: thread_wf_def empty_thread_def)

definition tm_wf :: "thread_manager \<Rightarrow> bool" where
  "tm_wf tm \<longleftrightarrow>
     distinct (map fst (knownThreads tm)) \<and>
     (\<forall>(k, r) \<in> set (knownThreads tm). r \<in> dom (heap tm) \<and> known_key tm k r) \<and>
     (\<forall>m r. messageIDIndex tm m = Some r \<longrightarrow> r \<in> dom (heap tm) \<and> m \<in> set (index_ids (deref tm r))) \<and>
     (\<forall>k r. gmailThreadIDIndex tm k = Some r \<longrightarrow> r \<in> dom (heap tm)) \<and>
     (\<forall>r \<in> dom (heap tm). thread_wf (deref tm r)) \<and>
     dom (heap tm) \<subseteq> {..< next_ref tm}"

lemma tm_wfD:
  assumes "tm_wf tm"
  shows "distinct (map fst (knownThreads tm))"
    and "(k, r) \<in> set (knownThreads tm) \<Longrightarrow> r \<in> dom (heap tm) \<and> known_key tm k r"
    and "messageIDIndex tm m = Some r \<Longrightarrow> r \<in> dom (heap tm) \<and> m \<in> set (index_ids (deref tm r))"
    and "gmailThreadIDIndex tm g = Some r \<Longrightarrow> r \<in> dom (heap tm)"
    and "dom (heap tm) \<subseteq> {..< next_ref tm}"
    and "r \<in> dom (heap tm) \<Longrightarrow> thread_wf (deref tm r)"
  using assms unfolding tm_wf_def by blast+

lemma tm_wfI:
  assumes "distinct (map fst (knownThreads tm))"
    and "\<And>k r. (k, r) \<in> set (knownThreads tm) \<Longrightarrow> r \<in> dom (heap tm) \<and> known_key tm k r"
    and "\<And>m r. messageIDIndex tm m = Some r \<Longrightarrow> r \<in> dom (heap tm) \<and> m \<in> set (index_ids (deref tm r))"
    and "\<And>g r. gmailThreadIDIndex tm g = Some r \<Longrightarrow> r \<in> dom (heap tm)"
    and "\<And>r. r \<in> dom (heap tm) \<Longrightarrow> thread_wf (deref tm r)"
    and "dom (heap tm) \<subseteq> {..< next_ref tm}"
  shows "tm_wf tm"
  using assms unfolding tm_wf_def by blast

lemma tm_wf_store:
  assumes wf: "tm_wf tm" and r: "r \<in> dom (heap tm)" and id: "ThreadID th = ThreadID (deref tm r)"
    and sub: "set (index_ids (deref tm r)) \<subseteq> set (index_ids th)" and th: "thread_wf th"
  shows "tm_wf (store r th tm)"
proof (rule tm_wfI)
  show "distinct (map fst (knownThreads (store r th tm)))" using tm_wfD(1) [OF wf] by simp
  show "q \<in> dom (heap (store r th tm)) \<and> known_key (store r th tm) k q"
    if "(k, q) \<in> set (knownThreads (store r th tm))" for k q
    using tm_wfD(2) [OF wf, of k q] that id by (cases "q = r") (auto simp: known_key_def)
  show "q \<in> dom (heap (store r th tm)) \<and> m \<in> set (index_ids (deref (store r th tm) q))"
    if "messageIDIndex (store r th tm) m = Some q" for m q
    using tm_wfD(3) [OF wf, of m q] that sub by (cases "q = r") auto
  show "q \<in> dom (heap (store r th tm))" if "gmailThreadIDIndex (store r th tm) g = Some q" for g q
    using tm_wfD(4) [OF wf, of g q] that by simp
  show "thread_wf (deref (store r th tm) q)" if "q \<in> dom (heap (store r th tm))" for q
    using tm_wfD(6) [OF wf] that th by (auto split: if_splits)
  show "dom (heap (store r th tm)) \<subseteq> {..< next_ref (store r th tm)}"
    using tm_wfD(5) [OF wf] r by auto
qed

lemma tm_wf_fold_drop:
  assumes wf: "tm_wf tm" shows "tm_wf (fold drop_known ks tm)"
proof (rule tm_wfI)
  show "distinct (map fst (knownThreads (fold drop_known ks tm)))"
    using tm_wfD(1) [OF wf] by (simp add: distinct_map_filter)
  show "q \<in> dom (heap (fold drop_known ks tm)) \<and> known_key (fold drop_known ks tm) k q"
    if "(k, q) \<in> set (knownThreads (fold drop_known ks tm))" for k q
    using tm_wfD(2) [OF wf, of k q] that by (simp add: known_key_def)
  show "q \<in> dom (heap (fold drop_known ks tm)) \<and> m \<in> set (index_ids (deref (fold drop_known ks tm) q))"
    if "messageIDIndex (fold drop_known ks tm) m = Some q" for m q
    using tm_wfD(3) [OF wf, of m q] that fold_drop_known_index(1) [of ks tm m] by simp
  show "q \<in> dom (heap (fold drop_known ks tm))"
    if "gmailThreadIDIndex (fold drop_known ks tm) g = Some q" for g q
    using tm_wfD(4) [OF wf, of g q] that fold_drop_known_index(2) [of ks tm g] by simp
  show "thread_wf (deref (fold drop_known ks tm) q)" if "q \<in> dom (heap (fold drop_known ks tm))" for q
    using tm_wfD(6) [OF wf, of q] that by simp
  show "dom (heap (fold drop_known ks tm)) \<subseteq> {..< next_ref (fold drop_known ks tm)}"
    using tm_wfD(5) [OF wf] by simp
qed

lemma tm_wf_touch: "tm_wf tm \<Longrightarrow> r \<in> dom (heap tm) \<Longrightarrow> tm_wf (touch now r tm)"
  unfolding touch_def by (rule tm_wf_store) (simp_all add: tm_wfD(6))

lemma tm_wf_cleanup: "tm_wf tm \<Longrightarrow> tm_wf (cleanupExpiredThreadsIfNeeded now tm)"
proof -
  assume "tm_wf tm"
  then have "tm_wf (tm\<lparr>lastCleanup := now\<rparr>)" by (simp add: tm_wf_def known_key_def)
  with \<open>tm_wf tm\<close> show ?thesis
    by (simp add: cleanupExpiredThreadsIfNeeded_def Let_def tm_wf_fold_drop)
qed

lemma tm_wf_limit: "tm_wf tm \<Longrightarrow> tm_wf (enforce_limit ord tm)"
  by (simp add: enforce_limit_def evictOldestThreads_def Let_def tm_wf_fold_drop)

lemma heap_limit [simp]:
  "heap (enforce_limit ord tm) = heap tm" "deref (enforce_limit ord tm) = deref tm"
  by (simp_all add: enforce_limit_def evictOldestThreads_def Let_def)

lemma heap_cleanup [simp]:
  "heap (cleanupExpiredThreadsIfNeeded now tm) = heap tm"
  "deref (cleanupExpiredThreadsIfNeeded now tm) = deref tm"
  by (auto simp: cleanupExpiredThreadsIfNeeded_def Let_def deref_def fun_eq_iff)

lemma tm_wf_index:
  assumes wf: "tm_wf tm" and r: "r \<in> dom (heap tm)"
  shows "tm_wf (updateMessageIDIndex receiver r tm)"
proof (rule tm_wfI)
  let ?tm = "updateMessageIDIndex receiver r tm"
  have same: "heap ?tm = heap tm" "knownThreads ?tm = knownThreads tm" "next_ref ?tm = next_ref tm"
    "deref ?tm = deref tm"
    by (auto simp: updateMessageIDIndex_def Let_def deref_def fun_eq_iff)
  show "distinct (map fst (knownThreads ?tm))" using tm_wfD(1) [OF wf] same by simp
  show "q \<in> dom (heap ?tm) \<and> known_key ?tm k q" if "(k, q) \<in> set (knownThreads ?tm)" for k q
    using tm_wfD(2) [OF wf, of k q] that same by (simp add: known_key_def)
  show "q \<in> dom (heap ?tm) \<and> m \<in> set (index_ids (deref ?tm q))" if "messageIDIndex ?tm m = Some q" for m q
    using tm_wfD(3) [OF wf, of m q] that r same
    by (auto simp: updateMessageIDIndex_def Let_def fold_put split: if_splits)
  show "q \<in> dom (heap ?tm)" if "gmailThreadIDIndex ?tm g = Some q" for g q
    using tm_wfD(4) [OF wf, of g q] that r same
    by (auto simp: updateMessageIDIndex_def Let_def split: if_splits)
  show "thread_wf (deref ?tm q)" if "q \<in> dom (heap ?tm)" for q
    using tm_wfD(6) [OF wf, of q] that same by simp
  show "dom (heap ?tm) \<subseteq> {..< next_ref ?tm}" using tm_wfD(5) [OF wf] same by simp
qed

lemma tm_wf_known:
  assumes wf: "tm_wf tm" and "r \<in> dom (heap tm)" and "known_key tm key r"
  shows "tm_wf (tm\<lparr>knownThreads := AList.update key r (knownThreads tm)\<rparr>)"
proof (rule tm_wfI)
  let ?tm = "tm\<lparr>knownThreads := AList.update key r (knownThreads tm)\<rparr>"
  show "distinct (map fst (knownThreads ?tm))"
    using tm_wfD(1) [OF wf] by (simp add: distinct_update)
  show "q \<in> dom (heap ?tm) \<and> known_key ?tm k q" if "(k, q) \<in> set (knownThreads ?tm)" for k q
  proof -
    from that have "map_of (knownThreads ?tm) k = Some q"
      using tm_wfD(1) [OF wf] by (simp add: distinct_update)
    then have "k = key \<and> q = r \<or> (k, q) \<in> set (knownThreads tm)"
      by (auto simp: update_conv split: if_splits dest: map_of_SomeD)
    with assms(2,3) tm_wfD(2) [OF wf, of k q] show ?thesis by (auto simp: known_key_def)
  qed
  show "q \<in> dom (heap ?tm) \<and> m \<in> set (index_ids (deref ?tm q))" if "messageIDIndex ?tm m = Some q" for m q
    using tm_wfD(3) [OF wf, of m q] that by simp
  show "q \<in> dom (heap ?tm)" if "gmailThreadIDIndex ?tm g = Some q" for g q
    using tm_wfD(4) [OF wf, of g q] that by simp
  show "thread_wf (deref ?tm q)" if "q \<in> dom (heap ?tm)" for q
    using tm_wfD(6) [OF wf, of q] that by simp
  show "dom (heap ?tm) \<subseteq> {..< next_ref ?tm}" using tm_wfD(5) [OF wf] by simp
qed

lemma tm_wf_alloc:
  assumes wf: "tm_wf tm" and "alloc th tm = (r, tm')" and id: "thread_wf th"
  shows "tm_wf tm' \<and> r \<in> dom (heap tm') \<and> deref tm' r = th \<and> r \<notin> dom (heap tm)"
proof -
  from assms(2) have r: "r = next_ref tm"
    and tm': "tm' = tm\<lparr>heap := (heap tm)(r \<mapsto> th), next_ref := Suc r\<rparr>" by (auto simp: alloc_def)
  have new: "r \<notin> dom (heap tm)" using tm_wfD(5) [OF wf] r by auto
  have d: "deref tm' q = (if q = r then th else deref tm q)" for q by (simp add: tm' deref_def)
  have f: "knownThreads tm' = knownThreads tm" "messageIDIndex tm' = messageIDIndex tm"
    "gmailThreadIDIndex tm' = gmailThreadIDIndex tm" "dom (heap tm') = insert r (dom (heap tm))"
    "next_ref tm' = Suc r"
    by (auto simp: tm')
  have "tm_wf tm'"
  proof (rule tm_wfI)
    show "distinct (map fst (knownThreads tm'))" using tm_wfD(1) [OF wf] f by simp
    show "q \<in> dom (heap tm') \<and> known_key tm' k q" if "(k, q) \<in> set (knownThreads tm')" for k q
      using tm_wfD(2) [OF wf, of k q] that new by (auto simp: known_key_def d f)
    show "q \<in> dom (heap tm') \<and> m \<in> set (index_ids (deref tm' q))" if "messageIDIndex tm' m = Some q" for m q
      using tm_wfD(3) [OF wf, of m q] that new by (auto simp: d f)
    show "q \<in> dom (heap tm')" if "gmailThreadIDIndex tm' g = Some q" for g q
      using tm_wfD(4) [OF wf, of g q] that by (auto simp: f)
    show "thread_wf (deref tm' q)" if "q \<in> dom (heap tm')" for q
      using tm_wfD(6) [OF wf, of q] that id by (auto simp: d f)
    show "dom (heap tm') \<subseteq> {..< next_ref tm'}" using tm_wfD(5) [OF wf] r by (auto simp: f)
  qed
  with d new f show ?thesis by auto
qed

lemma tm_wf_get:
  assumes "tm_wf tm" and "GetThreadByID now receiver tid tm = (res, tm')"
  shows "tm_wf tm' \<and> dom (heap tm') = dom (heap tm) \<and> (\<forall>r. res = Some r \<longrightarrow> r \<in> dom (heap tm'))"
proof -
  let ?c = "cleanupExpiredThreadsIfNeeded now tm"
  have wf: "tm_wf ?c" using assms(1) by (rule tm_wf_cleanup)
  have in_heap: "r \<in> dom (heap ?c)" if "map_of (knownThreads ?c) k = Some r" for k r
    using tm_wfD(2) [OF wf] map_of_SomeD [OF that] by blast
  have touched: "tm_wf (touch now r ?c) \<and> dom (heap (touch now r ?c)) = dom (heap tm) \<and> r \<in> dom (heap (touch now r ?c))"
    if "map_of (knownThreads ?c) k = Some r" for k r
    using tm_wf_touch [OF wf in_heap [OF that]] in_heap [OF that] by (auto simp: touch_def)
  show ?thesis
  proof (cases "map_of (knownThreads ?c) (scoped receiver tid)")
    case (Some r)
    with assms(2) touched [OF Some] show ?thesis by (auto simp: GetThreadByID_def Let_def)
  next
    case None
    show ?thesis
    proof (cases "map_of (knownThreads ?c) tid")
      case (Some r)
      with assms(2) None touched [OF Some] show ?thesis by (auto simp: GetThreadByID_def Let_def)
    next
      case None2: None
      with assms(2) None wf show ?thesis by (auto simp: GetThreadByID_def Let_def)
    qed
  qed
qed

lemma tm_wf_cache:
  assumes wf: "tm_wf tm" and r: "\<And>q. thread = Some q \<Longrightarrow> q \<in> dom (heap tm)"
  shows "tm_wf (cacheThread ord now receiver thread tm)"
proof (cases "\<exists>q. thread = Some q \<and> ThreadID (deref tm q) \<noteq> []")
  case True
  then obtain q where q: "thread = Some q" "ThreadID (deref tm q) \<noteq> []" by blast
  let ?t = "touch now q tm" and ?key = "scoped receiver (ThreadID (deref tm q))"
  have h: "q \<in> dom (heap ?t)" by (simp add: touch_def)
  have "tm_wf ?t" using wf r q by (simp add: tm_wf_touch)
  moreover have "known_key ?t ?key q" by (auto simp: known_key_def)
  ultimately have "tm_wf (?t\<lparr>knownThreads := AList.update ?key q (knownThreads ?t)\<rparr>)"
    using h by (intro tm_wf_known)
  then show ?thesis
    using q h by (simp add: cacheThread_def Let_def tm_wf_limit tm_wf_index del: touch_fields)
next
  case False
  with wf show ?thesis by (auto simp: cacheThread_def split: option.split)
qed

lemma tm_wf_merge:
  assumes wf: "tm_wf tm" and r: "r \<in> dom (heap tm)" and a: "addToExistingThread env r e tm = (q, tm')"
  shows "tm_wf tm' \<and> q \<in> dom (heap tm')"
proof -
  have "tm_wf (store r (merge_email (parse_addr env) (range_addrs env) e (deref tm r)) tm)"
    by (rule tm_wf_store [OF wf r merge_email_fields(1) index_ids_merge thread_wf_merge [OF tm_wfD(6) [OF wf r]]])
  with a show ?thesis by (auto simp: addToExistingThread_def)
qed

lemma new_thread_ThreadID: "ThreadID (new_thread env e) \<noteq> []"
  by (simp add: new_thread_def generateThreadID_def Let_def)

lemma new_thread_wf: "thread_wf (new_thread env e)"
  using new_thread_ThreadID [of env e] by (simp add: thread_wf_def) (simp add: new_thread_def)

lemma tm_wf_create:
  assumes "tm_wf tm" and "createNewThread env e tm = (r, tm')"
  shows "tm_wf tm' \<and> r \<in> dom (heap tm') \<and> r \<notin> dom (heap tm) \<and> deref tm' r = new_thread env e"
proof -
  obtain r1 tm1 where a: "alloc (new_thread env e) tm = (r1, tm1)" by fastforce
  from assms(2) a have r: "r = r1"
    and tm': "tm' = enforce_limit (range_known env)
      (tm1\<lparr>knownThreads := AList.update (ThreadID (new_thread env e)) r1 (knownThreads tm1)\<rparr>)"
    by (auto simp: createNewThread_def Let_def)
  from tm_wf_alloc [OF assms(1) a new_thread_wf] have 1: "tm_wf tm1" "r1 \<in> dom (heap tm1)"
    "deref tm1 r1 = new_thread env e" "r1 \<notin> dom (heap tm)" by blast+
  then have "tm_wf (tm1\<lparr>knownThreads := AList.update (ThreadID (new_thread env e)) r1 (knownThreads tm1)\<rparr>)"
    by (intro tm_wf_known) (simp_all add: known_key_def)
  with 1 r tm' show ?thesis by (simp add: tm_wf_limit)
qed

lemma tm_wf_resolved:
  assumes wf: "tm_wf tm" and res: "resolved_thread env receiver tid e tm = (r, tm')" and id: "tid \<noteq> []"
  shows "tm_wf tm' \<and> r \<in> dom (heap tm')"
proof -
  obtain o1 tm1 where g: "GetThreadByID (clock env) receiver tid tm = (o1, tm1)" by fastforce
  from tm_wf_get [OF wf g] have 1: "tm_wf tm1" and in1: "\<And>q. o1 = Some q \<Longrightarrow> q \<in> dom (heap tm1)" by auto
  show ?thesis
  proof (cases o1)
    case None
    obtain q tm2 where a: "alloc (empty_thread\<lparr>ThreadID := tid, Subject := pe_Subject e\<rparr>) tm1 = (q, tm2)"
      by fastforce
    from tm_wf_alloc [OF 1 a] id have "tm_wf tm2" "q \<in> dom (heap tm2)" by auto
    moreover have "addToExistingThread env q e tm2 = (r, tm')"
      using res g None a by (simp add: resolved_thread_def)
    ultimately show ?thesis by (rule tm_wf_merge)
  next
    case (Some q)
    then have "addToExistingThread env q e tm1 = (r, tm')"
      using res g by (simp add: resolved_thread_def)
    with 1 in1 [OF Some] show ?thesis by (rule tm_wf_merge)
  qed
qed

lemma first_some_Some: "first_some f xs = Some y \<Longrightarrow> \<exists>x \<in> set xs. f x = Some y"
  by (induction xs) (auto split: option.splits)

lemma first_some_None: "first_some f xs = None \<longleftrightarrow> (\<forall>x \<in> set xs. f x = None)"
  by (induction xs) (auto split: option.splits)

lemma resolve_id_nonempty: "first_some (resolve_id env receiver) ids = Some tid \<Longrightarrow> tid \<noteq> []"
  by (drule first_some_Some) (auto simp: resolve_id_def split: option.splits if_splits)

text \<open>The five ways an email finds its thread.\<close>

lemma DetermineThread_cases:
  assumes "DetermineThread env receiver e tm = (r, tm')"
  obtains (forward) "isForwardedMessage e" "createNewThread env e tm = (r, tm')"
    | (resolved) tid where "\<not> isForwardedMessage e"
        "first_some (resolve_id env receiver) (reply_ids e) = Some tid"
        "resolved_thread env receiver tid e tm = (r, tm')"
    | (indexed) q where "\<not> isForwardedMessage e"
        "first_some (resolve_id env receiver) (reply_ids e) = None"
        "first_some (\<lambda>m. findThreadByMessageID m tm) (reply_ids e) = Some q"
        "addToExistingThread env q e tm = (r, tm')"
    | (gmail) q where "\<not> isForwardedMessage e"
        "first_some (resolve_id env receiver) (reply_ids e) = None"
        "first_some (\<lambda>m. findThreadByMessageID m tm) (reply_ids e) = None"
        "findByGmailThreadID receiver (pe_GmailThreadID e) tm = Some q"
        "addToExistingThread env q e tm = (r, tm')"
    | (fresh) "\<not> isForwardedMessage e"
        "first_some (resolve_id env receiver) (reply_ids e) = None"
        "first_some (\<lambda>m. findThreadByMessageID m tm) (reply_ids e) = None"
        "findByGmailThreadID receiver (pe_GmailThreadID e) tm = None"
        "createNewThread env e tm = (r, tm')"
  using assms unfolding DetermineThread_def
  by (auto split: if_splits option.splits simp: findByGmailThreadID_def)

lemma DetermineThread_wf:
  assumes wf: "tm_wf tm" and d: "DetermineThread env receiver e tm = (r, tm')"
  shows "tm_wf tm' \<and> r \<in> dom (heap tm')"
proof -
  have create: ?thesis if "createNewThread env e tm = (r, tm')"
    using tm_wf_create [OF wf that] by blast
  note add = tm_wf_merge [OF wf]
  have m: "q \<in> dom (heap tm)" if "first_some (\<lambda>m. findThreadByMessageID m tm) ids = Some q" for ids q
    using first_some_Some [OF that] tm_wfD(3) [OF wf] by (auto simp: findThreadByMessageID_def)
  have g: "q \<in> dom (heap tm)" if "findByGmailThreadID receiver k tm = Some q" for k q
    using that tm_wfD(4) [OF wf] by (auto simp: findByGmailThreadID_def split: if_splits)
  from d show ?thesis
  proof (cases rule: DetermineThread_cases)
    case forward then show ?thesis by (intro create)
  next
    case (resolved tid) show ?thesis by (rule tm_wf_resolved [OF wf resolved(3) resolve_id_nonempty [OF resolved(2)]])
  next
    case (indexed q) show ?thesis by (rule add [OF m [OF indexed(3)] indexed(4)])
  next
    case (gmail q) show ?thesis by (rule add [OF g [OF gmail(4)] gmail(5)])
  next
    case fresh then show ?thesis by (intro create)
  qed
qed

end
