(* ===== verification/ThreadRuns.thy ===== *)
theory ThreadRuns
  imports ThreadFacts "HOL-Library.Multiset"
begin

text \<open>
  Whole runs of the thread manager: the tables stay sound and bounded whatever arrives, a reply
  lands in the conversation of the message it answers, expiry and eviction remove exactly the
  entries they should, and what a forwarded message does to the index.
\<close>

subsection \<open>Expiry and eviction\<close>

lemma insert_entry_eq:
  "insert_entry at xs e =
     rev (dropWhile (\<lambda>x. at x > at e) (rev xs)) @ e # rev (takeWhile (\<lambda>x. at x > at e) (rev xs))"
proof -
  let ?l = "takeWhile (\<lambda>x. at x > at e) (rev xs)" and ?d = "dropWhile (\<lambda>x. at x > at e) (rev xs)"
  have x: "xs = rev ?d @ rev ?l"
    by (metis rev_append rev_rev_ident takeWhile_dropWhile_id)
  then have "length xs - length ?l = length (rev ?d)"
    by (metis add_diff_cancel_right' length_append length_rev)
  then have "take (length xs - length ?l) xs = rev ?d"
    using x by (metis append_eq_conv_conj)
  then show ?thesis by (simp add: insert_entry_def Let_def)
qed

lemma insert_entry_mset: "mset (insert_entry at xs e) = add_mset e (mset xs)"
  unfolding insert_entry_eq
  by simp (metis add.commute mset_append mset_rev takeWhile_dropWhile_id)

lemma sorted_dropWhile_bound:
  "sorted (map at (rev ys)) \<Longrightarrow> x \<in> set (dropWhile (\<lambda>x. at x > (b :: int)) ys) \<Longrightarrow> at x \<le> b"
proof (induction ys)
  case (Cons y ys)
  from Cons.prems(1) have "sorted (map at (rev ys))" and le: "\<forall>z \<in> set ys. at z \<le> at y"
    by (auto simp: sorted_append)
  with Cons show ?case by (auto split: if_splits)
qed simp

lemma insert_entry_sorted:
  assumes "sorted (map at xs)" shows "sorted (map at (insert_entry at xs e))"
proof -
  let ?l = "takeWhile (\<lambda>x. at x > at e) (rev xs)" and ?d = "dropWhile (\<lambda>x. at x > at e) (rev xs)"
  have "xs = rev ?d @ rev ?l"
    by (metis rev_append rev_rev_ident takeWhile_dropWhile_id)
  then have "sorted (map at (rev ?d) @ map at (rev ?l))" using assms by (metis map_append)
  then have "sorted (map at (rev ?d))" "sorted (map at (rev ?l))"
    "\<forall>x \<in> set ?d. \<forall>y \<in> set ?l. at x \<le> at y"
    by (auto simp: sorted_append)
  moreover have "\<forall>x \<in> set ?d. at x \<le> at e"
    using sorted_dropWhile_bound [of at "rev xs"] assms by auto
  moreover have "\<forall>x \<in> set ?l. at e \<le> at x" by (auto dest: set_takeWhileD)
  ultimately show ?thesis by (auto simp: insert_entry_eq sorted_append)
qed

text \<open>The contract of a sort, and the insertion sort of \<open>evictOldestThreads\<close> under it.\<close>

locale sorter =
  fixes sort_by :: "('a \<Rightarrow> int) \<Rightarrow> 'a list \<Rightarrow> 'a list"
  assumes mset_sort_by: "mset (sort_by at xs) = mset xs"
    and sorted_sort_by: "sorted (map at (sort_by at xs))"
begin

lemma length_sort_by: "length (sort_by at xs) = length xs"
  using mset_sort_by by (metis size_mset)

lemma oldest_first:
  assumes "x \<in> set (take n (sort_by at xs))" and "y \<in> set (drop n (sort_by at xs))"
  shows "at x \<le> at y"
proof -
  have "sorted (map at (take n (sort_by at xs)) @ map at (drop n (sort_by at xs)))"
    by (metis append_take_drop_id map_append sorted_sort_by)
  with assms show ?thesis by (auto simp: sorted_append)
qed

lemma set_take_drop: "set xs = set (take n (sort_by at xs)) \<union> set (drop n (sort_by at xs))"
  using mset_sort_by by (metis append_take_drop_id set_append set_mset_mset)

lemma distinct_sort_by: "distinct (map f xs) \<Longrightarrow> distinct (map f (sort_by at xs))"
  using mset_sort_by [of at xs] by (metis mset_eq_imp_distinct_iff mset_map)

end

lemma sort_entries_foldl:
  "sorted (map at ys) \<Longrightarrow>
     sorted (map at (foldl (insert_entry at) ys xs)) \<and> mset (foldl (insert_entry at) ys xs) = mset ys + mset xs"
  by (induction xs arbitrary: ys) (simp_all add: insert_entry_sorted insert_entry_mset)

interpretation eviction: sorter sort_entries
  by unfold_locales (simp_all add: sort_entries_def sort_entries_foldl)

definition entry_age :: "thread_manager \<Rightarrow> gostring \<Rightarrow> int" where
  "entry_age tm k = (case map_of (knownThreads tm) k of Some r \<Rightarrow> LastAccessed (deref tm r) | None \<Rightarrow> 0)"

definition known_keys :: "thread_manager \<Rightarrow> gostring set" where
  "known_keys tm = fst ` set (knownThreads tm)"

lemma known_keys_drop: "known_keys (fold drop_known ks tm) = known_keys tm - set ks"
  by (auto simp: known_keys_def)

lemma evict_lemma:
  assumes wf: "tm_wf tm" and ord: "map_order ord" and n: "n < length (knownThreads tm)"
  shows "\<exists>K. known_keys (evictOldestThreads ord n tm) = known_keys tm - K \<and>
    K \<subseteq> known_keys tm \<and> card K = n \<and> (\<forall>k \<in> K. \<forall>k' \<in> known_keys tm - K. entry_age tm k \<le> entry_age tm k')"
proof -
  note o = map_orderD [OF ord]
  note dist = tm_wfD(1) [OF wf]
  define es where "es = map (\<lambda>(k, r). (k, LastAccessed (deref tm r))) (ord (knownThreads tm))"
  define s where "s = sort_entries snd es"
  let ?K = "set (map fst (take n s))"
  have dk: "distinct (ord (knownThreads tm))" using dist o(2) distinct_map by blast
  have fst_es: "map fst es = map fst (ord (knownThreads tm))"
    by (simp add: es_def comp_def case_prod_unfold)
  have "inj_on fst (set (ord (knownThreads tm)))" using dist o(1) by (metis distinct_map)
  then have des: "distinct (map fst es)" using dk fst_es by (simp add: distinct_map)
  then have ds: "distinct (map fst s)" unfolding s_def by (rule eviction.distinct_sort_by)
  have keys: "fst ` set es = known_keys tm"
    by (metis fst_es known_keys_def list.set_map o(1))
  have age: "snd e = entry_age tm (fst e)" if "e \<in> set es" for e
    using that dist o(1) by (auto simp: es_def entry_age_def)
  have ev: "evictOldestThreads ord n tm = fold drop_known (map fst (take n s)) tm"
    using n by (simp add: evictOldestThreads_def Let_def s_def es_def)
  have set_s: "set es = set (take n s) \<union> set (drop n s)"
    unfolding s_def by (rule eviction.set_take_drop)
  have len: "length s = length (knownThreads tm)"
  proof -
    have "length es = length (ord (knownThreads tm))" by (simp add: es_def)
    also have "\<dots> = length (knownThreads tm)"
      using dk o(1) dist by (metis distinct_card distinct_map)
    finally show ?thesis by (simp add: s_def eviction.length_sort_by)
  qed
  have "distinct (map fst (take n s))" using ds by (metis distinct_take take_map)
  then have "card ?K = n" using n len distinct_card by fastforce
  moreover have "?K \<subseteq> known_keys tm" using keys set_s by auto
  moreover have "entry_age tm k \<le> entry_age tm k'"
    if k: "k \<in> ?K" and k': "k' \<in> known_keys tm - ?K" for k k'
  proof -
    from k obtain x where x: "x \<in> set (take n s)" "k = fst x" by auto
    from k' keys obtain y where y: "y \<in> set es" "k' = fst y" by (metis DiffD1 imageE)
    with k' set_s have "y \<in> set (drop n s)" by auto
    with x have "snd x \<le> snd y" unfolding s_def by (metis eviction.oldest_first)
    then show ?thesis using age x y set_s by auto
  qed
  ultimately show ?thesis using known_keys_drop ev by (metis (no_types, lifting))
qed

text \<open>
  When the cache is over its limit, eviction removes exactly the requested number of entries
  and none of them was used later than an entry it keeps.
\<close>

theorem evictOldestThreads_oldest:
  assumes "tm_wf tm" and "map_order ord" and "n < length (knownThreads tm)"
  shows "\<exists>K. known_keys (evictOldestThreads ord n tm) = known_keys tm - K \<and>
    K \<subseteq> known_keys tm \<and> card K = n \<and> (\<forall>k \<in> K. \<forall>k' \<in> known_keys tm - K. entry_age tm k \<le> entry_age tm k')"
  by (rule evict_lemma [OF assms])

theorem evictOldestThreads_oldest_witness:
  "\<exists>tm. tm_wf tm \<and> 1 < length (knownThreads tm) \<and>
     (\<exists>K. known_keys (evictOldestThreads rev 1 tm) = known_keys tm - K \<and> card K = 1)"
proof -
  define tm where "tm = (NewThreadManager 0)\<lparr>
    heap := [0 \<mapsto> empty_thread\<lparr>ThreadID := ''a'', LastAccessed := 5\<rparr>, 1 \<mapsto> empty_thread\<lparr>ThreadID := ''b''\<rparr>],
    next_ref := 2, knownThreads := [(''a'', 0), (''b'', 1)]\<rparr>"
  have wf: "tm_wf tm"
    by (auto simp: tm_wf_def thread_wf_def tm_def NewThreadManager_def known_key_def deref_def empty_thread_def
        split: if_splits)
  have len: "1 < length (knownThreads tm)" by (simp add: tm_def)
  from evictOldestThreads_oldest [OF wf map_order_rev len] wf len show ?thesis by blast
qed

lemma removeFrom_deref [simp]: "deref (removeFromMessageIDIndex r tm) = deref tm"
  by (simp add: deref_def fun_eq_iff)

definition answers :: "thread_manager \<Rightarrow> gostring \<Rightarrow> gostring \<Rightarrow> bool" where
  "answers tm k m = (\<exists>r. map_of (knownThreads tm) k = Some r \<and> m \<in> set (index_ids (deref tm r)))"

lemma messageIDIndex_drop_known:
  "messageIDIndex (drop_known k tm) m = (if answers tm k m then None else messageIDIndex tm m)"
  by (auto simp: answers_def drop_known_def Let_def split: option.split)

lemma answers_drop_known: "answers (drop_known k tm) k' m \<longleftrightarrow> k' \<noteq> k \<and> answers tm k' m"
  by (simp add: answers_def delete_conv)

lemma messageIDIndex_fold_drop:
  "messageIDIndex (fold drop_known ks tm) m =
     (if \<exists>k \<in> set ks. answers tm k m then None else messageIDIndex tm m)"
proof (induction ks arbitrary: tm)
  case (Cons k ks)
  have "(\<exists>k' \<in> set (k # ks). answers tm k' m) \<longleftrightarrow>
      answers tm k m \<or> (\<exists>k' \<in> set ks. k' \<noteq> k \<and> answers tm k' m)"
    by auto
  then show ?case
    unfolding fold_simps Cons.IH messageIDIndex_drop_known answers_drop_known by (cases "answers tm k m") auto
qed simp

text \<open>
  The hourly clean-up removes exactly the entries whose thread was last used more than the
  time to live ago, with every message ID they answered for, and between two clean-ups nothing is
  removed.
\<close>

theorem cleanup_exact:
  assumes "tm_wf tm"
  shows "knownThreads (cleanupExpiredThreadsIfNeeded now tm) =
      (if now - lastCleanup tm < hour then knownThreads tm
       else filter (\<lambda>(k, r). now - threadCacheTTL \<le> LastAccessed (deref tm r)) (knownThreads tm)) \<and>
    messageIDIndex (cleanupExpiredThreadsIfNeeded now tm) m =
      (if hour \<le> now - lastCleanup tm \<and>
          (\<exists>(k, r) \<in> set (knownThreads tm). LastAccessed (deref tm r) < now - threadCacheTTL \<and>
             m \<in> set (index_ids (deref tm r)))
       then None else messageIDIndex tm m)"
proof -
  note dist = tm_wfD(1) [OF assms]
  let ?old = "\<lambda>r. LastAccessed (deref tm r) < now - threadCacheTTL"
  let ?ks = "map fst (filter (\<lambda>(k, r). ?old r) (knownThreads tm))"
  have key: "k \<in> set ?ks \<longleftrightarrow> ?old r" if "(k, r) \<in> set (knownThreads tm)" for k r
  proof
    assume "k \<in> set ?ks"
    then obtain r' where r': "(k, r') \<in> set (knownThreads tm)" "?old r'" by auto
    with eq_key_imp_eq_value [OF dist that r'(1)] show "?old r" by simp
  next
    assume "?old r"
    with that show "k \<in> set ?ks" by force
  qed
  have "filter (\<lambda>e. fst e \<notin> set ?ks) (knownThreads tm) =
      filter (\<lambda>(k, r). now - threadCacheTTL \<le> LastAccessed (deref tm r)) (knownThreads tm)"
  proof (rule filter_cong [OF refl])
    fix e assume "e \<in> set (knownThreads tm)"
    then show "(fst e \<notin> set ?ks) = (case e of (k, r) \<Rightarrow> now - threadCacheTTL \<le> LastAccessed (deref tm r))"
      using key [of "fst e" "snd e"] by (simp only: prod.collapse case_prod_unfold not_less)
  qed
  moreover have "(\<exists>k \<in> set ?ks. answers tm k m) \<longleftrightarrow>
      (\<exists>(k, r) \<in> set (knownThreads tm). ?old r \<and> m \<in> set (index_ids (deref tm r)))"
  proof
    assume "\<exists>k \<in> set ?ks. answers tm k m"
    then obtain k r where "k \<in> set ?ks" "(k, r) \<in> set (knownThreads tm)" "m \<in> set (index_ids (deref tm r))"
      unfolding answers_def by (metis map_of_SomeD)
    then show "\<exists>(k, r) \<in> set (knownThreads tm). ?old r \<and> m \<in> set (index_ids (deref tm r))"
      using key by blast
  next
    assume "\<exists>(k, r) \<in> set (knownThreads tm). ?old r \<and> m \<in> set (index_ids (deref tm r))"
    then obtain k r where kr: "(k, r) \<in> set (knownThreads tm)" "?old r" "m \<in> set (index_ids (deref tm r))"
      by blast
    then have "answers tm k m" using dist by (simp add: answers_def)
    with key [OF kr(1)] kr(2) show "\<exists>k \<in> set ?ks. answers tm k m" by blast
  qed
  moreover have "answers (tm\<lparr>lastCleanup := now\<rparr>) k m = answers tm k m" for k by (simp add: answers_def)
  ultimately show ?thesis
    by (simp add: cleanupExpiredThreadsIfNeeded_def Let_def messageIDIndex_fold_drop del: set_map)
qed

theorem cleanup_exact_witness:
  "\<exists>tm. tm_wf tm \<and> knownThreads tm = [(''a'', 0), (''b'', 1)] \<and>
     knownThreads (cleanupExpiredThreadsIfNeeded (30 * hour) tm) = [(''a'', 0)]"
proof -
  define tm where "tm = (NewThreadManager 0)\<lparr>
    heap := [0 \<mapsto> empty_thread\<lparr>ThreadID := ''a'', LastAccessed := 20 * hour\<rparr>, 1 \<mapsto> empty_thread\<lparr>ThreadID := ''b''\<rparr>],
    next_ref := 2, knownThreads := [(''a'', 0), (''b'', 1)]\<rparr>"
  have wf: "tm_wf tm"
    by (auto simp: tm_wf_def thread_wf_def tm_def NewThreadManager_def known_key_def deref_def empty_thread_def
        split: if_splits)
  have "knownThreads (cleanupExpiredThreadsIfNeeded (30 * hour) tm) = [(''a'', 0)]"
    using cleanup_exact [OF wf, of "30 * hour" "''m''"]
    by (simp add: tm_def NewThreadManager_def hour_def threadCacheTTL_def deref_def empty_thread_def)
  with wf show ?thesis by (intro exI [of _ tm]) (simp add: tm_def)
qed

subsection \<open>Soundness of every run\<close>

fun tm_event_ok :: "tm_event \<Rightarrow> bool" where
  "tm_event_ok (Incoming env receiver e) = map_order (range_known env)"
| "tm_event_ok (Lookup now receiver tid) = True"

definition tm_inv :: "thread_manager \<Rightarrow> bool" where
  "tm_inv tm \<longleftrightarrow> tm_wf tm \<and> length (knownThreads tm) \<le> maxCachedThreads"

lemma length_alist_update: "length (AList.update k v xs) \<le> Suc (length xs)"
  by (induction xs) auto

lemma known_keys_card: "tm_wf tm \<Longrightarrow> length (knownThreads tm) = card (known_keys tm)"
  unfolding known_keys_def using tm_wfD(1) by (metis distinct_card length_map list.set_map)

lemma enforce_limit_bound:
  assumes wf: "tm_wf tm" and ord: "map_order ord" and n: "length (knownThreads tm) \<le> Suc maxCachedThreads"
  shows "length (knownThreads (enforce_limit ord tm)) \<le> maxCachedThreads"
proof (cases "maxCachedThreads < length (knownThreads tm)")
  case True
  have less: "maxCachedThreads div 4 < length (knownThreads tm)" using True by linarith
  obtain K where K: "known_keys (enforce_limit ord tm) = known_keys tm - K" "K \<subseteq> known_keys tm"
    "card K = maxCachedThreads div 4"
    using evict_lemma [OF wf ord less] True by (auto simp: enforce_limit_def)
  have "finite (known_keys tm)" by (simp add: known_keys_def)
  then have "card (known_keys tm - K) = card (known_keys tm) - maxCachedThreads div 4"
    using K by (metis card_Diff_subset finite_subset)
  then have "length (knownThreads (enforce_limit ord tm)) = length (knownThreads tm) - maxCachedThreads div 4"
    using K(1) wf tm_wf_limit known_keys_card by metis
  with n show ?thesis by (simp add: maxCachedThreads_def)
qed (simp add: enforce_limit_def)

lemma length_knownThreads_cleanup:
  "length (knownThreads (cleanupExpiredThreadsIfNeeded now tm)) \<le> length (knownThreads tm)"
  by (simp add: cleanupExpiredThreadsIfNeeded_def Let_def)

lemma tm_inv_get:
  assumes "tm_inv tm" and "GetThreadByID now receiver tid tm = (res, tm')"
  shows "tm_inv tm'"
proof -
  have "knownThreads tm' = knownThreads (cleanupExpiredThreadsIfNeeded now tm)"
    using assms(2) by (auto simp: GetThreadByID_def Let_def split: option.splits)
  with assms tm_wf_get length_knownThreads_cleanup [of now tm] show ?thesis
    unfolding tm_inv_def by (metis le_trans)
qed

lemma tm_inv_cache:
  assumes inv: "tm_inv tm" and ord: "map_order ord" and r: "q \<in> dom (heap tm)"
  shows "tm_inv (cacheThread ord now receiver (Some q) tm)"
proof -
  have wf: "tm_wf tm" using inv by (simp add: tm_inv_def)
  let ?t = "touch now q tm" and ?key = "scoped receiver (ThreadID (deref tm q))"
  let ?k = "?t\<lparr>knownThreads := AList.update ?key q (knownThreads ?t)\<rparr>"
  have h: "q \<in> dom (heap ?t)" by (simp add: touch_def)
  have "known_key ?t ?key q" by (auto simp: known_key_def)
  with tm_wf_touch [OF wf r] h have "tm_wf ?k" by (intro tm_wf_known)
  then have wf2: "tm_wf (updateMessageIDIndex receiver q ?k)"
    using h by (intro tm_wf_index) simp_all
  have "length (knownThreads (updateMessageIDIndex receiver q ?k)) \<le> Suc maxCachedThreads"
    using inv length_alist_update [of ?key q "knownThreads tm"]
    by (simp add: updateMessageIDIndex_def Let_def tm_inv_def)
  from enforce_limit_bound [OF wf2 ord this] tm_wf_limit [OF wf2]
  have "tm_inv (enforce_limit ord (updateMessageIDIndex receiver q ?k))" by (simp add: tm_inv_def)
  with inv show ?thesis by (simp add: cacheThread_def Let_def)
qed

lemma tm_inv_create:
  assumes inv: "tm_inv tm" and ord: "map_order (range_known env)"
    and c: "createNewThread env e tm = (r, tm')"
  shows "tm_inv tm'"
proof -
  obtain r1 tm1 where a: "alloc (new_thread env e) tm = (r1, tm1)" by fastforce
  let ?k = "tm1\<lparr>knownThreads := AList.update (ThreadID (new_thread env e)) r1 (knownThreads tm1)\<rparr>"
  from c a have tm': "tm' = enforce_limit (range_known env) ?k"
    by (auto simp: createNewThread_def Let_def)
  have wf: "tm_wf tm" using inv by (simp add: tm_inv_def)
  from tm_wf_alloc [OF wf a new_thread_wf] have 1: "tm_wf tm1" "r1 \<in> dom (heap tm1)"
    "deref tm1 r1 = new_thread env e" by blast+
  then have wf1: "tm_wf ?k" by (intro tm_wf_known) (simp_all add: known_key_def)
  have "knownThreads tm1 = knownThreads tm" using a by (auto simp: alloc_def)
  then have "length (knownThreads ?k) \<le> Suc maxCachedThreads"
    using inv length_alist_update [of "ThreadID (new_thread env e)" r1 "knownThreads tm"]
    by (simp add: tm_inv_def)
  from enforce_limit_bound [OF wf1 ord this] tm_wf_limit [OF wf1] tm' show ?thesis
    by (simp add: tm_inv_def)
qed

lemma knownThreads_merge:
  "addToExistingThread env q e tm = (r, tm') \<Longrightarrow> knownThreads tm' = knownThreads tm"
  by (auto simp: addToExistingThread_def)

lemma tm_inv_resolved:
  assumes inv: "tm_inv tm" and res: "resolved_thread env receiver tid e tm = (r, tm')" and id: "tid \<noteq> []"
  shows "tm_inv tm'"
proof -
  obtain o1 tm1 where g: "GetThreadByID (clock env) receiver tid tm = (o1, tm1)" by fastforce
  have inv1: "tm_inv tm1" by (rule tm_inv_get [OF inv g])
  have "knownThreads tm' = knownThreads tm1"
    using res g by (auto simp: resolved_thread_def alloc_def Let_def split: option.splits
        dest: knownThreads_merge)
  with inv1 tm_wf_resolved [OF _ res id] inv show ?thesis by (simp add: tm_inv_def)
qed

lemma tm_inv_determine:
  assumes inv: "tm_inv tm" and ord: "map_order (range_known env)"
    and d: "DetermineThread env receiver e tm = (r, tm')"
  shows "tm_inv tm'"
proof -
  have wf: "tm_wf tm" using inv by (simp add: tm_inv_def)
  have wf': "tm_wf tm'" using DetermineThread_wf [OF wf d] by blast
  from d show ?thesis
  proof (cases rule: DetermineThread_cases)
    case forward then show ?thesis using tm_inv_create [OF inv ord] by blast
  next
    case (resolved tid) show ?thesis
      by (rule tm_inv_resolved [OF inv resolved(3) resolve_id_nonempty [OF resolved(2)]])
  next
    case (indexed q) with knownThreads_merge wf' inv show ?thesis unfolding tm_inv_def by metis
  next
    case (gmail q) with knownThreads_merge wf' inv show ?thesis unfolding tm_inv_def by metis
  next
    case fresh then show ?thesis using tm_inv_create [OF inv ord] by blast
  qed
qed

lemma tm_step_inv:
  assumes "tm_inv tm" and "tm_event_ok ev" and "tm_step ev tm = (tm', out)"
  shows "tm_inv tm'"
proof (cases ev)
  case (Incoming env receiver e)
  obtain r tm1 where d: "DetermineThread env receiver e tm = (r, tm1)" by fastforce
  have "tm_inv tm1" "r \<in> dom (heap tm1)"
    using tm_inv_determine [OF assms(1) _ d] DetermineThread_wf [OF _ d] assms(1,2) Incoming
    by (simp_all add: tm_inv_def)
  then have "tm_inv (cacheThread (range_known env) (clock env) receiver (Some r) tm1)"
    using assms(2) Incoming by (intro tm_inv_cache) simp_all
  with assms(3) Incoming d show ?thesis by (auto simp: thread_incoming_def)
next
  case (Lookup now receiver tid)
  with assms tm_inv_get show ?thesis by (auto split: prod.splits)
qed

lemma tm_inv_incoming:
  assumes "tm_inv tm" and "map_order (range_known env)"
  shows "tm_inv (snd (thread_incoming env receiver e tm))"
  by (rule tm_step_inv [of tm "Incoming env receiver e" _ "Some (fst (thread_incoming env receiver e tm))"])
     (use assms in \<open>simp_all add: case_prod_unfold Let_def\<close>)

interpretation threads: machine tm_step tm_event_ok tm_inv
  by unfold_locales (rule tm_step_inv)

lemma tm_inv_init: "tm_inv (NewThreadManager now)"
  by (simp add: tm_inv_def tm_wf_def NewThreadManager_def)

text \<open>
  C4: from an empty manager, after any sequence of inbound emails and lookups, for any receivers,
  clocks, resolvers and map orders: every table entry refers to an allocated thread under its own
  thread ID, every message ID in the index belongs to the thread it leads to, keys are unique, and
  the cache holds at most 10000 entries.
\<close>

theorem thread_tables_sound:
  assumes "list_all tm_event_ok es"
  shows "tm_wf (fst (run_steps tm_step es (NewThreadManager now))) \<and>
    length (knownThreads (fst (run_steps tm_step es (NewThreadManager now)))) \<le> 10000"
  using threads.run_inv_fst [OF tm_inv_init assms, of now] by (simp add: tm_inv_def maxCachedThreads_def)

definition plain_env :: "int \<Rightarrow> thread_env" where
  "plain_env now = \<lparr>parse_addr = plain_parse, fmt_stamp = (\<lambda>_. ''stamp''), range_addrs = (\<lambda>xs. xs),
     range_known = (\<lambda>xs. xs), clock = now, resolver = None\<rparr>"

theorem thread_tables_sound_witness:
  "tm_wf (fst (run_steps tm_step [Incoming (plain_env 1) ''me'' (mail ''m1'' [] [] ''ann@x.org''),
     Incoming (plain_env 2) ''me'' (mail ''m2'' ''m1'' [] ''bob@x.org''), Lookup 3 ''me'' ''m1'']
     (NewThreadManager 0)))"
  using thread_tables_sound [of "[Incoming (plain_env 1) ''me'' (mail ''m1'' [] [] ''ann@x.org''),
     Incoming (plain_env 2) ''me'' (mail ''m2'' ''m1'' [] ''bob@x.org''), Lookup 3 ''me'' ''m1'']" 0]
  by (simp only: list.pred_inject tm_event_ok.simps plain_env_def thread_env.select_convs map_order_id simp_thms)

subsection \<open>Replies\<close>

lemma enforce_limit_id: "length (knownThreads tm) \<le> maxCachedThreads \<Longrightarrow> enforce_limit ord tm = tm"
  by (simp add: enforce_limit_def)

lemma cacheThread_finds:
  assumes id: "ThreadID (deref tm q) \<noteq> []" and room: "length (knownThreads tm) < maxCachedThreads"
    and m: "m \<in> set (index_ids (deref tm q))"
  shows "findThreadByMessageID m (cacheThread ord now receiver (Some q) tm) = Some q"
proof -
  let ?t = "touch now q tm" and ?key = "scoped receiver (ThreadID (deref tm q))"
  let ?k = "?t\<lparr>knownThreads := AList.update ?key q (knownThreads ?t)\<rparr>"
  let ?u = "updateMessageIDIndex receiver q ?k"
  have "knownThreads ?u = AList.update ?key q (knownThreads tm)"
    by (simp add: updateMessageIDIndex_def Let_def)
  then have "length (knownThreads ?u) \<le> maxCachedThreads"
    using room length_alist_update [of ?key q "knownThreads tm"] by simp
  then have "cacheThread ord now receiver (Some q) tm = ?u"
    using id by (simp add: cacheThread_def Let_def enforce_limit_id)
  moreover have "messageIDIndex ?u m = Some q"
    using m by (simp add: updateMessageIDIndex_def Let_def fold_put)
  ultimately show ?thesis by (simp add: findThreadByMessageID_def)
qed

lemma index_ids_new:
  "set (index_ids (new_thread env e)) =
     {ThreadID (new_thread env e)} \<union> (set (pe_References e) - {[]}) \<union>
     (if pe_MessageID e = [] then {} else {pe_MessageID e})"
  using new_thread_ThreadID [of env e] by (auto simp: index_ids_def new_thread_def)

lemma createNewThread_fresh:
  assumes "tm_wf tm" and "createNewThread env e tm = (r, tm')"
  shows "r \<notin> dom (heap tm) \<and> deref tm' r = new_thread env e"
  using tm_wf_create [OF assms] by blast

lemma addTo_has_id:
  assumes "addToExistingThread env q e tm = (r, tm')" and "pe_MessageID e \<noteq> []"
  shows "pe_MessageID e \<in> set (index_ids (deref tm' r))"
  using assms by (auto simp: addToExistingThread_def index_ids_def merge_email_fields)

lemma DetermineThread_has_id:
  assumes wf: "tm_wf tm" and d: "DetermineThread env receiver e tm = (r, tm')" and id: "pe_MessageID e \<noteq> []"
  shows "pe_MessageID e \<in> set (index_ids (deref tm' r))"
proof -
  have create: ?thesis if "createNewThread env e tm = (r, tm')"
    using createNewThread_fresh [OF wf that] id by (simp add: index_ids_new)
  from d show ?thesis
  proof (cases rule: DetermineThread_cases)
    case forward then show ?thesis by (intro create)
  next
    case (resolved tid)
    then obtain q tm0 where "addToExistingThread env q e tm0 = (r, tm')"
      by (auto simp: resolved_thread_def split: prod.splits option.splits)
    then show ?thesis using addTo_has_id id by blast
  next
    case (indexed q) show ?thesis by (rule addTo_has_id [OF indexed(4) id])
  next
    case (gmail q) show ?thesis by (rule addTo_has_id [OF gmail(5) id])
  next
    case fresh then show ?thesis by (intro create)
  qed
qed

lemma createNewThread_room:
  "length (knownThreads tm) < maxCachedThreads \<Longrightarrow> createNewThread env e tm = (r, tm') \<Longrightarrow>
     length (knownThreads tm') \<le> Suc (length (knownThreads tm))"
  using length_alist_update [of "ThreadID (new_thread env e)" "next_ref tm" "knownThreads tm"]
  by (auto simp: createNewThread_def alloc_def Let_def enforce_limit_id)

lemma DetermineThread_room:
  assumes room: "length (knownThreads tm) < maxCachedThreads" and d: "DetermineThread env receiver e tm = (r, tm')"
  shows "length (knownThreads tm') \<le> Suc (length (knownThreads tm))"
  using d
proof (cases rule: DetermineThread_cases)
  case forward then show ?thesis using createNewThread_room [OF room] by blast
next
  case (resolved tid)
  obtain o1 tm1 where g: "GetThreadByID (clock env) receiver tid tm = (o1, tm1)" by fastforce
  have "knownThreads tm' = knownThreads tm1"
    using resolved(3) g by (auto simp: resolved_thread_def alloc_def Let_def split: option.splits
        dest: knownThreads_merge)
  also have "\<dots> = knownThreads (cleanupExpiredThreadsIfNeeded (clock env) tm)"
    using g by (auto simp: GetThreadByID_def Let_def split: option.splits)
  finally show ?thesis using length_knownThreads_cleanup [of "clock env" tm] by simp
next
  case (indexed q) then show ?thesis by (simp add: knownThreads_merge)
next
  case (gmail q) then show ?thesis by (simp add: knownThreads_merge)
next
  case fresh then show ?thesis using createNewThread_room [OF room] by blast
qed

lemma thread_incoming_finds:
  assumes wf: "tm_wf tm" and room: "length (knownThreads tm) + 1 < maxCachedThreads"
    and inc: "thread_incoming env receiver e tm = (r, tm1)"
    and d: "DetermineThread env receiver e tm = (q, tm0)" and m: "m \<in> set (index_ids (deref tm0 q))"
  shows "r = q \<and> findThreadByMessageID m tm1 = Some r"
proof -
  have "ThreadID (deref tm0 q) \<noteq> []" using DetermineThread_wf [OF wf d] tm_wfD(6) thread_wf_def by blast
  moreover have "length (knownThreads tm0) < maxCachedThreads"
    using DetermineThread_room [OF _ d] room by simp
  ultimately show ?thesis
    using inc d cacheThread_finds [OF _ _ m] by (auto simp: thread_incoming_def)
qed



subsection \<open>Forwards\<close>

text \<open>
  An email taken for a forward always gets a thread of its own, and from then on every
  message ID it references leads to that thread: later replies to the forwarded conversation are
  filed under the forward, not under the conversation they answer.
\<close>

theorem forward_takes_over_references:
  assumes "tm_wf tm" and "length (knownThreads tm) + 1 < maxCachedThreads"
    and "thread_incoming env receiver e tm = (r, tm1)" and "isForwardedMessage e"
    and "m \<in> set (pe_References e)" and "m \<noteq> []"
  shows "r \<notin> dom (heap tm) \<and> findThreadByMessageID m tm1 = Some r"
proof -
  obtain q tm0 where d: "DetermineThread env receiver e tm = (q, tm0)" by fastforce
  then have c: "createNewThread env e tm = (q, tm0)" using assms(4) by (simp add: DetermineThread_def)
  have "m \<in> set (index_ids (deref tm0 q))"
    using createNewThread_fresh [OF assms(1) c] assms(5,6) by (simp add: index_ids_new)
  from thread_incoming_finds [OF assms(1-3) d this] createNewThread_fresh [OF assms(1) c]
  show ?thesis by blast
qed

theorem forward_takes_over_references_witness:
  "let e = (mail ''f1'' [] [''m1''] ''ann@x.org'')\<lparr>pe_Subject := ''Fwd: Plans''\<rparr>;
       (r, tm) = thread_incoming (plain_env 1) ''me'' e (NewThreadManager 0)
   in isForwardedMessage e \<and> findThreadByMessageID ''m1'' tm = Some r"
proof -
  let ?e = "(mail ''f1'' [] [''m1''] ''ann@x.org'')\<lparr>pe_Subject := ''Fwd: Plans''\<rparr>"
  have wf: "tm_wf (NewThreadManager 0)" using tm_inv_init by (simp add: tm_inv_def)
  have room: "length (knownThreads (NewThreadManager 0)) + 1 < maxCachedThreads"
    by (simp add: NewThreadManager_def maxCachedThreads_def)
  have f: "isForwardedMessage ?e"
    by (simp add: isForwardedMessage_def Let_def to_lower_def lower_char_def
        char_of_def bit_iff_odd trim_space_graphic graphic_def)
  have m: "''m1'' \<in> set (pe_References ?e)" "''m1'' \<noteq> []" by (simp_all add: mail_def)
  from forward_takes_over_references [OF wf room prod.collapse [symmetric] f m, of "plain_env 1" "''me''"] f
  show ?thesis by (simp add: case_prod_unfold)
qed

text \<open>
  A reply whose body quotes its parent under the separator Outlook writes in every reply is
  taken for a forward, so it starts a new thread even when its In-Reply-To is known.
\<close>

theorem outlook_reply_starts_new_thread:
  assumes "tm_wf tm" and "pe_TextContent e = u @ ''-----Original Message-----'' @ v"
    and "thread_incoming env receiver e tm = (r, tm1)"
  shows "isForwardedMessage e \<and> r \<notin> dom (heap tm)"
proof -
  have "contains_sub (to_lower (pe_TextContent e @ '' '' @ pe_HTMLContent e))
      (to_lower ''-----Original Message-----'')"
    unfolding assms(2) by (rule contains_sub_to_lower) (simp add: contains_sub_iff; metis append.assoc)
  moreover have "to_lower ''-----Original Message-----'' = ''-----original message-----''"
    by (simp add: to_lower_def lower_char_def char_of_def bit_iff_odd)
  ultimately have f: "isForwardedMessage e" by (simp add: isForwardedMessage_def Let_def)
  obtain q tm0 where d: "DetermineThread env receiver e tm = (q, tm0)" by fastforce
  then have "createNewThread env e tm = (q, tm0)" using f by (simp add: DetermineThread_def)
  with createNewThread_fresh [OF assms(1)] assms(3) d f show ?thesis
    by (auto simp: thread_incoming_def)
qed

theorem outlook_reply_starts_new_thread_witness:
  "let tm = snd (thread_incoming (plain_env 1) ''me'' (mail ''m1'' [] [] ''ann@x.org'') (NewThreadManager 0));
       e = (mail ''m2'' ''m1'' [] ''bob@x.org'')\<lparr>pe_TextContent := ''ok -----Original Message----- hi''\<rparr>
   in fst (thread_incoming (plain_env 2) ''me'' e tm) \<notin> dom (heap tm)"
proof -
  let ?tm0 = "NewThreadManager 0"
  let ?tm = "snd (thread_incoming (plain_env 1) ''me'' (mail ''m1'' [] [] ''ann@x.org'') ?tm0)"
  let ?e = "(mail ''m2'' ''m1'' [] ''bob@x.org'')\<lparr>pe_TextContent := ''ok -----Original Message----- hi''\<rparr>"
  have "tm_wf ?tm"
    using tm_inv_incoming [OF tm_inv_init, of "plain_env 1"]
    by (simp add: plain_env_def map_order_id tm_inv_def)
  moreover have "pe_TextContent ?e = ''ok '' @ ''-----Original Message-----'' @ '' hi''" by simp
  ultimately show ?thesis
    using outlook_reply_starts_new_thread [OF _ _ prod.collapse [symmetric], of ?tm ?e "''ok ''" "'' hi''" "plain_env 2" "''me''"]
    by (simp add: Let_def)
qed

end
