(* ===== verification/Quote.thy ===== *)
theory Quote
  imports GoPrelude
begin

text \<open>
  \<open>pkg/email/quote.go\<close>: cutting the quoted history off an inbound reply (plain text and HTML),
  building the quote of an outbound reply, and the canonical reply subject.  The regular
  expressions are modelled by the strings they match; their \<open>.{m,n}\<close> counts runes of UTF-8, an
  invalid byte counting as one.  Parameters: \<open>parse\<close> for \<open>net/mail.ParseAddress\<close> (display name and
  address), \<open>fmt_date\<close> for the date layout, \<open>now\<close> for the clock.
\<close>

subsection \<open>Lines and runes\<close>

abbreviation newline :: char where "newline \<equiv> CHR 0x0A"

abbreviation golines :: "gostring \<Rightarrow> gostring list" where "golines s \<equiv> split_on newline s"

abbreviation unlines_go :: "gostring list \<Rightarrow> gostring" where "unlines_go ls \<equiv> join_with [newline] ls"

definition blanks :: gostring where "blanks = [CHR '' '', CHR 0x09, CHR 0x0D]"

definition blanks_nl :: gostring where "blanks_nl = [CHR '' '', CHR 0x09, CHR 0x0D, newline]"

definition re_space :: gostring where
  "re_space = [CHR 0x09, newline, CHR 0x0C, CHR 0x0D, CHR '' '']"

definition in_range :: "nat \<Rightarrow> nat \<Rightarrow> char \<Rightarrow> bool" where
  "in_range lo hi c \<longleftrightarrow> lo \<le> (of_char c :: nat) \<and> (of_char c :: nat) \<le> hi"

text \<open>The number of bytes of the rune a string starts with, as \<open>utf8.DecodeRune\<close> gives it.\<close>

fun rune_len :: "gostring \<Rightarrow> nat" where
  "rune_len (a # b # c # d # s) =
     (if in_range 194 223 a \<and> in_range 128 191 b then 2
      else if (in_range 224 224 a \<and> in_range 160 191 b \<or> in_range 225 236 a \<and> in_range 128 191 b \<or>
               in_range 237 237 a \<and> in_range 128 159 b \<or> in_range 238 239 a \<and> in_range 128 191 b) \<and>
              in_range 128 191 c then 3
      else if (in_range 240 240 a \<and> in_range 144 191 b \<or> in_range 241 243 a \<and> in_range 128 191 b \<or>
               in_range 244 244 a \<and> in_range 128 143 b) \<and>
              in_range 128 191 c \<and> in_range 128 191 d then 4
      else 1)"
| "rune_len [a, b, c] =
     (if in_range 194 223 a \<and> in_range 128 191 b then 2
      else if (in_range 224 224 a \<and> in_range 160 191 b \<or> in_range 225 236 a \<and> in_range 128 191 b \<or>
               in_range 237 237 a \<and> in_range 128 159 b \<or> in_range 238 239 a \<and> in_range 128 191 b) \<and>
              in_range 128 191 c then 3
      else 1)"
| "rune_len [a, b] = (if in_range 194 223 a \<and> in_range 128 191 b then 2 else 1)"
| "rune_len _ = 1"

lemma rune_len_pos [simp]: "0 < rune_len s"
  by (induction s rule: rune_len.induct) auto

function rune_count :: "gostring \<Rightarrow> nat" where
  "rune_count [] = 0"
| "rune_count (c # s) = Suc (rune_count (drop (rune_len (c # s)) (c # s)))"
  by pat_completeness auto
termination
  by (relation "measure length") (simp_all add: diff_less del: rune_len.simps)

declare rune_count.simps(2) [simp del]

lemma rune_count_le: "rune_count s \<le> length s"
proof (induction s rule: rune_count.induct)
  case (2 c s)
  have "rune_count (drop (rune_len (c # s)) (c # s)) \<le> length s"
    using 2 rune_len_pos [of "c # s"] unfolding length_drop length_Cons by linarith
  then show ?case by (simp add: rune_count.simps del: rune_len.simps)
qed simp

definition ascii :: "char \<Rightarrow> bool" where "ascii c \<longleftrightarrow> (of_char c :: nat) < 128"

lemma rune_len_ascii: "ascii c \<Longrightarrow> rune_len (c # s) = 1"
  by (cases "c # s" rule: rune_len.cases) (auto simp: ascii_def in_range_def)

lemma rune_count_ascii: "list_all ascii s \<Longrightarrow> rune_count s = length s"
  by (induction s) (simp_all add: rune_count.simps rune_len_ascii)

subsection \<open>Attribution lines\<close>

definition dot_run :: "nat \<Rightarrow> nat \<Rightarrow> gostring \<Rightarrow> bool" where
  "dot_run lo hi s \<longleftrightarrow> newline \<notin> set s \<and> lo \<le> rune_count s \<and> rune_count s \<le> hi"

text \<open>What stands before the final \<open>:\s*$\<close>, if the string ends that way.\<close>

definition before_colon :: "gostring \<Rightarrow> gostring option" where
  "before_colon s = (let t = trim_right_set re_space s in
     if t \<noteq> [] \<and> last t = CHR '':'' then Some (butlast t) else None)"

text \<open>\<open>^pre .{3,400} verb\s*:\s*$\<close>\<close>

definition match_verb :: "gostring \<Rightarrow> gostring \<Rightarrow> gostring \<Rightarrow> bool" where
  "match_verb pre verb s =
     (case before_colon s of None \<Rightarrow> False
      | Some r \<Rightarrow> (let t = trim_right_set re_space r in
          has_prefix t pre \<and> has_suffix t verb \<and> length pre + length verb \<le> length t \<and>
          dot_run 3 400 (drop (length pre) (take (length t - length verb) t))))"

text \<open>\<open>^pre .{3,400} verb .{1,200}\s*:\s*$\<close>: the name takes as little of the final white space as it can.\<close>

definition name_run :: "gostring \<Rightarrow> bool" where
  "name_run n = (let t = trim_right_set re_space n in
     n \<noteq> [] \<and> rune_count t \<le> 200 \<and> newline \<notin> set t \<and> (t = [] \<longrightarrow> hd n \<noteq> newline))"

definition match_verb_name :: "gostring \<Rightarrow> gostring \<Rightarrow> gostring \<Rightarrow> bool" where
  "match_verb_name pre verb s =
     (case before_colon s of None \<Rightarrow> False
      | Some r \<Rightarrow> has_prefix r pre \<and>
          list_ex (\<lambda>k. length pre \<le> k \<and> has_prefix (drop k r) verb \<and>
             dot_run 3 400 (drop (length pre) (take k r)) \<and> name_run (drop (k + length verb) r))
            [0 ..< length r])"

definition e_acute :: gostring where "e_acute = bytes [195, 169]"

definition o_acute :: gostring where "o_acute = bytes [195, 179]"

definition matchesGmailAttribution :: "gostring \<Rightarrow> bool" where
  "matchesGmailAttribution s \<longleftrightarrow>
     match_verb ''On '' '' wrote'' s \<or>
     match_verb ''Le '' ('' a '' @ e_acute @ ''crit'') s \<or>
     match_verb_name ''Am '' '' schrieb '' s \<or>
     match_verb ''El '' ('' escribi'' @ o_acute) s \<or>
     match_verb ''Il '' '' ha scritto'' s \<or>
     match_verb ''Em '' '' escreveu'' s \<or>
     match_verb_name ''Op '' '' schreef '' s"

definition hasGmailAttributionPrefix :: "gostring \<Rightarrow> bool" where
  "hasGmailAttributionPrefix s =
     list_ex (has_prefix s) [''On '', ''Le '', ''Am '', ''El '', ''Il '', ''Em '', ''Op '']"

subsection \<open>Cutting a plain-text body\<close>

definition clean_line :: "gostring \<Rightarrow> gostring" where
  "clean_line l = trim_space (trim_right_set blanks l)"

definition outlook_divider :: "gostring \<Rightarrow> bool" where
  "outlook_divider ll \<longleftrightarrow> ll = ''-----Original Message-----'' \<or>
     ll = replicate 32 (CHR ''_'') \<or> 12 \<le> length ll \<and> list_all (\<lambda>c. c = CHR ''_'') ll"

definition wrapped_attribution :: "gostring \<Rightarrow> gostring list \<Rightarrow> bool" where
  "wrapped_attribution ll rest =
     (case rest of
        [] \<Rightarrow> False
      | r1 # rs \<Rightarrow> hasGmailAttributionPrefix ll \<and>
          (let j1 = ll @ '' '' @ trim_space r1 in
           matchesGmailAttribution j1 \<or>
           (case rs of [] \<Rightarrow> False
            | r2 # _ \<Rightarrow> matchesGmailAttribution (j1 @ '' '' @ trim_space r2))))"

definition outlook_header :: "gostring \<Rightarrow> gostring list \<Rightarrow> bool" where
  "outlook_header ll rest =
     (case rest of
        [] \<Rightarrow> False
      | r1 # _ \<Rightarrow> has_prefix ll ''From: '' \<and>
          list_ex (has_prefix (trim_space r1)) [''Sent: '', ''Date: '', ''To: '', ''Subject: ''])"

definition cut_line :: "gostring \<Rightarrow> gostring list \<Rightarrow> bool" where
  "cut_line l rest = (let ll = clean_line l in
     matchesGmailAttribution ll \<or> wrapped_attribution ll rest \<or> outlook_divider ll \<or>
     outlook_header ll rest)"

fun find_cut :: "gostring list \<Rightarrow> nat" where
  "find_cut [] = 0"
| "find_cut (l # ls) = (if cut_line l ls then 0 else Suc (find_cut ls))"

definition quoted_line :: "gostring \<Rightarrow> bool" where
  "quoted_line l = has_prefix (trim_space l) ''>''"

definition quote_tail :: "gostring list \<Rightarrow> gostring list" where
  "quote_tail ls = takeWhile (\<lambda>l. trim_space l = [] \<or> quoted_line l) (rev ls)"

definition body_cut :: "gostring list \<Rightarrow> nat" where
  "body_cut ls = (let cut = find_cut ls in
     if cut = length ls \<and> list_ex quoted_line (quote_tail ls) then length ls - length (quote_tail ls)
     else cut)"

definition StripQuotedReply :: "gostring \<Rightarrow> gostring" where
  "StripQuotedReply text =
     (if text = [] then []
      else trim_right_set blanks_nl (unlines_go (take (body_cut (golines text)) (golines text))))"

subsection \<open>Cutting an HTML body\<close>

definition htmlQuoteMarkers :: "gostring list" where
  "htmlQuoteMarkers =
     [''<div class=\"gmail_quote'',
      ''<blockquote class=\"gmail_quote'',
      ''<blockquote type=\"cite\"'',
      ''<div id=\"appendonsend\"'',
      ''<div id=\"mail-editor-reference-message-container\"'',
      ''<hr id=\"stopspelling\"'',
      ''<div style=\"border:none;border-top:solid'',
      ''<div style=\"border-top:solid'']"

definition html_cut :: "gostring \<Rightarrow> nat" where
  "html_cut html =
     foldl (\<lambda>cut m. case index_of (to_lower html) m of
              Some i \<Rightarrow> if i < cut then i else cut | None \<Rightarrow> cut)
       (length html) htmlQuoteMarkers"

definition last_index :: "'a \<Rightarrow> 'a list \<Rightarrow> nat option" where
  "last_index c s =
     (let t = takeWhile (\<lambda>x. x \<noteq> c) (rev s) in
      if length t = length s then None else Some (length s - Suc (length t)))"

definition br_tag :: "gostring \<Rightarrow> bool" where
  "br_tag inner =
     (let tag = trim_space (trim_suffix (to_lower (trim_space inner)) ''/'')
      in tag = ''br'' \<or> has_prefix tag ''br '')"

definition trimTrailingBR :: "gostring \<Rightarrow> gostring" where
  "trimTrailingBR s =
     (if s = [] \<or> last s \<noteq> CHR ''>'' then s
      else case last_index (CHR ''<'') s of
        None \<Rightarrow> s
      | Some lt \<Rightarrow> if br_tag (take (length s - 1 - (lt + 1)) (drop (lt + 1) s)) then take lt s else s)"

lemma last_index_less: "last_index c s = Some n \<Longrightarrow> n < length s"
  by (cases s) (auto simp: last_index_def Let_def split: if_splits)

lemma trimTrailingBR_take:
  assumes "trimTrailingBR s \<noteq> s" obtains n where "n < length s" and "trimTrailingBR s = take n s"
proof (cases "last_index (CHR ''<'') s")
  case None
  then have "trimTrailingBR s = s" by (simp add: trimTrailingBR_def)
  with assms show ?thesis by simp
next
  case (Some n)
  then have "trimTrailingBR s = s \<or> trimTrailingBR s = take n s" by (simp add: trimTrailingBR_def)
  with assms that [of n] last_index_less [OF Some] show ?thesis by blast
qed

lemma length_trim_right_set: "length (trim_right_set cs s) \<le> length s"
  using trim_right_set_prefix [of s cs] by (metis le_add1 length_append)

function strip_brs :: "gostring \<Rightarrow> gostring" where
  "strip_brs out =
     (if trimTrailingBR out = out then out
      else strip_brs (trim_right_set blanks_nl (trimTrailingBR out)))"
  by pat_completeness auto
termination
proof (relation "measure length", simp)
  fix s :: gostring
  assume "trimTrailingBR s \<noteq> s"
  then obtain n where "n < length s" and "trimTrailingBR s = take n s" by (rule trimTrailingBR_take)
  then have "length (trimTrailingBR s) < length s" by simp
  with length_trim_right_set [of blanks_nl "trimTrailingBR s"]
  show "(trim_right_set blanks_nl (trimTrailingBR s), s) \<in> measure length" by simp
qed

declare strip_brs.simps [simp del]

definition StripQuotedReplyHTML :: "gostring \<Rightarrow> gostring" where
  "StripQuotedReplyHTML html =
     (if html = [] then []
      else if html_cut html = length html then html
      else strip_brs (trim_right_set blanks_nl (take (html_cut html) html)))"

subsection \<open>Building a quote\<close>

definition attribution_sender :: "(gostring \<Rightarrow> (gostring \<times> gostring) option) \<Rightarrow> gostring \<Rightarrow> gostring" where
  "attribution_sender parse parentFrom =
     (let s0 = trim_space parentFrom;
          s1 = (case parse s0 of
                  None \<Rightarrow> s0
                | Some (name0, addr) \<Rightarrow>
                    (let name = trim_space name0 in
                     if name \<noteq> [] then name @ '' <'' @ addr @ ''>'' else addr))
      in if s1 = [] then ''Unknown'' else s1)"

definition buildAttributionLine ::
  "(gostring \<Rightarrow> (gostring \<times> gostring) option) \<Rightarrow> (int \<Rightarrow> gostring) \<Rightarrow> int \<Rightarrow> int option \<Rightarrow> gostring \<Rightarrow> gostring" where
  "buildAttributionLine parse fmt_date now parentDate parentFrom =
     (let date = fmt_date (case parentDate of None \<Rightarrow> now | Some d \<Rightarrow> d)
      in ''On '' @ date @ '', '' @ attribution_sender parse parentFrom @ '' wrote:'')"

definition quote_line :: "gostring \<Rightarrow> gostring" where
  "quote_line l0 = (let l = trim_right_set [CHR 0x0D] l0 in
     if l = [] then ''>'' else if has_prefix l ''>'' then ''>'' @ l else ''> '' @ l)"

definition FormatGmailQuoteText ::
  "(gostring \<Rightarrow> (gostring \<times> gostring) option) \<Rightarrow> (int \<Rightarrow> gostring) \<Rightarrow> int \<Rightarrow> int option \<Rightarrow> gostring \<Rightarrow>
     gostring \<Rightarrow> gostring" where
  "FormatGmailQuoteText parse fmt_date now parentDate parentFrom parentText =
     (let attr = buildAttributionLine parse fmt_date now parentDate parentFrom in
      if parentText = [] then attr @ [newline]
      else trim_right_set [newline]
        (attr @ [newline] @ concat (map (\<lambda>l. quote_line l @ [newline]) (golines parentText))))"

definition html_escapes :: "(char \<times> gostring) list" where
  "html_escapes = [(CHR ''&'', ''&amp;''), (CHR ''<'', ''&lt;''), (CHR ''>'', ''&gt;''), (CHR ''\"'', ''&quot;'')]"

definition htmlEscape :: "gostring \<Rightarrow> gostring" where
  "htmlEscape s = replace_chars html_escapes s"

definition FormatGmailQuoteHTML ::
  "(gostring \<Rightarrow> (gostring \<times> gostring) option) \<Rightarrow> (int \<Rightarrow> gostring) \<Rightarrow> int \<Rightarrow> int option \<Rightarrow> gostring \<Rightarrow>
     gostring \<Rightarrow> gostring" where
  "FormatGmailQuoteHTML parse fmt_date now parentDate parentFrom parentHTML =
     (if parentHTML = [] then []
      else ''<div class=\"gmail_quote gmail_quote_container\"><div dir=\"ltr\" class=\"gmail_attr\">'' @
        htmlEscape (buildAttributionLine parse fmt_date now parentDate parentFrom) @
        ''<br></div><blockquote class=\"gmail_quote\" style=\"margin:0px 0px 0px 0.8ex;border-left:1px solid rgb(204,204,204);padding-left:1ex\">'' @
        parentHTML @ ''</blockquote></div>'')"

subsection \<open>Reply subjects\<close>

definition strip_re :: "gostring \<Rightarrow> gostring option" where
  "strip_re s =
     (let lower = to_lower s in
      if has_prefix lower ''re:'' then Some (trim_space (drop 3 s))
      else if has_prefix lower ''re['' then
        map_option (\<lambda>i. trim_space (drop (i + 2) s)) (index_of lower '']:'')
      else None)"

lemma length_trim_drop: "length (trim_space (drop n s)) \<le> length s - n"
  using length_trim_space [of "drop n s"] by simp

lemma strip_re_cases:
  assumes "strip_re s = Some t"
  obtains n where "0 < n" and "s \<noteq> []" and "t = trim_space (drop n s)"
proof (cases "has_prefix (to_lower s) ''re:''")
  case True
  then have "s \<noteq> []" by (cases s) auto
  with True assms that [of 3] show ?thesis by (simp add: strip_re_def Let_def)
next
  case False
  with assms obtain i where p: "has_prefix (to_lower s) ''re[''" and "t = trim_space (drop (i + 2) s)"
    by (auto simp: strip_re_def Let_def split: if_splits)
  moreover from p have "s \<noteq> []" by (cases s) auto
  ultimately show ?thesis using that [of "i + 2"] by simp
qed

lemma strip_re_shorter: "strip_re s = Some t \<Longrightarrow> length t < length s"
proof (erule strip_re_cases)
  fix n assume "0 < n" and "s \<noteq> []" and t: "t = trim_space (drop n s)"
  then have "length s - n < length s" by simp
  with length_trim_drop [of n s] show "length t < length s" unfolding t by linarith
qed

function drop_res :: "gostring \<Rightarrow> gostring" where
  "drop_res s = (case strip_re s of None \<Rightarrow> s | Some t \<Rightarrow> drop_res t)"
  by pat_completeness auto
termination
  by (relation "measure length") (simp_all add: strip_re_shorter)

declare drop_res.simps [simp del]

definition NormalizeReplySubject :: "gostring \<Rightarrow> gostring" where
  "NormalizeReplySubject subject = ''Re: '' @ drop_res (trim_space subject)"

end
