(* ===== verification/QuoteFacts.thy ===== *)
theory QuoteFacts
  imports Quote
begin

text \<open>
  What the quote code guarantees: stripping only removes a tail, a quote the bridge builds is one
  it recognises and strips, the text quote loses nothing, and reply subjects are canonical.
\<close>

subsection \<open>Joining and splitting lines\<close>

lemma join_with_append:
  "xs \<noteq> [] \<Longrightarrow> ys \<noteq> [] \<Longrightarrow> join_with sep (xs @ ys) = join_with sep xs @ sep @ join_with sep ys"
proof (induction xs)
  case (Cons x xs)
  then show ?case by (cases "xs = []") (simp_all add: join_with_Cons)
qed simp

lemma join_take_prefix: "\<exists>r. join_with sep xs = join_with sep (take n xs) @ r"
proof -
  consider "take n xs = []" | "take n xs = xs" | "take n xs \<noteq> []" "drop n xs \<noteq> []" by fastforce
  then show ?thesis
  proof cases
    case 1
    show ?thesis unfolding 1 by simp
  next
    case 2
    show ?thesis unfolding 2 by simp
  next
    case 3
    then have "join_with sep (take n xs @ drop n xs) = join_with sep (take n xs) @ sep @ join_with sep (drop n xs)"
      by (rule join_with_append)
    then show ?thesis by simp
  qed
qed

lemma trim_right_set_split: obtains v where "s = trim_right_set cs s @ v"
  using trim_right_set_prefix [of s cs] by auto

subsection \<open>Plain text\<close>

text \<open>
  Stripping the quoted history of a text body only ever removes a tail: what is kept is a
  prefix of the body, ending in no blank.
\<close>

theorem StripQuotedReply_prefix:
  "\<exists>r. text = StripQuotedReply text @ r \<and>
     trim_right_set blanks_nl (StripQuotedReply text) = StripQuotedReply text"
proof (cases "text = []")
  case True
  then show ?thesis by (simp add: StripQuotedReply_def trim_right_set_def)
next
  case False
  let ?k = "unlines_go (take (body_cut (golines text)) (golines text))"
  obtain r where "unlines_go (golines text) = ?k @ r" using join_take_prefix by blast
  then have 1: "text = ?k @ r" by (simp add: join_split)
  obtain v where 2: "?k = trim_right_set blanks_nl ?k @ v" by (rule trim_right_set_split)
  have "StripQuotedReply text = trim_right_set blanks_nl ?k" using False by (simp add: StripQuotedReply_def)
  moreover have "text = trim_right_set blanks_nl ?k @ (v @ r)" using 1 2 by (metis append.assoc)
  ultimately show ?thesis by auto
qed

lemma find_cut_skip:
  "(\<And>i. i < length ls \<Longrightarrow> \<not> cut_line (ls ! i) (drop (Suc i) ls @ rest)) \<Longrightarrow>
     find_cut (ls @ rest) = length ls + find_cut rest"
proof (induction ls)
  case (Cons l ls)
  have "\<not> cut_line l (ls @ rest)" using Cons.prems [of 0] by simp
  moreover have "\<not> cut_line (ls ! i) (drop (Suc i) ls @ rest)" if "i < length ls" for i
    using Cons.prems [of "Suc i"] that by simp
  ultimately show ?case using Cons.IH by simp
qed simp

definition plain_line :: "gostring \<Rightarrow> bool" where
  "plain_line l = (let ll = clean_line l in
     \<not> hasGmailAttributionPrefix ll \<and> \<not> outlook_divider ll \<and> \<not> has_prefix ll ''From: '')"

lemma before_colon_Some: "before_colon s = Some r \<Longrightarrow> \<exists>v. s = r @ CHR '':'' # v"
proof -
  assume b: "before_colon s = Some r"
  let ?t = "trim_right_set re_space s"
  from b have "?t \<noteq> []" "last ?t = CHR '':''" "r = butlast ?t"
    unfolding before_colon_def Let_def by (simp_all split: if_splits)
  then have t: "?t = r @ [CHR '':'']" by (metis append_butlast_last_id)
  obtain v where "s = ?t @ v" by (rule trim_right_set_split)
  with t have "s = r @ CHR '':'' # v" by simp
  then show ?thesis ..
qed

lemma before_colon_snoc: "before_colon (r @ '':'') = Some r"
  by (simp add: before_colon_def trim_right_set_def re_space_def)

lemma match_verb_prefix: "match_verb p v s \<Longrightarrow> has_prefix s p"
proof -
  assume m: "match_verb p v s"
  then obtain r where r: "before_colon s = Some r" "has_prefix (trim_right_set re_space r) p"
    by (auto simp: match_verb_def Let_def simp del: has_prefix.simps split: option.splits)
  obtain v1 where "s = r @ v1" using before_colon_Some [OF r(1)] by blast
  moreover obtain v2 where "r = trim_right_set re_space r @ v2" by (rule trim_right_set_split)
  ultimately have "s = trim_right_set re_space r @ (v2 @ v1)" by (metis append.assoc)
  with r(2) show ?thesis by (metis has_prefix_mono)
qed

lemma match_verb_name_prefix: "match_verb_name p v s \<Longrightarrow> has_prefix s p"
proof -
  assume m: "match_verb_name p v s"
  then obtain r where r: "before_colon s = Some r" "has_prefix r p"
    by (auto simp: match_verb_name_def split: option.splits)
  from before_colon_Some [OF r(1)] r(2) show ?thesis by (metis has_prefix_mono)
qed

lemma attribution_prefix: "matchesGmailAttribution s \<Longrightarrow> hasGmailAttributionPrefix s"
  unfolding matchesGmailAttribution_def hasGmailAttributionPrefix_def
  by (auto simp del: has_prefix.simps dest: match_verb_prefix match_verb_name_prefix)

lemma plain_line_no_cut: "plain_line l \<Longrightarrow> \<not> cut_line l rest"
  using attribution_prefix
  by (auto simp: plain_line_def cut_line_def Let_def wrapped_attribution_def outlook_header_def split: list.splits)

lemma plain_lines_find_cut:
  "list_all plain_line ls \<Longrightarrow> find_cut (ls @ rest) = length ls + find_cut rest"
  by (rule find_cut_skip) (metis list_all_length plain_line_no_cut)

subsection \<open>The bridge's own quotes\<close>

lemma own_attribution:
  assumes "dot_run 3 400 mid" shows "matchesGmailAttribution (''On '' @ mid @ '' wrote:'')"
proof -
  have "before_colon (''On '' @ mid @ '' wrote:'') = Some (''On '' @ mid @ '' wrote'')"
    using before_colon_snoc [of "''On '' @ mid @ '' wrote''"] by simp
  moreover have "trim_right_set re_space (''On '' @ mid @ '' wrote'') = ''On '' @ mid @ '' wrote''"
    by (simp add: trim_right_set_def re_space_def)
  moreover have "has_suffix (''On '' @ mid @ '' wrote'') '' wrote''"
    using has_suffix_append [of "''On '' @ mid" "'' wrote''"] by simp
  ultimately show ?thesis
    using assms by (simp add: matchesGmailAttribution_def match_verb_def Let_def)
qed

lemma clean_attribution: "clean_line (''On '' @ mid @ '' wrote:'') = ''On '' @ mid @ '' wrote:''"
proof -
  have "trim_right_set blanks (''On '' @ mid @ '' wrote:'') = ''On '' @ mid @ '' wrote:''"
    by (simp add: trim_right_set_def blanks_def)
  moreover have "trim_space (''On '' @ mid @ '' wrote:'') = ''On '' @ mid @ '' wrote:''"
    by (rule trim_space_graphic) (simp_all add: graphic_def)
  ultimately show ?thesis by (simp add: clean_line_def)
qed

lemma blanks_nl_newline [simp]: "newline \<in> set blanks_nl"
  by (simp add: blanks_nl_def)

lemma trim_right_set_snoc: "c \<in> set cs \<Longrightarrow> trim_right_set cs (s @ [c]) = trim_right_set cs s"
  by (simp add: trim_right_set_def)

lemma split_on_attributed:
  "c \<notin> set a \<Longrightarrow> split_on c (b @ [c, c] @ a @ c # r) = (split_on c b @ [[]]) @ a # split_on c r"
  using split_on_append [of c b "c # a @ c # r"] split_on_sep_append [of c a r] by simp

lemma strip_at_cut:
  assumes "list_all plain_line (golines body)" and "newline \<notin> set attr" and "cut_line attr (golines rest)"
    and "body \<noteq> []"
  shows "StripQuotedReply (body @ [newline, newline] @ attr @ newline # rest) = trim_right_set blanks_nl body"
proof -
  let ?ls = "golines body @ [[]]"
  have lines: "golines (body @ [newline, newline] @ attr @ newline # rest) = ?ls @ attr # golines rest"
    by (rule split_on_attributed [OF assms(2)])
  have "plain_line []"
    by (simp add: plain_line_def clean_line_def trim_right_set_def hasGmailAttributionPrefix_def outlook_divider_def)
  then have "list_all plain_line ?ls" using assms(1) by simp
  then have "find_cut (?ls @ attr # golines rest) = length ?ls"
    using assms(3) by (simp only: plain_lines_find_cut find_cut.simps if_True add_0_right)
  then have "body_cut (?ls @ attr # golines rest) = length ?ls"
    by (simp add: body_cut_def)
  then have "StripQuotedReply (body @ [newline, newline] @ attr @ newline # rest)
      = trim_right_set blanks_nl (unlines_go ?ls)"
    unfolding StripQuotedReply_def lines using assms(4) by simp
  also have "unlines_go ?ls = body @ [newline]"
    by (simp add: join_with_append join_split)
  finally show ?thesis by (simp add: trim_right_set_snoc)
qed

lemma strip_attributed:
  assumes "list_all plain_line (golines body)" and "dot_run 3 400 mid" and "body \<noteq> []"
  shows "StripQuotedReply (body @ [newline, newline] @ (''On '' @ mid @ '' wrote:'') @ newline # rest) =
    trim_right_set blanks_nl body"
proof (rule strip_at_cut [OF assms(1) _ _ assms(3)])
  show "newline \<notin> set (''On '' @ mid @ '' wrote:'')" using assms(2) by (simp add: dot_run_def)
  show "cut_line (''On '' @ mid @ '' wrote:'') (golines rest)"
    unfolding cut_line_def Let_def clean_attribution using own_attribution [OF assms(2)] by blast
qed

definition attribution_mid ::
  "(gostring \<Rightarrow> (gostring \<times> gostring) option) \<Rightarrow> (int \<Rightarrow> gostring) \<Rightarrow> int \<Rightarrow> int option \<Rightarrow> gostring \<Rightarrow> gostring" where
  "attribution_mid parse fmt_date now d from =
     fmt_date (case d of None \<Rightarrow> now | Some t \<Rightarrow> t) @ '', '' @ attribution_sender parse from"

lemma buildAttributionLine_mid:
  "buildAttributionLine parse fmt_date now d from = ''On '' @ attribution_mid parse fmt_date now d from @ '' wrote:''"
  by (simp add: buildAttributionLine_def attribution_mid_def Let_def)

lemma concat_snoc_lines:
  "ls \<noteq> [] \<Longrightarrow> concat (map (\<lambda>l. f l @ [c]) ls) = join_with [c] (map f ls) @ [c]"
proof (induction ls)
  case (Cons l ls)
  then show ?case by (cases "ls = []") (simp_all add: join_with_Cons)
qed simp

lemma trim_right_set_id: "s \<noteq> [] \<Longrightarrow> last s \<notin> set cs \<Longrightarrow> trim_right_set cs s = s"
  by (cases s rule: rev_cases) (simp_all add: trim_right_set_def)

lemma quote_line_shape: "\<exists>t. quote_line l = CHR ''>'' # t"
  by (auto simp: quote_line_def Let_def)

lemma newline_quote_line: "newline \<notin> set l \<Longrightarrow> newline \<notin> set (quote_line l)"
proof -
  assume l: "newline \<notin> set l"
  obtain v where "l = trim_right_set [CHR 0x0D] l @ v" by (rule trim_right_set_split)
  with l have "newline \<notin> set (trim_right_set [CHR 0x0D] l)" by (metis UnCI set_append)
  then show ?thesis by (simp add: quote_line_def Let_def)
qed

lemma last_join_with: "ls \<noteq> [] \<Longrightarrow> last ls \<noteq> [] \<Longrightarrow> join_with sep ls \<noteq> [] \<and> last (join_with sep ls) = last (last ls)"
proof (induction ls)
  case (Cons l ls)
  then show ?case by (cases "ls = []") (simp_all add: join_with_Cons)
qed simp

lemma FormatGmailQuoteText_lines:
  assumes "parentText \<noteq> []"
  shows "FormatGmailQuoteText parse fmt_date now d from parentText =
    buildAttributionLine parse fmt_date now d from @ newline # unlines_go (map quote_line (golines parentText))"
proof -
  let ?qs = "map quote_line (golines parentText)" and ?attr = "buildAttributionLine parse fmt_date now d from"
  have "quote_line (last (golines parentText)) \<noteq> []" using quote_line_shape by (metis list.distinct(1))
  then have ne: "last ?qs \<noteq> []" by (simp add: last_map)
  have "newline \<notin> set (quote_line (last (golines parentText)))"
    by (rule newline_quote_line [OF split_on_no_sep [OF last_in_set [OF split_on_nonempty]]])
  then have "newline \<notin> set (last ?qs)" by (simp add: last_map)
  then have "last (last ?qs) \<noteq> newline" using ne last_in_set by metis
  with last_join_with [of ?qs "[newline]"] ne
  have j: "unlines_go ?qs \<noteq> []" "last (unlines_go ?qs) \<noteq> newline" by simp_all
  have "FormatGmailQuoteText parse fmt_date now d from parentText =
      trim_right_set [newline] ((?attr @ newline # unlines_go ?qs) @ [newline])"
    using assms by (simp add: FormatGmailQuoteText_def Let_def concat_snoc_lines)
  also have "\<dots> = trim_right_set [newline] (?attr @ newline # unlines_go ?qs)"
    by (rule trim_right_set_snoc) simp
  also have "\<dots> = ?attr @ newline # unlines_go ?qs"
    using j by (intro trim_right_set_id) simp_all
  finally show ?thesis .
qed

text \<open>
  C9: the text quote the bridge appends to a reply is one its own inbound stripping recognises:
  whatever the parent's text, stripping the reply gives back what the user wrote, as long as the
  user's lines do not themselves look like the start of a quote and the attribution is one line of
  at most 400 characters.
\<close>

theorem strip_own_quote:
  assumes "list_all plain_line (golines body)" and "body \<noteq> []"
    and "dot_run 3 400 (attribution_mid parse fmt_date now d from)"
  shows "StripQuotedReply (body @ [newline, newline] @ FormatGmailQuoteText parse fmt_date now d from parentText) =
    trim_right_set blanks_nl body"
proof -
  let ?attr = "''On '' @ attribution_mid parse fmt_date now d from @ '' wrote:''"
  obtain rest where "FormatGmailQuoteText parse fmt_date now d from parentText = ?attr @ newline # rest"
  proof (cases "parentText = []")
    case True
    then show ?thesis using that [of "[]"] by (simp add: FormatGmailQuoteText_def buildAttributionLine_mid)
  next
    case False
    then show ?thesis using that FormatGmailQuoteText_lines buildAttributionLine_mid by metis
  qed
  with strip_attributed [OF assms(1,3,2), of rest] show ?thesis by simp
qed

lemma plain_example: "list_all plain_line (golines ''Fine.'')"
  by (simp add: plain_line_def clean_line_def trim_right_set_def blanks_def trim_space_graphic
      graphic_def hasGmailAttributionPrefix_def outlook_divider_def numeral_eq_Suc)

lemma mid_example: "attribution_mid (\<lambda>_. None) (\<lambda>_. ''Mon'') 0 d ''Ann'' = ''Mon, Ann''"
  by (cases d) (simp_all add: attribution_mid_def attribution_sender_def trim_space_graphic graphic_def)

lemma dot_example: "dot_run 3 400 ''Mon, Ann''"
  by (simp add: dot_run_def rune_count_ascii ascii_def)

theorem strip_own_quote_witness:
  "StripQuotedReply (''Fine.'' @ [newline, newline] @
     FormatGmailQuoteText (\<lambda>_. None) (\<lambda>_. ''Mon'') 0 None ''Ann'' ''Lunch?'') = ''Fine.''"
  using strip_own_quote [OF plain_example _ dot_example [folded mid_example [of None]], of "''Lunch?''"]
  by (simp add: trim_right_set_def blanks_nl_def)

definition unquote_line :: "gostring \<Rightarrow> gostring" where
  "unquote_line l = (if l = ''>'' then [] else if has_prefix l ''>>'' then tl l else drop 2 l)"

lemma unquote_quote_line: "unquote_line (quote_line l) = trim_right_set [CHR 0x0D] l"
proof -
  have "has_prefix t ''>'' \<longleftrightarrow> (\<exists>r. t = CHR ''>'' # r)" for t :: gostring
    by (cases t) auto
  then show ?thesis by (auto simp: unquote_line_def quote_line_def Let_def)
qed

text \<open>
  Quoting a parent's text loses nothing: the lines below the attribution, with one level of
  quoting taken off, are the parent's lines, less their carriage returns.
\<close>

theorem quote_text_roundtrip:
  assumes "parentText \<noteq> []" and "newline \<notin> set (buildAttributionLine parse fmt_date now d from)"
  shows "map unquote_line (tl (golines (FormatGmailQuoteText parse fmt_date now d from parentText))) =
    map (trim_right_set [CHR 0x0D]) (golines parentText)"
proof -
  have "golines (unlines_go (map quote_line (golines parentText))) = map quote_line (golines parentText)"
  proof (rule split_join)
    fix w assume "w \<in> set (map quote_line (golines parentText))"
    then obtain l where "l \<in> set (golines parentText)" and w: "w = quote_line l" by auto
    then show "newline \<notin> set w" unfolding w by (intro newline_quote_line split_on_no_sep)
  qed simp
  then show ?thesis
    unfolding FormatGmailQuoteText_lines [OF assms(1)] split_on_sep_append [OF assms(2)]
    by (simp add: comp_def unquote_quote_line)
qed

theorem quote_text_roundtrip_witness:
  "map unquote_line (tl (golines (FormatGmailQuoteText (\<lambda>_. None) (\<lambda>_. ''Mon'') 0 None ''Ann''
     (''>Lunch?'' @ [newline] @ ''yes'')))) = [''>Lunch?'', ''yes'']"
proof -
  have "newline \<notin> set (buildAttributionLine (\<lambda>_. None) (\<lambda>_. ''Mon'') 0 None ''Ann'')"
    by (simp add: buildAttributionLine_mid mid_example)
  from quote_text_roundtrip [OF _ this, of "''>Lunch?'' @ [newline] @ ''yes''"]
  show ?thesis by (simp add: trim_right_set_def)
qed

subsection \<open>HTML\<close>

lemma index_of_least: "index_of s m = Some n \<Longrightarrow> i < n \<Longrightarrow> \<not> has_prefix (drop i s) m"
proof (induction s m arbitrary: n i rule: index_of.induct)
  case (2 c s p)
  then show ?case by (cases i) (auto split: if_splits)
qed (simp split: if_splits)

lemma index_of_le: "has_prefix (drop i s) m \<Longrightarrow> i \<le> length s \<Longrightarrow> \<exists>n \<le> i. index_of s m = Some n"
proof (induction s m arbitrary: i rule: index_of.induct)
  case (1 p)
  then show ?case by (cases p) auto
next
  case (2 c s p)
  show ?case
  proof (cases "has_prefix (c # s) p")
    case True
    then show ?thesis by simp
  next
    case False
    with 2(2,3) obtain j where "i = Suc j" "has_prefix (drop j s) p" "j \<le> length s" by (cases i) auto
    with 2(1) [OF False] False show ?thesis by fastforce
  qed
qed

lemma index_of_drop: "index_of s m = Some n \<Longrightarrow> has_prefix (drop n s) m"
  using index_of_Some [of s m n] by (metis append_eq_conv_conj has_prefix_append length_take
      min.absorb2 trans_le_add1 le_add1 le_trans)

lemma foldl_min:
  fixes f :: "'m \<Rightarrow> nat option"
  defines "step \<equiv> \<lambda>cut m. case f m of Some i \<Rightarrow> if i < cut then i else cut | None \<Rightarrow> cut"
  shows "foldl step c ms \<le> c \<and>
    (\<forall>m \<in> set ms. \<forall>i. f m = Some i \<longrightarrow> foldl step c ms \<le> i) \<and>
    (foldl step c ms = c \<or> (\<exists>m \<in> set ms. f m = Some (foldl step c ms)))"
proof (induction ms arbitrary: c)
  case (Cons m ms)
  have s: "step c m \<le> c" "\<And>i. f m = Some i \<Longrightarrow> step c m \<le> i" "step c m = c \<or> f m = Some (step c m)"
    by (auto simp: step_def split: option.splits)
  show ?case using Cons [of "step c m"] s by (auto intro: le_trans) 
qed simp

lemma html_cut_props:
  "html_cut h \<le> length h"
  "m \<in> set htmlQuoteMarkers \<Longrightarrow> index_of (to_lower h) m = Some i \<Longrightarrow> html_cut h \<le> i"
  "html_cut h = length h \<or> (\<exists>m \<in> set htmlQuoteMarkers. index_of (to_lower h) m = Some (html_cut h))"
  using foldl_min [of "index_of (to_lower h)" "length h" htmlQuoteMarkers]
  unfolding html_cut_def by blast+

lemma no_marker_before_cut:
  assumes "m \<in> set htmlQuoteMarkers" shows "\<not> contains_sub (take (html_cut h) (to_lower h)) m"
proof
  have m: "m \<noteq> []" using assms by (auto simp: htmlQuoteMarkers_def)
  assume "contains_sub (take (html_cut h) (to_lower h)) m"
  then obtain u v where t: "take (html_cut h) (to_lower h) = u @ m @ v" by (auto simp: contains_sub_iff)
  then have "to_lower h = u @ m @ v @ drop (html_cut h) (to_lower h)"
    by (metis append.assoc append_take_drop_id)
  then have "drop (length u) (to_lower h) = m @ v @ drop (html_cut h) (to_lower h)"
    by (metis append_eq_conv_conj)
  then have "has_prefix (drop (length u) (to_lower h)) m" by simp
  moreover have "length u \<le> length (to_lower h)"
    using arg_cong [OF t, of length] by simp
  ultimately
  obtain n where "n \<le> length u" "index_of (to_lower h) m = Some n" using index_of_le by blast
  then have "html_cut h \<le> length u" using html_cut_props(2) [OF assms] by force
  moreover have "length u + length m \<le> html_cut h"
    using arg_cong [OF t, of length] by simp
  moreover have "0 < length m" using m by simp
  ultimately show False by linarith
qed

lemma strip_brs_prefix: "\<exists>r. s = strip_brs s @ r"
proof (induction s rule: strip_brs.induct)
  case (1 s)
  show ?case
  proof (cases "trimTrailingBR s = s")
    case True
    then show ?thesis by (subst strip_brs.simps) simp
  next
    case False
    let ?t = "trim_right_set blanks_nl (trimTrailingBR s)"
    obtain r where r: "?t = strip_brs ?t @ r" using 1 [OF False] by blast
    obtain n where "trimTrailingBR s = take n s" using False by (rule trimTrailingBR_take)
    then have "s = trimTrailingBR s @ drop n s" by simp
    moreover obtain v where "trimTrailingBR s = ?t @ v" by (rule trim_right_set_split)
    ultimately have "s = strip_brs ?t @ (r @ v @ drop n s)" using r by (metis append.assoc)
    moreover have "strip_brs s = strip_brs ?t" using False by (subst strip_brs.simps) simp
    ultimately show ?thesis by metis
  qed
qed

lemma StripQuotedReplyHTML_take:
  "\<exists>n. StripQuotedReplyHTML h = take n h \<and> n \<le> html_cut h"
proof (cases "h = [] \<or> html_cut h = length h")
  case True
  then have "StripQuotedReplyHTML h = take (html_cut h) h" by (auto simp: StripQuotedReplyHTML_def)
  then show ?thesis by blast
next
  case False
  let ?t = "take (html_cut h) h"
  obtain r where "trim_right_set blanks_nl ?t = strip_brs (trim_right_set blanks_nl ?t) @ r"
    using strip_brs_prefix by blast
  moreover obtain v where "?t = trim_right_set blanks_nl ?t @ v" by (rule trim_right_set_split)
  ultimately have "?t = StripQuotedReplyHTML h @ (r @ v)"
    using False by (simp add: StripQuotedReplyHTML_def) (metis append.assoc)
  then have "StripQuotedReplyHTML h = take (length (StripQuotedReplyHTML h)) ?t"
    and "length (StripQuotedReplyHTML h) \<le> html_cut h"
    using html_cut_props(1) [of h] by (metis append_eq_conv_conj, metis le_add1 length_append length_take min.absorb2)
  then show ?thesis by (metis min.absorb1 take_take)
qed

text \<open>
  Stripping an HTML body keeps a prefix of it that holds none of the quote markers, in any
  letter case, and stripping twice is stripping once.
\<close>

theorem StripQuotedReplyHTML_clean:
  "(\<exists>n. StripQuotedReplyHTML h = take n h) \<and>
   list_all (\<lambda>m. \<not> contains_sub (to_lower (StripQuotedReplyHTML h)) m) htmlQuoteMarkers \<and>
   StripQuotedReplyHTML (StripQuotedReplyHTML h) = StripQuotedReplyHTML h"
proof -
  obtain n where n: "StripQuotedReplyHTML h = take n h" "n \<le> html_cut h"
    using StripQuotedReplyHTML_take by blast
  have clean: "\<not> contains_sub (to_lower (StripQuotedReplyHTML h)) m" if "m \<in> set htmlQuoteMarkers" for m
  proof
    assume "contains_sub (to_lower (StripQuotedReplyHTML h)) m"
    then have "contains_sub (take n (take (html_cut h) (to_lower h))) m"
      using n by (simp add: to_lower_take min_def)
    then have "contains_sub (take n (take (html_cut h) (to_lower h)) @ drop n (take (html_cut h) (to_lower h))) m"
      by (rule contains_sub_left)
    then have "contains_sub (take (html_cut h) (to_lower h)) m" unfolding append_take_drop_id .
    with no_marker_before_cut [OF that] show False by blast
  qed
  then have "html_cut (StripQuotedReplyHTML h) = length (StripQuotedReplyHTML h)"
    using html_cut_props(3) [of "StripQuotedReplyHTML h"] by (auto simp: contains_sub_def)
  then have "StripQuotedReplyHTML (StripQuotedReplyHTML h) = StripQuotedReplyHTML h"
    unfolding StripQuotedReplyHTML_def [of "StripQuotedReplyHTML h"] by simp
  with clean n show ?thesis by (auto simp: list_all_iff)
qed

text \<open>An HTML reply as the send path composes it, and its own quote.\<close>

lemma marker_facts:
  assumes "m \<in> set htmlQuoteMarkers"
  shows "m \<noteq> []" and "hd m = CHR ''<''" and "\<not> contains_sub m ''<br>''"
proof -
  have "list_all (\<lambda>m. m \<noteq> [] \<and> hd m = CHR ''<'' \<and> \<not> contains_sub m ''<br>'') htmlQuoteMarkers"
    by (simp add: htmlQuoteMarkers_def contains_sub_def)
  with assms show "m \<noteq> []" and "hd m = CHR ''<''" and "\<not> contains_sub m ''<br>''"
    by (auto simp: list_all_iff)
qed

lemma marker_not_earlier:
  assumes m: "m \<in> set htmlQuoteMarkers" and clean: "\<not> contains_sub (u @ ''<br>'') m"
    and i: "i < length (u @ ''<br>'')"
  shows "\<not> has_prefix (drop i ((u @ ''<br>'') @ v)) m"
proof
  let ?w = "u @ ''<br>''"
  assume p: "has_prefix (drop i (?w @ v)) m"
  have "i - length ?w = 0" using i by simp
  then have d: "drop i (?w @ v) = drop i ?w @ v" by (simp only: drop_append drop_0)
  then obtain r where r: "drop i ?w @ v = m @ r" using p by (metis has_prefix_iff)
  then consider t where "drop i ?w = m @ t" | t where "m = drop i ?w @ t"
    by (metis append_eq_append_conv2)
  then show False
  proof cases
    case 1
    then have "?w = take i ?w @ m @ t" by (metis append_take_drop_id)
    with clean show False by (metis contains_sub_mid)
  next
    case 2
    show False
    proof (cases "i \<le> length u")
      case True
      then have "drop i ?w = drop i u @ ''<br>''" by simp
      with 2 have "m = drop i u @ ''<br>'' @ t" by simp
      with marker_facts(3) [OF m] show False by (metis contains_sub_mid)
    next
      case False
      with i have "i - length u \<in> {1, 2, 3}" by auto
      with False have "drop i ?w \<noteq> []" and "hd (drop i ?w) \<in> {CHR ''b'', CHR ''r'', CHR ''>''}"
        by auto
      then have "hd m \<in> {CHR ''b'', CHR ''r'', CHR ''>''}" by (metis 2 hd_append2)
      with marker_facts(2) [OF m] show False by simp
    qed
  qed
qed

lemma html_cut_at:
  assumes clean: "list_all (\<lambda>m. \<not> contains_sub (to_lower (u @ ''<br>'')) m) htmlQuoteMarkers"
    and q: "has_prefix (to_lower v) ''<div class=\"gmail_quote''"
  shows "html_cut ((u @ ''<br>'') @ v) = length (u @ ''<br>'')"
proof -
  let ?w = "u @ ''<br>''" and ?m = "''<div class=\"gmail_quote''"
  have low: "to_lower (?w @ v) = (to_lower u @ ''<br>'') @ to_lower v"
    by (simp add: to_lower_def lower_char_def)
  have c: "\<not> contains_sub (to_lower u @ ''<br>'') m" if "m \<in> set htmlQuoteMarkers" for m
    using clean that by (simp add: list_all_iff to_lower_def lower_char_def)
  have mm: "?m \<in> set htmlQuoteMarkers" by (simp add: htmlQuoteMarkers_def)
  have ge: "length ?w \<le> i" if "m \<in> set htmlQuoteMarkers" "index_of (to_lower (?w @ v)) m = Some i" for m i
  proof (rule ccontr)
    assume "\<not> length ?w \<le> i"
    then have "i < length (to_lower u @ ''<br>'')" by simp
    from marker_not_earlier [OF that(1) c [OF that(1)] this, of "to_lower v"] index_of_drop [OF that(2)]
    show False unfolding low by blast
  qed
  have "has_prefix (drop (length ?w) (to_lower (?w @ v))) ?m"
    unfolding low using q by simp
  moreover have "length ?w \<le> length (to_lower (?w @ v))" by simp
  ultimately obtain n where n: "n \<le> length ?w" "index_of (to_lower (?w @ v)) ?m = Some n"
    using index_of_le by blast
  have le: "html_cut (?w @ v) \<le> length ?w" by (rule le_trans [OF html_cut_props(2) [OF mm n(2)] n(1)])
  moreover have "length ?w < length (?w @ v)" using q by (cases v) auto
  moreover have "length ?w \<le> html_cut (?w @ v)"
    using html_cut_props(3) [of "?w @ v"] ge calculation by fastforce
  ultimately show ?thesis by linarith
qed

lemma StripQuotedReplyHTML_at:
  "html_cut (w @ q) = length w \<Longrightarrow> q \<noteq> [] \<Longrightarrow>
     StripQuotedReplyHTML (w @ q) = strip_brs (trim_right_set blanks_nl w)"
  by (simp add: StripQuotedReplyHTML_def)

text \<open>
  The HTML half of a reply the bridge sends is stripped back to the reply itself: the quote
  block, and the line break the bridge puts before it, are removed exactly, whatever the parent's
  HTML, as long as the reply itself holds no quote marker.
\<close>

theorem strip_own_quote_html:
  assumes "list_all (\<lambda>m. \<not> contains_sub (to_lower (''<div dir=\"ltr\">'' @ body @ ''</div><br>'')) m) htmlQuoteMarkers"
    and "parentHTML \<noteq> []"
  shows "StripQuotedReplyHTML (''<div dir=\"ltr\">'' @ body @ ''</div><br>'' @
      FormatGmailQuoteHTML parse fmt_date now d from parentHTML) = ''<div dir=\"ltr\">'' @ body @ ''</div>''"
proof -
  let ?u = "''<div dir=\"ltr\">'' @ body @ ''</div>''"
  let ?q = "FormatGmailQuoteHTML parse fmt_date now d from parentHTML"
  have q: "has_prefix (to_lower ?q) ''<div class=\"gmail_quote''"
    using assms(2) by (simp add: FormatGmailQuoteHTML_def to_lower_def lower_char_def)
  have cut: "html_cut ((?u @ ''<br>'') @ ?q) = length (?u @ ''<br>'')"
    using assms(1) by (intro html_cut_at [OF _ q]) simp
  have nonempty: "?q \<noteq> []" using q by auto
  have br: "trimTrailingBR (?u @ ''<br>'') = ?u"
  proof -
    have "last_index (CHR ''<'') (?u @ ''<br>'') = Some (length ?u)"
      by (simp add: last_index_def)
    moreover have "br_tag ''br''"
      by (simp add: br_tag_def trim_space_graphic graphic_def to_lower_def lower_char_def
          trim_suffix_def has_suffix_def)
    ultimately show ?thesis by (simp add: trimTrailingBR_def)
  qed
  have t1: "trim_right_set blanks_nl (?u @ ''<br>'') = ?u @ ''<br>''"
    and t2: "trim_right_set blanks_nl ?u = ?u"
    by (rule trim_right_set_id; simp add: blanks_nl_def)+
  have nobr: "trimTrailingBR ?u = ?u"
  proof -
    have "last_index (CHR ''<'') ?u = Some (length (''<div dir=\"ltr\">'' @ body))"
      by (simp add: last_index_def)
    moreover have "\<not> br_tag ''/div''"
      by (simp add: br_tag_def trim_space_graphic graphic_def to_lower_def lower_char_def
          trim_suffix_def has_suffix_def)
    ultimately show ?thesis by (simp add: trimTrailingBR_def)
  qed
  have "strip_brs (?u @ ''<br>'') = strip_brs (trim_right_set blanks_nl ?u)"
    using br by (subst strip_brs.simps) simp
  also have "\<dots> = ?u" unfolding t2 using nobr by (subst strip_brs.simps) simp
  finally have s: "strip_brs (?u @ ''<br>'') = ?u" .
  from StripQuotedReplyHTML_at [OF cut nonempty] show ?thesis unfolding t1 s by simp
qed

theorem strip_own_quote_html_witness:
  "StripQuotedReplyHTML (''<div dir=\"ltr\">'' @ ''Fine.'' @ ''</div><br>'' @
     FormatGmailQuoteHTML (\<lambda>_. None) (\<lambda>_. ''Mon'') 0 None ''Ann'' ''<p>Lunch?</p>'') =
   ''<div dir=\"ltr\">'' @ ''Fine.'' @ ''</div>''"
proof -
  have "list_all (\<lambda>m. \<not> contains_sub (to_lower (''<div dir=\"ltr\">'' @ ''Fine.'' @ ''</div><br>'')) m) htmlQuoteMarkers"
    by (simp add: htmlQuoteMarkers_def contains_sub_def to_lower_def lower_char_def char_of_def bit_iff_odd)
  then show ?thesis by (rule strip_own_quote_html) simp
qed

subsection \<open>Reply subjects\<close>

lemma drop_res_None: "strip_re s = None \<Longrightarrow> drop_res s = s"
  by (subst drop_res.simps) simp

lemma drop_res_Some: "strip_re s = Some t \<Longrightarrow> drop_res s = drop_res t"
  by (subst drop_res.simps) simp

lemma drop_res_stops: "strip_re (drop_res s) = None"
proof (induction s rule: drop_res.induct)
  case (1 s)
  then show ?case by (cases "strip_re s") (simp_all add: drop_res_None drop_res_Some)
qed

lemma drop_res_trimmed: "trim_space s = s \<Longrightarrow> trim_space (drop_res s) = drop_res s"
proof (induction s rule: drop_res.induct)
  case (1 s)
  show ?case
  proof (cases "strip_re s")
    case None
    with 1(2) show ?thesis by (simp add: drop_res_None)
  next
    case (Some t)
    then have "trim_space t = t" by (rule strip_re_cases) simp
    with 1(1) [OF Some] Some show ?thesis by (simp add: drop_res_Some)
  qed
qed

lemma has_prefix_until: "has_prefix (xs @ y # ys) w \<Longrightarrow> y \<notin> set w \<Longrightarrow> has_prefix xs w"
proof (induction xs arbitrary: w)
  case Nil
  then show ?case by (cases w) auto
next
  case (Cons x xs)
  then show ?case by (cases w) auto
qed

lemma space_runes_single: "w \<in> set space_runes \<Longrightarrow> CHR '' '' \<in> set w \<Longrightarrow> w = '' ''"
  by (auto simp: space_runes_def bytes_def char_of_def bit_iff_odd)

lemma trim_space_Re:
  assumes "trim_space s = s" and "s \<noteq> []" shows "trim_space (''Re: '' @ s) = ''Re: '' @ s"
proof -
  have right: "trim_right_space s = s" by (rule trimmed_sides(2) [OF assms(1)])
  have no: "\<not> has_prefix (rev s) w" if "w \<in> set (map rev space_runes)" "w \<noteq> []" for w
    using strip_words_stops [OF that, of "rev s"] right by (simp add: trim_right_space_def) (metis rev_swap)
  have "\<not> has_prefix (rev (''Re: '' @ s)) w" if w: "w \<in> set (map rev space_runes)" "w \<noteq> []" for w
  proof
    assume p: "has_prefix (rev (''Re: '' @ s)) w"
    have eq: "rev (''Re: '' @ s) = rev s @ CHR '' '' # '':eR''" by simp
    show False
    proof (cases "CHR '' '' \<in> set w")
      case True
      then have "w = '' ''" using w(1) space_runes_single by auto
      moreover obtain c r where "rev s = c # r" using assms(2) by (cases "rev s") auto
      ultimately have "has_prefix (rev s) w" using p unfolding eq by simp
      with no [OF w] show False ..
    next
      case False
      with p eq has_prefix_until no [OF w] show False by metis
    qed
  qed
  then have "strip_words (map rev space_runes) (rev (''Re: '' @ s)) = rev (''Re: '' @ s)"
    by (rule strip_words_id)
  then have r: "trim_right_space (''Re: '' @ s) = ''Re: '' @ s" by (simp add: trim_right_space_def)
  have "trim_left_space (''Re: '' @ s) = ''Re: '' @ s"
    unfolding trim_left_space_def
    by (rule strip_words_graphic [OF space_runes_edges(1)]) (simp_all add: graphic_def)
  with r show ?thesis by (simp only: trim_space_def)
qed

text \<open>
  A reply subject carries exactly one \<open>Re: \<close>: what follows it starts with no further
  \<open>re:\<close>, in any letter case, and normalising a normalised subject changes nothing.
\<close>

theorem NormalizeReplySubject_canonical:
  "\<exists>s. NormalizeReplySubject subject = ''Re: '' @ s \<and> \<not> has_prefix (to_lower s) ''re:'' \<and>
     NormalizeReplySubject (NormalizeReplySubject subject) = NormalizeReplySubject subject"
proof (intro exI conjI)
  let ?s = "drop_res (trim_space subject)"
  show "NormalizeReplySubject subject = ''Re: '' @ ?s" by (rule NormalizeReplySubject_def)
  have none: "strip_re ?s = None" by (rule drop_res_stops)
  then show "\<not> has_prefix (to_lower ?s) ''re:''" by (auto simp: strip_re_def Let_def)
  have t: "trim_space ?s = ?s" by (rule drop_res_trimmed) simp
  have sr: "strip_re (''Re: '' @ ?s) = Some ?s"
    using t by (simp add: strip_re_def to_lower_def lower_char_def char_of_def bit_iff_odd)
  have "drop_res (trim_space (''Re: '' @ ?s)) = ?s"
  proof (cases "?s = []")
    case True
    have "trim_left_space ''Re: '' = ''Re: ''"
      unfolding trim_left_space_def
      by (rule strip_words_graphic [OF space_runes_edges(1)]) (simp_all add: graphic_def)
    moreover have "trim_right_space ''Re:'' = ''Re:''"
      by (rule trimmed_sides(2) [OF trim_space_graphic]) (simp_all add: graphic_def)
    ultimately have "trim_space ''Re: '' = ''Re:''"
      using trim_right_space_space [of "''Re:''"] by (simp add: trim_space_def)
    moreover have "strip_re ''Re:'' = Some []"
      by (simp add: strip_re_def to_lower_def lower_char_def char_of_def bit_iff_odd)
    ultimately show ?thesis
      using True none by (simp add: drop_res_Some drop_res_None)
  next
    case False
    show ?thesis
      by (simp only: trim_space_Re [OF t False] drop_res_Some [OF sr] drop_res_None [OF none])
  qed
  then show "NormalizeReplySubject (NormalizeReplySubject subject) = NormalizeReplySubject subject"
    by (simp only: NormalizeReplySubject_def)
qed

end
