(* ===== verification/Folders.thy ===== *)
theory Folders
  imports GoPrelude Breaker "HOL-Library.List_Lexorder" "HOL-Library.Char_ord" "HOL-Library.Product_Lexorder"
    "HOL-Library.Multiset"
begin

text \<open>
  The folders a user can choose: \<open>pkg/imap/folders.go\<close> (IMAP mailboxes), \<open>pkg/connector/gmail_labels.go\<close>
  (Gmail labels in the same shape) and \<open>pkg/connector/login_validation.go\<close> (the answers to the two
  prompts).  \<open>sort.Slice\<close>, which is not stable, is an argument; \<open>sort.SliceStable\<close> is \<open>sort_key\<close>.
\<close>

subsection \<open>Folders\<close>

datatype folder_type = FolderTypeStandard | FolderTypeLabel | FolderTypeSystem

text \<open>The constants of the IMAP library for mailbox attributes; any other attribute by its name.\<close>

datatype mailbox_attr =
    AttrNoSelect | AttrJunk | AttrTrash | AttrArchive | AttrSent | AttrDrafts | AttrAll | AttrFlagged
  | AttrImportant | AttrOther gostring

record folder_info =
  fi_Name :: gostring
  fi_Display :: gostring
  fi_Type :: folder_type
  fi_Icon :: gostring
  fi_Attributes :: "mailbox_attr list"
  fi_IsSelectable :: bool

fun type_rank :: "folder_type \<Rightarrow> nat" where
  "type_rank FolderTypeStandard = 0"
| "type_rank FolderTypeLabel = 1"
| "type_rank FolderTypeSystem = 2"

instantiation folder_type :: linorder
begin

definition less_eq_folder_type :: "folder_type \<Rightarrow> folder_type \<Rightarrow> bool" where
  "less_eq_folder_type a b = (type_rank a \<le> type_rank b)"

definition less_folder_type :: "folder_type \<Rightarrow> folder_type \<Rightarrow> bool" where
  "less_folder_type a b = (type_rank a < type_rank b)"

instance
proof
  fix a b c :: folder_type
  show "(a < b) = (a \<le> b \<and> \<not> b \<le> a)" by (auto simp: less_eq_folder_type_def less_folder_type_def)
  show "a \<le> a" by (simp add: less_eq_folder_type_def)
  show "a \<le> b \<Longrightarrow> b \<le> c \<Longrightarrow> a \<le> c" by (simp add: less_eq_folder_type_def)
  show "a \<le> b \<Longrightarrow> b \<le> a \<Longrightarrow> a = b"
    by (cases a; cases b) (simp_all add: less_eq_folder_type_def)
  show "a \<le> b \<or> b \<le> a" by (auto simp: less_eq_folder_type_def)
qed

end

fun folder_type_string :: "folder_type \<Rightarrow> gostring" where
  "folder_type_string FolderTypeStandard = ''folder''"
| "folder_type_string FolderTypeLabel = ''label''"
| "folder_type_string FolderTypeSystem = ''system''"

definition TypeBracket :: "folder_info \<Rightarrow> gostring" where
  "TypeBracket f = ''['' @ folder_type_string (fi_Type f) @ '']''"

definition cleanGmailPrefix :: "gostring \<Rightarrow> gostring" where
  "cleanGmailPrefix name = fold (\<lambda>p n. trim_prefix n p) [''[Gmail]/'', ''[GoogleMail]/'', ''INBOX.'', ''INBOX/''] name"

definition hiddenPatterns :: "gostring list" where
  "hiddenPatterns = [''[gmail]/spam'', ''[gmail]/trash'', ''[gmail]/bin'', ''[googlemail]/spam'',
     ''[googlemail]/trash'', ''junk'', ''deleted'', ''trash'']"

definition isHiddenFolder :: "gostring \<Rightarrow> mailbox_attr list \<Rightarrow> bool" where
  "isHiddenFolder name attrs =
     (if AttrNoSelect \<in> set attrs then True
      else if AttrJunk \<in> set attrs \<or> AttrTrash \<in> set attrs then True
      else if AttrArchive \<in> set attrs then True
      else list_ex (contains_sub (to_lower name)) hiddenPatterns)"

definition categorize :: "gostring \<Rightarrow> mailbox_attr list \<Rightarrow> folder_info" where
  "categorize name attrs =
     (let info = (\<lambda>ty icon display. \<lparr>fi_Name = name, fi_Display = display, fi_Type = ty, fi_Icon = icon,
                    fi_Attributes = attrs, fi_IsSelectable = AttrNoSelect \<notin> set attrs\<rparr>)
      in if equal_fold name ''INBOX'' then info FolderTypeStandard (bytes [240, 159, 147, 165]) ''INBOX''
         else if AttrSent \<in> set attrs then info FolderTypeStandard (bytes [240, 159, 147, 164]) ''Sent''
         else if AttrDrafts \<in> set attrs then info FolderTypeStandard (bytes [240, 159, 147, 157]) ''Drafts''
         else if AttrAll \<in> set attrs then info FolderTypeSystem (bytes [240, 159, 147, 166]) (cleanGmailPrefix name)
         else if AttrFlagged \<in> set attrs then info FolderTypeSystem (bytes [226, 173, 144]) (cleanGmailPrefix name)
         else if AttrImportant \<in> set attrs then info FolderTypeSystem (bytes [226, 157, 151]) (cleanGmailPrefix name)
         else info FolderTypeLabel (bytes [240, 159, 143, 183, 239, 184, 143]) (cleanGmailPrefix name))"

definition folder_key :: "folder_info \<Rightarrow> folder_type \<times> gostring" where
  "folder_key f = (fi_Type f, to_lower (fi_Display f))"

definition folder_less :: "folder_info \<Rightarrow> folder_info \<Rightarrow> bool" where
  "folder_less f g = (if fi_Type f \<noteq> fi_Type g then fi_Type f < fi_Type g
     else to_lower (fi_Display f) < to_lower (fi_Display g))"

type_synonym slice_sort = "(folder_info \<Rightarrow> folder_info \<Rightarrow> bool) \<Rightarrow> folder_info list \<Rightarrow> folder_info list"

definition CategorizeFolders :: "slice_sort \<Rightarrow> (gostring \<times> mailbox_attr list) list \<Rightarrow> folder_info list" where
  "CategorizeFolders srt mailboxes =
     srt folder_less (map (\<lambda>(name, attrs). categorize name attrs)
       (filter (\<lambda>(name, attrs). \<not> isHiddenFolder name attrs) mailboxes))"

fun section_header :: "folder_type \<Rightarrow> gostring" where
  "section_header FolderTypeStandard = ''**Standard Folders:**'' @ bytes [10]"
| "section_header FolderTypeLabel = ''**Labels/Custom Folders:**'' @ bytes [10]"
| "section_header FolderTypeSystem = ''**System Folders:** *(usually not needed)*'' @ bytes [10]"

fun format_folders :: "nat \<Rightarrow> folder_type option \<Rightarrow> folder_info list \<Rightarrow> gostring" where
  "format_folders i cur [] = []"
| "format_folders i cur (f # fs) =
     (if cur \<noteq> Some (fi_Type f)
      then (if cur \<noteq> None then bytes [10] else []) @ section_header (fi_Type f) else []) @
     ''  '' @ itoa_go (int i + 1) @ ''. '' @ fi_Icon f @ '' '' @ fi_Display f @ '' '' @ TypeBracket f @ bytes [10] @
     format_folders (Suc i) (Some (fi_Type f)) fs"

definition FormatFolderList :: "folder_info list \<Rightarrow> gostring" where
  "FormatFolderList folders = (if folders = [] then ''No folders found.'' else format_folders 0 None folders)"

definition FormatSelectedFolders :: "folder_info list \<Rightarrow> gostring" where
  "FormatSelectedFolders folders =
     (if folders = [] then ''No folders selected.''
      else ''You selected:'' @ bytes [10] @
        concat (map (\<lambda>f. ''  '' @ bytes [226, 128, 162] @ '' '' @ fi_Icon f @ '' **'' @ fi_Display f @ ''** '' @ TypeBracket f @ bytes [10]) folders))"

subsection \<open>Gmail labels\<close>

record gmail_label =
  gl_Id :: gostring
  gl_Name :: gostring
  gl_Type :: gostring
  gl_Visibility :: gostring

definition label_kind :: "gmail_label \<Rightarrow> folder_type \<times> gostring" where
  "label_kind l =
     (let i = to_upper (gl_Id l) in
      if i = ''INBOX'' then (FolderTypeStandard, bytes [240, 159, 147, 165])
      else if i = ''SENT'' then (FolderTypeStandard, bytes [240, 159, 147, 164])
      else if i = ''DRAFT'' then (FolderTypeStandard, bytes [240, 159, 147, 157])
      else if i = ''STARRED'' then (FolderTypeSystem, bytes [226, 173, 144])
      else if i = ''IMPORTANT'' then (FolderTypeSystem, bytes [226, 157, 151])
      else if i = ''TRASH'' then (FolderTypeSystem, bytes [240, 159, 151, 145, 239, 184, 143])
      else if i = ''SPAM'' then (FolderTypeSystem, bytes [240, 159, 154, 171])
      else if i = ''UNREAD'' then (FolderTypeSystem, bytes [240, 159, 134, 149])
      else if has_prefix i ''CATEGORY_'' then (FolderTypeSystem, bytes [240, 159, 151, 130, 239, 184, 143])
      else if equal_fold (gl_Type l) ''system'' then (FolderTypeSystem, bytes [240, 159, 148, 167])
      else (FolderTypeLabel, bytes [240, 159, 143, 183, 239, 184, 143]))"

definition label_folder :: "gmail_label \<Rightarrow> folder_info" where
  "label_folder l = \<lparr>fi_Name = gl_Id l, fi_Display = gl_Name l, fi_Type = fst (label_kind l),
     fi_Icon = snd (label_kind l), fi_Attributes = [], fi_IsSelectable = True\<rparr>"

text \<open>The API's answer: an error, no response, or the labels, of which some may be nil.\<close>

definition ListGmailLabelsAsFolders :: "bool \<Rightarrow> go_error + gmail_label option list option \<Rightarrow> go_error + folder_info list" where
  "ListGmailLabelsAsFolders has_svc answer =
     (if \<not> has_svc then Inl (Err ''ListGmailLabelsAsFolders: nil gmail.Service'') else case answer of
        Inl e \<Rightarrow> Inl (Err (''gmail labels.list: '' @ error_text e))
      | Inr None \<Rightarrow> Inr []
      | Inr (Some labels) \<Rightarrow>
          Inr (sort_key folder_key (map label_folder
            (filter (\<lambda>l. gl_Id l \<noteq> [] \<and> \<not> equal_fold (gl_Visibility l) ''labelHide'')
              (List.map_filter (\<lambda>l. l) labels)))))"

subsection \<open>The user's answers\<close>

datatype folder_selection =
    Selected "gostring list" "folder_info list" bool
  | SelectCancelled
  | SelectInvalid gostring

definition literal_inbox :: folder_info where
  "literal_inbox = \<lparr>fi_Name = ''INBOX'', fi_Display = ''INBOX'', fi_Type = FolderTypeStandard,
     fi_Icon = bytes [240, 159, 147, 165], fi_Attributes = [], fi_IsSelectable = False\<rparr>"

fun select_indices :: "nat \<Rightarrow> gostring list \<Rightarrow> nat list \<Rightarrow> gostring + nat list" where
  "select_indices n [] acc = Inr acc"
| "select_indices n (part0 # parts) acc =
     (let part = trim_space part0 in
      if part = [] then select_indices n parts acc
      else case atoi_go part of
        None \<Rightarrow> Inl (bytes [226, 157, 140] @ '' Invalid input: `'' @ part @ ''` is not a number.'' @ bytes [10, 10] @ ''Please enter folder numbers (e.g., `1` or `1,3,5`), `default` for INBOX, or `cancel`.'')
      | Some num \<Rightarrow>
          if num < 1 \<or> num > int n
          then Inl (bytes [226, 157, 140] @ '' Invalid input: `'' @ itoa_go num @ ''` is out of range.'' @ bytes [10, 10] @ ''Please choose a number between 1 and '' @ itoa_go (int n) @ ''.'')
          else let idx = nat (num - 1)
               in select_indices n parts (if idx \<in> set acc then acc else acc @ [idx]))"

definition default_selection :: "folder_info list \<Rightarrow> folder_selection" where
  "default_selection folders =
     (case find (\<lambda>f. equal_fold (fi_Display f) ''INBOX'' \<or> equal_fold (fi_Name f) ''INBOX'') folders of
        Some f \<Rightarrow> Selected [fi_Name f] [f] True
      | None \<Rightarrow> Selected [''INBOX''] [literal_inbox] True)"

definition numbered_selection :: "gostring \<Rightarrow> folder_info list \<Rightarrow> folder_selection" where
  "numbered_selection input folders =
     (case select_indices (length folders) (split_on (CHR '','') input) [] of
        Inl e \<Rightarrow> SelectInvalid e
      | Inr [] \<Rightarrow> SelectInvalid ''Please enter at least one folder number.''
      | Inr idxs \<Rightarrow> Selected (map (\<lambda>i. fi_Name (folders ! i)) idxs) (map (\<lambda>i. folders ! i) idxs) False)"

definition ValidateFolderSelection :: "gostring \<Rightarrow> folder_info list \<Rightarrow> folder_selection" where
  "ValidateFolderSelection input0 folders =
     (let input = trim_space input0 in
      if input = [] then SelectInvalid ''Please enter a folder number, or type `default` for INBOX, or `cancel` to abort.''
      else if to_lower input = ''cancel'' then SelectCancelled
      else if to_lower input = ''default'' then default_selection folders
      else numbered_selection input folders)"

definition ValidateConfirmation :: "gostring \<Rightarrow> bool \<times> bool \<times> gostring" where
  "ValidateConfirmation input0 =
     (let input = trim_space (to_lower input0) in
      if input = ''yes'' \<or> input = ''y'' then (True, False, [])
      else if input = ''no'' \<or> input = ''n'' then (False, True, [])
      else (False, False, (bytes [226, 157, 140] @ '' Invalid input. Please type `yes` or `no`.'')))"

definition rule_line :: gostring where
  "rule_line = bytes [10] @ concat (replicate 41 (bytes [226, 148, 129])) @ bytes [10]"

definition BuildFolderSelectionPrompt :: "folder_info list \<Rightarrow> gostring \<Rightarrow> gostring" where
  "BuildFolderSelectionPrompt folders provider =
     bytes [226, 156, 133] @ '' Connected to **'' @ provider @ ''** successfully!'' @ bytes [10, 10] @ bytes [240, 159, 147, 129] @ '' **Choose which folders or labels to monitor:**'' @ bytes [10, 10] @ FormatFolderList folders @ rule_line @
     ''Reply with folder number(s) separated by commas.'' @ bytes [10] @ ''**Examples:** `1` for INBOX only, or `1,3` for INBOX + another folder'' @ bytes [10] @ ''Type `default` to monitor INBOX (recommended for most users)'' @ bytes [10] @ ''Type `cancel` to abort setup''"

definition BuildConfirmationPrompt :: "folder_info list \<Rightarrow> gostring" where
  "BuildConfirmationPrompt folders =
     bytes [240, 159, 147, 139] @ '' **Please confirm your selection:**'' @ bytes [10, 10] @ FormatSelectedFolders folders @ bytes [10] @
     (if length folders = 1 then ''The bridge will only show emails from this folder in Beeper.'' @ bytes [10] else ''The bridge will monitor all selected folders in Beeper.'' @ bytes [10]) @
     (if list_ex (\<lambda>f. fi_Type f = FolderTypeLabel) folders then bytes [10, 240, 159, 146, 161] @ '' **Tip:** Add the label to any email thread in Gmail to see it in Beeper.'' @ bytes [10] else []) @
     rule_line @ ''Type `yes` to confirm or `no` to go back.''"

end
