(* ===== verification/FolderFacts.thy ===== *)
theory FolderFacts
  imports Folders
begin

text \<open>
  What the user is offered and what an answer selects: hidden mailboxes are never offered, the list
  is ordered by kind and name, and the numbers shown select the folders they stand beside.
\<close>

subsection \<open>The offered folders\<close>

text \<open>\<open>sort.Slice\<close> permutes its argument and, for a less function that compares ranks, orders it by rank.\<close>

definition sort_contract :: "slice_sort \<Rightarrow> bool" where
  "sort_contract srt \<longleftrightarrow> (\<forall>lt xs. mset (srt lt xs) = mset xs \<and>
     (\<forall>rank. (\<forall>x y. lt x y \<longleftrightarrow> rank x < (rank y :: folder_type \<times> gostring)) \<longrightarrow> sorted (map rank (srt lt xs))))"

definition insert_less :: "('a \<Rightarrow> 'a \<Rightarrow> bool) \<Rightarrow> 'a \<Rightarrow> 'a list \<Rightarrow> 'a list" where
  "insert_less lt x ys = takeWhile (\<lambda>y. lt y x) ys @ x # dropWhile (\<lambda>y. lt y x) ys"

lemma sort_contract_insertion: "sort_contract (\<lambda>lt xs. foldr (insert_less lt) xs [])"
proof -
  have ms: "mset (foldr (insert_less lt) xs []) = mset xs" for lt :: "folder_info \<Rightarrow> folder_info \<Rightarrow> bool" and xs
  proof (induction xs)
    case (Cons x xs)
    have "mset (insert_less lt x ys) = add_mset x (mset ys)" for ys
    proof -
      have "mset (takeWhile (\<lambda>y. lt y x) ys) + mset (dropWhile (\<lambda>y. lt y x) ys) = mset ys"
        by (metis mset_append takeWhile_dropWhile_id)
      then show ?thesis by (simp add: insert_less_def)
    qed
    with Cons show ?case by simp
  qed simp
  have "sorted (map rank (foldr (insert_less lt) xs []))"
    if r: "\<forall>x y. lt x y \<longleftrightarrow> rank x < rank y" for lt xs and rank :: "folder_info \<Rightarrow> folder_type \<times> gostring"
  proof (induction xs)
    case (Cons x xs)
    have cons: "insert_less lt x (a # ys) = (if lt a x then a # insert_less lt x ys else x # a # ys)" for a ys
      by (simp add: insert_less_def)
    have "set (insert_less lt x ys) = insert x (set ys)" for ys
      using takeWhile_dropWhile_id [of "\<lambda>y. lt y x" ys] unfolding insert_less_def
      by (metis Un_insert_right list.set(2) set_append)
    then have "sorted (map rank (insert_less lt x ys))" if "sorted (map rank ys)" for ys
      using that
    proof (induction ys)
      case Nil
      then show ?case by (simp add: insert_less_def)
    next
      case (Cons a ys)
      then show ?case
        unfolding cons using r [rule_format, of a x] by (auto simp: not_less intro: less_imp_le order_trans)
    qed
    with Cons show ?case by simp
  qed simp
  with ms show ?thesis by (simp add: sort_contract_def)
qed

lemma folder_less_key: "folder_less f g \<longleftrightarrow> folder_key f < folder_key g"
  by (auto simp: folder_less_def folder_key_def less_prod_def' less_le)

lemma CategorizeFolders_offers:
  assumes "sort_contract srt"
  shows "mset (CategorizeFolders srt mailboxes) =
      mset (map (\<lambda>(n, a). categorize n a) (filter (\<lambda>(n, a). \<not> isHiddenFolder n a) mailboxes))"
    and "sorted (map folder_key (CategorizeFolders srt mailboxes))"
proof -
  let ?fs = "map (\<lambda>(n, a). categorize n a) (filter (\<lambda>(n, a). \<not> isHiddenFolder n a) mailboxes)"
  have s: "CategorizeFolders srt mailboxes = srt folder_less ?fs" by (simp add: CategorizeFolders_def)
  show "mset (CategorizeFolders srt mailboxes) = mset ?fs"
    unfolding s using assms by (simp add: sort_contract_def)
  show "sorted (map folder_key (CategorizeFolders srt mailboxes))"
    unfolding s using assms folder_less_key unfolding sort_contract_def by blast
qed

lemma categorize_fields:
  "fi_Name (categorize name attrs) = name" "fi_Attributes (categorize name attrs) = attrs"
  "fi_IsSelectable (categorize name attrs) \<longleftrightarrow> AttrNoSelect \<notin> set attrs"
  by (simp_all add: categorize_def Let_def)

text \<open>Every offered folder is a mailbox that can be opened, and no junk, trash or archive.\<close>

lemma offered_selectable:
  assumes "sort_contract srt" and f: "f \<in> set (CategorizeFolders srt mailboxes)"
  shows "(fi_Name f, fi_Attributes f) \<in> set mailboxes" and "fi_IsSelectable f"
    and "set (fi_Attributes f) \<inter> {AttrNoSelect, AttrJunk, AttrTrash, AttrArchive} = {}"
proof -
  have "f \<in> set (map (\<lambda>(n, a). categorize n a) (filter (\<lambda>(n, a). \<not> isHiddenFolder n a) mailboxes))"
    using CategorizeFolders_offers(1) [OF assms(1), of mailboxes] f by (metis set_mset_mset)
  then obtain n a where "(n, a) \<in> set mailboxes" "\<not> isHiddenFolder n a" "f = categorize n a" by auto
  then show "(fi_Name f, fi_Attributes f) \<in> set mailboxes" "fi_IsSelectable f"
    "set (fi_Attributes f) \<inter> {AttrNoSelect, AttrJunk, AttrTrash, AttrArchive} = {}"
    by (auto simp: categorize_fields isHiddenFolder_def split: if_splits)
qed

text \<open>
  Gmail labels: \<open>labelHide\<close> labels are left out and the rest keep all the API listed; the order is
  the folders' own, in which the labels of the user come before the system labels.
\<close>

lemma ListGmailLabels_offers:
  assumes "ListGmailLabelsAsFolders True (Inr (Some labels)) = Inr fs"
  shows "sorted (map folder_key fs)"
    and "set fs = {label_folder l | l. Some l \<in> set labels \<and> gl_Id l \<noteq> [] \<and> \<not> equal_fold (gl_Visibility l) ''labelHide''}"
proof -
  have fs: "fs = sort_key folder_key (map label_folder
      (filter (\<lambda>l. gl_Id l \<noteq> [] \<and> \<not> equal_fold (gl_Visibility l) ''labelHide'') (List.map_filter (\<lambda>l. l) labels)))"
    using assms by (simp add: ListGmailLabelsAsFolders_def)
  show "sorted (map folder_key fs)" by (simp add: fs)
  have "l \<in> set (List.map_filter (\<lambda>l. l) labels) \<longleftrightarrow> Some l \<in> set labels" for l
    by (induction labels) (auto simp: map_filter_simps split: option.splits)
  then show "set fs = {label_folder l | l. Some l \<in> set labels \<and> gl_Id l \<noteq> [] \<and> \<not> equal_fold (gl_Visibility l) ''labelHide''}"
    by (auto simp: fs)
qed

subsection \<open>The answers\<close>

lemma select_indices_sound:
  assumes "select_indices n parts acc = Inr idxs" and "distinct acc" and "\<forall>i \<in> set acc. i < n"
  shows "distinct idxs \<and> (\<forall>i \<in> set idxs. i < n)"
  using assms
proof (induction n parts acc rule: select_indices.induct)
  case (2 n part0 parts acc)
  show ?case
  proof (cases "trim_space part0 = []")
    case True
    with 2 show ?thesis by simp
  next
    case False
    with 2(3) obtain num where num: "atoi_go (trim_space part0) = Some num"
      by (cases "atoi_go (trim_space part0)") (simp_all add: Let_def)
    with False 2(3) have ok: "\<not> (num < 1 \<or> num > int n)"
      "select_indices n parts (if nat (num - 1) \<in> set acc then acc else acc @ [nat (num - 1)]) = Inr idxs"
      by (auto simp: Let_def split: if_splits)
    then have "nat (num - 1) < n" by auto
    then have "distinct (if nat (num - 1) \<in> set acc then acc else acc @ [nat (num - 1)])"
      "\<forall>i \<in> set (if nat (num - 1) \<in> set acc then acc else acc @ [nat (num - 1)]). i < n"
      using 2(4,5) by simp_all
    then show ?thesis by (rule 2(2) [OF refl False num ok(1) refl ok(2)])
  qed
qed simp

lemma ValidateFolderSelection_sound:
  assumes "ValidateFolderSelection input folders = Selected names infos dflt"
  shows "names = map fi_Name infos" and "infos \<noteq> []" and "\<not> dflt \<Longrightarrow> set infos \<subseteq> set folders"
proof -
  have "default_selection folders = Selected names infos dflt \<or>
      numbered_selection (trim_space input) folders = Selected names infos dflt"
    using assms unfolding ValidateFolderSelection_def Let_def
    by (metis folder_selection.distinct(1,3))
  then consider (inbox) f where "names = [fi_Name f]" "infos = [f]" "dflt"
    | (literal) "names = [''INBOX'']" "infos = [literal_inbox]" "dflt"
    | (numbers) i idxs where "select_indices (length folders) (split_on (CHR '','') (trim_space input)) [] = Inr (i # idxs)"
      "names = map (\<lambda>i. fi_Name (folders ! i)) (i # idxs)" "infos = map (\<lambda>i. folders ! i) (i # idxs)" "\<not> dflt"
    by (auto simp: default_selection_def numbered_selection_def
        split: option.splits sum.splits list.splits)
  note shape = this
  show "names = map fi_Name infos" "infos \<noteq> []" using shape by (cases; simp add: literal_inbox_def)+
  show "set infos \<subseteq> set folders" if "\<not> dflt"
    using shape
  proof cases
    case numbers
    with select_indices_sound [OF numbers(1)] show ?thesis by auto
  qed (use that in simp_all)
qed

text \<open>The answer that names folders by the numbers beside which they are shown.\<close>

definition number_shown :: "nat \<Rightarrow> gostring" where
  "number_shown i = itoa_go (int i + 1)"

definition answer_numbers :: "nat list \<Rightarrow> gostring" where
  "answer_numbers idxs = join_with '','' (map number_shown idxs)"

lemma number_shown_digits: "number_shown i = nat_digits (Suc i)"
  by (simp add: number_shown_def itoa_go_def nat_add_distrib)

lemma digit_graphic: "is_digit c \<Longrightarrow> graphic c \<and> lower_char c = c \<and> c \<noteq> CHR '','' \<and> c \<notin> set ''cd''"
  by (auto simp: is_digit_def graphic_def lower_char_def)

lemma number_chars: "c \<in> set (number_shown i) \<Longrightarrow> is_digit c"
  using nat_digits_digits [of "Suc i"] by (simp add: number_shown_digits list_all_iff)

lemma number_shown_nonempty [simp]: "number_shown i \<noteq> []"
  by (simp add: number_shown_digits)

lemma select_numbers:
  assumes "\<forall>i \<in> set idxs. i < n" and "n < 2 ^ 63"
  shows "select_indices n (map number_shown idxs) acc =
    Inr (fold (\<lambda>i acc. if i \<in> set acc then acc else acc @ [i]) idxs acc)"
  using assms(1)
proof (induction idxs arbitrary: acc)
  case (Cons i idxs)
  have t: "trim_space (number_shown i) = number_shown i"
    by (rule trim_space_graphic) (simp_all add: number_chars [of _ i] digit_graphic)
  have "atoi_go (number_shown i) = Some (int i + 1)"
    unfolding number_shown_def using Cons.prems assms(2) by (intro atoi_itoa) auto
  with Cons t show ?case by (simp add: Let_def)
qed simp

lemma fold_firsts: "fold (\<lambda>i acc. if i \<in> set acc then acc else acc @ [i]) xs [] = rev (remdups (rev xs))"
  by (induction xs rule: rev_induct) simp_all

lemma answer_chars:
  assumes "c \<in> set (answer_numbers idxs)" shows "c = CHR '','' \<or> is_digit c"
  using assms unfolding answer_numbers_def
proof (induction idxs)
  case (Cons i idxs)
  then show ?case
    by (cases idxs) (auto simp: join_with_Cons dest: number_chars)
qed simp

text \<open>
  The numbers shown beside the folders select those folders: an answer listing them selects
  exactly them, in the order of their first mention, whatever was offered and however often a
  number is repeated.
\<close>

theorem folder_selection_roundtrip:
  assumes "idxs \<noteq> []" and "\<forall>i \<in> set idxs. i < length folders" and "length folders < 2 ^ 63"
  shows "ValidateFolderSelection (join_with '','' (map (\<lambda>i. itoa_go (int i + 1)) idxs)) folders =
    (let chosen = rev (remdups (rev idxs)) in
     Selected (map (\<lambda>i. fi_Name (folders ! i)) chosen) (map (\<lambda>i. folders ! i) chosen) False)"
proof -
  let ?input = "answer_numbers idxs"
  obtain i js where idxs: "idxs = i # js" using assms(1) by (cases idxs) auto
  obtain c r where cr: "number_shown i = c # r" using number_shown_nonempty by (meson neq_Nil_conv)
  then have c: "is_digit c" using number_chars [of c i] by simp
  obtain u where u: "?input = c # u"
    using idxs cr by (cases js) (auto simp: answer_numbers_def join_with_Cons)
  have answer_graphic: "graphic d" if "d \<in> set (c # u)" for d
    using answer_chars [of d idxs] that digit_graphic [of d] by (auto simp: u graphic_def)
  have "trim_space ?input = ?input"
    using answer_graphic by (intro trim_space_graphic) (simp_all add: u)
  moreover have "to_lower ?input \<noteq> ''cancel''" "to_lower ?input \<noteq> ''default''"
    using c digit_graphic [OF c] by (auto simp: u to_lower_Cons)
  moreover have "split_on (CHR '','') ?input = map number_shown idxs"
    unfolding answer_numbers_def
    by (rule split_join) (use assms(1) number_chars digit_graphic in auto)
  moreover have "select_indices (length folders) (map number_shown idxs) [] = Inr (rev (remdups (rev idxs)))"
    using select_numbers [OF assms(2,3)] by (simp add: fold_firsts)
  ultimately have "ValidateFolderSelection ?input folders =
    (case rev (remdups (rev idxs)) of [] \<Rightarrow> SelectInvalid ''Please enter at least one folder number.''
     | js \<Rightarrow> Selected (map (\<lambda>i. fi_Name (folders ! i)) js) (map (\<lambda>i. folders ! i) js) False)"
    using u by (simp add: ValidateFolderSelection_def numbered_selection_def Let_def split: list.split)
  moreover have "rev (remdups (rev idxs)) \<noteq> []" using assms(1) by (metis remdups_eq_nil_iff rev_is_Nil_conv)
  ultimately show ?thesis
    by (simp add: answer_numbers_def number_shown_def [abs_def] Let_def split: list.splits)
qed

theorem folder_selection_roundtrip_witness:
  "ValidateFolderSelection ''2,1,2'' [categorize ''INBOX'' [], categorize ''Work'' []] =
     Selected [''Work'', ''INBOX''] [categorize ''Work'' [], categorize ''INBOX'' []] False"
  using folder_selection_roundtrip [of "[1, 0, 1]" "[categorize ''INBOX'' [], categorize ''Work'' []]"]
  by (simp add: itoa_go_def nat_digits.simps digit_char_def char_of_def bit_iff_odd Let_def categorize_fields)

end
