(* ===== verification/Senders.thy ===== *)
theory Senders
  imports Breaker
begin

text \<open>
  The outbound transports: \<open>pkg/email/sender_factory.go\<close>, \<open>sender_gmail.go\<close>, \<open>sender_smtp.go\<close> and
  \<open>sender_graph.go\<close>.  The SMTP server and the Gmail API answer through arguments; what the bridge
  sends them is returned with the result, in order.
\<close>

subsection \<open>Endpoints\<close>

record smtp_provider_info =
  pi_Host :: gostring
  pi_Port :: int
  pi_StartTLS :: bool

definition submission_endpoint :: "gostring \<Rightarrow> smtp_provider_info" where
  "submission_endpoint host = \<lparr>pi_Host = host, pi_Port = 587, pi_StartTLS = True\<rparr>"

definition smtpProviders :: "gostring \<rightharpoonup> smtp_provider_info" where
  "smtpProviders = map_option submission_endpoint \<circ> map_of
     [(''gmail.com'', ''smtp.gmail.com''), (''googlemail.com'', ''smtp.gmail.com''),
      (''yahoo.com'', ''smtp.mail.yahoo.com''), (''yahoo.co.uk'', ''smtp.mail.yahoo.com''),
      (''yahoo.fr'', ''smtp.mail.yahoo.com''), (''yahoo.de'', ''smtp.mail.yahoo.com''),
      (''outlook.com'', ''smtp.office365.com''), (''hotmail.com'', ''smtp.office365.com''),
      (''live.com'', ''smtp.office365.com''), (''msn.com'', ''smtp.office365.com''),
      (''office365.com'', ''smtp.office365.com''), (''icloud.com'', ''smtp.mail.me.com''),
      (''me.com'', ''smtp.mail.me.com''), (''mac.com'', ''smtp.mail.me.com''),
      (''fastmail.com'', ''smtp.fastmail.com'')]"

text \<open>\<open>strings.SplitN(s, "@", 2)\<close> of the trimmed, lower-cased address: the part after the first at sign.\<close>

definition address_domain :: "gostring \<Rightarrow> gostring option" where
  "address_domain email =
     (let s = to_lower (trim_space email) in
      map_option (\<lambda>i. drop (Suc i) s) (index_of s ''@''))"

definition SMTPInfoForEmail :: "gostring \<Rightarrow> smtp_provider_info" where
  "SMTPInfoForEmail email =
     (case address_domain email of
        None \<Rightarrow> \<lparr>pi_Host = [], pi_Port = 0, pi_StartTLS = False\<rparr>
      | Some d \<Rightarrow>
          if d = [] then \<lparr>pi_Host = [], pi_Port = 0, pi_StartTLS = False\<rparr>
          else case smtpProviders d of
                 Some p \<Rightarrow> p
               | None \<Rightarrow> \<lparr>pi_Host = ''smtp.'' @ d, pi_Port = 587, pi_StartTLS = True\<rparr>)"

definition SMTPInfoForGoogleWorkspace :: smtp_provider_info where
  "SMTPInfoForGoogleWorkspace = \<lparr>pi_Host = ''smtp.gmail.com'', pi_Port = 587, pi_StartTLS = True\<rparr>"

text \<open>The MX lookup is an argument.\<close>

definition IsGoogleWorkspaceDomain :: "(gostring \<Rightarrow> go_error + gostring list) \<Rightarrow> gostring \<Rightarrow> bool" where
  "IsGoogleWorkspaceDomain lookupMX domain =
     (case lookupMX domain of
        Inl _ \<Rightarrow> False
      | Inr mxs \<Rightarrow> list_ex (\<lambda>mx. let host = to_lower (trim_suffix mx ''.'') in
          has_suffix host ''.google.com'' \<or> has_suffix host ''.googlemail.com'') mxs)"

definition IsGmailDomain :: "gostring \<Rightarrow> bool" where
  "IsGmailDomain emailAddr =
     (case address_domain emailAddr of
        None \<Rightarrow> False
      | Some d \<Rightarrow> d = ''gmail.com'' \<or> d = ''googlemail.com'')"

subsection \<open>SMTP\<close>

record smtp_config =
  sc_Host :: gostring
  sc_Port :: int
  sc_Username :: gostring
  sc_Password :: gostring
  sc_StartTLS :: bool
  sc_UseXOAUTH2 :: bool

text \<open>What the client asks of the server, in the order of the calls on the connection.\<close>

datatype smtp_call =
    Dial gostring
  | Greeting
  | StartTLSCmd gostring
  | AuthPlain gostring gostring
  | AuthXOAUTH2 gostring
  | MailFrom gostring
  | RcptTo gostring
  | DataCmd
  | WriteBody gostring
  | EndOfData
  | Quit
  | Hangup

text \<open>\<open>net.JoinHostPort\<close> puts a host with a colon or a percent sign in brackets.\<close>

definition joinHostPort :: "gostring \<Rightarrow> gostring \<Rightarrow> gostring" where
  "joinHostPort host port =
     (if CHR '':'' \<in> set host \<or> CHR ''%'' \<in> set host then ''['' @ host @ '']:'' @ port else host @ '':'' @ port)"

definition xoauth2_payload :: "gostring \<Rightarrow> gostring \<Rightarrow> gostring" where
  "xoauth2_payload user token = ''user='' @ user @ bytes [1] @ ''auth=Bearer '' @ token @ bytes [1, 1]"

text \<open>
  \<open>smtp.PlainAuth\<close> refuses to start on an unencrypted connection to a host other than the local one;
  \<open>Auth\<close> then quits.
\<close>

definition plain_refused :: "smtp_config \<Rightarrow> bool" where
  "plain_refused cfg \<longleftrightarrow> \<not> sc_StartTLS cfg \<and> sc_Host cfg \<notin> set [''localhost'', ''127.0.0.1'', ''::1'']"

text \<open>A step that may be refused before it is sent, the call itself and the text its error is wrapped in.\<close>

type_synonym smtp_step = "go_error option \<times> smtp_call \<times> gostring"

fun smtp_steps :: "(smtp_call \<Rightarrow> go_error option) \<Rightarrow> smtp_step list \<Rightarrow> go_error option \<times> smtp_call list" where
  "smtp_steps server [] = (None, [])"
| "smtp_steps server ((refused, call, label) # steps) =
     (case refused of
        Some e \<Rightarrow> (Some (Errorf label e), [Quit])
      | None \<Rightarrow>
          (case server call of
             Some e \<Rightarrow> (Some (Errorf label e), [call])
           | None \<Rightarrow> (let (err, calls) = smtp_steps server steps in (err, call # calls))))"

definition auth_step :: "smtp_config \<Rightarrow> smtp_step" where
  "auth_step cfg =
     (if sc_UseXOAUTH2 cfg
      then (None, AuthXOAUTH2 (xoauth2_payload (sc_Username cfg) (sc_Password cfg)), ''smtp xoauth2 auth'')
      else (if plain_refused cfg then Some (Err ''unencrypted connection'') else None,
            AuthPlain (sc_Username cfg) (sc_Password cfg), ''smtp auth''))"

definition envelope_steps :: "smtp_config \<Rightarrow> gostring \<Rightarrow> gostring list \<Rightarrow> smtp_step list" where
  "envelope_steps cfg sender rcpts =
     (if sc_StartTLS cfg then [(None, StartTLSCmd (sc_Host cfg), ''starttls'')] else []) @
     [auth_step cfg, (None, MailFrom sender, ''smtp mail from'')] @
     map (\<lambda>r. (None, RcptTo r, ''smtp rcpt '' @ r)) rcpts @
     [(None, DataCmd, ''smtp data'')]"

text \<open>The writer of a failed write keeps its error: closing it sends nothing more.\<close>

definition transfer :: "(smtp_call \<Rightarrow> go_error option) \<Rightarrow> gostring \<Rightarrow> go_error option \<times> smtp_call list" where
  "transfer server mime =
     (case server (WriteBody mime) of
        Some e \<Rightarrow> (Some (Errorf ''smtp write'' e), [WriteBody mime])
      | None \<Rightarrow>
          (case server EndOfData of
             Some e \<Rightarrow> (Some (Errorf ''smtp close'' e), [WriteBody mime, EndOfData])
           | None \<Rightarrow> (None, [WriteBody mime, EndOfData])))"

definition smtp_session ::
  "(smtp_call \<Rightarrow> go_error option) \<Rightarrow> smtp_config \<Rightarrow> gostring \<Rightarrow> gostring \<Rightarrow> gostring list \<Rightarrow>
     go_error option \<times> smtp_call list" where
  "smtp_session server cfg mime sender rcpts =
     (case smtp_steps server (envelope_steps cfg sender rcpts) of
        (Some e, calls) \<Rightarrow> (Some e, calls)
      | (None, calls) \<Rightarrow> (let (err, more) = transfer server mime in (err, calls @ more)))"

definition smtp_Send ::
  "(smtp_call \<Rightarrow> go_error option) \<Rightarrow> smtp_config \<Rightarrow> gostring \<Rightarrow> gostring \<Rightarrow> gostring list \<Rightarrow> gostring \<Rightarrow>
     (go_error + gostring) \<times> smtp_call list" where
  "smtp_Send server cfg mime sender rcpts threadID =
     (if rcpts = [] then (Inl (Err ''smtp: no recipients''), [])
      else if sc_Host cfg = [] then (Inl (Err ''smtp: host not configured''), [])
      else let dial = Dial (joinHostPort (sc_Host cfg) (itoa_go (sc_Port cfg))) in
        case server dial of
          Some e \<Rightarrow> (Inl (Errorf ''smtp dial'' e), [dial])
        | None \<Rightarrow>
            (case server Greeting of
               Some e \<Rightarrow> (Inl (Errorf ''smtp client'' e), [dial, Greeting, Hangup])
             | None \<Rightarrow>
                 (let (err, calls) = smtp_session server cfg mime sender rcpts
                  in (case err of Some e \<Rightarrow> Inl e | None \<Rightarrow> Inr [], [dial, Greeting] @ calls @ [Quit]))))"

subsection \<open>The Gmail API\<close>

text \<open>An error of the API call: its text, and the code and message \<open>errors.As\<close> finds in it, if any.\<close>

record api_error =
  ae_error :: go_error
  ae_googleapi :: "(int \<times> gostring) option"

definition isGmailBadThreadErr :: "api_error \<Rightarrow> bool" where
  "isGmailBadThreadErr err =
     (case ae_googleapi err of
        None \<Rightarrow> False
      | Some (code, msg) \<Rightarrow>
          if code = 404 then True else code = 400 \<and> contains_sub (to_lower msg) ''thread'')"

text \<open>
  \<open>gs_send raw threadID\<close> answers \<open>Messages.Send\<close> with the message's Gmail ID, \<open>gs_get\<close> answers the
  metadata fetch with its headers, \<open>None\<close> when there is no payload.
\<close>

record gmail_server =
  gs_service :: "go_error option"
  gs_send :: "gostring \<Rightarrow> gostring \<Rightarrow> api_error + gostring"
  gs_get :: "gostring \<Rightarrow> go_error + (gostring \<times> gostring) list option"

datatype gmail_call = SendCall gostring gostring | GetCall gostring

definition sent_message_id :: "(gostring \<times> gostring) list option \<Rightarrow> gostring" where
  "sent_message_id payload =
     (case payload of
        None \<Rightarrow> []
      | Some headers \<Rightarrow>
          (case find (\<lambda>(n, v). equal_fold n ''Message-ID'') headers of
             Some (n, v) \<Rightarrow> trim_set ''<>'' v
           | None \<Rightarrow> []))"

definition gmail_post ::
  "gmail_server \<Rightarrow> gostring \<Rightarrow> gostring \<Rightarrow> (api_error + gostring) \<times> gmail_call list" where
  "gmail_post srv raw threadID =
     (case gs_send srv raw threadID of
        Inr sid \<Rightarrow> (Inr sid, [SendCall raw threadID])
      | Inl e \<Rightarrow>
          if threadID \<noteq> [] \<and> isGmailBadThreadErr e
          then (gs_send srv raw [], [SendCall raw threadID, SendCall raw []])
          else (Inl e, [SendCall raw threadID]))"

text \<open>\<open>encode\<close> is the unpadded URL-safe base64 of the standard library.\<close>

definition gmail_Send ::
  "(gostring \<Rightarrow> gostring) \<Rightarrow> gmail_server \<Rightarrow> bool \<Rightarrow> gostring \<Rightarrow> gostring \<Rightarrow> gostring list \<Rightarrow> gostring \<Rightarrow>
     (go_error + gostring) \<times> gmail_call list" where
  "gmail_Send encode srv has_token mime sender rcpts threadID =
     (if rcpts = [] then (Inl (Err ''gmail: no recipients''), [])
      else if \<not> has_token then (Inl (Err ''gmail: nil token source''), [])
      else case gs_service srv of
        Some e \<Rightarrow> (Inl (Errorf ''gmail service'' e), [])
      | None \<Rightarrow>
          (case gmail_post srv (encode mime) threadID of
             (Inl e, calls) \<Rightarrow> (Inl (Errorf ''gmail send'' (ae_error e)), calls)
           | (Inr sid, calls) \<Rightarrow>
               (case gs_get srv sid of
                  Inl e \<Rightarrow> (Inr [], calls @ [GetCall sid])
                | Inr payload \<Rightarrow> (Inr (sent_message_id payload), calls @ [GetCall sid]))))"

definition graph_Send :: "gostring \<Rightarrow> gostring \<Rightarrow> gostring list \<Rightarrow> gostring \<Rightarrow> go_error + gostring" where
  "graph_Send mime sender rcpts threadID =
     Inl (Err ''ms-graph sender not implemented in v1; SMTP fallback is used for outlook.com / hotmail.com / live.com / office365.com'')"

subsection \<open>The choice of the transport\<close>

record sender_account =
  sa_Email :: gostring
  sa_IsGmail :: bool
  sa_IsGoogleWorkspace :: bool
  sa_AppPassword :: gostring
  sa_HasToken :: bool

datatype mail_transport = GmailAPISender | SMTPSender smtp_config

definition PickSender :: "sender_account \<Rightarrow> mail_transport" where
  "PickSender account =
     (if sa_HasToken account \<and> sa_IsGmail account then GmailAPISender
      else let info = (if sa_IsGoogleWorkspace account then SMTPInfoForGoogleWorkspace
                       else SMTPInfoForEmail (sa_Email account))
           in SMTPSender \<lparr>sc_Host = pi_Host info, sc_Port = pi_Port info, sc_Username = sa_Email account,
                          sc_Password = sa_AppPassword account, sc_StartTLS = pi_StartTLS info,
                          sc_UseXOAUTH2 = False\<rparr>)"

fun Provider :: "mail_transport \<Rightarrow> gostring" where
  "Provider GmailAPISender = ''gmail-api''"
| "Provider (SMTPSender cfg) = ''smtp''"

end
