(* ===== verification/SenderFacts.thy ===== *)
theory SenderFacts
  imports Senders
begin

text \<open>
  The contract of \<open>pkg/email/sender.go\<close> (\<open>Sender\<close>) as a locale, the two transports as its
  interpretations, and what the choice of the transport guarantees: a send that succeeds has given
  the mail to the server exactly once, one that fails not at all, and no password leaves the bridge
  before the connection is encrypted.
\<close>

subsection \<open>The contract\<close>

text \<open>\<open>accepted calls\<close> counts the copies of the mail the server took among the calls made to it.\<close>

locale mail_sender =
  fixes send :: "gostring \<Rightarrow> gostring \<Rightarrow> gostring list \<Rightarrow> gostring \<Rightarrow> (go_error + gostring) \<times> 'call list"
    and accepted :: "gostring \<Rightarrow> gostring list \<Rightarrow> 'call list \<Rightarrow> nat"
  assumes no_recipients: "\<exists>e. send mime sender [] thread = (Inl e, [])"
    and success: "send mime sender rcpts thread = (Inr mid, calls) \<Longrightarrow> accepted mime rcpts calls = 1"
    and failure: "send mime sender rcpts thread = (Inl e, calls) \<Longrightarrow> accepted mime rcpts calls = 0"
begin

lemma accepted_iff_success:
  "accepted mime rcpts (snd (send mime sender rcpts thread)) = (if isl (fst (send mime sender rcpts thread)) then 0 else 1)"
proof (cases "send mime sender rcpts thread")
  case (Pair res calls)
  then show ?thesis using success failure by (cases res) auto
qed

lemma success_has_recipients: "\<not> isl (fst (send mime sender rcpts thread)) \<Longrightarrow> rcpts \<noteq> []"
  using no_recipients [of mime sender thread] by (cases rcpts) auto

end

subsection \<open>Gmail\<close>

definition gmail_accepted ::
  "(gostring \<Rightarrow> gostring) \<Rightarrow> gmail_server \<Rightarrow> gostring \<Rightarrow> gostring list \<Rightarrow> gmail_call list \<Rightarrow> nat" where
  "gmail_accepted encode srv mime rcpts calls =
     length (filter (\<lambda>c. case c of SendCall raw t \<Rightarrow> raw = encode mime \<and> \<not> isl (gs_send srv raw t) | GetCall _ \<Rightarrow> False) calls)"

lemma gmail_post_accepts:
  assumes "gmail_post srv (encode mime) t = (res, calls)"
  shows "gmail_accepted encode srv mime rcpts calls = (if isl res then 0 else 1)"
  using assms
  by (auto simp: gmail_post_def gmail_accepted_def isl_def split: sum.splits if_splits)

interpretation gmail: mail_sender "gmail_Send encode srv has_token" "gmail_accepted encode srv"
  for encode srv has_token
proof unfold_locales
  fix mime sender thread
  show "\<exists>e. gmail_Send encode srv has_token mime sender [] thread = (Inl e, [])"
    by (simp add: gmail_Send_def)
next
  fix mime sender rcpts thread mid calls
  assume s: "gmail_Send encode srv has_token mime sender rcpts thread = (Inr mid, calls)"
  obtain res posts where p: "gmail_post srv (encode mime) thread = (res, posts)" by fastforce
  with s obtain sid where "res = Inr sid" "calls = posts @ [GetCall sid]"
    by (auto simp: gmail_Send_def split: if_splits option.splits sum.splits)
  with gmail_post_accepts [of srv encode mime thread res posts rcpts, OF p] show "gmail_accepted encode srv mime rcpts calls = 1"
    by (simp add: gmail_accepted_def)
next
  fix mime sender rcpts thread e calls
  assume s: "gmail_Send encode srv has_token mime sender rcpts thread = (Inl e, calls)"
  obtain res posts where p: "gmail_post srv (encode mime) thread = (res, posts)" by fastforce
  with s consider "calls = []" | "isl res" "calls = posts"
    by (auto simp: gmail_Send_def isl_def split: if_splits option.splits sum.splits)
  then show "gmail_accepted encode srv mime rcpts calls = 0"
    using gmail_post_accepts [of srv encode mime thread res posts rcpts, OF p] by cases (auto simp: gmail_accepted_def)
qed

text \<open>
  A thread ID Gmail does not know never blocks a mail: the second attempt is made without it, and
  what it answers is the answer.
\<close>

lemma bad_thread_resent:
  assumes "gs_send srv raw t = Inl e" and "t \<noteq> []" and "isGmailBadThreadErr e"
  shows "gmail_post srv raw t = (gs_send srv raw [], [SendCall raw t, SendCall raw []])"
  using assms by (simp add: gmail_post_def)

lemma gmail_post_at_most_twice:
  "length (snd (gmail_post srv raw t)) \<le> 2"
  by (auto simp: gmail_post_def split: sum.splits)

subsection \<open>SMTP\<close>

text \<open>The server has a mail when it took the envelope for every recipient, the whole body and the final dot.\<close>

definition smtp_accepted :: "(smtp_call \<Rightarrow> go_error option) \<Rightarrow> gostring \<Rightarrow> gostring list \<Rightarrow> smtp_call list \<Rightarrow> nat" where
  "smtp_accepted server mime rcpts calls =
     (if (\<forall>r \<in> set rcpts. RcptTo r \<in> set calls \<and> server (RcptTo r) = None) \<and>
         WriteBody mime \<in> set calls \<and> server (WriteBody mime) = None \<and> server EndOfData = None
      then length (filter ((=) EndOfData) calls) else 0)"

lemma smtp_steps_issued:
  "set (snd (smtp_steps server steps)) \<subseteq> insert Quit (set (map (\<lambda>(refused, call, label). call) steps))"
  by (induction server steps rule: smtp_steps.induct) (auto simp: case_prod_unfold Let_def split: option.splits)

lemma smtp_steps_done:
  "fst (smtp_steps server steps) = None \<Longrightarrow>
     snd (smtp_steps server steps) = map (\<lambda>(refused, call, label). call) steps \<and>
     (\<forall>c \<in> set (snd (smtp_steps server steps)). server c = None)"
  by (induction server steps rule: smtp_steps.induct) (auto simp: case_prod_unfold Let_def split: option.splits)

lemma envelope_calls:
  "map (\<lambda>(refused, call, label). call) (envelope_steps cfg sender rcpts) =
     (if sc_StartTLS cfg then [StartTLSCmd (sc_Host cfg)] else []) @
     [fst (snd (auth_step cfg)), MailFrom sender] @ map RcptTo rcpts @ [DataCmd]"
  by (simp add: envelope_steps_def comp_def case_prod_unfold)

lemma auth_call: "fst (snd (auth_step cfg)) \<in>
    {AuthXOAUTH2 (xoauth2_payload (sc_Username cfg) (sc_Password cfg)), AuthPlain (sc_Username cfg) (sc_Password cfg)}"
  by (simp add: auth_step_def)

lemma envelope_no_body:
  assumes "smtp_steps server (envelope_steps cfg sender rcpts) = (err, calls)"
  shows "WriteBody m \<notin> set calls" and "EndOfData \<notin> set calls"
proof -
  show "WriteBody m \<notin> set calls" "EndOfData \<notin> set calls"
    using smtp_steps_issued [of server "envelope_steps cfg sender rcpts"] assms auth_call [of cfg]
    unfolding envelope_calls by (auto split: if_splits)
qed

lemma smtp_session_accepts:
  assumes "smtp_session server cfg mime sender rcpts = (err, calls)"
  shows "smtp_accepted server mime rcpts (Dial a # Greeting # calls @ [Quit]) = (if err = None then 1 else 0)"
proof -
  obtain e cs where steps: "smtp_steps server (envelope_steps cfg sender rcpts) = (e, cs)" by fastforce
  note no_body = envelope_no_body [OF steps]
  show ?thesis
  proof (cases e)
    case (Some x)
    with assms steps have "err = Some x" "calls = cs" by (simp_all add: smtp_session_def)
    with no_body show ?thesis by (simp add: smtp_accepted_def)
  next
    case None
    note all = smtp_steps_done [of server "envelope_steps cfg sender rcpts", unfolded envelope_calls steps None, simplified]
    then have rcpt: "\<forall>r \<in> set rcpts. RcptTo r \<in> set cs \<and> server (RcptTo r) = None" by auto
    have dots: "filter ((=) EndOfData) cs = []" using no_body(2) by (auto simp: filter_empty_conv)
    show ?thesis
      using assms steps None rcpt dots
      by (auto simp: smtp_session_def transfer_def smtp_accepted_def split: option.splits)
  qed
qed

lemma smtp_Send_shape:
  assumes "smtp_Send server cfg mime sender rcpts thread = (res, calls)"
  defines "dial \<equiv> Dial (joinHostPort (sc_Host cfg) (itoa_go (sc_Port cfg)))"
  shows "isl res \<and> set calls \<subseteq> {dial, Greeting, Hangup} \<or>
    sc_Host cfg \<noteq> [] \<and> (\<exists>err cs. smtp_session server cfg mime sender rcpts = (err, cs) \<and> isl res = (err \<noteq> None) \<and>
      calls = dial # Greeting # cs @ [Quit])"
proof -
  obtain err cs where p: "smtp_session server cfg mime sender rcpts = (err, cs)" by fastforce
  consider "rcpts = []" | "sc_Host cfg = []" | e where "server dial = Some e" | e where "server Greeting = Some e"
    | (session) "rcpts \<noteq> []" "sc_Host cfg \<noteq> []" "server dial = None" "server Greeting = None" by fastforce
  then show ?thesis
  proof cases
    case session
    with assms(1) p have "calls = dial # Greeting # cs @ [Quit]" "isl res = (err \<noteq> None)"
      by (auto simp: smtp_Send_def dial_def Let_def split: option.splits)
    with session(2) p show ?thesis by blast
  qed (use assms(1) p in \<open>auto simp: smtp_Send_def dial_def Let_def split: if_splits option.splits\<close>)
qed

lemma smtp_Send_accepts:
  assumes "smtp_Send server cfg mime sender rcpts thread = (res, calls)"
  shows "smtp_accepted server mime rcpts calls = (if isl res then 0 else 1)"
  using smtp_Send_shape [OF assms]
proof (elim disjE exE conjE)
  assume "isl res" and "set calls \<subseteq> {Dial (joinHostPort (sc_Host cfg) (itoa_go (sc_Port cfg))), Greeting, Hangup}"
  then show ?thesis by (auto simp: smtp_accepted_def)
next
  fix err cs
  assume p: "smtp_session server cfg mime sender rcpts = (err, cs)" and "isl res = (err \<noteq> None)"
    and "calls = Dial (joinHostPort (sc_Host cfg) (itoa_go (sc_Port cfg))) # Greeting # cs @ [Quit]"
  with smtp_session_accepts [OF p] show ?thesis by simp
qed

interpretation smtp: mail_sender "smtp_Send server cfg" "smtp_accepted server" for server cfg
proof unfold_locales
  fix mime sender thread
  show "\<exists>e. smtp_Send server cfg mime sender [] thread = (Inl e, [])" by (simp add: smtp_Send_def)
qed (simp_all add: smtp_Send_accepts)

subsection \<open>The chosen transport\<close>

record mail_servers =
  ms_smtp :: "smtp_call \<Rightarrow> go_error option"
  ms_gmail :: gmail_server
  ms_encode :: "gostring \<Rightarrow> gostring"

text \<open>What sending over the transport of an account answers, and how many copies of the mail a server took.\<close>

definition account_Send ::
  "mail_servers \<Rightarrow> sender_account \<Rightarrow> gostring \<Rightarrow> gostring \<Rightarrow> gostring list \<Rightarrow> gostring \<Rightarrow> (go_error + gostring) \<times> nat" where
  "account_Send ms account mime sender rcpts thread =
     (case PickSender account of
        GmailAPISender \<Rightarrow>
          (let (res, calls) = gmail_Send (ms_encode ms) (ms_gmail ms) (sa_HasToken account) mime sender rcpts thread
           in (res, gmail_accepted (ms_encode ms) (ms_gmail ms) mime rcpts calls))
      | SMTPSender cfg \<Rightarrow>
          (let (res, calls) = smtp_Send (ms_smtp ms) cfg mime sender rcpts thread
           in (res, smtp_accepted (ms_smtp ms) mime rcpts calls)))"

lemma account_Send_cases:
  "(\<exists>srv. account_Send ms account mime sender rcpts thread =
      (fst (gmail_Send (ms_encode ms) srv (sa_HasToken account) mime sender rcpts thread),
       gmail_accepted (ms_encode ms) srv mime rcpts (snd (gmail_Send (ms_encode ms) srv (sa_HasToken account) mime sender rcpts thread)))) \<or>
   (\<exists>cfg. account_Send ms account mime sender rcpts thread =
      (fst (smtp_Send (ms_smtp ms) cfg mime sender rcpts thread),
       smtp_accepted (ms_smtp ms) mime rcpts (snd (smtp_Send (ms_smtp ms) cfg mime sender rcpts thread))))"
  by (auto simp: account_Send_def case_prod_unfold Let_def split: mail_transport.split)

text \<open>
  C21: whatever account is configured and whatever the servers answer, a send reports success exactly
  when the server of the chosen transport took the mail, and then it took it exactly once: the retry
  without the Gmail thread ID never doubles a mail, and no failure hides one that was taken.
\<close>

theorem sender_success_iff_accepted:
  "case account_Send ms account mime sender rcpts thread of
     (Inl e, taken) \<Rightarrow> taken = 0
   | (Inr mid, taken) \<Rightarrow> taken = 1 \<and> rcpts \<noteq> []"
  using account_Send_cases [of ms account mime sender rcpts thread]
    gmail.accepted_iff_success smtp.accepted_iff_success gmail.success_has_recipients smtp.success_has_recipients
  by (auto split: prod.split sum.split) (metis isl_def sum.disc(1,2))+

lemma smtpProviders_starttls:
  assumes "smtpProviders d = Some p" shows "pi_StartTLS p"
  using assms unfolding smtpProviders_def comp_apply map_option_eq_Some
  by (elim exE conjE) (simp add: submission_endpoint_def del: map_of.simps, metis smtp_provider_info.select_convs(3))

lemma SMTPInfo_starttls:
  assumes "pi_Host (SMTPInfoForEmail email) \<noteq> []" shows "pi_StartTLS (SMTPInfoForEmail email)"
  using assms smtpProviders_starttls
  by (simp add: SMTPInfoForEmail_def split: option.splits if_splits)

lemma PickSender_starttls:
  assumes "PickSender account = SMTPSender cfg" and "sc_Host cfg \<noteq> []"
  shows "sc_StartTLS cfg" and "\<not> sc_UseXOAUTH2 cfg" and "sc_Username cfg = sa_Email account" and "sc_Password cfg = sa_AppPassword account"
  using assms
  by (auto simp: PickSender_def SMTPInfoForGoogleWorkspace_def Let_def SMTPInfo_starttls split: if_splits)

text \<open>
  C22: the password of an account is sent only on an encrypted connection: in whatever the bridge
  asks of an SMTP server on behalf of an account, an authentication comes after a STARTTLS the
  server completed, whatever else the server answers.
\<close>

theorem smtp_password_encrypted:
  assumes "PickSender account = SMTPSender cfg"
    and "smtp_Send server cfg mime sender rcpts thread = (res, pre @ call # post)"
    and "call = AuthPlain u p \<or> call = AuthXOAUTH2 x"
  shows "call = AuthPlain (sa_Email account) (sa_AppPassword account) \<and>
    StartTLSCmd (sc_Host cfg) \<in> set pre \<and> server (StartTLSCmd (sc_Host cfg)) = None"
proof -
  let ?steps = "envelope_steps cfg sender rcpts" and ?tls = "StartTLSCmd (sc_Host cfg)"
  obtain err cs d where session: "smtp_session server cfg mime sender rcpts = (err, cs)"
    and host: "sc_Host cfg \<noteq> []" and calls: "pre @ call # post = Dial d # Greeting # cs @ [Quit]"
    using smtp_Send_shape [OF assms(2)] assms(3) by auto
  note pick = PickSender_starttls [OF assms(1) host]
  have auth: "fst (snd (auth_step cfg)) = AuthPlain (sa_Email account) (sa_AppPassword account)"
    using pick by (simp add: auth_step_def)
  obtain e ss where steps: "smtp_steps server ?steps = (e, ss)" by fastforce
  obtain rest where tls: "?steps = (None, ?tls, ''starttls'') # rest"
    using pick(1) by (simp add: envelope_steps_def)
  have "call \<in> set (Dial d # Greeting # cs @ [Quit])" unfolding calls [symmetric] by simp
  then have "call \<in> set cs" using assms(3) by auto
  moreover have "set cs \<subseteq> set ss \<union> {WriteBody mime, EndOfData}"
    using session steps by (auto simp: smtp_session_def transfer_def split: option.splits)
  ultimately have in_ss: "call \<in> set ss" using assms(3) by auto
  then have call: "call = AuthPlain (sa_Email account) (sa_AppPassword account)"
    using smtp_steps_issued [of server ?steps] assms(3) unfolding envelope_calls steps auth by auto
  have up: "server ?tls = None"
  proof (rule ccontr)
    assume "server ?tls \<noteq> None"
    then have "ss = [?tls]" using steps by (auto simp: tls)
    with in_ss call show False by simp
  qed
  then obtain ss' where "ss = ?tls # ss'" using steps by (auto simp: tls split: prod.splits)
  then obtain cs' where "cs = ?tls # cs'"
    using session steps by (auto simp: smtp_session_def split: option.splits prod.splits)
  with calls call have "?tls \<in> set pre" by (auto simp: Cons_eq_append_conv append_eq_Cons_conv)
  with call up show ?thesis by blast
qed

definition sample_account :: sender_account where
  "sample_account = \<lparr>sa_Email = ''me@x.org'', sa_IsGmail = False, sa_IsGoogleWorkspace = True,
     sa_AppPassword = ''secret'', sa_HasToken = False\<rparr>"

theorem smtp_password_encrypted_witness:
  "\<exists>cfg pre post. PickSender sample_account = SMTPSender cfg \<and>
     snd (smtp_Send (\<lambda>_. None) cfg ''mime'' ''me@x.org'' [''ann@x.org''] []) =
       pre @ AuthPlain ''me@x.org'' ''secret'' # post \<and> StartTLSCmd ''smtp.gmail.com'' \<in> set pre"
proof -
  let ?cfg = "\<lparr>sc_Host = ''smtp.gmail.com'', sc_Port = 587, sc_Username = ''me@x.org'',
     sc_Password = ''secret'', sc_StartTLS = True, sc_UseXOAUTH2 = False\<rparr>"
  have p: "PickSender sample_account = SMTPSender ?cfg"
    by (simp add: PickSender_def sample_account_def SMTPInfoForGoogleWorkspace_def)
  let ?pre = "[Dial (joinHostPort ''smtp.gmail.com'' (itoa_go 587)), Greeting, StartTLSCmd ''smtp.gmail.com'']"
  have s: "smtp_Send (\<lambda>_. None) ?cfg ''mime'' ''me@x.org'' [''ann@x.org''] [] = (Inr [],
      ?pre @ AuthPlain ''me@x.org'' ''secret'' #
      [MailFrom ''me@x.org'', RcptTo ''ann@x.org'', DataCmd, WriteBody ''mime'', EndOfData, Quit])"
    by (simp add: smtp_Send_def smtp_session_def envelope_steps_def auth_step_def transfer_def plain_refused_def)
  have "AuthPlain ''me@x.org'' ''secret'' = AuthPlain ''me@x.org'' ''secret'' \<or> AuthPlain ''me@x.org'' ''secret'' = AuthXOAUTH2 []"
    by (rule disjI1) (rule refl)
  from smtp_password_encrypted [OF p s this] have "StartTLSCmd ''smtp.gmail.com'' \<in> set ?pre"
    by (elim conjE) (simp only: smtp_config.simps)
  with p s show ?thesis by (metis snd_conv)
qed

end
