(* ===== verification/GmailParse.thy ===== *)
theory GmailParse
  imports Threading Breaker
begin

text \<open>
  \<open>pkg/email/parse_gmail_api.go\<close>: the message the Gmail API returns, as a parsed email.  The
  address and date parsers of \<open>net/mail\<close> and the base64 decoder are arguments.
\<close>

subsection \<open>Splitting at white space\<close>

definition starts_space :: "gostring \<Rightarrow> bool" where
  "starts_space s = list_ex (has_prefix s) space_runes"

fun first_field :: "gostring \<Rightarrow> gostring" where
  "first_field [] = []"
| "first_field (c # s) = (if starts_space (c # s) then [] else c # first_field s)"

lemma first_field_nonempty: "s \<noteq> [] \<Longrightarrow> \<not> starts_space s \<Longrightarrow> first_field s \<noteq> []"
  by (cases s) simp_all

lemma trimmed_no_space: "\<not> starts_space (trim_left_space s)"
  using strip_words_stops [of _ space_runes s] space_runes_nonempty
  by (auto simp: starts_space_def trim_left_space_def list_ex_iff)

function go_fields :: "gostring \<Rightarrow> gostring list" where
  "go_fields s =
     (let t = trim_left_space s
      in if t = [] then [] else first_field t # go_fields (drop (length (first_field t)) t))"
  by pat_completeness auto
termination
proof (relation "measure length")
  fix s t :: gostring
  assume t: "t = trim_left_space s" "t \<noteq> []"
  then have "first_field t \<noteq> []" using first_field_nonempty trimmed_no_space by blast
  with t(2) have "length (drop (length (first_field t)) t) < length t" by simp
  also have "length t \<le> length s" by (simp add: t(1) trim_left_space_def length_strip_words)
  finally show "(drop (length (first_field t)) t, s) \<in> measure length" by simp
qed simp

subsection \<open>Headers\<close>

text \<open>A \<open>nil\<close> header is \<open>None\<close>.\<close>

type_synonym gmail_headers = "(gostring \<times> gostring) option list"

definition headerValue :: "gmail_headers \<Rightarrow> gostring \<Rightarrow> gostring" where
  "headerValue headers name =
     (case find (\<lambda>h. case h of None \<Rightarrow> False | Some (n, v) \<Rightarrow> to_lower n = to_lower name) headers of
        Some (Some (n, v)) \<Rightarrow> v
      | _ \<Rightarrow> [])"

definition parseReferencesHeader :: "gostring \<Rightarrow> gostring list" where
  "parseReferencesHeader raw = filter (\<lambda>i. i \<noteq> []) (map cleanMessageID (go_fields raw))"

text \<open>
  \<open>parse_list\<close> is \<open>mail.ParseAddressList\<close>: \<open>None\<close> for an error, otherwise names and addresses, with
  \<open>None\<close> for a \<open>nil\<close> entry.
\<close>

definition splitAddressList ::
  "(gostring \<Rightarrow> (gostring \<times> gostring) option list option) \<Rightarrow> gostring \<Rightarrow> gostring list option" where
  "splitAddressList parse_list raw0 =
     (let raw = trim_space raw0 in
      if raw = [] then None
      else case parse_list raw of
        Some (a # as) \<Rightarrow>
          Some (map (\<lambda>(n, addr). if n \<noteq> [] then n @ '' <'' @ addr @ ''>'' else addr) (List.map_filter (\<lambda>x. x) (a # as)))
      | _ \<Rightarrow> Some (filter (\<lambda>p. p \<noteq> []) (map trim_space (split_on (CHR '','') raw))))"

record mail_parsers =
  mp_list :: "gostring \<Rightarrow> (gostring \<times> gostring) option list option"
  mp_date :: "gostring \<Rightarrow> int option"
  mp_base64 :: "gostring \<Rightarrow> gostring option"

definition header_step :: "mail_parsers \<Rightarrow> (gostring \<times> gostring) option \<Rightarrow> parsed_email \<Rightarrow> parsed_email" where
  "header_step ps h e =
     (case h of
        None \<Rightarrow> e
      | Some (n, v) \<Rightarrow>
          (let name = to_lower n in
           if name = ''message-id'' then
             (if cleanMessageID v \<noteq> [] then e\<lparr>pe_MessageID := cleanMessageID v\<rparr> else e)
           else if name = ''subject'' then e\<lparr>pe_Subject := v\<rparr>
           else if name = ''from'' then e\<lparr>pe_From := v\<rparr>
           else if name = ''to'' then e\<lparr>pe_To := splitAddressList (mp_list ps) v\<rparr>
           else if name = ''cc'' then e\<lparr>pe_Cc := splitAddressList (mp_list ps) v\<rparr>
           else if name = ''in-reply-to'' then
             (if cleanMessageID v \<noteq> [] then e\<lparr>pe_InReplyTo := cleanMessageID v\<rparr> else e)
           else if name = ''references'' then e\<lparr>pe_References := parseReferencesHeader v\<rparr>
           else if name = ''date'' then (case mp_date ps v of Some t \<Rightarrow> e\<lparr>pe_Date := Some t\<rparr> | None \<Rightarrow> e)
           else e))"

subsection \<open>The payload tree\<close>

text \<open>A part's body is its size and its encoded data; a missing body and a \<open>nil\<close> part are possible.\<close>

datatype gmail_part =
    NilPart
  | GmailPart (part_mime: gostring) (part_file: gostring) (part_headers: gmail_headers)
      (part_body: "(int \<times> gostring) option") (part_children: "gmail_part list")

definition padBase64URL :: "gostring \<Rightarrow> gostring" where
  "padBase64URL s =
     (if length s mod 4 = 2 then s @ ''=='' else if length s mod 4 = 3 then s @ ''='' else s)"

definition body_text :: "(gostring \<Rightarrow> gostring option) \<Rightarrow> (int \<times> gostring) option \<Rightarrow> gostring option" where
  "body_text decode body =
     (case body of
        None \<Rightarrow> None
      | Some (sz, data) \<Rightarrow> if data = [] then None else decode (padBase64URL data))"

record walked =
  wk_text :: gostring
  wk_html :: gostring
  wk_files :: "(gostring \<times> gostring \<times> int) list"

definition is_attachment :: "gostring \<Rightarrow> gostring \<Rightarrow> gmail_headers \<Rightarrow> bool" where
  "is_attachment mime file headers \<longleftrightarrow>
     has_prefix (to_lower (headerValue headers ''Content-Disposition'')) ''attachment'' \<or>
     file \<noteq> [] \<and> \<not> has_prefix (to_lower mime) ''multipart/''"

text \<open>\<open>None\<close> is the panic on an attachment without a body.\<close>

fun walkGmailPayload :: "(gostring \<Rightarrow> gostring option) \<Rightarrow> gmail_part \<Rightarrow> walked \<Rightarrow> walked option"
  and walk_children :: "(gostring \<Rightarrow> gostring option) \<Rightarrow> gmail_part list \<Rightarrow> walked \<Rightarrow> walked option" where
  "walkGmailPayload decode NilPart w = Some w"
| "walkGmailPayload decode (GmailPart mime file headers body children) w =
     (if is_attachment mime file headers
      then (case body of
              None \<Rightarrow> None
            | Some (sz, data) \<Rightarrow> Some (w\<lparr>wk_files := wk_files w @ [(file, mime, sz)]\<rparr>))
      else if has_prefix (to_lower mime) ''multipart/'' then walk_children decode children w
      else if to_lower mime = ''text/plain'' then
        (if wk_text w = []
         then (case body_text decode body of Some t \<Rightarrow> Some (w\<lparr>wk_text := t\<rparr>) | None \<Rightarrow> Some w) else Some w)
      else if to_lower mime = ''text/html'' then
        (if wk_html w = []
         then (case body_text decode body of Some t \<Rightarrow> Some (w\<lparr>wk_html := t\<rparr>) | None \<Rightarrow> Some w) else Some w)
      else walk_children decode children w)"
| "walk_children decode [] w = Some w"
| "walk_children decode (p # ps) w =
     (case walkGmailPayload decode p w of None \<Rightarrow> None | Some w1 \<Rightarrow> walk_children decode ps w1)"

record gmail_message =
  gm_Id :: gostring
  gm_ThreadId :: gostring
  gm_InternalDate :: int
  gm_Snippet :: gostring
  gm_LabelIds :: "gostring list"
  gm_Payload :: gmail_part

datatype 'a go_call = Returns 'a | Panics

text \<open>The date in nanoseconds.  Bcc recipients are not part of the parsed email of this model.\<close>

definition ParseGmailAPIMessage ::
  "mail_parsers \<Rightarrow> gmail_message option \<Rightarrow> (go_error + parsed_email \<times> (gostring \<times> gostring \<times> int) list) go_call" where
  "ParseGmailAPIMessage ps msg =
     (case msg of
        None \<Rightarrow> Returns (Inl (Err ''ParseGmailAPIMessage: nil message''))
      | Some m \<Rightarrow>
          (case gm_Payload m of
             NilPart \<Rightarrow> Returns (Inl (Err (''ParseGmailAPIMessage: message '' @ gm_Id m @
               '' has no payload (was format=full passed?)'')))
           | GmailPart mime file headers body children \<Rightarrow>
               (let e0 = \<lparr>pe_MessageID = ''gmail-api-'' @ gm_Id m, pe_InReplyTo = [], pe_References = [],
                      pe_Subject = [], pe_From = [], pe_To = None, pe_Cc = None,
                      pe_Date = Some (gm_InternalDate m * 1000000), pe_TextContent = [], pe_HTMLContent = [],
                      pe_IsDraft = False, pe_GmailThreadID = gm_ThreadId m, pe_DeliveredTo = []\<rparr>;
                    e1 = fold (header_step ps) headers e0
                in case walkGmailPayload (mp_base64 ps) (gm_Payload m) \<lparr>wk_text = [], wk_html = [], wk_files = []\<rparr> of
                     None \<Rightarrow> Panics
                   | Some w \<Rightarrow> Returns (Inr
                       (e1\<lparr>pe_TextContent := (if wk_text w = [] \<and> gm_Snippet m \<noteq> [] then gm_Snippet m else wk_text w),
                           pe_HTMLContent := wk_html w\<rparr>, wk_files w)))))"

subsection \<open>Facts\<close>

lemma header_step_fields [simp]:
  "pe_GmailThreadID (header_step ps h e) = pe_GmailThreadID e" "pe_IsDraft (header_step ps h e) = pe_IsDraft e"
  by (simp_all add: header_step_def Let_def split: option.split)

lemma header_steps_fields:
  "pe_GmailThreadID (fold (header_step ps) hs e) = pe_GmailThreadID e"
  "pe_IsDraft (fold (header_step ps) hs e) = pe_IsDraft e"
  by (induction hs arbitrary: e) simp_all

lemma header_steps_MessageID:
  "pe_MessageID e \<noteq> [] \<Longrightarrow> pe_MessageID (fold (header_step ps) hs e) \<noteq> []"
proof (induction hs arbitrary: e)
  case (Cons h hs)
  have "pe_MessageID (header_step ps h e) \<noteq> []"
    using Cons.prems by (simp add: header_step_def Let_def split: option.split)
  with Cons.IH show ?case by simp
qed simp

text \<open>A parsed Gmail message always has a Message-ID and the thread ID Gmail gave it.\<close>

lemma ParseGmailAPIMessage_identity:
  assumes "ParseGmailAPIMessage ps msg = Returns (Inr (e, files))"
  shows "pe_MessageID e \<noteq> []" and "\<exists>m. msg = Some m \<and> pe_GmailThreadID e = gm_ThreadId m"
  using assms header_steps_MessageID header_steps_fields
  by (auto simp: ParseGmailAPIMessage_def Let_def split: option.splits gmail_part.splits)

text \<open>A message whose every attachment has a body never panics the poller.\<close>

fun bodies_present :: "gmail_part \<Rightarrow> bool" where
  "bodies_present NilPart = True"
| "bodies_present (GmailPart mime file headers body children) =
     ((is_attachment mime file headers \<longrightarrow> body \<noteq> None) \<and> list_all bodies_present children)"

lemma walk_total:
  "bodies_present p \<Longrightarrow> walkGmailPayload decode p w \<noteq> None"
  "list_all bodies_present ps \<Longrightarrow> walk_children decode ps w \<noteq> None"
  by (induction decode p w and decode ps w rule: walkGmailPayload_walk_children.induct)
    (auto split: option.split)

lemma attachment_without_body_panics:
  "is_attachment mime file headers \<Longrightarrow>
     ParseGmailAPIMessage ps (Some (m\<lparr>gm_Payload := GmailPart mime file headers None children\<rparr>)) = Panics"
  by (simp add: ParseGmailAPIMessage_def Let_def)

end
