(* ===== verification/Outbound.thy ===== *)
theory Outbound
  imports Quote Breaker Threading
begin

text \<open>
  Building an outbound email: \<open>pkg/email/outbound.go\<close> (the message and its MIME structure),
  \<open>pkg/email/gmail_signature.go\<close> (appending the signature) and the recipient, sender and reply-chain
  helpers of \<open>pkg/connector/client_send.go\<close>.  The mail library that serialises the MIME structure is
  an argument; what is modelled is every header and part the code hands to it.
\<close>

subsection \<open>Messages\<close>

record netaddr =
  na_name :: gostring
  na_addr :: gostring

record attachment =
  at_filename :: gostring
  at_type :: gostring
  at_data :: gostring
  at_cid :: gostring
  at_disposition :: gostring

record outgoing_message =
  om_MessageID :: gostring
  om_From :: netaddr
  om_To :: "netaddr list"
  om_Cc :: "netaddr list"
  om_Bcc :: "netaddr list"
  om_Subject :: gostring
  om_Date :: "int option"
  om_InReplyTo :: gostring
  om_References :: "gostring list"
  om_TextBody :: gostring
  om_HTMLBody :: gostring
  om_Attachments :: "attachment option list"

subsection \<open>The MIME structure\<close>

datatype header_field =
    HDate int
  | HSubject gostring
  | HAddresses gostring "netaddr list"
  | HMessageID gostring
  | HText gostring gostring

datatype mime_part =
    Inline gostring gostring
  | Attached "(gostring \<times> gostring) list" gostring gostring

record mime_tree =
  mt_header :: "header_field list"
  mt_alternative :: "mime_part list"
  mt_attachments :: "mime_part list"

abbreviation angles :: gostring where "angles \<equiv> ''<>''"

definition bracketed :: "gostring \<Rightarrow> gostring" where
  "bracketed i = ''<'' @ trim_set angles i @ ''>''"

definition reference_fields :: "gostring list \<Rightarrow> gostring list" where
  "reference_fields rs = map (\<lambda>r. ''<'' @ r @ ''>'') (filter (\<lambda>r. r \<noteq> []) (map (trim_set angles) rs))"

definition mime_header :: "int \<Rightarrow> outgoing_message \<Rightarrow> header_field list" where
  "mime_header now o1 =
     [HDate (case om_Date o1 of None \<Rightarrow> now | Some d \<Rightarrow> d), HSubject (om_Subject o1),
      HAddresses ''From'' [om_From o1]] @
     (if om_To o1 = [] then [] else [HAddresses ''To'' (om_To o1)]) @
     (if om_Cc o1 = [] then [] else [HAddresses ''Cc'' (om_Cc o1)]) @
     (if trim_set angles (om_MessageID o1) = [] then [] else [HMessageID (trim_set angles (om_MessageID o1))]) @
     (if om_InReplyTo o1 = [] then [] else [HText ''In-Reply-To'' (bracketed (om_InReplyTo o1))]) @
     (if reference_fields (om_References o1) = [] then []
      else [HText ''References'' (join_with '' '' (reference_fields (om_References o1)))]) @
     [HText ''X-Mailer'' ''matrimail/0.1 (bridgev2)'']"

definition attachment_part :: "attachment \<Rightarrow> mime_part" where
  "attachment_part a =
     (let ct = (if at_type a = [] then ''application/octet-stream'' else at_type a);
          cid = (if equal_fold (at_disposition a) ''inline'' \<and> at_cid a \<noteq> []
                 then [(''Content-ID'', bracketed (at_cid a)), (''Content-Disposition'', ''inline'')] else [])
      in Attached ((''Content-Type'', ct) # cid) (at_filename a) (at_data a))"

definition mime_of :: "int \<Rightarrow> outgoing_message \<Rightarrow> mime_tree" where
  "mime_of now o1 =
     \<lparr>mt_header = mime_header now o1,
      mt_alternative = Inline ''text/plain; charset=utf-8'' (om_TextBody o1) #
        (if om_HTMLBody o1 = [] then [] else [Inline ''text/html; charset=utf-8'' (om_HTMLBody o1)]),
      mt_attachments = map attachment_part (List.map_filter (\<lambda>a. a) (om_Attachments o1))\<rparr>"

definition BuildMIME ::
  "(mime_tree \<Rightarrow> go_error + gostring) \<Rightarrow> int \<Rightarrow> outgoing_message option \<Rightarrow> go_error + gostring" where
  "BuildMIME write_mime now m =
     (case m of None \<Rightarrow> Inl (Err ''BuildMIME: nil message'') | Some o1 \<Rightarrow> write_mime (mime_of now o1))"

text \<open>\<open>rnd\<close> are the eight random bytes in hexadecimal, \<open>None\<close> when the source fails.\<close>

definition GenerateMessageID :: "int \<Rightarrow> gostring option \<Rightarrow> gostring \<Rightarrow> gostring" where
  "GenerateMessageID nano rnd domain0 =
     (let domain = (if domain0 = [] then ''matrimail.local'' else domain0)
      in case rnd of
           None \<Rightarrow> ''<'' @ itoa_go nano @ ''.fallback@'' @ domain @ ''>''
         | Some hex \<Rightarrow> ''<'' @ itoa_go nano @ ''.'' @ hex @ ''@'' @ domain @ ''>'')"

subsection \<open>Signatures\<close>

text \<open>
  \<open>sig_text\<close> is the plain-text rendering of an HTML signature (\<open>HTMLSignatureToText\<close>, whose entity
  decoding is the library's).
\<close>

definition AppendSignature :: "(gostring \<Rightarrow> gostring) \<Rightarrow> gostring \<Rightarrow> gostring \<Rightarrow> bool \<Rightarrow> gostring" where
  "AppendSignature sig_text body signature as_html =
     (if trim_space signature = [] then body
      else if as_html then body @ ''<br><br>-- <br>'' @ signature
      else body @ [newline, newline] @ ''-- '' @ [newline] @ sig_text signature)"

subsection \<open>The reply chain\<close>

definition computeReplyChain :: "email_thread \<Rightarrow> gostring option \<Rightarrow> gostring \<times> gostring list" where
  "computeReplyChain thread replyTo =
     (case replyTo of
        Some i \<Rightarrow> (let parent = trim_prefix i ''email:'' in (parent, References thread @ [parent]))
      | None \<Rightarrow>
          if MessageID thread \<noteq> [] then (MessageID thread, References thread @ [MessageID thread])
          else ([], References thread))"

subsection \<open>Recipients\<close>

type_synonym addr_parser = "gostring \<Rightarrow> (gostring \<times> gostring) option"

definition selvesSet :: "gostring list \<Rightarrow> gostring list" where
  "selvesSet selves = filter (\<lambda>s. s \<noteq> []) (map (\<lambda>s. to_lower (trim_space s)) selves)"

definition parseAddrIfAllowed ::
  "addr_parser \<Rightarrow> gostring \<Rightarrow> gostring list \<Rightarrow> gostring list \<Rightarrow> netaddr option \<times> gostring list" where
  "parseAddrIfAllowed parse raw selves seen =
     (case parse raw of
        None \<Rightarrow> (None, seen)
      | Some (name, addr) \<Rightarrow>
          if to_lower addr \<in> set selves \<or> to_lower addr \<in> set seen then (None, seen)
          else (Some \<lparr>na_name = name, na_addr = addr\<rparr>, to_lower addr # seen))"

fun collect_allowed ::
  "addr_parser \<Rightarrow> gostring list \<Rightarrow> gostring list \<Rightarrow> gostring list \<Rightarrow> netaddr list \<times> gostring list" where
  "collect_allowed parse selves [] seen = ([], seen)"
| "collect_allowed parse selves (raw # raws) seen =
     (let (a, seen1) = parseAddrIfAllowed parse raw selves seen;
          (as, seen2) = collect_allowed parse selves raws seen1
      in (case a of Some x \<Rightarrow> x # as | None \<Rightarrow> as, seen2))"

definition resolveReplyAllRecipients ::
  "addr_parser \<Rightarrow> email_thread option \<Rightarrow> gostring list \<Rightarrow> go_error + (netaddr list \<times> netaddr list)" where
  "resolveReplyAllRecipients parse thread selves =
     (case thread of
        None \<Rightarrow> Inl (Err ''matrimail: nil thread'')
      | Some th \<Rightarrow>
          let selfSet = selvesSet selves in
          if trim_space (LastFrom th) = [] then
            (let to = fst (collect_allowed parse selfSet (Participants th) []) in
             if to = [] then Inl (Err ''matrimail: no recipients (thread participants empty after self-exclusion)'')
             else Inr (to, []))
          else
            (let (to, seen) = collect_allowed parse selfSet (LastFrom th # LastTo th) [];
                 cc = fst (collect_allowed parse selfSet (LastCc th) seen)
             in if to = [] \<and> cc = []
                then Inl (Err ''matrimail: no recipients (reply-all set empty after self-exclusion)'')
                else Inr (to, cc)))"

definition resolveDMRecipients ::
  "addr_parser \<Rightarrow> email_thread option \<Rightarrow> gostring list \<Rightarrow> go_error + netaddr list" where
  "resolveDMRecipients parse thread selves =
     (case thread of
        None \<Rightarrow> Inl (Err ''matrimail: nil thread'')
      | Some th \<Rightarrow>
          if trim_space (LastFrom th) = []
          then Inl (Err ''matrimail: DM mode requested but thread has no LastFrom (no inbound to reply to)'')
          else (case parseAddrIfAllowed parse (LastFrom th) (selvesSet selves) [] of
                  (Some a, _) \<Rightarrow> Inr [a]
                | (None, _) \<Rightarrow>
                    Inl (Err ''matrimail: DM mode target was either unparseable or one of the user's own addresses'')))"

subsection \<open>The sender\<close>

record send_as =
  sa_email :: gostring
  sa_name :: gostring

definition pickFromAddress ::
  "gostring \<Rightarrow> send_as list \<Rightarrow> email_thread option \<Rightarrow> gostring list \<Rightarrow> gostring \<times> gostring" where
  "pickFromAddress primary aliases thread selves =
     (case thread of
        None \<Rightarrow> (primary, [])
      | Some th \<Rightarrow>
          if trim_space (LastDeliveredTo th) = [] then (primary, [])
          else let want = to_lower (trim_space (LastDeliveredTo th)) in
            if want \<notin> set selves then (primary, [])
            else case find (\<lambda>sa. equal_fold (sa_email sa) want) aliases of
              Some sa \<Rightarrow> (sa_email sa, sa_name sa)
            | None \<Rightarrow> (LastDeliveredTo th, []))"

definition pickFromAddressFromSlice ::
  "gostring \<Rightarrow> send_as list \<Rightarrow> email_thread option \<Rightarrow> gostring list \<Rightarrow> gostring \<times> gostring" where
  "pickFromAddressFromSlice primary aliases thread selves =
     pickFromAddress primary aliases thread (selvesSet selves)"

subsection \<open>Subject and body\<close>

definition deriveSubjectFromBody :: "gostring \<Rightarrow> gostring" where
  "deriveSubjectFromBody body0 =
     (let body = trim_space body0 in
      if body = [] then ''(no subject)''
      else let line = trim_space (takeWhile (\<lambda>c. c \<noteq> newline) body) in
        if line = [] then ''(no subject)'' else take 78 line)"

definition htmlEscapeOutbound :: "gostring \<Rightarrow> gostring" where
  "htmlEscapeOutbound s = replace_chars (html_escapes @ [(newline, ''<br>'')]) s"

text \<open>The Matrix event, as far as the send path reads it.\<close>

record matrix_message =
  mm_portal :: gostring
  mm_body :: gostring
  mm_is_html :: bool
  mm_formatted :: gostring
  mm_replyTo :: "gostring option"
  mm_replace :: gostring
  mm_event :: gostring
  mm_has_media :: bool

text \<open>What a send reads from outside: the library functions, the clock and the random source.\<close>

record mail_lib =
  ml_parse :: addr_parser
  ml_date :: "int \<Rightarrow> gostring"
  ml_now :: int
  ml_nano :: int
  ml_random :: "gostring option"
  ml_sig_text :: "gostring \<Rightarrow> gostring"
  ml_write :: "mime_tree \<Rightarrow> go_error + gostring"

definition quoted_text :: "mail_lib \<Rightarrow> email_thread \<Rightarrow> gostring \<Rightarrow> gostring" where
  "quoted_text lib th body =
     (let q = FormatGmailQuoteText (ml_parse lib) (ml_date lib) (ml_now lib) (LastDate th) (LastFrom th) (LastTextBody th)
      in if q = [] then body
         else if body \<noteq> [] then body @ [newline, newline] @ q else q)"

definition quoted_html :: "mail_lib \<Rightarrow> email_thread \<Rightarrow> gostring \<Rightarrow> gostring \<Rightarrow> gostring" where
  "quoted_html lib th body html =
     (if LastHTMLBody th = [] then html
      else let q = FormatGmailQuoteHTML (ml_parse lib) (ml_date lib) (ml_now lib) (LastDate th) (LastFrom th) (LastHTMLBody th)
        in if q = [] then html
           else ''<div dir=\"ltr\">'' @ (if html \<noteq> [] then html else htmlEscapeOutbound body) @ ''</div><br>'' @ q)"

definition domain_of :: "gostring \<Rightarrow> gostring" where
  "domain_of addr = (case last_index (CHR ''@'') addr of Some at \<Rightarrow> drop (at + 1) addr | None \<Rightarrow> [])"

definition buildOutgoingMessage ::
  "mail_lib \<Rightarrow> gostring \<Rightarrow> gostring \<Rightarrow> email_thread \<Rightarrow> matrix_message \<Rightarrow> gostring \<Rightarrow> gostring list \<Rightarrow>
     netaddr list \<Rightarrow> netaddr list \<Rightarrow> outgoing_message" where
  "buildOutgoingMessage lib fromAddr fromName th msg inReplyTo references to cc =
     (let isReply = (inReplyTo \<noteq> []);
          html0 = (if mm_is_html msg then mm_formatted msg else []);
          quote = (isReply \<and> (LastTextBody th \<noteq> [] \<or> LastHTMLBody th \<noteq> []))
      in \<lparr>om_MessageID = trim_set angles (GenerateMessageID (ml_nano lib) (ml_random lib) (domain_of fromAddr)),
          om_From = \<lparr>na_name = fromName, na_addr = fromAddr\<rparr>,
          om_To = to, om_Cc = cc, om_Bcc = [],
          om_Subject = (if isReply then NormalizeReplySubject (Subject th) else Subject th),
          om_Date = Some (ml_now lib), om_InReplyTo = inReplyTo, om_References = references,
          om_TextBody = (if quote then quoted_text lib th (mm_body msg) else mm_body msg),
          om_HTMLBody = (if quote then quoted_html lib th (mm_body msg) html0 else html0),
          om_Attachments = []\<rparr>)"

end
