(* ===== verification/OutboundFacts.thy ===== *)
theory OutboundFacts
  imports Outbound QuoteFacts ThreadFacts
begin

text \<open>
  What an outbound email guarantees: recipients read back the threading headers the bridge wrote,
  the bridge user never writes to themselves and never loses a recipient, the sender address is
  one of their own, and which parent a reply names.
\<close>

subsection \<open>Threading headers\<close>

lemma angle_groups_bracket:
  "CHR ''>'' \<notin> set r \<Longrightarrow> r \<noteq> [] \<Longrightarrow> angle_groups (''<'' @ r @ ''>'' @ s) = r # angle_groups s"
proof -
  assume r: "CHR ''>'' \<notin> set r" "r \<noteq> []"
  from r(1) have "takeWhile (\<lambda>d. d \<noteq> CHR ''>'') (r @ ''>'' @ s) = r"
    and "dropWhile (\<lambda>d. d \<noteq> CHR ''>'') (r @ ''>'' @ s) = ''>'' @ s"
    by (induction r) auto
  with r(2) show ?thesis by (simp add: Let_def)
qed

lemma angle_groups_space: "angle_groups (CHR '' '' # s) = angle_groups s"
  by (simp add: Let_def)

lemma angle_groups_join:
  "list_all (\<lambda>r. r \<noteq> [] \<and> CHR ''>'' \<notin> set r) rs \<Longrightarrow>
     angle_groups (join_with '' '' (map (\<lambda>r. ''<'' @ r @ ''>'') rs)) = rs"
proof (induction rs)
  case Nil
  then show ?case by simp
next
  case (Cons r rs)
  then have r: "CHR ''>'' \<notin> set r" "r \<noteq> []" by simp_all
  show ?case
  proof (cases "rs = []")
    case True
    with angle_groups_bracket [OF r, of "[]"] show ?thesis by simp
  next
    case False
    then have "join_with '' '' (map (\<lambda>r. ''<'' @ r @ ''>'') (r # rs)) =
        ''<'' @ r @ ''>'' @ (CHR '' '' # join_with '' '' (map (\<lambda>r. ''<'' @ r @ ''>'') rs))"
      by (simp add: join_with_Cons)
    with angle_groups_bracket [OF r] angle_groups_space Cons show ?thesis by simp
  qed
qed

lemma cleanMessageID_bracketed: "cleanMessageID (bracketed i) = trim_set angles i"
proof -
  have "trim_space (bracketed i) = bracketed i"
    by (rule trim_space_graphic) (simp_all add: bracketed_def graphic_def)
  then show ?thesis by (simp add: cleanMessageID_def bracketed_def trim_prefix_def trim_suffix_def has_suffix_def)
qed


definition sample_message :: outgoing_message where
  "sample_message = \<lparr>om_MessageID = ''n@x'', om_From = \<lparr>na_name = [], na_addr = ''me@x''\<rparr>, om_To = [], om_Cc = [],
     om_Bcc = [], om_Subject = ''s'', om_Date = None, om_InReplyTo = ''<b@y>'', om_References = [''<a@y>'', '''', ''b@y''],
     om_TextBody = ''t'', om_HTMLBody = [], om_Attachments = []\<rparr>"


subsection \<open>Recipients\<close>

definition key_of :: "netaddr \<Rightarrow> gostring" where "key_of a = to_lower (na_addr a)"

definition parsed_key :: "addr_parser \<Rightarrow> gostring \<Rightarrow> gostring option" where
  "parsed_key parse raw = map_option (\<lambda>(n, a). to_lower a) (parse raw)"

lemma collect_allowed_spec:
  assumes "collect_allowed parse selves raws seen = (as, seen')"
  shows "set seen' = set seen \<union> key_of ` set as \<and> distinct (map key_of as) \<and>
    key_of ` set as \<inter> (set selves \<union> set seen) = {} \<and>
    (\<forall>raw \<in> set raws. \<forall>k. parsed_key parse raw = Some k \<longrightarrow> k \<in> set selves \<union> set seen')"
  using assms
proof (induction raws arbitrary: seen as seen')
  case Nil
  then show ?case by simp
next
  case (Cons raw raws)
  obtain a seen1 where p: "parseAddrIfAllowed parse raw selves seen = (a, seen1)" by fastforce
  obtain bs seen2 where r: "collect_allowed parse selves raws seen1 = (bs, seen2)" by fastforce
  note ih = Cons.IH [OF r]
  show ?case
  proof (cases a)
    case None
    with Cons.prems p r have "as = bs" "seen' = seen2" by simp_all
    moreover from None p have "seen1 = seen"
      and "\<forall>k. parsed_key parse raw = Some k \<longrightarrow> k \<in> set selves \<union> set seen"
      by (auto simp: parseAddrIfAllowed_def parsed_key_def split: option.splits if_splits)
    ultimately show ?thesis using ih by auto
  next
    case (Some x)
    with Cons.prems p r have "as = x # bs" "seen' = seen2" by simp_all
    moreover from Some p have "seen1 = key_of x # seen" "key_of x \<notin> set selves \<union> set seen"
      "parsed_key parse raw = Some (key_of x)"
      by (auto simp: parseAddrIfAllowed_def parsed_key_def key_of_def split: option.splits if_splits)
    ultimately show ?thesis using ih by auto
  qed
qed

text \<open>
  C11: a reply-all goes to exactly the people of the last inbound email: no one twice across To and
  Cc (addresses compared without case), never to one of the user's own addresses, and everyone
  whose address parses is there, its author and To recipients in To.
\<close>

theorem reply_all_recipients:
  assumes "resolveReplyAllRecipients parse (Some th) selves = Inr (to, cc)" and "trim_space (LastFrom th) \<noteq> []"
  shows "distinct (map key_of (to @ cc)) \<and> key_of ` set (to @ cc) \<inter> set (selvesSet selves) = {} \<and>
    (\<forall>raw \<in> set (LastFrom th # LastTo th @ LastCc th). \<forall>k. parsed_key parse raw = Some k \<longrightarrow>
       k \<in> set (selvesSet selves) \<or> k \<in> key_of ` set (to @ cc)) \<and>
    (\<forall>raw \<in> set (LastFrom th # LastTo th). \<forall>k. parsed_key parse raw = Some k \<longrightarrow>
       k \<in> set (selvesSet selves) \<or> k \<in> key_of ` set to)"
proof -
  obtain t seen where t: "collect_allowed parse (selvesSet selves) (LastFrom th # LastTo th) [] = (t, seen)"
    by fastforce
  obtain c seen' where c: "collect_allowed parse (selvesSet selves) (LastCc th) seen = (c, seen')" by fastforce
  have "to = t" "cc = c"
    using assms t c by (auto simp: resolveReplyAllRecipients_def Let_def split: if_splits)
  with collect_allowed_spec [OF t] collect_allowed_spec [OF c] show ?thesis
    unfolding set_append map_append distinct_append image_Un set_map by (auto simp: image_Un)
qed

definition bare_parse :: addr_parser where
  "bare_parse s = (if s = [] then None else Some ([], s))"

definition sample_thread :: email_thread where
  "sample_thread = empty_thread\<lparr>ThreadID := ''t'', MessageID := ''m1'', LastFrom := ''ann@y'',
     LastTo := [''me@x'', ''bob@y''], LastCc := [''ann@y'', ''carl@y'']\<rparr>"

theorem reply_all_recipients_witness:
  "\<exists>to cc. resolveReplyAllRecipients bare_parse (Some sample_thread) [''me@x''] = Inr (to, cc) \<and>
     map na_addr to = [''ann@y'', ''bob@y''] \<and> map na_addr cc = [''carl@y''] \<and> distinct (map key_of (to @ cc))"
proof -
  have t: "trim_space (LastFrom sample_thread) \<noteq> []"
    by (simp add: sample_thread_def trim_space_graphic graphic_def)
  have s: "selvesSet [''me@x''] = [''me@x'']"
    by (simp add: selvesSet_def trim_space_graphic graphic_def to_lower_def lower_char_def)
  have r: "resolveReplyAllRecipients bare_parse (Some sample_thread) [''me@x''] =
      Inr ([\<lparr>na_name = [], na_addr = ''ann@y''\<rparr>, \<lparr>na_name = [], na_addr = ''bob@y''\<rparr>], [\<lparr>na_name = [], na_addr = ''carl@y''\<rparr>])"
    using t by (simp add: resolveReplyAllRecipients_def s Let_def sample_thread_def parseAddrIfAllowed_def
        bare_parse_def to_lower_def lower_char_def)
  from reply_all_recipients [OF r t] r show ?thesis by auto
qed

text \<open>
  A private reply goes to one person, the author of the last inbound email, who is not the
  user; and every send is made from an address of the user: the primary one or one of the aliases,
  whatever the last inbound email was addressed to.
\<close>

theorem dm_and_from_addresses:
  assumes "resolveDMRecipients parse (Some th) selves = Inr to"
  shows "(\<exists>a. to = [a] \<and> parsed_key parse (LastFrom th) = Some (key_of a) \<and> key_of a \<notin> set (selvesSet selves)) \<and>
    (fst (pickFromAddressFromSlice primary aliases (Some th) selves) = primary \<or>
     to_lower (trim_space (fst (pickFromAddressFromSlice primary aliases (Some th) selves))) \<in> set (selvesSet selves) \<or>
     (\<exists>sa \<in> set aliases. fst (pickFromAddressFromSlice primary aliases (Some th) selves) = sa_email sa))"
proof
  show "\<exists>a. to = [a] \<and> parsed_key parse (LastFrom th) = Some (key_of a) \<and> key_of a \<notin> set (selvesSet selves)"
    using assms
    by (auto simp: resolveDMRecipients_def parseAddrIfAllowed_def parsed_key_def key_of_def
        split: option.splits if_splits prod.splits)
  show "fst (pickFromAddressFromSlice primary aliases (Some th) selves) = primary \<or>
     to_lower (trim_space (fst (pickFromAddressFromSlice primary aliases (Some th) selves))) \<in> set (selvesSet selves) \<or>
     (\<exists>sa \<in> set aliases. fst (pickFromAddressFromSlice primary aliases (Some th) selves) = sa_email sa)"
    by (auto simp: pickFromAddressFromSlice_def pickFromAddress_def Let_def find_Some_iff split: option.split)
qed

theorem dm_and_from_addresses_witness:
  "\<exists>a. resolveDMRecipients bare_parse (Some sample_thread) [''me@x''] = Inr [a] \<and> na_addr a = ''ann@y'' \<and>
     key_of a \<notin> set (selvesSet [''me@x''])"
proof -
  have s: "selvesSet [''me@x''] = [''me@x'']"
    by (simp add: selvesSet_def trim_space_graphic graphic_def to_lower_def lower_char_def)
  have r: "resolveDMRecipients bare_parse (Some sample_thread) [''me@x''] = Inr [\<lparr>na_name = [], na_addr = ''ann@y''\<rparr>]"
    by (simp add: resolveDMRecipients_def s sample_thread_def parseAddrIfAllowed_def bare_parse_def
        trim_space_graphic graphic_def to_lower_def lower_char_def)
  from dm_and_from_addresses [OF r, of "''me@x''" "[]"] r show ?thesis by auto
qed

subsection \<open>The parent a reply names\<close>

text \<open>
  Without an explicit Matrix reply the parent of a send is the thread's own Message-ID, and
  inbound emails never change that: after any number of emails merged into the thread, the next
  send still answers the message the thread started with or the user's own last one, not the
  newest email.
\<close>

theorem reply_parent_ignores_inbound:
  "fst (computeReplyChain (fold (merge_email parse ord) es th) None) = fst (computeReplyChain th None)"
proof -
  have "MessageID (fold (merge_email parse ord) es th) = MessageID th"
    by (induction es arbitrary: th) (simp_all add: merge_email_fields)
  then show ?thesis by (simp add: computeReplyChain_def)
qed

end
