(* ===== verification/SentDedup.thy ===== *)
theory SentDedup
  imports Breaker "HOL-Library.AList"
begin

text \<open>
  \<open>pkg/connector/sent_dedup.go\<close>: the table of messages the bridge itself sent, consulted when the
  Sent folder echoes them back.  The table is the association list of its rows under the primary
  key; the database is a parameter of each call that says whether the statement succeeds.
\<close>

subsection \<open>The table\<close>

type_synonym dedup_key = "gostring \<times> gostring \<times> gostring"

type_synonym dedup_table = "(dedup_key \<times> gostring \<times> int) list"

text \<open>\<open>?\<close> placeholders become \<open>$1\<close>, \<open>$2\<close>, ... for Postgres.\<close>

fun number_params :: "nat \<Rightarrow> gostring \<Rightarrow> gostring" where
  "number_params n [] = []"
| "number_params n (c # q) =
     (if c = CHR ''?'' then CHR ''$'' # nat_digits (Suc n) @ number_params (Suc n) q
      else c # number_params n q)"

definition dialectQuery :: "bool \<Rightarrow> gostring \<Rightarrow> gostring" where
  "dialectQuery postgres q = (if postgres then number_params 0 q else q)"

text \<open>A database call: no database, a failing statement, or success.\<close>

datatype db_call = NoDB | DBFails go_error | DBWorks

definition nil_db_error :: go_error where "nil_db_error = Err ''SentDedupQuery: nil DB''"

definition dedup_Record ::
  "db_call \<Rightarrow> int \<Rightarrow> gostring \<Rightarrow> gostring \<Rightarrow> gostring \<Rightarrow> gostring \<Rightarrow> dedup_table \<Rightarrow>
     go_error option \<times> dedup_table" where
  "dedup_Record db now bridge receiver mid evt tab =
     (if db = NoDB then (Some nil_db_error, tab)
      else if mid = [] then (Some (Err ''SentDedupQuery.Record: empty message_id''), tab)
      else case db of
        DBFails e \<Rightarrow> (Some e, tab)
      | _ \<Rightarrow> (None, AList.update (bridge, receiver, mid) (evt, now) tab))"

definition dedup_Exists ::
  "db_call \<Rightarrow> gostring \<Rightarrow> gostring \<Rightarrow> gostring \<Rightarrow> dedup_table \<Rightarrow> go_error + bool" where
  "dedup_Exists db bridge receiver mid tab =
     (if db = NoDB then Inl nil_db_error
      else if mid = [] then Inr False
      else case db of
        DBFails e \<Rightarrow> Inl e
      | _ \<Rightarrow> Inr (map_of tab (bridge, receiver, mid) \<noteq> None))"

definition dedup_Cleanup ::
  "db_call \<Rightarrow> gostring \<Rightarrow> int \<Rightarrow> dedup_table \<Rightarrow> (go_error + nat) \<times> dedup_table" where
  "dedup_Cleanup db bridge olderThan tab =
     (case db of
        NoDB \<Rightarrow> (Inl nil_db_error, tab)
      | DBFails e \<Rightarrow> (Inl e, tab)
      | DBWorks \<Rightarrow>
          (let old = (\<lambda>((b, r, m), evt, at). b = bridge \<and> at < olderThan)
           in (Inr (length (filter old tab)), filter (\<lambda>row. \<not> old row) tab)))"

text \<open>The adapter the processor holds; a missing store never claims a message.\<close>

definition IsOurMessage ::
  "db_call \<Rightarrow> bool \<Rightarrow> gostring \<Rightarrow> gostring \<Rightarrow> gostring \<Rightarrow> dedup_table \<Rightarrow> go_error + bool" where
  "IsOurMessage db has_store bridge receiver mid tab =
     (if \<not> has_store then Inr False else dedup_Exists db bridge receiver mid tab)"

subsection \<open>The contract of the store\<close>

text \<open>
  What the sender and the processor rely on: a recorded message is found, nothing else changes,
  and a clean-up up to some time keeps every message recorded at or after it.
\<close>

locale dedup_store =
  fixes valid :: "'k \<Rightarrow> bool"
    and put :: "int \<Rightarrow> 'k \<Rightarrow> 't \<Rightarrow> 't"
    and has :: "'k \<Rightarrow> 't \<Rightarrow> bool"
    and age :: "'k \<Rightarrow> 't \<Rightarrow> int"
    and purge :: "int \<Rightarrow> 't \<Rightarrow> 't"
    and wf :: "'t \<Rightarrow> bool"
  assumes wf_put: "wf t \<Longrightarrow> wf (put now k t)"
    and wf_purge: "wf t \<Longrightarrow> wf (purge lim t)"
    and has_put: "wf t \<Longrightarrow> has k (put now k' t) \<longleftrightarrow> (k = k' \<and> valid k) \<or> has k t"
    and age_put: "wf t \<Longrightarrow> age k (put now k' t) = (if k = k' \<and> valid k then now else age k t)"
    and has_purge: "wf t \<Longrightarrow> has k t \<Longrightarrow> lim \<le> age k t \<Longrightarrow> has k (purge lim t)"
    and age_purge: "wf t \<Longrightarrow> has k t \<Longrightarrow> lim \<le> age k t \<Longrightarrow> age k (purge lim t) = age k t"
begin

definition act :: "int \<times> 'k option \<Rightarrow> 't \<Rightarrow> 't" where
  "act e t = (case snd e of Some k \<Rightarrow> put (fst e) k t | None \<Rightarrow> purge (fst e) t)"

text \<open>A message recorded at a time stays known while every clean-up cuts at or before that time.\<close>

lemma stays_known:
  assumes "wf t" and "has k t" and "at \<le> age k t"
    and "list_all (\<lambda>e. case snd e of Some k' \<Rightarrow> at \<le> fst e | None \<Rightarrow> fst e \<le> at) es"
  shows "has k (fold act es t)"
  using assms
proof (induction es arbitrary: t)
  case (Cons e es)
  obtain x o1 where e: "e = (x, o1)" by fastforce
  have "wf (act e t) \<and> has k (act e t) \<and> at \<le> age k (act e t)"
  proof (cases o1)
    case (Some k')
    with Cons.prems e show ?thesis by (simp add: act_def wf_put has_put age_put)
  next
    case None
    with Cons.prems e have "x \<le> age k t" by simp
    with Cons.prems e None show ?thesis by (simp add: act_def wf_purge has_purge age_purge)
  qed
  with Cons show ?case by simp
qed simp

lemma recorded_stays_known:
  assumes "wf t" and "valid k"
    and "list_all (\<lambda>e. case snd e of Some k' \<Rightarrow> at \<le> fst e | None \<Rightarrow> fst e \<le> at) es"
  shows "has k (fold act es (put at k t))"
  using assms by (intro stays_known) (simp_all add: wf_put has_put age_put)

end

definition table_wf :: "dedup_table \<Rightarrow> bool" where
  "table_wf tab = distinct (map fst tab)"

text \<open>The store of one bridge, over the keys (receiver, message ID).\<close>

definition put_row :: "gostring \<Rightarrow> gostring \<Rightarrow> int \<Rightarrow> gostring \<times> gostring \<Rightarrow> dedup_table \<Rightarrow> dedup_table" where
  "put_row bridge evt now k tab = snd (dedup_Record DBWorks now bridge (fst k) (snd k) evt tab)"

definition has_row :: "gostring \<Rightarrow> gostring \<times> gostring \<Rightarrow> dedup_table \<Rightarrow> bool" where
  "has_row bridge k tab = (map_of tab (bridge, k) \<noteq> None)"

definition row_age :: "gostring \<Rightarrow> gostring \<times> gostring \<Rightarrow> dedup_table \<Rightarrow> int" where
  "row_age bridge k tab = (case map_of tab (bridge, k) of Some (evt, at) \<Rightarrow> at | None \<Rightarrow> 0)"

definition purge_rows :: "gostring \<Rightarrow> int \<Rightarrow> dedup_table \<Rightarrow> dedup_table" where
  "purge_rows bridge lim tab = snd (dedup_Cleanup DBWorks bridge lim tab)"

lemma put_row_map:
  "map_of (put_row bridge evt now k tab) k' =
     (if k' = (bridge, k) \<and> snd k \<noteq> [] then Some (evt, now) else map_of tab k')"
  by (cases k) (auto simp: put_row_def dedup_Record_def update_conv')

lemma map_of_filter_distinct:
  "distinct (map fst xs) \<Longrightarrow>
     map_of (filter P xs) k = (case map_of xs k of Some v \<Rightarrow> if P (k, v) then Some v else None | None \<Rightarrow> None)"
proof (induction xs)
  case (Cons x xs)
  have "map_of (filter P xs) (fst x) = None"
    using Cons.prems by (auto simp: map_of_eq_None_iff)
  with Cons show ?case by (cases x) (auto split: option.split)
qed simp

lemma purge_rows_map:
  "table_wf tab \<Longrightarrow> map_of (purge_rows bridge lim tab) (b, k) =
     (case map_of tab (b, k) of Some (evt, at) \<Rightarrow> if b = bridge \<and> at < lim then None else Some (evt, at) | None \<Rightarrow> None)"
  by (cases k) (auto simp: purge_rows_def dedup_Cleanup_def Let_def table_wf_def map_of_filter_distinct
      split: option.split)

lemma table_wf_put: "table_wf tab \<Longrightarrow> table_wf (put_row bridge evt now k tab)"
  by (cases k) (simp add: table_wf_def put_row_def dedup_Record_def distinct_update)

lemma table_wf_purge: "table_wf tab \<Longrightarrow> table_wf (purge_rows bridge lim tab)"
  by (simp add: table_wf_def purge_rows_def dedup_Cleanup_def Let_def distinct_map_filter)

interpretation sent: dedup_store "\<lambda>k. snd k \<noteq> []" "put_row bridge evt" "has_row bridge" "row_age bridge"
    "purge_rows bridge" table_wf for bridge evt
proof unfold_locales
  fix t lim and k k' :: "gostring \<times> gostring" and now
  assume wf: "table_wf t"
  show "table_wf (put_row bridge evt now k t)" using wf by (rule table_wf_put)
  show "table_wf (purge_rows bridge lim t)" using wf by (rule table_wf_purge)
  show "has_row bridge k (put_row bridge evt now k' t) \<longleftrightarrow> (k = k' \<and> snd k \<noteq> []) \<or> has_row bridge k t"
    by (auto simp: has_row_def put_row_map)
  show "row_age bridge k (put_row bridge evt now k' t) = (if k = k' \<and> snd k \<noteq> [] then now else row_age bridge k t)"
    by (auto simp: row_age_def put_row_map)
  assume "has_row bridge k t" and "lim \<le> row_age bridge k t"
  then show "has_row bridge k (purge_rows bridge lim t)"
    and "row_age bridge k (purge_rows bridge lim t) = row_age bridge k t"
    using wf by (auto simp: has_row_def row_age_def purge_rows_map split: option.splits)
qed

text \<open>
  C7: a message the bridge recorded as sent is recognised as its own by every later check, through
  any further records and any clean-ups that cut no later than its own time, in whatever order; an
  empty message ID is never recorded.
\<close>

theorem sent_message_recognised:
  assumes "table_wf tab" and "mid \<noteq> []"
    and "list_all (\<lambda>e. case snd e of Some k' \<Rightarrow> at \<le> fst e | None \<Rightarrow> fst e \<le> at) es"
  shows "IsOurMessage DBWorks True bridge receiver mid
      (fold (\<lambda>e t. case snd e of Some k \<Rightarrow> snd (dedup_Record DBWorks (fst e) bridge (fst k) (snd k) evt t)
                   | None \<Rightarrow> snd (dedup_Cleanup DBWorks bridge (fst e) t)) es
        (snd (dedup_Record DBWorks at bridge receiver mid evt tab))) = Inr True"
proof -
  have "has_row bridge (receiver, mid) (fold (sent.act bridge evt) es (put_row bridge evt at (receiver, mid) tab))"
    using assms by (intro sent.recorded_stays_known) simp_all
  moreover have "sent.act bridge evt = (\<lambda>e t. case snd e of
      Some k \<Rightarrow> snd (dedup_Record DBWorks (fst e) bridge (fst k) (snd k) evt t)
    | None \<Rightarrow> snd (dedup_Cleanup DBWorks bridge (fst e) t))"
    by (auto simp: fun_eq_iff sent.act_def put_row_def purge_rows_def split: option.split)
  ultimately show ?thesis
    using assms(2) by (simp add: IsOurMessage_def dedup_Exists_def has_row_def put_row_def)
qed

theorem sent_message_recognised_witness:
  "IsOurMessage DBWorks True ''b'' ''me'' ''m1''
     (snd (dedup_Cleanup DBWorks ''b'' 5
        (snd (dedup_Record DBWorks 9 ''b'' ''me'' ''m2'' ''e''
          (snd (dedup_Record DBWorks 7 ''b'' ''me'' ''m1'' ''e'' []))))))  = Inr True"
  using sent_message_recognised [of "[]" "''m1''" 7 "[(9, Some (''me'', ''m2'')), (5, None)]" "''b''" "''me''" "''e''"]
  by (simp add: table_wf_def)

end
