(* ===== verification/Processor.thy ===== *)
theory Processor
  imports ThreadRuns SentDedup
begin

text \<open>
  The post-parse pipeline of \<open>pkg/email/processor.go\<close>: validation, the Sent-folder check, alias
  detection, the thread decision and the message handed to the Matrix side.  Logging is left out.
  The dedup checker and the alias resolver are arguments, \<open>None\<close> when they are not wired.
\<close>

definition pickDeliveredTo ::
  "(gostring \<Rightarrow> gostring option) \<Rightarrow> gostring list \<Rightarrow> gostring list \<Rightarrow> gostring list \<Rightarrow> gostring" where
  "pickDeliveredTo parse to cc aliases =
     (if aliases = [] then []
      else let lookup = filter (\<lambda>a. a \<noteq> []) (map (\<lambda>a. to_lower (trim_space a)) aliases);
               mine = (\<lambda>raw. let addr = extractEmailAddress parse raw in
                         if addr \<noteq> [] \<and> to_lower addr \<in> set lookup then Some addr else None)
           in case first_some mine to of
                Some hit \<Rightarrow> hit
              | None \<Rightarrow> (case first_some mine cc of Some hit \<Rightarrow> hit | None \<Rightarrow> []))"

definition isOutboundMessage :: "gostring \<Rightarrow> bool" where
  "isOutboundMessage mailbox =
     (let mb = to_lower (trim_space mailbox) in mb \<noteq> [] \<and> contains_sub mb ''sent'')"

record email_message =
  em_email :: parsed_email
  em_thread :: thread_ref
  em_portal :: "gostring \<times> gostring"
  em_id :: gostring
  em_outbound :: bool

definition MakePortalID :: "gostring \<Rightarrow> gostring" where
  "MakePortalID threadID = ''thread:'' @ threadID"

definition EmailToGhostID :: "gostring \<Rightarrow> gostring" where
  "EmailToGhostID email = ''email:'' @ trim_space email"

record processor =
  dedupChecker :: "(gostring \<Rightarrow> gostring \<Rightarrow> go_error + bool) option"
  aliasResolver :: "(gostring \<Rightarrow> gostring list) option"

definition degraded :: "parsed_email \<Rightarrow> go_error option" where
  "degraded email =
     (if trim_space (pe_From email) = [] then Some (Err ''degraded parse: missing sender information'')
      else if trim_space (pe_MessageID email) = [] then Some (Err ''degraded parse: missing message-id header'')
      else if length (pe_MessageID email) > 998 then Some (Err ''degraded parse: message-id exceeds RFC limits'')
      else None)"

definition own_echo :: "processor \<Rightarrow> gostring \<Rightarrow> gostring \<Rightarrow> parsed_email \<Rightarrow> bool" where
  "own_echo p receiver mailbox email =
     (case dedupChecker p of
        None \<Rightarrow> False
      | Some check \<Rightarrow> isOutboundMessage mailbox \<and> check receiver (pe_MessageID email) = Inr True)"

definition with_delivered_to ::
  "thread_env \<Rightarrow> processor \<Rightarrow> gostring \<Rightarrow> parsed_email \<Rightarrow> parsed_email" where
  "with_delivered_to env p receiver email =
     (case aliasResolver p of
        None \<Rightarrow> email
      | Some aliases_of \<Rightarrow>
          if aliases_of receiver = [] then email
          else email\<lparr>pe_DeliveredTo :=
            pickDeliveredTo (parse_addr env) (slice (pe_To email)) (slice (pe_Cc email)) (aliases_of receiver)\<rparr>)"

definition ProcessParsedEmail ::
  "thread_env \<Rightarrow> processor \<Rightarrow> gostring \<Rightarrow> gostring \<Rightarrow> parsed_email option \<Rightarrow> thread_manager \<Rightarrow>
     (go_error + email_message option) \<times> thread_manager" where
  "ProcessParsedEmail env p receiver mailbox parsed tm =
     (case parsed of
        None \<Rightarrow> (Inl (Err ''ProcessParsedEmail: nil parsedEmail''), tm)
      | Some email0 \<Rightarrow>
          (case degraded email0 of
             Some e \<Rightarrow> (Inl e, tm)
           | None \<Rightarrow>
               if own_echo p receiver mailbox email0 then (Inr None, tm)
               else
                 let email = with_delivered_to env p receiver email0;
                     (r, tm1) = thread_incoming env receiver email tm
                 in (Inr (Some \<lparr>em_email = email, em_thread = r,
                                em_portal = (MakePortalID (ThreadID (deref tm1 r)), receiver),
                                em_id = ''email:'' @ pe_MessageID email,
                                em_outbound = isOutboundMessage mailbox\<rparr>), tm1)))"

definition ProcessIMAPMessage ::
  "thread_env \<Rightarrow> processor \<Rightarrow> gostring \<Rightarrow> gostring \<Rightarrow> go_error + parsed_email \<Rightarrow> thread_manager \<Rightarrow>
     (go_error + email_message option) \<times> thread_manager" where
  "ProcessIMAPMessage env p receiver mailbox fetched tm =
     (case fetched of
        Inl e \<Rightarrow> (Inl (Err (''failed to parse IMAP fetch data: '' @ error_text e)), tm)
      | Inr email \<Rightarrow>
          if pe_IsDraft email then (Inr None, tm)
          else ProcessParsedEmail env p receiver mailbox (Some email) tm)"

subsection \<open>Facts\<close>

lemma pickDeliveredTo_mine:
  assumes "pickDeliveredTo parse to cc aliases \<noteq> []"
  shows "\<exists>a \<in> set aliases. to_lower (trim_space a) = to_lower (pickDeliveredTo parse to cc aliases)"
proof -
  define mine where "mine = (\<lambda>raw. let addr = extractEmailAddress parse raw in
    if addr \<noteq> [] \<and> to_lower addr \<in> set (filter (\<lambda>a. a \<noteq> []) (map (\<lambda>a. to_lower (trim_space a)) aliases))
    then Some addr else None)"
  have ok: "\<exists>a \<in> set aliases. to_lower (trim_space a) = to_lower addr" if "mine raw = Some addr" for raw addr
    using that by (auto simp: mine_def Let_def split: if_splits)
  have "first_some mine to = Some (pickDeliveredTo parse to cc aliases) \<or>
      first_some mine cc = Some (pickDeliveredTo parse to cc aliases)"
    using assms by (auto simp: pickDeliveredTo_def mine_def Let_def split: if_splits option.splits)
  with first_some_Some ok show ?thesis by metis
qed


end
