(* ===== verification/SendFlow.thy ===== *)
theory SendFlow
  imports OutboundFacts Processor
begin

text \<open>
  The send path of \<open>pkg/connector/client_send.go\<close>, from the Matrix event to the delivered email:
  the thread behind the portal (from the cache, or restored from the portal's metadata), the reply
  chain, recipients, message, media, delivery, the dedup record, the Sent-folder copy, and the
  update of thread and metadata.  \<open>Portal.Metadata\<close> follows \<open>pkg/connector/portal_metadata.go\<close>.
  What the outside answers (media download, transport, library functions, clock) is the argument
  \<open>send_env\<close>; best-effort steps whose failure is only logged change nothing else.
\<close>

subsection \<open>Portal metadata\<close>

record portal_metadata =
  pm_ThreadID :: gostring
  pm_Subject :: gostring
  pm_Participants :: "gostring list"
  pm_References :: "gostring list"
  pm_LastMessageID :: gostring
  pm_IsDraft :: bool
  pm_GmailThreadID :: gostring
  pm_LastFrom :: gostring
  pm_LastTo :: "gostring list"
  pm_LastCc :: "gostring list"
  pm_LastDeliveredTo :: gostring
  pm_LastDate :: "int option"
  pm_LastTextBody :: gostring
  pm_LastHTMLBody :: gostring

definition metadata_of :: "email_thread \<Rightarrow> portal_metadata" where
  "metadata_of th = \<lparr>pm_ThreadID = ThreadID th, pm_Subject = Subject th, pm_Participants = Participants th,
     pm_References = References th, pm_LastMessageID = MessageID th, pm_IsDraft = IsDraft th,
     pm_GmailThreadID = GmailThreadID th, pm_LastFrom = LastFrom th, pm_LastTo = LastTo th, pm_LastCc = LastCc th,
     pm_LastDeliveredTo = LastDeliveredTo th, pm_LastDate = LastDate th, pm_LastTextBody = LastTextBody th,
     pm_LastHTMLBody = LastHTMLBody th\<rparr>"

definition metadata_thread :: "portal_metadata \<Rightarrow> email_thread" where
  "metadata_thread pm = empty_thread\<lparr>ThreadID := pm_ThreadID pm, Subject := pm_Subject pm,
     Participants := pm_Participants pm, References := pm_References pm, MessageID := pm_LastMessageID pm,
     IsDraft := pm_IsDraft pm, GmailThreadID := pm_GmailThreadID pm, LastFrom := pm_LastFrom pm,
     LastTo := pm_LastTo pm, LastCc := pm_LastCc pm, LastDeliveredTo := pm_LastDeliveredTo pm,
     LastDate := pm_LastDate pm, LastTextBody := pm_LastTextBody pm, LastHTMLBody := pm_LastHTMLBody pm\<rparr>"

text \<open>\<open>GetChatInfo\<close> of \<open>connector.go\<close> restores a thread from the same metadata, less its last date and bodies.\<close>

definition chatinfo_thread :: "portal_metadata \<Rightarrow> email_thread" where
  "chatinfo_thread pm = empty_thread\<lparr>ThreadID := pm_ThreadID pm, Subject := pm_Subject pm,
     Participants := pm_Participants pm, References := pm_References pm, MessageID := pm_LastMessageID pm,
     IsDraft := pm_IsDraft pm, GmailThreadID := pm_GmailThreadID pm, LastFrom := pm_LastFrom pm,
     LastTo := pm_LastTo pm, LastCc := pm_LastCc pm, LastDeliveredTo := pm_LastDeliveredTo pm\<rparr>"

subsection \<open>Client, environment and state\<close>

record email_client =
  ec_Email :: gostring
  ec_login :: gostring
  ec_aliases :: "send_as list"
  ec_signature :: gostring
  ec_has_sender :: bool
  ec_provider :: gostring
  ec_has_imap :: bool
  ec_has_dedup :: bool
  ec_db :: db_call
  ec_bridge :: gostring

record send_env =
  se_lib :: mail_lib
  se_range :: "(gostring \<times> thread_ref) list \<Rightarrow> (gostring \<times> thread_ref) list"
  se_clock :: int
  se_send :: "gostring \<Rightarrow> gostring \<Rightarrow> gostring list \<Rightarrow> gostring \<Rightarrow> go_error + gostring"
  se_media :: "go_error + attachment"

record send_state =
  ss_tm :: thread_manager
  ss_dedup :: dedup_table
  ss_pendingDM :: "gostring list"
  ss_meta :: "gostring \<rightharpoonup> portal_metadata"
  ss_delivered :: "(gostring \<times> gostring list) list"
  ss_appended :: "gostring list"
  ss_notices :: "(gostring \<times> gostring) list"

definition MarkPortalNextReplyDM :: "gostring \<Rightarrow> send_state \<Rightarrow> send_state" where
  "MarkPortalNextReplyDM portal st = st\<lparr>ss_pendingDM := set_add portal (ss_pendingDM st)\<rparr>"

definition consumePortalNextReplyDM :: "gostring \<Rightarrow> send_state \<Rightarrow> bool \<times> send_state" where
  "consumePortalNextReplyDM portal st =
     (if portal \<in> set (ss_pendingDM st)
      then (True, st\<lparr>ss_pendingDM := filter (\<lambda>p. p \<noteq> portal) (ss_pendingDM st)\<rparr>)
      else (False, st))"

definition notice :: "gostring \<Rightarrow> gostring \<Rightarrow> send_state \<Rightarrow> send_state" where
  "notice title details st = st\<lparr>ss_notices := ss_notices st @ [(title, details)]\<rparr>"

subsection \<open>The thread behind a portal\<close>

definition portal_thread_id :: "gostring \<Rightarrow> gostring" where
  "portal_thread_id portal = trim_prefix portal ''thread:''"

definition resolveThreadForPortal ::
  "int \<Rightarrow> gostring \<Rightarrow> gostring \<Rightarrow> thread_manager \<Rightarrow> (go_error + thread_ref) \<times> thread_manager" where
  "resolveThreadForPortal now login portal tm =
     (let tid = portal_thread_id portal in
      if tid = [] then (Inl (Err ''matrimail: portal has no thread ID''), tm)
      else case GetThreadByID now login tid tm of
        (Some r, tm1) \<Rightarrow> (Inr r, tm1)
      | (None, tm1) \<Rightarrow> (Inl (Err (''matrimail: thread '' @ tid @ '' not found in cache'')), tm1))"

definition resolveThreadForPortalWithMetadata ::
  "send_env \<Rightarrow> gostring \<Rightarrow> gostring \<Rightarrow> portal_metadata option \<Rightarrow> thread_manager \<Rightarrow>
     (go_error + thread_ref) \<times> thread_manager" where
  "resolveThreadForPortalWithMetadata env login portal meta tm =
     (case resolveThreadForPortal (se_clock env) login portal tm of
        (Inr r, tm1) \<Rightarrow> (Inr r, tm1)
      | (Inl _, tm1) \<Rightarrow>
          (let tid = portal_thread_id portal;
               lost = Inl (Err (''matrimail: thread '' @ tid @ '' not found in cache and no portal metadata to restore from''))
           in case meta of
                None \<Rightarrow> (lost, tm1)
              | Some pm \<Rightarrow>
                  if pm_ThreadID pm = [] \<or> pm_ThreadID pm \<noteq> tid then (lost, tm1)
                  else let (r, tm2) = alloc (metadata_thread pm) tm1
                       in (Inr r, cacheThread (se_range env) (se_clock env) login (Some r) tm2)))"

subsection \<open>Composing the message\<close>

definition own_addresses :: "email_client \<Rightarrow> gostring list" where
  "own_addresses ec = to_lower (ec_Email ec) #
     map to_lower (filter (\<lambda>e. e \<noteq> []) (map sa_email (ec_aliases ec)))"

text \<open>A draft without a subject takes it from the first line of the message.\<close>

definition draft_subject :: "matrix_message \<Rightarrow> email_thread \<Rightarrow> email_thread" where
  "draft_subject msg th =
     (if IsDraft th \<and> trim_space (Subject th) = []
      then th\<lparr>Subject := deriveSubjectFromBody (mm_body msg)\<rparr> else th)"

definition reply_headers :: "matrix_message \<Rightarrow> email_thread \<Rightarrow> gostring \<times> gostring list" where
  "reply_headers msg th = (if IsDraft th then ([], []) else computeReplyChain th (mm_replyTo msg))"

definition recipients_of ::
  "addr_parser \<Rightarrow> bool \<Rightarrow> email_thread \<Rightarrow> gostring list \<Rightarrow> go_error + (netaddr list \<times> netaddr list)" where
  "recipients_of parse dm th selves =
     (if dm then map_sum id (\<lambda>to. (to, [])) (resolveDMRecipients parse (Some th) selves)
      else resolveReplyAllRecipients parse (Some th) selves)"

definition compose_message ::
  "send_env \<Rightarrow> email_client \<Rightarrow> matrix_message \<Rightarrow> email_thread \<Rightarrow> netaddr list \<Rightarrow> netaddr list \<Rightarrow> outgoing_message" where
  "compose_message env ec msg th to cc =
     (let lib = se_lib env;
          (irt, refs) = reply_headers msg th;
          (from, name) = pickFromAddressFromSlice (ec_Email ec) (ec_aliases ec) (Some th) (own_addresses ec);
          m0 = buildOutgoingMessage lib from name th msg irt refs to cc;
          m1 = (if irt = [] \<and> refs = [] \<and> ec_signature ec \<noteq> []
                then m0\<lparr>om_TextBody := AppendSignature (ml_sig_text lib) (om_TextBody m0) (ec_signature ec) False,
                        om_HTMLBody := (if om_HTMLBody m0 = [] then []
                          else AppendSignature (ml_sig_text lib) (om_HTMLBody m0) (ec_signature ec) True)\<rparr>
                else m0)
      in if IsDraft th then m1\<lparr>om_Subject := trim_space (Subject th)\<rparr> else m1)"

subsection \<open>After the delivery\<close>

definition dedup_key_of :: "outgoing_message \<Rightarrow> gostring \<Rightarrow> gostring" where
  "dedup_key_of m serverID =
     (if serverID \<noteq> [] then trim_set angles serverID else trim_set angles (om_MessageID m))"

definition sent_thread :: "gostring \<Rightarrow> email_thread \<Rightarrow> email_thread" where
  "sent_thread key th = th\<lparr>References := References th @ [key], MessageID := key, IsDraft := False\<rparr>"

definition record_sent ::
  "send_env \<Rightarrow> email_client \<Rightarrow> matrix_message \<Rightarrow> gostring \<Rightarrow> send_state \<Rightarrow> send_state" where
  "record_sent env ec msg key st =
     (if ec_has_dedup ec
      then st\<lparr>ss_dedup := snd (dedup_Record (ec_db ec) (se_clock env) (ec_bridge ec) (ec_login ec) key
                                (mm_event msg) (ss_dedup st))\<rparr>
      else st)"

definition finish_send ::
  "send_env \<Rightarrow> email_client \<Rightarrow> matrix_message \<Rightarrow> thread_ref \<Rightarrow> outgoing_message \<Rightarrow> gostring \<Rightarrow>
     gostring list \<Rightarrow> gostring \<Rightarrow> send_state \<Rightarrow> (gostring \<times> gostring) \<times> send_state" where
  "finish_send env ec msg r m mime rcpts serverID st =
     (let key = dedup_key_of m serverID;
          st1 = record_sent env ec msg key (st\<lparr>ss_delivered := ss_delivered st @ [(mime, rcpts)]\<rparr>);
          st2 = (if ec_provider ec = ''smtp'' \<and> ec_has_imap ec
                 then st1\<lparr>ss_appended := ss_appended st1 @ [mime]\<rparr> else st1);
          th = sent_thread key (deref (ss_tm st2) r);
          tm = cacheThread (se_range env) (se_clock env) (ec_login ec) (Some r) (store r th (ss_tm st2))
      in ((''email:'' @ key, EmailToGhostID (ec_Email ec)),
          st2\<lparr>ss_tm := tm, ss_meta := (ss_meta st2)(mm_portal msg \<mapsto> metadata_of th)\<rparr>))"

subsection \<open>The handler\<close>

definition deliver ::
  "send_env \<Rightarrow> email_client \<Rightarrow> matrix_message \<Rightarrow> thread_ref \<Rightarrow> outgoing_message \<Rightarrow> send_state \<Rightarrow>
     (go_error + (gostring \<times> gostring)) \<times> send_state" where
  "deliver env ec msg r m st =
     (case BuildMIME (ml_write (se_lib env)) (ml_now (se_lib env)) (Some m) of
        Inl e \<Rightarrow> (Inl (Err (''build mime: '' @ error_text e)),
                  notice ''Send failed'' (''Failed to build MIME message: '' @ error_text e) st)
      | Inr mime \<Rightarrow>
          (let rcpts = map na_addr (om_To m) @ map na_addr (om_Cc m) in
           case se_send env mime (na_addr (om_From m)) rcpts (GmailThreadID (deref (ss_tm st) r)) of
             Inl e \<Rightarrow> (Inl (Err (''send: '' @ error_text e)), notice ''Send failed'' (error_text e) st)
           | Inr serverID \<Rightarrow>
               (let (resp, st') = finish_send env ec msg r m mime rcpts serverID st in (Inr resp, st'))))"

definition send_in_thread ::
  "send_env \<Rightarrow> email_client \<Rightarrow> matrix_message \<Rightarrow> thread_ref \<Rightarrow> send_state \<Rightarrow>
     (go_error + (gostring \<times> gostring)) \<times> send_state" where
  "send_in_thread env ec msg r st0 =
     (let th = draft_subject msg (deref (ss_tm st0) r);
          st1 = st0\<lparr>ss_tm := store r th (ss_tm st0)\<rparr>;
          (dm, st) = consumePortalNextReplyDM (mm_portal msg) st1
      in case recipients_of (ml_parse (se_lib env)) dm th (own_addresses ec) of
           Inl e \<Rightarrow> (Inl e, st)
         | Inr (to, cc) \<Rightarrow>
             (let m = compose_message env ec msg th to cc in
              if mm_has_media msg then
                (case se_media env of
                   Inl e \<Rightarrow> (Inl (Err (''download attachment: '' @ error_text e)),
                             notice ''Send failed'' (''Failed to download attachment: '' @ error_text e) st)
                 | Inr a \<Rightarrow> deliver env ec msg r (m\<lparr>om_Attachments := om_Attachments m @ [Some a]\<rparr>) st)
              else deliver env ec msg r m st))"

definition handleMatrixMessageOutbound ::
  "send_env \<Rightarrow> email_client \<Rightarrow> matrix_message option \<Rightarrow> send_state \<Rightarrow>
     (go_error + (gostring \<times> gostring)) \<times> send_state" where
  "handleMatrixMessageOutbound env ec msg0 st =
     (if \<not> ec_has_sender ec
      then (Inl (Err ''matrimail: outbound disabled (no Sender configured for this account)''), st)
      else case msg0 of
        None \<Rightarrow> (Inl (Err ''matrimail: invalid Matrix message (missing content or portal)''), st)
      | Some msg \<Rightarrow>
          if mm_replace msg \<noteq> []
          then (Inl (Err ''matrimail: edits not supported (email cannot be unsent)''), st)
          else (case resolveThreadForPortalWithMetadata env (ec_login ec) (mm_portal msg)
                       (ss_meta st (mm_portal msg)) (ss_tm st) of
                  (Inl e, tm1) \<Rightarrow> (Inl e, st\<lparr>ss_tm := tm1\<rparr>)
                | (Inr r, tm1) \<Rightarrow> send_in_thread env ec msg r (st\<lparr>ss_tm := tm1\<rparr>)))"

text \<open>\<open>GetChatInfo\<close>: the thread of a portal as the room sees it, restored into the cache when it is missing.\<close>

definition chat_info_thread ::
  "send_env \<Rightarrow> gostring \<Rightarrow> gostring \<Rightarrow> portal_metadata option \<Rightarrow> thread_manager \<Rightarrow>
     thread_ref option \<times> thread_manager" where
  "chat_info_thread env login portal meta tm =
     (let tid = (if 7 < length portal \<and> take 7 portal = ''thread:'' then drop 7 portal else portal) in
      case GetThreadByID (se_clock env) login tid tm of
        (Some r, tm1) \<Rightarrow> (Some r, tm1)
      | (None, tm1) \<Rightarrow>
          (case meta of
             None \<Rightarrow> (None, tm1)
           | Some pm \<Rightarrow>
               if pm_ThreadID pm \<noteq> tid then (None, tm1)
               else let (r, tm2) = alloc (chatinfo_thread pm) tm1
                    in (Some r, cacheThread (se_range env) (se_clock env) login (Some r) tm2)))"

end
