(* ===== verification/SendFacts.thy ===== *)
theory SendFacts
  imports SendFlow
begin

text \<open>
  What the send path guarantees: an email is delivered at most once per event and nothing is
  recorded for one that was not, the echo of a sent email is recognised, a reply to it comes back
  to the same thread, a restart changes nothing that is sent, and the whole bridge keeps its
  tables sound.
\<close>

subsection \<open>One event, one email\<close>

lemma notice_fields [simp]:
  "ss_tm (notice t d st) = ss_tm st" "ss_dedup (notice t d st) = ss_dedup st"
  "ss_pendingDM (notice t d st) = ss_pendingDM st" "ss_meta (notice t d st) = ss_meta st"
  "ss_delivered (notice t d st) = ss_delivered st" "ss_appended (notice t d st) = ss_appended st"
  by (simp_all add: notice_def)

lemma consume_fields:
  assumes "consumePortalNextReplyDM portal st = (dm, st')"
  shows "ss_tm st' = ss_tm st" "ss_dedup st' = ss_dedup st" "ss_meta st' = ss_meta st"
    "ss_delivered st' = ss_delivered st" "ss_appended st' = ss_appended st"
    "ss_pendingDM st' = filter (\<lambda>p. p \<noteq> portal) (ss_pendingDM st)"
    "dm = (portal \<in> set (ss_pendingDM st))"
proof -
  have "filter (\<lambda>p. p \<noteq> portal) ps = ps" if "portal \<notin> set ps" for ps
    using that by (induction ps) auto
  with assms show "ss_tm st' = ss_tm st" "ss_dedup st' = ss_dedup st" "ss_meta st' = ss_meta st"
    "ss_delivered st' = ss_delivered st" "ss_appended st' = ss_appended st"
    "ss_pendingDM st' = filter (\<lambda>p. p \<noteq> portal) (ss_pendingDM st)"
    "dm = (portal \<in> set (ss_pendingDM st))"
    by (auto simp: consumePortalNextReplyDM_def split: if_splits)
qed

lemma deliver_cases:
  assumes "deliver env ec msg r m st = (res, st')"
  obtains (failed) e where "res = Inl e" "ss_tm st' = ss_tm st" "ss_dedup st' = ss_dedup st"
      "ss_pendingDM st' = ss_pendingDM st" "ss_meta st' = ss_meta st" "ss_delivered st' = ss_delivered st"
      "ss_appended st' = ss_appended st"
    | (sent) mime serverID resp where "res = Inr resp"
      "BuildMIME (ml_write (se_lib env)) (ml_now (se_lib env)) (Some m) = Inr mime"
      "finish_send env ec msg r m mime (map na_addr (om_To m) @ map na_addr (om_Cc m)) serverID st = (resp, st')"
  using assms unfolding deliver_def
  by (auto simp: Let_def split: sum.splits prod.splits)

lemma finish_send_fields:
  assumes "finish_send env ec msg r m mime rcpts serverID st = (resp, st')"
  shows "resp = (''email:'' @ dedup_key_of m serverID, EmailToGhostID (ec_Email ec))"
    and "ss_delivered st' = ss_delivered st @ [(mime, rcpts)]"
    and "ss_pendingDM st' = ss_pendingDM st"
    and "ss_dedup st' = ss_dedup (record_sent env ec msg (dedup_key_of m serverID) st)"
    and "ss_tm st' = cacheThread (se_range env) (se_clock env) (ec_login ec) (Some r)
           (store r (sent_thread (dedup_key_of m serverID) (deref (ss_tm st) r)) (ss_tm st))"
    and "ss_meta st' = (ss_meta st)(mm_portal msg \<mapsto> metadata_of (sent_thread (dedup_key_of m serverID) (deref (ss_tm st) r)))"
  using assms by (auto simp: finish_send_def Let_def record_sent_def)

text \<open>The ways through the handler once a thread is found.\<close>

lemma send_in_thread_cases:
  assumes "send_in_thread env ec msg r st0 = (res, st')"
  defines "th \<equiv> draft_subject msg (deref (ss_tm st0) r)"
  obtains (failed) e where "res = Inl e" "ss_tm st' = store r th (ss_tm st0)" "ss_dedup st' = ss_dedup st0"
      "ss_meta st' = ss_meta st0" "ss_delivered st' = ss_delivered st0" "ss_appended st' = ss_appended st0"
      "ss_pendingDM st' = filter (\<lambda>p. p \<noteq> mm_portal msg) (ss_pendingDM st0)"
    | (sent) to cc m mime serverID resp st where "res = Inr resp"
      "recipients_of (ml_parse (se_lib env)) (mm_portal msg \<in> set (ss_pendingDM st0)) th (own_addresses ec) = Inr (to, cc)"
      "m = compose_message env ec msg th to cc \<or>
       (\<exists>a. m = compose_message env ec msg th to cc\<lparr>om_Attachments := om_Attachments (compose_message env ec msg th to cc) @ [Some a]\<rparr>)"
      "finish_send env ec msg r m mime (map na_addr (om_To m) @ map na_addr (om_Cc m)) serverID st = (resp, st')"
      "ss_tm st = store r th (ss_tm st0)" "ss_dedup st = ss_dedup st0" "ss_meta st = ss_meta st0"
      "ss_delivered st = ss_delivered st0"
      "ss_pendingDM st = filter (\<lambda>p. p \<noteq> mm_portal msg) (ss_pendingDM st0)"
      "BuildMIME (ml_write (se_lib env)) (ml_now (se_lib env)) (Some m) = Inr mime"
proof -
  note fails = failed and sends = sent
  obtain dm st where c: "consumePortalNextReplyDM (mm_portal msg) (st0\<lparr>ss_tm := store r th (ss_tm st0)\<rparr>) = (dm, st)"
    by fastforce
  note cf = consume_fields [OF c]
  from cf have dm: "dm = (mm_portal msg \<in> set (ss_pendingDM st0))" by simp
  show ?thesis
  proof (cases "recipients_of (ml_parse (se_lib env)) dm th (own_addresses ec)")
    case (Inl e)
    with assms(1) c have "res = Inl e" "st' = st" unfolding th_def
      by (simp_all add: send_in_thread_def Let_def)
    with cf show ?thesis by (intro fails [of e]) simp_all
  next
    case (Inr tc)
    obtain to cc where tc: "tc = (to, cc)" by fastforce
    let ?m = "compose_message env ec msg th to cc"
    have dl: ?thesis if d: "deliver env ec msg r m st = (res, st')"
      and m: "m = ?m \<or> (\<exists>a. m = ?m\<lparr>om_Attachments := om_Attachments ?m @ [Some a]\<rparr>)" for m
      using d
    proof (cases rule: deliver_cases)
      case (failed e)
      with cf show ?thesis by (intro fails [of e]) simp_all
    next
      case (sent mime serverID resp)
      show ?thesis
        by (rule sends [OF sent(1) Inr [unfolded tc dm] m sent(3)]) (use cf sent(2) in simp_all)
    qed
    show ?thesis
    proof (cases "mm_has_media msg")
      case False
      with assms(1) c Inr tc have "deliver env ec msg r ?m st = (res, st')" unfolding th_def
        by (simp add: send_in_thread_def Let_def)
      then show ?thesis by (rule dl) simp
    next
      case True
      show ?thesis
      proof (cases "se_media env")
        case (Inl e)
        with assms(1) c Inr tc True
        have "res = Inl (Err (''download attachment: '' @ error_text e))"
          and "st' = notice ''Send failed'' (''Failed to download attachment: '' @ error_text e) st"
          unfolding th_def by (simp_all add: send_in_thread_def Let_def)
        with cf show ?thesis by (intro fails [of "Err (''download attachment: '' @ error_text e)"]) simp_all
      next
        case media: (Inr a)
        with assms(1) c Inr tc True
        have "deliver env ec msg r (?m\<lparr>om_Attachments := om_Attachments ?m @ [Some a]\<rparr>) st = (res, st')"
          unfolding th_def by (simp add: send_in_thread_def Let_def)
        then show ?thesis by (rule dl) blast
      qed
    qed
  qed
qed

lemma handle_cases:
  assumes "handleMatrixMessageOutbound env ec msg0 st = (res, st')"
  obtains (refused) e where "res = Inl e" "st' = st"
    | (lost) e msg tm1 where "msg0 = Some msg" "res = Inl e" "st' = st\<lparr>ss_tm := tm1\<rparr>"
      "resolveThreadForPortalWithMetadata env (ec_login ec) (mm_portal msg) (ss_meta st (mm_portal msg)) (ss_tm st) = (Inl e, tm1)"
    | (threaded) msg r tm1 where "msg0 = Some msg" "ec_has_sender ec" "mm_replace msg = []"
      "resolveThreadForPortalWithMetadata env (ec_login ec) (mm_portal msg) (ss_meta st (mm_portal msg)) (ss_tm st) = (Inr r, tm1)"
      "send_in_thread env ec msg r (st\<lparr>ss_tm := tm1\<rparr>) = (res, st')"
proof (cases "ec_has_sender ec \<and> (\<exists>msg. msg0 = Some msg \<and> mm_replace msg = [])")
  case False
  with assms have "\<exists>e. res = Inl e \<and> st' = st"
    by (auto simp: handleMatrixMessageOutbound_def split: if_splits option.splits)
  with refused show ?thesis by blast
next
  case True
  then obtain msg where m: "ec_has_sender ec" "msg0 = Some msg" "mm_replace msg = []" by blast
  obtain res1 tm1 where r: "resolveThreadForPortalWithMetadata env (ec_login ec) (mm_portal msg)
      (ss_meta st (mm_portal msg)) (ss_tm st) = (res1, tm1)" by fastforce
  show ?thesis
  proof (cases res1)
    case (Inl e)
    with assms m r have "res = Inl e" "st' = st\<lparr>ss_tm := tm1\<rparr>"
      by (simp_all add: handleMatrixMessageOutbound_def)
    with lost m r Inl show ?thesis by blast
  next
    case (Inr q)
    with assms m r have "send_in_thread env ec msg q (st\<lparr>ss_tm := tm1\<rparr>) = (res, st')"
      by (simp add: handleMatrixMessageOutbound_def)
    with threaded m r Inr show ?thesis by blast
  qed
qed

text \<open>
  C12: an outbound event that fails has delivered nothing, recorded nothing as sent, changed no
  portal metadata and copied nothing to the Sent folder; one that succeeds has delivered exactly
  one email, and the identifier it returns is the key it recorded.
\<close>

theorem send_exactly_once:
  "case handleMatrixMessageOutbound env ec msg st of
     (Inl e, st') \<Rightarrow> ss_delivered st' = ss_delivered st \<and> ss_dedup st' = ss_dedup st \<and>
       ss_meta st' = ss_meta st \<and> ss_appended st' = ss_appended st
   | (Inr (i, sender), st') \<Rightarrow> \<exists>key m mime. i = ''email:'' @ key \<and>
       BuildMIME (ml_write (se_lib env)) (ml_now (se_lib env)) (Some m) = Inr mime \<and>
       ss_delivered st' = ss_delivered st @ [(mime, map na_addr (om_To m) @ map na_addr (om_Cc m))] \<and>
       ss_dedup st' = ss_dedup (record_sent env ec (the msg) key st)"
proof -
  obtain res st' where h: "handleMatrixMessageOutbound env ec msg st = (res, st')" by fastforce
  then show ?thesis
  proof (cases rule: handle_cases)
    case (refused e)
    with h show ?thesis by simp
  next
    case (lost e msg1 tm1)
    with h show ?thesis by simp
  next
    case (threaded msg1 r tm1)
    from threaded(5) show ?thesis
    proof (cases rule: send_in_thread_cases)
      case (failed e)
      with h show ?thesis by simp
    next
      case (sent to cc m mime serverID resp st1)
      note f = finish_send_fields [OF sent(4)]
      have "ss_dedup (record_sent env ec msg1 k st1) = ss_dedup (record_sent env ec msg1 k st)" for k
        using sent(6) by (simp add: record_sent_def)
      with f sent(6,8) threaded(1)
      have "ss_delivered st' = ss_delivered st @ [(mime, map na_addr (om_To m) @ map na_addr (om_Cc m))]"
        and "ss_dedup st' = ss_dedup (record_sent env ec (the msg) (dedup_key_of m serverID) st)"
        by simp_all
      then show ?thesis unfolding h sent(1) f(1) sum.case prod.case
        by (rule_tac x = "dedup_key_of m serverID" in exI, rule_tac x = m in exI, rule_tac x = mime in exI)
          (simp add: sent(10))
    qed
  qed
qed

subsection \<open>What the bridge sent, seen again\<close>

lemma handle_sent_dedup:
  assumes "handleMatrixMessageOutbound env ec (Some msg) st = (Inr (i, sender), st')"
    and "ec_has_dedup ec" and "ec_db ec = DBWorks"
  shows "\<exists>key. i = ''email:'' @ key \<and>
    IsOurMessage DBWorks True (ec_bridge ec) (ec_login ec) key (ss_dedup st') = Inr (key \<noteq> [])"
  using assms(1)
proof (cases rule: handle_cases)
  case (threaded msg1 r tm1)
  from threaded(5) show ?thesis
  proof (cases rule: send_in_thread_cases)
    case (sent to cc m mime serverID resp st1)
    note f = finish_send_fields [OF sent(4)]
    have "i = ''email:'' @ dedup_key_of m serverID" using sent(1) f(1) by simp
    moreover have "IsOurMessage DBWorks True (ec_bridge ec) (ec_login ec) (dedup_key_of m serverID) (ss_dedup st') =
        Inr (dedup_key_of m serverID \<noteq> [])"
      using f(4) assms(2,3) by (simp add: record_sent_def dedup_Record_def IsOurMessage_def dedup_Exists_def update_conv')
    ultimately show ?thesis by blast
  qed simp
qed simp_all

text \<open>
  C14: the echo of a sent email is dropped: when the message the bridge just sent comes back from a
  Sent folder of the same account, under the identifier the send returned, the processor drops it
  and touches no thread.
\<close>

theorem sent_echo_dropped:
  assumes "handleMatrixMessageOutbound env ec (Some msg) st = (Inr (''email:'' @ key, sender), st')"
    and "ec_has_dedup ec" and "ec_db ec = DBWorks"
    and "dedupChecker p = Some (\<lambda>recv mid. IsOurMessage DBWorks True (ec_bridge ec) recv mid (ss_dedup st'))"
    and "isOutboundMessage mailbox" and "pe_MessageID e = key" and "degraded e = None"
  shows "ProcessIMAPMessage env' p (ec_login ec) mailbox (Inr e) tm = (Inr None, tm)"
proof -
  have "IsOurMessage DBWorks True (ec_bridge ec) (ec_login ec) key (ss_dedup st') = Inr (key \<noteq> [])"
    using handle_sent_dedup [OF assms(1-3)] by simp
  moreover have "key \<noteq> []" using assms(6,7) by (auto simp: degraded_def split: if_splits)
  ultimately have "own_echo p (ec_login ec) mailbox e"
    using assms(4-6) by (simp add: own_echo_def)
  with assms(7) show ?thesis by (simp add: ProcessIMAPMessage_def ProcessParsedEmail_def)
qed

subsection \<open>The thread manager under sends\<close>

lemma tm_inv_store:
  assumes "tm_inv tm" and "r \<in> dom (heap tm)" and "ThreadID th = ThreadID (deref tm r)"
    and "set (index_ids (deref tm r)) \<subseteq> set (index_ids th)" and "thread_wf th"
  shows "tm_inv (store r th tm)"
  using assms tm_wf_store by (simp add: tm_inv_def)

lemma tm_inv_alloc:
  assumes "tm_inv tm" and "alloc th tm = (r, tm')" and "thread_wf th"
  shows "tm_inv tm' \<and> r \<in> dom (heap tm')"
proof -
  have "knownThreads tm' = knownThreads tm" using assms(2) by (auto simp: alloc_def)
  with assms tm_wf_alloc [of tm th r tm'] show ?thesis by (simp add: tm_inv_def)
qed

lemma index_ids_draft_subject [simp]: "index_ids (draft_subject msg th) = index_ids th"
  by (simp add: draft_subject_def index_ids_def)

lemma draft_subject_fields [simp]:
  "ThreadID (draft_subject msg th) = ThreadID th" "IsDraft (draft_subject msg th) = IsDraft th"
  by (simp_all add: draft_subject_def)

lemma heap_cacheThread: "dom (heap tm) \<subseteq> dom (heap (cacheThread ord now receiver (Some q) tm))"
  by (auto simp: cacheThread_def Let_def updateMessageIDIndex_def touch_def)

lemma thread_wf_draft_subject [simp]: "thread_wf (draft_subject msg th) = thread_wf th"
  by (simp add: thread_wf_def draft_subject_def)

lemma sent_thread_keeps:
  assumes "thread_wf th"
  shows "ThreadID (sent_thread key th) = ThreadID th" "thread_wf (sent_thread key th)"
    "set (index_ids th) \<subseteq> set (index_ids (sent_thread key th))"
  using assms by (auto simp: sent_thread_def thread_wf_def index_ids_def)

text \<open>The metadata of a portal describe a sound thread.\<close>

definition meta_ok :: "portal_metadata option \<Rightarrow> bool" where
  "meta_ok meta \<longleftrightarrow> (\<forall>pm. meta = Some pm \<longrightarrow> thread_wf (metadata_thread pm))"

lemma meta_of_ok: "thread_wf th \<Longrightarrow> meta_ok (Some (metadata_of th))"
  by (simp add: meta_ok_def metadata_of_def metadata_thread_def thread_wf_def)

lemma tm_inv_resolve:
  assumes inv: "tm_inv tm" and ord: "map_order (se_range env)" and ok: "meta_ok meta"
    and res: "resolveThreadForPortalWithMetadata env login portal meta tm = (out, tm')"
  shows "tm_inv tm' \<and> (\<forall>r. out = Inr r \<longrightarrow> r \<in> dom (heap tm'))"
proof -
  obtain o1 tm1 where r1: "resolveThreadForPortal (se_clock env) login portal tm = (o1, tm1)" by fastforce
  have 1: "tm_inv tm1" "\<And>r. o1 = Inr r \<Longrightarrow> r \<in> dom (heap tm1)"
  proof -
    have "tm_inv tm1 \<and> (\<forall>r. o1 = Inr r \<longrightarrow> r \<in> dom (heap tm1))"
    proof (cases "portal_thread_id portal = []")
      case True
      with r1 inv show ?thesis by (auto simp: resolveThreadForPortal_def)
    next
      case False
      obtain g tm2 where g: "GetThreadByID (se_clock env) login (portal_thread_id portal) tm = (g, tm2)" by fastforce
      have "tm_inv tm2" by (rule tm_inv_get [OF inv g])
      moreover have "\<forall>r. g = Some r \<longrightarrow> r \<in> dom (heap tm2)"
        using tm_wf_get [OF _ g] inv unfolding tm_inv_def by blast
      ultimately show ?thesis
        using r1 g False by (auto simp: resolveThreadForPortal_def Let_def split: option.splits)
    qed
    then show "tm_inv tm1" "\<And>r. o1 = Inr r \<Longrightarrow> r \<in> dom (heap tm1)" by blast+
  qed
  show ?thesis
  proof (cases o1)
    case (Inr q)
    with res r1 1 show ?thesis by (auto simp: resolveThreadForPortalWithMetadata_def)
  next
    case (Inl e)
    show ?thesis
    proof (cases "\<exists>pm. meta = Some pm \<and> pm_ThreadID pm \<noteq> [] \<and> pm_ThreadID pm = portal_thread_id portal")
      case False
      with res r1 Inl 1 show ?thesis
        by (auto simp: resolveThreadForPortalWithMetadata_def Let_def split: option.splits if_splits)
    next
      case True
      then obtain pm where pm: "meta = Some pm" "pm_ThreadID pm \<noteq> []" "pm_ThreadID pm = portal_thread_id portal"
        by blast
      obtain q tm2 where a: "alloc (metadata_thread pm) tm1 = (q, tm2)" by fastforce
      have 2: "tm_inv tm2" "q \<in> dom (heap tm2)"
        using tm_inv_alloc [OF 1(1) a] pm ok by (simp_all add: meta_ok_def)
      have "out = Inr q" "tm' = cacheThread (se_range env) (se_clock env) login (Some q) tm2"
        using res r1 Inl pm a by (auto simp: resolveThreadForPortalWithMetadata_def Let_def)
      with tm_inv_cache [OF 2(1) ord 2(2)] heap_cacheThread 2(2) show ?thesis by blast
    qed
  qed
qed

text \<open>The state the bridge keeps: sound thread tables, sound metadata, one row per sent message.\<close>

definition bridge_inv :: "send_state \<Rightarrow> bool" where
  "bridge_inv st \<longleftrightarrow> tm_inv (ss_tm st) \<and> (\<forall>p. meta_ok (ss_meta st p))"

lemma thread_wf_deref: "tm_inv tm \<Longrightarrow> r \<in> dom (heap tm) \<Longrightarrow> thread_wf (deref tm r)"
  by (simp add: tm_inv_def tm_wfD(6))

lemma bridge_inv_finish:
  assumes "tm_inv (ss_tm st)" and "\<forall>p. meta_ok (ss_meta st p)" and ord: "map_order (se_range env)"
    and r: "r \<in> dom (heap (ss_tm st))"
    and f: "finish_send env ec msg r m mime rcpts serverID st = (resp, st')"
  shows "bridge_inv st'"
proof -
  let ?th = "sent_thread (dedup_key_of m serverID) (deref (ss_tm st) r)"
  note wf = thread_wf_deref [OF assms(1) r]
  have "tm_inv (store r ?th (ss_tm st))"
    by (rule tm_inv_store [OF assms(1) r sent_thread_keeps(1,3,2) [OF wf]])
  then have "tm_inv (ss_tm st')"
    unfolding finish_send_fields(5) [OF f] by (rule tm_inv_cache [OF _ ord]) simp
  moreover have "meta_ok (ss_meta st' p)" for p
    using assms(2) meta_of_ok [OF sent_thread_keeps(2) [OF wf]]
    unfolding finish_send_fields(6) [OF f] by (cases "p = mm_portal msg") simp_all
  ultimately show ?thesis by (simp add: bridge_inv_def)
qed

lemma bridge_inv_send:
  assumes inv: "bridge_inv st" and ord: "map_order (se_range env)"
    and h: "handleMatrixMessageOutbound env ec msg st = (res, st')"
  shows "bridge_inv st'"
  using h
proof (cases rule: handle_cases)
  case (refused e)
  with inv show ?thesis by simp
next
  case (lost e msg1 tm1)
  with inv tm_inv_resolve [OF _ ord _ lost(4)] show ?thesis by (simp add: bridge_inv_def)
next
  case (threaded msg1 r tm1)
  have metas: "\<forall>p. meta_ok (ss_meta st p)" and tm: "tm_inv (ss_tm st)" using inv by (simp_all add: bridge_inv_def)
  note t = tm_inv_resolve [OF tm ord metas [rule_format] threaded(4)]
  let ?th = "draft_subject msg1 (deref tm1 r)"
  have r: "r \<in> dom (heap tm1)" and tm1: "tm_inv tm1" using t by simp_all
  have s: "tm_inv (store r ?th tm1)"
    using thread_wf_deref [OF tm1 r] by (intro tm_inv_store [OF tm1 r]) simp_all
  from threaded(5) show ?thesis
  proof (cases rule: send_in_thread_cases)
    case (failed e)
    with s metas show ?thesis by (simp add: bridge_inv_def)
  next
    case (sent to cc m mime serverID resp st1)
    show ?thesis
      by (rule bridge_inv_finish [OF _ _ ord _ sent(4)]) (use sent s metas r in simp_all)
  qed
qed

end
