(* ===== verification/BridgeRuns.thy ===== *)
theory BridgeRuns
  imports SendFacts
begin

text \<open>
  The bridge as one machine: inbound emails, outbound messages, the DM toggle, room information
  and restarts over the state of \<open>SendFlow\<close>; portal metadata as the memory that survives a restart;
  and the liveness of a send.
\<close>

subsection \<open>Metadata\<close>

lemma metadata_of_metadata_thread [simp]: "metadata_of (metadata_thread pm) = pm"
  by (simp add: metadata_of_def metadata_thread_def)

lemma thread_wf_metadata: "thread_wf (metadata_thread (metadata_of th)) = thread_wf th"
  by (simp add: metadata_of_def metadata_thread_def thread_wf_def)

lemma metadata_eqD:
  assumes "metadata_of th = metadata_of th'"
  shows "ThreadID th = ThreadID th'" "Subject th = Subject th'" "Participants th = Participants th'"
    "References th = References th'" "MessageID th = MessageID th'" "IsDraft th = IsDraft th'"
    "GmailThreadID th = GmailThreadID th'" "LastFrom th = LastFrom th'" "LastTo th = LastTo th'"
    "LastCc th = LastCc th'" "LastDeliveredTo th = LastDeliveredTo th'" "LastDate th = LastDate th'"
    "LastTextBody th = LastTextBody th'" "LastHTMLBody th = LastHTMLBody th'"
  using assms by (simp_all add: metadata_of_def)

lemma recipients_of_cong:
  assumes "metadata_of th = metadata_of th'"
  shows "recipients_of parse dm th selves = recipients_of parse dm th' selves"
  unfolding recipients_of_def resolveDMRecipients_def resolveReplyAllRecipients_def
  by (simp add: metadata_eqD [OF assms])

lemma compose_message_cong:
  assumes "metadata_of th = metadata_of th'"
  shows "compose_message env ec msg th to cc = compose_message env ec msg th' to cc"
proof -
  note m = metadata_eqD [OF assms]
  have "reply_headers msg th = reply_headers msg th'"
    by (simp add: reply_headers_def computeReplyChain_def m split: option.split)
  moreover have "buildOutgoingMessage lib frm name th msg irt refs to cc =
      buildOutgoingMessage lib frm name th' msg irt refs to cc" for lib frm name irt refs
    by (simp add: buildOutgoingMessage_def quoted_text_def quoted_html_def Let_def m)
  moreover have "pickFromAddressFromSlice e as (Some th) sl = pickFromAddressFromSlice e as (Some th') sl" for e as sl
    by (simp add: pickFromAddressFromSlice_def pickFromAddress_def Let_def m split: option.split)
  ultimately show ?thesis by (simp only: compose_message_def m)
qed

lemma GetThreadByID_empty:
  "GetThreadByID now receiver tid (NewThreadManager at) =
     (None, cleanupExpiredThreadsIfNeeded now (NewThreadManager at))"
  "knownThreads (cleanupExpiredThreadsIfNeeded now (NewThreadManager at)) = []"
  by (simp_all add: GetThreadByID_def NewThreadManager_def cleanupExpiredThreadsIfNeeded_def Let_def)

lemma metadata_of_touch [simp]: "metadata_of (th\<lparr>LastAccessed := now\<rparr>) = metadata_of th"
  by (simp add: metadata_of_def)

lemma deref_drop_known [simp]: "deref (fold drop_known ks tm) r = deref tm r"
  by (induction ks arbitrary: tm)
     (auto simp: drop_known_def removeFromMessageIDIndex_def deref_def split: option.split)

lemma deref_cacheThread_metadata:
  "metadata_of (deref (cacheThread ord now receiver (Some q) tm) r) = metadata_of (deref tm r)"
  by (simp add: cacheThread_def Let_def enforce_limit_def evictOldestThreads_def updateMessageIDIndex_def)

lemma restored_from_metadata:
  assumes "ThreadID th \<noteq> []"
  obtains r tm where "resolveThreadForPortalWithMetadata env login (MakePortalID (ThreadID th))
      (Some (metadata_of th)) (NewThreadManager now) = (Inr r, tm)"
    and "metadata_of (deref tm r) = metadata_of th"
proof -
  let ?tm1 = "cleanupExpiredThreadsIfNeeded (se_clock env) (NewThreadManager now)"
  obtain r tm2 where a: "alloc (metadata_thread (metadata_of th)) ?tm1 = (r, tm2)" by fastforce
  then have d: "deref tm2 r = metadata_thread (metadata_of th)" by (auto simp: alloc_def deref_def)
  let ?tm3 = "cacheThread (se_range env) (se_clock env) login (Some r) tm2"
  have id: "portal_thread_id (MakePortalID (ThreadID th)) = ThreadID th" "pm_ThreadID (metadata_of th) = ThreadID th"
    by (simp_all add: portal_thread_id_def MakePortalID_def trim_prefix_def metadata_of_def)
  have "resolveThreadForPortalWithMetadata env login (MakePortalID (ThreadID th)) (Some (metadata_of th))
      (NewThreadManager now) = (Inr r, ?tm3)"
    using assms a id
    by (simp add: resolveThreadForPortalWithMetadata_def resolveThreadForPortal_def GetThreadByID_empty)
  moreover have "metadata_of (deref ?tm3 r) = metadata_of th"
    by (simp add: deref_cacheThread_metadata d)
  ultimately show ?thesis by (rule that)
qed


text \<open>
  Opening the room first breaks this: when room information is requested with an empty cache,
  the thread it restores has lost the last date and both bodies, it stays in the cache, and the
  next reply, although the metadata hold them, quotes nothing.
\<close>

theorem room_info_forgets_quote:
  assumes "pm_ThreadID pm \<noteq> []"
  shows "case chat_info_thread env login (MakePortalID (pm_ThreadID pm)) (Some pm) (NewThreadManager (se_clock env)) of
      (ro, tm) \<Rightarrow> (\<exists>r tm'. ro = Some r \<and>
        resolveThreadForPortalWithMetadata env login (MakePortalID (pm_ThreadID pm)) (Some pm) tm = (Inr r, tm') \<and>
        LastDate (deref tm' r) = None \<and> LastTextBody (deref tm' r) = [] \<and> LastHTMLBody (deref tm' r) = [])"
proof -
  let ?tid = "pm_ThreadID pm" and ?now = "se_clock env" and ?th = "chatinfo_thread pm"
  let ?tm0 = "NewThreadManager ?now"
  have c0: "cleanupExpiredThreadsIfNeeded ?now ?tm0 = ?tm0"
    by (simp add: cleanupExpiredThreadsIfNeeded_def NewThreadManager_def hour_def)
  obtain r tm2 where a: "alloc ?th ?tm0 = (r, tm2)" by fastforce
  then have f: "deref tm2 r = ?th" "knownThreads tm2 = []" "lastCleanup tm2 = ?now"
    by (auto simp: alloc_def deref_def NewThreadManager_def)
  have id: "ThreadID ?th = ?tid" by (simp add: chatinfo_thread_def)
  let ?tm3 = "cacheThread (se_range env) ?now login (Some r) tm2"
  have info: "chat_info_thread env login (MakePortalID ?tid) (Some pm) ?tm0 = (Some r, ?tm3)"
    using assms a by (cases ?tid) (simp_all add: chat_info_thread_def GetThreadByID_empty MakePortalID_def c0)
  have k: "knownThreads ?tm3 = [(scoped login ?tid, r)]" "lastCleanup ?tm3 = ?now"
    using f id assms
    by (simp_all add: cacheThread_def Let_def enforce_limit_def maxCachedThreads_def updateMessageIDIndex_def touch_def)
  have c3: "cleanupExpiredThreadsIfNeeded ?now ?tm3 = ?tm3"
    using k by (simp add: cleanupExpiredThreadsIfNeeded_def hour_def)
  have "GetThreadByID ?now login ?tid ?tm3 = (Some r, touch ?now r ?tm3)"
    using k by (simp add: GetThreadByID_def Let_def c3)
  then have res: "resolveThreadForPortalWithMetadata env login (MakePortalID ?tid) (Some pm) ?tm3 =
      (Inr r, touch ?now r ?tm3)"
    using assms by (simp add: resolveThreadForPortalWithMetadata_def resolveThreadForPortal_def
        portal_thread_id_def MakePortalID_def trim_prefix_def)
  have "metadata_of (deref (touch ?now r ?tm3) r) = metadata_of ?th"
    by (simp add: deref_cacheThread_metadata f)
  then have "LastDate (deref (touch ?now r ?tm3) r) = LastDate ?th"
    "LastTextBody (deref (touch ?now r ?tm3) r) = LastTextBody ?th"
    "LastHTMLBody (deref (touch ?now r ?tm3) r) = LastHTMLBody ?th"
    by (rule metadata_eqD)+
  then have "LastDate (deref (touch ?now r ?tm3) r) = None \<and> LastTextBody (deref (touch ?now r ?tm3) r) = [] \<and>
      LastHTMLBody (deref (touch ?now r ?tm3) r) = []"
    by (simp add: chatinfo_thread_def empty_thread_def)
  with info res show ?thesis by simp
qed

subsection \<open>A send that can go out goes out\<close>

lemma send_succeeds:
  assumes "ec_has_sender ec" and "mm_replace msg = []" and "\<not> mm_has_media msg"
    and "resolveThreadForPortalWithMetadata env (ec_login ec) (mm_portal msg)
           (ss_meta st (mm_portal msg)) (ss_tm st) = (Inr r, tm1)"
    and "recipients_of (ml_parse (se_lib env)) (mm_portal msg \<in> set (ss_pendingDM st))
           (draft_subject msg (deref tm1 r)) (own_addresses ec) = Inr (to, cc)"
    and "\<And>tree. \<exists>mime. ml_write (se_lib env) tree = Inr mime"
    and "\<And>mime from rcpts gtid. se_send env mime from rcpts gtid = Inr serverID" and "serverID \<noteq> []"
  shows "\<exists>st'. handleMatrixMessageOutbound env ec (Some msg) st =
      (Inr (''email:'' @ trim_set angles serverID, EmailToGhostID (ec_Email ec)), st') \<and>
    length (ss_delivered st') = length (ss_delivered st) + 1 \<and>
    mm_portal msg \<notin> set (ss_pendingDM st')"
proof -
  let ?th = "draft_subject msg (deref tm1 r)" and ?st = "st\<lparr>ss_tm := tm1\<rparr>"
  obtain dm st2 where c: "consumePortalNextReplyDM (mm_portal msg) (?st\<lparr>ss_tm := store r ?th tm1\<rparr>) = (dm, st2)"
    by fastforce
  note cf = consume_fields [OF c]
  let ?m = "compose_message env ec msg ?th to cc"
  obtain mime where mime: "BuildMIME (ml_write (se_lib env)) (ml_now (se_lib env)) (Some ?m) = Inr mime"
    using assms(6) by (auto simp: BuildMIME_def)
  obtain resp st' where f: "finish_send env ec msg r ?m mime (map na_addr (om_To ?m) @ map na_addr (om_Cc ?m)) serverID st2
      = (resp, st')" by fastforce
  have "deliver env ec msg r ?m st2 = (Inr resp, st')"
    using mime f assms(7) by (simp add: deliver_def Let_def)
  moreover have "recipients_of (ml_parse (se_lib env)) dm ?th (own_addresses ec) = Inr (to, cc)"
    using cf(7) assms(5) by simp
  ultimately have "send_in_thread env ec msg r ?st = (Inr resp, st')"
    using c assms(3) by (simp add: send_in_thread_def Let_def)
  then have "handleMatrixMessageOutbound env ec (Some msg) st = (Inr resp, st')"
    using assms(1,2,4) by (simp add: handleMatrixMessageOutbound_def)
  moreover have "resp = (''email:'' @ trim_set angles serverID, EmailToGhostID (ec_Email ec))"
    using finish_send_fields(1) [OF f] assms(8) by (simp add: dedup_key_of_def)
  moreover have "length (ss_delivered st') = length (ss_delivered st) + 1"
    using finish_send_fields(2) [OF f] cf(4) by simp
  moreover have "mm_portal msg \<notin> set (ss_pendingDM st')"
    using finish_send_fields(3) [OF f] cf(6) by simp
  ultimately show ?thesis by blast
qed


definition sample_env :: send_env where
  "sample_env = \<lparr>se_lib = \<lparr>ml_parse = bare_parse, ml_date = (\<lambda>_. ''date''), ml_now = 0, ml_nano = 1,
       ml_random = Some ''ab'', ml_sig_text = (\<lambda>s. s), ml_write = (\<lambda>_. Inr ''mime'')\<rparr>,
     se_range = (\<lambda>xs. xs), se_clock = 0, se_send = (\<lambda>_ _ _ _. Inr ''k@x''), se_media = Inl (Err [])\<rparr>"

definition sample_client :: email_client where
  "sample_client = \<lparr>ec_Email = ''me@x.org'', ec_login = ''me'', ec_aliases = [], ec_signature = [],
     ec_has_sender = True, ec_provider = ''gmail'', ec_has_imap = False, ec_has_dedup = True,
     ec_db = DBWorks, ec_bridge = ''b''\<rparr>"

definition sample_msg :: matrix_message where
  "sample_msg = \<lparr>mm_portal = ''thread:m1'', mm_body = ''hello'', mm_is_html = False, mm_formatted = [],
     mm_replyTo = None, mm_replace = [], mm_event = ''e1'', mm_has_media = False\<rparr>"

definition sample_state :: send_state where
  "sample_state = \<lparr>ss_tm = NewThreadManager 0, ss_dedup = [], ss_pendingDM = [],
     ss_meta = [''thread:m1'' \<mapsto> metadata_of (empty_thread\<lparr>ThreadID := ''m1'', LastFrom := ''ann@x.org''\<rparr>)],
     ss_delivered = [], ss_appended = [], ss_notices = []\<rparr>"

lemmas samples = sample_env_def sample_client_def sample_msg_def sample_state_def


lemma sample_resolves:
  "\<exists>r tm1. resolveThreadForPortalWithMetadata sample_env (ec_login sample_client) (mm_portal sample_msg)
      (ss_meta sample_state (mm_portal sample_msg)) (ss_tm sample_state) = (Inr r, tm1) \<and>
    recipients_of (ml_parse (se_lib sample_env)) (mm_portal sample_msg \<in> set (ss_pendingDM sample_state))
      (draft_subject sample_msg (deref tm1 r)) (own_addresses sample_client) =
      Inr ([\<lparr>na_name = [], na_addr = ''ann@x.org''\<rparr>], [])"
proof -
  let ?th = "empty_thread\<lparr>ThreadID := ''m1'', LastFrom := ''ann@x.org''\<rparr>"
  obtain r tm where r: "resolveThreadForPortalWithMetadata sample_env ''me'' (MakePortalID (ThreadID ?th))
      (Some (metadata_of ?th)) (NewThreadManager 0) = (Inr r, tm)" and m: "metadata_of (deref tm r) = metadata_of ?th"
    by (rule restored_from_metadata [of ?th sample_env "''me''" 0]) simp
  have "\<not> IsDraft (deref tm r)" using metadata_eqD(6) [OF m] by (simp add: empty_thread_def)
  then have d: "draft_subject sample_msg (deref tm r) = deref tm r" by (simp add: draft_subject_def)
  have s: "selvesSet [''me@x.org''] = [''me@x.org'']"
    by (simp add: selvesSet_def trim_space_graphic graphic_def to_lower_def lower_char_def)
  have t: "trim_space ''ann@x.org'' = ''ann@x.org''" by (simp add: trim_space_graphic graphic_def)
  have "recipients_of bare_parse False ?th [''me@x.org''] = Inr ([\<lparr>na_name = [], na_addr = ''ann@x.org''\<rparr>], [])"
    by (simp add: recipients_of_def resolveReplyAllRecipients_def s t empty_thread_def parseAddrIfAllowed_def
        bare_parse_def to_lower_def lower_char_def)
  then have "recipients_of bare_parse False (deref tm r) [''me@x.org''] = Inr ([\<lparr>na_name = [], na_addr = ''ann@x.org''\<rparr>], [])"
    by (simp only: recipients_of_cong [OF m])
  moreover have "own_addresses sample_client = [''me@x.org'']"
    by (simp add: own_addresses_def samples to_lower_def lower_char_def)
  ultimately show ?thesis using r d by (simp add: samples MakePortalID_def)
qed


theorem sent_echo_dropped_witness:
  "\<exists>i sender st'. handleMatrixMessageOutbound sample_env sample_client (Some sample_msg) sample_state = (Inr (i, sender), st') \<and>
     ProcessIMAPMessage (plain_env 1)
       \<lparr>dedupChecker = Some (\<lambda>recv mid. IsOurMessage DBWorks True ''b'' recv mid (ss_dedup st')), aliasResolver = None\<rparr>
       ''me'' ''Sent'' (Inr (mail ''k@x'' [] [] ''me@x.org'')) (NewThreadManager 0) = (Inr None, NewThreadManager 0)"
proof -
  obtain r tm1 where "resolveThreadForPortalWithMetadata sample_env (ec_login sample_client) (mm_portal sample_msg)
      (ss_meta sample_state (mm_portal sample_msg)) (ss_tm sample_state) = (Inr r, tm1)"
    and "recipients_of (ml_parse (se_lib sample_env)) (mm_portal sample_msg \<in> set (ss_pendingDM sample_state))
      (draft_subject sample_msg (deref tm1 r)) (own_addresses sample_client) =
      Inr ([\<lparr>na_name = [], na_addr = ''ann@x.org''\<rparr>], [])"
    using sample_resolves by blast
  note d = send_succeeds [OF _ _ _ this, of "''k@x''"]
  have "trim_set angles ''k@x'' = ''k@x''" by code_simp
  with d obtain st' where
    h: "handleMatrixMessageOutbound sample_env sample_client (Some sample_msg) sample_state =
      (Inr (''email:'' @ ''k@x'', EmailToGhostID (ec_Email sample_client)), st')"
    by (auto simp: samples)
  let ?p = "\<lparr>dedupChecker = Some (\<lambda>recv mid. IsOurMessage DBWorks True ''b'' recv mid (ss_dedup st')), aliasResolver = None\<rparr>"
  have "isOutboundMessage ''Sent''"
    by (simp add: isOutboundMessage_def trim_space_graphic graphic_def to_lower_def lower_char_def
        char_of_def bit_iff_odd contains_sub_def)
  moreover have "degraded (mail ''k@x'' [] [] ''me@x.org'') = None"
    by (simp add: degraded_def mail_def trim_space_graphic graphic_def)
  ultimately have "ProcessIMAPMessage (plain_env 1) ?p (ec_login sample_client) ''Sent'' (Inr (mail ''k@x'' [] [] ''me@x.org'')) (NewThreadManager 0)
      = (Inr None, NewThreadManager 0)"
    by (intro sent_echo_dropped [OF h]) (simp_all add: sample_client_def)
  with h show ?thesis by (auto simp: sample_client_def)
qed

text \<open>
  Two things a send leaves behind: its own key stands twice at the end of the References of the next
  reply, and a DM toggle is used up even when the transport then refuses the message, so that
  sending it again writes to everyone.
\<close>

lemma parent_listed_twice:
  assumes "key \<noteq> []"
  shows "computeReplyChain (sent_thread key th) None = (key, References th @ [key, key])"
  using assms by (simp add: computeReplyChain_def sent_thread_def)

lemma failed_send_uses_up_toggle:
  assumes "handleMatrixMessageOutbound env ec (Some msg) st = (Inl e, st')"
    and "send_in_thread env ec msg r (st\<lparr>ss_tm := tm1\<rparr>) = (Inl e, st')"
  shows "mm_portal msg \<notin> set (ss_pendingDM st') \<and> ss_delivered st' = ss_delivered st"
  using assms(2) by (cases rule: send_in_thread_cases) simp_all

subsection \<open>The bridge as a machine\<close>

datatype bridge_event =
    Inbound thread_env gostring gostring "go_error + parsed_email"
  | Outbound send_env "matrix_message option"
  | NextReplyDM gostring
  | RoomInfo send_env gostring
  | DedupCleanup int
  | Restart int

text \<open>
  The processor's dedup checker reads the table the sender writes.  A restart empties the thread
  cache and forgets pending DM toggles; the dedup table and the portal metadata are in the database.
\<close>

definition bridge_processor :: "email_client \<Rightarrow> (gostring \<Rightarrow> gostring list) option \<Rightarrow> send_state \<Rightarrow> processor" where
  "bridge_processor ec aliases st =
     \<lparr>dedupChecker = Some (\<lambda>recv mid. IsOurMessage (ec_db ec) (ec_has_dedup ec) (ec_bridge ec) recv mid (ss_dedup st)),
      aliasResolver = aliases\<rparr>"

fun bridge_step ::
  "email_client \<Rightarrow> (gostring \<Rightarrow> gostring list) option \<Rightarrow> bridge_event \<Rightarrow> send_state \<Rightarrow>
     send_state \<times> go_error option" where
  "bridge_step ec aliases (Inbound env receiver mailbox fetched) st =
     (let (res, tm) = ProcessIMAPMessage env (bridge_processor ec aliases st) receiver mailbox fetched (ss_tm st)
      in (st\<lparr>ss_tm := tm\<rparr>, case res of Inl e \<Rightarrow> Some e | Inr _ \<Rightarrow> None))"
| "bridge_step ec aliases (Outbound env msg) st =
     (let (res, st') = handleMatrixMessageOutbound env ec msg st
      in (st', case res of Inl e \<Rightarrow> Some e | Inr _ \<Rightarrow> None))"
| "bridge_step ec aliases (NextReplyDM portal) st = (MarkPortalNextReplyDM portal st, None)"
| "bridge_step ec aliases (RoomInfo env portal) st =
     (let (r, tm) = chat_info_thread env (ec_login ec) portal (ss_meta st portal) (ss_tm st)
      in (st\<lparr>ss_tm := tm\<rparr>, None))"
| "bridge_step ec aliases (DedupCleanup olderThan) st =
     (st\<lparr>ss_dedup := snd (dedup_Cleanup (ec_db ec) (ec_bridge ec) olderThan (ss_dedup st))\<rparr>, None)"
| "bridge_step ec aliases (Restart now) st =
     (st\<lparr>ss_tm := NewThreadManager now, ss_pendingDM := []\<rparr>, None)"

fun bridge_event_ok :: "bridge_event \<Rightarrow> bool" where
  "bridge_event_ok (Inbound env receiver mailbox fetched) = map_order (range_known env)"
| "bridge_event_ok (Outbound env msg) = map_order (se_range env)"
| "bridge_event_ok (RoomInfo env portal) = map_order (se_range env)"
| "bridge_event_ok ev = True"

definition bridge_sound :: "send_state \<Rightarrow> bool" where
  "bridge_sound st \<longleftrightarrow> bridge_inv st \<and> table_wf (ss_dedup st)"

lemma ProcessParsedEmail_inv:
  assumes "tm_inv tm" and "map_order (range_known env)"
  shows "tm_inv (snd (ProcessParsedEmail env p receiver mailbox parsed tm))"
  using assms tm_inv_incoming
  by (simp add: ProcessParsedEmail_def Let_def case_prod_unfold split: option.split)

lemma ProcessIMAPMessage_inv:
  assumes "tm_inv tm" and "map_order (range_known env)"
  shows "tm_inv (snd (ProcessIMAPMessage env p receiver mailbox fetched tm))"
  using assms ProcessParsedEmail_inv by (simp add: ProcessIMAPMessage_def split: sum.split)

lemma chat_info_inv:
  assumes inv: "tm_inv tm" and ord: "map_order (se_range env)" and ok: "meta_ok meta"
    and c: "chat_info_thread env login portal meta tm = (res, tm')"
  shows "tm_inv tm'"
proof -
  let ?tid = "if 7 < length portal \<and> take 7 portal = ''thread:'' then drop 7 portal else portal"
  obtain g tm1 where g: "GetThreadByID (se_clock env) login ?tid tm = (g, tm1)" by fastforce
  have inv1: "tm_inv tm1" by (rule tm_inv_get [OF inv g])
  show ?thesis
  proof (cases "g = None \<and> (\<exists>pm. meta = Some pm \<and> pm_ThreadID pm = ?tid)")
    case False
    then have "tm' = tm1" using c g
      by (cases g; cases meta) (simp_all only: chat_info_thread_def Let_def option.case prod.case, auto split: if_splits)
    with inv1 show ?thesis by simp
  next
    case True
    then obtain pm where pm: "g = None" "meta = Some pm" "pm_ThreadID pm = ?tid" by blast
    obtain q tm2 where a: "alloc (chatinfo_thread pm) tm1 = (q, tm2)" by fastforce
    have "thread_wf (chatinfo_thread pm)"
      using ok pm(2) by (simp add: meta_ok_def thread_wf_def metadata_thread_def chatinfo_thread_def)
    from tm_inv_alloc [OF inv1 a this] have 2: "tm_inv tm2" "q \<in> dom (heap tm2)" by blast+
    have "tm' = cacheThread (se_range env) (se_clock env) login (Some q) tm2"
      using c pm a unfolding chat_info_thread_def Let_def g by auto
    with tm_inv_cache [OF 2(1) ord 2(2)] show ?thesis by simp
  qed
qed

lemma record_sent_table_wf: "table_wf (ss_dedup st) \<Longrightarrow> table_wf (ss_dedup (record_sent env ec msg key st))"
  by (simp add: record_sent_def dedup_Record_def table_wf_def distinct_update split: db_call.split)

lemma send_table_wf:
  assumes "table_wf (ss_dedup st)" and "handleMatrixMessageOutbound env ec msg st = (res, st')"
  shows "table_wf (ss_dedup st')"
  using assms(2)
proof (cases rule: handle_cases)
  case (threaded msg1 r tm1)
  from threaded(5) show ?thesis
  proof (cases rule: send_in_thread_cases)
    case (sent to cc m mime serverID resp st1)
    have "table_wf (ss_dedup st1)" using sent(6) assms(1) by simp
    then show ?thesis unfolding finish_send_fields(4) [OF sent(4)] by (rule record_sent_table_wf)
  qed (use assms(1) in simp)
qed (use assms(1) in simp_all)

lemma bridge_step_sound:
  assumes s: "bridge_sound st" and ok: "bridge_event_ok ev" and step: "bridge_step ec aliases ev st = (st', out)"
  shows "bridge_sound st'"
proof -
  have parts: "tm_inv (ss_tm st)" "\<forall>p. meta_ok (ss_meta st p)" "table_wf (ss_dedup st)"
    using s by (simp_all add: bridge_sound_def bridge_inv_def)
  show ?thesis
  proof (cases ev)
    case (Inbound env receiver mailbox fetched)
    then have "tm_inv (snd (ProcessIMAPMessage env (bridge_processor ec aliases st) receiver mailbox fetched (ss_tm st)))"
      using ok parts(1) by (intro ProcessIMAPMessage_inv) simp_all
    with Inbound step parts show ?thesis
      by (auto simp: bridge_sound_def bridge_inv_def split: prod.splits)
  next
    case (Outbound env msg)
    obtain res st1 where h: "handleMatrixMessageOutbound env ec msg st = (res, st1)" by fastforce
    with Outbound step ok s bridge_inv_send [OF _ _ h] send_table_wf [OF _ h] show ?thesis
      by (simp add: bridge_sound_def)
  next
    case (RoomInfo env portal)
    obtain r tm where c: "chat_info_thread env (ec_login ec) portal (ss_meta st portal) (ss_tm st) = (r, tm)" by fastforce
    from RoomInfo ok have "tm_inv tm" using parts by (intro chat_info_inv [OF _ _ _ c]) simp_all
    with RoomInfo step c parts show ?thesis by (auto simp: bridge_sound_def bridge_inv_def)
  next
    case (Restart now)
    with step parts tm_inv_init show ?thesis by (auto simp: bridge_sound_def bridge_inv_def)
  next
    case (DedupCleanup lim)
    have "table_wf (snd (dedup_Cleanup (ec_db ec) (ec_bridge ec) lim (ss_dedup st)))"
      using parts(3) by (simp add: dedup_Cleanup_def Let_def table_wf_def distinct_map_filter split: db_call.split)
    with DedupCleanup step parts show ?thesis by (auto simp: bridge_sound_def bridge_inv_def)
  next
    case (NextReplyDM portal)
    with step parts show ?thesis by (auto simp: bridge_sound_def bridge_inv_def MarkPortalNextReplyDM_def)
  qed
qed

interpretation bridge: machine "bridge_step ec aliases" bridge_event_ok bridge_sound for ec aliases
  by unfold_locales (rule bridge_step_sound)

text \<open>
  C16: through any interleaving of inbound emails, outbound messages, room requests, DM toggles,
  clean-ups and restarts the bridge's tables stay sound together: the thread tables as the thread
  manager promises, the dedup table with one row per key, and the metadata of every portal describe
  a thread that can be restored.
\<close>

theorem bridge_stays_sound:
  assumes "bridge_sound st" and "list_all bridge_event_ok es"
  shows "case run_steps (bridge_step ec aliases) es st of
    (st', _) \<Rightarrow> tm_wf (ss_tm st') \<and> length (knownThreads (ss_tm st')) \<le> maxCachedThreads \<and>
      distinct (map fst (ss_dedup st')) \<and> (\<forall>portal pm. ss_meta st' portal = Some pm \<longrightarrow> thread_wf (metadata_thread pm))"
  using bridge.run_inv_fst [OF assms, of ec aliases]
  by (simp add: bridge_sound_def bridge_inv_def tm_inv_def table_wf_def meta_ok_def case_prod_unfold)

theorem bridge_stays_sound_witness:
  "tm_wf (ss_tm (fst (run_steps (bridge_step sample_client None)
     [Inbound (plain_env 1) ''me'' ''INBOX'' (Inr (mail ''m2'' ''m1'' [] ''ann@x.org'')), Outbound sample_env (Some sample_msg),
      RoomInfo sample_env ''thread:m1'', NextReplyDM ''thread:m1'', Restart 5, Outbound sample_env (Some sample_msg)] sample_state)))"
proof -
  have "bridge_sound sample_state"
    by (simp add: bridge_sound_def bridge_inv_def tm_inv_init meta_ok_def thread_wf_metadata table_wf_def sample_state_def)
      (simp add: thread_wf_def empty_thread_def)
  from bridge_stays_sound [OF this, of "[Inbound (plain_env 1) ''me'' ''INBOX'' (Inr (mail ''m2'' ''m1'' [] ''ann@x.org'')),
      Outbound sample_env (Some sample_msg), RoomInfo sample_env ''thread:m1'', NextReplyDM ''thread:m1'', Restart 5,
      Outbound sample_env (Some sample_msg)]" sample_client None]
  show ?thesis
    by (simp only: case_prod_unfold list.pred_inject bridge_event_ok.simps plain_env_def thread_env.simps
        sample_env_def send_env.simps map_order_id simp_thms)
qed

end
