(* ===== verification/ImapMailbox.thy ===== *)
theory ImapMailbox
  imports Breaker "HOL-Library.Word"
begin

text \<open>
  Mailbox synchronisation of \<open>pkg/imap/client.go\<close>: the baseline and backfill at the start of IDLE,
  the search for new messages, and the bookkeeping of UIDs in flight.  UIDs are 32-bit words, as in
  the code.  The server's answers (STATUS, UID SEARCH) are arguments; what is done with one message
  is a state-passing function \<open>process\<close> over a world of its own (\<open>ImapDelivery\<close> provides the real
  one).  \<open>None\<close> as an error is Go's \<open>nil\<close>.
\<close>

type_synonym uid = "32 word"

subsection \<open>The client's part\<close>

record imap_client =
  connected_inbox :: bool
  client_inbox :: bool
  idling :: bool
  lastInboxUID :: uid
  lastSentUID :: uid
  inFlightInbox :: "uid list"
  inFlightSent :: "uid list"
  startupBackfillSeconds :: int
  startupBackfillMax :: int

definition hard_patterns :: "gostring list" where
  "hard_patterns = [''use of closed network connection'', ''connection reset by peer'', ''broken pipe'',
     ''unexpected eof'', ''eof'', ''i/o timeout'', ''operation timed out'', ''cannot read tag'',
     ''connection timed out'']"

definition isHardNetErr :: "go_error option \<Rightarrow> bool" where
  "isHardNetErr err = (case err of None \<Rightarrow> False
     | Some e \<Rightarrow> list_ex (contains_sub (to_lower (error_text e))) hard_patterns)"

definition lastUID :: "bool \<Rightarrow> imap_client \<Rightarrow> uid" where
  "lastUID isSent c = (if isSent then lastSentUID c else lastInboxUID c)"

definition setLastUID :: "bool \<Rightarrow> uid \<Rightarrow> imap_client \<Rightarrow> imap_client" where
  "setLastUID isSent u c = (if isSent then c\<lparr>lastSentUID := u\<rparr> else c\<lparr>lastInboxUID := u\<rparr>)"

text \<open>The clean-up after a hard network error: the INBOX handle, whatever mailbox was being read.\<close>

definition dropConnection :: "imap_client \<Rightarrow> imap_client" where
  "dropConnection c = c\<lparr>client_inbox := False, connected_inbox := False, idling := False\<rparr>"

definition drop_if_hard :: "go_error \<Rightarrow> imap_client \<Rightarrow> imap_client" where
  "drop_if_hard e c = (if isHardNetErr (Some e) then dropConnection c else c)"

subsection \<open>UIDs in flight\<close>

definition inFlight :: "bool \<Rightarrow> imap_client \<Rightarrow> uid list" where
  "inFlight isSent c = (if isSent then inFlightSent c else inFlightInbox c)"

definition setInFlight :: "bool \<Rightarrow> uid list \<Rightarrow> imap_client \<Rightarrow> imap_client" where
  "setInFlight isSent us c = (if isSent then c\<lparr>inFlightSent := us\<rparr> else c\<lparr>inFlightInbox := us\<rparr>)"

definition startUID :: "uid \<Rightarrow> bool \<Rightarrow> imap_client \<Rightarrow> bool \<times> imap_client" where
  "startUID u isSent c =
     (if u \<in> set (inFlight isSent c) then (False, c)
      else (True, setInFlight isSent (u # inFlight isSent c) c))"

definition endUID :: "uid \<Rightarrow> bool \<Rightarrow> imap_client \<Rightarrow> imap_client" where
  "endUID u isSent c = setInFlight isSent (filter (\<lambda>v. v \<noteq> u) (inFlight isSent c)) c"

subsection \<open>The server's answers\<close>

text \<open>
  \<open>answer_search lo since\<close> answers \<open>UID SEARCH UID lo:*\<close>, with the \<open>SINCE\<close> criterion when there
  is one (in nanoseconds); \<open>answer_late\<close> says that it comes after the command timeout, for the one
  caller that waits with a timeout.
\<close>

record mail_answers =
  answer_select :: "go_error option"
  answer_status :: "go_error + uid"
  answer_search :: "uid \<Rightarrow> int option \<Rightarrow> go_error + uid list"
  answer_late :: bool
  answer_now :: int

subsection \<open>Checking for new messages\<close>

fun process_uids ::
  "(uid \<Rightarrow> 'w \<Rightarrow> go_error option \<times> 'w) \<Rightarrow> bool \<Rightarrow> uid list \<Rightarrow> imap_client \<Rightarrow> 'w \<Rightarrow>
     (uid \<times> go_error) list \<times> imap_client \<times> 'w" where
  "process_uids process isSent [] c w = ([], c, w)"
| "process_uids process isSent (u # us) c w =
     (case startUID u isSent c of
        (False, c1) \<Rightarrow> process_uids process isSent us c1 w
      | (True, c1) \<Rightarrow>
          (let (err, w1) = process u w;
               (errs, c2, w2) = process_uids process isSent us (endUID u isSent c1) w1
           in ((case err of Some e \<Rightarrow> (u, e) # errs | None \<Rightarrow> errs), c2, w2)))"

definition checkNewMessagesFor ::
  "(uid \<Rightarrow> 'w \<Rightarrow> go_error option \<times> 'w) \<Rightarrow> mail_answers \<Rightarrow> bool \<Rightarrow> gostring \<Rightarrow> bool \<Rightarrow> imap_client \<Rightarrow> 'w \<Rightarrow>
     go_error option \<times> imap_client \<times> 'w" where
  "checkNewMessagesFor process ans has_cli mailbox isSent c w =
     (if \<not> has_cli then (Some (Err (''imap client unavailable for '' @ mailbox)), c, w)
      else let last = lastUID isSent c in
        if last = 0 then
          (case answer_status ans of
             Inl e \<Rightarrow> (Some (Errorf ''failed to get INBOX status'' e), drop_if_hard e c, w)
           | Inr uidNext \<Rightarrow> (None, setLastUID isSent (uidNext - 1) c, w))
        else
          (if answer_late ans then (Some (Err ''IMAP search timed out after 45s''), c, w)
           else case answer_search ans (last + 1) None of
             Inl e \<Rightarrow> (Some (Errorf ''failed to search for new messages'' e), drop_if_hard e c, w)
           | Inr found \<Rightarrow>
               (let new = filter (\<lambda>u. last < u) found in
                if new = [] then (None, c, w)
                else let highest = fold max (tl new) (hd new);
                         (errs, c2, w2) = process_uids process isSent new (setLastUID isSent highest c) w
                     in (None, c2, w2))))"

subsection \<open>Baseline and backfill\<close>

fun backfill_uids ::
  "(uid \<Rightarrow> 'w \<Rightarrow> go_error option \<times> 'w) \<Rightarrow> uid \<Rightarrow> uid list \<Rightarrow> uid \<Rightarrow> 'w \<Rightarrow> uid \<times> 'w" where
  "backfill_uids process baseline [] highest w = (highest, w)"
| "backfill_uids process baseline (u # us) highest w =
     (if u \<le> baseline then backfill_uids process baseline us highest w
      else case process u w of
        (Some e, w1) \<Rightarrow> backfill_uids process baseline us highest w1
      | (None, w1) \<Rightarrow> backfill_uids process baseline us (max highest u) w1)"

definition keep_last :: "int \<Rightarrow> 'a list \<Rightarrow> 'a list" where
  "keep_last n xs = (if int (length xs) > n then drop (length xs - nat n) xs else xs)"

definition primeBaselineAndBackfillFor ::
  "(uid \<Rightarrow> 'w \<Rightarrow> go_error option \<times> 'w) \<Rightarrow> mail_answers \<Rightarrow> bool \<Rightarrow> bool \<Rightarrow> imap_client \<Rightarrow> 'w \<Rightarrow>
     go_error option \<times> imap_client \<times> 'w" where
  "primeBaselineAndBackfillFor process ans has_cli isSent c w =
     (if \<not> has_cli then (Some (Err ''IMAP client not available during primeBaselineAndBackfill''), c, w)
      else case answer_select ans of
        Some e \<Rightarrow> (Some (Errorf ''failed to select INBOX during prime'' e), c, w)
      | None \<Rightarrow>
          (case answer_status ans of
             Inl e \<Rightarrow> (Some (Errorf ''failed to get INBOX status during prime'' e), c, w)
           | Inr uidNext \<Rightarrow>
               (let baseline = uidNext - 1; c1 = setLastUID isSent baseline c in
                if startupBackfillSeconds c \<le> 0 \<or> startupBackfillMax c \<le> 0 then (None, c1, w)
                else case answer_search ans (baseline + 1)
                            (Some (answer_now ans - startupBackfillSeconds c * 1000000000)) of
                  Inl e \<Rightarrow> (Some (Errorf ''startup backfill search failed'' e), c1, w)
                | Inr found \<Rightarrow>
                    (if found = [] then (None, c1, w)
                     else let (highest, w1) = backfill_uids process baseline
                                (keep_last (startupBackfillMax c) found) baseline w
                          in (None, if baseline < highest then setLastUID isSent highest c1 else c1, w1)))))"

end
