(* ===== verification/ImapSync.thy ===== *)
theory ImapSync
  imports ImapMailbox "HOL-Library.Sublist"
begin

text \<open>
  What mailbox synchronisation guarantees against a server that answers as IMAP documents: rounds
  of checks process every later message once and in order; and the messages it never reaches.
\<close>

subsection \<open>A server that behaves as documented\<close>

text \<open>
  The mailbox holds its UIDs in ascending order.  \<open>UID n:*\<close> always includes the last message, even
  below \<open>n\<close>; UIDNEXT lies above every UID present; SINCE only narrows a search.
\<close>

definition uid_range :: "uid list \<Rightarrow> uid \<Rightarrow> uid list" where
  "uid_range mb lo =
     (if \<exists>u \<in> set mb. lo \<le> u then filter (\<lambda>u. lo \<le> u) mb else if mb = [] then [] else [last mb])"

definition serves :: "mail_answers \<Rightarrow> uid list \<Rightarrow> bool" where
  "serves ans mb \<longleftrightarrow> answer_select ans = None \<and> \<not> answer_late ans \<and>
     (\<exists>n. answer_status ans = Inr n \<and> 0 < n \<and> (\<forall>u \<in> set mb. u < n)) \<and>
     (\<forall>lo. answer_search ans lo None = Inr (uid_range mb lo)) \<and>
     (\<forall>lo since. \<exists>xs. answer_search ans lo (Some since) = Inr xs \<and> set xs \<subseteq> set (uid_range mb lo))"

text \<open>A server of this kind, over a given mailbox.\<close>

definition plain_answers :: "uid list \<Rightarrow> mail_answers" where
  "plain_answers mb = \<lparr>answer_select = None,
     answer_status = Inr (if mb = [] then 1 else last mb + 1),
     answer_search = (\<lambda>lo since. Inr (uid_range mb lo)), answer_late = False, answer_now = 0\<rparr>"

definition mailbox_ok :: "uid list \<Rightarrow> bool" where
  "mailbox_ok mb \<longleftrightarrow> sorted_wrt (<) mb \<and> 0 \<notin> set mb \<and> - 1 \<notin> set mb"

lemma word_less_succ: "u \<noteq> - 1 \<Longrightarrow> u < u + (1::uid)"
proof -
  assume "u \<noteq> - 1"
  then have "1 + u \<noteq> 0" by (metis add.commute eq_neg_iff_add_eq_0)
  then have "unat (1 + u) = Suc (unat u)" by (rule unatSuc)
  then show ?thesis by (simp add: word_less_nat_alt add.commute)
qed

lemma word_succ_le: "u \<noteq> - 1 \<Longrightarrow> u + 1 \<le> v \<longleftrightarrow> u < (v::uid)"
  using word_less_succ [of u] by (metis inc_le order.strict_trans2)

lemma sorted_wrt_last: "sorted_wrt (<) mb \<Longrightarrow> u \<in> set mb \<Longrightarrow> u \<le> (last mb :: uid)"
  by (induction mb rule: rev_induct) (auto simp: sorted_wrt_append)

lemma plain_serves: "mailbox_ok mb \<Longrightarrow> serves (plain_answers mb) mb"
proof -
  assume mb: "mailbox_ok mb"
  have "\<exists>n. answer_status (plain_answers mb) = Inr n \<and> 0 < n \<and> (\<forall>u \<in> set mb. u < n)"
  proof (cases "mb = []")
    case True
    then show ?thesis by (simp add: plain_answers_def)
  next
    case False
    then have "last mb \<in> set mb" by simp
    with mb have m: "last mb \<noteq> - 1" by (auto simp: mailbox_ok_def)
    have le: "u \<le> last mb" if "u \<in> set mb" for u using mb that by (simp add: mailbox_ok_def sorted_wrt_last)
    have "last mb < last mb + 1" by (rule word_less_succ [OF m])
    then have "0 < last mb + 1" "\<forall>u \<in> set mb. u < last mb + 1"
      using le by (auto intro: order.strict_trans1 word_gt_0 [THEN iffD2])
    with False show ?thesis by (simp add: plain_answers_def)
  qed
  then show ?thesis by (auto simp: serves_def plain_answers_def)
qed

subsection \<open>One check\<close>

lemma uid_range_above:
  assumes "sorted_wrt (<) mb" and "u \<noteq> - 1"
  shows "filter (\<lambda>v. u < v) (uid_range mb (u + 1)) = filter (\<lambda>v. u < v) mb"
proof (cases "\<exists>v \<in> set mb. u < v")
  case True
  then show ?thesis using assms(2) by (auto simp: uid_range_def word_succ_le intro!: filter_cong)
next
  case False
  then have "filter (\<lambda>v. u < v) mb = []" by (simp add: filter_empty_conv)
  with False assms(2) show ?thesis by (auto simp: uid_range_def word_succ_le)
qed

definition attempt_all :: "(uid \<Rightarrow> 'w \<Rightarrow> go_error option \<times> 'w) \<Rightarrow> uid list \<Rightarrow> 'w \<Rightarrow> 'w" where
  "attempt_all process us w = foldl (\<lambda>w u. snd (process u w)) w us"

lemma setInFlight_fields [simp]:
  "lastUID b (setInFlight s us c) = lastUID b c" "inFlight s (setInFlight s us c) = us"
  "lastUID s (setLastUID s u c) = u" "inFlight b (setLastUID s u c) = inFlight b c"
  by (simp_all add: lastUID_def setInFlight_def inFlight_def setLastUID_def)

lemma process_uids_all:
  assumes "inFlight isSent c = []"
  shows "\<exists>errs c'. process_uids process isSent us c w = (errs, c', attempt_all process us w) \<and>
    lastUID isSent c' = lastUID isSent c \<and> inFlight isSent c' = []"
  using assms
proof (induction us arbitrary: c w)
  case Nil
  then show ?case by (simp add: attempt_all_def)
next
  case (Cons u us)
  let ?c = "endUID u isSent (setInFlight isSent [u] c)"
  have "inFlight isSent ?c = []" "lastUID isSent ?c = lastUID isSent c" by (simp_all add: endUID_def)
  with Cons.IH [of ?c "snd (process u w)"] obtain errs c' where
    "process_uids process isSent us ?c (snd (process u w)) = (errs, c', attempt_all process us (snd (process u w)))"
    "lastUID isSent c' = lastUID isSent c" "inFlight isSent c' = []" by auto
  with Cons.prems show ?case
    by (simp add: startUID_def attempt_all_def case_prod_unfold Let_def)
qed

lemma fold_max_sorted: "sorted_wrt (<) (u # us) \<Longrightarrow> fold max us u = last (u # (us :: uid list))"
proof (induction us arbitrary: u)
  case (Cons v us)
  then have "max v u = v" and "sorted_wrt (<) (v # us)" by (auto simp: max_def)
  with Cons.IH [of v] show ?case by (simp del: sorted_wrt.simps)
qed simp

lemma check_step:
  assumes "serves ans mb" and mb: "mailbox_ok mb" and idle: "inFlight isSent c = []"
    and last: "lastUID isSent c \<noteq> 0" "lastUID isSent c \<noteq> - 1"
  shows "\<exists>c'. checkNewMessagesFor process ans True mailbox isSent c w =
      (None, c', attempt_all process (filter (\<lambda>u. lastUID isSent c < u) mb) w) \<and>
    inFlight isSent c' = [] \<and>
    lastUID isSent c' = (let new = filter (\<lambda>u. lastUID isSent c < u) mb in if new = [] then lastUID isSent c else List.last new)"
proof -
  let ?l = "lastUID isSent c"
  let ?new = "filter (\<lambda>u. ?l < u) mb"
  have f: "filter (\<lambda>u. ?l < u) (uid_range mb (?l + 1)) = ?new"
    using mb last(2) by (intro uid_range_above) (simp add: mailbox_ok_def)
  have ans: "\<not> answer_late ans" "answer_search ans (?l + 1) None = Inr (uid_range mb (?l + 1))"
    using assms(1) by (auto simp: serves_def)
  show ?thesis
  proof (cases "?new = []")
    case True
    with ans last idle f show ?thesis
      by (simp add: checkNewMessagesFor_def Let_def attempt_all_def)
  next
    case False
    have "sorted_wrt (<) ?new" using mb by (simp add: mailbox_ok_def sorted_wrt_filter)
    with False have h: "fold max (tl ?new) (hd ?new) = List.last ?new"
      using fold_max_sorted [of "hd ?new" "tl ?new"] by simp
    obtain errs c' where p: "process_uids process isSent ?new (setLastUID isSent (List.last ?new) c) w
        = (errs, c', attempt_all process ?new w)"
      and c': "lastUID isSent c' = List.last ?new" "inFlight isSent c' = []"
      using process_uids_all [of isSent "setLastUID isSent (List.last ?new) c" process ?new w] idle by auto
    have "checkNewMessagesFor process ans True mailbox isSent c w = (None, c', attempt_all process ?new w)"
      using ans last(1) False p unfolding checkNewMessagesFor_def Let_def by (simp add: f h)
    with c' False show ?thesis by simp
  qed
qed

subsection \<open>Rounds of checks\<close>

text \<open>Checks against a mailbox that grows between them.\<close>

fun check_rounds ::
  "(uid \<Rightarrow> 'w \<Rightarrow> go_error option \<times> 'w) \<Rightarrow> gostring \<Rightarrow> bool \<Rightarrow> mail_answers list \<Rightarrow> imap_client \<Rightarrow> 'w \<Rightarrow>
     imap_client \<times> 'w" where
  "check_rounds process mailbox isSent [] c w = (c, w)"
| "check_rounds process mailbox isSent (ans # rest) c w =
     (case checkNewMessagesFor process ans True mailbox isSent c w of
        (err, c', w') \<Rightarrow> check_rounds process mailbox isSent rest c' w')"

lemma last_new:
  assumes "sorted_wrt (<) mb" and "filter (\<lambda>u. l < u) mb \<noteq> []"
  shows "List.last (filter (\<lambda>u. l < u) mb) \<in> set mb" "l < List.last (filter (\<lambda>u. l < u) mb)"
    "\<forall>u \<in> set mb. u \<le> List.last (filter (\<lambda>u. l < (u::uid)) mb)"
proof -
  let ?f = "filter (\<lambda>u. l < u) mb"
  have m: "List.last ?f \<in> set ?f" using assms(2) by (rule last_in_set)
  then show 1: "List.last ?f \<in> set mb" "l < List.last ?f" by auto
  show "\<forall>u \<in> set mb. u \<le> List.last ?f"
  proof
    fix u assume u: "u \<in> set mb"
    have s: "sorted_wrt (<) ?f" using assms(1) by (rule sorted_wrt_filter)
    show "u \<le> List.last ?f"
    proof (cases "l < u")
      case True
      then have "u \<in> set ?f" using u by simp
      with s show ?thesis by (rule sorted_wrt_last)
    next
      case False
      then show ?thesis using 1(2) by simp
    qed
  qed
qed

lemma sorted_above_prefix:
  assumes "sorted_wrt (<) (xs @ ys)" and "List.last xs \<in> set xs" and "x = List.last xs"
  shows "filter (\<lambda>u. x < (u::uid)) (xs @ ys) = ys"
proof -
  have "filter (\<lambda>u. x < u) xs = []"
    using assms sorted_wrt_last [of xs] by (auto simp: filter_empty_conv sorted_wrt_append not_less)
  moreover have "filter (\<lambda>u. x < u) ys = ys"
    using assms by (auto simp: filter_id_conv sorted_wrt_append)
  ultimately show ?thesis by simp
qed

lemma attempt_all_append: "attempt_all process (us @ vs) w = attempt_all process vs (attempt_all process us w)"
  by (simp add: attempt_all_def)

lemma filter_split_at:
  assumes "sorted_wrt (<) (mb :: uid list)" and "prefix mb0 mb" and "l \<noteq> l' \<longrightarrow> l' \<in> set mb0"
    and "l' = (let new = filter (\<lambda>u. l < u) mb0 in if new = [] then l else List.last new)"
  shows "filter (\<lambda>u. l < u) mb = filter (\<lambda>u. l < u) mb0 @ filter (\<lambda>u. l' < u) mb"
proof -
  obtain ys where mb: "mb = mb0 @ ys" using assms(2) by (auto simp: prefix_def)
  have s0: "sorted_wrt (<) mb0" using assms(1) mb by (simp add: sorted_wrt_append)
  show ?thesis
  proof (cases "filter (\<lambda>u. l < u) mb0 = []")
    case True
    with assms(4) show ?thesis by simp
  next
    case False
    let ?x = "List.last (filter (\<lambda>u. l < u) mb0)"
    have l': "l' = ?x" using assms(4) False by (simp add: Let_def)
    note n = last_new [OF s0 False]
    have "filter (\<lambda>u. ?x < u) mb0 = []" using n(3) by (auto simp: filter_empty_conv not_less)
    moreover have above: "?x < u" if "u \<in> set ys" for u
      using assms(1) n(1) that by (auto simp: mb sorted_wrt_append)
    moreover have "filter (\<lambda>u. l < u) ys = ys"
      using above n(2) by (auto simp: filter_id_conv intro: order.strict_trans)
    moreover have "filter (\<lambda>u. ?x < u) ys = ys" using above by (simp add: filter_id_conv)
    ultimately show ?thesis by (simp add: mb l')
  qed
qed

text \<open>
  C17: rounds of checks lose nothing and repeat nothing: against a server that answers as
  documented over a growing mailbox, a client whose last UID is set attempts every message above it
  exactly once and in mailbox order, whatever becomes of each attempt, and nothing else.
\<close>

theorem checks_attempt_each_once:
  assumes "list_all2 serves answers mbs" and "list_all mailbox_ok mbs"
    and "sorted_wrt prefix mbs" and "mbs \<noteq> []"
    and "lastUID isSent c \<noteq> 0" and "lastUID isSent c \<noteq> - 1" and "inFlight isSent c = []"
  shows "snd (check_rounds process mailbox isSent answers c w) =
    attempt_all process (filter (\<lambda>u. lastUID isSent c < u) (List.last mbs)) w"
  using assms
proof (induction answers arbitrary: mbs c w)
  case (Cons ans answers)
  then obtain mb rest where mbs: "mbs = mb # rest" "serves ans mb" "list_all2 serves answers rest"
    by (auto simp: list_all2_Cons1)
  let ?l = "lastUID isSent c" and ?new = "filter (\<lambda>u. lastUID isSent c < u) mb"
  have mb: "mailbox_ok mb" using Cons.prems mbs by simp
  obtain c' where step: "checkNewMessagesFor process ans True mailbox isSent c w = (None, c', attempt_all process ?new w)"
    and idle: "inFlight isSent c' = []"
    and l': "lastUID isSent c' = (let new = ?new in if new = [] then ?l else List.last new)"
    using check_step [OF mbs(2) mb Cons.prems(7,5,6), of process mailbox w] by (elim exE conjE)
  have l'_in: "?l \<noteq> lastUID isSent c' \<longrightarrow> lastUID isSent c' \<in> set mb"
    using l' last_new(1) [of mb ?l] mb by (auto simp: Let_def mailbox_ok_def split: if_splits)
  have ok': "lastUID isSent c' \<noteq> 0" "lastUID isSent c' \<noteq> - 1"
    using l'_in Cons.prems(5,6) mb by (auto simp: mailbox_ok_def)
  show ?case
  proof (cases "rest = []")
    case True
    with mbs step show ?thesis by simp
  next
    case False
    have "snd (check_rounds process mailbox isSent answers c' (attempt_all process ?new w)) =
        attempt_all process (filter (\<lambda>u. lastUID isSent c' < u) (List.last rest)) (attempt_all process ?new w)"
      using Cons.prems mbs False ok' idle by (intro Cons.IH) auto
    moreover have "filter (\<lambda>u. ?l < u) (List.last rest) = ?new @ filter (\<lambda>u. lastUID isSent c' < u) (List.last rest)"
    proof (rule filter_split_at [OF _ _ l'_in l'])
      have "List.last rest \<in> set rest" using False by simp
      then show "sorted_wrt (<) (List.last rest)" "prefix mb (List.last rest)"
        using Cons.prems(2,3) mbs(1) by (auto simp: list_all_iff mailbox_ok_def)
    qed
    ultimately show ?thesis using mbs step False by (simp add: attempt_all_append)
  qed
qed simp

text \<open>The attempts themselves as the world: what was attempted, in order.\<close>

definition log_attempt :: "uid \<Rightarrow> uid list \<Rightarrow> go_error option \<times> uid list" where
  "log_attempt u w = (None, w @ [u])"

lemma attempt_all_log: "attempt_all log_attempt us w = w @ us"
  unfolding attempt_all_def by (induction us arbitrary: w) (simp_all add: log_attempt_def)

definition fresh_client :: imap_client where
  "fresh_client = \<lparr>connected_inbox = True, client_inbox = True, idling = False, lastInboxUID = 0, lastSentUID = 0,
     inFlightInbox = [], inFlightSent = [], startupBackfillSeconds = 180, startupBackfillMax = 25\<rparr>"

theorem checks_attempt_each_once_witness:
  "snd (check_rounds log_attempt ''INBOX'' False [plain_answers [3, 5], plain_answers [3, 5, 6, 9], plain_answers [3, 5, 6, 9]]
     (fresh_client\<lparr>lastInboxUID := 3\<rparr>) []) = [5, 6, 9]"
proof -
  have ok: "mailbox_ok [3, 5]" "mailbox_ok [3, 5, 6, 9]" by (simp_all add: mailbox_ok_def)
  have "snd (check_rounds log_attempt ''INBOX'' False [plain_answers [3, 5], plain_answers [3, 5, 6, 9], plain_answers [3, 5, 6, 9]]
      (fresh_client\<lparr>lastInboxUID := 3\<rparr>) []) =
      attempt_all log_attempt (filter (\<lambda>u. lastUID False (fresh_client\<lparr>lastInboxUID := 3\<rparr>) < u)
        (List.last [[3, 5], [3, 5, 6, 9], [3, 5, 6, 9]])) []"
    by (rule checks_attempt_each_once)
      (simp_all add: ok plain_serves fresh_client_def lastUID_def inFlight_def)
  then show ?thesis by (simp add: attempt_all_log fresh_client_def lastUID_def)
qed

subsection \<open>What is never reached\<close>

lemma serves_status:
  assumes "serves ans mb"
  obtains n where "answer_status ans = Inr n" "n - 1 \<noteq> - 1" "\<And>u. u \<in> set mb \<Longrightarrow> u \<le> n - 1"
proof -
  obtain n where n: "answer_status ans = Inr n" "0 < n" "\<forall>u \<in> set mb. u < n"
    using assms by (auto simp: serves_def)
  have "n - 1 \<noteq> - 1" using n(2) by auto
  moreover have "u \<le> n - 1" if "u \<in> set mb" for u
    using n(3) that word_succ_le [OF \<open>n - 1 \<noteq> - 1\<close>, of u] by (metis diff_add_cancel linorder_not_le)
  ultimately show ?thesis using that n(1) by blast
qed

text \<open>Whatever the last UID is, even 0, rounds of checks attempt only what lies above it.\<close>

lemma rounds_attempt_above:
  assumes "list_all2 serves answers mbs" and "list_all mailbox_ok mbs"
    and "lastUID isSent c \<noteq> - 1" and "inFlight isSent c = []"
  shows "\<exists>us. snd (check_rounds process mailbox isSent answers c w) = attempt_all process us w \<and>
    (\<forall>u \<in> set us. lastUID isSent c < u)"
  using assms
proof (induction answers arbitrary: mbs c w)
  case Nil
  have "attempt_all process [] w = w" by (simp add: attempt_all_def)
  then show ?case by (metis check_rounds.simps(1) empty_iff list.set(1) snd_conv)
next
  case (Cons ans answers)
  then obtain mb rest where mbs: "mbs = mb # rest" "serves ans mb" "list_all2 serves answers rest"
    by (auto simp: list_all2_Cons1)
  have mb: "mailbox_ok mb" "list_all mailbox_ok rest" using Cons.prems mbs by simp_all
  show ?case
  proof (cases "lastUID isSent c = 0")
    case True
    obtain n where n: "answer_status ans = Inr n" "n - 1 \<noteq> - 1" by (rule serves_status [OF mbs(2)])
    let ?c = "setLastUID isSent (n - 1) c"
    have step: "checkNewMessagesFor process ans True mailbox isSent c w = (None, ?c, w)"
      using True n by (simp add: checkNewMessagesFor_def)
    obtain us where us: "snd (check_rounds process mailbox isSent answers ?c w) = attempt_all process us w"
      and above: "\<forall>u \<in> set us. lastUID isSent ?c < u"
      using Cons.IH [OF mbs(3) mb(2), of ?c w] n Cons.prems(4) by (auto simp: setInFlight_fields)
    have "\<forall>u \<in> set us. 0 < u"
    proof
      fix u assume "u \<in> set us"
      then have "lastUID isSent ?c < u" using above by simp
      moreover have "0 \<le> lastUID isSent ?c" by simp
      ultimately show "0 < u" by (rule order.strict_trans1 [rotated])
    qed
    with us step True show ?thesis by auto
  next
    case False
    obtain c' where step: "checkNewMessagesFor process ans True mailbox isSent c w =
        (None, c', attempt_all process (filter (\<lambda>u. lastUID isSent c < u) mb) w)"
      and idle: "inFlight isSent c' = []"
      and l': "lastUID isSent c' = (let new = filter (\<lambda>u. lastUID isSent c < u) mb in
        if new = [] then lastUID isSent c else List.last new)"
      using check_step [OF mbs(2) mb(1) Cons.prems(4) False Cons.prems(3), of process mailbox w]
      by (elim exE conjE)
    let ?new = "filter (\<lambda>u. lastUID isSent c < u) mb"
    have le: "lastUID isSent c \<le> lastUID isSent c'"
      using l' last_new(2) [of mb "lastUID isSent c"] mb(1) by (auto simp: mailbox_ok_def Let_def split: if_splits)
    have ok: "lastUID isSent c' \<noteq> - 1"
      using l' last_new(1) [of mb "lastUID isSent c"] mb(1) Cons.prems(3)
      by (auto simp: mailbox_ok_def Let_def split: if_splits)
    obtain us where us: "snd (check_rounds process mailbox isSent answers c' (attempt_all process ?new w)) =
        attempt_all process us (attempt_all process ?new w)"
      and above: "\<forall>u \<in> set us. lastUID isSent c' < u"
      using Cons.IH [OF mbs(3) mb(2) ok idle, of "attempt_all process ?new w"] by (elim exE conjE)
    have "snd (check_rounds process mailbox isSent (ans # answers) c w) = attempt_all process (?new @ us) w"
      using us step by (simp add: attempt_all_append)
    moreover have "\<forall>u \<in> set (?new @ us). lastUID isSent c < u" using above le by auto
    ultimately show ?thesis by blast
  qed
qed

lemma backfill_below:
  "\<forall>u \<in> set us. u \<le> baseline \<Longrightarrow> backfill_uids process baseline us highest w = (highest, w)"
  by (induction us) simp_all

lemma prime_serves:
  assumes "serves ans mb" and "mailbox_ok mb"
  shows "\<exists>n. primeBaselineAndBackfillFor process ans True isSent c w = (None, setLastUID isSent (n - 1) c, w) \<and>
    n - 1 \<noteq> - 1 \<and> (\<forall>u \<in> set mb. u \<le> n - 1)"
proof -
  obtain n where n: "answer_status ans = Inr n" "n - 1 \<noteq> - 1" "\<And>u. u \<in> set mb \<Longrightarrow> u \<le> n - 1"
    by (rule serves_status [OF assms(1)]) blast
  have sub: "set (uid_range mb lo) \<subseteq> set mb" for lo by (auto simp: uid_range_def)
  let ?since = "Some (answer_now ans - startupBackfillSeconds c * 1000000000)"
  have "\<exists>xs. answer_search ans (n - 1 + 1) ?since = Inr xs \<and> set xs \<subseteq> set (uid_range mb (n - 1 + 1))"
    using assms(1) unfolding serves_def by blast
  then obtain xs where xs: "answer_search ans (n - 1 + 1) ?since = Inr xs" "set xs \<subseteq> set mb"
    using sub [of "n - 1 + 1"] by (elim exE conjE) (rule that, assumption, rule subset_trans)
  have "set (keep_last (startupBackfillMax c) xs) \<subseteq> set xs"
    by (auto simp: keep_last_def dest: in_set_dropD)
  then have "\<forall>u \<in> set (keep_last (startupBackfillMax c) xs). u \<le> n - 1" using xs(2) n(3) by blast
  then have b: "backfill_uids process (n - 1) (keep_last (startupBackfillMax c) xs) (n - 1) w = (n - 1, w)"
    by (rule backfill_below)
  have "answer_select ans = None" using assms(1) by (simp add: serves_def)
  then have "primeBaselineAndBackfillFor process ans True isSent c w = (None, setLastUID isSent (n - 1) c, w)"
    using n(1) xs(1) b by (simp add: primeBaselineAndBackfillFor_def Let_def)
  with n show ?thesis by blast
qed

text \<open>
  The startup backfill reaches no message: against a server that answers as documented,
  priming the baseline attempts nothing whatever the backfill settings are, and no later round of
  checks attempts any message that was in the mailbox when IDLE started or restarted.
\<close>

theorem idle_start_skips_mailbox:
  assumes "serves ans mb" and "mailbox_ok mb"
    and "list_all2 serves answers mbs" and "list_all mailbox_ok mbs" and "inFlight isSent c = []"
  shows "\<exists>c' us. primeBaselineAndBackfillFor process ans True isSent c w = (None, c', w) \<and>
    snd (check_rounds process mailbox isSent answers c' w) = attempt_all process us w \<and> set us \<inter> set mb = {}"
proof -
  obtain n where n: "primeBaselineAndBackfillFor process ans True isSent c w = (None, setLastUID isSent (n - 1) c, w)"
    "n - 1 \<noteq> - 1" "\<forall>u \<in> set mb. u \<le> n - 1"
    using prime_serves [OF assms(1,2), of process isSent c w] by (elim exE conjE)
  obtain us where us: "snd (check_rounds process mailbox isSent answers (setLastUID isSent (n - 1) c) w) = attempt_all process us w"
    "\<forall>u \<in> set us. n - 1 < u"
    using rounds_attempt_above [OF assms(3,4), of isSent "setLastUID isSent (n - 1) c" process mailbox w] n(2) assms(5)
    by auto
  have "u \<notin> set mb" if "u \<in> set us" for u using us(2) n(3) that by (meson linorder_not_le)
  then have "set us \<inter> set mb = {}" by blast
  with n(1) us(1) show ?thesis by blast
qed

theorem idle_start_skips_mailbox_witness:
  "\<exists>c' us. primeBaselineAndBackfillFor log_attempt (plain_answers [7, 8]) True False fresh_client [] = (None, c', []) \<and>
     snd (check_rounds log_attempt ''INBOX'' False [plain_answers [7, 8], plain_answers [7, 8, 9]] c' []) = us \<and>
     set us \<inter> {7, 8} = {}"
proof -
  have ok: "mailbox_ok [7, 8]" "mailbox_ok [7, 8, 9]" by (simp_all add: mailbox_ok_def)
  from idle_start_skips_mailbox [OF plain_serves [OF ok(1)] ok(1), of
      "[plain_answers [7, 8], plain_answers [7, 8, 9]]" "[[7, 8], [7, 8, 9]]" False fresh_client log_attempt "[]" "''INBOX''"]
  show ?thesis by (simp add: plain_serves ok fresh_client_def inFlight_def attempt_all_log)
qed

text \<open>
  Mail that arrives in an empty mailbox is lost: while the last UID is 0, as it is after priming
  an empty mailbox, the first check that finds messages takes them as its starting point, and
  neither it nor any later check attempts one of them.
\<close>

theorem first_mail_skipped:
  assumes "lastUID isSent c = 0" and "inFlight isSent c = []"
    and "serves ans mb" and "list_all2 serves answers mbs" and "list_all mailbox_ok mbs"
  shows "\<exists>us. snd (check_rounds process mailbox isSent (ans # answers) c w) = attempt_all process us w \<and>
    set us \<inter> set mb = {}"
proof -
  obtain n where n: "answer_status ans = Inr n" "n - 1 \<noteq> - 1" "\<And>u. u \<in> set mb \<Longrightarrow> u \<le> n - 1"
    by (rule serves_status [OF assms(3)]) blast
  let ?c = "setLastUID isSent (n - 1) c"
  have step: "checkNewMessagesFor process ans True mailbox isSent c w = (None, ?c, w)"
    using assms(1) n(1) by (simp add: checkNewMessagesFor_def)
  obtain us where us: "snd (check_rounds process mailbox isSent answers ?c w) = attempt_all process us w"
    "\<forall>u \<in> set us. n - 1 < u"
    using rounds_attempt_above [OF assms(4,5), of isSent ?c process mailbox w] n(2) assms(2) by auto
  have "u \<notin> set mb" if "u \<in> set us" for u using us(2) n(3) that by (meson linorder_not_le)
  then have "set us \<inter> set mb = {}" by blast
  moreover have "snd (check_rounds process mailbox isSent (ans # answers) c w) = attempt_all process us w"
    using step us(1) by simp
  ultimately show ?thesis by blast
qed

theorem first_mail_skipped_witness:
  "\<exists>us. snd (check_rounds log_attempt ''INBOX'' False [plain_answers [1], plain_answers [1, 2]] fresh_client []) = us \<and> 1 \<notin> set us"
proof -
  have ok: "mailbox_ok [1]" "mailbox_ok [1, 2]" by (simp_all add: mailbox_ok_def)
  from first_mail_skipped [of False fresh_client "plain_answers [1]" "[1]" "[plain_answers [1, 2]]" "[[1, 2]]" log_attempt "''INBOX''" "[]"]
  show ?thesis by (simp add: plain_serves ok fresh_client_def inFlight_def lastUID_def attempt_all_log)
qed

text \<open>
  Two more ways to lose mail: a STATUS answer without UIDNEXT (read as 0) wraps the baseline to the
  largest UID, above which there is nothing; and a hard error on the Sent mailbox takes down the
  INBOX connection.
\<close>

lemma missing_uidnext_wraps:
  assumes "answer_select ans = None" and "answer_status ans = Inr 0" and "startupBackfillMax c \<le> 0"
  shows "\<exists>c'. primeBaselineAndBackfillFor process ans True isSent c w = (None, c', w) \<and> lastUID isSent c' = - 1 \<and>
    (\<forall>ans'. snd (snd (checkNewMessagesFor process ans' True mailbox isSent c' w)) = w)"
proof -
  have "filter (\<lambda>u. - 1 < (u::uid)) xs = []" for xs by (simp add: filter_empty_conv word_less_1)
  then show ?thesis
    using assms by (simp add: primeBaselineAndBackfillFor_def checkNewMessagesFor_def Let_def split: sum.split)
qed

lemma sent_failure_drops_inbox:
  assumes "lastUID True c \<noteq> 0" and "\<not> answer_late ans" and "answer_search ans (lastUID True c + 1) None = Inl e"
    and "isHardNetErr (Some e)"
  shows "\<exists>err c'. checkNewMessagesFor process ans True sentFolder True c w = (Some err, c', w) \<and>
    \<not> connected_inbox c' \<and> \<not> client_inbox c' \<and> \<not> idling c'"
  using assms by (simp add: checkNewMessagesFor_def Let_def drop_if_hard_def dropConnection_def)

end
