(* ===== verification/ImapDelivery.thy ===== *)
theory ImapDelivery
  imports BridgeRuns ImapSync
begin

text \<open>
  From a UID to a Matrix room: \<open>processMessageWith\<close> and \<open>ensurePortalRoom\<close> of
  \<open>pkg/imap/client.go\<close>.  The fetches, the bridge's portal store and the homeserver answer through
  the argument \<open>delivery_env\<close>; the portals with their rooms, the queue of remote events and the
  thread manager are the state.
\<close>

type_synonym portal_key = "gostring \<times> gostring"

text \<open>
  \<open>de_fetch\<close> are the messages a FETCH streams, \<open>de_refetch\<close> the first message of the second FETCH.
  \<open>de_room k m\<close> answers the \<open>m\<close>-th attempt to create the room of portal \<open>k\<close>: an error, or whether
  the portal then has its room.
\<close>

record delivery_env =
  de_login :: bool
  de_receiver :: gostring
  de_mailbox :: gostring
  de_thread :: thread_env
  de_processor :: processor
  de_fetch :: "uid \<Rightarrow> (go_error + parsed_email) list"
  de_refetch :: "uid \<Rightarrow> (go_error + parsed_email) option"
  de_close :: "uid \<Rightarrow> go_error option"
  de_lookup :: "portal_key \<Rightarrow> go_error option"
  de_create :: "portal_key \<Rightarrow> go_error option"
  de_room :: "portal_key \<Rightarrow> nat \<Rightarrow> go_error + bool"
  de_queue :: "email_message \<Rightarrow> bool"

record delivery_world =
  dw_tm :: thread_manager
  dw_portals :: "portal_key \<rightharpoonup> bool"
  dw_queued :: "email_message list"

definition has_room :: "delivery_world \<Rightarrow> portal_key \<Rightarrow> bool" where
  "has_room w k = (dw_portals w k = Some True)"

definition set_room :: "portal_key \<Rightarrow> bool \<Rightarrow> delivery_world \<Rightarrow> delivery_world" where
  "set_room k b w = w\<lparr>dw_portals := (dw_portals w)(k \<mapsto> b)\<rparr>"

text \<open>Up to three attempts; the error of the last failed one is reported.\<close>

fun room_attempts ::
  "(nat \<Rightarrow> go_error + bool) \<Rightarrow> nat \<Rightarrow> nat \<Rightarrow> gostring \<Rightarrow> (gostring + unit)" where
  "room_attempts answer 0 i lastErr = Inl lastErr"
| "room_attempts answer (Suc left) i lastErr =
     (case answer i of
        Inl e \<Rightarrow> room_attempts answer left (Suc i) (error_text e)
      | Inr True \<Rightarrow> Inr ()
      | Inr False \<Rightarrow> room_attempts answer left (Suc i) lastErr)"

definition nil_error_text :: gostring where "nil_error_text = ''%!w(<nil>)''"

definition ensurePortalRoom ::
  "delivery_env \<Rightarrow> portal_key \<Rightarrow> delivery_world \<Rightarrow> go_error option \<times> delivery_world" where
  "ensurePortalRoom env k w =
     (if has_room w k then (None, w)
      else case room_attempts (\<lambda>i. de_room env k (Suc i)) 3 0 nil_error_text of
        Inr _ \<Rightarrow> (None, set_room k True w)
      | Inl e \<Rightarrow> (Some (Err (''failed to create Matrix room: '' @ e)), w))"

text \<open>The portal of an email is looked up, created when it is missing, and given its room.\<close>

definition portal_ready ::
  "delivery_env \<Rightarrow> portal_key \<Rightarrow> delivery_world \<Rightarrow> go_error option \<times> delivery_world" where
  "portal_ready env k w =
     (case de_lookup env k of
        Some e \<Rightarrow> (Some (Errorf ''failed to check portal existence'' e), w)
      | None \<Rightarrow>
          (case (if dw_portals w k = None then de_create env k else None) of
             Some e \<Rightarrow> (Some (Errorf ''failed to create portal for email thread'' e), w)
           | None \<Rightarrow>
               (let w1 = (if dw_portals w k = None then set_room k False w else w) in
                if has_room w1 k then ensurePortalRoom env k w1
                else case de_room env k 0 of
                  Inl e \<Rightarrow> (Some (Errorf ''failed to create Matrix room for portal'' e), w1)
                | Inr b \<Rightarrow> ensurePortalRoom env k (set_room k b w1))))"

definition degraded_error :: "go_error \<Rightarrow> bool" where
  "degraded_error e = contains_sub (to_lower (error_text e)) ''degraded parse''"

text \<open>The processor on one fetched message, with one retry after a degraded parse.\<close>

definition process_fetched ::
  "delivery_env \<Rightarrow> uid \<Rightarrow> go_error + parsed_email \<Rightarrow> thread_manager \<Rightarrow>
     (go_error + email_message option) \<times> thread_manager" where
  "process_fetched env u fetched tm =
     (let run = ProcessIMAPMessage (de_thread env) (de_processor env) (de_receiver env) (de_mailbox env);
          (res, tm1) = run fetched tm
      in case res of
           Inl e \<Rightarrow>
             (if degraded_error e
              then case de_refetch env u of Some again \<Rightarrow> run again tm1 | None \<Rightarrow> (res, tm1)
              else (res, tm1))
         | Inr _ \<Rightarrow> (res, tm1))"

fun deliver_fetched ::
  "delivery_env \<Rightarrow> uid \<Rightarrow> (go_error + parsed_email) list \<Rightarrow> delivery_world \<Rightarrow> go_error option \<times> delivery_world" where
  "deliver_fetched env u [] w =
     (case de_close env u of Some e \<Rightarrow> (Some (Errorf ''fetch command failed'' e), w) | None \<Rightarrow> (None, w))"
| "deliver_fetched env u (fetched # rest) w =
     (if \<not> de_login env then (None, w)
      else case process_fetched env u fetched (dw_tm w) of
        (Inl e, tm) \<Rightarrow> (Some (Errorf ''failed to process IMAP message'' e), w\<lparr>dw_tm := tm\<rparr>)
      | (Inr None, tm) \<Rightarrow> deliver_fetched env u rest (w\<lparr>dw_tm := tm\<rparr>)
      | (Inr (Some m), tm) \<Rightarrow>
          (case portal_ready env (em_portal m) (w\<lparr>dw_tm := tm\<rparr>) of
             (Some e, w1) \<Rightarrow> (Some e, w1)
           | (None, w1) \<Rightarrow>
               deliver_fetched env u rest
                 (if de_queue env m then w1\<lparr>dw_queued := dw_queued w1 @ [m]\<rparr> else w1)))"

definition processMessageWith ::
  "delivery_env \<Rightarrow> uid \<Rightarrow> delivery_world \<Rightarrow> go_error option \<times> delivery_world" where
  "processMessageWith env u w = deliver_fetched env u (de_fetch env u) w"

subsection \<open>Rooms before events\<close>

definition queued_have_rooms :: "delivery_world \<Rightarrow> bool" where
  "queued_have_rooms w \<longleftrightarrow> (\<forall>m \<in> set (dw_queued w). has_room w (em_portal m))"

lemma set_room_fields [simp]:
  "dw_queued (set_room k b w) = dw_queued w" "dw_tm (set_room k b w) = dw_tm w"
  "has_room (set_room k b w) k' = (if k' = k then b else has_room w k')"
  by (auto simp: set_room_def has_room_def)

lemma ensurePortalRoom_room:
  assumes "ensurePortalRoom env k w = (err, w')"
  shows "dw_queued w' = dw_queued w" "dw_tm w' = dw_tm w" "\<And>k'. has_room w k' \<Longrightarrow> has_room w' k'"
    "err = None \<Longrightarrow> has_room w' k"
  using assms by (auto simp: ensurePortalRoom_def split: if_splits sum.splits)

lemma portal_ready_room:
  assumes "portal_ready env k w = (err, w')"
  shows "dw_queued w' = dw_queued w \<and> dw_tm w' = dw_tm w \<and> (\<forall>k'. has_room w k' \<longrightarrow> has_room w' k') \<and>
    (err = None \<longrightarrow> has_room w' k)"
proof -
  let ?w1 = "if dw_portals w k = None then set_room k False w else w"
  have w1: "dw_queued ?w1 = dw_queued w" "dw_tm ?w1 = dw_tm w" "\<And>k'. has_room w k' \<Longrightarrow> has_room ?w1 k'"
    by (auto simp: has_room_def set_room_def)
  consider (early) e where "err = Some e" "w' = w" | (failed) e where "err = Some e" "w' = ?w1"
    | (has) "has_room ?w1 k" "ensurePortalRoom env k ?w1 = (err, w')"
    | (made) b where "\<not> has_room ?w1 k" "ensurePortalRoom env k (set_room k b ?w1) = (err, w')"
    using assms by (auto simp: portal_ready_def Let_def split: option.splits if_splits sum.splits)
  then show ?thesis
  proof cases
    case early then show ?thesis by simp
  next
    case failed with w1 show ?thesis by simp
  next
    case has with w1 ensurePortalRoom_room [OF has(2)] show ?thesis by metis
  next
    case (made b)
    note e = ensurePortalRoom_room [OF made(2)]
    have "has_room w' k'" if "has_room w k'" for k'
    proof -
      have "has_room ?w1 k'" using that by (rule w1(3))
      then have "has_room (set_room k b ?w1) k'" using made(1) by auto
      then show ?thesis by (rule e(3))
    qed
    with e w1 show ?thesis by simp
  qed
qed

lemma deliver_fetched_rooms:
  assumes "queued_have_rooms w"
  shows "queued_have_rooms (snd (deliver_fetched env u fs w))"
  using assms
proof (induction env u fs w rule: deliver_fetched.induct)
  case (1 env u w)
  then show ?case by (simp split: option.split)
next
  case (2 env u fetched rest w)
  obtain res tm where p: "process_fetched env u fetched (dw_tm w) = (res, tm)" by fastforce
  have tm: "queued_have_rooms (w\<lparr>dw_tm := tm\<rparr>)"
    using 2(3) by (simp add: queued_have_rooms_def has_room_def)
  show ?case
  proof (cases "de_login env \<and> (\<exists>m. res = Inr (Some m))")
    case False
    with p tm 2 show ?thesis by (auto split: sum.splits option.splits)
  next
    case True
    then obtain m where m: "de_login env" "res = Inr (Some m)" by blast
    obtain err w1 where r: "portal_ready env (em_portal m) (w\<lparr>dw_tm := tm\<rparr>) = (err, w1)" by fastforce
    note q = portal_ready_room [OF r]
    have w1: "queued_have_rooms w1"
      using tm q unfolding queued_have_rooms_def by (metis delivery_world.select_convs(3) delivery_world.surjective delivery_world.update_convs(1))
    show ?thesis
    proof (cases err)
      case (Some e)
      with m p r w1 show ?thesis by simp
    next
      case None
      have "queued_have_rooms (w1\<lparr>dw_queued := dw_queued w1 @ [m]\<rparr>)"
        using w1 q None by (auto simp: queued_have_rooms_def has_room_def)
      with w1 have "queued_have_rooms (if de_queue env m then w1\<lparr>dw_queued := dw_queued w1 @ [m]\<rparr> else w1)"
        by simp
      with 2(2) m p r None show ?thesis by simp
    qed
  qed
qed

text \<open>What the world of deliveries keeps: sound thread tables, and a room for every queued event.\<close>

definition delivery_ok :: "delivery_world \<Rightarrow> bool" where
  "delivery_ok w \<longleftrightarrow> tm_inv (dw_tm w) \<and> queued_have_rooms w"

lemma process_fetched_inv:
  assumes "tm_inv tm" and "map_order (range_known (de_thread env))"
  shows "tm_inv (snd (process_fetched env u fetched tm))"
proof -
  have run: "tm_inv (snd (ProcessIMAPMessage (de_thread env) (de_processor env) (de_receiver env) (de_mailbox env) f t))"
    if "tm_inv t" for f t using that assms(2) by (rule ProcessIMAPMessage_inv)
  show ?thesis
    using run [OF assms(1), of fetched] run
    by (auto simp: process_fetched_def Let_def split: prod.splits sum.splits option.splits)
qed

lemma deliver_fetched_tm:
  assumes "tm_inv (dw_tm w)" and ord: "map_order (range_known (de_thread env))"
  shows "tm_inv (dw_tm (snd (deliver_fetched env u fs w)))"
  using assms(1)
proof (induction fs arbitrary: w)
  case Nil
  then show ?case by (simp split: option.split)
next
  case (Cons fetched rest)
  obtain res tm where p: "process_fetched env u fetched (dw_tm w) = (res, tm)" by fastforce
  have tm: "tm_inv tm" using process_fetched_inv [OF Cons.prems ord, of u fetched] p by simp
  show ?case
  proof (cases "de_login env \<and> (\<exists>m. res = Inr (Some m))")
    case False
    with p tm Cons show ?thesis by (auto split: sum.splits option.splits)
  next
    case True
    then obtain m where m: "de_login env" "res = Inr (Some m)" by blast
    obtain err w1 where r: "portal_ready env (em_portal m) (w\<lparr>dw_tm := tm\<rparr>) = (err, w1)" by fastforce
    with tm have w1: "tm_inv (dw_tm w1)" using portal_ready_room [OF r] by simp
    then have "tm_inv (dw_tm (if de_queue env m then w1\<lparr>dw_queued := dw_queued w1 @ [m]\<rparr> else w1))" by simp
    with Cons.IH w1 m p r show ?thesis by (cases err) simp_all
  qed
qed

subsection \<open>The interface of the synchroniser\<close>

text \<open>
  The synchroniser does not know what is done with a message: whatever invariant one message keeps,
  every check and every priming keeps.
\<close>

locale uid_processor =
  fixes process :: "uid \<Rightarrow> 'w \<Rightarrow> go_error option \<times> 'w"
    and world_ok :: "'w \<Rightarrow> bool"
  assumes process_keeps: "world_ok w \<Longrightarrow> world_ok (snd (process u w))"
begin

lemma process_uids_keeps:
  "world_ok w \<Longrightarrow> world_ok (snd (snd (process_uids process isSent us c w)))"
proof (induction us arbitrary: c w)
  case (Cons u us)
  then show ?case
    using process_keeps [OF Cons.prems, of u]
    by (auto simp: Let_def case_prod_unfold split: bool.split)
qed simp

lemma check_keeps:
  assumes "world_ok w"
  shows "world_ok (snd (snd (checkNewMessagesFor process ans has_cli mailbox isSent c w)))"
  using assms process_uids_keeps
  by (simp add: checkNewMessagesFor_def Let_def case_prod_unfold split: sum.split)

lemma backfill_keeps:
  "world_ok w \<Longrightarrow> world_ok (snd (backfill_uids process baseline us highest w))"
proof (induction us arbitrary: highest w)
  case (Cons u us)
  then show ?case
    using process_keeps [OF Cons.prems, of u] by (auto split: prod.split option.split)
qed simp

lemma prime_keeps:
  assumes "world_ok w"
  shows "world_ok (snd (snd (primeBaselineAndBackfillFor process ans has_cli isSent c w)))"
  using assms backfill_keeps
  by (simp add: primeBaselineAndBackfillFor_def Let_def case_prod_unfold split: sum.split option.split)

lemma rounds_keep:
  "world_ok w \<Longrightarrow> world_ok (snd (check_rounds process mailbox isSent anss c w))"
proof (induction anss arbitrary: c w)
  case (Cons ans anss)
  then show ?case
    using check_keeps [OF Cons.prems, of ans True mailbox isSent c] by (simp add: case_prod_unfold)
qed simp

end

lemma processMessageWith_ok:
  assumes "map_order (range_known (de_thread env))" and "delivery_ok w"
  shows "delivery_ok (snd (processMessageWith env u w))"
  using assms deliver_fetched_rooms deliver_fetched_tm by (simp add: delivery_ok_def processMessageWith_def)

interpretation delivery: uid_processor "processMessageWith env"
    "\<lambda>w. map_order (range_known (de_thread env)) \<longrightarrow> delivery_ok w" for env
  by unfold_locales (simp add: processMessageWith_ok)

text \<open>
  An event reaches the bridge's queue only when its room exists: priming the mailbox and any
  rounds of checks, whatever the mail server, the portal store and the homeserver answer, leave
  every queued event with a portal that has a Matrix room, and the thread tables sound.
\<close>

theorem queued_events_have_rooms:
  assumes "map_order (range_known (de_thread env))"
    and "tm_inv (dw_tm w)" and "\<forall>m \<in> set (dw_queued w). has_room w (em_portal m)"
  shows "case primeBaselineAndBackfillFor (processMessageWith env) ans has_cli isSent c w of (err, c1, w1) \<Rightarrow>
    case check_rounds (processMessageWith env) mailbox isSent anss c1 w1 of (c2, w2) \<Rightarrow>
      tm_inv (dw_tm w2) \<and> (\<forall>m \<in> set (dw_queued w2). has_room w2 (em_portal m))"
proof -
  obtain err c1 w1 where p: "primeBaselineAndBackfillFor (processMessageWith env) ans has_cli isSent c w = (err, c1, w1)"
    by (metis prod_cases3)
  have "delivery_ok w" using assms(2,3) by (simp add: delivery_ok_def queued_have_rooms_def)
  then have "delivery_ok w1"
    using delivery.prime_keeps [where env = env and w = w and ans = ans and has_cli = has_cli and isSent = isSent and c = c]
      p assms(1) by simp
  then have "delivery_ok (snd (check_rounds (processMessageWith env) mailbox isSent anss c1 w1))"
    using delivery.rounds_keep [where env = env and w = w1 and anss = anss and isSent = isSent and c = c1 and mailbox = mailbox]
      assms(1) by simp
  with p show ?thesis by (simp add: delivery_ok_def queued_have_rooms_def case_prod_unfold)
qed

definition sample_delivery :: delivery_env where
  "sample_delivery = \<lparr>de_login = True, de_receiver = ''me'', de_mailbox = ''INBOX'', de_thread = plain_env 1,
     de_processor = \<lparr>dedupChecker = None, aliasResolver = None\<rparr>,
     de_fetch = (\<lambda>u. [Inr (mail ''m1'' [] [] ''ann@x.org'')]), de_refetch = (\<lambda>_. None), de_close = (\<lambda>_. None),
     de_lookup = (\<lambda>_. None), de_create = (\<lambda>_. None),
     de_room = (\<lambda>_ m. if m < 2 then Inl (Err ''no answer'') else Inr True), de_queue = (\<lambda>_. True)\<rparr>"

definition empty_delivery :: delivery_world where
  "empty_delivery = \<lparr>dw_tm = NewThreadManager 0, dw_portals = (\<lambda>_. None), dw_queued = []\<rparr>"

theorem queued_events_have_rooms_witness:
  "case primeBaselineAndBackfillFor (processMessageWith sample_delivery) (plain_answers [7]) True False fresh_client
       empty_delivery of (err, c1, w1) \<Rightarrow>
     case check_rounds (processMessageWith sample_delivery) ''INBOX'' False [plain_answers [7, 8]] c1 w1 of (c2, w2) \<Rightarrow>
       tm_inv (dw_tm w2) \<and> (\<forall>m \<in> set (dw_queued w2). has_room w2 (em_portal m))"
proof (rule queued_events_have_rooms)
  show "map_order (range_known (de_thread sample_delivery))"
    by (simp add: sample_delivery_def plain_env_def map_order_id)
  show "tm_inv (dw_tm empty_delivery)" by (simp add: empty_delivery_def tm_inv_init)
  show "\<forall>m \<in> set (dw_queued empty_delivery). has_room empty_delivery (em_portal m)"
    by (simp add: empty_delivery_def)
qed

end
