(* ===== verification/GmailPoll.thy ===== *)
theory GmailPoll
  imports GmailParse Senders ImapDelivery
begin

text \<open>
  \<open>pkg/email/inbound_gmail_api.go\<close> and \<open>pkg/connector/gmail_inbound.go\<close>: the history poller of a
  Gmail account, what it does with each message, and the manager of the pollers.  The Gmail API
  answers through \<open>gmail_api\<close>, whose requests are an abstract type built by the library's setters.
\<close>

subsection \<open>The API\<close>

text \<open>Messages of the history; \<open>None\<close> stands for a \<open>nil\<close> entry or an entry without a message.\<close>

record history_message =
  hm_Id :: gostring
  hm_LabelIds :: "gostring list"

record history_record =
  hr_MessagesAdded :: "history_message option list"
  hr_LabelsAdded :: "(history_message \<times> gostring list) option list"

record history_page =
  hp_History :: "history_record list"
  hp_HistoryId :: nat
  hp_NextPageToken :: gostring

record ('q, 'm) gmail_api =
  ga_service :: "go_error option"
  ga_new_list :: "nat \<Rightarrow> 'q"
  ga_label_id :: "gostring \<Rightarrow> 'q \<Rightarrow> 'q"
  ga_page_token :: "gostring \<Rightarrow> 'q \<Rightarrow> 'q"
  ga_list :: "'q \<Rightarrow> api_error + history_page"
  ga_profile :: "go_error + nat"
  ga_get :: "gostring \<Rightarrow> go_error + 'm"

subsection \<open>Labels\<close>

definition hasLabel :: "gostring list \<Rightarrow> gostring \<Rightarrow> bool" where
  "hasLabel labels target = list_ex (\<lambda>l. equal_fold l target) labels"

definition anyLabelMatches :: "gostring list \<Rightarrow> gostring list \<Rightarrow> bool" where
  "anyLabelMatches a b = list_ex (\<lambda>x. list_ex (equal_fold x) b) a"

definition primaryLabel :: "gostring list \<Rightarrow> gostring list \<Rightarrow> gostring" where
  "primaryLabel messageLabels monitored =
     (case first_some (\<lambda>l. if equal_fold l ''SENT'' then Some ''SENT''
                           else if equal_fold l ''INBOX'' then Some ''INBOX'' else None) messageLabels of
        Some l \<Rightarrow> l
      | None \<Rightarrow>
          (case find (\<lambda>l. list_ex (equal_fold l) monitored) messageLabels of
             Some l \<Rightarrow> l
           | None \<Rightarrow> (case monitored of m # ms \<Rightarrow> m | [] \<Rightarrow> [])))"

definition isHistoryExpiredError :: "api_error \<Rightarrow> bool" where
  "isHistoryExpiredError err =
     (let msg = error_text (ae_error err) in
      (case ae_googleapi err of Some (code, m) \<Rightarrow> code = 404 | None \<Rightarrow> False) \<or>
      contains_sub msg ''historyId'' \<and> contains_sub (to_lower msg) ''not found'')"

subsection \<open>One poll\<close>

text \<open>
  The messages a history page announces, in the order of the code: a map from message ID to label,
  kept as an association list with distinct keys.
\<close>

type_synonym new_messages = "(gostring \<times> gostring) list"

definition put_message :: "gostring \<Rightarrow> gostring \<Rightarrow> new_messages \<Rightarrow> new_messages" where
  "put_message i l new = AList.update i l new"

definition note_added :: "gostring list \<Rightarrow> history_message option \<Rightarrow> new_messages \<Rightarrow> new_messages" where
  "note_added monitored ma new =
     (case ma of
        None \<Rightarrow> new
      | Some m \<Rightarrow>
          if hm_Id m = [] then new
          else if hasLabel (hm_LabelIds m) ''DRAFT'' then new
          else put_message (hm_Id m) (primaryLabel (hm_LabelIds m) monitored) new)"

definition note_labelled ::
  "gostring list \<Rightarrow> (history_message \<times> gostring list) option \<Rightarrow> new_messages \<Rightarrow> new_messages" where
  "note_labelled monitored la new =
     (case la of
        None \<Rightarrow> new
      | Some (m, added) \<Rightarrow>
          if hm_Id m = [] then new
          else if hasLabel (hm_LabelIds m) ''DRAFT'' then new
          else if \<not> anyLabelMatches added monitored then new
          else if hm_Id m \<in> fst ` set new then new
          else put_message (hm_Id m) (primaryLabel (hm_LabelIds m) monitored) new)"

definition note_record :: "gostring list \<Rightarrow> history_record \<Rightarrow> new_messages \<Rightarrow> new_messages" where
  "note_record monitored h new =
     fold (note_labelled monitored) (hr_LabelsAdded h) (fold (note_added monitored) (hr_MessagesAdded h) new)"

definition new_messages :: "gostring list \<Rightarrow> history_page list \<Rightarrow> new_messages" where
  "new_messages monitored pages = fold (\<lambda>p. fold (note_record monitored) (hp_History p)) pages []"

text \<open>
  The pages after the first, with the largest history ID seen.  The server decides how many there
  are: \<open>None\<close> is a chain of pages without end.
\<close>

partial_function (option) drain_pages ::
  "(gostring \<Rightarrow> api_error + history_page) \<Rightarrow> nat \<Rightarrow> history_page \<Rightarrow>
     ((nat \<times> api_error) + nat \<times> history_page list) option" where
  "drain_pages next_page cur page =
     (if hp_NextPageToken page = [] then Some (Inr (cur, [page]))
      else case next_page (hp_NextPageToken page) of
        Inl e \<Rightarrow> Some (Inl (cur, e))
      | Inr next \<Rightarrow>
          Option.bind (drain_pages next_page (if hp_HistoryId next > cur then hp_HistoryId next else cur) next)
            (\<lambda>r. Some (case r of Inl e \<Rightarrow> Inl e | Inr (c, ps) \<Rightarrow> Inr (c, page # ps))))"

definition with_labels :: "('q, 'm) gmail_api \<Rightarrow> gostring list \<Rightarrow> 'q \<Rightarrow> 'q" where
  "with_labels api labels call = fold (ga_label_id api) labels call"

fun fetch_new ::
  "('q, 'm) gmail_api \<Rightarrow> ('m \<Rightarrow> gostring \<Rightarrow> 'w \<Rightarrow> go_error option \<times> 'w) \<Rightarrow> new_messages \<Rightarrow> 'w \<Rightarrow> 'w" where
  "fetch_new api on_message [] w = w"
| "fetch_new api on_message ((msgID, mailbox) # rest) w =
     (case ga_get api msgID of
        Inl e \<Rightarrow> fetch_new api on_message rest w
      | Inr full \<Rightarrow> fetch_new api on_message rest (snd (on_message full mailbox w)))"

definition pollOnce ::
  "('q, 'm) gmail_api \<Rightarrow> ('m \<Rightarrow> gostring \<Rightarrow> 'w \<Rightarrow> go_error option \<times> 'w) \<Rightarrow>
     (new_messages \<Rightarrow> new_messages) \<Rightarrow> gostring list \<Rightarrow> nat \<Rightarrow> 'w \<Rightarrow> (nat \<times> go_error option \<times> 'w) option" where
  "pollOnce api on_message ord labels cursor w =
     (case ga_service api of
        Some e \<Rightarrow> Some (cursor, Some (Errorf ''gmail.NewService'' e), w)
      | None \<Rightarrow>
          (case ga_list api (with_labels api labels (ga_new_list api cursor)) of
             Inl e \<Rightarrow>
               if isHistoryExpiredError e
               then (case ga_profile api of
                       Inl pe \<Rightarrow> Some (cursor, Some (Errorf ''getProfile after history-expired'' pe), w)
                     | Inr now \<Rightarrow> Some (now, None, w))
               else Some (cursor, Some (Errorf ''history.list'' (ae_error e)), w)
           | Inr resp \<Rightarrow>
               (let cur = (if hp_HistoryId resp \<noteq> 0 then hp_HistoryId resp else cursor);
                    next_page = (\<lambda>token. ga_list api (with_labels api labels (ga_page_token api token (ga_new_list api cursor))))
                in case drain_pages next_page cur resp of
                     None \<Rightarrow> None
                   | Some (Inl (c, e)) \<Rightarrow> Some (c, Some (Errorf ''history.list pagination'' (ae_error e)), w)
                   | Some (Inr (c, pages)) \<Rightarrow>
                       Some (c, None, fetch_new api on_message (ord (new_messages labels pages)) w))))"

subsection \<open>The poller\<close>

definition bootstrapCursor ::
  "('q, 'm) gmail_api \<Rightarrow> go_error + nat \<Rightarrow> (nat \<Rightarrow> go_error option) \<Rightarrow> go_error + nat" where
  "bootstrapCursor api loaded save =
     (case loaded of
        Inl e \<Rightarrow> Inl (Errorf ''load cursor'' e)
      | Inr c \<Rightarrow>
          if c \<noteq> 0 then Inr c
          else (case ga_service api of
                  Some e \<Rightarrow> Inl (Errorf ''gmail.NewService'' e)
                | None \<Rightarrow>
                    (case ga_profile api of
                       Inl e \<Rightarrow> Inl (Errorf ''getProfile'' e)
                     | Inr now \<Rightarrow> (case save now of Some e \<Rightarrow> Inl (Errorf ''save initial cursor'' e) | None \<Rightarrow> Inr now))))"

text \<open>One tick of \<open>Run\<close>: the poll, then the new cursor is saved; an error leaves the cursor.\<close>

definition poll_tick ::
  "('q, 'm) gmail_api \<Rightarrow> ('m \<Rightarrow> gostring \<Rightarrow> 'w \<Rightarrow> go_error option \<times> 'w) \<Rightarrow>
     (new_messages \<Rightarrow> new_messages) \<Rightarrow> (nat \<Rightarrow> go_error option) \<Rightarrow> gostring list \<Rightarrow> nat \<times> 'w \<Rightarrow> (nat \<times> 'w) option" where
  "poll_tick api on_message ord save labels st =
     (case pollOnce api on_message ord labels (fst st) (snd st) of
        None \<Rightarrow> None
      | Some (c, Some e, w) \<Rightarrow> Some (fst st, w)
      | Some (c, None, w) \<Rightarrow> Some (if c \<noteq> fst st \<and> save c = None then c else fst st, w))"

subsection \<open>Backlog\<close>

text \<open>
  \<open>list_page label token\<close> answers one page of \<open>messages.list\<close>: the message IDs (\<open>None\<close> for a
  \<open>nil\<close> entry) and the next token.
\<close>

partial_function (option) backlog_label ::
  "(gostring \<Rightarrow> go_error + gostring option list \<times> gostring) \<Rightarrow> gostring \<Rightarrow> gostring \<Rightarrow> new_messages \<Rightarrow>
     (go_error + new_messages) option" where
  "backlog_label list_page label token seen =
     (case list_page token of
        Inl e \<Rightarrow> Some (Inl (Errorf (''backlog: messages.list label='' @ label) e))
      | Inr (ids, next) \<Rightarrow>
          (let seen1 = fold (\<lambda>m s. case m of None \<Rightarrow> s
                 | Some i \<Rightarrow> if i = [] \<or> i \<in> fst ` set s then s else put_message i label s) ids seen
           in if next = [] then Some (Inr seen1) else backlog_label list_page label next seen1))"

fun backlog_labels ::
  "(gostring \<Rightarrow> gostring \<Rightarrow> go_error + gostring option list \<times> gostring) \<Rightarrow> gostring list \<Rightarrow> new_messages \<Rightarrow>
     (go_error + new_messages) option" where
  "backlog_labels list_page [] seen = Some (Inr seen)"
| "backlog_labels list_page (l # ls) seen =
     (case backlog_label (list_page l) l [] seen of
        None \<Rightarrow> None
      | Some (Inl e) \<Rightarrow> Some (Inl e)
      | Some (Inr seen1) \<Rightarrow> backlog_labels list_page ls seen1)"

fun feed_backlog ::
  "('q, 'm) gmail_api \<Rightarrow> ('m \<Rightarrow> gostring list) \<Rightarrow> ('m \<Rightarrow> gostring \<Rightarrow> 'w \<Rightarrow> go_error option \<times> 'w) \<Rightarrow>
     new_messages \<Rightarrow> nat \<Rightarrow> 'w \<Rightarrow> nat \<times> 'w" where
  "feed_backlog api labels_of on_message [] fed w = (fed, w)"
| "feed_backlog api labels_of on_message ((msgID, mailbox) # rest) fed w =
     (case ga_get api msgID of
        Inl e \<Rightarrow> feed_backlog api labels_of on_message rest fed w
      | Inr full \<Rightarrow>
          if hasLabel (labels_of full) ''DRAFT'' then feed_backlog api labels_of on_message rest fed w
          else (case on_message full mailbox w of
                  (Some e, w1) \<Rightarrow> feed_backlog api labels_of on_message rest fed w1
                | (None, w1) \<Rightarrow> feed_backlog api labels_of on_message rest (Suc fed) w1))"

definition Backlog ::
  "('q, 'm) gmail_api \<Rightarrow> (int \<Rightarrow> gostring \<Rightarrow> gostring \<Rightarrow> go_error + gostring option list \<times> gostring) \<Rightarrow>
     ('m \<Rightarrow> gostring list) \<Rightarrow> ('m \<Rightarrow> gostring \<Rightarrow> 'w \<Rightarrow> go_error option \<times> 'w) \<Rightarrow>
     (new_messages \<Rightarrow> new_messages) \<Rightarrow> gostring list \<Rightarrow> int \<Rightarrow> 'w \<Rightarrow> ((go_error + nat) \<times> 'w) option" where
  "Backlog api list_page labels_of on_message ord labels days w =
     (if days \<le> 0 then Some (Inl (Err (''backlog: lookbackDays must be positive, got '' @ itoa_go days)), w)
      else if labels = [] then Some (Inl (Err ''backlog: no monitored labels configured''), w)
      else case ga_service api of
        Some e \<Rightarrow> Some (Inl (Errorf ''gmail.NewService'' e), w)
      | None \<Rightarrow>
          (case backlog_labels (list_page days) labels [] of
             None \<Rightarrow> None
           | Some (Inl e) \<Rightarrow> Some (Inl e, w)
           | Some (Inr seen) \<Rightarrow>
               (let (fed, w1) = feed_backlog api labels_of on_message (ord seen) 0 w in Some (Inr fed, w1))))"

subsection \<open>What the connector does with a message\<close>

text \<open>
  \<open>handleMessage\<close> over the same portals and queue as the IMAP path.  The room is created in one
  attempt, without the check that follows it on the IMAP side; a panic of the parser leaves the
  world as it is and is reported like an error here.
\<close>

definition queue_event :: "delivery_env \<Rightarrow> email_message \<Rightarrow> delivery_world \<Rightarrow> go_error option \<times> delivery_world" where
  "queue_event env m w =
     (if de_queue env m then (None, w\<lparr>dw_queued := dw_queued w @ [m]\<rparr>)
      else (Some (Err (''queue remote event failed for message '' @ em_id m)), w))"

definition gmail_portal_ready ::
  "delivery_env \<Rightarrow> portal_key \<Rightarrow> delivery_world \<Rightarrow> go_error option \<times> delivery_world" where
  "gmail_portal_ready env k w =
     (case de_lookup env k of
        Some e \<Rightarrow> (Some (Errorf ''portal lookup'' e), w)
      | None \<Rightarrow>
          (case (if dw_portals w k = None then de_create env k else None) of
             Some e \<Rightarrow> (Some (Errorf ''create portal'' e), w)
           | None \<Rightarrow>
               (let w1 = (if dw_portals w k = None then set_room k False w else w) in
                if has_room w1 k then (None, w1)
                else case de_room env k 0 of
                  Inl e \<Rightarrow> (Some (Errorf ''create matrix room'' e), w1)
                | Inr b \<Rightarrow> (None, set_room k b w1))))"

definition gmail_handleMessage ::
  "delivery_env \<Rightarrow> mail_parsers \<Rightarrow> gmail_message \<Rightarrow> gostring \<Rightarrow> delivery_world \<Rightarrow> go_error option \<times> delivery_world" where
  "gmail_handleMessage env ps msg mailbox w =
     (case ParseGmailAPIMessage ps (Some msg) of
        Panics \<Rightarrow> (Some (Err ''nil pointer dereference''), w)
      | Returns (Inl e) \<Rightarrow> (Some (Errorf (''parse gmail message '' @ gm_Id msg) e), w)
      | Returns (Inr (parsed, files)) \<Rightarrow>
          (case ProcessParsedEmail (de_thread env) (de_processor env) (de_receiver env) mailbox (Some parsed) (dw_tm w) of
             (Inl e, tm) \<Rightarrow> (Some (Errorf ''process parsed email'' e), w\<lparr>dw_tm := tm\<rparr>)
           | (Inr None, tm) \<Rightarrow> (None, w\<lparr>dw_tm := tm\<rparr>)
           | (Inr (Some m), tm) \<Rightarrow>
               (case gmail_portal_ready env (em_portal m) (w\<lparr>dw_tm := tm\<rparr>) of
                  (Some e, w1) \<Rightarrow> (Some e, w1)
                | (None, w1) \<Rightarrow> queue_event env m w1)))"

end
