(* ===== verification/GmailFacts.thy ===== *)
theory GmailFacts
  imports GmailPoll
begin

text \<open>
  What a poll fetches and where it leaves the cursor, the interface between the poller and what is
  done with a message, and the manager of the pollers.
\<close>

subsection \<open>The announced messages\<close>

definition announced :: "gostring list \<Rightarrow> history_record \<Rightarrow> gostring set" where
  "announced monitored h = {hm_Id m | m. hm_Id m \<noteq> [] \<and> \<not> hasLabel (hm_LabelIds m) ''DRAFT'' \<and>
     (Some m \<in> set (hr_MessagesAdded h) \<or>
      (\<exists>added. Some (m, added) \<in> set (hr_LabelsAdded h) \<and> anyLabelMatches added monitored))}"

lemma put_message_keys [simp]: "fst ` set (put_message i l new) = insert i (fst ` set new)"
  by (simp add: put_message_def dom_update)

lemma put_message_distinct: "distinct (map fst new) \<Longrightarrow> distinct (map fst (put_message i l new))"
  unfolding put_message_def by (rule distinct_update)

lemma note_added_keys:
  "fst ` set (note_added monitored ma new) = fst ` set new \<union>
     {hm_Id m | m. ma = Some m \<and> hm_Id m \<noteq> [] \<and> \<not> hasLabel (hm_LabelIds m) ''DRAFT''}"
  by (cases ma) (auto simp: note_added_def)

lemma note_labelled_keys:
  "fst ` set (note_labelled monitored la new) = fst ` set new \<union>
     {hm_Id m | m added. la = Some (m, added) \<and> hm_Id m \<noteq> [] \<and> \<not> hasLabel (hm_LabelIds m) ''DRAFT'' \<and>
        anyLabelMatches added monitored}"
proof (cases la)
  case None
  then show ?thesis by (simp add: note_labelled_def)
next
  case (Some x)
  obtain m added where x: "x = (m, added)" by fastforce
  show ?thesis
  proof (cases "hm_Id m \<noteq> [] \<and> \<not> hasLabel (hm_LabelIds m) ''DRAFT'' \<and> anyLabelMatches added monitored")
    case True
    then have "fst ` set (note_labelled monitored la new) = insert (hm_Id m) (fst ` set new)"
      using Some x by (simp add: note_labelled_def insert_absorb)
    with True Some x show ?thesis by auto
  next
    case False
    then have "note_labelled monitored la new = new" using Some x by (auto simp: note_labelled_def)
    with False Some x show ?thesis by auto
  qed
qed

lemma fold_keys:
  assumes "\<And>x new. fst ` set (f x new) = fst ` set new \<union> A x"
  shows "fst ` set (fold f xs new) = fst ` set new \<union> (\<Union>x \<in> set xs. A x)"
  by (induction xs arbitrary: new) (auto simp: assms)

lemma note_record_keys:
  "fst ` set (note_record monitored h new) = fst ` set new \<union> announced monitored h"
  unfolding note_record_def fold_keys [of "note_labelled monitored", OF note_labelled_keys]
    fold_keys [of "note_added monitored", OF note_added_keys]
  by (auto simp: announced_def)

lemma new_messages_keys:
  "fst ` set (new_messages monitored pages) = (\<Union>p \<in> set pages. \<Union>h \<in> set (hp_History p). announced monitored h)"
  unfolding new_messages_def
  by (subst fold_keys [where A = "\<lambda>p. \<Union>h \<in> set (hp_History p). announced monitored h"])
    (simp_all add: fold_keys note_record_keys)

lemma fold_distinct:
  assumes "\<And>x new. distinct (map fst new) \<Longrightarrow> distinct (map fst (f x new))"
  shows "distinct (map fst new) \<Longrightarrow> distinct (map fst (fold f xs new))"
  by (induction xs arbitrary: new) (auto simp: assms)

lemma new_messages_distinct: "distinct (map fst (new_messages monitored pages))"
proof -
  have "distinct (map fst (note_added monitored ma new))" if "distinct (map fst new)" for ma new
    using that by (auto simp: note_added_def put_message_distinct split: option.split)
  moreover have "distinct (map fst (note_labelled monitored la new))" if "distinct (map fst new)" for la new
    using that by (auto simp: note_labelled_def put_message_distinct split: option.split)
  ultimately have "distinct (map fst (note_record monitored h new))" if "distinct (map fst new)" for h new
    using that by (simp add: note_record_def fold_distinct)
  then show ?thesis by (simp add: new_messages_def fold_distinct)
qed

lemma map_order_keys:
  assumes "map_order ord" and "distinct (map fst xs)"
  shows "distinct (map fst (ord xs))" and "set (ord xs) = set xs"
proof -
  show "set (ord xs) = set xs" using map_orderD [OF assms(1)] by blast
  moreover have "distinct (ord xs)"
    using map_orderD [OF assms(1)] assms(2) by (metis distinct_map)
  ultimately show "distinct (map fst (ord xs))" using assms(2) by (simp add: distinct_map)
qed

subsection \<open>The pages\<close>

text \<open>When the chain of page tokens is finite the poll comes back.\<close>

lemma drain_pages_returns:
  assumes "\<And>t page. next_page t = Inr page \<Longrightarrow> hp_NextPageToken page \<noteq> [] \<Longrightarrow> (hp_NextPageToken page, t) \<in> r"
    and "wf r"
  shows "\<exists>res. drain_pages next_page cur page = Some res"
proof (cases "hp_NextPageToken page = []")
  case True
  then show ?thesis by (simp add: drain_pages.simps)
next
  case False
  have "\<forall>cur page. hp_NextPageToken page = t \<longrightarrow> t \<noteq> [] \<longrightarrow> (\<exists>res. drain_pages next_page cur page = Some res)" for t
    using \<open>wf r\<close>
  proof (induction t rule: wf_induct_rule)
    case (less t)
    have "\<exists>res. drain_pages next_page cur page = Some res" if "hp_NextPageToken page = t" "t \<noteq> []" for cur page
    proof (cases "next_page t")
      case (Inl e)
      with that show ?thesis by (simp add: drain_pages.simps)
    next
      case (Inr nx)
      obtain res where "drain_pages next_page (if hp_HistoryId nx > cur then hp_HistoryId nx else cur) nx = Some res"
      proof (cases "hp_NextPageToken nx = []")
        case True
        then show ?thesis using that by (simp add: drain_pages.simps)
      next
        case False
        with less assms(1) [OF Inr False] show ?thesis using that by blast
      qed
      with that Inr show ?thesis by (simp add: drain_pages.simps [of next_page cur page])
    qed
    then show ?case by blast
  qed
  with False show ?thesis by blast
qed

text \<open>The cursor of a completed poll is at least every history ID the pages carry.\<close>

definition drained :: "nat \<Rightarrow> history_page \<Rightarrow> (nat \<times> api_error) + nat \<times> history_page list \<Rightarrow> bool" where
  "drained cur page res \<longleftrightarrow> (\<forall>c pages. res = Inr (c, pages) \<longrightarrow>
     cur \<le> c \<and> (\<exists>rest. pages = page # rest \<and> (\<forall>p \<in> set rest. hp_HistoryId p \<le> c)))"

lemmas drain_pages_induct = drain_pages.raw_induct [rotated 1, consumes 1, case_names step]

lemma drain_pages_drained: "drain_pages next_page cur page = Some res \<Longrightarrow> drained cur page res"
proof (induction rule: drain_pages_induct)
  case (step drain next_page cur page res)
  show ?case
  proof (cases "hp_NextPageToken page = []")
    case True
    with step(2) have "res = Inr (cur, [page])" by simp
    then show ?thesis by (simp add: drained_def)
  next
    case False
    show ?thesis
    proof (cases "next_page (hp_NextPageToken page)")
      case (Inl e)
      with False step(2) have "res = Inl (cur, e)" by simp
      then show ?thesis by (simp add: drained_def)
    next
      case (Inr nx)
      let ?cur = "if hp_HistoryId nx > cur then hp_HistoryId nx else cur"
      from False Inr step(2) obtain r where r: "drain next_page ?cur nx = Some r"
        "res = (case r of Inl e \<Rightarrow> Inl e | Inr (c, ps) \<Rightarrow> Inr (c, page # ps))"
        by (auto simp: bind_eq_Some_conv)
      from step(1) [OF r(1)] r(2) show ?thesis
        by (fastforce simp: drained_def split: sum.splits if_splits)
    qed
  qed
qed

subsection \<open>A tick\<close>

text \<open>Only the fetches that succeed count: the others leave no trace.\<close>

lemma fetch_new_fetched:
  "fetch_new api on_message items w = fetch_new api on_message (filter (\<lambda>(i, l). \<not> isl (ga_get api i)) items) w"
  by (induction api on_message items w rule: fetch_new.induct) (auto split: sum.split)


definition sample_gmail :: "(unit, gostring) gmail_api" where
  "sample_gmail = \<lparr>ga_service = None, ga_new_list = (\<lambda>_. ()), ga_label_id = (\<lambda>_ q. q), ga_page_token = (\<lambda>_ q. q),
     ga_list = (\<lambda>_. Inr \<lparr>hp_History = [\<lparr>hr_MessagesAdded = [Some \<lparr>hm_Id = ''a'', hm_LabelIds = [''INBOX'']\<rparr>,
          Some \<lparr>hm_Id = ''b'', hm_LabelIds = [''INBOX'']\<rparr>], hr_LabelsAdded = []\<rparr>],
        hp_HistoryId = 9, hp_NextPageToken = []\<rparr>),
     ga_profile = Inr 9, ga_get = (\<lambda>i. if i = ''b'' then Inl (Err ''timeout'') else Inr i)\<rparr>"


text \<open>
  What several monitored labels come to: when each \<open>LabelId\<close> replaces the one before, as the setter
  of an optional single-valued parameter does, only the last label is asked for.
\<close>

lemma only_last_label_polled:
  assumes "\<And>a b q. ga_label_id api b (ga_label_id api a q) = ga_label_id api b q"
  shows "with_labels api (labels @ [l]) q = ga_label_id api l q"
  by (induction labels arbitrary: q) (simp_all add: with_labels_def assms)

text \<open>Without a monitored label nothing that is labelled after its arrival is announced.\<close>

lemma no_labels_no_labelled: "announced [] h = {hm_Id m | m. hm_Id m \<noteq> [] \<and>
    \<not> hasLabel (hm_LabelIds m) ''DRAFT'' \<and> Some m \<in> set (hr_MessagesAdded h)}"
proof -
  have "\<not> anyLabelMatches added []" for added by (induction added) (simp_all add: anyLabelMatches_def)
  then show ?thesis by (auto simp: announced_def)
qed

subsection \<open>The interface to the connector\<close>

locale message_callback =
  fixes on_message :: "'m \<Rightarrow> gostring \<Rightarrow> 'w \<Rightarrow> go_error option \<times> 'w"
    and world_ok :: "'w \<Rightarrow> bool"
  assumes callback_keeps: "world_ok w \<Longrightarrow> world_ok (snd (on_message m label w))"
begin

lemma fetch_keeps: "world_ok w \<Longrightarrow> world_ok (fetch_new api on_message items w)"
proof (induction items arbitrary: w)
  case (Cons item items)
  then show ?case using callback_keeps by (cases item) (auto split: sum.split)
qed simp

lemma poll_keeps:
  assumes "poll_tick api on_message ord save labels (c, w) = Some (c', w')" and "world_ok w"
  shows "world_ok w'"
  using assms fetch_keeps
  by (auto simp: poll_tick_def pollOnce_def Let_def split: option.splits sum.splits if_splits)

lemma feed_keeps: "world_ok w \<Longrightarrow> world_ok (snd (feed_backlog api labels_of on_message items fed w))"
proof (induction items arbitrary: fed w)
  case (Cons item items)
  then show ?case
    using callback_keeps by (cases item) (fastforce simp: case_prod_unfold split: sum.split option.split)
qed simp

lemma backlog_keeps:
  assumes "Backlog api list_page labels_of on_message ord labels days w = Some (res, w')" and "world_ok w"
  shows "world_ok w'"
  using assms feed_keeps [of w api labels_of _ 0]
  by (auto simp: Backlog_def Let_def split: option.splits sum.splits if_splits prod.splits) (metis snd_conv)

end

end
