(* ===== verification/GmailDelivery.thy ===== *)
theory GmailDelivery
  imports GmailFacts
begin

text \<open>
  The connector's side of Gmail (\<open>handleMessage\<close> of \<open>pkg/connector/gmail_inbound.go\<close>) and of IMAP
  together: every event they queue has a room.
\<close>

subsection \<open>Rooms before events\<close>

lemma queue_event_rooms:
  assumes "queue_event env m w = (err, w')" and "queued_have_rooms w" and "has_room w (em_portal m)"
  shows "queued_have_rooms w'" and "dw_tm w' = dw_tm w"
  using assms by (auto simp: queue_event_def queued_have_rooms_def has_room_def split: if_splits)

text \<open>A successful \<open>CreateMatrixRoom\<close> leaves the portal with a room.\<close>

definition rooms_created :: "delivery_env \<Rightarrow> bool" where
  "rooms_created env \<longleftrightarrow> (\<forall>k n. de_room env k n \<noteq> Inr False)"

lemma gmail_portal_ready_room:
  assumes "gmail_portal_ready env k w = (err, w')" and "rooms_created env"
  shows "dw_queued w' = dw_queued w \<and> dw_tm w' = dw_tm w \<and> (\<forall>k'. has_room w k' \<longrightarrow> has_room w' k') \<and>
    (err = None \<longrightarrow> has_room w' k)"
proof -
  let ?w1 = "if dw_portals w k = None then set_room k False w else w"
  have w1: "dw_queued ?w1 = dw_queued w" "dw_tm ?w1 = dw_tm w" "\<And>k'. has_room w k' \<Longrightarrow> has_room ?w1 k'"
    by (auto simp: has_room_def set_room_def)
  have room: "de_room env k 0 = Inr b \<Longrightarrow> b" for b
    using assms(2) unfolding rooms_created_def by metis
  let ?ready = "if has_room ?w1 k then (None, ?w1) else case de_room env k 0 of
     Inl e \<Rightarrow> (Some (Errorf ''create matrix room'' e), ?w1) | Inr b \<Rightarrow> (None, set_room k b ?w1)"
  have "w' = w \<and> err \<noteq> None \<or> gmail_portal_ready env k w = ?ready"
    using assms(1) by (cases "de_lookup env k"; cases "if dw_portals w k = None then de_create env k else None")
      (simp_all only: gmail_portal_ready_def Let_def option.case prod.inject, blast+)
  then show ?thesis
  proof (elim disjE)
    assume ready: "gmail_portal_ready env k w = ?ready"
    show ?thesis
    proof (cases "has_room ?w1 k")
      case True
      then have "err = None" "w' = ?w1" using assms(1) unfolding ready by simp_all
      with True w1 show ?thesis by simp
    next
      case False
      show ?thesis
      proof (cases "de_room env k 0")
        case (Inl e)
        then have "err \<noteq> None" "w' = ?w1" using False assms(1) unfolding ready by auto
        with w1 show ?thesis by blast
      next
        case (Inr b)
        then have "err = None" "w' = set_room k True ?w1" using False assms(1) room [OF Inr] unfolding ready by auto
        with w1 show ?thesis by simp
      qed
    qed
  qed blast
qed

lemma gmail_handleMessage_ok:
  assumes "map_order (range_known (de_thread env))" and "rooms_created env" and "delivery_ok w"
  shows "delivery_ok (snd (gmail_handleMessage env ps msg label w))"
proof (cases "ParseGmailAPIMessage ps (Some msg)")
  case Panics
  with assms show ?thesis by (simp add: gmail_handleMessage_def)
next
  case (Returns r)
  show ?thesis
  proof (cases r)
    case (Inl e)
    with Returns assms show ?thesis by (simp add: gmail_handleMessage_def)
  next
    case (Inr parsed)
    obtain email files where r: "parsed = (email, files)" by fastforce
    obtain res tm where p: "ProcessParsedEmail (de_thread env) (de_processor env) (de_receiver env) label (Some email) (dw_tm w) = (res, tm)"
      by fastforce
    have "tm_inv tm"
      using ProcessParsedEmail_inv [of "dw_tm w" "de_thread env" "de_processor env" "de_receiver env" label "Some email"] p assms
      by (simp add: delivery_ok_def)
    then have tm: "delivery_ok (w\<lparr>dw_tm := tm\<rparr>)"
      using assms(3) by (simp add: delivery_ok_def queued_have_rooms_def has_room_def)
    show ?thesis
    proof (cases "\<exists>m. res = Inr (Some m)")
      case False
      with Returns Inr r p tm show ?thesis
        by (auto simp: gmail_handleMessage_def split: sum.splits option.splits)
    next
      case True
      then obtain m where m: "res = Inr (Some m)" by blast
      obtain err w1 where g: "gmail_portal_ready env (em_portal m) (w\<lparr>dw_tm := tm\<rparr>) = (err, w1)" by fastforce
      note q = gmail_portal_ready_room [OF g assms(2)]
      have w1: "delivery_ok w1"
        using tm q unfolding delivery_ok_def queued_have_rooms_def by metis
      show ?thesis
      proof (cases err)
        case None
        obtain e w2 where qe: "queue_event env m w1 = (e, w2)" by fastforce
        with queue_event_rooms [OF qe] q None w1 have "delivery_ok w2" by (simp add: delivery_ok_def)
        with Returns Inr r p m g None qe show ?thesis by (simp add: gmail_handleMessage_def)
      next
        case (Some e)
        with Returns Inr r p m g w1 show ?thesis by (simp add: gmail_handleMessage_def)
      qed
    qed
  qed
qed

interpretation gmail_delivery: message_callback "gmail_handleMessage env ps"
    "\<lambda>w. map_order (range_known (de_thread env)) \<and> rooms_created env \<longrightarrow> delivery_ok w" for env ps
  by unfold_locales (simp add: gmail_handleMessage_ok)

text \<open>The two inbound transports on one world, in any order.\<close>

datatype 'q inbound_step =
    ImapRound delivery_env mail_answers bool gostring
  | GmailTick delivery_env "('q, gmail_message) gmail_api" mail_parsers "new_messages \<Rightarrow> new_messages"
      "nat \<Rightarrow> go_error option" "gostring list"

fun inbound_ok :: "'q inbound_step \<Rightarrow> bool" where
  "inbound_ok (ImapRound env ans isSent mailbox) = map_order (range_known (de_thread env))"
| "inbound_ok (GmailTick env api ps ord save labels) = (map_order (range_known (de_thread env)) \<and> rooms_created env)"

text \<open>The client, the cursor and the world; a poll that never ends changes nothing.\<close>

fun inbound_run :: "'q inbound_step \<Rightarrow> imap_client \<times> nat \<times> delivery_world \<Rightarrow> (imap_client \<times> nat \<times> delivery_world) \<times> unit" where
  "inbound_run (ImapRound env ans isSent mailbox) (c, cursor, w) =
     (let (err, c1, w1) = checkNewMessagesFor (processMessageWith env) ans True mailbox isSent c w in ((c1, cursor, w1), ()))"
| "inbound_run (GmailTick env api ps ord save labels) (c, cursor, w) =
     (case poll_tick api (gmail_handleMessage env ps) ord save labels (cursor, w) of
        None \<Rightarrow> ((c, cursor, w), ())
      | Some (cursor1, w1) \<Rightarrow> ((c, cursor1, w1), ()))"

lemma inbound_run_ok:
  assumes "delivery_ok (snd (snd s))" and "inbound_ok e"
  shows "delivery_ok (snd (snd (fst (inbound_run e s))))"
proof -
  obtain c cursor w where s: "s = (c, cursor, w)" by (metis prod_cases3)
  show ?thesis
  proof (cases e)
    case (ImapRound env ans isSent mailbox)
    then show ?thesis
      using delivery.check_keeps [of env w ans True mailbox isSent c] assms s
      by (simp add: case_prod_unfold Let_def)
  next
    case (GmailTick env api ps ord save labels)
    show ?thesis
    proof (cases "poll_tick api (gmail_handleMessage env ps) ord save labels (cursor, w)")
      case None
      with GmailTick s assms show ?thesis by simp
    next
      case (Some r)
      obtain cursor1 w1 where r: "r = (cursor1, w1)" by fastforce
      have "delivery_ok w1"
        using gmail_delivery.poll_keeps [OF Some [unfolded r]] assms s GmailTick by simp
      with GmailTick s Some r show ?thesis by simp
    qed
  qed
qed

interpretation inbound: machine inbound_run inbound_ok "\<lambda>s. delivery_ok (snd (snd s))"
  by unfold_locales (metis fst_conv inbound_run_ok)

text \<open>
  C19: an event reaches the bridge's queue only when its portal has a Matrix room: in any
  interleaving of IMAP checks and Gmail polls, whatever the mail servers, the portal store and the
  homeserver answer, every queued event has a portal with a room and the thread tables stay sound.
\<close>

theorem inbound_events_have_rooms:
  assumes "list_all inbound_ok es" and "tm_inv (dw_tm w)" and "\<forall>m \<in> set (dw_queued w). has_room w (em_portal m)"
  shows "case run_steps inbound_run es (c, cursor, w) of ((c', cursor', w'), _) \<Rightarrow>
    tm_inv (dw_tm w') \<and> (\<forall>m \<in> set (dw_queued w'). has_room w' (em_portal m))"
proof -
  have "delivery_ok (snd (snd (c, cursor, w)))" using assms(2,3) by (simp add: delivery_ok_def queued_have_rooms_def)
  from inbound.run_inv_fst [OF this assms(1)] show ?thesis
    by (simp add: delivery_ok_def queued_have_rooms_def case_prod_unfold)
qed

definition quiet_gmail :: "(unit, gmail_message) gmail_api" where
  "quiet_gmail = \<lparr>ga_service = None, ga_new_list = (\<lambda>_. ()), ga_label_id = (\<lambda>_ q. q), ga_page_token = (\<lambda>_ q. q),
     ga_list = (\<lambda>_. Inr \<lparr>hp_History = [], hp_HistoryId = 9, hp_NextPageToken = []\<rparr>),
     ga_profile = Inr 9, ga_get = (\<lambda>_. Inl (Err ''gone''))\<rparr>"

theorem inbound_events_have_rooms_witness:
  "case run_steps inbound_run
      [ImapRound sample_delivery (plain_answers [7]) False ''INBOX'',
       GmailTick (sample_delivery\<lparr>de_room := \<lambda>_ _. Inr True\<rparr>) quiet_gmail
         \<lparr>mp_list = (\<lambda>_. None), mp_date = (\<lambda>_. None), mp_base64 = (\<lambda>_. None)\<rparr> (\<lambda>xs. xs) (\<lambda>_. None) [''INBOX''],
       ImapRound sample_delivery (plain_answers [7, 8]) False ''INBOX'']
      (fresh_client, 5, empty_delivery) of ((c', cursor', w'), _) \<Rightarrow>
    tm_inv (dw_tm w') \<and> (\<forall>m \<in> set (dw_queued w'). has_room w' (em_portal m))"
  by (rule inbound_events_have_rooms)
    (simp_all add: sample_delivery_def plain_env_def map_order_id rooms_created_def empty_delivery_def tm_inv_init)

end
