(* ===== verification/GmailPollers.thy ===== *)
theory GmailPollers
  imports Machines
begin

text \<open>
  The manager of the pollers of \<open>pkg/connector/gmail_inbound.go\<close>: it keeps at most one running
  poller per account, and what becomes of an account whose poller has ended.
\<close>

subsection \<open>The manager\<close>

text \<open>
  Pollers are numbered in the order they are started; \<open>gi_runners\<close> is the map of the manager.
  \<open>'t\<close> is the type of token sources.
\<close>

record 't gmail_runner =
  gr_key :: gostring
  gr_labels :: "gostring list"
  gr_tokens :: 't
  gr_running :: bool

record 't gmail_inbound =
  gi_runners :: "gostring \<rightharpoonup> nat"
  gi_pollers :: "'t gmail_runner list"

definition NewGmailInboundManager :: "'t gmail_inbound" where
  "NewGmailInboundManager = \<lparr>gi_runners = Map.empty, gi_pollers = []\<rparr>"

definition runner_key :: "gostring \<Rightarrow> gostring \<Rightarrow> gostring" where
  "runner_key userMXID email = userMXID @ ''|'' @ email"

definition inbound_Start ::
  "gostring \<Rightarrow> gostring \<Rightarrow> gostring list \<Rightarrow> 't \<Rightarrow> 't gmail_inbound \<Rightarrow> 't gmail_inbound" where
  "inbound_Start user email labels tokens m =
     (let key = runner_key user email in
      if gi_runners m key \<noteq> None then m
      else m\<lparr>gi_runners := (gi_runners m)(key \<mapsto> length (gi_pollers m)),
             gi_pollers := gi_pollers m @ [\<lparr>gr_key = key, gr_labels = labels, gr_tokens = tokens, gr_running = True\<rparr>]\<rparr>)"

definition stop_poller :: "nat \<Rightarrow> 't gmail_inbound \<Rightarrow> 't gmail_inbound" where
  "stop_poller i m = m\<lparr>gi_pollers := (gi_pollers m)[i := (gi_pollers m ! i)\<lparr>gr_running := False\<rparr>]\<rparr>"

definition inbound_Stop :: "gostring \<Rightarrow> gostring \<Rightarrow> 't gmail_inbound \<Rightarrow> 't gmail_inbound" where
  "inbound_Stop user email m =
     (let key = runner_key user email; m1 = m\<lparr>gi_runners := (gi_runners m)(key := None)\<rparr>
      in case gi_runners m key of None \<Rightarrow> m1 | Some i \<Rightarrow> stop_poller i m1)"

definition inbound_StopAll :: "'t gmail_inbound \<Rightarrow> 't gmail_inbound" where
  "inbound_StopAll m = m\<lparr>gi_runners := Map.empty,
     gi_pollers := map (\<lambda>i. if \<exists>k \<in> {gr_key (gi_pollers m ! i)}. gi_runners m k = Some i
        then (gi_pollers m ! i)\<lparr>gr_running := False\<rparr> else gi_pollers m ! i) [0..<length (gi_pollers m)]\<rparr>"

text \<open>\<open>Run\<close> returned with an error: the goroutine ends and leaves its entry in the map.\<close>

definition poller_exits :: "nat \<Rightarrow> 't gmail_inbound \<Rightarrow> 't gmail_inbound" where
  "poller_exits i m = (if i < length (gi_pollers m) then stop_poller i m else m)"

datatype 't gmail_inbound_event =
    GStart gostring gostring "gostring list" 't
  | GStop gostring gostring
  | GStopAll
  | GExit nat

fun gmail_inbound_step :: "'t gmail_inbound_event \<Rightarrow> 't gmail_inbound \<Rightarrow> 't gmail_inbound \<times> unit" where
  "gmail_inbound_step (GStart user email labels tokens) m = (inbound_Start user email labels tokens m, ())"
| "gmail_inbound_step (GStop user email) m = (inbound_Stop user email m, ())"
| "gmail_inbound_step GStopAll m = (inbound_StopAll m, ())"
| "gmail_inbound_step (GExit i) m = (poller_exits i m, ())"

text \<open>The map points at pollers under their own key, and every running poller is in the map.\<close>

definition runners_ok :: "'t gmail_inbound \<Rightarrow> bool" where
  "runners_ok m \<longleftrightarrow>
     (\<forall>key i. gi_runners m key = Some i \<longrightarrow> i < length (gi_pollers m) \<and> gr_key (gi_pollers m ! i) = key) \<and>
     (\<forall>i < length (gi_pollers m). gr_running (gi_pollers m ! i) \<longrightarrow> gi_runners m (gr_key (gi_pollers m ! i)) = Some i)"

lemma runners_okI:
  assumes "\<And>key i. gi_runners m key = Some i \<Longrightarrow> i < length (gi_pollers m) \<and> gr_key (gi_pollers m ! i) = key"
    and "\<And>i. i < length (gi_pollers m) \<Longrightarrow> gr_running (gi_pollers m ! i) \<Longrightarrow> gi_runners m (gr_key (gi_pollers m ! i)) = Some i"
  shows "runners_ok m"
  using assms by (simp add: runners_ok_def)

lemma runners_okD:
  assumes "runners_ok m"
  shows "gi_runners m key = Some i \<Longrightarrow> i < length (gi_pollers m) \<and> gr_key (gi_pollers m ! i) = key"
    and "i < length (gi_pollers m) \<Longrightarrow> gr_running (gi_pollers m ! i) \<Longrightarrow> gi_runners m (gr_key (gi_pollers m ! i)) = Some i"
  using assms by (simp_all add: runners_ok_def)

lemma stop_poller_nth:
  "length (gi_pollers (stop_poller i m)) = length (gi_pollers m)"
  "j < length (gi_pollers m) \<Longrightarrow> gr_key (gi_pollers (stop_poller i m) ! j) = gr_key (gi_pollers m ! j)"
  "j < length (gi_pollers m) \<Longrightarrow> gr_running (gi_pollers (stop_poller i m) ! j) = (gr_running (gi_pollers m ! j) \<and> i \<noteq> j)"
  "gi_runners (stop_poller i m) = gi_runners m"
  by (cases "i = j"; simp add: stop_poller_def)+

lemma gmail_inbound_step_ok:
  assumes "runners_ok m" shows "runners_ok (fst (gmail_inbound_step e m))"
proof (cases e)
  case (GStart user email labels tokens)
  let ?key = "runner_key user email"
  show ?thesis
  proof (cases "gi_runners m ?key")
    case None
    let ?p = "\<lparr>gr_key = ?key, gr_labels = labels, gr_tokens = tokens, gr_running = True\<rparr>"
    have m': "fst (gmail_inbound_step e m) = m\<lparr>gi_runners := (gi_runners m)(?key \<mapsto> length (gi_pollers m)),
        gi_pollers := gi_pollers m @ [?p]\<rparr>"
      using GStart None by (simp add: inbound_Start_def Let_def)
    have old: "gr_key (gi_pollers m ! i) \<noteq> ?key" if "i < length (gi_pollers m)" "gr_running (gi_pollers m ! i)" for i
      using assms that None unfolding runners_ok_def by (metis option.distinct(1))
    show ?thesis
      unfolding m' runners_ok_def
    proof (intro conjI allI impI, goal_cases)
      case (1 key i)
      with assms show ?case by (auto simp: runners_ok_def nth_append split: if_splits dest: less_SucI)
    next
      case (2 key i)
      with assms show ?case by (auto simp: runners_ok_def nth_append split: if_splits)
    next
      case (3 i)
      then consider "i = length (gi_pollers m)" | "i < length (gi_pollers m)" "gr_running (gi_pollers m ! i)"
        by (auto simp: nth_append less_Suc_eq)
      then show ?case using assms old by cases (auto simp: runners_ok_def nth_append)
    qed
  next
    case (Some i)
    with GStart assms show ?thesis by (simp add: inbound_Start_def Let_def)
  qed
next
  case (GStop user email)
  show ?thesis
  proof (cases "gi_runners m (runner_key user email)")
    case None
    with GStop have "fst (gmail_inbound_step e m) = m" by (simp add: inbound_Stop_def Let_def fun_upd_idem)
    with assms show ?thesis by simp
  next
    case (Some i)
    let ?m1 = "m\<lparr>gi_runners := (gi_runners m)(runner_key user email := None)\<rparr>"
    have m': "fst (gmail_inbound_step e m) = stop_poller i ?m1"
      using GStop Some by (simp add: inbound_Stop_def Let_def)
    show ?thesis
      unfolding m'
    proof (rule runners_okI)
      fix key j assume "gi_runners (stop_poller i ?m1) key = Some j"
      then have "gi_runners m key = Some j" by (simp add: stop_poller_nth split: if_splits)
      from runners_okD(1) [OF assms this]
      show "j < length (gi_pollers (stop_poller i ?m1)) \<and> gr_key (gi_pollers (stop_poller i ?m1) ! j) = key"
        by (simp add: stop_poller_nth)
    next
      fix j assume j: "j < length (gi_pollers (stop_poller i ?m1))" "gr_running (gi_pollers (stop_poller i ?m1) ! j)"
      then have j': "j < length (gi_pollers m)" "gr_running (gi_pollers m ! j)" "i \<noteq> j" by (simp_all add: stop_poller_nth)
      have "gi_runners m (gr_key (gi_pollers m ! j)) = Some j" by (rule runners_okD(2) [OF assms j'(1,2)])
      moreover have "gr_key (gi_pollers m ! j) \<noteq> runner_key user email" using calculation Some j'(3) by auto
      ultimately show "gi_runners (stop_poller i ?m1) (gr_key (gi_pollers (stop_poller i ?m1) ! j)) = Some j"
        using j'(1) by (simp add: stop_poller_nth)
    qed
  qed
next
  case GStopAll
  show ?thesis
    unfolding GStopAll
  proof (rule runners_okI)
    fix j assume "j < length (gi_pollers (fst (gmail_inbound_step GStopAll m)))"
      and "gr_running (gi_pollers (fst (gmail_inbound_step GStopAll m)) ! j)"
    then have "j < length (gi_pollers m)" "gr_running (gi_pollers m ! j)" "gi_runners m (gr_key (gi_pollers m ! j)) \<noteq> Some j"
      by (simp_all add: inbound_StopAll_def split: if_splits)
    with runners_okD(2) [OF assms] have False by blast
    then show "gi_runners (fst (gmail_inbound_step GStopAll m)) (gr_key (gi_pollers (fst (gmail_inbound_step GStopAll m)) ! j)) = Some j" ..
  qed (simp add: inbound_StopAll_def)
next
  case (GExit i)
  show ?thesis
  proof (cases "i < length (gi_pollers m)")
    case True
    then have m': "fst (gmail_inbound_step e m) = stop_poller i m" using GExit by (simp add: poller_exits_def)
    show ?thesis
      unfolding m' by (rule runners_okI) (use runners_okD [OF assms] in \<open>simp_all add: stop_poller_nth\<close>)
  qed (use GExit assms in \<open>simp add: poller_exits_def\<close>)
qed

interpretation gmail_pollers: machine gmail_inbound_step "\<lambda>_. True" runners_ok
  by unfold_locales (metis fst_conv gmail_inbound_step_ok)

lemma one_poller_per_account:
  assumes "run_steps gmail_inbound_step es NewGmailInboundManager = (m, rs)"
    and "i < length (gi_pollers m)" "j < length (gi_pollers m)"
    and "gr_running (gi_pollers m ! i)" "gr_running (gi_pollers m ! j)"
    and "gr_key (gi_pollers m ! i) = gr_key (gi_pollers m ! j)"
  shows "i = j"
proof -
  have "runners_ok m"
    using gmail_pollers.run_inv [OF _ _ assms(1)] by (simp add: runners_ok_def NewGmailInboundManager_def list_all_iff)
  with assms(2-6) show ?thesis unfolding runners_ok_def by (metis option.inject)
qed

definition no_stop :: "gostring \<Rightarrow> 't gmail_inbound_event \<Rightarrow> bool" where
  "no_stop key e = (case e of GStop user email \<Rightarrow> runner_key user email \<noteq> key | GStopAll \<Rightarrow> False | _ \<Rightarrow> True)"

definition account_dead :: "gostring \<Rightarrow> 't gmail_inbound \<Rightarrow> bool" where
  "account_dead key m \<longleftrightarrow> runners_ok m \<and> (\<exists>i. gi_runners m key = Some i \<and> \<not> gr_running (gi_pollers m ! i))"

lemma account_stays_dead:
  assumes "account_dead key m" and "no_stop key e"
  shows "account_dead key (fst (gmail_inbound_step e m))"
proof -
  have ok: "runners_ok (fst (gmail_inbound_step e m))"
    using assms(1) gmail_inbound_step_ok by (auto simp: account_dead_def)
  obtain i where i: "gi_runners m key = Some i" "\<not> gr_running (gi_pollers m ! i)" "i < length (gi_pollers m)"
    using assms(1) by (auto simp: account_dead_def runners_ok_def)
  have "gi_runners (fst (gmail_inbound_step e m)) key = Some i \<and> \<not> gr_running (gi_pollers (fst (gmail_inbound_step e m)) ! i)"
    using assms(2) i
    by (cases e) (auto simp: no_stop_def inbound_Start_def inbound_Stop_def poller_exits_def Let_def nth_append
        stop_poller_nth split: option.split)
  with ok show ?thesis by (auto simp: account_dead_def)
qed

lemma dead_account_idle:
  assumes "account_dead key m" and "p \<in> set (gi_pollers m)" and "gr_key p = key"
  shows "\<not> gr_running p"
proof -
  obtain j where "j < length (gi_pollers m)" "gi_pollers m ! j = p" using assms(2) unfolding in_set_conv_nth by blast
  with assms(1,3) show ?thesis unfolding account_dead_def runners_ok_def by (metis option.inject)
qed

interpretation dead_account: machine gmail_inbound_step "no_stop key" "account_dead key" for key
  by unfold_locales (metis fst_conv account_stays_dead)

text \<open>
  A poller that has ended, for instance because its refresh token was revoked, stays in the map,
  so starting the account again, after a new login with new tokens, changes nothing: no poller
  runs for the account, whatever else happens, until it is stopped explicitly.
\<close>

theorem dead_poller_blocks_login:
  assumes "run_steps gmail_inbound_step es NewGmailInboundManager = (m, rs)"
    and "gi_runners m (runner_key user email) = Some i"
    and "list_all (no_stop (runner_key user email)) later"
  shows "case run_steps gmail_inbound_step (GExit i # later @ [GStart user email labels tokens]) m of (m', _) \<Rightarrow>
    \<forall>p \<in> set (gi_pollers m'). gr_key p = runner_key user email \<longrightarrow> \<not> gr_running p"
proof -
  let ?key = "runner_key user email" and ?es = "later @ [GStart user email labels tokens]"
  have ok: "runners_ok m"
    using gmail_pollers.run_inv [OF _ _ assms(1)] by (simp add: runners_ok_def NewGmailInboundManager_def list_all_iff)
  let ?m1 = "fst (gmail_inbound_step (GExit i) m)"
  have "i < length (gi_pollers m)" using ok assms(2) by (auto simp: runners_ok_def)
  then have "account_dead ?key ?m1"
    using ok assms(2) gmail_inbound_step_ok [OF ok, of "GExit i"]
    by (auto simp: account_dead_def poller_exits_def stop_poller_nth)
  moreover have "list_all (no_stop ?key) ?es" using assms(3) by (simp add: no_stop_def)
  ultimately have dead: "account_dead ?key (fst (run_steps gmail_inbound_step ?es ?m1))"
    by (rule dead_account.run_inv_fst)
  have "fst (run_steps gmail_inbound_step (GExit i # ?es) m) = fst (run_steps gmail_inbound_step ?es ?m1)"
    by (simp only: fst_run_steps fold_simps)
  with dead_account_idle [OF dead] show ?thesis by (simp only: case_prod_unfold) blast
qed

theorem dead_poller_blocks_login_witness:
  "case run_steps gmail_inbound_step [GExit 0, GStart ''@u:x.org'' ''u@gmail.com'' [''INBOX''] (2 :: nat)]
     (inbound_Start ''@u:x.org'' ''u@gmail.com'' [''INBOX''] (1 :: nat) NewGmailInboundManager) of (m, _) \<Rightarrow>
   \<forall>p \<in> set (gi_pollers m). gr_key p = runner_key ''@u:x.org'' ''u@gmail.com'' \<longrightarrow> \<not> gr_running p"
proof -
  let ?m = "inbound_Start ''@u:x.org'' ''u@gmail.com'' [''INBOX''] (1 :: nat) NewGmailInboundManager"
  have r: "run_steps gmail_inbound_step [GStart ''@u:x.org'' ''u@gmail.com'' [''INBOX''] 1] NewGmailInboundManager = (?m, [()])"
    by simp
  have i: "gi_runners ?m (runner_key ''@u:x.org'' ''u@gmail.com'') = Some 0"
    by (simp add: inbound_Start_def NewGmailInboundManager_def Let_def)
  from dead_poller_blocks_login [OF r i, of "[]" "[''INBOX'']" 2] show ?thesis by simp
qed

end
