(* ===== verification/ImapConn.thy ===== *)
theory ImapConn
  imports ImapMailbox Retry
begin

text \<open>
  The connection side of \<open>pkg/imap/client.go\<close>: connecting, reconnecting, resetting, IDLE start and
  recovery, shutdown, and the watchdog of \<open>pkg/imap/manager.go\<close>.  Go's mutexes are not reentrant:
  an operation that locks a mutex its own goroutine already holds never returns, which is the
  outcome \<open>Blocked\<close>, with the state (and the locks) it leaves.  The circuit breaker is the one of
  \<open>Breaker\<close>, entered around state-changing code, so nested \<open>Execute\<close> calls see each other.
  The network answers by the number of connections dialled so far.
\<close>

subsection \<open>Outcomes and locks\<close>

datatype ('a, 's) outcome = Done 'a 's | Blocked 's

definition and_then :: "('a, 's) outcome \<Rightarrow> ('a \<Rightarrow> 's \<Rightarrow> ('b, 's) outcome) \<Rightarrow> ('b, 's) outcome" where
  "and_then r f = (case r of Done a s \<Rightarrow> f a s | Blocked s \<Rightarrow> Blocked s)"

lemma and_then_simps [simp]:
  "and_then (Done a s) f = f a s" "and_then (Blocked s) f = Blocked s"
  by (simp_all add: and_then_def)

record 'w imap_conn =
  box :: imap_client
  mu :: bool
  connectingMu :: bool
  circuitBreaker :: "circuit_breaker option"
  isShutdown :: bool
  stopClosed :: bool
  idleLoops :: nat
  sentClient :: bool
  reports :: "(gostring \<times> gostring \<times> bool \<times> gostring) list"
  dials :: nat
  now :: int
  world :: 'w

type_synonym 'w conn_result = "(go_error option, 'w imap_conn) outcome"

definition with_mu :: "('w imap_conn \<Rightarrow> ('a, 'w imap_conn) outcome) \<Rightarrow> 'w imap_conn \<Rightarrow> ('a, 'w imap_conn) outcome" where
  "with_mu f s = (if mu s then Blocked s
     else and_then (f (s\<lparr>mu := True\<rparr>)) (\<lambda>a s'. Done a (s'\<lparr>mu := False\<rparr>)))"

definition with_connectingMu ::
  "('w imap_conn \<Rightarrow> ('a, 'w imap_conn) outcome) \<Rightarrow> 'w imap_conn \<Rightarrow> ('a, 'w imap_conn) outcome" where
  "with_connectingMu f s = (if connectingMu s then Blocked s
     else and_then (f (s\<lparr>connectingMu := True\<rparr>)) (\<lambda>a s'. Done a (s'\<lparr>connectingMu := False\<rparr>)))"

definition report :: "gostring \<Rightarrow> gostring \<Rightarrow> bool \<Rightarrow> gostring \<Rightarrow> 'w imap_conn \<Rightarrow> 'w imap_conn" where
  "report component event conn code s = s\<lparr>reports := reports s @ [(component, event, conn, code)]\<rparr>"

definition set_box :: "(imap_client \<Rightarrow> imap_client) \<Rightarrow> 'w imap_conn \<Rightarrow> 'w imap_conn" where
  "set_box f s = s\<lparr>box := f (box s)\<rparr>"

subsection \<open>The network\<close>

datatype auth_answer = AuthOk | AuthErr go_error | AuthLate

record 'w net_env =
  ne_addr :: gostring
  ne_noop :: "nat \<Rightarrow> go_error option"
  ne_dial :: "nat \<Rightarrow> go_error option"
  ne_oauth :: bool
  ne_static_token :: gostring
  ne_provider :: "(nat \<Rightarrow> go_error + gostring) option"
  ne_auth :: "nat \<Rightarrow> auth_answer"
  ne_select :: "nat \<Rightarrow> go_error option"
  ne_mail :: "nat \<Rightarrow> mail_answers"
  ne_idle :: "nat \<Rightarrow> go_error option"
  ne_process :: "uid \<Rightarrow> 'w \<Rightarrow> go_error option \<times> 'w"
  ne_sentFolder :: gostring
  ne_ctx :: "go_error option"
  ne_delay :: "nat \<Rightarrow> int"
  ne_coordinated :: bool

definition report_if :: "'w net_env \<Rightarrow> gostring \<Rightarrow> gostring \<Rightarrow> bool \<Rightarrow> gostring \<Rightarrow> 'w imap_conn \<Rightarrow> 'w imap_conn" where
  "report_if env component event conn code s =
     (if ne_coordinated env then report component event conn code s else s)"

text \<open>The access token: a fresh one from the provider when there is one and it gives one.\<close>

definition access_token :: "'w net_env \<Rightarrow> nat \<Rightarrow> go_error + gostring" where
  "access_token env d =
     (let pick = (\<lambda>t. if t = [] then Inl (Err ''xoauth2: empty access token'') else Inr t) in
      case ne_provider env of
        None \<Rightarrow> pick (ne_static_token env)
      | Some prov \<Rightarrow> (case prov d of
            Inl e \<Rightarrow> Inl (Errorf ''oauth token refresh'' e)
          | Inr fresh \<Rightarrow> pick (if fresh \<noteq> [] then fresh else ne_static_token env)))"

definition authenticate :: "'w net_env \<Rightarrow> nat \<Rightarrow> go_error option" where
  "authenticate env d =
     (if ne_oauth env then
        (case access_token env d of
           Inl e \<Rightarrow> Some e
         | Inr _ \<Rightarrow> (case ne_auth env d of
               AuthOk \<Rightarrow> None
             | AuthErr e \<Rightarrow> Some (Errorf ''IMAP XOAUTH2 failed'' e)
             | AuthLate \<Rightarrow> Some (Err ''IMAP XOAUTH2 context cancelled: context deadline exceeded'')))
      else (case ne_auth env d of
          AuthOk \<Rightarrow> None
        | AuthErr e \<Rightarrow> Some (Errorf ''IMAP login failed'' e)
        | AuthLate \<Rightarrow> Some (Err ''IMAP login timed out after 45s'')))"

definition testConnectionNoLock :: "'w net_env \<Rightarrow> 'w imap_conn \<Rightarrow> go_error option" where
  "testConnectionNoLock env s =
     (if \<not> connected_inbox (box s) \<or> \<not> client_inbox (box s) then Some (Err ''IMAP client not connected'')
      else ne_noop env (dials s))"

definition connect_body :: "'w net_env \<Rightarrow> 'w imap_conn \<Rightarrow> 'w conn_result" where
  "connect_body env s0 =
     (if connected_inbox (box s0) \<and> testConnectionNoLock env s0 = None then Done None s0
      else
        let s1 = (if connected_inbox (box s0) then set_box dropConnection s0 else s0);
            s2 = set_box (\<lambda>c. c\<lparr>idling := False, connected_inbox := False\<rparr>) s1;
            d = dials s2;
            s3 = s2\<lparr>dials := Suc d\<rparr>
        in case ne_dial env d of
             Some e \<Rightarrow> Done (Some (Errorf (''failed to connect to '' @ ne_addr env) e)) s3
           | None \<Rightarrow>
               (let s4 = set_box (\<lambda>c. c\<lparr>client_inbox := True\<rparr>) s3 in
                case authenticate env d of
                  Some e \<Rightarrow> Done (Some e) s4
                | None \<Rightarrow> Done None (report_if env ''inbox'' ''connection_established'' True []
                                      (set_box (\<lambda>c. c\<lparr>connected_inbox := True\<rparr>) s4))))"

definition connectInternal :: "'w net_env \<Rightarrow> 'w imap_conn \<Rightarrow> 'w conn_result" where
  "connectInternal env = with_mu (connect_body env)"

subsection \<open>Through the circuit breaker\<close>

text \<open>The callback reports every change of the breaker's state.\<close>

fun breaker_report :: "breaker_state \<Rightarrow> gostring \<times> gostring \<times> bool \<times> gostring" where
  "breaker_report StateClosed = (''circuit_breaker'', ''circuit_closed'', True, [])"
| "breaker_report StateHalfOpen = (''circuit_breaker'', ''circuit_half_open'', False, ''E-EMAIL-007'')"
| "breaker_report StateOpen = (''circuit_breaker'', ''circuit_opened'', False, ''E-EMAIL-007'')"

definition put_breaker :: "'w net_env \<Rightarrow> circuit_breaker \<Rightarrow> notices \<Rightarrow> 'w imap_conn \<Rightarrow> 'w imap_conn" where
  "put_breaker env cb ns s = s\<lparr>circuitBreaker := Some cb,
     reports := reports s @ (if ne_coordinated env then map (breaker_report \<circ> snd) ns else [])\<rparr>"

definition guarded ::
  "'w net_env \<Rightarrow> ('w imap_conn \<Rightarrow> 'w conn_result) \<Rightarrow> 'w imap_conn \<Rightarrow> 'w conn_result" where
  "guarded env f s =
     (case circuitBreaker s of
        None \<Rightarrow> f s
      | Some cb \<Rightarrow>
          (case checkStateAndIncrement (now s) cb of
             (Inl e, cb1, ns) \<Rightarrow> Done (Some e) (put_breaker env cb1 ns s)
           | (Inr sd, cb1, ns) \<Rightarrow>
               and_then (f (put_breaker env cb1 ns s)) (\<lambda>err s1.
                 (case circuitBreaker s1 of
                    None \<Rightarrow> Done err s1
                  | Some cb1' \<Rightarrow> (let (cb2, ns2) = recordResult (now s1) err cb1'
                                  in Done err (put_breaker env (release_slot sd cb2) ns2 s1))))))"

text \<open>The retry loop around code that changes the state; a wait advances the clock.\<close>

fun retry_in ::
  "'w net_env \<Rightarrow> nat \<Rightarrow> nat \<Rightarrow> ('w imap_conn \<Rightarrow> 'w conn_result) \<Rightarrow> 'w imap_conn \<Rightarrow> 'w conn_result" where
  "retry_in env 0 k f s = Done None s"
| "retry_in env (Suc left) k f s =
     and_then (f s) (\<lambda>err s1.
       case err of
         None \<Rightarrow> Done None s1
       | Some e \<Rightarrow>
           if left = 0 \<or> \<not> ShouldRetry (Some e) then Done (Some e) s1
           else case ne_ctx env of
                  Some ce \<Rightarrow> Done (Some ce) s1
                | None \<Rightarrow> retry_in env left (Suc k) f (s1\<lparr>now := now s1 + retry_wait e (ne_delay env k)\<rparr>))"

definition network_attempts :: nat where
  "network_attempts = nat (MaxAttempts (normalize_config NetworkRetryConfig))"

subsection \<open>Connecting, disconnecting, reconnecting\<close>

definition Connect :: "'w net_env \<Rightarrow> 'w imap_conn \<Rightarrow> 'w conn_result" where
  "Connect env = with_connectingMu (guarded env (connectInternal env))"

definition disconnect_body :: "'w net_env \<Rightarrow> 'w imap_conn \<Rightarrow> 'w conn_result" where
  "disconnect_body env s =
     (if \<not> connected_inbox (box s) then Done None s
      else
        let s1 = (if idling (box s) then set_box (\<lambda>c. c\<lparr>idling := False\<rparr>) (s\<lparr>stopClosed := True\<rparr>) else s);
            s2 = report_if env ''inbox'' ''connection_closed'' False []
                   (set_box (\<lambda>c. c\<lparr>client_inbox := False, connected_inbox := False\<rparr>) s1)
        in Done None (if sentClient s2
             then report_if env ''sent'' ''connection_closed'' False [] (s2\<lparr>sentClient := False\<rparr>) else s2))"

definition Disconnect :: "'w net_env \<Rightarrow> 'w imap_conn \<Rightarrow> 'w conn_result" where
  "Disconnect env = with_mu (disconnect_body env)"

definition reconnectClient :: "'w net_env \<Rightarrow> 'w imap_conn \<Rightarrow> 'w conn_result" where
  "reconnectClient env = with_connectingMu (\<lambda>s.
     and_then (Disconnect env s) (\<lambda>_ s1.
       retry_in env network_attempts 0 (guarded env (connectInternal env)) s1))"

definition Shutdown :: "'w net_env \<Rightarrow> 'w imap_conn \<Rightarrow> 'w conn_result" where
  "Shutdown env = with_mu (\<lambda>s.
     if isShutdown s then Done None s
     else
       let s1 = s\<lparr>isShutdown := True\<rparr>;
           s2 = (if idling (box s1) then set_box (\<lambda>c. c\<lparr>idling := False\<rparr>) (s1\<lparr>stopClosed := True\<rparr>) else s1)
       in Disconnect env s2)"

subsection \<open>IDLE\<close>

definition already_running :: "go_error \<Rightarrow> bool" where
  "already_running e = (contains_sub (error_text e) ''already running'' \<or> contains_sub (error_text e) ''IDLE already'')"

definition idle_failed :: "go_error \<Rightarrow> 'w imap_conn \<Rightarrow> 'w conn_result" where
  "idle_failed e = with_mu (\<lambda>s. Done (Some e) (set_box (\<lambda>c. c\<lparr>idling := False\<rparr>) s))"

text \<open>\<open>reset\<close> is the call of \<open>resetConnection\<close> inside \<open>StartIDLE\<close>.\<close>

definition StartIDLE_with ::
  "('w imap_conn \<Rightarrow> 'w conn_result) \<Rightarrow> 'w net_env \<Rightarrow> 'w imap_conn \<Rightarrow> 'w conn_result" where
  "StartIDLE_with reset env s =
     and_then (with_mu (\<lambda>s.
         if idling (box s) then Done (Some (Err ''IDLE already running'')) s
         else if \<not> connected_inbox (box s) then Done (Some (Err ''not connected to IMAP server'')) s
         else Done None (set_box (\<lambda>c. c\<lparr>idling := True\<rparr>) (s\<lparr>stopClosed := False\<rparr>))) s)
       (\<lambda>err s1. case err of
          Some e \<Rightarrow> Done (Some e) s1
        | None \<Rightarrow>
            (case ne_select env (dials s1) of
               Some e \<Rightarrow> idle_failed (Errorf ''failed to select INBOX'' e) s1
             | None \<Rightarrow>
                 (case primeBaselineAndBackfillFor (ne_process env) (ne_mail env (dials s1)) (client_inbox (box s1))
                         False (box s1) (world s1) of
                    (Some e, c, w) \<Rightarrow> idle_failed (Errorf ''failed to prime baseline/backfill'' e) (s1\<lparr>box := c, world := w\<rparr>)
                  | (None, c, w) \<Rightarrow>
                      (let s2 = s1\<lparr>box := c, world := w\<rparr> in
                       case ne_idle env (dials s2) of
                         None \<Rightarrow> Done None (s2\<lparr>idleLoops := Suc (idleLoops s2)\<rparr>)
                       | Some e \<Rightarrow>
                           if already_running e
                           then and_then (reset s2) (\<lambda>err s3. case err of
                                  None \<Rightarrow> Done None s3 | Some e' \<Rightarrow> idle_failed e' s3)
                           else idle_failed (Errorf ''failed to test IDLE capability'' e) s2))))"

text \<open>
  \<open>resetConnection\<close> holds \<open>connectingMu\<close> while it starts IDLE, so a nested reset blocks on its first
  statement.
\<close>

definition resetConnection :: "'w net_env \<Rightarrow> 'w imap_conn \<Rightarrow> 'w conn_result" where
  "resetConnection env = with_connectingMu (\<lambda>s.
     and_then (with_mu (\<lambda>s. Done () (set_box dropConnection s)) s) (\<lambda>_ s1.
       and_then (connectInternal env (s1\<lparr>now := now s1 + 2 * second\<rparr>)) (\<lambda>err s2.
         case err of
           Some e \<Rightarrow> Done (Some (Errorf ''failed to reconnect after reset'' e)) s2
         | None \<Rightarrow> StartIDLE_with Blocked env s2)))"

definition StartIDLE :: "'w net_env \<Rightarrow> 'w imap_conn \<Rightarrow> 'w conn_result" where
  "StartIDLE env = StartIDLE_with (resetConnection env) env"

lemma nested_reset_blocks: "connectingMu s \<Longrightarrow> resetConnection env s = Blocked s"
  by (simp add: resetConnection_def with_connectingMu_def)

definition StopIDLE :: "'w imap_conn \<Rightarrow> 'w conn_result" where
  "StopIDLE = with_mu (\<lambda>s. Done None
     (if idling (box s) then set_box (\<lambda>c. c\<lparr>idling := False\<rparr>) (s\<lparr>stopClosed := True\<rparr>) else s))"

definition performIDLERecovery :: "'w net_env \<Rightarrow> 'w imap_conn \<Rightarrow> 'w conn_result" where
  "performIDLERecovery env s =
     (if circuitBreaker s = None then reconnectClient env s
      else retry_in env network_attempts 0
             (guarded env (\<lambda>s1. and_then (reconnectClient env s1) (\<lambda>err s2.
                case err of Some e \<Rightarrow> Done (Some e) s2 | None \<Rightarrow> StartIDLE env s2))) s)"

text \<open>The \<open>reconnect\<close> signal of the IDLE loop.\<close>

definition reconnect_signal :: "'w net_env \<Rightarrow> 'w imap_conn \<Rightarrow> 'w conn_result" where
  "reconnect_signal env = guarded env (reconnectClient env)"

definition TestConnection :: "'w net_env \<Rightarrow> 'w imap_conn \<Rightarrow> 'w conn_result" where
  "TestConnection env s =
     (if mu s then Blocked s
      else if \<not> connected_inbox (box s) \<or> \<not> client_inbox (box s) then Done (Some (Err ''IMAP client not connected'')) s
      else case ne_noop env (dials s) of
        None \<Rightarrow> Done None s
      | Some e \<Rightarrow> with_mu (\<lambda>s. Done (Some (Errorf ''NOOP command failed'' e)) (set_box (drop_if_hard e) s)) s)"

end
