(* ===== verification/ImapRuns.thy ===== *)
theory ImapRuns
  imports ImapConn ImapSync
begin

text \<open>
  The operations built from those of \<open>ImapConn\<close> (the manual check with its IDLE restart, the IDLE
  loop, the watchdog), and what the connection guarantees: which operations always return, that
  they release what they lock, and the states nothing gets out of.
\<close>

subsection \<open>The manual check and the IDLE loop\<close>

definition safeStartIDLE :: "'w net_env \<Rightarrow> 'w imap_conn \<Rightarrow> 'w conn_result" where
  "safeStartIDLE env s =
     (let start = (\<lambda>s1. and_then (StartIDLE env s1) (\<lambda>err s2. case err of
                None \<Rightarrow> Done None s2
              | Some e \<Rightarrow>
                  if already_running e
                  then and_then (resetConnection env s2) (\<lambda>err s3. case err of
                         None \<Rightarrow> Done None s3
                       | Some e' \<Rightarrow> Done (Some (Errorf ''failed to reset connection for IDLE restart'' e')) s3)
                  else Done (Some (Errorf ''failed to start IDLE'' e)) s2));
          worker = and_then (TestConnection env s) (\<lambda>err s1. case err of
                None \<Rightarrow> start s1
              | Some _ \<Rightarrow> and_then (reconnectClient env s1) (\<lambda>err s2. case err of
                    Some e \<Rightarrow> Done (Some (Errorf ''failed to reconnect for IDLE restart'' e)) s2
                  | None \<Rightarrow> start s2))
      in case worker of
           Done r s' \<Rightarrow> Done r s'
         | Blocked s' \<Rightarrow> Done (Some (Err ''IDLE restart timed out after 45s'')) s')"

definition run_check :: "'w net_env \<Rightarrow> 'w imap_conn \<Rightarrow> go_error option \<times> 'w imap_conn" where
  "run_check env s =
     (case checkNewMessagesFor (ne_process env) (ne_mail env (dials s)) (client_inbox (box s)) ''INBOX'' False (box s) (world s) of
        (err, c, w) \<Rightarrow> (err, s\<lparr>box := c, world := w\<rparr>))"

definition CheckNewMessages :: "'w net_env \<Rightarrow> 'w imap_conn \<Rightarrow> 'w conn_result" where
  "CheckNewMessages env s =
     (if mu s then Blocked s
      else if \<not> connected_inbox (box s) then Done (Some (Err ''IMAP client not connected'')) s
      else if idling (box s) then
        and_then (StopIDLE s) (\<lambda>_ s1.
          (let (err, s2) = run_check env s1
           in and_then (safeStartIDLE env s2) (\<lambda>_ s3. Done err s3)))
      else (let (err, s1) = run_check env s in Done err s1))"

text \<open>
  One cycle of the IDLE loop whose timer runs out: the check, then the loop looks at the stop channel
  again; it goes on when the current channel is open.
\<close>

definition idle_cycle :: "'w net_env \<Rightarrow> 'w imap_conn \<Rightarrow> (bool, 'w imap_conn) outcome" where
  "idle_cycle env s =
     and_then (CheckNewMessages env s) (\<lambda>_ s1.
       if stopClosed s1 then Done False (set_box (\<lambda>c. c\<lparr>idling := False\<rparr>) (s1\<lparr>idleLoops := idleLoops s1 - 1\<rparr>))
       else Done True s1)"

subsection \<open>The watchdog\<close>

definition watchdog_reconnect :: "'w net_env \<Rightarrow> 'w imap_conn \<Rightarrow> (unit, 'w imap_conn) outcome" where
  "watchdog_reconnect env s =
     and_then (reconnectClient env s) (\<lambda>err s1. case err of
        Some _ \<Rightarrow> Done () s1
      | None \<Rightarrow> if idling (box s1) then Done () s1 else and_then (StartIDLE env s1) (\<lambda>_ s2. Done () s2))"

definition watchdog_tick :: "'w net_env \<Rightarrow> 'w imap_conn \<Rightarrow> (unit, 'w imap_conn) outcome" where
  "watchdog_tick env s =
     (if mu s then Blocked s
      else if \<not> connected_inbox (box s) then
        (if connectingMu s then Blocked s else watchdog_reconnect env s)
      else and_then (TestConnection env s) (\<lambda>err s1. case err of
        None \<Rightarrow> Done () s1
      | Some _ \<Rightarrow> watchdog_reconnect env s1))"

subsection \<open>Locks\<close>

definition keeps :: "bool \<Rightarrow> ('w imap_conn \<Rightarrow> ('a, 'w imap_conn) outcome) \<Rightarrow> bool" where
  "keeps m f \<longleftrightarrow> (\<forall>s. mu s = m \<longrightarrow>
     (\<exists>a s'. f s = Done a s' \<and> mu s' = m \<and> connectingMu s' = connectingMu s))"

definition free_run :: "('w imap_conn \<Rightarrow> ('a, 'w imap_conn) outcome) \<Rightarrow> bool" where
  "free_run f \<longleftrightarrow> (\<forall>s. \<not> mu s \<and> \<not> connectingMu s \<longrightarrow>
     (\<exists>a s'. f s = Done a s' \<and> \<not> mu s' \<and> \<not> connectingMu s'))"

lemma keepsD: "keeps m f \<Longrightarrow> mu s = m \<Longrightarrow> (\<exists>a s'. f s = Done a s' \<and> mu s' = m \<and> connectingMu s' = connectingMu s)"
  by (simp add: keeps_def)

lemma keeps_free: "keeps False f \<Longrightarrow> free_run f"
  unfolding keeps_def free_run_def by metis

lemma keeps_with_mu: "keeps True f \<Longrightarrow> keeps False (with_mu f)"
  unfolding keeps_def with_mu_def
  by (metis (no_types, lifting) and_then_simps(1) imap_conn.select_convs(2,3) imap_conn.surjective imap_conn.update_convs(2))

lemma set_box_fields [simp]:
  "mu (set_box f s) = mu s" "connectingMu (set_box f s) = connectingMu s" "circuitBreaker (set_box f s) = circuitBreaker s"
  "dials (set_box f s) = dials s" "box (set_box f s) = f (box s)" "now (set_box f s) = now s"
  "sentClient (set_box f s) = sentClient s" "stopClosed (set_box f s) = stopClosed s" "idleLoops (set_box f s) = idleLoops s"
  "isShutdown (set_box f s) = isShutdown s"
  by (simp_all add: set_box_def)

lemma report_if_fields [simp]:
  "mu (report_if env c e b x s) = mu s" "connectingMu (report_if env c e b x s) = connectingMu s"
  "circuitBreaker (report_if env c e b x s) = circuitBreaker s" "dials (report_if env c e b x s) = dials s"
  "box (report_if env c e b x s) = box s" "now (report_if env c e b x s) = now s"
  "sentClient (report_if env c e b x s) = sentClient s" "idleLoops (report_if env c e b x s) = idleLoops s"
  "stopClosed (report_if env c e b x s) = stopClosed s"
  by (simp_all add: report_if_def report_def)

lemma put_breaker_fields [simp]:
  "mu (put_breaker env cb ns s) = mu s" "connectingMu (put_breaker env cb ns s) = connectingMu s"
  "circuitBreaker (put_breaker env cb ns s) = Some cb" "dials (put_breaker env cb ns s) = dials s"
  "box (put_breaker env cb ns s) = box s" "now (put_breaker env cb ns s) = now s"
  "idleLoops (put_breaker env cb ns s) = idleLoops s" "stopClosed (put_breaker env cb ns s) = stopClosed s"
  by (simp_all add: put_breaker_def)

lemma keeps_connect: "keeps False (connectInternal env)"
  unfolding connectInternal_def
  by (rule keeps_with_mu) (simp add: keeps_def connect_body_def Let_def split: option.split)

lemma keeps_disconnect: "keeps False (Disconnect env)"
  unfolding Disconnect_def
  by (rule keeps_with_mu) (simp add: keeps_def disconnect_body_def Let_def)

lemma keeps_guarded:
  assumes "keeps False f" shows "keeps False (guarded env f)"
  unfolding keeps_def
proof (intro allI impI)
  fix s :: "'a imap_conn" assume s: "mu s = False"
  show "\<exists>a s'. guarded env f s = Done a s' \<and> mu s' = False \<and> connectingMu s' = connectingMu s"
  proof (cases "circuitBreaker s")
    case None
    with keepsD [OF assms s] show ?thesis by (simp add: guarded_def)
  next
    case (Some cb)
    obtain r cb1 ns where c: "checkStateAndIncrement (now s) cb = (r, cb1, ns)" by (metis prod_cases3)
    show ?thesis
    proof (cases r)
      case (Inl e)
      with s c Some show ?thesis by (simp add: guarded_def)
    next
      case (Inr sd)
      have "mu (put_breaker env cb1 ns s) = False" using s by simp
      from keepsD [OF assms this] obtain a s1 where "f (put_breaker env cb1 ns s) = Done a s1"
        "mu s1 = False" "connectingMu s1 = connectingMu s" by auto
      with c Some Inr show ?thesis
        by (simp add: guarded_def Let_def case_prod_unfold split: option.split)
    qed
  qed
qed

lemma keeps_retry:
  assumes "keeps False f" shows "keeps False (retry_in env left k f)"
proof (induction left arbitrary: k)
  case 0
  then show ?case by (simp add: keeps_def)
next
  case (Suc left)
  show ?case
    unfolding keeps_def
  proof (intro allI impI)
    fix s :: "'a imap_conn" assume s: "mu s = False"
    from keepsD [OF assms s] obtain err s1 where f: "f s = Done err s1" "mu s1 = False"
      "connectingMu s1 = connectingMu s" by blast
    have "mu (s1\<lparr>now := t\<rparr>) = False" for t using f(2) by simp
    from keepsD [OF Suc.IH this] f
    show "\<exists>a s'. retry_in env (Suc left) k f s = Done a s' \<and> mu s' = False \<and> connectingMu s' = connectingMu s"
      by (auto split: option.split)
  qed
qed

lemma free_run_connecting:
  assumes "keeps False f" shows "free_run (with_connectingMu f)"
  unfolding free_run_def
proof (intro allI impI)
  fix s :: "'a imap_conn" assume s: "\<not> mu s \<and> \<not> connectingMu s"
  then have "mu (s\<lparr>connectingMu := True\<rparr>) = False" by simp
  from keepsD [OF assms this] s
  show "\<exists>a s'. with_connectingMu f s = Done a s' \<and> \<not> mu s' \<and> \<not> connectingMu s'"
    by (auto simp: with_connectingMu_def)
qed

lemma free_run_reconnect: "free_run (reconnectClient env)"
  unfolding reconnectClient_def
proof (rule free_run_connecting, unfold keeps_def, intro allI impI)
  fix s :: "'a imap_conn" assume s: "mu s = False"
  from keepsD [OF keeps_disconnect s] obtain a s1 where d: "Disconnect env s = Done a s1" "mu s1 = False"
    "connectingMu s1 = connectingMu s" by blast
  from keepsD [OF keeps_retry [OF keeps_guarded [OF keeps_connect]] d(2)] d
  show "\<exists>a s'. and_then (Disconnect env s) (\<lambda>_ s1. retry_in env network_attempts 0 (guarded env (connectInternal env)) s1)
      = Done a s' \<and> mu s' = False \<and> connectingMu s' = connectingMu s" by auto
qed

lemma keeps_idle_failed: "keeps False (idle_failed e)"
  unfolding idle_failed_def by (rule keeps_with_mu) (simp add: keeps_def)

lemma keeps_then:
  assumes "keeps m f" and "\<And>a. keeps m (g a)" shows "keeps m (\<lambda>s. and_then (f s) g)"
  unfolding keeps_def
proof (intro allI impI)
  fix s :: "'a imap_conn" assume s: "mu s = m"
  from keepsD [OF assms(1) s] obtain a s1 where f: "f s = Done a s1" "mu s1 = m" "connectingMu s1 = connectingMu s" by blast
  from keepsD [OF assms(2) f(2), of a] f
  show "\<exists>a s'. and_then (f s) g = Done a s' \<and> mu s' = m \<and> connectingMu s' = connectingMu s" by auto
qed

lemma keeps_Done: "(\<And>s. mu (g s) = mu s) \<Longrightarrow> (\<And>s. connectingMu (g s) = connectingMu s) \<Longrightarrow> keeps m (\<lambda>s. Done (a s) (g s))"
  by (simp add: keeps_def)

definition idle_claim :: "'w imap_conn \<Rightarrow> 'w conn_result" where
  "idle_claim = with_mu (\<lambda>s.
     if idling (box s) then Done (Some (Err ''IDLE already running'')) s
     else if \<not> connected_inbox (box s) then Done (Some (Err ''not connected to IMAP server'')) s
     else Done None (set_box (\<lambda>c. c\<lparr>idling := True\<rparr>) (s\<lparr>stopClosed := False\<rparr>)))"

lemma keeps_idle_claim: "keeps False idle_claim"
  unfolding idle_claim_def by (rule keeps_with_mu) (simp add: keeps_def)

lemma keeps_StartIDLE:
  assumes quiet: "\<And>d e. ne_idle env d = Some e \<Longrightarrow> \<not> already_running e"
  shows "keeps False (StartIDLE_with reset env)"
  unfolding keeps_def
proof (intro allI impI)
  fix s :: "'a imap_conn" assume s: "mu s = False"
  obtain err s1 where c: "idle_claim s = Done err s1" "mu s1 = False" "connectingMu s1 = connectingMu s"
    using keepsD [OF keeps_idle_claim s] by blast
  obtain r c2 w2 where p: "primeBaselineAndBackfillFor (ne_process env) (ne_mail env (dials s1)) (client_inbox (box s1))
      False (box s1) (world s1) = (r, c2, w2)" by (metis prod_cases3)
  have fails: "\<exists>a s'. idle_failed e t = Done a s' \<and> mu s' = False \<and> connectingMu s' = connectingMu s"
    if "mu t = False" "connectingMu t = connectingMu s" for e and t :: "'a imap_conn"
    using keepsD [OF keeps_idle_failed that(1), of e] that(2) by auto
  show "\<exists>a s'. StartIDLE_with reset env s = Done a s' \<and> mu s' = False \<and> connectingMu s' = connectingMu s"
    using c p quiet fails
    by (auto simp: StartIDLE_with_def idle_claim_def [symmetric] Let_def split: option.split)
qed

lemma free_run_then:
  assumes "free_run f" and "\<And>a. free_run (g a)" shows "free_run (\<lambda>s. and_then (f s) g)"
  using assms unfolding free_run_def by (metis and_then_simps(1))

lemma free_run_guarded:
  assumes "free_run f" shows "free_run (guarded env f)"
  unfolding free_run_def
proof (intro allI impI)
  fix s :: "'a imap_conn" assume s: "\<not> mu s \<and> \<not> connectingMu s"
  have f: "\<exists>a s'. f t = Done a s' \<and> \<not> mu s' \<and> \<not> connectingMu s'" if "\<not> mu t" "\<not> connectingMu t" for t
    using assms that by (simp add: free_run_def)
  show "\<exists>a s'. guarded env f s = Done a s' \<and> \<not> mu s' \<and> \<not> connectingMu s'"
  proof (cases "circuitBreaker s")
    case None
    with f s show ?thesis by (simp add: guarded_def)
  next
    case (Some cb)
    obtain r cb1 ns where c: "checkStateAndIncrement (now s) cb = (r, cb1, ns)" by (metis prod_cases3)
    obtain a s1 where "f (put_breaker env cb1 ns s) = Done a s1" "\<not> mu s1" "\<not> connectingMu s1"
      using f [of "put_breaker env cb1 ns s"] s by auto
    with Some c s show ?thesis
      by (cases r) (auto simp: guarded_def Let_def case_prod_unfold split: option.split)
  qed
qed

lemma free_run_retry:
  assumes "free_run f" shows "free_run (retry_in env left k f)"
proof (induction left arbitrary: k)
  case 0
  then show ?case by (simp add: free_run_def)
next
  case (Suc left)
  show ?case
    unfolding free_run_def
  proof (intro allI impI)
    fix s :: "'a imap_conn" assume s: "\<not> mu s \<and> \<not> connectingMu s"
    with assms obtain err s1 where f: "f s = Done err s1" "\<not> mu s1" "\<not> connectingMu s1"
      unfolding free_run_def by blast
    have "\<exists>a s'. retry_in env left (Suc k) f (s1\<lparr>now := t\<rparr>) = Done a s' \<and> \<not> mu s' \<and> \<not> connectingMu s'" for t
      using Suc.IH [of "Suc k"] f(2,3) by (simp add: free_run_def)
    with f show "\<exists>a s'. retry_in env (Suc left) k f s = Done a s' \<and> \<not> mu s' \<and> \<not> connectingMu s'"
      by (auto split: option.split)
  qed
qed

lemma free_run_None: "free_run (\<lambda>s. case err of None \<Rightarrow> f s | Some e \<Rightarrow> Done (Some e) s)" if "free_run f"
  using that by (cases err) (simp_all add: free_run_def)

lemma free_run_recovery:
  assumes quiet: "\<And>d e. ne_idle env d = Some e \<Longrightarrow> \<not> already_running e"
  shows "free_run (performIDLERecovery env)"
proof -
  have "free_run (StartIDLE env)" unfolding StartIDLE_def by (rule keeps_free [OF keeps_StartIDLE [OF quiet]])
  from free_run_None [OF this]
  have s: "free_run (\<lambda>s2. case err of None \<Rightarrow> StartIDLE env s2 | Some e \<Rightarrow> Done (Some e) s2)" for err .
  have "free_run (\<lambda>s1. and_then (reconnectClient env s1) (\<lambda>err s2. case err of Some e \<Rightarrow> Done (Some e) s2 | None \<Rightarrow> StartIDLE env s2))"
    by (rule free_run_then [OF free_run_reconnect s])
  from free_run_retry [OF free_run_guarded [OF this]] free_run_reconnect
  show ?thesis unfolding performIDLERecovery_def free_run_def by (metis (no_types, lifting))
qed


definition sample_conn :: "uid list imap_conn" where
  "sample_conn = \<lparr>box = fresh_client\<lparr>connected_inbox := False, client_inbox := False\<rparr>, mu = False, connectingMu = False,
     circuitBreaker = None, isShutdown = False, stopClosed = False, idleLoops = 0, sentClient = False, reports = [],
     dials = 0, now = 0, world = []\<rparr>"

definition sample_net :: "uid list net_env" where
  "sample_net = \<lparr>ne_addr = ''imap.x:993'', ne_noop = (\<lambda>_. None), ne_dial = (\<lambda>_. None), ne_oauth = False,
     ne_static_token = [], ne_provider = None, ne_auth = (\<lambda>_. AuthOk), ne_select = (\<lambda>_. None),
     ne_mail = (\<lambda>_. plain_answers [3, 4]), ne_idle = (\<lambda>_. None), ne_process = log_attempt,
     ne_sentFolder = ''Sent'', ne_ctx = None, ne_delay = (\<lambda>_. 0), ne_coordinated = True\<rparr>"


subsection \<open>Operations that never return\<close>

text \<open>
  Two operations lock a mutex they already hold and never return: \<open>Shutdown\<close>, which calls
  \<open>Disconnect\<close> under \<open>mu\<close>; and the IDLE start of a connection reset that is told "already running"
  again, which resets once more under \<open>connectingMu\<close>.  After the latter no later connect,
  reconnect or reset of this client returns either.
\<close>

theorem self_deadlocks:
  assumes "\<not> mu s" and "\<not> connectingMu s"
  shows "(\<not> isShutdown s \<longrightarrow> (\<exists>s'. Shutdown env s = Blocked s' \<and> mu s')) \<and>
    (ne_idle env (Suc (dials s)) = Some e \<and> already_running e \<and> ne_dial env (dials s) = None \<and>
     authenticate env (dials s) = None \<and> ne_select env (Suc (dials s)) = None \<and>
     fst (primeBaselineAndBackfillFor (ne_process env) (ne_mail env (Suc (dials s))) True False
       (box s\<lparr>client_inbox := True, connected_inbox := True, idling := True\<rparr>) (world s)) = None \<longrightarrow>
     (\<exists>s'. resetConnection env s = Blocked s' \<and>
        Connect env s' = Blocked s' \<and> reconnectClient env s' = Blocked s' \<and> resetConnection env s' = Blocked s'))"
proof (intro conjI impI)
  assume "\<not> isShutdown s"
  with assms show "\<exists>s'. Shutdown env s = Blocked s' \<and> mu s'"
    by (simp add: Shutdown_def with_mu_def Disconnect_def Let_def)
next
  let ?c = "box s\<lparr>client_inbox := True, connected_inbox := True, idling := True\<rparr>"
  assume h: "ne_idle env (Suc (dials s)) = Some e \<and> already_running e \<and> ne_dial env (dials s) = None \<and>
     authenticate env (dials s) = None \<and> ne_select env (Suc (dials s)) = None \<and>
     fst (primeBaselineAndBackfillFor (ne_process env) (ne_mail env (Suc (dials s))) True False ?c (world s)) = None"
  then obtain c w where p: "primeBaselineAndBackfillFor (ne_process env) (ne_mail env (Suc (dials s))) True False ?c (world s) = (None, c, w)"
    by (metis fst_conv prod_cases3)
  have "\<exists>s'. resetConnection env s = Blocked s' \<and> connectingMu s'"
    using h p assms
    by (simp add: resetConnection_def with_connectingMu_def with_mu_def connectInternal_def connect_body_def
        StartIDLE_with_def Let_def set_box_def dropConnection_def report_if_def report_def)
  then show "\<exists>s'. resetConnection env s = Blocked s' \<and>
      Connect env s' = Blocked s' \<and> reconnectClient env s' = Blocked s' \<and> resetConnection env s' = Blocked s'"
    by (auto simp: nested_reset_blocks Connect_def reconnectClient_def with_connectingMu_def)
qed

theorem self_deadlocks_witness:
  "let env = sample_net\<lparr>ne_idle := (\<lambda>_. Some (Err ''IDLE already running''))\<rparr> in
   (\<exists>s'. Shutdown env sample_conn = Blocked s') \<and>
   (\<exists>s'. resetConnection env sample_conn = Blocked s' \<and> Connect env s' = Blocked s')"
proof -
  let ?env = "sample_net\<lparr>ne_idle := (\<lambda>_. Some (Err ''IDLE already running''))\<rparr>"
  have a: "already_running (Err ''IDLE already running'')" by (simp add: already_running_def contains_sub_def)
  have prime: "fst (primeBaselineAndBackfillFor (ne_process ?env) (ne_mail ?env (Suc (dials sample_conn))) True False
       (box sample_conn\<lparr>client_inbox := True, connected_inbox := True, idling := True\<rparr>) (world sample_conn)) = None"
    by (simp add: sample_net_def sample_conn_def primeBaselineAndBackfillFor_def plain_answers_def Let_def
        case_prod_unfold split: option.split)
  have s: "\<not> mu sample_conn" "\<not> connectingMu sample_conn" "\<not> isShutdown sample_conn" by (simp_all add: sample_conn_def)
  have n: "ne_dial ?env (dials sample_conn) = None" "authenticate ?env (dials sample_conn) = None"
    "ne_select ?env (Suc (dials sample_conn)) = None" "ne_idle ?env (Suc (dials sample_conn)) = Some (Err ''IDLE already running'')"
    by (simp_all add: sample_net_def authenticate_def)
  from self_deadlocks [OF s(1,2), of ?env "Err ''IDLE already running''"] s(3) n prime a
  show ?thesis by (simp only: Let_def simp_thms) blast
qed

subsection \<open>The breaker around itself\<close>

lemma put_same: "circuitBreaker s = Some cb \<Longrightarrow> put_breaker env cb [] s = s"
  by (simp add: put_breaker_def)

lemma inner_refused:
  assumes "circuitBreaker s = Some cb" and "cb_state cb = StateHalfOpen" and "maxHalfOpenRequests cb \<le> halfOpenRequests cb"
  shows "guarded env f s = Done (Some ErrTooManyRequests) s"
  using assms by (simp add: guarded_def checkStateAndIncrement_def admit_half_open_def Let_def put_same)

lemma inner_retry_refused:
  assumes "circuitBreaker s = Some cb" and "cb_state cb = StateHalfOpen" and "maxHalfOpenRequests cb \<le> halfOpenRequests cb"
  shows "\<exists>e s'. retry_in env (Suc left) k (guarded env f) s = Done (Some e) s' \<and> circuitBreaker s' = Some cb \<and>
    dials s' = dials s \<and> mu s' = mu s \<and> connectingMu s' = connectingMu s"
  using assms
proof (induction left arbitrary: k s)
  case 0
  then show ?case by (simp add: inner_refused [OF 0])
next
  case (Suc left)
  let ?s = "s\<lparr>now := now s + retry_wait ErrTooManyRequests (ne_delay env k)\<rparr>"
  have "circuitBreaker ?s = Some cb" using Suc.prems by simp
  from Suc.IH [OF this Suc.prems(2,3), of "Suc k"] Suc.prems(1)
  show ?case
    by (subst retry_in.simps) (auto simp: inner_refused [OF Suc.prems] simp del: retry_in.simps split: option.split)
qed

lemma network_attempts_pos: "network_attempts = Suc (network_attempts - 1)"
  by (simp add: network_attempts_def NetworkRetryConfig_def normalize_config_def Let_def ms_def second_def)

lemma Disconnect_fields:
  assumes "Disconnect env s = Done r s'"
  shows "circuitBreaker s' = circuitBreaker s" "dials s' = dials s" "now s' = now s"
  using assms by (auto simp: Disconnect_def with_mu_def disconnect_body_def Let_def split: if_splits)

lemma reconnect_refused:
  assumes "\<not> mu s" "\<not> connectingMu s" and cb: "circuitBreaker s = Some cb" "cb_state cb = StateHalfOpen"
    "maxHalfOpenRequests cb \<le> halfOpenRequests cb"
  shows "\<exists>e s'. reconnectClient env s = Done (Some e) s' \<and> circuitBreaker s' = Some cb \<and> dials s' = dials s \<and>
    \<not> mu s' \<and> \<not> connectingMu s'"
proof -
  let ?s = "s\<lparr>connectingMu := True\<rparr>"
  obtain r s1 where d: "Disconnect env ?s = Done r s1" "mu s1 = False" "connectingMu s1 = connectingMu ?s"
    using keepsD [OF keeps_disconnect [of env], of ?s] assms(1) by auto
  have "circuitBreaker s1 = Some cb" using Disconnect_fields(1) [OF d(1)] cb(1) by simp
  from inner_retry_refused [OF this cb(2,3), of env "network_attempts - 1" 0 "connectInternal env",
      folded network_attempts_pos]
  obtain e s2 where r: "retry_in env network_attempts 0 (guarded env (connectInternal env)) s1 = Done (Some e) s2"
    "circuitBreaker s2 = Some cb" "dials s2 = dials s1" "mu s2 = mu s1"
    by blast
  then show ?thesis
    using assms(2) d Disconnect_fields(2) [OF d(1)] by (simp add: reconnectClient_def with_connectingMu_def)
qed

text \<open>The breaker refuses: it is open, or was left half-open.\<close>

definition refusing :: "'w imap_conn \<Rightarrow> bool" where
  "refusing s \<longleftrightarrow> (\<exists>cb. circuitBreaker s = Some cb \<and> cb_inv cb \<and> cb_state cb \<noteq> StateClosed)"

lemma outer_refused:
  assumes "refusing s" and free: "\<not> mu s" "\<not> connectingMu s"
    and f: "\<And>t. f t = and_then (reconnectClient env t) (\<lambda>err s2. case err of Some e \<Rightarrow> Done (Some e) s2 | None \<Rightarrow> g s2)"
  shows "\<exists>e s'. guarded env f s = Done (Some e) s' \<and> refusing s' \<and> dials s' = dials s \<and> \<not> mu s' \<and> \<not> connectingMu s'"
proof -
  obtain cb where cb: "circuitBreaker s = Some cb" "cb_inv cb" "cb_state cb \<noteq> StateClosed"
    using assms(1) by (auto simp: refusing_def)
  obtain r cb1 ns where c: "checkStateAndIncrement (now s) cb = (r, cb1, ns)" by (metis prod_cases3)
  show ?thesis
  proof (cases r)
    case (Inl e)
    have "cb_inv cb1 \<and> cb_state cb1 \<noteq> StateClosed"
      using c Inl cb by (cases "cb_state cb")
        (auto simp: checkStateAndIncrement_def open_to_half_def admit_half_open_def Let_def cb_inv_def split: if_splits)
    with c Inl cb free show ?thesis by (simp add: guarded_def refusing_def)
  next
    case (Inr sd)
    have h: "cb_state cb1 = StateHalfOpen" "maxHalfOpenRequests cb1 \<le> halfOpenRequests cb1" "sd"
      "maxFailures cb1 \<le> failures cb1" "0 < maxFailures cb1" "0 < cb_timeout cb1" "maxHalfOpenRequests cb1 = 1"
      "halfOpenRequests cb1 = 1"
      using c Inr cb by (cases "cb_state cb";
        auto simp: checkStateAndIncrement_def open_to_half_def admit_half_open_def Let_def cb_inv_def split: if_splits)+
    let ?s = "put_breaker env cb1 ns s"
    have "\<not> mu ?s" "\<not> connectingMu ?s" "circuitBreaker ?s = Some cb1" using free by simp_all
    from reconnect_refused [OF this h(1,2), of env] obtain e s1 where
      r: "reconnectClient env ?s = Done (Some e) s1" "circuitBreaker s1 = Some cb1" "dials s1 = dials s"
      "\<not> mu s1" "\<not> connectingMu s1" by auto
    obtain cb2 ns2 where rec: "recordResult (now s1) (Some e) cb1 = (cb2, ns2)" by fastforce
    have "cb_inv (release_slot sd cb2) \<and> cb_state (release_slot sd cb2) \<noteq> StateClosed"
      using rec h by (auto simp: recordResult_def release_slot_def Let_def cb_inv_def)
    with c Inr cb r rec show ?thesis by (simp add: guarded_def f Let_def refusing_def)
  qed
qed

lemma outer_retry_refused:
  assumes "refusing s" and free: "\<not> mu s" "\<not> connectingMu s"
    and f: "\<And>t. f t = and_then (reconnectClient env t) (\<lambda>err s2. case err of Some e \<Rightarrow> Done (Some e) s2 | None \<Rightarrow> g s2)"
  shows "\<exists>e s'. retry_in env (Suc left) k (guarded env f) s = Done (Some e) s' \<and> refusing s' \<and> dials s' = dials s"
  using assms(1,2,3)
proof (induction left arbitrary: k s)
  case 0
  from outer_refused [OF 0 f] show ?case by auto
next
  case (Suc left)
  obtain e s1 where g: "guarded env f s = Done (Some e) s1" "refusing s1" "dials s1 = dials s" "\<not> mu s1" "\<not> connectingMu s1"
    using outer_refused [OF Suc.prems f] by blast
  let ?s = "s1\<lparr>now := now s1 + retry_wait e (ne_delay env k)\<rparr>"
  have "refusing ?s" "\<not> mu ?s" "\<not> connectingMu ?s" using g by (simp_all add: refusing_def)
  from Suc.IH [OF this, of "Suc k"] g
  show ?case by (subst retry_in.simps) (auto simp del: retry_in.simps split: option.split)
qed

text \<open>
  An open breaker cannot be closed from inside: IDLE recovery and the reconnect signal run the
  reconnection, which asks the breaker again, inside a call the breaker already counts.  Once the
  breaker is open, they fail without dialling a single connection, whatever the network would
  answer and however long has passed, and leave the breaker open or half-open.
\<close>

theorem open_breaker_recovery_never_dials:
  assumes "circuitBreaker s = Some cb" and "cb_inv cb" and "cb_state cb \<noteq> StateClosed"
    and "\<not> mu s" and "\<not> connectingMu s"
  shows "\<forall>recover \<in> {performIDLERecovery env, reconnect_signal env}. \<exists>e s' cb'. recover s = Done (Some e) s' \<and> dials s' = dials s \<and>
    circuitBreaker s' = Some cb' \<and> cb_state cb' \<noteq> StateClosed"
proof -
  have r: "refusing s" using assms(1-3) by (auto simp: refusing_def)
  have "\<exists>e s'. performIDLERecovery env s = Done (Some e) s' \<and> refusing s' \<and> dials s' = dials s"
    unfolding performIDLERecovery_def using assms(1)
    by (subst network_attempts_pos) (simp del: retry_in.simps, rule outer_retry_refused [OF r assms(4,5)], rule refl)
  moreover have "\<exists>e s'. reconnect_signal env s = Done (Some e) s' \<and> refusing s' \<and> dials s' = dials s"
  proof -
    have f: "reconnectClient env t = and_then (reconnectClient env t)
        (\<lambda>err s2. case err of Some e \<Rightarrow> Done (Some e) s2 | None \<Rightarrow> Done None s2)" for t
      by (cases "reconnectClient env t") (auto split: option.split)
    from outer_refused [OF r assms(4,5) f] show ?thesis by (auto simp: reconnect_signal_def)
  qed
  ultimately show ?thesis by (auto simp: refusing_def)
qed

definition open_breaker :: circuit_breaker where
  "open_breaker = \<lparr>maxFailures = 5, cb_timeout = 120 * second, failures = 5, lastFailureTime = 0,
     cb_state = StateOpen, maxHalfOpenRequests = 1, halfOpenRequests = 0\<rparr>"

theorem open_breaker_recovery_never_dials_witness:
  "let s = sample_conn\<lparr>circuitBreaker := Some open_breaker, now := 300 * second\<rparr> in
   \<exists>e s'. performIDLERecovery sample_net s = Done (Some e) s' \<and> dials s' = 0 \<and> ne_dial sample_net 0 = None"
  using open_breaker_recovery_never_dials [of "sample_conn\<lparr>circuitBreaker := Some open_breaker, now := 300 * second\<rparr>"
      open_breaker sample_net]
  by (auto simp: open_breaker_def cb_inv_def second_def ms_def sample_conn_def sample_net_def Let_def)

subsection \<open>A reconnection that succeeds\<close>

text \<open>
  With the breaker closed (or absent) and a network that accepts the next connection, a
  reconnection from any state of the client connects at its first attempt: the client holds a live
  handle, the breaker is closed with no failures counted, and the last thing reported is that the
  INBOX connection is established.
\<close>

lemma reconnect_connects:
  assumes "\<not> mu s" and "\<not> connectingMu s" and "\<forall>cb. circuitBreaker s = Some cb \<longrightarrow> cb_state cb = StateClosed"
    and "ne_dial env (dials s) = None" and "authenticate env (dials s) = None"
  shows "\<exists>s'. reconnectClient env s = Done None s' \<and> connected_inbox (box s') \<and> client_inbox (box s') \<and>
    \<not> idling (box s') \<and> dials s' = Suc (dials s) \<and>
    (\<forall>cb. circuitBreaker s' = Some cb \<longrightarrow> cb_state cb = StateClosed \<and> failures cb = 0) \<and>
    (ne_coordinated env \<longrightarrow> last (reports s') = (''inbox'', ''connection_established'', True, []))"
proof -
  let ?s = "s\<lparr>connectingMu := True\<rparr>"
  obtain r s1 where d: "Disconnect env ?s = Done r s1" "mu s1 = False" "connectingMu s1 = True"
    using keepsD [OF keeps_disconnect [of env], of ?s] assms(1) by auto
  have off: "\<not> connected_inbox (box s1)"
    using d(1) assms(1) by (auto simp: Disconnect_def with_mu_def disconnect_body_def Let_def set_box_def
        report_if_def report_def split: if_splits)
  note f = Disconnect_fields [OF d(1)]
  obtain s2 where c: "\<And>t. mu t = False \<Longrightarrow> \<not> connected_inbox (box t) \<Longrightarrow> dials t = dials s \<Longrightarrow>
      connectInternal env t = Done None (s2 t) \<and> connected_inbox (box (s2 t)) \<and> client_inbox (box (s2 t)) \<and>
      \<not> idling (box (s2 t)) \<and> dials (s2 t) = Suc (dials s) \<and> circuitBreaker (s2 t) = circuitBreaker t \<and>
      (ne_coordinated env \<longrightarrow> last (reports (s2 t)) = (''inbox'', ''connection_established'', True, []))"
  proof
    fix t :: "'a imap_conn" assume t: "mu t = False" "\<not> connected_inbox (box t)" "dials t = dials s"
    let ?r = "\<lambda>t. report_if env ''inbox'' ''connection_established'' True []
      (set_box (\<lambda>c. c\<lparr>idling := False, client_inbox := True, connected_inbox := True\<rparr>) (t\<lparr>dials := Suc (dials t)\<rparr>))"
    show "connectInternal env t = Done None ((\<lambda>t. (?r (t\<lparr>mu := True\<rparr>))\<lparr>mu := False\<rparr>) t) \<and> connected_inbox (box ((\<lambda>t. (?r (t\<lparr>mu := True\<rparr>))\<lparr>mu := False\<rparr>) t)) \<and>
      client_inbox (box ((\<lambda>t. (?r (t\<lparr>mu := True\<rparr>))\<lparr>mu := False\<rparr>) t)) \<and>
      \<not> idling (box ((\<lambda>t. (?r (t\<lparr>mu := True\<rparr>))\<lparr>mu := False\<rparr>) t)) \<and> dials ((\<lambda>t. (?r (t\<lparr>mu := True\<rparr>))\<lparr>mu := False\<rparr>) t) = Suc (dials s) \<and>
      circuitBreaker ((\<lambda>t. (?r (t\<lparr>mu := True\<rparr>))\<lparr>mu := False\<rparr>) t) = circuitBreaker t \<and>
      (ne_coordinated env \<longrightarrow> last (reports ((\<lambda>t. (?r (t\<lparr>mu := True\<rparr>))\<lparr>mu := False\<rparr>) t)) = (''inbox'', ''connection_established'', True, []))"
      using t assms(4,5)
      by (simp add: connectInternal_def with_mu_def connect_body_def Let_def set_box_def report_if_def report_def)
  qed
  obtain n where n: "network_attempts = Suc n" using network_attempts_pos by blast
  show ?thesis
  proof (cases "circuitBreaker s")
    case None
    have "connectInternal env s1 = Done None (s2 s1)" using c [OF d(2) off] f(2) by simp
    then have "reconnectClient env s = Done None ((s2 s1)\<lparr>connectingMu := False\<rparr>)"
      using assms(2) d None f(1) by (simp add: reconnectClient_def with_connectingMu_def n guarded_def)
    with c [OF d(2) off] f None show ?thesis by simp
  next
    case (Some cb)
    have closed: "cb_state cb = StateClosed" using assms(3) Some by simp
    have cb1: "circuitBreaker s1 = Some cb" using f(1) Some by simp
    have ci: "connectInternal env s1 = Done None (s2 s1)" "circuitBreaker (s2 s1) = Some cb"
      using c [OF d(2) off] f(2) cb1 by simp_all
    have "guarded env (connectInternal env) s1 =
        Done None (put_breaker env (cb\<lparr>failures := 0, cb_state := StateClosed\<rparr>) [] (s2 s1))"
      using cb1 closed ci
      by (simp add: guarded_def checkStateAndIncrement_def put_same recordResult_def release_slot_def Let_def)
    then have "reconnectClient env s =
        Done None ((put_breaker env (cb\<lparr>failures := 0, cb_state := StateClosed\<rparr>) [] (s2 s1))\<lparr>connectingMu := False\<rparr>)"
      using assms(2) d by (simp add: reconnectClient_def with_connectingMu_def n)
    with c [OF d(2) off] f show ?thesis by (simp add: put_breaker_def)
  qed
qed

subsection \<open>The IDLE loop multiplies\<close>

definition same_flags :: "imap_client \<Rightarrow> imap_client \<Rightarrow> bool" where
  "same_flags c c' \<longleftrightarrow> connected_inbox c' = connected_inbox c \<and> client_inbox c' = client_inbox c \<and> idling c' = idling c"

lemma same_flags_set [simp]:
  "same_flags c (setLastUID b u c)" "same_flags c (setInFlight b us c)" "same_flags c c"
  by (simp_all add: same_flags_def setLastUID_def setInFlight_def)

lemma same_flags_trans: "same_flags a b \<Longrightarrow> same_flags b c \<Longrightarrow> same_flags a c"
  by (simp add: same_flags_def)

lemma process_uids_flags: "same_flags c (fst (snd (process_uids process isSent us c w)))"
proof (induction us arbitrary: c w)
  case (Cons u us)
  have "same_flags c (endUID u isSent (setInFlight isSent (u # inFlight isSent c) c))"
    by (simp add: endUID_def same_flags_def setInFlight_def inFlight_def)
  with Cons show ?case
    by (auto simp: startUID_def Let_def case_prod_unfold intro: same_flags_trans)
qed simp

lemma process_uids_flags': "same_flags c (fst (snd (process_uids process isSent us (setLastUID b u c) w)))"
  by (rule same_flags_trans [OF same_flags_set(1) process_uids_flags])

lemma check_flags:
  assumes "serves ans mb"
  shows "same_flags c (fst (snd (checkNewMessagesFor process ans has_cli mailbox isSent c w)))"
proof -
  obtain n where n: "answer_status ans = Inr n" by (rule serves_status [OF assms])
  have s: "\<not> answer_late ans" "answer_search ans lo None = Inr (uid_range mb lo)" for lo
    using assms by (simp_all add: serves_def)
  show ?thesis
    using n s by (simp add: checkNewMessagesFor_def Let_def case_prod_unfold process_uids_flags')
qed

text \<open>
  Every IDLE cycle whose timer runs out leaves one more IDLE loop behind: the check stops IDLE
  and starts it again, which starts a new loop on a new stop channel, and the calling loop, finding
  that channel open, goes on too.
\<close>

theorem idle_cycle_adds_loop:
  assumes "\<not> mu s" and "connected_inbox (box s)" and "client_inbox (box s)" and "idling (box s)"
    and "ne_noop env (dials s) = None" and "ne_select env (dials s) = None"
    and "ne_idle env (dials s) = None" and "serves (ne_mail env (dials s)) mb" and "mailbox_ok mb"
  shows "\<exists>s'. idle_cycle env s = Done True s' \<and> idleLoops s' = Suc (idleLoops s)"
proof -
  let ?env = env and ?d = "dials s"
  let ?s1 = "(set_box (\<lambda>c. c\<lparr>idling := False\<rparr>) s)\<lparr>stopClosed := True\<rparr>"
  have stop: "StopIDLE s = Done None ?s1"
    using assms(1,4) by (simp add: StopIDLE_def with_mu_def set_box_def)
  obtain err c w where chk: "checkNewMessagesFor (ne_process env) (ne_mail env ?d) True ''INBOX'' False
      ((box s)\<lparr>idling := False\<rparr>) (world s) = (err, c, w)" by (metis prod_cases3)
  have flags: "connected_inbox c" "client_inbox c" "\<not> idling c"
    using check_flags [OF assms(8), of "(box s)\<lparr>idling := False\<rparr>" "ne_process env" True "''INBOX''" False "world s"] chk assms(2,3)
    by (simp_all add: same_flags_def)
  let ?s2 = "?s1\<lparr>box := c, world := w\<rparr>"
  have run: "run_check env ?s1 = (err, ?s2)" using chk assms(3) by (simp add: run_check_def set_box_def)
  have test: "TestConnection env ?s2 = Done None ?s2"
    using assms(1,5) flags by (simp add: TestConnection_def)
  obtain n where prime: "primeBaselineAndBackfillFor (ne_process env) (ne_mail env ?d) True False (c\<lparr>idling := True\<rparr>) w =
      (None, setLastUID False (n - 1) (c\<lparr>idling := True\<rparr>), w)"
    using prime_serves [OF assms(8,9), of "ne_process env" False "c\<lparr>idling := True\<rparr>" w] by (elim exE conjE)
  let ?s3 = "?s2\<lparr>stopClosed := False, box := setLastUID False (n - 1) (c\<lparr>idling := True\<rparr>), idleLoops := Suc (idleLoops s)\<rparr>"
  have start: "StartIDLE env ?s2 = Done None ?s3"
    using assms(1,6,7) flags prime by (simp add: StartIDLE_def StartIDLE_with_def with_mu_def set_box_def Let_def)
  have "safeStartIDLE env ?s2 = Done None ?s3"
    using test start by (simp add: safeStartIDLE_def Let_def)
  then have "CheckNewMessages env s = Done err ?s3"
    using assms(1,2,4) stop run by (simp add: CheckNewMessages_def)
  then show ?thesis by (simp add: idle_cycle_def)
qed

theorem idle_cycle_adds_loop_witness:
  "let s = sample_conn\<lparr>box := fresh_client\<lparr>idling := True\<rparr>, idleLoops := 1\<rparr> in
   \<exists>s'. idle_cycle sample_net s = Done True s' \<and> idleLoops s' = 2"
proof -
  have ok: "mailbox_ok [3, 4]" by (simp add: mailbox_ok_def)
  from idle_cycle_adds_loop [of "sample_conn\<lparr>box := fresh_client\<lparr>idling := True\<rparr>, idleLoops := 1\<rparr>" sample_net "[3, 4]"]
  show ?thesis by (simp add: sample_conn_def sample_net_def fresh_client_def plain_serves ok numeral_2_eq_2)
qed

end
