(* ===== verification/ImapManager.thy ===== *)
theory ImapManager
  imports ImapRuns "HOL-Library.AList"
begin

text \<open>
  \<open>pkg/imap/manager.go\<close>: the accounts of the bridge.  The clients are shared: the manager's map and
  each client's watchdog hold references to the same connection, so connections live in a heap.
  The manager's own mutex is held while an account is added or removed; a client operation that
  never returns leaves the manager blocked too.
\<close>

type_synonym client_ref = nat

record 'w imap_manager =
  conns :: "client_ref \<rightharpoonup> 'w imap_conn"
  next_conn :: client_ref
  clients :: "(gostring \<times> client_ref) list"
  watchdogs :: "client_ref list"
  has_processor :: bool

definition getClientKey :: "gostring \<Rightarrow> gostring \<Rightarrow> gostring" where
  "getClientKey userMXID email = userMXID @ '':'' @ email"

definition put_conn :: "client_ref \<Rightarrow> 'w imap_conn \<Rightarrow> 'w imap_manager \<Rightarrow> 'w imap_manager" where
  "put_conn r s m = m\<lparr>conns := (conns m)(r \<mapsto> s)\<rparr>"

definition RegisterClient :: "gostring \<Rightarrow> gostring \<Rightarrow> client_ref \<Rightarrow> 'w imap_manager \<Rightarrow> 'w imap_manager" where
  "RegisterClient userMXID email r m =
     m\<lparr>clients := AList.update (getClientKey userMXID email) r (clients m), watchdogs := r # watchdogs m\<rparr>"

definition AddAccount ::
  "'w net_env \<Rightarrow> 'w imap_conn \<Rightarrow> gostring \<Rightarrow> gostring \<Rightarrow> 'w imap_manager \<Rightarrow>
     (go_error option, 'w imap_manager) outcome" where
  "AddAccount env new userMXID email m =
     (if map_of (clients m) (getClientKey userMXID email) \<noteq> None
      then Done (Some (Err (''account '' @ email @ '' already exists for user '' @ userMXID))) m
      else
        let r = next_conn m; m1 = put_conn r new (m\<lparr>next_conn := Suc r\<rparr>) in
        case Connect env new of
          Blocked s \<Rightarrow> Blocked (put_conn r s m1)
        | Done (Some e) s \<Rightarrow> Done (Some (Errorf ''failed to connect to IMAP server'' e)) (put_conn r s m1)
        | Done None s \<Rightarrow>
            (case StartIDLE env s of
               Blocked s1 \<Rightarrow> Blocked (put_conn r s1 m1)
             | Done (Some e) s1 \<Rightarrow>
                 (case Disconnect env s1 of
                    Blocked s2 \<Rightarrow> Blocked (put_conn r s2 m1)
                  | Done _ s2 \<Rightarrow> Done (Some (Errorf ''failed to start IDLE monitoring'' e)) (put_conn r s2 m1))
             | Done None s1 \<Rightarrow> Done None (RegisterClient userMXID email r (put_conn r s1 m1))))"

text \<open>Stopping a client: \<open>StopIDLE\<close>, then \<open>Disconnect\<close>.\<close>

definition stop_client :: "'w net_env \<Rightarrow> client_ref \<Rightarrow> 'w imap_manager \<Rightarrow> (unit, 'w imap_manager) outcome" where
  "stop_client env r m =
     (case conns m r of
        None \<Rightarrow> Done () m
      | Some s \<Rightarrow>
          (case and_then (StopIDLE s) (\<lambda>_. Disconnect env) of
             Blocked s1 \<Rightarrow> Blocked (put_conn r s1 m)
           | Done _ s1 \<Rightarrow> Done () (put_conn r s1 m)))"

definition RemoveAccount ::
  "'w net_env \<Rightarrow> gostring \<Rightarrow> gostring \<Rightarrow> 'w imap_manager \<Rightarrow> (go_error option, 'w imap_manager) outcome" where
  "RemoveAccount env userMXID email m =
     (case map_of (clients m) (getClientKey userMXID email) of
        None \<Rightarrow> Done (Some (Err (''account '' @ email @ '' not found for user '' @ userMXID))) m
      | Some r \<Rightarrow>
          (case stop_client env r m of
             Blocked m1 \<Rightarrow> Blocked m1
           | Done _ m1 \<Rightarrow> Done None (m1\<lparr>clients := AList.delete (getClientKey userMXID email) (clients m1)\<rparr>)))"

definition GetAccount :: "gostring \<Rightarrow> gostring \<Rightarrow> 'w imap_manager \<Rightarrow> go_error + client_ref" where
  "GetAccount userMXID email m =
     (case map_of (clients m) (getClientKey userMXID email) of
        None \<Rightarrow> Inl (Err (''account '' @ email @ '' not found for user '' @ userMXID))
      | Some r \<Rightarrow> Inr r)"

definition ListAccounts :: "gostring \<Rightarrow> 'w imap_manager \<Rightarrow> client_ref list" where
  "ListAccounts userMXID m =
     (let prefix = userMXID @ '':'' in
      map snd (filter (\<lambda>(k, r). length prefix < length k \<and> take (length prefix) k = prefix) (clients m)))"

fun stop_clients :: "'w net_env \<Rightarrow> client_ref list \<Rightarrow> 'w imap_manager \<Rightarrow> (unit, 'w imap_manager) outcome" where
  "stop_clients env [] m = Done () m"
| "stop_clients env (r # rs) m = and_then (stop_client env r m) (\<lambda>_. stop_clients env rs)"

definition StopAll :: "'w net_env \<Rightarrow> 'w imap_manager \<Rightarrow> (unit, 'w imap_manager) outcome" where
  "StopAll env m = stop_clients env (map snd (clients m)) (m\<lparr>clients := []\<rparr>)"

text \<open>A tick of the watchdog of a client; the watchdogs are never stopped.\<close>

definition manager_tick :: "'w net_env \<Rightarrow> client_ref \<Rightarrow> 'w imap_manager \<Rightarrow> (unit, 'w imap_manager) outcome" where
  "manager_tick env r m =
     (if r \<notin> set (watchdogs m) then Done () m
      else case conns m r of
        None \<Rightarrow> Done () m
      | Some s \<Rightarrow> (case watchdog_tick env s of
            Blocked s1 \<Rightarrow> Blocked (put_conn r s1 m)
          | Done _ s1 \<Rightarrow> Done () (put_conn r s1 m)))"

subsection \<open>Accounts\<close>

text \<open>The keys of two users can meet: a user whose ID is another's followed by \<open>:\<close> and more.\<close>

lemma accounts_of_port_user:
  assumes "map_of (clients m) (getClientKey (userMXID @ '':'' @ port) email) = Some r"
  shows "r \<in> set (ListAccounts userMXID m)"
proof -
  have "(getClientKey (userMXID @ '':'' @ port) email, r) \<in> set (clients m)" using assms by (rule map_of_SomeD)
  then show ?thesis
    by (force simp: ListAccounts_def getClientKey_def Let_def image_iff)
qed

definition manager_ok :: "'w imap_manager \<Rightarrow> bool" where
  "manager_ok m \<longleftrightarrow> distinct (map fst (clients m)) \<and>
     (\<forall>r \<in> set (map snd (clients m)). r \<in> dom (conns m) \<and> r \<in> set (watchdogs m)) \<and>
     (\<forall>r s. conns m r = Some s \<longrightarrow> r < next_conn m \<and> \<not> mu s \<and> \<not> connectingMu s)"

lemma stop_client_stops:
  assumes "conns m r = Some s" and "\<not> mu s" and "\<not> connectingMu s"
  shows "\<exists>s'. stop_client env r m = Done () (put_conn r s' m) \<and> \<not> mu s' \<and> \<not> connectingMu s' \<and>
    \<not> connected_inbox (box s') \<and> \<not> idling (box s') \<and> circuitBreaker s' = circuitBreaker s \<and> dials s' = dials s"
proof -
  have "\<exists>s'. and_then (StopIDLE s) (\<lambda>_. Disconnect env) = Done None s' \<and> \<not> mu s' \<and> \<not> connectingMu s' \<and>
      \<not> connected_inbox (box s') \<and> \<not> idling (box s') \<and> circuitBreaker s' = circuitBreaker s \<and> dials s' = dials s"
    using assms(2,3)
    by (simp add: StopIDLE_def with_mu_def Disconnect_def disconnect_body_def Let_def set_box_def report_if_def report_def)
  then show ?thesis using assms(1) by (auto simp: stop_client_def)
qed

text \<open>
  A removed account comes back: removing an account disconnects it and takes it out of the
  manager, but its watchdog keeps running, and at its next tick, when the network accepts a
  connection, it reconnects the removed account and starts IDLE on it again.
\<close>

theorem removed_account_comes_back:
  assumes "manager_ok m" and "map_of (clients m) (getClientKey userMXID email) = Some r"
    and "\<forall>s cb. conns m r = Some s \<and> circuitBreaker s = Some cb \<longrightarrow> cb_state cb = StateClosed"
    and "\<And>d. ne_dial env d = None" and "\<And>d. authenticate env d = None" and "\<And>d. ne_select env d = None"
    and "\<And>d. ne_idle env d = None" and "\<And>d. serves (ne_mail env d) mb" and "mailbox_ok mb"
  shows "\<exists>m1 m2 s. RemoveAccount env userMXID email m = Done None m1 \<and>
    GetAccount userMXID email m1 = Inl (Err (''account '' @ email @ '' not found for user '' @ userMXID)) \<and>
    manager_tick env r m1 = Done () m2 \<and> conns m2 r = Some s \<and> connected_inbox (box s) \<and> idling (box s)"
proof -
  obtain s where s: "conns m r = Some s" "r \<in> set (watchdogs m)" "\<not> mu s" "\<not> connectingMu s"
    using assms(1,2) by (force simp: manager_ok_def dest!: map_of_SomeD)
  obtain s' where stop: "stop_client env r m = Done () (put_conn r s' m)" "\<not> mu s'" "\<not> connectingMu s'"
    "\<not> connected_inbox (box s')" "\<not> idling (box s')" "circuitBreaker s' = circuitBreaker s"
    using stop_client_stops [OF s(1,3,4), of env] by blast
  let ?m1 = "(put_conn r s' m)\<lparr>clients := AList.delete (getClientKey userMXID email) (clients m)\<rparr>"
  have rem: "RemoveAccount env userMXID email m = Done None ?m1"
    using assms(2) stop(1) by (simp add: RemoveAccount_def put_conn_def)
  have get: "GetAccount userMXID email ?m1 = Inl (Err (''account '' @ email @ '' not found for user '' @ userMXID))"
    by (simp add: GetAccount_def delete_conv')
  have closed: "\<forall>cb. circuitBreaker s' = Some cb \<longrightarrow> cb_state cb = StateClosed" using assms(3) s(1) stop(6) by simp
  obtain s2 where rec: "reconnectClient env s' = Done None s2" "connected_inbox (box s2)" "client_inbox (box s2)"
    "\<not> idling (box s2)"
    using reconnect_connects [OF stop(2,3) closed assms(4,5)] by (elim exE conjE)
  have mu2: "\<not> mu s2" using free_run_reconnect [of env] stop(2,3) rec(1) by (auto simp: free_run_def)
  obtain n where prime: "primeBaselineAndBackfillFor (ne_process env) (ne_mail env (dials s2)) True False ((box s2)\<lparr>idling := True\<rparr>) (world s2) =
      (None, setLastUID False (n - 1) ((box s2)\<lparr>idling := True\<rparr>), world s2)"
    using prime_serves [OF assms(8) [of "dials s2"] assms(9), of "ne_process env" False "(box s2)\<lparr>idling := True\<rparr>" "world s2"] by (elim exE conjE)
  obtain s3 where start: "StartIDLE env s2 = Done None s3" "connected_inbox (box s3)" "idling (box s3)"
    using mu2 rec prime assms(6,7)
    by (auto simp: StartIDLE_def StartIDLE_with_def with_mu_def set_box_def Let_def setLastUID_def)
  have "watchdog_tick env s' = Done () s3"
    using stop rec start by (simp add: watchdog_tick_def watchdog_reconnect_def)
  then have "manager_tick env r ?m1 = Done () (put_conn r s3 ?m1)"
    using s(2) by (simp add: manager_tick_def put_conn_def)
  moreover have "conns (put_conn r s3 ?m1) r = Some s3" by (simp add: put_conn_def)
  ultimately show ?thesis using rem get start by blast
qed

definition sample_manager :: "uid list imap_manager" where
  "sample_manager = \<lparr>conns = [0 \<mapsto> sample_conn\<lparr>box := fresh_client\<lparr>idling := True\<rparr>\<rparr>], next_conn = 1,
     clients = [(getClientKey ''@a:x.org'' ''a@y.org'', 0)], watchdogs = [0], has_processor = True\<rparr>"

theorem removed_account_comes_back_witness:
  "\<exists>m1 m2 s. RemoveAccount sample_net ''@a:x.org'' ''a@y.org'' sample_manager = Done None m1 \<and>
    manager_tick sample_net 0 m1 = Done () m2 \<and> conns m2 0 = Some s \<and> connected_inbox (box s) \<and> idling (box s)"
proof -
  have "manager_ok sample_manager" by (simp add: manager_ok_def sample_manager_def sample_conn_def)
  moreover have "map_of (clients sample_manager) (getClientKey ''@a:x.org'' ''a@y.org'') = Some 0"
    by (simp add: sample_manager_def)
  moreover have "\<forall>s cb. conns sample_manager 0 = Some s \<and> circuitBreaker s = Some cb \<longrightarrow> cb_state cb = StateClosed"
    by (auto simp: sample_manager_def sample_conn_def)
  moreover have "mailbox_ok [3, 4]" by (simp add: mailbox_ok_def)
  moreover from this have "serves (ne_mail sample_net d) [3, 4]" for d by (simp add: sample_net_def plain_serves)
  ultimately show ?thesis
    using removed_account_comes_back [of sample_manager "''@a:x.org''" "''a@y.org''" 0 sample_net "[3, 4]"]
    by (auto simp: sample_net_def authenticate_def)
qed

end
