(* ===== verification/ImapClient.thy ===== *)
theory ImapClient
  imports ImapConn Folders Senders
begin

text \<open>
  How an IMAP client comes into being (\<open>pkg/imap/client.go\<close>): the table of providers, the choice of
  the server from the mail address (\<open>NewClient\<close>, \<open>NewClientOAuth\<close>), the name of the Sent mailbox and the
  listing of the mailboxes (\<open>ListFolders\<close>).  The client is its endpoint, which never changes,
  and the connection state of \<open>ImapConn\<close>.
\<close>

subsection \<open>Providers\<close>

record email_provider =
  ep_Name :: gostring
  ep_Host :: gostring
  ep_Port :: int
  ep_TLS :: bool

definition provider_at :: "gostring \<Rightarrow> gostring \<Rightarrow> email_provider" where
  "provider_at name host = \<lparr>ep_Name = name, ep_Host = host, ep_Port = 993, ep_TLS = True\<rparr>"

definition CommonProviders :: "gostring \<Rightarrow> email_provider option" where
  "CommonProviders domain =
     (if domain \<in> {''gmail.com'', ''googlemail.com''} then Some (provider_at ''Gmail'' ''imap.gmail.com'')
      else if domain \<in> {''outlook.com'', ''hotmail.com'', ''live.com'', ''msn.com''}
      then Some (provider_at ''Outlook'' ''outlook.office365.com'')
      else if domain \<in> {''yahoo.com'', ''yahoo.co.uk'', ''yahoo.fr'', ''yahoo.de''}
      then Some (provider_at ''Yahoo'' ''imap.mail.yahoo.com'')
      else if domain = ''fastmail.com'' then Some (provider_at ''FastMail'' ''imap.fastmail.com'')
      else if domain \<in> {''icloud.com'', ''me.com'', ''mac.com''} then Some (provider_at ''iCloud'' ''imap.mail.me.com'')
      else None)"

definition detectSentFolderForProvider :: "gostring \<Rightarrow> gostring" where
  "detectSentFolderForProvider domain =
     (let d = to_lower (trim_space domain) in
      if d \<in> {''gmail.com'', ''googlemail.com''} then ''[Gmail]/Sent Mail''
      else if d \<in> {''outlook.com'', ''hotmail.com'', ''live.com'', ''msn.com'', ''office365.com''} then ''Sent Items''
      else if d = ''fastmail.com'' then ''Sent''
      else ''Sent'')"

subsection \<open>Construction\<close>

record imap_endpoint =
  en_Host :: gostring
  en_Port :: int
  en_TLS :: bool
  en_Email :: gostring
  en_Username :: gostring
  en_Password :: gostring
  en_XOAUTH2 :: bool
  en_AccessToken :: gostring
  en_sentFolder :: gostring
  en_initialIdle :: int       \<comment> \<open>\<open>initialIdleTimeout\<close>, nanoseconds\<close>

text \<open>\<open>imap_host\<close>: the host for a domain; the MX lookup is an argument.\<close>

definition imap_host :: "(gostring \<Rightarrow> go_error + gostring list) \<Rightarrow> gostring \<Rightarrow> gostring \<times> int \<times> bool" where
  "imap_host lookupMX domain =
     (case CommonProviders domain of
        Some p \<Rightarrow> (ep_Host p, ep_Port p, ep_TLS p)
      | None \<Rightarrow>
          if IsGoogleWorkspaceDomain lookupMX domain then (''imap.gmail.com'', 993, True)
          else (''imap.'' @ domain, 993, True))"

definition fresh_box :: "int \<Rightarrow> int \<Rightarrow> imap_client" where
  "fresh_box backfillSeconds backfillMax =
     \<lparr>connected_inbox = False, client_inbox = False, idling = False, lastInboxUID = 0, lastSentUID = 0,
      inFlightInbox = [], inFlightSent = [], startupBackfillSeconds = backfillSeconds,
      startupBackfillMax = backfillMax\<rparr>"

definition client_breaker :: "circuit_breaker option" where
  "client_breaker = (case newCircuitBreaker 5 (120 * 10 ^ 9) of Inl e \<Rightarrow> None | Inr cb \<Rightarrow> Some cb)"

definition fresh_conn :: "int \<Rightarrow> int \<Rightarrow> int \<Rightarrow> 'w \<Rightarrow> 'w imap_conn" where
  "fresh_conn backfillSeconds backfillMax clock w =
     \<lparr>box = fresh_box backfillSeconds backfillMax, mu = False, connectingMu = False,
      circuitBreaker = client_breaker, isShutdown = False, stopClosed = False, idleLoops = 0,
      sentClient = False, reports = [], dials = 0, now = clock, world = w\<rparr>"

text \<open>\<open>NewClient\<close> reads the second part of the address split at \<open>@\<close>: without one it panics (None).\<close>

definition NewClient ::
  "(gostring \<Rightarrow> go_error + gostring list) \<Rightarrow> gostring \<Rightarrow> gostring \<Rightarrow> gostring \<Rightarrow> int \<Rightarrow> imap_endpoint option" where
  "NewClient lookupMX email username password idleSeconds =
     (case split_on CHR ''@'' email of
        _ # part # _ \<Rightarrow>
          (let domain = to_lower part; (host, port, tls) = imap_host lookupMX domain in
           Some \<lparr>en_Host = host, en_Port = port, en_TLS = tls, en_Email = email, en_Username = username,
                 en_Password = password, en_XOAUTH2 = False, en_AccessToken = [],
                 en_sentFolder = detectSentFolderForProvider domain,
                 en_initialIdle = (if idleSeconds > 0 then idleSeconds * 10 ^ 9 else 30 * 10 ^ 9)\<rparr>)
      | _ \<Rightarrow> None)"

definition NewClientOAuth ::
  "(gostring \<Rightarrow> go_error + gostring list) \<Rightarrow> gostring \<Rightarrow> gostring \<Rightarrow> gostring \<Rightarrow> int \<Rightarrow> imap_endpoint option" where
  "NewClientOAuth lookupMX email username accessToken idleSeconds =
     map_option (\<lambda>en. en\<lparr>en_XOAUTH2 := True, en_AccessToken := accessToken\<rparr>)
       (NewClient lookupMX email username [] idleSeconds)"

definition ListFolders ::
  "slice_sort \<Rightarrow> go_error + (gostring \<times> mailbox_attr list) list \<Rightarrow> 'w imap_conn \<Rightarrow> go_error + folder_info list" where
  "ListFolders srt answer s =
     (if \<not> connected_inbox (box s) \<or> \<not> client_inbox (box s) then Inl (Err ''IMAP client not connected'')
      else case answer of
        Inl e \<Rightarrow> Inl (Errorf ''LIST command failed'' e)
      | Inr mailboxes \<Rightarrow> Inr (CategorizeFolders srt mailboxes))"

subsection \<open>A first connection\<close>

lemma NewClient_iff: "NewClient mx email u p i = None \<longleftrightarrow> CHR ''@'' \<notin> set email"
proof -
  have "CHR ''@'' \<in> set email \<Longrightarrow> \<exists>a b r. split_on CHR ''@'' email = a # b # r"
  proof -
    assume "CHR ''@'' \<in> set email"
    then obtain u v where e: "email = u @ CHR ''@'' # v" and n: "CHR ''@'' \<notin> set u" by (meson split_list_first)
    obtain b r where "split_on CHR ''@'' v = b # r" using split_on_nonempty by (meson neq_Nil_conv)
    then show "\<exists>a b r. split_on CHR ''@'' email = a # b # r" using n by (simp add: e split_on_sep_append)
  qed
  then show ?thesis
    by (cases "CHR ''@'' \<in> set email")
       (auto simp: NewClient_def Let_def split_on_none case_prod_unfold)
qed

text \<open>Connecting a new client never waits for a lock and ends connected or with an error.\<close>

lemma Connect_fresh:
  "\<exists>err s. Connect env (fresh_conn b m c w) = Done err s \<and>
     (err = None \<longrightarrow> connected_inbox (box s) \<and> client_inbox (box s))"
proof -
  obtain cb where c: "client_breaker = Some cb" and st: "cb_state cb = StateClosed"
    by (auto simp: client_breaker_def newCircuitBreaker_def)
  then have ch: "checkStateAndIncrement t cb = (Inr False, cb, [])" for t
    by (simp add: checkStateAndIncrement_def)
  show ?thesis
    by (auto simp: Connect_def with_connectingMu_def guarded_def fresh_conn_def c ch connectInternal_def
        with_mu_def connect_body_def fresh_box_def set_box_def Let_def put_breaker_def report_if_def report_def
        split: option.split prod.split)
qed

end
