(* ===== verification/KeyStore.thy ===== *)
theory KeyStore
  imports Breaker
begin

text \<open>
  The credential encryption of \<open>pkg/connector/database.go\<close>: where the passphrase and the salt come
  from (\<open>getDBKey\<close>, \<open>readPassphraseFile\<close>, \<open>generateAndStorePassphrase\<close>, \<open>getSalt\<close>) and the
  \<open>v2:\<close> envelope (\<open>encryptString\<close>, \<open>decryptString\<close>).  The file system is a map from paths to
  contents; \<open>filepath.Join\<close> is Go's, for a Unix system.  AES-GCM, PBKDF2, base64 and the random
  source are the fields of a record the operations take.
\<close>

subsection \<open>Paths\<close>

fun clean_step :: "bool \<Rightarrow> gostring list \<Rightarrow> gostring \<Rightarrow> gostring list" where
  "clean_step rooted acc c =
     (if c = [] \<or> c = ''.'' then acc
      else if c = ''..'' then
        (case acc of [] \<Rightarrow> if rooted then [] else [''..'']
                   | a # as \<Rightarrow> if a = ''..'' then ''..'' # acc else as)
      else c # acc)"

definition path_clean :: "gostring \<Rightarrow> gostring" where
  "path_clean p =
     (let rooted = has_prefix p ''/'';
          s = (if rooted then ''/'' else '''') @
              join_with ''/'' (rev (foldl (clean_step rooted) [] (split_on CHR ''/'' p)))
      in if s = [] then ''.'' else s)"

definition path_join :: "gostring list \<Rightarrow> gostring" where
  "path_join es =
     (let es' = dropWhile (\<lambda>e. e = []) es
      in if es' = [] then [] else path_clean (join_with ''/'' es'))"

subsection \<open>The world the key comes from\<close>

type_synonym files = "gostring \<rightharpoonup> gostring"

record host_env =
  passphrase_env :: gostring          \<comment> \<open>\<open>MATRIMAIL_PASSPHRASE\<close>\<close>
  xdg_config_home :: gostring
  user_home :: "go_error + gostring"
  working_dir :: "go_error + gostring"
  goos :: gostring

text \<open>The random source, and which directories and files can be written, at one start of the process.\<close>

record host_io =
  rand_pass :: "go_error + gostring"  \<comment> \<open>the 32 bytes read for a passphrase\<close>
  rand_salt :: "go_error + gostring"  \<comment> \<open>the 32 bytes read for a salt\<close>
  mkdir_fails :: "gostring \<Rightarrow> go_error option"
  write_fails :: "gostring \<Rightarrow> go_error option"

record crypto =
  base64 :: "gostring \<Rightarrow> gostring"
  unbase64 :: "gostring \<Rightarrow> go_error + gostring"
  pbkdf2 :: "gostring \<Rightarrow> gostring \<Rightarrow> gostring"              \<comment> \<open>passphrase, salt\<close>
  gcm_seal :: "gostring \<Rightarrow> gostring \<Rightarrow> gostring \<Rightarrow> gostring"  \<comment> \<open>key, nonce, plaintext\<close>
  gcm_open :: "gostring \<Rightarrow> gostring \<Rightarrow> gostring \<Rightarrow> go_error + gostring"

definition getLegacyConfigDir :: "host_env \<Rightarrow> go_error + gostring" where
  "getLegacyConfigDir env =
     (if xdg_config_home env \<noteq> [] then Inr (path_join [xdg_config_home env, ''matrimail''])
      else case user_home env of
        Inl e \<Rightarrow> Inl (Errorf ''failed to get user home directory'' e)
      | Inr h \<Rightarrow> Inr (if goos env = ''windows'' then path_join [h, ''AppData'', ''Roaming'', ''Matrimail'']
                     else if goos env = ''darwin'' then path_join [h, ''Library'', ''Application Support'', ''Matrimail'']
                     else path_join [h, ''.config'', ''matrimail'']))"

definition getPassphraseFilePath :: "host_env \<Rightarrow> go_error + gostring" where
  "getPassphraseFilePath env =
     (case working_dir env of
        Inl e \<Rightarrow> Inl (Errorf ''failed to get working directory'' e)
      | Inr cwd \<Rightarrow> Inr (path_join [cwd, ''data'', ''passphrase'']))"

definition no_such_file :: go_error where
  "no_such_file = Err ''no such file or directory''"

definition readPassphraseFile :: "host_env \<Rightarrow> files \<Rightarrow> go_error + gostring" where
  "readPassphraseFile env fs =
     (case getPassphraseFilePath env of
        Inl e \<Rightarrow> Inl e
      | Inr primary \<Rightarrow> (case fs primary of
            Some d \<Rightarrow> Inr (trim_space d)
          | None \<Rightarrow> (case getLegacyConfigDir env of
                Inl e \<Rightarrow> Inl e
              | Inr dir \<Rightarrow> (case fs (path_join [dir, ''passphrase'']) of
                    Some d \<Rightarrow> Inr (trim_space d)
                  | None \<Rightarrow> Inl no_such_file))))"

definition path_dir :: "gostring \<Rightarrow> gostring" where
  "path_dir p =
     (if CHR ''/'' \<in> set p then path_clean (join_with ''/'' (butlast (split_on CHR ''/'' p)) @ ''/'')
      else path_clean [])"

text \<open>Writing a file below a directory that is made first, with the error texts of the two callers.\<close>

definition write_under ::
  "host_io \<Rightarrow> gostring \<Rightarrow> gostring \<Rightarrow> gostring \<Rightarrow> gostring \<Rightarrow> files \<Rightarrow> go_error option \<times> files" where
  "write_under io dir path data what fs =
     (case mkdir_fails io dir of
        Some e \<Rightarrow> (Some (Errorf ''failed to create data directory'' e), fs)
      | None \<Rightarrow> (case write_fails io path of
            Some e \<Rightarrow> (Some (Errorf what e), fs)
          | None \<Rightarrow> (None, fs(path \<mapsto> data))))"

definition generateAndStorePassphrase ::
  "crypto \<Rightarrow> host_env \<Rightarrow> host_io \<Rightarrow> files \<Rightarrow> (go_error + gostring) \<times> files" where
  "generateAndStorePassphrase c env io fs =
     (case rand_pass io of
        Inl e \<Rightarrow> (Inl (Errorf ''failed to generate random passphrase'' e), fs)
      | Inr r \<Rightarrow> (case getPassphraseFilePath env of
            Inl e \<Rightarrow> (Inl e, fs)
          | Inr path \<Rightarrow> (case write_under io (path_dir path) path (base64 c r)
                               ''failed to write passphrase file'' fs of
                (Some e, fs') \<Rightarrow> (Inl e, fs')
              | (None, fs') \<Rightarrow> (Inr (base64 c r), fs'))))"

definition stored_salt :: "crypto \<Rightarrow> gostring option \<Rightarrow> gostring option" where
  "stored_salt c content =
     (case content of
        None \<Rightarrow> None
      | Some d \<Rightarrow> (case unbase64 c (trim_space d) of
            Inl e \<Rightarrow> None
          | Inr s \<Rightarrow> if length s = 32 then Some s else None))"

definition getSalt ::
  "crypto \<Rightarrow> host_env \<Rightarrow> host_io \<Rightarrow> files \<Rightarrow> (go_error + gostring) \<times> files" where
  "getSalt c env io fs =
     (case working_dir env of
        Inl e \<Rightarrow> (Inl (Errorf ''failed to get working directory'' e), fs)
      | Inr cwd \<Rightarrow>
          (let dir = path_join [cwd, ''data'']; path = path_join [dir, ''matrimail.salt''] in
           case stored_salt c (fs path) of
             Some s \<Rightarrow> (Inr s, fs)
           | None \<Rightarrow> (case rand_salt io of
                 Inl e \<Rightarrow> (Inl (Errorf ''failed to generate salt'' e), fs)
               | Inr s \<Rightarrow> (case write_under io dir path (base64 c s) ''failed to save salt'' fs of
                     (Some e, fs') \<Rightarrow> (Inl e, fs')
                   | (None, fs') \<Rightarrow> (Inr s, fs')))))"

text \<open>The body of \<open>keyOnce.Do\<close>: the passphrase from the environment, the file or the random
  source, then the salt, then the key.\<close>

definition choose_passphrase ::
  "crypto \<Rightarrow> host_env \<Rightarrow> host_io \<Rightarrow> files \<Rightarrow> (go_error + gostring) \<times> files" where
  "choose_passphrase c env io fs =
     (let p = trim_space (passphrase_env env);
          p' = (if p = [] then (case readPassphraseFile env fs of Inl e \<Rightarrow> [] | Inr q \<Rightarrow> q) else p)
      in if p' = [] then generateAndStorePassphrase c env io fs else (Inr p', fs))"

definition derive_key ::
  "crypto \<Rightarrow> host_env \<Rightarrow> host_io \<Rightarrow> files \<Rightarrow> (go_error + gostring) \<times> files" where
  "derive_key c env io fs =
     (case choose_passphrase c env io fs of
        (Inl e, fs') \<Rightarrow> (Inl e, fs')
      | (Inr p, fs') \<Rightarrow> (case getSalt c env io fs' of
            (Inl e, fs'') \<Rightarrow> (Inl (Errorf ''failed to get salt'' e), fs'')
          | (Inr salt, fs'') \<Rightarrow> (Inr (pbkdf2 c p salt), fs'')))"

text \<open>\<open>getDBKey\<close>: the package variables \<open>dbKey\<close> and \<open>keyErr\<close> are set once in a process.\<close>

definition checked_key :: "go_error + gostring \<Rightarrow> go_error + gostring" where
  "checked_key r =
     (case r of Inl e \<Rightarrow> Inl e
      | Inr k \<Rightarrow> if length k \<noteq> 32
                then Inl (Err (''derived key must be 32 bytes, got '' @ itoa_go (int (length k))))
                else Inr k)"

definition getDBKey ::
  "crypto \<Rightarrow> host_env \<Rightarrow> host_io \<Rightarrow> (go_error + gostring) option \<times> files \<Rightarrow>
     (go_error + gostring) \<times> (go_error + gostring) option \<times> files" where
  "getDBKey c env io s =
     (case s of
        (Some r, fs) \<Rightarrow> (checked_key r, Some r, fs)
      | (None, fs) \<Rightarrow> (case derive_key c env io fs of (r, fs') \<Rightarrow> (checked_key r, Some r, fs')))"

subsection \<open>The envelope\<close>

definition encPrefix :: gostring where "encPrefix = ''v2:''"

definition nonceSize :: nat where "nonceSize = 12"

text \<open>\<open>encryptString\<close>, given what \<open>getDBKey\<close> returned and the nonce read from the random source.\<close>

definition encryptString :: "crypto \<Rightarrow> go_error + gostring \<Rightarrow> go_error + gostring \<Rightarrow> gostring \<Rightarrow> go_error + gostring" where
  "encryptString c key rnd plain =
     (case key of Inl e \<Rightarrow> Inl e
      | Inr k \<Rightarrow> (case rnd of Inl e \<Rightarrow> Inl e
          | Inr nonce \<Rightarrow> Inr (encPrefix @ base64 c (nonce @ gcm_seal c k nonce plain))))"

definition v1_error :: go_error where
  "v1_error = Err (''cannot decrypt old v1 encrypted data - please delete your database and '' @
     ''reconfigure your email accounts with the new secure system'')"

definition prefix_error :: go_error where
  "prefix_error = Err ''value is not encrypted with expected v2: prefix''"

definition short_error :: go_error where
  "short_error = Err ''ciphertext too short''"

definition decryptString :: "crypto \<Rightarrow> go_error + gostring \<Rightarrow> gostring \<Rightarrow> go_error + gostring" where
  "decryptString c key stored =
     (if has_prefix stored ''v1:'' then Inl v1_error
      else if \<not> has_prefix stored encPrefix then Inl prefix_error
      else case key of Inl e \<Rightarrow> Inl e
      | Inr k \<Rightarrow> (case unbase64 c (trim_prefix stored encPrefix) of Inl e \<Rightarrow> Inl e
          | Inr raw \<Rightarrow> if length raw < nonceSize then Inl short_error
                       else gcm_open c k (take nonceSize raw) (drop nonceSize raw)))"

subsection \<open>What is assumed of the libraries\<close>

text \<open>
  Base64 decodes what it encoded, its output has no white space at either end and is empty only
  for an empty input; GCM opens what it sealed under the same key and nonce; PBKDF2 is asked for 32 bytes.
\<close>

definition crypto_laws :: "crypto \<Rightarrow> bool" where
  "crypto_laws c \<longleftrightarrow>
     (\<forall>x. unbase64 c (base64 c x) = Inr x) \<and>
     (\<forall>x. trim_space (base64 c x) = base64 c x) \<and>
     (\<forall>x. base64 c x = [] \<longrightarrow> x = []) \<and>
     (\<forall>k n p. gcm_open c k n (gcm_seal c k n p) = Inr p) \<and>
     (\<forall>p s. length (pbkdf2 c p s) = 32)"

lemma crypto_lawsD:
  assumes "crypto_laws c"
  shows "unbase64 c (base64 c x) = Inr x" "trim_space (base64 c x) = base64 c x"
    "base64 c x = [] \<Longrightarrow> x = []" "gcm_open c k n (gcm_seal c k n p) = Inr p"
    "length (pbkdf2 c p s) = 32"
  using assms by (simp_all add: crypto_laws_def)

text \<open>\<open>io.ReadFull\<close> fills the slice it is given or fails.\<close>

definition io_laws :: "host_io \<Rightarrow> bool" where
  "io_laws io \<longleftrightarrow> (\<forall>r. rand_pass io = Inr r \<longrightarrow> length r = 32) \<and> (\<forall>r. rand_salt io = Inr r \<longrightarrow> length r = 32)"

subsection \<open>The name of a file\<close>

lemma join_with_snoc:
  "join_with sep (ws @ [w]) = (if ws = [] then w else join_with sep ws @ sep @ w)"
proof (induction ws)
  case (Cons a ws)
  then show ?case by (cases ws) auto
qed simp

definition file_name :: "gostring \<Rightarrow> bool" where
  "file_name n \<longleftrightarrow> CHR ''/'' \<notin> set n \<and> n \<noteq> [] \<and> n \<noteq> ''.'' \<and> n \<noteq> ''..''"

definition base_name :: "gostring \<Rightarrow> gostring" where
  "base_name p = last (split_on CHR ''/'' p)"

lemma base_name_sep: "file_name n \<Longrightarrow> base_name (u @ CHR ''/'' # n) = n"
  by (simp add: base_name_def file_name_def split_on_append split_on_none)

lemma base_name_none: "file_name n \<Longrightarrow> base_name n = n"
  by (simp add: base_name_def file_name_def split_on_none)

lemma base_name_join:
  assumes "file_name n" and "u = [] \<or> u = ''/''"
  shows "base_name (u @ join_with ''/'' (ws @ [n])) = n"
proof (cases "ws = []")
  case True
  with assms show ?thesis using base_name_sep [of n "[]"] by (auto simp: base_name_none)
next
  case False
  then show ?thesis
    using base_name_sep [OF assms(1), of "u @ join_with ''/'' ws"] by (simp add: join_with_snoc)
qed

lemma base_name_clean:
  assumes n: "file_name n" shows "base_name (path_clean (join_with ''/'' (ws @ [n]))) = n"
proof -
  let ?r = "has_prefix (join_with ''/'' (ws @ [n])) ''/''"
  obtain cs where cs: "split_on CHR ''/'' (join_with ''/'' (ws @ [n])) = cs @ [n]"
    using n by (cases "ws = []") (auto simp: join_with_snoc file_name_def split_on_append split_on_none)
  have f: "rev (foldl (clean_step ?r) [] (cs @ [n])) = rev (foldl (clean_step ?r) [] cs) @ [n]"
    using n by (simp add: file_name_def)
  have ne: "u @ join_with ''/'' (vs @ [n]) \<noteq> []" for u vs
    using n by (simp add: join_with_snoc file_name_def)
  show ?thesis
    unfolding path_clean_def Let_def cs f using ne base_name_join [OF n] by simp
qed

lemma base_name_path_join:
  assumes n: "file_name n" shows "base_name (path_join (es @ [n])) = n"
proof -
  have "dropWhile (\<lambda>e. e = []) (es @ [n]) = dropWhile (\<lambda>e. e = []) es @ [n]"
    using n by (simp add: dropWhile_append file_name_def)
  then show ?thesis using base_name_clean [OF n] by (simp add: path_join_def Let_def)
qed

lemma key_file_names: "file_name ''passphrase''" "file_name ''matrimail.salt''"
  by (simp_all add: file_name_def)

lemma salt_path_apart:
  "path_join [d, ''matrimail.salt''] \<noteq> path_join [a, b, ''passphrase'']"
  "path_join [d, ''matrimail.salt''] \<noteq> path_join [a, ''passphrase'']"
  using base_name_path_join [OF key_file_names(2), of "[d]"]
    base_name_path_join [OF key_file_names(1), of "[a, b]"]
    base_name_path_join [OF key_file_names(1), of "[a]"]
  by auto

subsection \<open>The key survives a restart\<close>

lemma getSalt_stored:
  assumes "crypto_laws c" and "io_laws io" and g: "getSalt c env io fs = (Inr s, fs')"
  shows "getSalt c env io' fs' = (Inr s, fs')"
    and "\<exists>d. fs' = fs \<or> (\<exists>v. fs' = fs(path_join [d, ''matrimail.salt''] \<mapsto> v))"
proof -
  obtain cwd where cwd: "working_dir env = Inr cwd"
    using g by (cases "working_dir env") (auto simp: getSalt_def)
  let ?d = "path_join [cwd, ''data'']"
  let ?p = "path_join [?d, ''matrimail.salt'']"
  have "(fs' = fs \<and> stored_salt c (fs ?p) = Some s) \<or> (fs' = fs(?p \<mapsto> base64 c s) \<and> length s = 32)"
    using g assms(2) cwd
    by (auto simp: getSalt_def Let_def write_under_def io_laws_def split: option.splits sum.splits)
  moreover have "stored_salt c (Some (base64 c s)) = Some s" if "length s = 32"
    using that assms(1) by (simp add: stored_salt_def crypto_lawsD)
  ultimately have "stored_salt c (fs' ?p) = Some s" and p: "fs' = fs \<or> fs' = fs(?p \<mapsto> base64 c s)" by auto
  then show "getSalt c env io' fs' = (Inr s, fs')" using cwd by (simp add: getSalt_def Let_def)
  from p show "\<exists>d. fs' = fs \<or> (\<exists>v. fs' = fs(path_join [d, ''matrimail.salt''] \<mapsto> v))" by blast
qed

lemma readPassphraseFile_salt:
  "readPassphraseFile env (fs(path_join [d, ''matrimail.salt''] \<mapsto> v)) = readPassphraseFile env fs"
  using salt_path_apart [of d, symmetric]
  by (simp add: readPassphraseFile_def getPassphraseFilePath_def split: sum.split option.split)

lemma generated_read:
  assumes "crypto_laws c" and "io_laws io" and g: "generateAndStorePassphrase c env io fs = (Inr p, fs')"
  shows "readPassphraseFile env fs' = Inr p" and "p \<noteq> []"
proof -
  obtain r path where r: "rand_pass io = Inr r" and path: "getPassphraseFilePath env = Inr path"
    and p: "p = base64 c r" and fs': "fs' = fs(path \<mapsto> base64 c r)"
    using g by (auto simp: generateAndStorePassphrase_def write_under_def split: sum.splits option.splits)
  show "readPassphraseFile env fs' = Inr p"
    using assms(1) by (simp add: readPassphraseFile_def path fs' p crypto_lawsD)
  show "p \<noteq> []"
    using crypto_lawsD(3) [OF assms(1), of r] assms(2) r p by (auto simp: io_laws_def)
qed

lemma passphrase_kept:
  assumes "crypto_laws c" and "io_laws io" and ch: "choose_passphrase c env io fs = (Inr p, fs1)"
    and s: "fs2 = fs1 \<or> (\<exists>v. fs2 = fs1(path_join [d, ''matrimail.salt''] \<mapsto> v))"
  shows "choose_passphrase c env io' fs2 = (Inr p, fs2)"
proof -
  let ?e = "trim_space (passphrase_env env)"
  let ?q = "if ?e = [] then (case readPassphraseFile env fs of Inl e \<Rightarrow> [] | Inr q \<Rightarrow> q) else ?e"
  have rd: "readPassphraseFile env fs2 = readPassphraseFile env fs1"
    using s readPassphraseFile_salt by blast
  show ?thesis
  proof (cases "?q = []")
    case True
    then have "generateAndStorePassphrase c env io fs = (Inr p, fs1)" and "?e = []"
      using ch by (auto simp: choose_passphrase_def Let_def split: if_splits)
    then show ?thesis
      using generated_read [OF assms(1,2)] rd by (simp add: choose_passphrase_def Let_def)
  next
    case False
    then have "fs1 = fs" and "p = ?q"
      using ch by (auto simp: choose_passphrase_def Let_def)
    with False rd show ?thesis by (auto simp: choose_passphrase_def Let_def)
  qed
qed

text \<open>
  Once a start of the bridge has produced its database key, every later start in the same
  environment derives the same key from the files the first one left, whatever the random source
  and the disk do then, so stored credentials stay readable.
\<close>

theorem key_survives_restart:
  assumes "crypto_laws c" and "io_laws io" and first: "getDBKey c env io (None, fs) = (Inr k, st, fs')"
  shows "getDBKey c env io' (None, fs') = (Inr k, st, fs')"
proof -
  obtain p fs1 salt where ch: "choose_passphrase c env io fs = (Inr p, fs1)"
    and sl: "getSalt c env io fs1 = (Inr salt, fs')" and k: "k = pbkdf2 c p salt" "st = Some (Inr k)"
    using first by (auto simp: getDBKey_def derive_key_def checked_key_def split: prod.splits sum.splits if_splits)
  from getSalt_stored(2) [OF assms(1,2) sl] obtain d
    where "fs' = fs1 \<or> (\<exists>v. fs' = fs1(path_join [d, ''matrimail.salt''] \<mapsto> v))" by blast
  with assms(1,2) ch have "choose_passphrase c env io' fs' = (Inr p, fs')" by (rule passphrase_kept)
  moreover have "getSalt c env io' fs' = (Inr salt, fs')" using assms(1,2) sl by (rule getSalt_stored(1))
  ultimately show ?thesis
    using k crypto_lawsD(5) [OF assms(1)] by (simp add: getDBKey_def derive_key_def checked_key_def)
qed

subsection \<open>The envelope opens again\<close>

lemma open_sealed:
  assumes "crypto_laws c" and "length nonce = nonceSize"
  shows "decryptString c (Inr k) (encPrefix @ base64 c (nonce @ gcm_seal c k nonce plain)) = Inr plain"
  using assms by (simp add: decryptString_def crypto_lawsD) (simp add: encPrefix_def)

text \<open>
  What \<open>encryptString\<close> returned decrypts, under the same key, to the text it was given.
\<close>

theorem decrypt_encrypt:
  assumes "crypto_laws c" and "length nonce = nonceSize" and "encryptString c key (Inr nonce) plain = Inr ct"
  shows "decryptString c key ct = Inr plain"
proof -
  obtain k where "key = Inr k" and "ct = encPrefix @ base64 c (nonce @ gcm_seal c k nonce plain)"
    using assms(3) by (cases key) (auto simp: encryptString_def)
  with open_sealed [OF assms(1,2)] show ?thesis by simp
qed

text \<open>Libraries that satisfy the laws, for the concrete runs.\<close>

definition sample_crypto :: crypto where
  "sample_crypto = \<lparr>base64 = (\<lambda>x. if x = [] then [] else ''='' @ x @ ''=''),
     unbase64 = (\<lambda>y. Inr (butlast (tl y))), pbkdf2 = (\<lambda>p s. take 32 (p @ s @ replicate 32 CHR ''k'')),
     gcm_seal = (\<lambda>k n p. p), gcm_open = (\<lambda>k n ct. Inr ct)\<rparr>"

lemma sample_crypto_laws: "crypto_laws sample_crypto"
proof -
  have "trim_space (''='' @ x @ ''='') = ''='' @ x @ ''=''" for x
    by (rule trim_space_graphic) (simp_all add: graphic_def)
  moreover have "min (length p) 32 + (min (length s) (32 - length p) + (32 - (length p + length s))) = 32"
    for p s :: gostring by arith
  ultimately show ?thesis by (simp add: crypto_laws_def sample_crypto_def)
qed

definition sample_env :: host_env where
  "sample_env = \<lparr>passphrase_env = '''', xdg_config_home = '''', user_home = Inr ''/root'',
     working_dir = Inr ''/app'', goos = ''linux''\<rparr>"

definition sample_io :: host_io where
  "sample_io = \<lparr>rand_pass = Inr (replicate 32 CHR ''p''), rand_salt = Inr (replicate 32 CHR ''s''),
     mkdir_fails = (\<lambda>_. None), write_fails = (\<lambda>_. None)\<rparr>"

definition dead_io :: host_io where
  "dead_io = \<lparr>rand_pass = Inl (Err ''no entropy''), rand_salt = Inl (Err ''no entropy''),
     mkdir_fails = (\<lambda>_. Some (Err ''read-only'')), write_fails = (\<lambda>_. Some (Err ''read-only''))\<rparr>"

lemma sample_io_laws: "io_laws sample_io"
  by (simp add: io_laws_def sample_io_def)

lemma sample_first_start:
  "\<exists>k st fs'. getDBKey sample_crypto sample_env sample_io (None, Map.empty) = (Inr k, st, fs')"
proof -
  have g: "\<exists>p fs1. choose_passphrase sample_crypto sample_env sample_io Map.empty = (Inr p, fs1) \<and>
      fs1 (path_join [path_join [''/app'', ''data''], ''matrimail.salt'']) = None"
    using salt_path_apart(1)
    by (auto simp: choose_passphrase_def generateAndStorePassphrase_def readPassphraseFile_def
        getPassphraseFilePath_def getLegacyConfigDir_def sample_env_def sample_io_def write_under_def Let_def
        split: option.splits)
  then obtain p fs1 where ch: "choose_passphrase sample_crypto sample_env sample_io Map.empty = (Inr p, fs1)"
    and n: "fs1 (path_join [path_join [''/app'', ''data''], ''matrimail.salt'']) = None" by blast
  have "\<exists>s fs2. getSalt sample_crypto sample_env sample_io fs1 = (Inr s, fs2)"
    using n by (simp add: getSalt_def sample_env_def sample_io_def write_under_def stored_salt_def Let_def)
  with ch show ?thesis
    using crypto_lawsD(5) [OF sample_crypto_laws]
    by (auto simp: getDBKey_def derive_key_def checked_key_def)
qed

theorem key_survives_restart_witness:
  "\<exists>k st fs'. getDBKey sample_crypto sample_env sample_io (None, Map.empty) = (Inr k, st, fs') \<and>
     getDBKey sample_crypto sample_env dead_io (None, fs') = (Inr k, st, fs')"
  using sample_first_start key_survives_restart [OF sample_crypto_laws sample_io_laws] by blast

theorem decrypt_encrypt_witness:
  "encryptString sample_crypto (Inr ''k'') (Inr ''123456789012'') ''pw'' = Inr ''v2:=123456789012pw='' \<and>
   decryptString sample_crypto (Inr ''k'') ''v2:=123456789012pw='' = Inr ''pw''"
proof -
  have e: "encryptString sample_crypto (Inr ''k'') (Inr ''123456789012'') ''pw'' = Inr ''v2:=123456789012pw=''"
    by (simp add: encryptString_def sample_crypto_def encPrefix_def)
  have "length ''123456789012'' = nonceSize" by (simp add: nonceSize_def)
  from decrypt_encrypt [OF sample_crypto_laws this e] e show ?thesis by simp
qed

end
