(* ===== verification/AccountDB.thy ===== *)
theory AccountDB
  imports KeyStore Machines "HOL-Library.Word"
begin

text \<open>
  The table of mail accounts (\<open>EmailAccountQuery\<close>, \<open>pkg/connector/database.go\<close>): rows under
  (user_mxid, email), one definition per SQL statement.  A statement works or fails as the
  database decides (\<open>exec\<close>, \<open>query_result\<close>); tokens and passwords are encrypted with the operations
  of \<open>KeyStore\<close>; the JSON library is a parameter.  A time is a number of nanoseconds since the
  zero \<open>time.Time\<close>.
\<close>

subsection \<open>Times and columns\<close>

type_synonym gotime = int

definition unix_epoch :: int where "unix_epoch = 62135596800 * 10 ^ 9"

definition wrap64 :: "int \<Rightarrow> int" where
  "wrap64 n = (n + 2 ^ 63) mod 2 ^ 64 - 2 ^ 63"

definition UnixNano :: "gotime \<Rightarrow> int" where "UnixNano t = wrap64 (t - unix_epoch)"

definition fromUnixNano :: "int \<Rightarrow> gotime" where "fromUnixNano n = n + unix_epoch"

definition AuthTypePassword :: gostring where "AuthTypePassword = ''password''"
definition AuthTypeOAuthGmail :: gostring where "AuthTypeOAuthGmail = ''oauth-gmail''"
definition AuthTypeOAuthGmailNeedsReauth :: gostring where
  "AuthTypeOAuthGmailNeedsReauth = ''oauth-gmail-needs-reauth''"
definition OAuthProviderGoogle :: gostring where "OAuthProviderGoogle = ''google''"
definition ScopeModeModify :: gostring where "ScopeModeModify = ''modify''"
definition ScopeModeFull :: gostring where "ScopeModeFull = ''full''"

lemmas auth_constants = AuthTypePassword_def AuthTypeOAuthGmail_def AuthTypeOAuthGmailNeedsReauth_def
  OAuthProviderGoogle_def ScopeModeModify_def ScopeModeFull_def

text \<open>\<open>EmailAccount\<close>, as the statements fill it.\<close>

record email_account =
  ea_UserMXID :: gostring
  ea_Email :: gostring
  ea_Username :: gostring
  ea_Password :: gostring
  ea_Host :: gostring
  ea_Port :: int
  ea_TLS :: bool
  ea_CreatedAt :: gotime
  ea_LastSyncTime :: gotime
  ea_MonitoredFolders :: "gostring list"
  ea_AuthType :: gostring

record oauth_token =
  tok_Access :: gostring
  tok_Refresh :: gostring
  tok_Expiry :: gotime

record account_row =
  ar_username :: gostring
  ar_password :: gostring
  ar_host :: gostring
  ar_port :: int
  ar_tls :: bool
  ar_created_at :: gotime
  ar_last_sync :: gotime
  ar_folders :: "gostring option"
  ar_auth_type :: gostring
  ar_provider :: "gostring option"
  ar_refresh :: "gostring option"
  ar_access :: "gostring option"
  ar_expiry :: "int option"
  ar_scope :: "gostring option"
  ar_issued_at :: "int option"
  ar_history :: "int option"
  ar_notice_at :: "int option"

type_synonym account_key = "gostring \<times> gostring"
type_synonym account_table = "(account_key \<times> account_row) list"

record store_env =
  se_crypto :: crypto
  se_key :: "go_error + gostring"
  se_marshal :: "gostring list \<Rightarrow> go_error + gostring"
  se_unmarshal :: "gostring \<Rightarrow> go_error + gostring list"

abbreviation encrypt :: "store_env \<Rightarrow> go_error + gostring \<Rightarrow> gostring \<Rightarrow> go_error + gostring" where
  "encrypt E \<equiv> encryptString (se_crypto E) (se_key E)"

abbreviation decrypt :: "store_env \<Rightarrow> gostring \<Rightarrow> go_error + gostring" where
  "decrypt E \<equiv> decryptString (se_crypto E) (se_key E)"

definition inbox_json :: gostring where "inbox_json = ''['' @ [CHR 0x22] @ ''INBOX'' @ [CHR 0x22] @ '']''"

definition GetMonitoredFoldersJSON :: "store_env \<Rightarrow> gostring list \<Rightarrow> gostring" where
  "GetMonitoredFoldersJSON E fs =
     (if fs = [] then inbox_json
      else case se_marshal E fs of Inl e \<Rightarrow> inbox_json | Inr d \<Rightarrow> d)"

definition SetMonitoredFoldersFromJSON :: "store_env \<Rightarrow> gostring \<Rightarrow> gostring list" where
  "SetMonitoredFoldersFromJSON E s =
     (if s = [] then [''INBOX'']
      else case se_unmarshal E s of Inl e \<Rightarrow> [''INBOX''] | Inr fs \<Rightarrow> fs)"

subsection \<open>Statements that write\<close>

definition exec :: "go_error option \<Rightarrow> ('t \<Rightarrow> 't) \<Rightarrow> 't \<Rightarrow> go_error option \<times> 't" where
  "exec db f t = (case db of Some e \<Rightarrow> (Some e, t) | None \<Rightarrow> (None, f t))"

definition update_row :: "'k \<Rightarrow> ('r \<Rightarrow> 'r) \<Rightarrow> ('k \<times> 'r) list \<Rightarrow> ('k \<times> 'r) list" where
  "update_row k f tab = map (\<lambda>(k', r). (k', if k' = k then f r else r)) tab"

definition insert_or_update :: "'k \<Rightarrow> 'r \<Rightarrow> ('r \<Rightarrow> 'r) \<Rightarrow> ('k \<times> 'r) list \<Rightarrow> ('k \<times> 'r) list" where
  "insert_or_update k fresh f tab =
     (if map_of tab k = None then tab @ [(k, fresh)] else update_row k f tab)"

definition new_row :: "email_account \<Rightarrow> gostring \<Rightarrow> gostring \<Rightarrow> account_row" where
  "new_row a enc folders =
     \<lparr>ar_username = ea_Username a, ar_password = enc, ar_host = ea_Host a, ar_port = ea_Port a,
      ar_tls = ea_TLS a, ar_created_at = ea_CreatedAt a, ar_last_sync = ea_LastSyncTime a,
      ar_folders = Some folders, ar_auth_type = AuthTypePassword, ar_provider = None, ar_refresh = None,
      ar_access = None, ar_expiry = None, ar_scope = None, ar_issued_at = None, ar_history = None,
      ar_notice_at = None\<rparr>"

definition conflict_row :: "email_account \<Rightarrow> gostring \<Rightarrow> gostring \<Rightarrow> account_row \<Rightarrow> account_row" where
  "conflict_row a enc folders r =
     r\<lparr>ar_username := ea_Username a, ar_password := enc, ar_host := ea_Host a, ar_port := ea_Port a,
       ar_tls := ea_TLS a, ar_last_sync := ea_LastSyncTime a, ar_folders := Some folders\<rparr>"

definition UpsertAccount ::
  "store_env \<Rightarrow> go_error option \<Rightarrow> go_error + gostring \<Rightarrow> email_account \<Rightarrow> account_table \<Rightarrow>
     go_error option \<times> account_table" where
  "UpsertAccount E db rnd a tab =
     (case encrypt E rnd (ea_Password a) of
        Inl e \<Rightarrow> (Some (Errorf ''failed to encrypt password'' e), tab)
      | Inr enc \<Rightarrow>
          (let folders = GetMonitoredFoldersJSON E (ea_MonitoredFolders a)
           in exec db (insert_or_update (ea_UserMXID a, ea_Email a)
                         (new_row a enc folders) (conflict_row a enc folders)) tab))"

definition DeleteAccount :: "go_error option \<Rightarrow> account_key \<Rightarrow> account_table \<Rightarrow> go_error option \<times> account_table" where
  "DeleteAccount db k tab = exec db (filter (\<lambda>(k', r). k' \<noteq> k)) tab"

definition UpdateLastSync ::
  "go_error option \<Rightarrow> account_key \<Rightarrow> gotime \<Rightarrow> account_table \<Rightarrow> go_error option \<times> account_table" where
  "UpdateLastSync db k t tab = exec db (update_row k (ar_last_sync_update (\<lambda>_. t))) tab"

definition UpdateMonitoredFolders ::
  "store_env \<Rightarrow> go_error option \<Rightarrow> account_key \<Rightarrow> gostring list \<Rightarrow> account_table \<Rightarrow>
     go_error option \<times> account_table" where
  "UpdateMonitoredFolders E db k fs tab =
     exec db (update_row k (ar_folders_update (\<lambda>_. Some (GetMonitoredFoldersJSON E fs)))) tab"

definition SetAuthType ::
  "go_error option \<Rightarrow> account_key \<Rightarrow> gostring \<Rightarrow> account_table \<Rightarrow> go_error option \<times> account_table" where
  "SetAuthType db k a tab = exec db (update_row k (ar_auth_type_update (\<lambda>_. a))) tab"

definition MarkReauthNotified ::
  "go_error option \<Rightarrow> account_key \<Rightarrow> gotime \<Rightarrow> account_table \<Rightarrow> go_error option \<times> account_table" where
  "MarkReauthNotified db k t tab = exec db (update_row k (ar_notice_at_update (\<lambda>_. Some (UnixNano t)))) tab"

definition SetGmailHistoryID ::
  "go_error option \<Rightarrow> account_key \<Rightarrow> 64 word \<Rightarrow> account_table \<Rightarrow> go_error option \<times> account_table" where
  "SetGmailHistoryID db k h tab = exec db (update_row k (ar_history_update (\<lambda>_. Some (sint h)))) tab"

text \<open>
  \<open>saveOAuthTokenInternal\<close>: the refresh-time variant (empty scope mode) leaves the scope mode and
  the issue time as they are; no matching row is an error.
\<close>

definition token_row ::
  "gostring \<Rightarrow> gostring \<Rightarrow> gostring \<Rightarrow> gotime \<Rightarrow> account_row \<Rightarrow> account_row" where
  "token_row provider encR encA expiry r =
     r\<lparr>ar_auth_type := AuthTypeOAuthGmail, ar_provider := Some provider, ar_refresh := Some encR,
       ar_access := Some encA, ar_expiry := Some (if expiry = 0 then 0 else UnixNano expiry)\<rparr>"

definition scope_row :: "gostring \<Rightarrow> int \<Rightarrow> account_row \<Rightarrow> account_row" where
  "scope_row scope issued r = r\<lparr>ar_scope := Some scope, ar_issued_at := Some issued, ar_notice_at := Some 0\<rparr>"

definition nil_token_error :: go_error where "nil_token_error = Err ''SaveOAuthToken: nil token''"

definition no_row_error :: "account_key \<Rightarrow> go_error" where
  "no_row_error k = Err (''SaveOAuthToken: no email_accounts row for '' @ fst k @ ''/'' @ snd k)"

definition saveOAuthTokenInternal ::
  "store_env \<Rightarrow> go_error option \<Rightarrow> (go_error + gostring) \<times> (go_error + gostring) \<Rightarrow> gotime \<Rightarrow> account_key \<Rightarrow>
     gostring \<Rightarrow> gostring \<Rightarrow> oauth_token option \<Rightarrow> bool \<Rightarrow> account_table \<Rightarrow> go_error option \<times> account_table" where
  "saveOAuthTokenInternal E db rnds now k provider scope otok stamp tab =
     (case otok of
        None \<Rightarrow> (Some nil_token_error, tab)
      | Some tok \<Rightarrow>
          (let prov = (if provider = [] then OAuthProviderGoogle else provider) in
           case encrypt E (fst rnds) (tok_Refresh tok) of
             Inl e \<Rightarrow> (Some (Errorf ''encrypt refresh token'' e), tab)
           | Inr encR \<Rightarrow>
               (case encrypt E (snd rnds) (tok_Access tok) of
                  Inl e \<Rightarrow> (Some (Errorf ''encrypt access token'' e), tab)
                | Inr encA \<Rightarrow>
                    (let base = token_row prov encR encA (tok_Expiry tok);
                         f = (if scope \<noteq> [] then scope_row scope (if stamp then UnixNano now else 0) \<circ> base else base)
                     in case db of
                          Some e \<Rightarrow> (Some e, tab)
                        | None \<Rightarrow> (if map_of tab k = None then Some (no_row_error k) else None, update_row k f tab)))))"

definition SaveOAuthToken where
  "SaveOAuthToken E db rnds now k provider otok tab =
     saveOAuthTokenInternal E db rnds now k provider [] otok False tab"

definition SaveOAuthTokenWithScope where
  "SaveOAuthTokenWithScope E db rnds now k provider scope otok tab =
     saveOAuthTokenInternal E db rnds now k provider (if scope = [] then ScopeModeModify else scope) otok True tab"

subsection \<open>Statements that read\<close>

datatype query_result = QueryFails go_error | RowsFail go_error | QueryWorks

definition fill_account :: "store_env \<Rightarrow> account_key \<Rightarrow> account_row \<Rightarrow> gostring \<Rightarrow> email_account" where
  "fill_account E k r pw =
     \<lparr>ea_UserMXID = fst k, ea_Email = snd k, ea_Username = ar_username r, ea_Password = pw,
      ea_Host = ar_host r, ea_Port = ar_port r, ea_TLS = ar_tls r, ea_CreatedAt = ar_created_at r,
      ea_LastSyncTime = ar_last_sync r,
      ea_MonitoredFolders = SetMonitoredFoldersFromJSON E (case ar_folders r of None \<Rightarrow> inbox_json | Some s \<Rightarrow> s),
      ea_AuthType = ar_auth_type r\<rparr>"

definition credentials_error :: go_error where "credentials_error = Err ''failed to decrypt stored credentials''"

definition load_row :: "store_env \<Rightarrow> account_key \<times> account_row \<Rightarrow> go_error + email_account" where
  "load_row E kr =
     (case decrypt E (ar_password (snd kr)) of
        Inl e \<Rightarrow> Inl credentials_error
      | Inr pw \<Rightarrow> Inr (fill_account E (fst kr) (snd kr) pw))"

definition GetAccount_db ::
  "store_env \<Rightarrow> query_result \<Rightarrow> account_key \<Rightarrow> account_table \<Rightarrow> go_error + email_account option" where
  "GetAccount_db E q k tab =
     (case q of
        QueryFails e \<Rightarrow> Inl e
      | RowsFail e \<Rightarrow> Inl (Errorf ''database query failed'' e)
      | QueryWorks \<Rightarrow> (case map_of tab k of
            None \<Rightarrow> Inr None
          | Some r \<Rightarrow> map_sum id Some (load_row E (k, r))))"

definition user_rows :: "gostring \<Rightarrow> account_table \<Rightarrow> account_table" where
  "user_rows user tab = sort_key (\<lambda>(k, r). ar_created_at r) (filter (\<lambda>(k, r). fst k = user) tab)"

fun load_rows :: "store_env \<Rightarrow> account_table \<Rightarrow> go_error + email_account list" where
  "load_rows E [] = Inr []"
| "load_rows E (kr # krs) =
     (case load_row E kr of
        Inl e \<Rightarrow> Inl e
      | Inr a \<Rightarrow> (case load_rows E krs of Inl e \<Rightarrow> Inl e | Inr as \<Rightarrow> Inr (a # as)))"

definition GetUserAccounts ::
  "store_env \<Rightarrow> query_result \<Rightarrow> gostring \<Rightarrow> account_table \<Rightarrow> go_error + email_account list" where
  "GetUserAccounts E q user tab =
     (case q of
        QueryFails e \<Rightarrow> Inl e
      | RowsFail e \<Rightarrow> Inl e
      | QueryWorks \<Rightarrow> load_rows E (user_rows user tab))"

definition GetUserAccountsBasic ::
  "store_env \<Rightarrow> query_result \<Rightarrow> gostring \<Rightarrow> account_table \<Rightarrow> go_error + email_account list" where
  "GetUserAccountsBasic E q user tab =
     (case q of
        QueryFails e \<Rightarrow> Inl e
      | RowsFail e \<Rightarrow> Inl e
      | QueryWorks \<Rightarrow> Inr (map (\<lambda>(k, r). fill_account E k r []) (user_rows user tab)))"

text \<open>\<open>GetOAuthAccount\<close>; the error comes with the info record, the callers test the error first.\<close>

record oauth_info =
  oi_AuthType :: gostring
  oi_Provider :: gostring
  oi_ScopeMode :: gostring
  oi_Token :: "oauth_token option"
  oi_IssuedAt :: gotime

definition coalesce :: "'a \<Rightarrow> 'a option \<Rightarrow> 'a" where
  "coalesce d x = (case x of None \<Rightarrow> d | Some v \<Rightarrow> v)"

definition stored_time :: "int option \<Rightarrow> gotime" where
  "stored_time n = (if coalesce 0 n > 0 then fromUnixNano (coalesce 0 n) else 0)"

definition is_oauth :: "gostring \<Rightarrow> bool" where
  "is_oauth a \<longleftrightarrow> a = AuthTypeOAuthGmail \<or> a = AuthTypeOAuthGmailNeedsReauth"

definition stored_token :: "store_env \<Rightarrow> account_row \<Rightarrow> go_error + oauth_token option" where
  "stored_token E r =
     (let encR = coalesce [] (ar_refresh r); encA = coalesce [] (ar_access r) in
      if encR = [] then Inr None
      else case decrypt E encR of
        Inl e \<Rightarrow> Inl (Errorf ''decrypt refresh token'' e)
      | Inr refresh \<Rightarrow>
          Inr (Some \<lparr>tok_Access = (if encA = [] then [] else case decrypt E encA of Inl e \<Rightarrow> [] | Inr a \<Rightarrow> a),
                     tok_Refresh = refresh, tok_Expiry = stored_time (ar_expiry r)\<rparr>))"

definition stored_scope :: "account_row \<Rightarrow> gostring" where
  "stored_scope r = (if coalesce [] (ar_scope r) = [] then ScopeModeFull else coalesce [] (ar_scope r))"

definition GetOAuthAccount ::
  "store_env \<Rightarrow> query_result \<Rightarrow> account_key \<Rightarrow> account_table \<Rightarrow> go_error + oauth_info option" where
  "GetOAuthAccount E q k tab =
     (case q of
        QueryFails e \<Rightarrow> Inl e
      | RowsFail e \<Rightarrow> Inl e
      | QueryWorks \<Rightarrow> (case map_of tab k of
            None \<Rightarrow> Inr None
          | Some r \<Rightarrow>
              if \<not> is_oauth (ar_auth_type r) then Inr None
              else map_sum id (\<lambda>tok. Some \<lparr>oi_AuthType = ar_auth_type r, oi_Provider = coalesce [] (ar_provider r),
                     oi_ScopeMode = stored_scope r, oi_Token = tok, oi_IssuedAt = stored_time (ar_issued_at r)\<rparr>)
                     (stored_token E r)))"

definition LoadOAuthToken ::
  "store_env \<Rightarrow> query_result \<Rightarrow> account_key \<Rightarrow> account_table \<Rightarrow> go_error + gostring \<times> oauth_token option" where
  "LoadOAuthToken E q k tab =
     (case GetOAuthAccount E q k tab of
        Inl e \<Rightarrow> Inl e
      | Inr None \<Rightarrow> Inr ([], None)
      | Inr (Some info) \<Rightarrow> Inr (oi_Provider info, oi_Token info))"

definition read_column :: "query_result \<Rightarrow> (account_row \<Rightarrow> int option) \<Rightarrow> account_key \<Rightarrow> account_table \<Rightarrow> go_error + int" where
  "read_column q col k tab =
     (case q of
        QueryFails e \<Rightarrow> Inl e
      | RowsFail e \<Rightarrow> Inl e
      | QueryWorks \<Rightarrow> Inr (case map_of tab k of None \<Rightarrow> 0 | Some r \<Rightarrow> coalesce 0 (col r)))"

definition LastReauthNotifiedAt :: "query_result \<Rightarrow> account_key \<Rightarrow> account_table \<Rightarrow> go_error + gotime" where
  "LastReauthNotifiedAt q k tab = map_sum id (\<lambda>n. if n = 0 then 0 else fromUnixNano n) (read_column q ar_notice_at k tab)"

definition GetGmailHistoryID :: "query_result \<Rightarrow> account_key \<Rightarrow> account_table \<Rightarrow> go_error + 64 word" where
  "GetGmailHistoryID q k tab = map_sum id (\<lambda>n. if n < 0 then 0 else word_of_int n) (read_column q ar_history k tab)"

end
