(* ===== verification/OAuth.thy ===== *)
theory OAuth
  imports AccountDB Machines "HOL-Library.List_Lexorder" "HOL-Library.Char_ord"
begin

text \<open>
  The Google OAuth exchange: the authorisation URL and the calls to Google's token endpoints
  (\<open>pkg/email/oauth_authcode.go\<close>), the loopback listener that receives the redirect
  (\<open>pkg/connector/oauth_listener.go\<close>), the effective settings (\<open>pkg/connector/config.go\<close>) and the
  parsing of a pasted redirect URL (\<open>pkg/connector/commands.go\<close>).  URL query strings are encoded
  and decoded as \<open>net/url\<close> does; the HTTP client, the JSON decoder, \<open>net.Listen\<close> and \<open>url.Parse\<close>
  are parameters.
\<close>

subsection \<open>Query strings\<close>

type_synonym url_values = "(gostring \<times> gostring) list"

definition unreserved :: "char \<Rightarrow> bool" where
  "unreserved c \<longleftrightarrow>
     (let n = (of_char c :: nat) in
      65 \<le> n \<and> n \<le> 90 \<or> 97 \<le> n \<and> n \<le> 122 \<or> 48 \<le> n \<and> n \<le> 57 \<or> c \<in> set ''-_.~'')"

definition hex_digit :: "nat \<Rightarrow> char" where
  "hex_digit n = char_of (if n < 10 then 48 + n else 55 + n)"

definition hex_value :: "char \<Rightarrow> nat option" where
  "hex_value c =
     (let n = (of_char c :: nat) in
      if 48 \<le> n \<and> n \<le> 57 then Some (n - 48)
      else if 97 \<le> n \<and> n \<le> 102 then Some (n - 87)
      else if 65 \<le> n \<and> n \<le> 70 then Some (n - 55) else None)"

definition escape_char :: "char \<Rightarrow> gostring" where
  "escape_char c =
     (if unreserved c then [c] else if c = CHR '' '' then ''+''
      else (let n = (of_char c :: nat) in [CHR ''%'', hex_digit (n div 16), hex_digit (n mod 16)]))"

definition QueryEscape :: "gostring \<Rightarrow> gostring" where
  "QueryEscape s = concat (map escape_char s)"

definition escape_error :: "gostring \<Rightarrow> go_error" where
  "escape_error s = Err (''invalid URL escape '' @ [CHR 0x22] @ take 3 s @ [CHR 0x22])"

fun QueryUnescape :: "gostring \<Rightarrow> go_error + gostring" where
  "QueryUnescape [] = Inr []"
| "QueryUnescape (c # s) =
     (if c = CHR ''%'' then
        (case s of
           a # b # r \<Rightarrow> (case (hex_value a, hex_value b) of
               (Some x, Some y) \<Rightarrow> map_sum id ((#) (char_of (16 * x + y))) (QueryUnescape r)
             | _ \<Rightarrow> Inl (escape_error (c # s)))
         | _ \<Rightarrow> Inl (escape_error (c # s)))
      else map_sum id ((#) (if c = CHR ''+'' then CHR '' '' else c)) (QueryUnescape s))"

definition query_encode :: "url_values \<Rightarrow> gostring" where
  "query_encode kvs =
     join_with ''&'' (map (\<lambda>(k, v). QueryEscape k @ ''='' @ QueryEscape v) (sort_key fst kvs))"

text \<open>\<open>url.ParseQuery\<close>: the pairs that parse, in order, and the first error.\<close>

definition cut_at :: "char \<Rightarrow> gostring \<Rightarrow> gostring \<times> gostring" where
  "cut_at c s = (takeWhile (\<lambda>d. d \<noteq> c) s, tl (dropWhile (\<lambda>d. d \<noteq> c) s))"

definition semicolon_error :: go_error where "semicolon_error = Err ''invalid semicolon separator in query''"

definition parse_pair :: "gostring \<Rightarrow> go_error + gostring \<times> gostring" where
  "parse_pair w =
     (let (k, v) = cut_at (CHR ''='') w in
      case QueryUnescape k of Inl e \<Rightarrow> Inl e
      | Inr k' \<Rightarrow> (case QueryUnescape v of Inl e \<Rightarrow> Inl e | Inr v' \<Rightarrow> Inr (k', v')))"

fun parse_pairs :: "go_error option \<Rightarrow> gostring list \<Rightarrow> url_values \<times> go_error option" where
  "parse_pairs err [] = ([], err)"
| "parse_pairs err (w # ws) =
     (if CHR '';'' \<in> set w then parse_pairs (Some semicolon_error) ws
      else if w = [] then parse_pairs err ws
      else case parse_pair w of
        Inl e \<Rightarrow> parse_pairs (if err = None then Some e else err) ws
      | Inr kv \<Rightarrow> map_prod ((#) kv) id (parse_pairs err ws))"

definition ParseQuery :: "gostring \<Rightarrow> url_values \<times> go_error option" where
  "ParseQuery q = parse_pairs None (split_on CHR ''&'' q)"

definition values_get :: "url_values \<Rightarrow> gostring \<Rightarrow> gostring" where
  "values_get kvs k = (case map_of kvs k of None \<Rightarrow> [] | Some v \<Rightarrow> v)"

subsection \<open>Settings\<close>

record oauth_config =
  oc_client_id :: gostring
  oc_client_secret :: gostring
  oc_listener_address :: gostring
  oc_default_scope_mode :: gostring
  oc_callback_timeout_seconds :: int

definition EffectiveListenerAddress :: "oauth_config \<Rightarrow> gostring" where
  "EffectiveListenerAddress g = (if oc_listener_address g = [] then ''127.0.0.1:0'' else oc_listener_address g)"

definition EffectiveDefaultScopeMode :: "oauth_config \<Rightarrow> gostring" where
  "EffectiveDefaultScopeMode g =
     (if oc_default_scope_mode g = ScopeModeFull \<or> oc_default_scope_mode g = ScopeModeModify
      then oc_default_scope_mode g else ScopeModeModify)"

definition EffectiveCallbackTimeout :: "oauth_config \<Rightarrow> int" where
  "EffectiveCallbackTimeout g =
     (if oc_callback_timeout_seconds g \<le> 0 then 600 * 10 ^ 9
      else wrap64 (oc_callback_timeout_seconds g * 10 ^ 9))"

subsection \<open>The authorisation URL\<close>

definition GmailFullScope :: gostring where "GmailFullScope = ''https://mail.google.com/''"
definition GmailModifyScope :: gostring where "GmailModifyScope = ''https://www.googleapis.com/auth/gmail.modify''"
definition GmailSendScope :: gostring where "GmailSendScope = ''https://www.googleapis.com/auth/gmail.send''"

definition ScopesForMode :: "gostring \<Rightarrow> gostring list" where
  "ScopesForMode mode =
     (if mode = ''full'' then [GmailFullScope]
      else if mode = ''modify'' then [GmailModifyScope, GmailSendScope]
      else [GmailModifyScope, GmailSendScope])"

definition GeneratePKCE :: "(gostring \<Rightarrow> gostring) \<Rightarrow> (gostring \<Rightarrow> gostring) \<Rightarrow> go_error + gostring \<Rightarrow>
     go_error + gostring \<times> gostring" where
  "GeneratePKCE b64url sha256 rnd =
     (case rnd of
        Inl e \<Rightarrow> Inl (Errorf ''pkce: read random'' e)
      | Inr raw \<Rightarrow> (let verifier = b64url raw in Inr (verifier, b64url (sha256 verifier))))"

definition GenerateState :: "(gostring \<Rightarrow> gostring) \<Rightarrow> go_error + gostring \<Rightarrow> go_error + gostring" where
  "GenerateState b64url rnd =
     (case rnd of Inl e \<Rightarrow> Inl (Errorf ''state: read random'' e) | Inr raw \<Rightarrow> Inr (b64url raw))"

definition googleAuthURL :: gostring where "googleAuthURL = ''https://accounts.google.com/o/oauth2/v2/auth''"
definition googleTokenURL :: gostring where "googleTokenURL = ''https://oauth2.googleapis.com/token''"
definition googleRevokeURL :: gostring where "googleRevokeURL = ''https://oauth2.googleapis.com/revoke''"

definition auth_values :: "oauth_config \<Rightarrow> gostring \<Rightarrow> gostring \<Rightarrow> gostring \<Rightarrow> gostring \<Rightarrow> gostring list \<Rightarrow> url_values" where
  "auth_values cfg redirect state challenge hint scopes =
     [(''client_id'', oc_client_id cfg), (''redirect_uri'', redirect), (''response_type'', ''code''),
      (''scope'', join_with '' '' scopes), (''access_type'', ''offline''), (''prompt'', ''consent''),
      (''state'', state), (''code_challenge'', challenge), (''code_challenge_method'', ''S256'')] @
     (if hint \<noteq> [] then [(''login_hint'', hint)] else [])"

definition BuildAuthURL ::
  "oauth_config \<Rightarrow> gostring \<Rightarrow> gostring \<Rightarrow> gostring \<Rightarrow> gostring \<Rightarrow> gostring list \<Rightarrow> go_error + gostring" where
  "BuildAuthURL cfg redirect state challenge hint scopes =
     (if oc_client_id cfg = [] then Inl (Err ''oauth: missing gmail_oauth.client_id'')
      else if redirect = [] then Inl (Err ''oauth: missing redirectURI'')
      else if challenge = [] then Inl (Err ''oauth: missing PKCE code_challenge'')
      else if state = [] then Inl (Err ''oauth: missing state'')
      else (let scopes' = (if scopes = [] then ScopesForMode ''modify'' else scopes) in
        Inr (googleAuthURL @ ''?'' @ query_encode (auth_values cfg redirect state challenge hint scopes'))))"

subsection \<open>Google's token endpoints\<close>

record http_answer =
  ha_code :: int
  ha_status :: gostring
  ha_body :: gostring

record token_resp =
  tr_access :: gostring
  tr_refresh :: gostring
  tr_expires_in :: int
  tr_error :: gostring
  tr_error_desc :: gostring

record google =
  g_post :: "gostring \<Rightarrow> gostring \<Rightarrow> go_error + http_answer"   \<comment> \<open>endpoint and form\<close>
  g_json :: "gostring \<Rightarrow> go_error option \<times> token_resp"
  g_now :: gotime

definition http_ok :: int where "http_ok = 200"

definition expiry_of :: "google \<Rightarrow> token_resp \<Rightarrow> gotime" where
  "expiry_of g tr = g_now g + wrap64 (tr_expires_in tr * 10 ^ 9)"

definition missing_client :: go_error where "missing_client = Err ''oauth: missing client_id/client_secret''"

definition no_refresh_error :: go_error where
  "no_refresh_error = Err (''token exchange: no refresh_token returned (Google only emits one on first consent '' @ bytes [226, 128, 148] @ '' try revoking the app at myaccount.google.com/permissions and logging in again)'')"

definition exchange_form :: "oauth_config \<Rightarrow> gostring \<Rightarrow> gostring \<Rightarrow> gostring \<Rightarrow> gostring" where
  "exchange_form cfg code verifier redirect = query_encode
     [(''client_id'', oc_client_id cfg), (''client_secret'', oc_client_secret cfg), (''code'', code),
      (''code_verifier'', verifier), (''grant_type'', ''authorization_code''), (''redirect_uri'', redirect)]"

definition exchange_checks :: "google \<Rightarrow> http_answer \<Rightarrow> go_error + oauth_token" where
  "exchange_checks g resp =
     (case g_json g (ha_body resp) of (jerr, tr) \<Rightarrow>
        (case jerr of
           Some e \<Rightarrow> Inl (Errorf (''token exchange parse (status '' @ ha_status resp @ '')'') e)
         | None \<Rightarrow>
             if tr_error tr \<noteq> [] then Inl (Err (''token exchange: '' @ tr_error tr @ '': '' @ tr_error_desc tr))
             else if ha_code resp \<noteq> http_ok then Inl (Err (''token exchange: '' @ ha_status resp @ '': '' @ ha_body resp))
             else if tr_access tr = [] then Inl (Err ''token exchange: empty access_token'')
             else if tr_refresh tr = [] then Inl no_refresh_error
             else Inr \<lparr>tok_Access = tr_access tr, tok_Refresh = tr_refresh tr, tok_Expiry = expiry_of g tr\<rparr>))"

definition ExchangeCode ::
  "google \<Rightarrow> oauth_config \<Rightarrow> gostring \<Rightarrow> gostring \<Rightarrow> gostring \<Rightarrow> go_error + oauth_token" where
  "ExchangeCode g cfg code verifier redirect =
     (if oc_client_id cfg = [] \<or> oc_client_secret cfg = [] then Inl missing_client
      else if code = [] \<or> verifier = [] \<or> redirect = []
      then Inl (Err ''oauth: ExchangeCode missing code/verifier/redirectURI'')
      else case g_post g googleTokenURL (exchange_form cfg code verifier redirect) of
        Inl e \<Rightarrow> Inl (Errorf ''token exchange transport'' e)
      | Inr resp \<Rightarrow> exchange_checks g resp)"

definition refresh_checks :: "google \<Rightarrow> gostring \<Rightarrow> http_answer \<Rightarrow> go_error + oauth_token" where
  "refresh_checks g refresh resp =
     (let tr = snd (g_json g (ha_body resp)) in
      if tr_error tr \<noteq> [] then Inl (Err (''refresh: '' @ tr_error tr @ '': '' @ tr_error_desc tr))
      else if ha_code resp \<noteq> http_ok then Inl (Err (''refresh: '' @ ha_status resp @ '': '' @ ha_body resp))
      else if tr_access tr = [] then Inl (Err ''refresh: empty access_token'')
      else Inr \<lparr>tok_Access = tr_access tr, tok_Refresh = refresh, tok_Expiry = expiry_of g tr\<rparr>)"

definition ExchangeRefreshToken :: "google \<Rightarrow> oauth_config \<Rightarrow> gostring \<Rightarrow> go_error + oauth_token" where
  "ExchangeRefreshToken g cfg refresh =
     (if oc_client_id cfg = [] \<or> oc_client_secret cfg = [] then Inl missing_client
      else if refresh = [] then Inl (Err ''oauth: empty refresh_token'')
      else case g_post g googleTokenURL (query_encode
          [(''client_id'', oc_client_id cfg), (''client_secret'', oc_client_secret cfg),
           (''refresh_token'', refresh), (''grant_type'', ''refresh_token'')]) of
        Inl e \<Rightarrow> Inl (Errorf ''refresh transport'' e)
      | Inr resp \<Rightarrow> refresh_checks g refresh resp)"

definition RevokeToken :: "google \<Rightarrow> gostring \<Rightarrow> go_error option" where
  "RevokeToken g token =
     (if token = [] then Some (Err ''revoke: empty token'')
      else case g_post g googleRevokeURL (query_encode [(''token'', token)]) of
        Inl e \<Rightarrow> Some (Errorf ''revoke transport'' e)
      | Inr resp \<Rightarrow>
          if ha_code resp = http_ok then None
          else if ha_code resp = 400 \<and> contains_sub (ha_body resp) ''invalid_token'' then None
          else Some (Err (''revoke: '' @ ha_status resp @ '': '' @ ha_body resp)))"

text \<open>\<open>IsRefreshError\<close>: \<open>retrieve\<close> is the code of the \<open>oauth2.RetrieveError\<close> in the chain, if there is one.\<close>

definition permanent_codes :: "gostring list" where
  "permanent_codes = [''invalid_grant'', ''invalid_token'', ''unauthorized_client'']"

definition permanent_needles :: "gostring list" where
  "permanent_needles = [''invalid_grant'', ''invalid_token'', ''Token has been expired or revoked'', ''unauthorized_client'']"

definition IsRefreshError :: "gostring option \<Rightarrow> go_error option \<Rightarrow> bool" where
  "IsRefreshError retrieve err =
     (case err of None \<Rightarrow> False
      | Some e \<Rightarrow> (case retrieve of Some code \<Rightarrow> code \<in> set permanent_codes | None \<Rightarrow> False) \<or>
          list_ex (contains_sub (error_text e)) permanent_needles)"

subsection \<open>The loopback listener\<close>

text \<open>The two channels hold one value each; \<open>closed\<close> is the closed channel.\<close>

record oauth_listener =
  expectState :: gostring
  redirectURI :: gostring
  codeCh :: "gostring option"
  errCh :: "go_error option"
  closed :: bool

definition try_send :: "'a \<Rightarrow> 'a option \<Rightarrow> 'a option" where
  "try_send x ch = (case ch of None \<Rightarrow> Some x | Some y \<Rightarrow> Some y)"

definition send_err :: "go_error \<Rightarrow> oauth_listener \<Rightarrow> oauth_listener" where
  "send_err e l = l\<lparr>errCh := try_send e (errCh l)\<rparr>"

definition send_code :: "gostring \<Rightarrow> oauth_listener \<Rightarrow> oauth_listener" where
  "send_code c l = l\<lparr>codeCh := try_send c (codeCh l)\<rparr>"

definition oauthCallbackHTML :: "gostring \<Rightarrow> gostring \<Rightarrow> gostring" where
  "oauthCallbackHTML title body =
     ''<!doctype html>'' @ bytes [10] @ ''<html lang='' @ bytes [34] @ ''en'' @ bytes [34] @
     ''><head><meta charset='' @ bytes [34] @ ''utf-8'' @ bytes [34] @ ''><title>'' @ title @ '' '' @
     bytes [226, 128, 148] @ '' matrimail</title>'' @ bytes [10] @ ''<style>'' @ bytes [10] @
     ''body{font-family:system-ui,-apple-system,Segoe UI,Roboto,sans-serif;max-width:560px;margin:4em auto;padding:0 1.5em;line-height:1.5;color:#222;background:#fafafa}'' @
     bytes [10] @ ''h1{font-size:1.4em;margin-bottom:.5em}'' @ bytes [10] @
     ''code{background:#eee;padding:1px 6px;border-radius:3px}'' @ bytes [10] @ ''</style>'' @
     bytes [10] @ ''</head><body><h1>'' @ body @ ''</h1>'' @ bytes [10] @ ''</body></html>''"

definition htmlEscape_page :: "gostring \<Rightarrow> gostring" where
  "htmlEscape_page s = replace_chars [(CHR ''&'', ''&amp;''), (CHR ''<'', ''&lt;''), (CHR ''>'', ''&gt;''),
     (CHR 0x22, ''&quot;'')] s"

definition denied_page :: "gostring \<Rightarrow> gostring \<Rightarrow> gostring" where
  "denied_page code desc = oauthCallbackHTML ''Authorization failed''
     (''<p>Google reported <code>'' @ htmlEscape_page code @ ''</code>: '' @ htmlEscape_page desc @
     ''.</p><p>Run <code>!matrimail login</code> in your Matrix client to try again.</p>'')"

definition mismatch_page :: gostring where
  "mismatch_page = oauthCallbackHTML ''Invalid request''
     (''<p>State parameter mismatch. This window can be closed.</p><p>If you didn'' @ bytes [39] @ ''t initiate a matrimail login, ignore this '' @ bytes [226, 128, 148] @ '' no action was taken.</p>'')"

definition missing_code_page :: gostring where
  "missing_code_page = oauthCallbackHTML ''Missing code'' ''<p>No <code>code</code> parameter in the callback URL.</p>''"

definition authorized_page :: gostring where
  "authorized_page = oauthCallbackHTML ''Matrimail authorized''
     (''<p>You may now close this tab and return to your Matrix client.</p>'' @
      ''<p>The bridge will continue automatically.</p>'')"

definition handleCallback :: "url_values \<Rightarrow> oauth_listener \<Rightarrow> (int \<times> gostring) \<times> oauth_listener" where
  "handleCallback q l =
     (let errCode = values_get q ''error''; desc = values_get q ''error_description'';
          state = values_get q ''state''; code = values_get q ''code'' in
      if errCode \<noteq> [] then
        ((200, denied_page errCode desc), send_err (Err (''oauth callback: '' @ errCode @ '': '' @ desc)) l)
      else if state = [] \<or> state \<noteq> expectState l then ((400, mismatch_page), l)
      else if code = [] then
        ((400, missing_code_page), send_err (Err ''oauth callback: missing code parameter'') l)
      else ((200, authorized_page), send_code code l))"

definition handleRoot :: "int \<times> gostring" where
  "handleRoot = (404, oauthCallbackHTML ''Not found''
     ''<p>This endpoint is only for the matrimail OAuth callback. Nothing to see here.</p>'')"

definition Inject :: "gostring \<Rightarrow> gostring \<Rightarrow> oauth_listener \<Rightarrow> go_error option \<times> oauth_listener" where
  "Inject code state l =
     (if state = [] \<or> state \<noteq> expectState l
      then (Some (Err (''oauth inject: state parameter does not match the active login '' @
              ''(URL is from a stale session?)'')), l)
      else if code = [] then (Some (Err ''oauth inject: empty code''), l)
      else case codeCh l of
        None \<Rightarrow> (None, l\<lparr>codeCh := Some code\<rparr>)
      | Some c \<Rightarrow> (Some (Err ''oauth inject: a code has already been delivered for this login''), l))"

definition listener_Close :: "oauth_listener \<Rightarrow> oauth_listener" where
  "listener_Close l = l\<lparr>closed := True\<rparr>"

definition listener_timeout :: "gostring \<Rightarrow> oauth_listener \<Rightarrow> oauth_listener" where
  "listener_timeout after l =
     (if closed l then l
      else listener_Close (send_err (Err (''oauth callback timed out after '' @ after)) l))"

text \<open>\<open>Wait\<close>: of the channels that are ready one is taken, which one Go leaves open (\<open>prefer\<close>);
  None means that it still blocks.\<close>

datatype wait_choice = TakeCode | TakeErr | TakeCtx

definition listener_Wait ::
  "go_error option \<Rightarrow> wait_choice \<Rightarrow> oauth_listener \<Rightarrow> (go_error + gostring) option \<times> oauth_listener" where
  "listener_Wait ctx prefer l =
     (let code = map_option (\<lambda>c. (Some (Inr c), l\<lparr>codeCh := None\<rparr>)) (codeCh l);
          err = map_option (\<lambda>e. (Some (Inl e), l\<lparr>errCh := None\<rparr>)) (errCh l);
          done = map_option (\<lambda>e. (Some (Inl e), l)) ctx;
          first = (\<lambda>xs. case List.map_filter (\<lambda>x. x) xs of [] \<Rightarrow> (None, l) | x # _ \<Rightarrow> x)
      in case prefer of
           TakeCode \<Rightarrow> first [code, err, done]
         | TakeErr \<Rightarrow> first [err, code, done]
         | TakeCtx \<Rightarrow> first [done, code, err])"

text \<open>\<open>net.SplitHostPort\<close>, and the test of the host; \<open>ip_loopback\<close> is \<open>net.ParseIP\<close> with \<open>IsLoopback\<close>.\<close>

definition SplitHost :: "gostring \<Rightarrow> gostring option" where
  "SplitHost addr =
     (if CHR '':'' \<notin> set addr then None
      else (let host = rev (tl (dropWhile (\<lambda>c. c \<noteq> CHR '':'') (rev addr)));
                port = rev (takeWhile (\<lambda>c. c \<noteq> CHR '':'') (rev addr)) in
        if has_prefix addr ''['' then
          (if CHR '']'' \<in> set host \<and> last host = CHR '']'' \<and> CHR '']'' \<notin> set (butlast host) \<and>
              CHR ''['' \<notin> set (tl addr) \<and> CHR '']'' \<notin> set port
           then Some (butlast (tl host)) else None)
        else if CHR '':'' \<in> set host \<or> CHR ''['' \<in> set addr \<or> CHR '']'' \<in> set addr then None
        else Some host))"

definition isLoopbackAddr :: "(gostring \<Rightarrow> bool) \<Rightarrow> gostring \<Rightarrow> bool" where
  "isLoopbackAddr ip_loopback addr =
     (case SplitHost addr of
        None \<Rightarrow> False
      | Some host \<Rightarrow> host \<in> {''127.0.0.1'', ''::1'', ''localhost''} \<or> ip_loopback host)"

text \<open>\<open>StartOAuthListener\<close>: \<open>listen\<close> gives the bound port, None when the address is not TCP.\<close>

definition StartOAuthListener ::
  "(gostring \<Rightarrow> bool) \<Rightarrow> (gostring \<Rightarrow> gostring) \<Rightarrow> (gostring \<Rightarrow> go_error + int option) \<Rightarrow> gostring \<Rightarrow> gostring \<Rightarrow>
     go_error + oauth_listener" where
  "StartOAuthListener ip_loopback quote listen addr0 expected =
     (let addr = (if addr0 = [] then ''127.0.0.1:0'' else addr0) in
      if expected = [] then Inl (Err ''oauth listener: empty expected state'')
      else if \<not> isLoopbackAddr ip_loopback addr
      then Inl (Err (''oauth listener: refused non-loopback bind address '' @ quote addr @
             '' (security: loopback redirect must stay on the local host)''))
      else case listen addr of
        Inl e \<Rightarrow> Inl (Errorf (''oauth listener: bind '' @ addr) e)
      | Inr None \<Rightarrow> Inl (Err ''oauth listener: bound address is not TCP'')
      | Inr (Some port) \<Rightarrow>
          Inr \<lparr>expectState = expected, redirectURI = ''http://127.0.0.1:'' @ itoa_go port @ ''/callback'',
               codeCh = None, errCh = None, closed = False\<rparr>)"

subsection \<open>A pasted redirect URL\<close>

text \<open>\<open>raw_query\<close> is \<open>url.Parse\<close> with \<open>RawQuery\<close>; \<open>u.Query()\<close> drops the pairs that do not parse.\<close>

definition extractCallbackQuery :: "(gostring \<Rightarrow> go_error + gostring) \<Rightarrow> gostring \<Rightarrow> go_error + url_values" where
  "extractCallbackQuery raw_query raw0 =
     (let raw = trim_space raw0 in
      if raw = [] then Inl (Err ''empty input'')
      else if contains_sub raw ''://'' then map_sum id (\<lambda>q. fst (ParseQuery q)) (raw_query raw)
      else (let raw1 = (if has_prefix raw ''?'' then drop 1 raw else raw);
                raw2 = (case index_of raw1 ''?'' of Some i \<Rightarrow> drop (i + 1) raw1 | None \<Rightarrow> raw1) in
        case ParseQuery raw2 of (q, None) \<Rightarrow> Inr q | (q, Some e) \<Rightarrow> Inl e))"

definition parseOAuthCallbackURL ::
  "(gostring \<Rightarrow> go_error + gostring) \<Rightarrow> (gostring \<Rightarrow> gostring) \<Rightarrow> gostring \<Rightarrow> go_error + gostring \<times> gostring" where
  "parseOAuthCallbackURL raw_query quote raw =
     (case extractCallbackQuery raw_query raw of
        Inl e \<Rightarrow> Inl e
      | Inr q \<Rightarrow>
          (let errCode = values_get q ''error''; desc = values_get q ''error_description'';
               code = values_get q ''code''; state = values_get q ''state'' in
           if errCode \<noteq> [] then
             Inl (Err (''Google reported error '' @ quote errCode @ (if desc = [] then [] else '': '' @ desc)))
           else if code = [] then Inl (Err (''missing '' @ bytes [39] @ ''code'' @ bytes [39] @ '' parameter in URL''))
           else if state = [] then Inl (Err (''missing '' @ bytes [39] @ ''state'' @ bytes [39] @ '' parameter in URL''))
           else Inr (code, state)))"

subsection \<open>Encoding and decoding query strings\<close>

lemma hex_round: "n < 16 \<Longrightarrow> hex_value (hex_digit n) = Some n"
proof -
  assume "n < 16"
  then consider "n < 10" | "10 \<le> n" "n < 16" by linarith
  then show ?thesis by cases (simp_all add: hex_value_def hex_digit_def Let_def)
qed

lemma of_char_bound: "(of_char (c :: char) :: nat) < 256"
  using of_char_of [of "of_char c :: nat"] by (metis char_of_char mod_less_divisor zero_less_numeral)

lemma char_of_hex: "char_of (16 * ((of_char (c :: char) :: nat) div 16) + of_char c mod 16) = c"
  by (simp add: mult.commute)

lemma unescape_escape_char: "QueryUnescape (escape_char c @ r) = map_sum id ((#) c) (QueryUnescape r)"
proof -
  consider "unreserved c" | "\<not> unreserved c" "c = CHR '' ''" | "\<not> unreserved c" "c \<noteq> CHR '' ''" by blast
  then show ?thesis
  proof cases
    case 1
    then have "c \<noteq> CHR ''%''" and "c \<noteq> CHR ''+''" by (auto simp: unreserved_def)
    with 1 show ?thesis by (simp add: escape_char_def)
  next
    case 2
    then show ?thesis by (simp add: escape_char_def)
  next
    case 3
    have "(of_char c :: nat) div 16 < 16" using of_char_bound [of c] by (simp add: less_mult_imp_div_less)
    with 3 show ?thesis
      by (simp add: escape_char_def Let_def hex_round char_of_hex)
  qed
qed

lemma map_sum_id: "map_sum id id x = x"
  by (cases x) simp_all

lemma unescape_escape_append: "QueryUnescape (QueryEscape s @ r) = map_sum id ((@) s) (QueryUnescape r)"
proof (induction s)
  case Nil
  show ?case by (cases "QueryUnescape r") (simp_all add: QueryEscape_def)
next
  case (Cons c s)
  have "QueryEscape (c # s) @ r = escape_char c @ QueryEscape s @ r" by (simp add: QueryEscape_def)
  with Cons show ?case
    by (cases "QueryUnescape r") (simp_all add: unescape_escape_char)
qed

lemma unescape_escape: "QueryUnescape (QueryEscape s) = Inr s"
  using unescape_escape_append [of s "[]"] by simp

definition query_safe :: "char \<Rightarrow> bool" where
  "query_safe c \<longleftrightarrow> c \<notin> set ''&=;?:''"

lemma hex_digit_safe: "n < 16 \<Longrightarrow> query_safe (hex_digit n)"
proof -
  assume "n < 16"
  then have v: "(of_char (hex_digit n) :: nat) = (if n < 10 then 48 + n else 55 + n)"
    by (simp add: hex_digit_def)
  have "hex_digit n \<noteq> c" if "(of_char c :: nat) \<in> {38, 61, 59, 63, 58}" for c
    using v that by (auto split: if_splits)
  then show ?thesis by (auto simp: query_safe_def)
qed

lemma escape_char_safe: "d \<in> set (escape_char c) \<Longrightarrow> query_safe d"
proof -
  assume d: "d \<in> set (escape_char c)"
  have "(of_char c :: nat) div 16 < 16" using of_char_bound [of c] by (simp add: less_mult_imp_div_less)
  with d show ?thesis
    by (auto simp: escape_char_def Let_def hex_digit_safe split: if_splits)
       (auto simp: query_safe_def unreserved_def)
qed

lemma escape_safe: "d \<in> set (QueryEscape s) \<Longrightarrow> query_safe d"
  by (auto simp: QueryEscape_def dest: escape_char_safe)

lemma escape_avoids: "CHR ''&'' \<notin> set (QueryEscape s)" "CHR ''='' \<notin> set (QueryEscape s)"
  "CHR '';'' \<notin> set (QueryEscape s)" "CHR ''?'' \<notin> set (QueryEscape s)" "CHR '':'' \<notin> set (QueryEscape s)"
  using escape_safe by (auto simp: query_safe_def)

definition pair_text :: "gostring \<times> gostring \<Rightarrow> gostring" where
  "pair_text kv = QueryEscape (fst kv) @ ''='' @ QueryEscape (snd kv)"

lemma cut_pair: "cut_at (CHR ''='') (pair_text kv) = (QueryEscape (fst kv), QueryEscape (snd kv))"
proof -
  have "\<forall>c\<in>set (QueryEscape (fst kv)). c \<noteq> CHR ''=''" using escape_avoids(2) by blast
  then show ?thesis
    by (simp add: cut_at_def pair_text_def takeWhile_append dropWhile_append)
qed

lemma parse_pair_text: "parse_pair (pair_text kv) = Inr kv"
  by (simp add: parse_pair_def cut_pair unescape_escape)

lemma parse_pairs_texts: "parse_pairs err (map pair_text kvs) = (kvs, err)"
proof (induction kvs)
  case (Cons kv kvs)
  have "CHR '';'' \<notin> set (pair_text kv)" and "pair_text kv \<noteq> []"
    using escape_avoids(3) by (auto simp: pair_text_def)
  with Cons show ?case by (simp add: parse_pair_text)
qed simp

lemma parse_encoded: "ParseQuery (query_encode kvs) = (sort_key fst kvs, None)"
proof (cases "kvs = []")
  case True
  then show ?thesis by (simp add: query_encode_def ParseQuery_def)
next
  case False
  then have ne: "sort_key fst kvs \<noteq> []" by (metis set_empty set_sort)
  have e: "query_encode kvs = join_with ''&'' (map pair_text (sort_key fst kvs))"
    by (simp add: query_encode_def pair_text_def [abs_def] case_prod_unfold)
  have "split_on CHR ''&'' (query_encode kvs) = map pair_text (sort_key fst kvs)"
    unfolding e using ne escape_avoids(1) by (intro split_join) (auto simp: pair_text_def)
  then show ?thesis by (simp add: ParseQuery_def parse_pairs_texts)
qed

lemma values_get_sorted:
  assumes "distinct (map fst kvs)" shows "values_get (sort_key fst kvs) k = values_get kvs k"
proof -
  have "map_of (sort_key fst kvs) k = map_of kvs k"
    by (rule map_of_eqI [THEN fun_cong])
       (use assms in \<open>auto simp: distinct_map map_of_eq_Some_iff\<close>)
  then show ?thesis by (simp add: values_get_def)
qed

end
