(* ===== verification/Login.thy ===== *)
theory Login
  imports ImapClient OAuth
begin

text \<open>
  The login process of \<open>pkg/connector/login.go\<close>: one record for the process, one function per step
  handler, over the account table, the listeners of running OAuth logins and the logins handed to
  the bridge.  The IMAP server is the network of \<open>ImapConn\<close>, reached by a client built as in
  \<open>ImapClient\<close>; Google is the record of \<open>OAuth\<close>.  A handler that indexes out of range panics.
\<close>

subsection \<open>Prompts\<close>

datatype step_type = UserInput | DisplayAndWait | CompleteStep

text \<open>A field of a form: its type, ID, name and description.\<close>

type_synonym input_field = "gostring \<times> gostring \<times> gostring \<times> gostring"

record login_step =
  ls_Type :: step_type
  ls_StepID :: gostring
  ls_Instructions :: gostring
  ls_Fields :: "input_field list"
  ls_Data :: gostring
  ls_LoginID :: "gostring option"

definition ask :: "gostring \<Rightarrow> gostring \<Rightarrow> input_field list \<Rightarrow> login_step" where
  "ask i text flds = \<lparr>ls_Type = UserInput, ls_StepID = i, ls_Instructions = text, ls_Fields = flds,
     ls_Data = [], ls_LoginID = None\<rparr>"

definition LoginFlowIDPassword :: gostring where "LoginFlowIDPassword = ''email-password''"
definition LoginFlowIDOAuthGmail :: gostring where "LoginFlowIDOAuthGmail = ''email-oauth-gmail''"

definition buildOAuthEmailPrompt :: "oauth_config \<Rightarrow> gostring" where
  "buildOAuthEmailPrompt cfg =
     (let defaultMode = EffectiveDefaultScopeMode cfg in
     ''**Matrimail '' @ bytes [226, 128, 148] @ '' Gmail OAuth Login**'' @
     bytes [10, 10, 240, 159, 148, 144] @
     '' Sign in with your Google account, no app password required.'' @ bytes [10, 10] @
     ''**Step 1 of 3** '' @ bytes [226, 128, 148] @
     '' enter the Gmail / Google Workspace address you want to bridge.'' @ bytes [10, 10] @
     ''When you submit, the bridge will hand back a single URL. Open it in any browser'' @ bytes [10] @
     ''(your phone, laptop, anywhere), sign in to Google, and authorize matrimail. The'' @ bytes [10] @
     ''bridge will detect the authorization and continue automatically.'' @ bytes [10, 10] @
     ''**Scope modes:**'' @ bytes [10] @
     ''- `modify` (recommended): uses the Gmail API for both reading and sending. Sensitive'' @
     bytes [10] @ ''  scope, no CASA assessment required, supports long-lived refresh tokens.'' @
     bytes [10] @ ''- `full` (advanced): uses IMAP/SMTP XOAUTH2 via the `mail.google.com` scope.'' @
     bytes [10] @ ''  Restricted scope '' @ bytes [226, 128, 148] @
     '' your OAuth project will be locked into Google'' @ bytes [39] @ ''s '' @ bytes [34] @
     ''Testing'' @ bytes [34, 10] @
     ''  publishing status, which means refresh tokens **expire every 7 days**. Pick this'' @
     bytes [10] @
     ''  only if you need IMAP semantics (e.g. your Workspace admin disabled the Gmail API).'' @
     bytes [10, 10] @ ''Default mode on this bridge: **'' @ defaultMode @ ''**.'' @ bytes [10, 10] @
     ''**Running matrimail on a remote server?** Set up an SSH local port-forward'' @ bytes [10] @
     ''**before** opening the URL:'' @ bytes [10, 10] @ ''```'' @ bytes [10] @
     ''ssh -L 8888:127.0.0.1:8888 user@your-bridge-host'' @ bytes [10] @ ''```'' @
     bytes [10, 10, 226, 128, 166] @
     ''and configure `gmail_oauth.listener_address: 127.0.0.1:8888` in your'' @ bytes [10] @
     ''matrimail config. Or use the `!matrimail oauth paste-token` admin command'' @ bytes [10] @
     ''if you can'' @ bytes [39] @ ''t expose a browser-reachable port at all.'' @ bytes [10, 10] @
     ''*Need help?* `!matrimail help`'')"

definition buildLoginInstructions :: gostring where
  "buildLoginInstructions =
     ''**Matrimail Login**'' @ bytes [10, 10, 240, 159, 147, 167] @
     '' **Please enter your email credentials using the form fields below.**'' @ bytes [10, 10] @
     ''**Important Notes:**'' @ bytes [10, 226, 128, 162] @
     '' For Gmail/Yahoo/Outlook: Use an **App Password** (not your regular password)'' @
     bytes [10, 226, 128, 162] @
     '' The bridge will automatically detect your email provider settings'' @
     bytes [10, 226, 128, 162] @ '' Your password will be encrypted and stored securely'' @
     bytes [10, 10] @ ''**App Password Setup Guide:**'' @ bytes [10, 240, 159, 147, 177] @
     '' **Gmail:** Settings '' @ bytes [226, 134, 146] @ '' Security '' @ bytes [226, 134, 146] @
     '' 2-Step Verification '' @ bytes [226, 134, 146] @ '' App passwords'' @
     bytes [10, 240, 159, 147, 177] @ '' **Yahoo:** Account Info '' @ bytes [226, 134, 146] @
     '' Account security '' @ bytes [226, 134, 146] @ '' Generate app password  '' @
     bytes [10, 240, 159, 147, 177] @ '' **Outlook:** Security '' @ bytes [226, 134, 146] @
     '' Sign-in options '' @ bytes [226, 134, 146] @ '' App passwords'' @
     bytes [10, 240, 159, 147, 177] @ '' **iCloud:** Sign-In and Security '' @ bytes [226, 134, 146] @
     '' App-Specific Passwords'' @ bytes [10, 10] @ ''**Popular Providers Supported:**'' @ bytes [10] @
     ''Gmail, Yahoo, Outlook, iCloud, FastMail - Auto-configured'' @ bytes [10] @
     ''Custom IMAP servers - Auto-detected'' @ bytes [10, 10] @
     ''*The bridge will test your IMAP connection automatically after you submit your credentials.*'' @
     bytes [10, 10] @
     ''**Need help?** Use `!matrimail help` for more information or `!matrimail status` to check connection status.''"

definition oauth_email_step :: "oauth_config \<Rightarrow> login_step" where
  "oauth_email_step cfg = ask ''oauth_email'' (buildOAuthEmailPrompt cfg)
     [(''email'', ''email'', ''Email Address'', ''Your Gmail / Workspace address''),
      (''username'', ''scope_mode'', ''Scope mode (optional)'',
       ''Leave blank for default. Type '' @ bytes [39] @ ''modify'' @ bytes [39] @ '' for Gmail-API-only (recommended) or '' @ bytes [39] @ ''full'' @ bytes [39] @ '' for IMAP/SMTP XOAUTH2 (advanced).'')]"

definition credentials_step :: login_step where
  "credentials_step = ask ''credentials'' buildLoginInstructions
     [(''email'', ''email'', ''Email Address'', ''Your full email address''),
      (''password'', ''password'', ''Password'', ''Your email password or App Password'')]"

definition folder_step :: "gostring \<Rightarrow> gostring \<Rightarrow> login_step" where
  "folder_step text desc = ask ''folder_selection'' text
     [(''username'', ''folder_selection'', ''Folder Selection'', desc)]"

definition folder_prompt :: gostring where
  "folder_prompt = ''Enter folder number(s), '' @ bytes [39] @ ''default'' @ bytes [39] @ '' for INBOX, or '' @ bytes [39] @ ''cancel'' @ bytes [39]"

definition confirmation_step :: "gostring \<Rightarrow> gostring \<Rightarrow> login_step" where
  "confirmation_step text desc = ask ''confirmation'' text
     [(''username'', ''confirmation'', ''Confirmation'', desc)]"

subsection \<open>Providers\<close>

record provider_info =
  pr_Name :: gostring
  pr_Domain :: gostring
  pr_NeedsAppPwd :: bool
  pr_HelpURL :: gostring

definition detectEmailProvider :: "gostring \<Rightarrow> provider_info option" where
  "detectEmailProvider email =
     (if email = [] then None
      else case split_on CHR ''@'' email of
        [_, host] \<Rightarrow>
          (let domain = to_lower host;
               known = (\<lambda>name url. Some \<lparr>pr_Name = name, pr_Domain = domain, pr_NeedsAppPwd = True, pr_HelpURL = url\<rparr>)
           in if domain \<in> {''gmail.com'', ''googlemail.com''}
              then known ''Gmail'' ''https://support.google.com/accounts/answer/185833''
              else if domain \<in> {''yahoo.com'', ''yahoo.co.uk'', ''yahoo.fr'', ''yahoo.de''}
              then known ''Yahoo'' ''https://help.yahoo.com/kb/generate-third-party-passwords-sln15241.html''
              else if domain \<in> {''outlook.com'', ''hotmail.com'', ''live.com'', ''msn.com''}
              then known ''Outlook/Hotmail'' (''https://support.microsoft.com/en-us/account-billing/'' @
                ''using-app-passwords-with-apps-that-don-t-support-two-step-verification-5896ed9b-4263-e681-128a-a6f2979a7944'')
              else if domain \<in> {''icloud.com'', ''me.com'', ''mac.com''}
              then known ''iCloud'' ''https://support.apple.com/en-us/HT204397''
              else Some \<lparr>pr_Name = ''Custom Provider'', pr_Domain = domain, pr_NeedsAppPwd = False, pr_HelpURL = ''''\<rparr>)
      | _ \<Rightarrow> None)"

definition app_password_help :: "provider_info \<Rightarrow> gostring \<Rightarrow> gostring" where
  "app_password_help pr err =
     bytes [226, 157, 140] @ '' **'' @ pr_Name pr @ '' Login Failed**'' @ bytes [10, 10] @
     ''**Most likely cause:** You need to use an **App Password** instead of your regular password.'' @
     bytes [10, 10] @ ''**How to fix:**'' @ bytes [10] @ ''1. Go to your '' @ pr_Name pr @
     '' security settings'' @ bytes [10] @
     ''2. Enable 2-Factor Authentication (if not already enabled)'' @ bytes [10] @
     ''3. Generate an App Password specifically for this email bridge'' @ bytes [10] @
     ''4. Use the App Password instead of your regular password'' @ bytes [10, 10] @
     ''**Help Link:** '' @ pr_HelpURL pr @ bytes [10, 10] @ ''**Original Error:** '' @ err"

definition login_failed_help :: "provider_info \<Rightarrow> gostring \<Rightarrow> gostring" where
  "login_failed_help pr err =
     bytes [226, 157, 140] @ '' **'' @ pr_Name pr @ '' Login Failed**'' @ bytes [10, 10] @
     ''**Possible causes:**'' @ bytes [10, 226, 128, 162] @ '' Incorrect email address or password'' @
     bytes [10, 226, 128, 162] @
     '' Two-factor authentication enabled (you may need an App Password)'' @
     bytes [10, 226, 128, 162] @ '' IMAP access disabled in your email settings'' @
     bytes [10, 226, 128, 162] @ '' Account temporarily locked'' @ bytes [10, 10] @
     ''**Please double-check:**'' @ bytes [10, 226, 156, 147] @ '' Email address is correct'' @
     bytes [10, 226, 156, 147] @ '' Password is correct (or use App Password if 2FA is enabled)'' @
     bytes [10, 226, 156, 147] @ '' IMAP is enabled in your '' @ pr_Name pr @ '' settings'' @
     bytes [10, 10] @ ''**Original Error:** '' @ err"

definition auto_detection_help :: "gostring \<Rightarrow> gostring \<Rightarrow> gostring \<Rightarrow> gostring" where
  "auto_detection_help host domain err =
     bytes [226, 157, 140] @ '' **Connection Failed - Auto-Detection Used**'' @
     bytes [10, 10, 240, 159, 148, 141] @ '' **We attempted to connect using:** '' @ host @ '':993'' @
     bytes [10, 10] @ ''**This is an unknown email provider, so we used auto-detection.**'' @
     bytes [10, 10] @ ''**Possible solutions:**'' @ bytes [10, 10] @ ''**1. Check with '' @ domain @
     '' for correct IMAP settings:**'' @ bytes [10, 226, 128, 162] @
     '' IMAP server address (might not be '' @ host @ '')'' @ bytes [10, 226, 128, 162] @
     '' Port number (usually 993 or 143)'' @ bytes [10, 226, 128, 162] @
     '' Security settings (SSL/TLS)'' @ bytes [10, 226, 128, 162] @
     '' IMAP access needs to be enabled'' @ bytes [10, 10] @ ''**2. Common IMAP settings to try:**'' @
     bytes [10, 226, 128, 162] @ '' mail.'' @ domain @ '':993 (SSL)'' @ bytes [10, 226, 128, 162] @
     '' '' @ host @ '':993 (SSL)  '' @ bytes [10, 226, 128, 162] @ '' '' @ host @ '':143 (STARTTLS)'' @
     bytes [10, 10] @ ''**3. If your provider uses non-standard settings:**'' @ bytes [10] @
     ''Contact your email administrator or check your provider'' @ bytes [39] @ ''s documentation'' @
     bytes [10, 10] @ ''**Original Error:** '' @ err"

definition connection_help :: "provider_info \<Rightarrow> gostring \<Rightarrow> gostring" where
  "connection_help pr err =
     bytes [226, 157, 140] @ '' **Connection to '' @ pr_Name pr @ '' Failed**'' @ bytes [10, 10] @
     ''**Possible causes:**'' @ bytes [10, 226, 128, 162] @ '' Network connectivity issues'' @
     bytes [10, 226, 128, 162] @ '' Firewall blocking IMAP connections'' @ bytes [10, 226, 128, 162] @
     '' Email provider server temporarily unavailable'' @ bytes [10, 226, 128, 162] @
     '' Account settings may need adjustment'' @ bytes [10, 10] @ ''**Please try:**'' @
     bytes [10, 226, 156, 147] @ '' Check your internet connection'' @ bytes [10, 226, 156, 147] @
     '' Verify IMAP is enabled in your '' @ pr_Name pr @ '' account settings'' @
     bytes [10, 226, 156, 147] @ '' Try again in a few minutes'' @ bytes [10, 226, 156, 147] @
     '' Contact your email provider if the issue persists'' @ bytes [10, 10] @
     ''**Original Error:** '' @ err"

definition buildConnectionErrorMessage :: "gostring \<Rightarrow> go_error \<Rightarrow> provider_info option \<Rightarrow> gostring" where
  "buildConnectionErrorMessage email e provider =
     (case provider of
        None \<Rightarrow> ''Connection failed: '' @ error_text e
      | Some pr \<Rightarrow>
          (let errorStr = to_lower (error_text e);
               isAuthError = list_ex (contains_sub errorStr) [''authentication'', ''login'', ''password'', ''credentials'']
           in if isAuthError \<and> pr_NeedsAppPwd pr then app_password_help pr (error_text e)
              else if isAuthError then login_failed_help pr (error_text e)
              else if pr_Name pr = ''Custom Provider'' then
                (case split_on CHR ''@'' email of
                   [_, d] \<Rightarrow> auto_detection_help (''imap.'' @ d) d (error_text e)
                 | _ \<Rightarrow> auto_detection_help ''imap.domain.com'' ''your email provider'' (error_text e))
              else connection_help pr (error_text e)))"

subsection \<open>State\<close>

record login_proc =
  lp_flowID :: gostring
  lp_email :: gostring
  lp_username :: gostring
  lp_password :: gostring
  lp_step :: gostring
  lp_available :: "folder_info list"
  lp_selected :: "folder_info list"
  lp_names :: "gostring list"
  lp_provider :: gostring
  lp_listener :: "nat option"
  lp_verifier :: gostring
  lp_state :: gostring
  lp_scope :: gostring

definition new_login :: "gostring \<Rightarrow> login_proc" where
  "new_login flow = \<lparr>lp_flowID = flow, lp_email = [], lp_username = [], lp_password = [], lp_step = [],
     lp_available = [], lp_selected = [], lp_names = [], lp_provider = [], lp_listener = None,
     lp_verifier = [], lp_state = [], lp_scope = []\<rparr>"

text \<open>The listeners ever started, by number; the registry of the running ones by user; the logins
  handed to the bridge: ID, address, user name.\<close>

record login_world =
  lw_table :: account_table
  lw_listeners :: "oauth_listener list"
  lw_registry :: "gostring \<rightharpoonup> nat"
  lw_logins :: "(gostring \<times> gostring \<times> gostring) list"

text \<open>What the process meets outside: the user's ID, the stores, the servers, the settings.\<close>

record login_env =
  le_user :: gostring
  le_store :: store_env
  le_upsert_db :: "go_error option"
  le_token_db :: "go_error option"
  le_folders_db :: "go_error option"
  le_nonce :: "go_error + gostring"
  le_token_nonces :: "(go_error + gostring) \<times> (go_error + gostring)"
  le_now :: gotime
  le_lookupMX :: "gostring \<Rightarrow> go_error + gostring list"
  le_net :: "imap_endpoint \<Rightarrow> unit net_env"
  le_listing :: "imap_endpoint \<Rightarrow> go_error + (gostring \<times> mailbox_attr list) list"
  le_sort :: slice_sort
  le_clock :: int
  le_backfillSeconds :: int
  le_backfillMax :: int
  le_idleSeconds :: int
  le_newLogin :: "go_error option"
  le_oauth :: oauth_config
  le_google :: google
  le_pkce :: "go_error + gostring \<times> gostring"
  le_newState :: "go_error + gostring"
  le_ipLoopback :: "gostring \<Rightarrow> bool"
  le_quote :: "gostring \<Rightarrow> gostring"
  le_listen :: "gostring \<Rightarrow> go_error + int option"
  le_duration :: "int \<Rightarrow> gostring"
  le_service :: "go_error option"
  le_profile :: "oauth_token \<Rightarrow> go_error + gostring"
  le_labels :: "go_error + gmail_label option list option"

datatype login_result = NextStep login_step | LoginError go_error | LoginPanic | LoginBlocked

type_synonym login_outcome = "login_result \<times> login_proc \<times> login_world"

subsection \<open>Saving the account\<close>

definition account_host :: "gostring \<Rightarrow> gostring \<times> int \<times> bool" where
  "account_host domain =
     (case CommonProviders domain of
        Some p \<Rightarrow> (ep_Host p, ep_Port p, ep_TLS p)
      | None \<Rightarrow> (''imap.'' @ domain, 993, True))"

definition login_account :: "login_env \<Rightarrow> login_proc \<Rightarrow> gostring \<Rightarrow> gostring \<Rightarrow> gostring list \<Rightarrow> email_account" where
  "login_account E p domain password folders =
     (case account_host domain of (host, port, tls) \<Rightarrow>
        \<lparr>ea_UserMXID = le_user E, ea_Email = lp_email p, ea_Username = lp_username p, ea_Password = password,
         ea_Host = host, ea_Port = port, ea_TLS = tls, ea_CreatedAt = le_now E, ea_LastSyncTime = le_now E,
         ea_MonitoredFolders = folders, ea_AuthType = []\<rparr>)"

definition saveAccount :: "login_env \<Rightarrow> login_proc \<Rightarrow> account_table \<Rightarrow> go_error option \<times> account_table" where
  "saveAccount E p tab =
     (case split_on CHR ''@'' (lp_email p) of
        [_, d] \<Rightarrow> UpsertAccount (le_store E) (le_upsert_db E) (le_nonce E)
                   (login_account E p (to_lower d) (lp_password p) (lp_names p)) tab
      | _ \<Rightarrow> (Some (Err (''invalid email format: '' @ lp_email p)), tab))"

definition success_message :: "login_proc \<Rightarrow> gostring" where
  "success_message p =
     (let folderList = concat (map (\<lambda>f. bytes [10] @ ''  '' @ bytes [226, 128, 162] @ '' '' @ fi_Icon f @ '' '' @ fi_Display f @ '' '' @
     TypeBracket f) (lp_selected p)) in
     bytes [226, 156, 133] @ '' **Account configured successfully!**'' @
     bytes [10, 10, 240, 159, 147, 167] @ '' **Email:** '' @ lp_email p @
     bytes [10, 240, 159, 147, 129] @ '' **Monitoring:**'' @ folderList @ bytes [10, 10] @
     ''Emails from the selected folder(s) will now appear in Beeper.'' @ bytes [10] @
     ''To change folders later, use `!matrimail config folders`'')"

definition save_step :: "login_env \<Rightarrow> login_proc \<Rightarrow> account_table \<Rightarrow> go_error option \<times> account_table" where
  "save_step E p tab =
     (if lp_flowID p = LoginFlowIDOAuthGmail then
        (case UpdateMonitoredFolders (le_store E) (le_folders_db E) (le_user E, lp_email p) (lp_names p) tab of
           (Some e, t) \<Rightarrow> (Some (Errorf ''failed to save folder selection'' e), t)
         | (None, t) \<Rightarrow> (None, t))
      else
        (case saveAccount E p tab of
           (Some e, t) \<Rightarrow> (Some (Errorf ''failed to save account'' e), t)
         | (None, t) \<Rightarrow> (None, t)))"

definition login_id :: "gostring \<Rightarrow> gostring" where
  "login_id email = ''email:'' @ email"

definition complete_step :: "login_proc \<Rightarrow> login_step" where
  "complete_step p = \<lparr>ls_Type = CompleteStep, ls_StepID = ''complete'', ls_Instructions = success_message p,
     ls_Fields = [], ls_Data = [], ls_LoginID = Some (login_id (lp_email p))\<rparr>"

definition completeLogin :: "login_env \<Rightarrow> login_proc \<Rightarrow> login_world \<Rightarrow> login_outcome" where
  "completeLogin E p w =
     (case save_step E p (lw_table w) of
        (Some e, t) \<Rightarrow> (LoginError e, p, w\<lparr>lw_table := t\<rparr>)
      | (None, t) \<Rightarrow>
          (case le_newLogin E of
             Some e \<Rightarrow> (LoginError (Errorf ''failed to create user login'' e), p, w\<lparr>lw_table := t\<rparr>)
           | None \<Rightarrow> (NextStep (complete_step p), p,
               w\<lparr>lw_table := t, lw_logins := lw_logins w @ [(login_id (lp_email p), lp_email p, lp_username p)]\<rparr>)))"

subsection \<open>Credentials and folders\<close>

text \<open>\<open>testIMAPConnectionAndKeep\<close>: None is the panic of \<open>NewClient\<close>.\<close>

datatype 'a attempt = Worked 'a | Failed go_error | Panicking | Hanging

definition testIMAPConnectionAndKeep ::
  "login_env \<Rightarrow> login_proc \<Rightarrow> (imap_endpoint \<times> unit imap_conn) attempt" where
  "testIMAPConnectionAndKeep E p =
     (case NewClient (le_lookupMX E) (lp_email p) (lp_username p) (lp_password p) (le_idleSeconds E) of
        None \<Rightarrow> Panicking
      | Some en \<Rightarrow>
          (case Connect (le_net E en) (fresh_conn (le_backfillSeconds E) (le_backfillMax E) (le_clock E) ()) of
             Blocked s \<Rightarrow> Hanging
           | Done (Some e) s \<Rightarrow> Failed (Errorf ''connection failed'' e)
           | Done None s \<Rightarrow> Worked (en, s)))"

definition only_inbox :: "login_proc \<Rightarrow> login_proc" where
  "only_inbox p = p\<lparr>lp_names := [''INBOX''], lp_selected := [literal_inbox]\<rparr>"

definition offer_folders :: "folder_info list \<Rightarrow> login_proc \<Rightarrow> login_world \<Rightarrow> login_outcome" where
  "offer_folders folders p w =
     (NextStep (folder_step (BuildFolderSelectionPrompt folders (lp_provider p)) folder_prompt),
      p\<lparr>lp_available := folders, lp_step := ''folder_selection''\<rparr>, w)"

definition read_input :: "gostring \<Rightarrow> (gostring \<rightharpoonup> gostring) \<Rightarrow> gostring \<Rightarrow> gostring" where
  "read_input k input old = (case input k of None \<Rightarrow> old | Some v \<Rightarrow> trim_space v)"

definition connected_step :: "login_env \<Rightarrow> login_proc \<Rightarrow> imap_endpoint \<Rightarrow> unit imap_conn \<Rightarrow> login_world \<Rightarrow> login_outcome" where
  "connected_step E p en s w =
     (case ListFolders (le_sort E) (le_listing E en) s of
        Inl e \<Rightarrow> completeLogin E (only_inbox p) w
      | Inr folders \<Rightarrow>
          (if folders = [] then completeLogin E (only_inbox (p\<lparr>lp_available := folders\<rparr>)) w
           else offer_folders folders p w))"

definition handleCredentials :: "login_env \<Rightarrow> (gostring \<rightharpoonup> gostring) \<Rightarrow> login_proc \<Rightarrow> login_world \<Rightarrow> login_outcome" where
  "handleCredentials E input p0 w =
     (let p1 = p0\<lparr>lp_email := read_input ''email'' input (lp_email p0),
                   lp_password := read_input ''password'' input (lp_password p0)\<rparr>;
          p2 = (if lp_username p1 = [] then p1\<lparr>lp_username := lp_email p1\<rparr> else p1)
      in if lp_email p2 = [] then (LoginError (Err ''email address is required''), p2, w)
         else if lp_password p2 = [] then (LoginError (Err ''password is required''), p2, w)
         else
           (let provider = detectEmailProvider (lp_email p2);
                p3 = p2\<lparr>lp_provider := (case provider of Some pr \<Rightarrow> pr_Name pr | None \<Rightarrow> ''Email'')\<rparr>
            in case testIMAPConnectionAndKeep E p3 of
                 Panicking \<Rightarrow> (LoginPanic, p3, w)
               | Hanging \<Rightarrow> (LoginBlocked, p3, w)
               | Failed e \<Rightarrow> (LoginError (Err (buildConnectionErrorMessage (lp_email p3) e provider)), p3, w)
               | Worked (en, s) \<Rightarrow> connected_step E p3 en s w))"

definition plain_input :: "gostring \<Rightarrow> (gostring \<rightharpoonup> gostring) \<Rightarrow> gostring" where
  "plain_input k input = (case input k of None \<Rightarrow> [] | Some v \<Rightarrow> v)"

definition handleFolderSelection :: "(gostring \<rightharpoonup> gostring) \<Rightarrow> login_proc \<Rightarrow> login_world \<Rightarrow> login_outcome" where
  "handleFolderSelection input p w =
     (case ValidateFolderSelection (plain_input ''folder_selection'' input) (lp_available p) of
        SelectCancelled \<Rightarrow> (LoginError (Err ''login cancelled by user''), p, w)
      | SelectInvalid msg \<Rightarrow>
          (NextStep (folder_step (msg @ bytes [10, 10] @ BuildFolderSelectionPrompt (lp_available p) (lp_provider p)) folder_prompt), p, w)
      | Selected names infos dflt \<Rightarrow>
          (NextStep (confirmation_step (BuildConfirmationPrompt infos)
             (''Type '' @ bytes [39] @ ''yes'' @ bytes [39] @ '' to confirm, '' @ bytes [39] @ ''no'' @ bytes [39] @ '' to go back, or '' @ bytes [39] @ ''cancel'' @ bytes [39])),
           p\<lparr>lp_names := names, lp_selected := infos, lp_step := ''confirmation''\<rparr>, w))"

definition handleConfirmation :: "login_env \<Rightarrow> (gostring \<rightharpoonup> gostring) \<Rightarrow> login_proc \<Rightarrow> login_world \<Rightarrow> login_outcome" where
  "handleConfirmation E input p w =
     (case ValidateConfirmation (plain_input ''confirmation'' input) of
        (confirmed, goBack, msg) \<Rightarrow>
          if goBack then
            (NextStep (folder_step (BuildFolderSelectionPrompt (lp_available p) (lp_provider p))
               (''Enter folder number(s) or '' @ bytes [39] @ ''default'' @ bytes [39] @ '' for INBOX'')),
             p\<lparr>lp_step := ''folder_selection''\<rparr>, w)
          else if \<not> confirmed then
            (NextStep (confirmation_step (msg @ bytes [10, 10] @ BuildConfirmationPrompt (lp_selected p))
               (''Type '' @ bytes [39] @ ''yes'' @ bytes [39] @ '' or '' @ bytes [39] @ ''no'' @ bytes [39])), p, w)
          else completeLogin E p w)"

subsection \<open>The OAuth steps\<close>

definition unregister :: "gostring \<Rightarrow> nat \<Rightarrow> login_world \<Rightarrow> login_world" where
  "unregister mxid i w =
     (if lw_registry w mxid = Some i then w\<lparr>lw_registry := (lw_registry w)(mxid := None)\<rparr> else w)"

definition registerOAuthListener :: "gostring \<Rightarrow> nat \<Rightarrow> login_world \<Rightarrow> login_world" where
  "registerOAuthListener mxid i w = w\<lparr>lw_registry := (lw_registry w)(mxid \<mapsto> i)\<rparr>"

definition lookupOAuthListener :: "gostring \<Rightarrow> login_world \<Rightarrow> nat option" where
  "lookupOAuthListener mxid w = lw_registry w mxid"

definition on_listener :: "nat \<Rightarrow> (oauth_listener \<Rightarrow> oauth_listener) \<Rightarrow> login_world \<Rightarrow> login_world" where
  "on_listener i f w = w\<lparr>lw_listeners := (lw_listeners w)[i := f (lw_listeners w ! i)]\<rparr>"

definition release_listener :: "gostring \<Rightarrow> nat \<Rightarrow> login_world \<Rightarrow> login_world" where
  "release_listener mxid i w = on_listener i listener_Close (unregister mxid i w)"

definition scope_error :: "(gostring \<Rightarrow> gostring) \<Rightarrow> gostring \<Rightarrow> go_error" where
  "scope_error quote scope =
     Err (''scope_mode must be empty, '' @ bytes [39] @ ''modify'' @ bytes [39] @ '', or '' @ bytes [39] @
     ''full'' @ bytes [39] @ '' (got '' @ quote scope @ '')'')"

definition not_configured_error :: go_error where
  "not_configured_error = Err (''gmail_oauth.client_id / client_secret not configured on this bridge '' @ bytes [226, 128, 148] @ '' see docs/gmail-oauth-setup.md, or use the email-password flow'')"

definition resolve_scope :: "login_env \<Rightarrow> login_proc \<Rightarrow> go_error option \<times> login_proc" where
  "resolve_scope E p =
     (if lp_scope p = [] then (None, p\<lparr>lp_scope := EffectiveDefaultScopeMode (le_oauth E)\<rparr>)
      else if lp_scope p = ScopeModeFull \<or> lp_scope p = ScopeModeModify then (None, p)
      else (Some (scope_error (le_quote E) (lp_scope p)), p))"

definition full_mode_note :: gostring where
  "full_mode_note = bytes [10, 226, 154, 160, 239, 184, 143] @
     '' **Full mode**: refresh tokens issued by an unverified Google project in Testing status expire after 7 days. You'' @
     bytes [39] @
     ''ll need to re-run `!matrimail login` weekly unless you publish your OAuth project (which for `mail.google.com` requires Google verification + CASA assessment).''"

definition oauth_wait_step :: "login_env \<Rightarrow> login_proc \<Rightarrow> gostring \<Rightarrow> gostring \<Rightarrow> login_step" where
  "oauth_wait_step E p redirect url =
     (let expires = le_duration E (EffectiveCallbackTimeout (le_oauth E));
          scopeNote = (if lp_scope p = ScopeModeFull then full_mode_note else []) in
      \<lparr>ls_Type = DisplayAndWait, ls_StepID = ''oauth_wait'', ls_Instructions =
     bytes [240, 159, 148, 144] @ '' **Step 2 of 3 '' @ bytes [226, 128, 148] @
     '' Authorize matrimail with Google**'' @ bytes [10, 10] @
     ''Open this URL in any browser (phone, laptop, doesn'' @ bytes [39] @ ''t matter '' @
     bytes [226, 128, 148] @ '' it just needs to'' @ bytes [10] @ ''reach **'' @ redirect @
     ''** on this host):'' @ bytes [10, 10] @ url @ bytes [10, 10] @ ''Sign in as **'' @ lp_email p @
     ''** and authorize matrimail. The bridge will detect the redirect'' @ bytes [10] @
     ''automatically and continue. This URL expires in '' @ expires @ ''.'' @ bytes [10, 10] @
     ''Scope mode: **'' @ lp_scope p @ ''**.'' @ scopeNote @ bytes [10, 10, 240, 159, 154, 167] @
     '' *Headless server tip:* if your matrimail host has no browser, set up an SSH'' @ bytes [10] @
     ''local port-forward from your workstation **before** opening the URL '' @ bytes [226, 128, 148] @
     '' see the'' @ bytes [10] @ ''prompt from Step 1.'' @ bytes [10, 10, 240, 159, 134, 152] @
     '' *No SSH access either?* Open the URL anyway. After you click '' @ bytes [34] @ ''Allow'' @
     bytes [34] @ '', your'' @ bytes [10] @ ''browser will fail to load the redirect ('' @ bytes [34] @
     ''can'' @ bytes [39] @ ''t connect to '' @ redirect @ bytes [34] @ '') '' @
     bytes [226, 128, 148] @ '' but the'' @ bytes [10] @
     ''URL bar will contain the authorization code. Copy the **full URL** from the'' @ bytes [10] @
     ''address bar and run:'' @ bytes [10, 10] @
     ''    !matrimail oauth paste-code <paste-the-url-here>'' @ bytes [10, 10] @
     ''The bridge has the matching state and PKCE verifier in memory and will finish'' @ bytes [10] @
     ''the exchange.'',
       ls_Fields = [], ls_Data = url, ls_LoginID = None\<rparr>)"

definition open_listener :: "login_env \<Rightarrow> gostring \<Rightarrow> login_proc \<Rightarrow> login_world \<Rightarrow> login_outcome" where
  "open_listener E challenge p w =
     (case StartOAuthListener (le_ipLoopback E) (le_quote E) (le_listen E)
             (EffectiveListenerAddress (le_oauth E)) (lp_state p) of
        Inl e \<Rightarrow> (LoginError (Errorf ''start OAuth callback listener'' e), p, w)
      | Inr l \<Rightarrow>
          (let i = length (lw_listeners w);
               p' = p\<lparr>lp_listener := Some i\<rparr>;
               w' = registerOAuthListener (le_user E) i (w\<lparr>lw_listeners := lw_listeners w @ [l]\<rparr>)
           in case BuildAuthURL (le_oauth E) (redirectURI l) (lp_state p) challenge (lp_email p) (ScopesForMode (lp_scope p)) of
                Inl e \<Rightarrow> (LoginError (Errorf ''build auth URL'' e), p', on_listener i listener_Close w')
              | Inr url \<Rightarrow> (NextStep (oauth_wait_step E p' (redirectURI l) url), p'\<lparr>lp_step := ''oauth_wait''\<rparr>, w')))"

definition start_oauth :: "login_env \<Rightarrow> login_proc \<Rightarrow> login_world \<Rightarrow> login_outcome" where
  "start_oauth E p w =
     (case le_pkce E of
        Inl e \<Rightarrow> (LoginError (Errorf ''generate PKCE'' e), p, w)
      | Inr (verifier, challenge) \<Rightarrow>
          (case le_newState E of
             Inl e \<Rightarrow> (LoginError (Errorf ''generate state'' e), p, w)
           | Inr st \<Rightarrow> open_listener E challenge (p\<lparr>lp_verifier := verifier, lp_state := st\<rparr>) w))"

definition precreate_account :: "login_env \<Rightarrow> login_proc \<Rightarrow> account_table \<Rightarrow> go_error option \<times> account_table" where
  "precreate_account E p tab =
     (case split_on CHR ''@'' (lp_email p) of
        [_, d] \<Rightarrow>
          (case UpsertAccount (le_store E) (le_upsert_db E) (le_nonce E)
                  (login_account E p (to_lower d) [] [''INBOX'']) tab of
             (Some e, t) \<Rightarrow> (Some (Errorf ''failed to pre-create account row'' e), t)
           | (None, t) \<Rightarrow> (None, t))
      | _ \<Rightarrow> (Some (Err (''invalid email format: '' @ lp_email p)), tab))"

definition handleOAuthEmail :: "login_env \<Rightarrow> (gostring \<rightharpoonup> gostring) \<Rightarrow> login_proc \<Rightarrow> login_world \<Rightarrow> login_outcome" where
  "handleOAuthEmail E input p0 w =
     (let p1 = p0\<lparr>lp_email := read_input ''email'' input (lp_email p0),
                   lp_scope := (case input ''scope_mode'' of None \<Rightarrow> lp_scope p0 | Some v \<Rightarrow> to_lower (trim_space v))\<rparr>
      in if lp_email p1 = [] then (LoginError (Err ''email address is required''), p1, w)
         else
           (case resolve_scope E (if lp_username p1 = [] then p1\<lparr>lp_username := lp_email p1\<rparr> else p1) of
              (Some e, p2) \<Rightarrow> (LoginError e, p2, w)
            | (None, p2) \<Rightarrow>
                if oc_client_id (le_oauth E) = [] \<or> oc_client_secret (le_oauth E) = []
                then (LoginError not_configured_error, p2, w)
                else (case precreate_account E p2 (lw_table w) of
                        (Some e, t) \<Rightarrow> (LoginError e, p2, w\<lparr>lw_table := t\<rparr>)
                      | (None, t) \<Rightarrow> start_oauth E p2 (w\<lparr>lw_table := t\<rparr>))))"

definition listFoldersOAuthIMAP :: "login_env \<Rightarrow> login_proc \<Rightarrow> gostring \<Rightarrow> folder_info list attempt" where
  "listFoldersOAuthIMAP E p token =
     (case NewClientOAuth (le_lookupMX E) (lp_email p) (lp_email p) token (le_idleSeconds E) of
        None \<Rightarrow> Panicking
      | Some en \<Rightarrow>
          (case Connect (le_net E en) (fresh_conn (le_backfillSeconds E) (le_backfillMax E) (le_clock E) ()) of
             Blocked s \<Rightarrow> Hanging
           | Done (Some e) s \<Rightarrow> Failed (Errorf ''oauth IMAP connect'' e)
           | Done None s \<Rightarrow> (case ListFolders (le_sort E) (le_listing E en) s of Inl e \<Rightarrow> Failed e | Inr fs \<Rightarrow> Worked fs)))"

definition enumerateFoldersForOAuth :: "login_env \<Rightarrow> login_proc \<Rightarrow> gostring \<Rightarrow> folder_info list attempt" where
  "enumerateFoldersForOAuth E p token =
     (if lp_scope p = ScopeModeFull then listFoldersOAuthIMAP E p token
      else (case ListGmailLabelsAsFolders True (le_labels E) of Inl e \<Rightarrow> Failed e | Inr fs \<Rightarrow> Worked fs))"

definition choose_folders :: "login_env \<Rightarrow> gostring \<Rightarrow> login_proc \<Rightarrow> login_world \<Rightarrow> login_outcome" where
  "choose_folders E token p0 w =
     (let p = p0\<lparr>lp_provider := (case detectEmailProvider (lp_email p0) of Some pr \<Rightarrow> pr_Name pr | None \<Rightarrow> ''Gmail'')\<rparr> in
      case enumerateFoldersForOAuth E p token of
        Panicking \<Rightarrow> (LoginPanic, p, w)
      | Hanging \<Rightarrow> (LoginBlocked, p, w)
      | Failed e \<Rightarrow> completeLogin E (only_inbox p) w
      | Worked folders \<Rightarrow> if folders = [] then completeLogin E (only_inbox p) w else offer_folders folders p w)"

definition identity_error :: "gostring \<Rightarrow> gostring \<Rightarrow> go_error" where
  "identity_error authorized typed =
     Err (''authorized account '' @ authorized @ '' does not match the email you entered ('' @ typed @
     ''); please restart login'')"

text \<open>\<open>authorize\<close>: the part of \<open>finishOAuthExchange\<close> up to the saved token.\<close>

definition authorize :: "login_env \<Rightarrow> gostring \<Rightarrow> gostring \<Rightarrow> login_proc \<Rightarrow> account_table \<Rightarrow>
     (go_error + oauth_token) \<times> account_table" where
  "authorize E code redirect p tab =
     (case ExchangeCode (le_google E) (le_oauth E) code (lp_verifier p) redirect of
        Inl e \<Rightarrow> (Inl (Errorf ''exchange code'' e), tab)
      | Inr tok \<Rightarrow>
          (case le_service E of
             Some e \<Rightarrow> (Inl (Errorf ''create gmail service'' e), tab)
           | None \<Rightarrow>
               (case le_profile E tok of
                  Inl e \<Rightarrow> (Inl (Errorf ''verify gmail profile'' e), tab)
                | Inr address \<Rightarrow>
                    if \<not> equal_fold address (lp_email p) then (Inl (identity_error address (lp_email p)), tab)
                    else (case SaveOAuthTokenWithScope (le_store E) (le_token_db E) (le_token_nonces E) (le_now E)
                                 (le_user E, lp_email p) OAuthProviderGoogle (lp_scope p) (Some tok) tab of
                            (Some e, t) \<Rightarrow> (Inl (Errorf ''save oauth token'' e), t)
                          | (None, t) \<Rightarrow> (Inr tok, t)))))"

definition finishOAuthExchange :: "login_env \<Rightarrow> gostring \<Rightarrow> gostring \<Rightarrow> login_proc \<Rightarrow> login_world \<Rightarrow> login_outcome" where
  "finishOAuthExchange E code redirect p w =
     (case authorize E code redirect p (lw_table w) of
        (Inl e, t) \<Rightarrow> (LoginError e, p, w\<lparr>lw_table := t\<rparr>)
      | (Inr tok, t) \<Rightarrow> choose_folders E (tok_Access tok) p (w\<lparr>lw_table := t\<rparr>))"

definition wait_bug :: go_error where
  "wait_bug = Err ''OAuth wait called before listener start; this is a bridge bug''"

definition after_wait :: "login_env \<Rightarrow> nat \<Rightarrow> go_error + gostring \<Rightarrow> login_proc \<Rightarrow> login_world \<Rightarrow> login_outcome" where
  "after_wait E i r p w =
     (case r of
        Inl e \<Rightarrow> (LoginError (Errorf ''OAuth authorization failed'' e), p, release_listener (le_user E) i w)
      | Inr code \<Rightarrow>
          (case finishOAuthExchange E code (redirectURI (lw_listeners w ! i)) p w of
             (res, p', w') \<Rightarrow> (res, p', release_listener (le_user E) i w')))"

definition login_Wait :: "login_env \<Rightarrow> go_error option \<Rightarrow> wait_choice \<Rightarrow> login_proc \<Rightarrow> login_world \<Rightarrow> login_outcome" where
  "login_Wait E ctx ready p w =
     (case lp_listener p of
        None \<Rightarrow> (LoginError wait_bug, p, w)
      | Some i \<Rightarrow>
          (case listener_Wait ctx ready (lw_listeners w ! i) of
             (None, l) \<Rightarrow> (LoginBlocked, p, w)
           | (Some r, l) \<Rightarrow> after_wait E i r p (on_listener i (\<lambda>_. l) w)))"

definition still_waiting :: "gostring \<Rightarrow> login_step" where
  "still_waiting redirect =
     \<lparr>ls_Type = DisplayAndWait, ls_StepID = ''oauth_wait'', ls_Instructions =
        bytes [226, 143, 179] @ '' Still waiting for you to authorize in your browser. Open the URL from the previous message and finish the OAuth flow.'',
      ls_Fields = [], ls_Data = redirect, ls_LoginID = None\<rparr>"

definition handleOAuthWait :: "login_env \<Rightarrow> wait_choice \<Rightarrow> login_proc \<Rightarrow> login_world \<Rightarrow> login_outcome" where
  "handleOAuthWait E ready p w =
     (case lp_listener p of
        None \<Rightarrow> (LoginError wait_bug, p, w)
      | Some i \<Rightarrow>
          (case listener_Wait None ready (lw_listeners w ! i) of
             (None, l) \<Rightarrow> (NextStep (still_waiting (redirectURI (lw_listeners w ! i))), p, w)
           | (Some r, l) \<Rightarrow> after_wait E i r p (on_listener i (\<lambda>_. l) w)))"

definition login_Cancel :: "login_env \<Rightarrow> login_proc \<Rightarrow> login_world \<Rightarrow> login_world" where
  "login_Cancel E p w =
     (case lp_listener p of None \<Rightarrow> w | Some i \<Rightarrow> release_listener (le_user E) i w)"

definition login_Start :: "login_env \<Rightarrow> login_proc \<Rightarrow> login_step" where
  "login_Start E p = (if lp_flowID p = LoginFlowIDOAuthGmail then oauth_email_step (le_oauth E) else credentials_step)"

definition SubmitUserInput ::
  "login_env \<Rightarrow> wait_choice \<Rightarrow> (gostring \<rightharpoonup> gostring) \<Rightarrow> login_proc \<Rightarrow> login_world \<Rightarrow> login_outcome" where
  "SubmitUserInput E ready input p w =
     (if lp_step p = ''oauth_wait'' then handleOAuthWait E ready p w
      else if lp_step p = ''folder_selection'' then handleFolderSelection input p w
      else if lp_step p = ''confirmation'' then handleConfirmation E input p w
      else if lp_flowID p = LoginFlowIDOAuthGmail then handleOAuthEmail E input p w
      else handleCredentials E input p w)"

end
