(* ===== verification/AccountFacts.thy ===== *)
theory AccountFacts
  imports AccountDB
begin

text \<open>
  What the account table promises.  A store that keeps passwords, tokens and folder lists as they
  are given is the abstract machine; the table with its encrypted and serialised columns refines it
  (locale \<open>refined_machine\<close>), so every read returns what was last written under the key.  The
  column types are an invariant of their own (locale \<open>machine\<close>).
\<close>

subsection \<open>Rows under keys\<close>

text \<open>The contract of a table updated row by row.\<close>

locale row_store =
  fixes row :: "'t \<Rightarrow> 'k \<Rightarrow> 'r option"
    and update :: "'k \<Rightarrow> ('r \<Rightarrow> 'r) \<Rightarrow> 't \<Rightarrow> 't"
    and upsert :: "'k \<Rightarrow> 'r \<Rightarrow> ('r \<Rightarrow> 'r) \<Rightarrow> 't \<Rightarrow> 't"
    and remove :: "'k \<Rightarrow> 't \<Rightarrow> 't"
  assumes row_update: "row (update k f t) k' = (if k' = k then map_option f (row t k') else row t k')"
    and row_upsert: "row (upsert k r f t) k' =
          (if k' = k then Some (case row t k of None \<Rightarrow> r | Some s \<Rightarrow> f s) else row t k')"
    and row_remove: "row (remove k t) k' = (if k' = k then None else row t k')"
begin

text \<open>A property of all rows is kept by a statement that keeps it for the rows it writes.\<close>

definition every :: "('k \<Rightarrow> 'r \<Rightarrow> bool) \<Rightarrow> 't \<Rightarrow> bool" where
  "every P t \<longleftrightarrow> (\<forall>k r. row t k = Some r \<longrightarrow> P k r)"

lemma every_update: "every P t \<Longrightarrow> (\<And>r. P k r \<Longrightarrow> P k (f r)) \<Longrightarrow> every P (update k f t)"
  by (auto simp: every_def row_update split: if_splits)

lemma every_upsert:
  "every P t \<Longrightarrow> P k r \<Longrightarrow> (\<And>s. P k s \<Longrightarrow> P k (f s)) \<Longrightarrow> every P (upsert k r f t)"
  by (auto simp: every_def row_upsert split: if_splits option.splits)

lemma every_remove: "every P t \<Longrightarrow> every P (remove k t)"
  by (auto simp: every_def row_remove)

end

lemma map_of_update_row [simp]:
  "map_of (update_row k f tab) k' = (if k' = k then map_option f (map_of tab k') else map_of tab k')"
  by (induction tab) (auto simp: update_row_def)

lemma map_of_insert_or_update [simp]:
  "map_of (insert_or_update k r f tab) k' =
     (if k' = k then Some (case map_of tab k of None \<Rightarrow> r | Some s \<Rightarrow> f s) else map_of tab k')"
  by (auto simp: insert_or_update_def map_add_def split: option.split)

lemma map_of_without_key [simp]:
  "map_of (filter (\<lambda>(k', r). k' \<noteq> k) tab) k' = (if k' = k then None else map_of tab k')"
  by (induction tab) auto

lemma distinct_update_row [simp]: "map fst (update_row k f tab) = map fst tab"
  by (auto simp: update_row_def)

lemma distinct_insert_or_update:
  "distinct (map fst tab) \<Longrightarrow> distinct (map fst (insert_or_update k r f tab))"
  by (auto simp: insert_or_update_def map_of_eq_None_iff)

interpretation rows: row_store "map_of :: account_table \<Rightarrow> _" update_row insert_or_update
    "\<lambda>k. filter (\<lambda>(k', r). k' \<noteq> k)"
  by unfold_locales simp_all

subsection \<open>The table as a machine\<close>

datatype account_op =
    Upsert "go_error + gostring" email_account
  | Delete account_key
  | LastSync account_key gotime
  | Monitored account_key "gostring list"
  | RefreshToken "(go_error + gostring) \<times> (go_error + gostring)" account_key gostring "oauth_token option"
  | LoginToken "(go_error + gostring) \<times> (go_error + gostring)" gotime account_key gostring gostring "oauth_token option"
  | AuthType account_key gostring
  | Notified account_key gotime
  | HistoryID account_key "64 word"

fun account_op_result ::
  "store_env \<Rightarrow> go_error option \<Rightarrow> account_op \<Rightarrow> account_table \<Rightarrow> go_error option \<times> account_table" where
  "account_op_result E db (Upsert rnd a) tab = UpsertAccount E db rnd a tab"
| "account_op_result E db (Delete k) tab = DeleteAccount db k tab"
| "account_op_result E db (LastSync k t) tab = UpdateLastSync db k t tab"
| "account_op_result E db (Monitored k fs) tab = UpdateMonitoredFolders E db k fs tab"
| "account_op_result E db (RefreshToken rnds k prov tok) tab = SaveOAuthToken E db rnds 0 k prov tok tab"
| "account_op_result E db (LoginToken rnds now k prov scope tok) tab =
     SaveOAuthTokenWithScope E db rnds now k prov scope tok tab"
| "account_op_result E db (AuthType k a) tab = SetAuthType db k a tab"
| "account_op_result E db (Notified k t) tab = MarkReauthNotified db k t tab"
| "account_op_result E db (HistoryID k h) tab = SetGmailHistoryID db k h tab"

definition account_step ::
  "store_env \<Rightarrow> go_error option \<times> account_op \<Rightarrow> account_table \<Rightarrow> account_table \<times> go_error option" where
  "account_step E e tab = prod.swap (account_op_result E (fst e) (snd e) tab)"

subsection \<open>The types of the columns\<close>

definition int64 :: "int \<Rightarrow> bool" where
  "int64 n \<longleftrightarrow> - (2 ^ 63) \<le> n \<and> n < 2 ^ 63"

lemma int64_wrap [simp]: "int64 (wrap64 n)" "int64 (UnixNano t)" "int64 0"
  using pos_mod_bound [of "2 ^ 64" "n + 2 ^ 63"] pos_mod_sign [of "2 ^ 64" "n + 2 ^ 63"]
    pos_mod_bound [of "2 ^ 64" "t - unix_epoch + 2 ^ 63"] pos_mod_sign [of "2 ^ 64" "t - unix_epoch + 2 ^ 63"]
  by (simp_all add: int64_def wrap64_def UnixNano_def)

lemma wrap64_id: "int64 n \<Longrightarrow> wrap64 n = n"
  by (simp add: int64_def wrap64_def)

lemma int64_sint [simp]: "int64 (sint (h :: 64 word))"
  using sint_greater_eq [of h] sint_less [of h] by (simp add: int64_def)

definition known_auth :: "gostring \<Rightarrow> bool" where
  "known_auth a \<longleftrightarrow> a \<in> {AuthTypePassword, AuthTypeOAuthGmail, AuthTypeOAuthGmailNeedsReauth}"

definition row_typed :: "account_key \<Rightarrow> account_row \<Rightarrow> bool" where
  "row_typed k r \<longleftrightarrow>
     known_auth (ar_auth_type r) \<and>
     ar_scope r \<in> {None, Some ScopeModeModify, Some ScopeModeFull} \<and>
     ar_folders r \<noteq> None \<and>
     (ar_auth_type r = AuthTypeOAuthGmail \<longrightarrow> ar_refresh r \<noteq> None) \<and>
     pred_option int64 (ar_expiry r) \<and> pred_option int64 (ar_issued_at r) \<and>
     pred_option int64 (ar_history r) \<and> pred_option int64 (ar_notice_at r)"

definition table_typed :: "account_table \<Rightarrow> bool" where
  "table_typed tab \<longleftrightarrow> distinct (map fst tab) \<and> rows.every row_typed tab"

text \<open>What the callers pass: auth types of the three known values, and \<open>oauth-gmail\<close> by no direct
  \<open>SetAuthType\<close>; scope modes of the two.\<close>

fun op_typed :: "go_error option \<times> account_op \<Rightarrow> bool" where
  "op_typed (db, AuthType k a) \<longleftrightarrow> a = AuthTypePassword \<or> a = AuthTypeOAuthGmailNeedsReauth"
| "op_typed (db, LoginToken rnds now k prov scope tok) \<longleftrightarrow> scope \<in> {[], ScopeModeModify, ScopeModeFull}"
| "op_typed _ \<longleftrightarrow> True"

lemma row_typed_updates:
  assumes "row_typed k r"
  shows "row_typed k (conflict_row a enc fs r)" "row_typed k (r\<lparr>ar_last_sync := t\<rparr>)"
    "row_typed k (r\<lparr>ar_folders := Some fs\<rparr>)" "row_typed k (r\<lparr>ar_notice_at := Some (UnixNano t)\<rparr>)"
    "row_typed k (r\<lparr>ar_history := Some (sint (h :: 64 word))\<rparr>)" "row_typed k (token_row p er ea ex r)"
    "scope \<in> {ScopeModeModify, ScopeModeFull} \<Longrightarrow> int64 n \<Longrightarrow> row_typed k (scope_row scope n r)"
    "b = AuthTypePassword \<or> b = AuthTypeOAuthGmailNeedsReauth \<Longrightarrow> row_typed k (r\<lparr>ar_auth_type := b\<rparr>)"
  using assms
  by (auto simp: row_typed_def conflict_row_def token_row_def scope_row_def known_auth_def auth_constants)

lemma row_typed_new: "row_typed k (new_row a enc fs)"
  by (simp add: row_typed_def new_row_def known_auth_def auth_constants)

lemma exec_inv: "exec db f t = (o1, t') \<Longrightarrow> I t \<Longrightarrow> I (f t) \<Longrightarrow> I t'"
  by (auto simp: exec_def split: option.splits)

lemma table_typed_update:
  "table_typed tab \<Longrightarrow> (\<And>r. row_typed k r \<Longrightarrow> row_typed k (f r)) \<Longrightarrow> table_typed (update_row k f tab)"
  by (simp add: table_typed_def rows.every_update)

lemma saved_token_cases:
  "saveOAuthTokenInternal E db rnds now k provider scope otok stamp tab = (o1, tab') \<Longrightarrow>
     tab' = tab \<or> (\<exists>prov er ea ex n. int64 n \<and>
       tab' = update_row k (if scope \<noteq> [] then scope_row scope n \<circ> token_row prov er ea ex
                            else token_row prov er ea ex) tab)"
  by (auto simp: saveOAuthTokenInternal_def Let_def split: option.splits sum.splits if_splits) (metis int64_wrap(2,3))+

lemma scope_nonempty: "ScopeModeModify \<noteq> []" "ScopeModeFull \<noteq> []"
  by (simp_all add: auth_constants)

lemma table_typed_saved:
  assumes "table_typed tab" and "saveOAuthTokenInternal E db rnds now k provider scope otok stamp tab = (o1, tab')"
    and "scope \<in> {[], ScopeModeModify, ScopeModeFull}"
  shows "table_typed tab'"
  using saved_token_cases [OF assms(2)] assms(1,3)
  by (auto intro!: table_typed_update simp: row_typed_updates split: if_splits)

lemma account_step_typed:
  assumes "table_typed tab" and "op_typed e" and "account_step E e tab = (tab', o1)"
  shows "table_typed tab'"
proof -
  obtain db a where e: "e = (db, a)" by fastforce
  have st: "account_op_result E db a tab = (o1, tab')"
    using assms(3) by (cases "account_op_result E db a tab") (simp add: account_step_def e)
  show ?thesis
  proof (cases a)
    case (Upsert rnd acc)
    have "table_typed (insert_or_update k (new_row acc enc fs) (conflict_row acc enc fs) tab)" for k enc fs
      using assms(1) by (simp add: table_typed_def distinct_insert_or_update rows.every_upsert
          row_typed_new row_typed_updates(1))
    with st assms(1) Upsert show ?thesis
      by (auto simp: UpsertAccount_def Let_def exec_def split: sum.splits option.splits)
  next
    case (Delete k)
    have "table_typed (filter (\<lambda>(k', r). k' \<noteq> k) tab)"
      using assms(1) by (simp add: table_typed_def rows.every_remove distinct_map_filter)
    with st assms(1) Delete show ?thesis
      by (auto simp: DeleteAccount_def intro: exec_inv [of _ _ _ _ _ table_typed])
  next
    case (LoginToken rnds now k prov scope tok)
    then have "(if scope = [] then ScopeModeModify else scope) \<in> {[], ScopeModeModify, ScopeModeFull}"
      using assms(2) e by auto
    with st assms(1) LoginToken show ?thesis
      by (auto simp: SaveOAuthTokenWithScope_def intro: table_typed_saved)
  next
    case (RefreshToken rnds k prov tok)
    with st assms(1) show ?thesis by (auto simp: SaveOAuthToken_def intro: table_typed_saved)
  qed (use st assms e in \<open>auto simp: UpdateLastSync_def UpdateMonitoredFolders_def SetAuthType_def
      MarkReauthNotified_def SetGmailHistoryID_def row_typed_updates exec_def split: option.splits
      intro!: table_typed_update\<close>)
qed

interpretation typed_table: machine "account_step E" op_typed table_typed for E
  by unfold_locales (rule account_step_typed)

text \<open>
  C24: whatever statements run, in any order and with any database failures, every row of the account
  table keeps its types: one of the three authentication types, one of the two scope modes or none,
  a folder list, a refresh token whenever the account is an active OAuth account, and 64-bit times
  and history cursors; no key occurs twice.
\<close>

theorem account_table_typed:
  assumes "list_all op_typed es" and "run_steps (account_step E) es [] = (tab, rs)"
  shows "distinct (map fst tab) \<and> (\<forall>k r. map_of tab k = Some r \<longrightarrow> row_typed k r)"
proof -
  have "table_typed []" by (simp add: table_typed_def rows.every_def)
  from typed_table.run_inv [OF this assms] have "table_typed tab" .
  then show ?thesis unfolding table_typed_def rows.every_def .
qed

subsection \<open>The store without encryption\<close>

text \<open>One account as its owner sees it: nothing is encrypted, the folder list is a list.\<close>

record plain_account =
  pa_account :: email_account
  pa_provider :: gostring
  pa_token :: "oauth_token option"
  pa_scope :: gostring
  pa_issued_at :: gotime
  pa_history :: int
  pa_notice_at :: int

definition plain_folders :: "gostring list \<Rightarrow> gostring list" where
  "plain_folders fs = (if fs = [] then [''INBOX''] else fs)"

definition kept_time :: "gotime \<Rightarrow> gotime" where
  "kept_time t = (if t = 0 then 0 else stored_time (Some (UnixNano t)))"

definition plain_upsert :: "email_account \<Rightarrow> plain_account option \<Rightarrow> plain_account" where
  "plain_upsert a old =
     (let a' = a\<lparr>ea_MonitoredFolders := plain_folders (ea_MonitoredFolders a)\<rparr> in
      case old of
        None \<Rightarrow> \<lparr>pa_account = a'\<lparr>ea_AuthType := AuthTypePassword\<rparr>, pa_provider = [], pa_token = None,
                 pa_scope = ScopeModeFull, pa_issued_at = 0, pa_history = 0, pa_notice_at = 0\<rparr>
      | Some p \<Rightarrow> p\<lparr>pa_account := a'\<lparr>ea_AuthType := ea_AuthType (pa_account p),
                                      ea_CreatedAt := ea_CreatedAt (pa_account p)\<rparr>\<rparr>)"

definition plain_token :: "gostring \<Rightarrow> oauth_token \<Rightarrow> plain_account \<Rightarrow> plain_account" where
  "plain_token prov tok p =
     p\<lparr>pa_account := (pa_account p)\<lparr>ea_AuthType := AuthTypeOAuthGmail\<rparr>,
       pa_provider := (if prov = [] then OAuthProviderGoogle else prov),
       pa_token := Some (tok\<lparr>tok_Expiry := kept_time (tok_Expiry tok)\<rparr>)\<rparr>"

definition plain_scope :: "gostring \<Rightarrow> gotime \<Rightarrow> plain_account \<Rightarrow> plain_account" where
  "plain_scope scope now p =
     p\<lparr>pa_scope := (if scope = [] then ScopeModeModify else scope),
       pa_issued_at := stored_time (Some (UnixNano now)), pa_notice_at := 0\<rparr>"

definition plain_update :: "account_key \<Rightarrow> (plain_account \<Rightarrow> plain_account) \<Rightarrow>
     (account_key \<rightharpoonup> plain_account) \<Rightarrow> account_key \<rightharpoonup> plain_account" where
  "plain_update k f m = m(k := map_option f (m k))"

definition plain_save ::
  "go_error option \<Rightarrow> account_key \<Rightarrow> oauth_token option \<Rightarrow> (oauth_token \<Rightarrow> plain_account \<Rightarrow> plain_account) \<Rightarrow>
     (account_key \<rightharpoonup> plain_account) \<Rightarrow> go_error option \<times> (account_key \<rightharpoonup> plain_account)" where
  "plain_save db k otok f m =
     (case otok of
        None \<Rightarrow> (Some nil_token_error, m)
      | Some tok \<Rightarrow> (case db of Some e \<Rightarrow> (Some e, m)
          | None \<Rightarrow> (if m k = None then Some (no_row_error k) else None, plain_update k (f tok) m)))"

fun plain_result :: "go_error option \<Rightarrow> account_op \<Rightarrow> (account_key \<rightharpoonup> plain_account) \<Rightarrow>
     go_error option \<times> (account_key \<rightharpoonup> plain_account)" where
  "plain_result db (Upsert rnd a) m =
     exec db (\<lambda>m. m((ea_UserMXID a, ea_Email a) \<mapsto> plain_upsert a (m (ea_UserMXID a, ea_Email a)))) m"
| "plain_result db (Delete k) m = exec db (\<lambda>m. m(k := None)) m"
| "plain_result db (LastSync k t) m =
     exec db (plain_update k (pa_account_update (ea_LastSyncTime_update (\<lambda>_. t)))) m"
| "plain_result db (Monitored k fs) m =
     exec db (plain_update k (pa_account_update (ea_MonitoredFolders_update (\<lambda>_. plain_folders fs)))) m"
| "plain_result db (RefreshToken rnds k prov tok) m = plain_save db k tok (plain_token prov) m"
| "plain_result db (LoginToken rnds now k prov scope tok) m =
     plain_save db k tok (\<lambda>t. plain_scope scope now \<circ> plain_token prov t) m"
| "plain_result db (AuthType k a) m =
     exec db (plain_update k (pa_account_update (ea_AuthType_update (\<lambda>_. a)))) m"
| "plain_result db (Notified k t) m = exec db (plain_update k (pa_notice_at_update (\<lambda>_. UnixNano t))) m"
| "plain_result db (HistoryID k h) m = exec db (plain_update k (pa_history_update (\<lambda>_. sint h))) m"

definition plain_step where
  "plain_step e m = prod.swap (plain_result (fst e) (snd e) m)"

subsection \<open>Reading a row back\<close>

definition store_laws :: "store_env \<Rightarrow> bool" where
  "store_laws E \<longleftrightarrow> crypto_laws (se_crypto E) \<and> (\<exists>k. se_key E = Inr k) \<and>
     se_unmarshal E inbox_json = Inr [''INBOX'']"

text \<open>A folder list JSON can carry (Go replaces bytes that are not UTF-8).\<close>

definition json_keeps :: "store_env \<Rightarrow> gostring list \<Rightarrow> bool" where
  "json_keeps E fs \<longleftrightarrow> fs = [] \<or>
     (case se_marshal E fs of Inl e \<Rightarrow> False | Inr s \<Rightarrow> s \<noteq> [] \<and> se_unmarshal E s = Inr fs)"

definition nonce_read :: "go_error + gostring \<Rightarrow> bool" where
  "nonce_read rnd = (case rnd of Inl e \<Rightarrow> False | Inr n \<Rightarrow> length n = nonceSize)"

fun op_sound :: "store_env \<Rightarrow> go_error option \<times> account_op \<Rightarrow> bool" where
  "op_sound E (db, Upsert rnd a) \<longleftrightarrow> nonce_read rnd \<and> json_keeps E (ea_MonitoredFolders a)"
| "op_sound E (db, Monitored k fs) \<longleftrightarrow> json_keeps E fs"
| "op_sound E (db, RefreshToken rnds k prov tok) \<longleftrightarrow> nonce_read (fst rnds) \<and> nonce_read (snd rnds)"
| "op_sound E (db, LoginToken rnds now k prov scope tok) \<longleftrightarrow> nonce_read (fst rnds) \<and> nonce_read (snd rnds)"
| "op_sound E _ \<longleftrightarrow> True"

lemma encrypt_works:
  assumes "store_laws E" and "nonce_read rnd"
  obtains ct where "encrypt E rnd plain = Inr ct" and "decrypt E ct = Inr plain" and "ct \<noteq> []"
proof -
  from assms obtain k nonce where k: "se_key E = Inr k" and n: "rnd = Inr nonce" "length nonce = nonceSize"
    by (auto simp: store_laws_def nonce_read_def split: sum.splits)
  have e: "encrypt E rnd plain = Inr (encPrefix @ base64 (se_crypto E) (nonce @ gcm_seal (se_crypto E) k nonce plain))"
    by (simp add: encryptString_def k n)
  have "decrypt E (encPrefix @ base64 (se_crypto E) (nonce @ gcm_seal (se_crypto E) k nonce plain)) = Inr plain"
    unfolding k using assms(1) n(2) by (simp add: store_laws_def open_sealed)
  with e show thesis by (rule that) (simp add: encPrefix_def)
qed

lemma folders_read_back:
  assumes "store_laws E" and "json_keeps E fs"
  shows "SetMonitoredFoldersFromJSON E (GetMonitoredFoldersJSON E fs) = plain_folders fs"
  using assms
  by (auto simp: GetMonitoredFoldersJSON_def SetMonitoredFoldersFromJSON_def plain_folders_def json_keeps_def
      store_laws_def inbox_json_def split: sum.splits)

definition the_text :: "go_error + gostring \<Rightarrow> gostring" where
  "the_text r = (case r of Inl e \<Rightarrow> [] | Inr s \<Rightarrow> s)"

definition plain_row :: "store_env \<Rightarrow> account_key \<Rightarrow> account_row \<Rightarrow> plain_account" where
  "plain_row E k r =
     \<lparr>pa_account = fill_account E k r (the_text (decrypt E (ar_password r))),
      pa_provider = coalesce [] (ar_provider r),
      pa_token = (case stored_token E r of Inl e \<Rightarrow> None | Inr t \<Rightarrow> t),
      pa_scope = stored_scope r, pa_issued_at = stored_time (ar_issued_at r),
      pa_history = coalesce 0 (ar_history r), pa_notice_at = coalesce 0 (ar_notice_at r)\<rparr>"

definition row_readable :: "store_env \<Rightarrow> account_key \<Rightarrow> account_row \<Rightarrow> bool" where
  "row_readable E k r \<longleftrightarrow> (case decrypt E (ar_password r) of Inl e \<Rightarrow> False | Inr p \<Rightarrow> True) \<and>
     (case stored_token E r of Inl e \<Rightarrow> False | Inr t \<Rightarrow> True)"

definition plain_table :: "store_env \<Rightarrow> account_table \<Rightarrow> account_key \<rightharpoonup> plain_account" where
  "plain_table E tab = (\<lambda>k. map_option (plain_row E k) (map_of tab k))"

lemma plain_table_update:
  assumes "\<And>r. map_of tab k = Some r \<Longrightarrow> plain_row E k (f r) = g (plain_row E k r)"
  shows "plain_table E (update_row k f tab) = plain_update k g (plain_table E tab)"
proof
  fix k' show "plain_table E (update_row k f tab) k' = plain_update k g (plain_table E tab) k'"
    using assms by (cases "map_of tab k") (simp_all add: plain_table_def plain_update_def)
qed

subsection \<open>The table refines the store\<close>

definition table_readable :: "store_env \<Rightarrow> account_table \<Rightarrow> bool" where
  "table_readable E tab \<longleftrightarrow> rows.every (row_readable E) tab"

lemmas row_defs = plain_row_def fill_account_def stored_scope_def

lemma stored_token_cong:
  "ar_refresh r = ar_refresh s \<Longrightarrow> ar_access r = ar_access s \<Longrightarrow> ar_expiry r = ar_expiry s \<Longrightarrow>
     stored_token E r = stored_token E s"
  unfolding stored_token_def by presburger

lemma stored_token_update [simp]:
  "stored_token E (r\<lparr>ar_last_sync := t\<rparr>) = stored_token E r"
  "stored_token E (r\<lparr>ar_auth_type := a\<rparr>) = stored_token E r"
  "stored_token E (r\<lparr>ar_notice_at := n\<rparr>) = stored_token E r"
  "stored_token E (r\<lparr>ar_history := n\<rparr>) = stored_token E r"
  "stored_token E (r\<lparr>ar_folders := fs\<rparr>) = stored_token E r"
  "stored_token E (scope_row s i r) = stored_token E r"
  "stored_token E (conflict_row acc enc js r) = stored_token E r"
  by (rule stored_token_cong; simp add: scope_row_def conflict_row_def)+

lemma stored_token_new [simp]: "stored_token E (new_row acc enc js) = Inr None"
  by (simp add: stored_token_def new_row_def coalesce_def)

lemma stored_token_saved:
  assumes "decrypt E er = Inr rt" and "er \<noteq> []" and "decrypt E ea = Inr ac" and "ea \<noteq> []"
  shows "stored_token E (token_row p er ea x r) =
    Inr (Some \<lparr>tok_Access = ac, tok_Refresh = rt, tok_Expiry = kept_time x\<rparr>)"
  using assms by (simp add: stored_token_def token_row_def coalesce_def kept_time_def stored_time_def)

lemma row_update_plain:
  "plain_row E k (r\<lparr>ar_last_sync := t\<rparr>) = pa_account_update (ea_LastSyncTime_update (\<lambda>_. t)) (plain_row E k r)"
  "plain_row E k (r\<lparr>ar_auth_type := a\<rparr>) = pa_account_update (ea_AuthType_update (\<lambda>_. a)) (plain_row E k r)"
  "plain_row E k (r\<lparr>ar_notice_at := Some n\<rparr>) = pa_notice_at_update (\<lambda>_. n) (plain_row E k r)"
  "plain_row E k (r\<lparr>ar_history := Some n\<rparr>) = pa_history_update (\<lambda>_. n) (plain_row E k r)"
  by (simp_all add: row_defs coalesce_def)

lemma row_update_readable [simp]:
  "row_readable E k (r\<lparr>ar_last_sync := t\<rparr>) = row_readable E k r"
  "row_readable E k (r\<lparr>ar_auth_type := a\<rparr>) = row_readable E k r"
  "row_readable E k (r\<lparr>ar_notice_at := n\<rparr>) = row_readable E k r"
  "row_readable E k (r\<lparr>ar_history := n\<rparr>) = row_readable E k r"
  "row_readable E k (r\<lparr>ar_folders := fs\<rparr>) = row_readable E k r"
  "row_readable E k (scope_row s i r) = row_readable E k r"
  by (simp_all add: row_readable_def) (simp add: scope_row_def)

lemma row_folders_plain:
  assumes "store_laws E" and "json_keeps E fs"
  shows "plain_row E k (r\<lparr>ar_folders := Some (GetMonitoredFoldersJSON E fs)\<rparr>) =
     pa_account_update (ea_MonitoredFolders_update (\<lambda>_. plain_folders fs)) (plain_row E k r)"
  using folders_read_back [OF assms] by (simp add: row_defs)

lemma scope_row_plain:
  assumes "scope \<noteq> []"
  shows "plain_row E k (scope_row scope (UnixNano now) r) = plain_scope scope now (plain_row E k r)"
  using assms by (simp add: row_defs plain_scope_def) (simp add: scope_row_def coalesce_def)

lemma token_row_plain:
  assumes "decrypt E er = Inr (tok_Refresh tok)" and "er \<noteq> []"
    and "decrypt E ea = Inr (tok_Access tok)" and "ea \<noteq> []"
  shows "plain_row E k (token_row (if prov = [] then OAuthProviderGoogle else prov) er ea (tok_Expiry tok) r) =
      plain_token prov tok (plain_row E k r)"
    and "row_readable E k r \<Longrightarrow> row_readable E k (token_row p er ea x r)"
  using stored_token_saved [OF assms]
  by (simp_all add: row_defs row_readable_def plain_token_def) (simp_all add: token_row_def coalesce_def)

lemma upsert_row_plain:
  assumes "store_laws E" and "json_keeps E (ea_MonitoredFolders a)" and "decrypt E enc = Inr (ea_Password a)"
    and "k = (ea_UserMXID a, ea_Email a)"
  shows "plain_row E k (new_row a enc (GetMonitoredFoldersJSON E (ea_MonitoredFolders a))) = plain_upsert a None"
    and "plain_row E k (conflict_row a enc (GetMonitoredFoldersJSON E (ea_MonitoredFolders a)) r) =
      plain_upsert a (Some (plain_row E k r))"
  using folders_read_back [OF assms(1,2)] assms(3,4)
  by (simp_all add: row_defs plain_upsert_def the_text_def)
    (simp_all add: new_row_def conflict_row_def coalesce_def stored_time_def)

lemma upsert_row_readable:
  assumes "decrypt E enc = Inr p"
  shows "row_readable E k (new_row a enc fs)" and "row_readable E k r \<Longrightarrow> row_readable E k (conflict_row a enc fs r)"
  using assms by (simp_all add: row_readable_def) (simp_all add: new_row_def conflict_row_def)

lemma plain_table_exec:
  assumes "exec db f tab = (o1, tab')" and "plain_table E (f tab) = g (plain_table E tab)"
  shows "exec db g (plain_table E tab) = (o1, plain_table E tab')"
  using assms by (auto simp: exec_def split: option.splits)

lemma saved_token_refines:
  assumes "store_laws E" and n: "nonce_read (fst rnds)" "nonce_read (snd rnds)" and rd: "table_readable E tab"
    and st: "saveOAuthTokenInternal E db rnds now k prov scope otok True tab = (o1, tab') \<and> scope \<noteq> [] \<and>
        f = (\<lambda>t. plain_scope scope now \<circ> plain_token prov t) \<or>
      saveOAuthTokenInternal E db rnds now k prov [] otok False tab = (o1, tab') \<and> scope = [] \<and> f = plain_token prov"
  shows "plain_save db k otok f (plain_table E tab) = (o1, plain_table E tab') \<and> table_readable E tab'"
proof (cases otok)
  case None
  with st rd show ?thesis by (auto simp: saveOAuthTokenInternal_def plain_save_def)
next
  case (Some tok)
  obtain er where er: "encrypt E (fst rnds) (tok_Refresh tok) = Inr er" "decrypt E er = Inr (tok_Refresh tok)" "er \<noteq> []"
    using encrypt_works [OF assms(1) n(1)] .
  obtain ea where ea: "encrypt E (snd rnds) (tok_Access tok) = Inr ea" "decrypt E ea = Inr (tok_Access tok)" "ea \<noteq> []"
    using encrypt_works [OF assms(1) n(2)] .
  let ?b = "token_row (if prov = [] then OAuthProviderGoogle else prov) er ea (tok_Expiry tok)"
  let ?f = "if scope \<noteq> [] then scope_row scope (UnixNano now) \<circ> ?b else ?b"
  have pl: "plain_row E k (?f r) = f tok (plain_row E k r)" for r
    using st token_row_plain(1) [OF er(2,3) ea(2,3)] by (auto simp: scope_row_plain)
  have "row_readable E k r \<Longrightarrow> row_readable E k (?f r)" for r
    using token_row_plain(2) [OF er(2,3) ea(2,3)] by simp
  then have rd': "table_readable E (update_row k ?f tab)"
    using rd unfolding table_readable_def by (rule rows.every_update [rotated])
  have up: "plain_table E (update_row k ?f tab) = plain_update k (f tok) (plain_table E tab)"
    using pl by (rule plain_table_update)
  have none: "plain_table E tab k = None \<longleftrightarrow> map_of tab k = None" by (simp add: plain_table_def)
  have "db \<noteq> None \<and> o1 = db \<and> tab' = tab \<or>
      db = None \<and> o1 = (if map_of tab k = None then Some (no_row_error k) else None) \<and> tab' = update_row k ?f tab"
    using st by (cases db) (auto simp: saveOAuthTokenInternal_def Let_def Some er(1) ea(1) split: if_splits)
  then show ?thesis using rd rd' up none Some by (auto simp: plain_save_def split: option.splits)
qed

lemma account_step_refines:
  assumes E: "store_laws E" and rd: "table_readable E tab" and so: "op_sound E e"
    and step: "account_step E e tab = (tab', o1)"
  shows "plain_step e (plain_table E tab) = (plain_table E tab', o1) \<and> table_readable E tab'"
proof -
  obtain db a where e: "e = (db, a)" by fastforce
  have st: "account_op_result E db a tab = (o1, tab')"
    using step by (cases "account_op_result E db a tab") (simp add: account_step_def e)
  have upd: "exec db (plain_update k g) (plain_table E tab) = (o1, plain_table E tab') \<and> table_readable E tab'"
    if "exec db (update_row k f) tab = (o1, tab')" and "\<And>r. plain_row E k (f r) = g (plain_row E k r)"
      and "\<And>r. row_readable E k r \<Longrightarrow> row_readable E k (f r)" for k f g
  proof
    show "exec db (plain_update k g) (plain_table E tab) = (o1, plain_table E tab')"
      using that(1) by (rule plain_table_exec) (rule plain_table_update, rule that(2))
    have "table_readable E (update_row k f tab)"
      using rd that(3) unfolding table_readable_def by (rule rows.every_update)
    with that(1) rd show "table_readable E tab'" by (rule exec_inv [of _ _ _ _ _ "table_readable E"])
  qed
  have "plain_result db a (plain_table E tab) = (o1, plain_table E tab') \<and> table_readable E tab'"
  proof (cases a)
    case (Upsert rnd acc)
    let ?k = "(ea_UserMXID acc, ea_Email acc)"
    let ?fs = "GetMonitoredFoldersJSON E (ea_MonitoredFolders acc)"
    from so Upsert e have nr: "nonce_read rnd" and jk: "json_keeps E (ea_MonitoredFolders acc)" by simp_all
    obtain enc where enc: "encrypt E rnd (ea_Password acc) = Inr enc" "decrypt E enc = Inr (ea_Password acc)"
      using encrypt_works [OF E nr] by metis
    let ?f = "insert_or_update ?k (new_row acc enc ?fs) (conflict_row acc enc ?fs)"
    have ex: "exec db ?f tab = (o1, tab')"
      using st Upsert enc(1) by (simp add: UpsertAccount_def Let_def)
    let ?g = "\<lambda>m. m(?k \<mapsto> plain_upsert acc (m ?k))"
    have "plain_table E (?f tab) = ?g (plain_table E tab)"
      using upsert_row_plain [OF E jk enc(2) refl]
      by (auto simp: plain_table_def fun_eq_iff split: option.split)
    with plain_table_exec [OF ex, of E ?g] Upsert
    have "plain_result db a (plain_table E tab) = (o1, plain_table E tab')" by simp
    moreover have "table_readable E (?f tab)"
      using rd unfolding table_readable_def
      by (rule rows.every_upsert) (simp_all add: upsert_row_readable [OF enc(2)])
    ultimately show ?thesis using exec_inv [OF ex, of "table_readable E"] rd by blast
  next
    case (Delete k)
    have ex: "exec db (filter (\<lambda>(k', r). k' \<noteq> k)) tab = (o1, tab')"
      using st Delete by (simp add: DeleteAccount_def)
    let ?g = "\<lambda>m. m(k := None)"
    have "plain_table E (filter (\<lambda>(k', r). k' \<noteq> k) tab) = ?g (plain_table E tab)"
      by (auto simp: plain_table_def)
    with plain_table_exec [OF ex, of E ?g] Delete
    have "plain_result db a (plain_table E tab) = (o1, plain_table E tab')" by simp
    moreover have "table_readable E (filter (\<lambda>(k', r). k' \<noteq> k) tab)"
      using rd unfolding table_readable_def by (rule rows.every_remove)
    ultimately show ?thesis using exec_inv [OF ex, of "table_readable E"] rd by blast
  next
    case (Monitored k fs)
    with st have ex: "exec db (update_row k (ar_folders_update (\<lambda>_. Some (GetMonitoredFoldersJSON E fs)))) tab = (o1, tab')"
      by (simp add: UpdateMonitoredFolders_def)
    from so Monitored e have "json_keeps E fs" by simp
    with upd [OF ex, of "pa_account_update (ea_MonitoredFolders_update (\<lambda>_. plain_folders fs))"]
      row_folders_plain [OF E] Monitored show ?thesis by simp
  next
    case (RefreshToken rnds k prov tok)
    with so e have "nonce_read (fst rnds)" "nonce_read (snd rnds)" by simp_all
    from saved_token_refines [OF E this rd, of db 0 k prov "[]" tok o1 tab' "plain_token prov"] st RefreshToken
    show ?thesis by (simp add: SaveOAuthToken_def)
  next
    case (LoginToken rnds now k prov scope tok)
    with so e have n: "nonce_read (fst rnds)" "nonce_read (snd rnds)" by simp_all
    let ?s = "if scope = [] then ScopeModeModify else scope"
    have "plain_scope ?s now = plain_scope scope now" and "?s \<noteq> []"
      by (simp_all add: plain_scope_def scope_nonempty fun_eq_iff)
    with saved_token_refines [OF E n rd, of db now k prov ?s tok o1 tab'
        "\<lambda>t. plain_scope ?s now \<circ> plain_token prov t"] st LoginToken
    show ?thesis by (simp add: SaveOAuthTokenWithScope_def)
  next
    case (LastSync k t)
    then show ?thesis
      using upd [of k "ar_last_sync_update (\<lambda>_. t)" "pa_account_update (ea_LastSyncTime_update (\<lambda>_. t))"] st
      by (simp add: UpdateLastSync_def row_update_plain)
  next
    case (AuthType k b)
    then show ?thesis
      using upd [of k "ar_auth_type_update (\<lambda>_. b)" "pa_account_update (ea_AuthType_update (\<lambda>_. b))"] st
      by (simp add: SetAuthType_def row_update_plain)
  next
    case (Notified k t)
    then show ?thesis
      using upd [of k "ar_notice_at_update (\<lambda>_. Some (UnixNano t))" "pa_notice_at_update (\<lambda>_. UnixNano t)"] st
      by (simp add: MarkReauthNotified_def row_update_plain)
  next
    case (HistoryID k h)
    then show ?thesis
      using upd [of k "ar_history_update (\<lambda>_. Some (sint h))" "pa_history_update (\<lambda>_. sint h)"] st
      by (simp add: SetGmailHistoryID_def row_update_plain)
  qed
  then show ?thesis by (simp add: plain_step_def e)
qed

interpretation account_store: refined_machine "account_step E" "\<lambda>e. store_laws E \<and> op_sound E e"
    "table_readable E" plain_step "plain_table E" for E
  by unfold_locales (use account_step_refines in blast)+

lemma sound_ops: "store_laws E \<Longrightarrow> list_all (op_sound E) es \<Longrightarrow> list_all (\<lambda>e. store_laws E \<and> op_sound E e) es"
  by (simp add: list_all_iff)

lemma empty_readable: "table_readable E []" and empty_plain: "plain_table E [] = Map.empty"
  by (simp_all add: table_readable_def rows.every_def plain_table_def fun_eq_iff)

definition plain_oauth :: "plain_account \<Rightarrow> oauth_info option" where
  "plain_oauth p =
     (if is_oauth (ea_AuthType (pa_account p))
      then Some \<lparr>oi_AuthType = ea_AuthType (pa_account p), oi_Provider = pa_provider p,
                 oi_ScopeMode = pa_scope p, oi_Token = pa_token p, oi_IssuedAt = pa_issued_at p\<rparr>
      else None)"

lemma readable_row:
  assumes "table_readable E tab" and "map_of tab k = Some r"
  obtains pw tok where "decrypt E (ar_password r) = Inr pw" and "stored_token E r = Inr tok"
proof -
  from assms have "row_readable E k r" unfolding table_readable_def rows.every_def by blast
  then show thesis
    using that by (cases "decrypt E (ar_password r)"; cases "stored_token E r") (auto simp: row_readable_def)
qed

lemma reads_are_plain:
  assumes "table_readable E tab"
  shows "GetAccount_db E QueryWorks k tab = Inr (map_option pa_account (plain_table E tab k))"
    and "GetOAuthAccount E QueryWorks k tab = Inr (Option.bind (plain_table E tab k) plain_oauth)"
proof -
  show "GetAccount_db E QueryWorks k tab = Inr (map_option pa_account (plain_table E tab k))"
  proof (cases "map_of tab k")
    case (Some r)
    from readable_row [OF assms Some] obtain pw where "decrypt E (ar_password r) = Inr pw" .
    with Some show ?thesis
      by (simp add: GetAccount_db_def load_row_def plain_table_def plain_row_def the_text_def)
  qed (simp add: GetAccount_db_def plain_table_def)
  show "GetOAuthAccount E QueryWorks k tab = Inr (Option.bind (plain_table E tab k) plain_oauth)"
  proof (cases "map_of tab k")
    case (Some r)
    from readable_row [OF assms Some] obtain tok where "stored_token E r = Inr tok" .
    with Some show ?thesis
      by (simp add: GetOAuthAccount_def plain_table_def plain_oauth_def plain_row_def fill_account_def)
  qed (simp add: GetOAuthAccount_def plain_table_def)
qed

text \<open>
  C23: for any sequence of statements on an empty table, encryption and serialisation at rest cannot
  be seen: every statement reports the error the store without encryption reports, and
  \<open>GetAccount_db\<close> and \<open>GetOAuthAccount\<close> then return, for every key, the account, password, folders,
  token and scope mode that store holds.
\<close>

theorem account_table_refines_plain_store:
  assumes "store_laws E" and "list_all (op_sound E) es"
    and "run_steps (account_step E) es [] = (tab, rs)"
    and "run_steps plain_step es Map.empty = (m, rs')"
  shows "rs = rs' \<and> GetAccount_db E QueryWorks k tab = Inr (map_option pa_account (m k)) \<and>
     GetOAuthAccount E QueryWorks k tab = Inr (Option.bind (m k) plain_oauth)"
proof -
  from account_store.run_sim [OF empty_readable sound_ops [OF assms(1,2)] assms(3)] assms(4)
  have "m = plain_table E tab" and "rs = rs'" by (simp_all add: empty_plain)
  moreover from account_store.run_inv [OF empty_readable sound_ops [OF assms(1,2)] assms(3)]
  have "table_readable E tab" .
  ultimately show ?thesis by (simp add: reads_are_plain)
qed

subsection \<open>Listing\<close>

lemma load_rows_iff:
  "(\<exists>e. load_rows E krs = Inl e) \<longleftrightarrow> (\<exists>kr\<in>set krs. \<exists>e. decrypt E (ar_password (snd kr)) = Inl e)"
proof (induction krs)
  case (Cons kr krs)
  then show ?case
    by (cases "decrypt E (ar_password (snd kr))"; cases "load_rows E krs") (auto simp: load_row_def)
qed simp

lemma load_rows_fields:
  "load_rows E krs = Inr as \<Longrightarrow>
     map (\<lambda>a. ((ea_UserMXID a, ea_Email a), ea_CreatedAt a)) as = map (\<lambda>(k, r). (k, ar_created_at r)) krs"
proof (induction krs arbitrary: as)
  case (Cons kr krs)
  then show ?case
    by (cases kr; cases "decrypt E (ar_password (snd kr))"; cases "load_rows E krs")
       (auto simp: load_row_def fill_account_def)
qed simp

lemma user_rows_facts:
  "set (user_rows user tab) = {(k, r). (k, r) \<in> set tab \<and> fst k = user}"
  "sorted (map (\<lambda>(k, r). ar_created_at r) (user_rows user tab))"
  unfolding user_rows_def by (auto simp: sorted_sort_key)

text \<open>
  \<open>GetUserAccounts\<close> returns exactly the accounts of the user, oldest first, or, as soon as a
  single stored password of the user cannot be decrypted, none of them.
\<close>

theorem user_accounts_all_or_none:
  "(case GetUserAccounts E QueryWorks user tab of
      Inl e \<Rightarrow> (\<exists>k r e'. (k, r) \<in> set tab \<and> fst k = user \<and> decrypt E (ar_password r) = Inl e')
    | Inr as \<Rightarrow> (\<forall>k r. (k, r) \<in> set tab \<longrightarrow> fst k = user \<longrightarrow> (\<exists>p. decrypt E (ar_password r) = Inr p)) \<and>
        set (map (\<lambda>a. (ea_UserMXID a, ea_Email a)) as) = {k \<in> fst ` set tab. fst k = user} \<and>
        sorted (map ea_CreatedAt as))"
proof (cases "load_rows E (user_rows user tab)")
  case (Inl e)
  then have "\<exists>kr\<in>set (user_rows user tab). \<exists>e. decrypt E (ar_password (snd kr)) = Inl e"
    using load_rows_iff by metis
  with Inl show ?thesis by (fastforce simp: GetUserAccounts_def user_rows_facts)
next
  case (Inr as)
  have fields: "map (\<lambda>a. (ea_UserMXID a, ea_Email a)) as = map fst (user_rows user tab)"
    "map ea_CreatedAt as = map (\<lambda>(k, r). ar_created_at r) (user_rows user tab)"
    using arg_cong [OF load_rows_fields [OF Inr], of "map fst"] arg_cong [OF load_rows_fields [OF Inr], of "map snd"]
    by (simp_all add: comp_def case_prod_unfold)
  have "\<not> (\<exists>kr\<in>set (user_rows user tab). \<exists>e. decrypt E (ar_password (snd kr)) = Inl e)"
    using load_rows_iff [of E "user_rows user tab"] Inr by simp
  then have "\<forall>k r. (k, r) \<in> set tab \<longrightarrow> fst k = user \<longrightarrow> (\<exists>p. decrypt E (ar_password r) = Inr p)"
    unfolding user_rows_facts by (metis (mono_tags, lifting) case_prodI mem_Collect_eq snd_conv sum.exhaust)
  moreover have "set (map fst (user_rows user tab)) = {k \<in> fst ` set tab. fst k = user}"
    by (force simp: user_rows_facts)
  ultimately show ?thesis
    unfolding GetUserAccounts_def query_result.case Inr sum.case fields using user_rows_facts(2) by simp
qed

subsection \<open>Single statements\<close>

text \<open>
  A password login over an existing account leaves the OAuth columns: \<open>GetOAuthAccount\<close> returns
  for every key what it returned before, so an account that waits for a new OAuth login keeps
  waiting although it has a new password.
\<close>

lemma upsert_keeps_oauth:
  assumes "UpsertAccount E' db rnd a tab = (None, tab')"
  shows "GetOAuthAccount E q k tab' = GetOAuthAccount E q k tab"
proof -
  obtain enc js where t: "tab' = insert_or_update (ea_UserMXID a, ea_Email a) (new_row a enc js) (conflict_row a enc js) tab"
    using assms by (auto simp: UpsertAccount_def exec_def Let_def split: sum.splits option.splits)
  have oauth: "ar_auth_type (conflict_row a enc js r) = ar_auth_type r" "ar_provider (conflict_row a enc js r) = ar_provider r"
    "stored_scope (conflict_row a enc js r) = stored_scope r" "ar_issued_at (conflict_row a enc js r) = ar_issued_at r" for r
    by (simp_all add: conflict_row_def stored_scope_def)
  show ?thesis
  proof (cases q)
    case QueryWorks
    show ?thesis
    proof (cases "k = (ea_UserMXID a, ea_Email a) \<and> map_of tab k = None")
      case True
      then have "map_of tab' k = Some (new_row a enc js)" by (auto simp: t)
      moreover have "\<not> is_oauth (ar_auth_type (new_row a enc js))"
        by (simp add: new_row_def is_oauth_def auth_constants)
      ultimately show ?thesis using True by (auto simp: QueryWorks GetOAuthAccount_def)
    next
      case False
      then show ?thesis
        by (cases "map_of tab k") (auto simp: QueryWorks GetOAuthAccount_def t oauth)
    qed
  qed (simp_all add: GetOAuthAccount_def)
qed

text \<open>The password the upsert was given is read back.\<close>

lemma upsert_password_read_back:
  assumes "store_laws E" and "nonce_read rnd" and "UpsertAccount E db rnd a tab = (None, tab')"
  shows "\<exists>b. GetAccount_db E QueryWorks (ea_UserMXID a, ea_Email a) tab' = Inr (Some b) \<and>
     ea_Password b = ea_Password a \<and> ea_Host b = ea_Host a \<and> ea_Username b = ea_Username a"
proof -
  obtain enc where e: "encrypt E rnd (ea_Password a) = Inr enc" "decrypt E enc = Inr (ea_Password a)"
    using encrypt_works [OF assms(1,2)] by metis
  then obtain js where t: "tab' = insert_or_update (ea_UserMXID a, ea_Email a) (new_row a enc js) (conflict_row a enc js) tab"
    using assms(3) by (auto simp: UpsertAccount_def exec_def Let_def split: option.splits)
  show ?thesis
    using e(2) by (simp add: t GetAccount_db_def load_row_def fill_account_def new_row_def conflict_row_def split: option.split)
qed

text \<open>A history cursor reads back below 2^63; from there on its sign bit makes it read as none.\<close>

lemma history_cursor_read_back:
  assumes "map_of tab k \<noteq> None" and "SetGmailHistoryID db k h tab = (None, tab')"
  shows "GetGmailHistoryID QueryWorks k tab' = Inr (if sint h < 0 then 0 else h)"
  using assms
  by (auto simp: SetGmailHistoryID_def GetGmailHistoryID_def read_column_def exec_def coalesce_def split: option.splits)

text \<open>The token saved at login is read back with its scope mode, and the re-auth notice is cleared.\<close>

lemma kept_time_exact:
  assumes "unix_epoch < t" and "t < unix_epoch + 2 ^ 63" shows "kept_time t = t"
proof -
  have "UnixNano t = t - unix_epoch"
    unfolding UnixNano_def by (rule wrap64_id) (use assms in \<open>simp add: int64_def\<close>)
  then show ?thesis
    using assms by (simp add: kept_time_def stored_time_def coalesce_def fromUnixNano_def unix_epoch_def)
qed

lemma login_token_read_back:
  assumes "store_laws E" and "nonce_read (fst rnds)" "nonce_read (snd rnds)" and "table_readable E tab"
    and "SaveOAuthTokenWithScope E db rnds now k prov scope (Some tok) tab = (None, tab')"
    and "unix_epoch < tok_Expiry tok" and "tok_Expiry tok < unix_epoch + 2 ^ 63"
  shows "\<exists>info. GetOAuthAccount E QueryWorks k tab' = Inr (Some info) \<and> oi_AuthType info = AuthTypeOAuthGmail \<and>
      oi_Token info = Some tok \<and> oi_ScopeMode info = (if scope = [] then ScopeModeModify else scope)"
    and "LastReauthNotifiedAt QueryWorks k tab' = Inr 0"
proof -
  let ?e = "(db, LoginToken rnds now k prov scope (Some tok))"
  have so: "op_sound E ?e" using assms(2,3) by simp
  have "account_step E ?e tab = (tab', None)" using assms(5) by (simp add: account_step_def)
  from account_step_refines [OF assms(1,4) so this]
  have p: "plain_step ?e (plain_table E tab) = (plain_table E tab', None)" and rd: "table_readable E tab'" by auto
  from p obtain a where "plain_table E tab k = Some a" and
    t: "plain_table E tab' k = Some (plain_scope scope now (plain_token prov tok a))"
    by (auto simp: plain_step_def plain_save_def plain_update_def dest!: fun_cong [of _ _ k]
        split: option.splits if_splits)
  then show "\<exists>info. GetOAuthAccount E QueryWorks k tab' = Inr (Some info) \<and> oi_AuthType info = AuthTypeOAuthGmail \<and>
      oi_Token info = Some tok \<and> oi_ScopeMode info = (if scope = [] then ScopeModeModify else scope)"
    using rd kept_time_exact [OF assms(6,7)]
    by (simp add: reads_are_plain plain_scope_def plain_token_def plain_oauth_def is_oauth_def)
  from t obtain r where r: "map_of tab' k = Some r" and "coalesce 0 (ar_notice_at r) = 0"
    by (auto simp: plain_table_def plain_scope_def plain_row_def split: option.splits
        dest!: arg_cong [of _ _ pa_notice_at])
  then show "LastReauthNotifiedAt QueryWorks k tab' = Inr 0"
    by (simp add: LastReauthNotifiedAt_def read_column_def)
qed

subsection \<open>Concrete runs\<close>

definition sample_store :: store_env where
  "sample_store = \<lparr>se_crypto = sample_crypto, se_key = Inr ''k'',
     se_marshal = (\<lambda>fs. if fs = [''INBOX''] then Inr inbox_json else Inl (Err ''json'')),
     se_unmarshal = (\<lambda>s. Inr [''INBOX''])\<rparr>"

lemma sample_store_laws: "store_laws sample_store"
  by (simp add: store_laws_def sample_store_def sample_crypto_laws)

definition sample_account :: email_account where
  "sample_account = \<lparr>ea_UserMXID = ''@u'', ea_Email = ''u@x'', ea_Username = ''u'', ea_Password = ''pw'',
     ea_Host = ''h'', ea_Port = 993, ea_TLS = True, ea_CreatedAt = 5, ea_LastSyncTime = 0,
     ea_MonitoredFolders = [''INBOX''], ea_AuthType = ''''\<rparr>"

definition sample_nonce :: "go_error + gostring" where "sample_nonce = Inr ''123456789012''"

definition sample_ops :: "(go_error option \<times> account_op) list" where
  "sample_ops =
     [(None, Upsert sample_nonce sample_account),
      (None, LoginToken (sample_nonce, sample_nonce) 9 (''@u'', ''u@x'') '''' '''' (Some \<lparr>tok_Access = ''a'', tok_Refresh = ''r'', tok_Expiry = 0\<rparr>)),
      (Some (Err ''disk''), Delete (''@u'', ''u@x'')),
      (None, AuthType (''@u'', ''u@x'') AuthTypeOAuthGmailNeedsReauth)]"

lemma sample_nonce_read [simp]: "nonce_read sample_nonce"
  by (simp add: nonce_read_def sample_nonce_def nonceSize_def)

lemma sample_ops_ok: "list_all op_typed sample_ops" "list_all (op_sound sample_store) sample_ops"
  by (simp_all add: sample_ops_def json_keeps_def sample_account_def sample_store_def inbox_json_def)

theorem account_table_typed_witness:
  "\<exists>tab rs. run_steps (account_step sample_store) sample_ops [] = (tab, rs) \<and>
     distinct (map fst tab) \<and> (\<forall>k r. map_of tab k = Some r \<longrightarrow> row_typed k r)"
  using account_table_typed [OF sample_ops_ok(1)] by (metis surj_pair)

theorem account_table_refines_plain_store_witness:
  "\<exists>tab rs m. run_steps (account_step sample_store) sample_ops [] = (tab, rs) \<and>
     run_steps plain_step sample_ops Map.empty = (m, rs) \<and>
     rs = [None, None, Some (Err ''disk''), None] \<and>
     map_option ea_Password (map_option pa_account (m (''@u'', ''u@x''))) = Some ''pw'' \<and>
     GetAccount_db sample_store QueryWorks (''@u'', ''u@x'') tab = Inr (map_option pa_account (m (''@u'', ''u@x'')))"
proof -
  obtain tab rs where c: "run_steps (account_step sample_store) sample_ops [] = (tab, rs)" by fastforce
  obtain m rs' where p: "run_steps plain_step sample_ops Map.empty = (m, rs')" by fastforce
  have "rs' = [None, None, Some (Err ''disk''), None] \<and>
      map_option ea_Password (map_option pa_account (m (''@u'', ''u@x''))) = Some ''pw''"
    using p by (auto simp: sample_ops_def plain_step_def plain_save_def plain_update_def exec_def plain_upsert_def
        sample_account_def plain_token_def plain_scope_def Let_def)
  with account_table_refines_plain_store [OF sample_store_laws sample_ops_ok(2) c p, of "(''@u'', ''u@x'')"] c p
  show ?thesis by blast
qed

theorem user_accounts_all_or_none_witness:
  "\<exists>ct as. GetUserAccounts sample_store QueryWorks ''@u'' [((''@u'', ''u@x''), new_row sample_account ct [])] = Inr as \<and>
     (\<lambda>a. (ea_UserMXID a, ea_Email a)) ` set as = {(''@u'', ''u@x'')}"
proof -
  obtain ct where d: "decrypt sample_store ct = Inr ''pw''"
    using encrypt_works [OF sample_store_laws sample_nonce_read] by metis
  let ?tab = "[((''@u'', ''u@x''), new_row sample_account ct [])]"
  have "ar_password (new_row sample_account ct []) = ct" by (simp add: new_row_def)
  moreover have "{k \<in> fst ` set ?tab. fst k = ''@u''} = {(''@u'', ''u@x'')}" by auto
  ultimately show ?thesis using user_accounts_all_or_none [where E = sample_store and user = "''@u''" and tab = ?tab] d
    by (intro exI [of _ ct]) (cases "GetUserAccounts sample_store QueryWorks ''@u'' ?tab"; simp)
qed

end
