(* ===== verification/OAuthFacts.thy ===== *)
theory OAuthFacts
  imports OAuth
begin

text \<open>
  What the OAuth exchange guarantees: the parameters of the authorisation URL and of a pasted
  redirect are read back as they were written; a login receives only a code that came with its own
  state; a token that is kept can be refreshed.
\<close>

subsection \<open>The authorisation URL and the redirect\<close>

lemma auth_values_distinct: "distinct (map fst (auth_values cfg redirect state challenge hint scopes))"
  by (simp add: auth_values_def)

lemma auth_values_get:
  "values_get (auth_values cfg redirect state challenge hint scopes) ''state'' = state"
  "values_get (auth_values cfg redirect state challenge hint scopes) ''code_challenge'' = challenge"
  "values_get (auth_values cfg redirect state challenge hint scopes) ''code_challenge_method'' = ''S256''"
  "values_get (auth_values cfg redirect state challenge hint scopes) ''redirect_uri'' = redirect"
  "values_get (auth_values cfg redirect state challenge hint scopes) ''login_hint'' = hint"
  "values_get (auth_values cfg redirect state challenge hint scopes) ''access_type'' = ''offline''"
  "values_get (auth_values cfg redirect state challenge hint scopes) ''prompt'' = ''consent''"
  "values_get (auth_values cfg redirect state challenge hint scopes) ''client_id'' = oc_client_id cfg"
  by (simp_all add: auth_values_def values_get_def)

lemma escape_graphic: "c \<in> set (QueryEscape s) \<Longrightarrow> graphic c"
proof -
  have h: "graphic (hex_digit n)" if "n < 16" for n
    using that by (simp add: graphic_def hex_digit_def)
  assume "c \<in> set (QueryEscape s)"
  then obtain d where d: "c \<in> set (escape_char d)" by (auto simp: QueryEscape_def)
  have "(of_char d :: nat) div 16 < 16" using of_char_bound [of d] by (simp add: less_mult_imp_div_less)
  with d h show ?thesis
    by (auto simp: escape_char_def Let_def split: if_splits)
       (auto simp: graphic_def unreserved_def Let_def)
qed

lemma escape_nonempty: "s \<noteq> [] \<Longrightarrow> QueryEscape s \<noteq> []"
  by (cases s) (simp_all add: QueryEscape_def escape_char_def Let_def)

lemma redirect_text:
  "query_encode [(''code'', code), (''state'', state)] =
     ''code='' @ QueryEscape code @ ''&state='' @ QueryEscape state"
  by (simp add: query_encode_def QueryEscape_def escape_char_def unreserved_def)

lemma redirect_query:
  assumes "state \<noteq> []"
  shows "extractCallbackQuery raw_query (CHR ''?'' # query_encode [(''code'', code), (''state'', state)]) =
     Inr [(''code'', code), (''state'', state)]"
proof -
  let ?q = "query_encode [(''code'', code), (''state'', state)]"
  have q: "ParseQuery ?q = ([(''code'', code), (''state'', state)], None)"
    by (simp add: parse_encoded)
  have "last ?q = last (QueryEscape state)" using escape_nonempty [OF assms] by (simp add: redirect_text)
  moreover have "graphic (last (QueryEscape state))"
    using escape_nonempty [OF assms] by (intro escape_graphic) (rule last_in_set)
  ultimately have t: "trim_space (CHR ''?'' # ?q) = CHR ''?'' # ?q"
    by (intro trim_space_graphic) (auto simp: graphic_def redirect_text)
  have "CHR '':'' \<notin> set (CHR ''?'' # ?q)" using escape_avoids(5) by (simp add: redirect_text)
  then have "CHR ''?'' # ?q \<noteq> u @ ''://'' @ v" for u v by (metis append_Cons in_set_conv_decomp)
  then have c: "\<not> contains_sub (CHR ''?'' # ?q) ''://''" by (simp add: contains_sub_iff)
  have "CHR ''?'' \<notin> set ?q" using escape_avoids(4) by (simp add: redirect_text)
  then have "?q \<noteq> u @ ''?'' @ v" for u v by (metis append_Cons in_set_conv_decomp)
  then have "\<not> contains_sub ?q ''?''" by (simp add: contains_sub_iff)
  then have "index_of ?q ''?'' = None" by (simp add: contains_sub_def)
  with t c q show ?thesis by (simp add: extractCallbackQuery_def Let_def)
qed


subsection \<open>The listener\<close>

datatype listener_event =
    CallbackReq url_values
  | OtherReq
  | PasteCode gostring gostring
  | ServeFails go_error
  | TimeoutFires gostring
  | CloseCall
  | WaitCall "go_error option" wait_choice

datatype listener_reply =
    Page int gostring
  | Pasted "go_error option"
  | Waited "(go_error + gostring) option"
  | Quiet

text \<open>A closed listener answers no request.\<close>

fun listener_step :: "listener_event \<Rightarrow> oauth_listener \<Rightarrow> oauth_listener \<times> listener_reply" where
  "listener_step (CallbackReq q) l =
     (if closed l then (l, Quiet) else case handleCallback q l of ((st, page), l') \<Rightarrow> (l', Page st page))"
| "listener_step OtherReq l =
     (if closed l then (l, Quiet) else (l, case handleRoot of (st, page) \<Rightarrow> Page st page))"
| "listener_step (PasteCode code state) l = (case Inject code state l of (err, l') \<Rightarrow> (l', Pasted err))"
| "listener_step (ServeFails e) l = (if closed l then (l, Quiet) else (send_err (Errorf ''oauth listener serve'' e) l, Quiet))"
| "listener_step (TimeoutFires after) l = (listener_timeout after l, Quiet)"
| "listener_step CloseCall l = (listener_Close l, Quiet)"
| "listener_step (WaitCall ctx ready) l = (case listener_Wait ctx ready l of (r, l') \<Rightarrow> (l', Waited r))"

text \<open>The events that hand a code to the login waiting with a state.\<close>

fun brings_code :: "gostring \<Rightarrow> gostring \<Rightarrow> listener_event \<Rightarrow> bool" where
  "brings_code expected code (CallbackReq q) \<longleftrightarrow> values_get q ''error'' = [] \<and>
     values_get q ''state'' = expected \<and> values_get q ''code'' = code"
| "brings_code expected code (PasteCode c s) \<longleftrightarrow> c = code \<and> s = expected"
| "brings_code expected code _ \<longleftrightarrow> False"

lemma try_send_Some: "try_send x ch = Some y \<Longrightarrow> ch = Some y \<or> y = x"
  by (cases ch) (auto simp: try_send_def)

lemma listener_fields [simp]:
  "expectState (send_err e l) = expectState l" "codeCh (send_err e l) = codeCh l"
  "expectState (send_code c l) = expectState l" "codeCh (send_code c l) = try_send c (codeCh l)"
  "expectState (listener_Close l) = expectState l" "codeCh (listener_Close l) = codeCh l"
  "expectState (listener_timeout a l) = expectState l" "codeCh (listener_timeout a l) = codeCh l"
  by (simp_all add: send_err_def send_code_def listener_Close_def listener_timeout_def)

lemma map_filter_id: "List.map_filter (\<lambda>x. x) [a, b, c] =
   (case a of None \<Rightarrow> [] | Some x \<Rightarrow> [x]) @ (case b of None \<Rightarrow> [] | Some x \<Rightarrow> [x]) @ (case c of None \<Rightarrow> [] | Some x \<Rightarrow> [x])"
  by (simp add: List.map_filter_simps split: option.split)

lemma Wait_effect:
  assumes "listener_Wait ctx ready l = (r, l')"
  shows "expectState l' = expectState l" and "codeCh l' \<in> {None, codeCh l}"
    and "r = Some (Inr code) \<Longrightarrow> codeCh l = Some code \<and> codeCh l' = None"
proof -
  have "(r, l') \<in> {(None, l)} \<union>
      (case codeCh l of None \<Rightarrow> {} | Some c \<Rightarrow> {(Some (Inr c), l\<lparr>codeCh := None\<rparr>)}) \<union>
      (case errCh l of None \<Rightarrow> {} | Some e \<Rightarrow> {(Some (Inl e), l\<lparr>errCh := None\<rparr>)}) \<union>
      (case ctx of None \<Rightarrow> {} | Some e \<Rightarrow> {(Some (Inl e), l)})"
    using assms
    by (cases ready; cases "codeCh l"; cases "errCh l"; cases ctx)
       (simp_all add: listener_Wait_def map_filter_id Let_def)
  then show "expectState l' = expectState l" and "codeCh l' \<in> {None, codeCh l}"
    and "r = Some (Inr code) \<Longrightarrow> codeCh l = Some code \<and> codeCh l' = None"
    by (auto split: option.splits)
qed

lemma Inject_effect:
  assumes "Inject c s l = (err, l')"
  shows "expectState l' = expectState l"
    and "codeCh l' = codeCh l \<or> (codeCh l' = Some c \<and> s = expectState l \<and> c \<noteq> [])"
  using assms by (auto simp: Inject_def split: if_splits option.splits)

lemma Callback_effect:
  assumes "handleCallback q l = (pg, l')"
  shows "expectState l' = expectState l"
    and "codeCh l' = codeCh l \<or> (codeCh l = None \<and> codeCh l' = Some (values_get q ''code'') \<and>
      brings_code (expectState l) (values_get q ''code'') (CallbackReq q) \<and> values_get q ''code'' \<noteq> [])"
  using assms by (auto simp: handleCallback_def Let_def try_send_def split: if_splits option.splits)

lemma listener_step_code:
  assumes "listener_step e l = (l', r)"
  shows "expectState l' = expectState l"
    and "codeCh l' = Some c \<Longrightarrow> codeCh l = Some c \<or> (brings_code (expectState l) c e \<and> c \<noteq> [])"
    and "r = Waited (Some (Inr c)) \<Longrightarrow> codeCh l = Some c"
proof -
  show "expectState l' = expectState l"
    using assms Wait_effect(1) Inject_effect(1) Callback_effect(1)
    by (cases e) (auto split: if_splits prod.splits)
  show "codeCh l = Some c \<or> (brings_code (expectState l) c e \<and> c \<noteq> [])" if "codeCh l' = Some c"
  proof (cases e)
    case (CallbackReq q)
    then show ?thesis using assms that Callback_effect(2) [of q l]
      by (fastforce split: if_splits prod.splits)
  next
    case (PasteCode code state)
    then show ?thesis using assms that Inject_effect(2) [of code state l]
      by (fastforce split: prod.splits)
  next
    case (WaitCall ctx ready)
    then show ?thesis using assms that Wait_effect(2) [of ctx ready l]
      by (fastforce split: prod.splits)
  qed (use assms that in \<open>auto split: if_splits\<close>)
  show "codeCh l = Some c" if "r = Waited (Some (Inr c))"
    using assms that Wait_effect(3) by (cases e) (fastforce split: if_splits prod.splits)+
qed

lemma listener_run_code:
  assumes "run_steps listener_step es l = (l', rs)" and "Waited (Some (Inr c)) \<in> set rs"
  shows "codeCh l = Some c \<or> (c \<noteq> [] \<and> (\<exists>e\<in>set es. brings_code (expectState l) c e))"
  using assms
proof (induction es arbitrary: l rs)
  case Nil
  then show ?case by simp
next
  case (Cons e es)
  from Cons.prems(1) obtain l1 r rs' where s: "listener_step e l = (l1, r)"
    and rn: "run_steps listener_step es l1 = (l', rs')" and rs: "rs = r # rs'"
    unfolding run_steps_Cons_iff by blast
  show ?case
  proof (cases "r = Waited (Some (Inr c))")
    case True
    then show ?thesis using listener_step_code(3) [OF s] by blast
  next
    case False
    with Cons.prems(2) rs have "Waited (Some (Inr c)) \<in> set rs'" by auto
    from Cons.IH [OF rn this] listener_step_code(1,2) [OF s] show ?thesis by auto
  qed
qed

text \<open>
  C25: whatever requests reach the loopback listener, whatever is pasted, and however they
  interleave with time-outs, waits and the close, a code the login receives is not empty and came
  with the state of this very login: in a callback without an error parameter or in a pasted URL.
\<close>

theorem only_matching_codes_delivered:
  assumes "StartOAuthListener ip quote listen addr expected = Inr l"
    and "run_steps listener_step es l = (l', rs)" and "Waited (Some (Inr code)) \<in> set rs"
  shows "code \<noteq> [] \<and> (\<exists>e\<in>set es. brings_code expected code e)"
proof -
  from assms(1) have "codeCh l = None" and "expectState l = expected"
    by (auto simp: StartOAuthListener_def Let_def split: if_splits sum.splits option.splits)
  with listener_run_code [OF assms(2,3)] show ?thesis by simp
qed

text \<open>The error branch tests no state: any request with an error parameter ends the login.\<close>

theorem error_callback_unchecked:
  assumes "values_get q ''error'' \<noteq> []" and "errCh l = None" and "codeCh l = None"
  shows "\<exists>e. fst (listener_Wait None TakeCode (snd (handleCallback q l))) = Some (Inl e)"
  using assms by (simp add: handleCallback_def Let_def send_err_def try_send_def listener_Wait_def map_filter_id)

text \<open>A second code pasted after the first was taken is accepted and never read.\<close>

theorem second_paste_accepted:
  assumes "expectState l \<noteq> []" and "c \<noteq> []" and "codeCh l = Some c0"
  shows "fst (Inject c (expectState l) (snd (listener_Wait None TakeCode l))) = None"
  using assms by (simp add: listener_Wait_def map_filter_id Inject_def Let_def)

text \<open>The listener binds a loopback address only.\<close>

lemma listener_loopback_only:
  assumes "StartOAuthListener ip quote listen addr expected = Inr l" and "addr \<noteq> []"
  shows "\<exists>host. SplitHost addr = Some host \<and> (host \<in> {''127.0.0.1'', ''::1'', ''localhost''} \<or> ip host)"
  using assms by (auto simp: StartOAuthListener_def isLoopbackAddr_def Let_def split: if_splits option.splits)

subsection \<open>Tokens\<close>

text \<open>A token that was exchanged for a code can be refreshed; an answer without one is an error.\<close>

lemma exchanged_token_complete:
  assumes "ExchangeCode g cfg code verifier redirect = Inr tok"
  shows "tok_Refresh tok \<noteq> []" and "tok_Access tok \<noteq> []" and "code \<noteq> []" and "verifier \<noteq> []"
    and "\<exists>resp. g_post g googleTokenURL (exchange_form cfg code verifier redirect) = Inr resp \<and> ha_code resp = http_ok"
  using assms
  by (auto simp: ExchangeCode_def exchange_checks_def Let_def split: if_splits sum.splits prod.splits option.splits)

lemma refreshed_token_keeps_refresh:
  "ExchangeRefreshToken g cfg refresh = Inr tok \<Longrightarrow> tok_Refresh tok = refresh \<and> refresh \<noteq> []"
  by (auto simp: ExchangeRefreshToken_def refresh_checks_def Let_def split: if_splits sum.splits)

lemma callback_escape_inert: "c \<in> set (htmlEscape_page s) \<Longrightarrow> c \<noteq> CHR ''<'' \<and> c \<noteq> CHR ''>'' \<and> c \<noteq> CHR 0x22"
  by (auto simp: htmlEscape_page_def replace_chars_def split: if_splits)

subsection \<open>Concrete runs\<close>

definition sample_oauth :: oauth_config where
  "sample_oauth = \<lparr>oc_client_id = ''id'', oc_client_secret = ''se'', oc_listener_address = '''',
     oc_default_scope_mode = '''', oc_callback_timeout_seconds = 0\<rparr>"


definition sample_listener :: oauth_listener where
  "sample_listener = \<lparr>expectState = ''st'', redirectURI = ''http://127.0.0.1:7/callback'', codeCh = None,
     errCh = None, closed = False\<rparr>"

lemma sample_listener_started:
  "StartOAuthListener (\<lambda>_. False) (\<lambda>s. s) (\<lambda>_. Inr (Some 7)) ''127.0.0.1:0'' ''st'' = Inr sample_listener"
  by (simp add: StartOAuthListener_def isLoopbackAddr_def SplitHost_def sample_listener_def itoa_go_def
      nat_digits.simps digit_char_def char_of_def bit_iff_odd)

definition sample_requests :: "listener_event list" where
  "sample_requests =
     [CallbackReq [(''code'', ''forged''), (''state'', ''other'')],
      CallbackReq [(''code'', ''c1''), (''state'', ''st'')], WaitCall None TakeCode]"

theorem only_matching_codes_delivered_witness:
  "\<exists>l' rs. run_steps listener_step sample_requests sample_listener = (l', rs) \<and>
     Waited (Some (Inr ''c1'')) \<in> set rs \<and> (\<exists>e\<in>set sample_requests. brings_code ''st'' ''c1'' e)"
proof -
  obtain l' rs where r: "run_steps listener_step sample_requests sample_listener = (l', rs)" by fastforce
  then have "Waited (Some (Inr ''c1'')) \<in> set rs"
    by (auto simp: sample_requests_def sample_listener_def handleCallback_def values_get_def Let_def
        send_code_def try_send_def listener_Wait_def map_filter_id)
  with r only_matching_codes_delivered [OF sample_listener_started r this] show ?thesis by blast
qed

end
