(* ===== verification/LoginFacts.thy ===== *)
theory LoginFacts
  imports Login AccountFacts FolderFacts OAuthFacts
begin

text \<open>
  What a login can do to the account table.  The password flow, as a machine over the answers of
  the user (locale \<open>machine\<close>), writes only credentials an IMAP server has accepted; the OAuth flow
  writes a token only for the address Google confirmed; the folders that are stored were offered.
\<close>

subsection \<open>Single steps\<close>

definition accepted :: "login_env \<Rightarrow> gostring \<Rightarrow> gostring \<Rightarrow> gostring \<Rightarrow> bool" where
  "accepted E email username password =
     (case NewClient (le_lookupMX E) email username password (le_idleSeconds E) of
        None \<Rightarrow> False
      | Some en \<Rightarrow> (case Connect (le_net E en) (fresh_conn (le_backfillSeconds E) (le_backfillMax E) (le_clock E) ()) of
            Done None s \<Rightarrow> True | _ \<Rightarrow> False))"

lemma test_cases:
  obtains (panic) "testIMAPConnectionAndKeep E p = Panicking" and "CHR ''@'' \<notin> set (lp_email p)"
  | (failed) e where "testIMAPConnectionAndKeep E p = Failed e" and "CHR ''@'' \<in> set (lp_email p)"
  | (worked) en s where "testIMAPConnectionAndKeep E p = Worked (en, s)" and "CHR ''@'' \<in> set (lp_email p)"
      and "accepted E (lp_email p) (lp_username p) (lp_password p)"
proof (cases "NewClient (le_lookupMX E) (lp_email p) (lp_username p) (lp_password p) (le_idleSeconds E)")
  case None
  then have "testIMAPConnectionAndKeep E p = Panicking" by (simp add: testIMAPConnectionAndKeep_def)
  moreover have "CHR ''@'' \<notin> set (lp_email p)" using None by (simp add: NewClient_iff)
  ultimately show thesis by (rule panic)
next
  case (Some en)
  then have at: "CHR ''@'' \<in> set (lp_email p)" using NewClient_iff by (metis option.distinct(1))
  obtain err s where c: "Connect (le_net E en)
      (fresh_conn (le_backfillSeconds E) (le_backfillMax E) (le_clock E) ()) = Done err s"
    using Connect_fresh [of "le_net E en" "le_backfillSeconds E" "le_backfillMax E" "le_clock E" "()"] by blast
  show thesis
  proof (cases err)
    case None
    with c Some at show thesis using worked by (simp add: testIMAPConnectionAndKeep_def accepted_def)
  next
    case (Some e)
    with c \<open>NewClient _ _ _ _ _ = Some en\<close> at show thesis using failed by (simp add: testIMAPConnectionAndKeep_def)
  qed
qed

lemma completeLogin_cases:
  obtains (failed) e t err where "save_step E p (lw_table w) = (err, t)"
      and "completeLogin E p w = (LoginError e, p, w\<lparr>lw_table := t\<rparr>)"
  | (saved) t where "save_step E p (lw_table w) = (None, t)"
      and "completeLogin E p w = (NextStep (complete_step p), p,
        w\<lparr>lw_table := t, lw_logins := lw_logins w @ [(login_id (lp_email p), lp_email p, lp_username p)]\<rparr>)"
proof -
  obtain err t where s: "save_step E p (lw_table w) = (err, t)" by fastforce
  show thesis
  proof (cases err)
    case None
    with s show thesis
      by (cases "le_newLogin E") (use failed saved in \<open>simp_all add: completeLogin_def\<close>)
  next
    case (Some e)
    with s show thesis using failed by (simp add: completeLogin_def)
  qed
qed

text \<open>The steps after a connection: the account is completed, or folders are offered.\<close>

lemma connected_cases:
  obtains (complete) q where "connected_step E p en s w = completeLogin E q w"
      and "lp_email q = lp_email p" "lp_username q = lp_username p" "lp_password q = lp_password p"
        "lp_flowID q = lp_flowID p" "lp_names q = [''INBOX'']" "lp_step q = lp_step p"
  | (offer) folders where "connected_step E p en s w = offer_folders folders p w" and "folders \<noteq> []"
proof (cases "ListFolders (le_sort E) (le_listing E en) s")
  case (Inl e)
  then show thesis using complete [of "only_inbox p"] by (simp add: connected_step_def only_inbox_def)
next
  case (Inr folders)
  then show thesis
    using complete [of "only_inbox (p\<lparr>lp_available := folders\<rparr>)"] offer [of folders]
    by (cases "folders = []") (simp_all add: connected_step_def only_inbox_def)
qed

text \<open>What the form has put into the process when the connection is tried.\<close>

definition typed :: "(gostring \<rightharpoonup> gostring) \<Rightarrow> login_proc \<Rightarrow> login_proc" where
  "typed input p0 =
     (let p1 = p0\<lparr>lp_email := read_input ''email'' input (lp_email p0),
                  lp_password := read_input ''password'' input (lp_password p0)\<rparr>
      in if lp_username p1 = [] then p1\<lparr>lp_username := lp_email p1\<rparr> else p1)"

lemma typed_fields:
  "lp_email (typed input p) = read_input ''email'' input (lp_email p)"
  "lp_password (typed input p) = read_input ''password'' input (lp_password p)"
  "lp_flowID (typed input p) = lp_flowID p" "lp_step (typed input p) = lp_step p"
  by (simp_all add: typed_def Let_def)

lemma handleCredentials_cases:
  obtains (refused) e q where "handleCredentials E input p w = (LoginError e, q, w)"
      "lp_flowID q = lp_flowID p" "lp_step q = lp_step p"
      "lp_email (typed input p) = [] \<or> lp_password (typed input p) = [] \<or> CHR ''@'' \<in> set (lp_email (typed input p))"
  | (panic) q where "handleCredentials E input p w = (LoginPanic, q, w)" "lp_flowID q = lp_flowID p" "lp_step q = lp_step p"
      "lp_email (typed input p) \<noteq> []" "lp_password (typed input p) \<noteq> []" "CHR ''@'' \<notin> set (lp_email (typed input p))"
  | (connected) q en s where "handleCredentials E input p w = connected_step E q en s w"
      "lp_flowID q = lp_flowID p" "lp_step q = lp_step p"
      "accepted E (lp_email q) (lp_username q) (lp_password q)" "CHR ''@'' \<in> set (lp_email (typed input p))"
proof -
  let ?p = "typed input p"
  let ?q = "?p\<lparr>lp_provider := (case detectEmailProvider (lp_email ?p) of Some pr \<Rightarrow> pr_Name pr | None \<Rightarrow> ''Email'')\<rparr>"
  have h: "handleCredentials E input p w =
     (if lp_email ?p = [] then (LoginError (Err ''email address is required''), ?p, w)
      else if lp_password ?p = [] then (LoginError (Err ''password is required''), ?p, w)
      else case testIMAPConnectionAndKeep E ?q of
             Panicking \<Rightarrow> (LoginPanic, ?q, w)
           | Hanging \<Rightarrow> (LoginBlocked, ?q, w)
           | Failed e \<Rightarrow> (LoginError (Err (buildConnectionErrorMessage (lp_email ?q) e (detectEmailProvider (lp_email ?p)))), ?q, w)
           | Worked (en, s) \<Rightarrow> connected_step E ?q en s w)"
    unfolding handleCredentials_def typed_def Let_def by (rule refl)
  consider "lp_email ?p = []" | "lp_email ?p \<noteq> []" "lp_password ?p = []" | (filled) "lp_email ?p \<noteq> []" "lp_password ?p \<noteq> []"
    by blast
  then show thesis
  proof cases
    case filled
    show thesis
    proof (cases rule: test_cases [of E ?q])
      case panic
      with h filled show thesis using that(2) [of ?q] by (simp add: typed_fields)
    next
      case (failed e)
      with h filled show thesis using that(1) by (simp add: typed_fields)
    next
      case (worked en s)
      with h filled show thesis using that(3) [of ?q en s] by (simp add: typed_fields)
    qed
  qed (use h that(1) in \<open>simp_all add: typed_fields\<close>)
qed

lemma connected_result:
  "fst (connected_step E p en s w) \<noteq> LoginPanic" "fst (connected_step E p en s w) \<noteq> LoginBlocked"
proof -
  have c: "fst (completeLogin E q w) \<noteq> LoginPanic \<and> fst (completeLogin E q w) \<noteq> LoginBlocked" for q
    by (cases rule: completeLogin_cases [of E q w]) simp_all
  show "fst (connected_step E p en s w) \<noteq> LoginPanic" "fst (connected_step E p en s w) \<noteq> LoginBlocked"
    by (cases rule: connected_cases [of E p en s w]; simp add: c offer_folders_def)+
qed

text \<open>
  The credentials step never hangs, and it panics exactly when both fields are filled and the
  address has no @ sign: \<open>NewClient\<close> indexes the part behind it before any check of the format.
\<close>

theorem credentials_panic_iff_no_at:
  "(fst (handleCredentials E input p w) = LoginPanic \<longleftrightarrow>
      lp_email (typed input p) \<noteq> [] \<and> lp_password (typed input p) \<noteq> [] \<and> CHR ''@'' \<notin> set (lp_email (typed input p))) \<and>
   fst (handleCredentials E input p w) \<noteq> LoginBlocked"
proof (cases rule: handleCredentials_cases [of E input p w])
  case (connected q en s)
  then show ?thesis using connected_result by simp
qed auto

subsection \<open>The password flow\<close>

definition login_step_fun ::
  "login_env \<times> wait_choice \<times> (gostring \<rightharpoonup> gostring) \<Rightarrow> login_proc \<times> login_world \<Rightarrow> (login_proc \<times> login_world) \<times> login_result" where
  "login_step_fun e s =
     (case SubmitUserInput (fst e) (fst (snd e)) (snd (snd e)) (fst s) (snd s) of (res, p, w) \<Rightarrow> ((p, w), res))"

definition backed :: "login_env set \<Rightarrow> login_proc \<Rightarrow> bool" where
  "backed Es p \<longleftrightarrow> (\<exists>E\<in>Es. accepted E (lp_email p) (lp_username p) (lp_password p))"

definition row_backed :: "login_env set \<Rightarrow> account_key \<Rightarrow> account_row \<Rightarrow> bool" where
  "row_backed Es k r \<longleftrightarrow> (\<exists>E\<in>Es. \<exists>E'\<in>Es. \<exists>rnd pw. accepted E (snd k) (ar_username r) pw \<and>
     encrypt (le_store E') rnd pw = Inr (ar_password r))"

definition rows_backed :: "login_env set \<Rightarrow> account_table \<Rightarrow> account_table \<Rightarrow> bool" where
  "rows_backed Es tab0 tab \<longleftrightarrow> rows.every (\<lambda>k r. map_of tab0 k = Some r \<or> row_backed Es k r) tab"

definition login_backed :: "login_env set \<Rightarrow> gostring \<times> gostring \<times> gostring \<Rightarrow> bool" where
  "login_backed Es x \<longleftrightarrow> fst x = login_id (fst (snd x)) \<and> (\<exists>E\<in>Es. \<exists>pw. accepted E (fst (snd x)) (snd (snd x)) pw)"

definition known_names :: "login_proc \<Rightarrow> bool" where
  "known_names p \<longleftrightarrow> lp_names p \<noteq> [] \<and> set (lp_names p) \<subseteq> insert ''INBOX'' (fi_Name ` set (lp_available p))"

definition login_inv ::
  "login_env set \<Rightarrow> account_table \<Rightarrow> (gostring \<times> gostring \<times> gostring) list \<Rightarrow> login_proc \<times> login_world \<Rightarrow> bool" where
  "login_inv Es tab0 ls0 s \<longleftrightarrow>
     lp_flowID (fst s) = LoginFlowIDPassword \<and>
     lp_step (fst s) \<in> {[], ''folder_selection'', ''confirmation''} \<and>
     (lp_step (fst s) \<noteq> [] \<longrightarrow> backed Es (fst s)) \<and>
     (lp_step (fst s) = ''confirmation'' \<longrightarrow> known_names (fst s)) \<and>
     rows_backed Es tab0 (lw_table (snd s)) \<and>
     (\<forall>x\<in>set (lw_logins (snd s)). x \<in> set ls0 \<or> login_backed Es x)"

lemma flow_ids: "LoginFlowIDPassword \<noteq> LoginFlowIDOAuthGmail"
  by (simp add: LoginFlowIDPassword_def LoginFlowIDOAuthGmail_def)

lemma login_account_fields:
  "ea_Email (login_account E p d pw fs) = lp_email p" "ea_Username (login_account E p d pw fs) = lp_username p"
  "ea_Password (login_account E p d pw fs) = pw" "ea_UserMXID (login_account E p d pw fs) = le_user E"
  "ea_MonitoredFolders (login_account E p d pw fs) = fs"
  by (simp_all add: login_account_def split: prod.split)

lemma UpsertAccount_result:
  assumes "UpsertAccount S db rnd a tab = (err, t)"
  obtains (same) "t = tab" "err \<noteq> None"
  | (written) enc js where "encrypt S rnd (ea_Password a) = Inr enc" "err = None"
      "t = insert_or_update (ea_UserMXID a, ea_Email a) (new_row a enc js) (conflict_row a enc js) tab"
proof (cases "encrypt S rnd (ea_Password a)")
  case (Inl e)
  with assms have "t = tab" and "err \<noteq> None" by (auto simp: UpsertAccount_def)
  then show thesis by (rule same)
next
  case (Inr enc)
  show thesis
  proof (cases db)
    case None
    with assms Inr show thesis using written [OF Inr] by (auto simp: UpsertAccount_def exec_def Let_def)
  next
    case (Some e)
    with assms Inr have "t = tab" and "err \<noteq> None" by (auto simp: UpsertAccount_def exec_def Let_def)
    then show thesis by (rule same)
  qed
qed

lemma saveAccount_result:
  assumes "saveAccount E p tab = (err, t)"
  obtains (same) "t = tab" "err \<noteq> None"
  | (written) d enc js where "encrypt (le_store E) (le_nonce E) (lp_password p) = Inr enc" "err = None"
      "t = insert_or_update (le_user E, lp_email p)
         (new_row (login_account E p d (lp_password p) (lp_names p)) enc js)
         (conflict_row (login_account E p d (lp_password p) (lp_names p)) enc js) tab"
proof (cases "\<exists>a d. split_on CHR ''@'' (lp_email p) = [a, d]")
  case True
  then obtain a d where d: "split_on CHR ''@'' (lp_email p) = [a, d]" by blast
  with assms have "UpsertAccount (le_store E) (le_upsert_db E) (le_nonce E)
      (login_account E p (to_lower d) (lp_password p) (lp_names p)) tab = (err, t)"
    by (simp add: saveAccount_def)
  then show thesis
    by (cases rule: UpsertAccount_result) (use same written in \<open>simp_all add: login_account_fields\<close>)
next
  case False
  with assms have "t = tab" and "err \<noteq> None"
    by (auto simp: saveAccount_def split: list.splits)
  then show thesis by (rule same)
qed

lemma rows_backed_saved:
  assumes b: "backed Es p" and rb: "rows_backed Es tab0 tab" and E: "E \<in> Es" and fl: "lp_flowID p = LoginFlowIDPassword"
    and st: "save_step E p tab = (err, t)"
  shows "rows_backed Es tab0 t"
proof -
  obtain err' where "saveAccount E p tab = (err', t)"
    using st fl flow_ids by (auto simp: save_step_def split: prod.splits option.splits)
  then show ?thesis
  proof (cases rule: saveAccount_result)
    case same
    with rb show ?thesis by simp
  next
    case (written d enc js)
    let ?a = "login_account E p d (lp_password p) (lp_names p)"
    have ok: "row_backed Es (le_user E, lp_email p) r" if "ar_username r = lp_username p" "ar_password r = enc" for r
      using b E written(1) that unfolding row_backed_def backed_def snd_conv by metis
    have "rows.every (\<lambda>k r. map_of tab0 k = Some r \<or> row_backed Es k r)
        (insert_or_update (le_user E, lp_email p) (new_row ?a enc js) (conflict_row ?a enc js) tab)"
      using rb unfolding rows_backed_def
      by (rule rows.every_upsert)
         (rule disjI2, rule ok, simp_all add: new_row_def conflict_row_def login_account_fields)+
    then show ?thesis using written(3) by (simp add: rows_backed_def)
  qed
qed

lemma completed_inv:
  assumes "login_inv Es tab0 ls0 (p0, w)" and "E \<in> Es" and "backed Es p" and "lp_flowID p = LoginFlowIDPassword"
    and "lp_step p \<in> {[], ''folder_selection'', ''confirmation''}" and "lp_step p = ''confirmation'' \<longrightarrow> known_names p"
    and "completeLogin E p w = (res, p', w')"
  shows "login_inv Es tab0 ls0 (p', w')"
proof -
  have rb: "rows_backed Es tab0 t" if "save_step E p (lw_table w) = (err, t)" for err t
    using rows_backed_saved [OF assms(3) _ assms(2,4) that] assms(1) by (simp add: login_inv_def)
  have lb: "login_backed Es (login_id (lp_email p), lp_email p, lp_username p)"
    using assms(3) by (auto simp: login_backed_def backed_def)
  show ?thesis
    by (cases rule: completeLogin_cases [of E p w])
       (use assms rb lb in \<open>auto simp: login_inv_def\<close>)
qed

lemma connected_inv:
  assumes inv: "login_inv Es tab0 ls0 (p0, w)" and E: "E \<in> Es" and acc: "accepted E (lp_email q) (lp_username q) (lp_password q)"
    and fl: "lp_flowID q = LoginFlowIDPassword" and st: "lp_step q = []"
    and c: "connected_step E q en s w = (res, p', w')"
  shows "login_inv Es tab0 ls0 (p', w')"
proof (cases rule: connected_cases [of E q en s w])
  case (complete r)
  have b: "backed Es r" using acc E complete(2-4) by (auto simp: backed_def)
  have "completeLogin E r w = (res, p', w')" using complete(1) c by simp
  from completed_inv [OF inv E b _ _ _ this] show ?thesis using complete fl st by simp
next
  case (offer folders)
  with c have "p' = q\<lparr>lp_available := folders, lp_step := ''folder_selection''\<rparr>" "w' = w"
    by (simp_all add: offer_folders_def)
  moreover have "backed Es q" using acc E by (auto simp: backed_def)
  ultimately show ?thesis using inv fl by (simp add: login_inv_def backed_def)
qed

lemma selected_names_known:
  assumes "ValidateFolderSelection input folders = Selected names infos dflt"
  shows "names \<noteq> [] \<and> set names \<subseteq> insert ''INBOX'' (fi_Name ` set folders)"
proof -
  note v = ValidateFolderSelection_sound [OF assms]
  have "set names \<subseteq> insert ''INBOX'' (fi_Name ` set folders)"
  proof (cases dflt)
    case True
    with assms have "default_selection folders = Selected names infos dflt"
      unfolding ValidateFolderSelection_def Let_def numbered_selection_def
      by (auto split: if_splits sum.splits list.splits)
    then show ?thesis by (auto simp: default_selection_def find_Some_iff split: option.splits)
  next
    case False
    with v(1,3) show ?thesis by auto
  qed
  with v(1,2) show ?thesis by simp
qed

lemma folder_selection_inv:
  assumes inv: "login_inv Es tab0 ls0 (p, w)" and st: "lp_step p = ''folder_selection''"
    and h: "handleFolderSelection input p w = (res, p', w')"
  shows "login_inv Es tab0 ls0 (p', w')"
proof (cases "ValidateFolderSelection (plain_input ''folder_selection'' input) (lp_available p)")
  case (Selected names infos dflt)
  with h have "p' = p\<lparr>lp_names := names, lp_selected := infos, lp_step := ''confirmation''\<rparr>" "w' = w"
    by (simp_all add: handleFolderSelection_def)
  with inv st selected_names_known [OF Selected] show ?thesis
    by (simp add: login_inv_def backed_def known_names_def)
next
  case SelectCancelled
  with h inv show ?thesis by (simp add: handleFolderSelection_def)
next
  case (SelectInvalid msg)
  with h inv show ?thesis by (simp add: handleFolderSelection_def)
qed

lemma confirmation_inv:
  assumes inv: "login_inv Es tab0 ls0 (p, w)" and E: "E \<in> Es" and st: "lp_step p = ''confirmation''"
    and h: "handleConfirmation E input p w = (res, p', w')"
  shows "login_inv Es tab0 ls0 (p', w')"
proof -
  obtain yes again msg where v: "ValidateConfirmation (plain_input ''confirmation'' input) = (yes, again, msg)"
    using prod_cases3 by blast
  consider "again" | "\<not> again" "\<not> yes" | "\<not> again" "yes" by blast
  then show ?thesis
  proof cases
    case 1
    with h v have "p' = p\<lparr>lp_step := ''folder_selection''\<rparr>" "w' = w" by (simp_all add: handleConfirmation_def)
    with inv st show ?thesis by (simp add: login_inv_def backed_def)
  next
    case 2
    with h v inv show ?thesis by (simp add: handleConfirmation_def)
  next
    case 3
    with h v have "completeLogin E p w = (res, p', w')" by (simp add: handleConfirmation_def)
    with inv E st show ?thesis by (intro completed_inv [OF inv E]) (simp_all add: login_inv_def)
  qed
qed

lemma credentials_inv:
  assumes inv: "login_inv Es tab0 ls0 (p, w)" and E: "E \<in> Es" and st: "lp_step p = []"
    and h: "handleCredentials E input p w = (res, p', w')"
  shows "login_inv Es tab0 ls0 (p', w')"
proof (cases rule: handleCredentials_cases [of E input p w])
  case (connected q en s)
  have "connected_step E q en s w = (res, p', w')" using connected(1) h by simp
  moreover have "lp_flowID q = LoginFlowIDPassword" using connected(2) inv by (simp add: login_inv_def)
  ultimately show ?thesis using connected_inv [OF inv E connected(4)] connected(3) st by simp
qed (use h inv st in \<open>auto simp: login_inv_def\<close>)

lemma login_step_inv:
  assumes inv: "login_inv Es tab0 ls0 s" and ok: "fst e \<in> Es" and step: "login_step_fun e s = (s', res)"
  shows "login_inv Es tab0 ls0 s'"
proof -
  obtain p w p' w' where s: "s = (p, w)" "s' = (p', w')" by (cases s; cases s') auto
  obtain E ready input where e: "e = (E, ready, input)" by (cases e) auto
  have sub: "SubmitUserInput E ready input p w = (res, p', w')"
    using step by (simp add: login_step_fun_def s e split: prod.splits)
  have E: "E \<in> Es" using ok by (simp add: e)
  have i: "login_inv Es tab0 ls0 (p, w)" using inv by (simp add: s)
  then consider "lp_step p = []" | "lp_step p = ''folder_selection''" | "lp_step p = ''confirmation''"
    by (auto simp: login_inv_def)
  then show ?thesis
  proof cases
    case 1
    with i have "lp_flowID p \<noteq> LoginFlowIDOAuthGmail" using flow_ids by (simp add: login_inv_def)
    with 1 sub have "handleCredentials E input p w = (res, p', w')" by (simp add: SubmitUserInput_def)
    with credentials_inv [OF i E 1] show ?thesis by (simp add: s)
  next
    case 2
    with sub have "handleFolderSelection input p w = (res, p', w')" by (simp add: SubmitUserInput_def)
    with folder_selection_inv [OF i 2] show ?thesis by (simp add: s)
  next
    case 3
    with sub have "handleConfirmation E input p w = (res, p', w')" by (simp add: SubmitUserInput_def)
    with confirmation_inv [OF i E 3] show ?thesis by (simp add: s)
  qed
qed

interpretation password_login: machine login_step_fun "\<lambda>e. fst e \<in> Es" "login_inv Es tab0 ls0" for Es tab0 ls0
  by unfold_locales (rule login_step_inv)

lemma password_run:
  assumes "run_steps login_step_fun es (new_login LoginFlowIDPassword, w) = ((p', w'), rs)"
  shows "(\<forall>k r. map_of (lw_table w') k = Some r \<longrightarrow> map_of (lw_table w) k = Some r \<or> row_backed (fst ` set es) k r) \<and>
     (\<forall>x\<in>set (lw_logins w'). x \<in> set (lw_logins w) \<or> login_backed (fst ` set es) x) \<and>
     (lp_step p' = ''confirmation'' \<longrightarrow> known_names p')"
proof -
  have "login_inv (fst ` set es) (lw_table w) (lw_logins w) (new_login LoginFlowIDPassword, w)"
    by (simp add: login_inv_def new_login_def rows_backed_def rows.every_def)
  from password_login.run_inv [OF this _ assms]
  have "login_inv (fst ` set es) (lw_table w) (lw_logins w) (p', w')" by (auto simp: list_all_iff)
  then show ?thesis by (simp add: login_inv_def rows_backed_def rows.every_def)
qed

text \<open>
  However the user answers the steps of a password login, every account row the login leaves that
  was not there before, and every login it hands to the bridge, has an address and a user name for
  which an IMAP server accepted a password, the one encrypted in the row; and what is confirmed is a
  non-empty choice of offered folders or INBOX.
\<close>

theorem password_login_saves_accepted_credentials:
  assumes "run_steps login_step_fun es (new_login LoginFlowIDPassword, w) = ((p', w'), rs)"
  shows "(\<forall>k r. map_of (lw_table w') k = Some r \<longrightarrow> map_of (lw_table w) k = Some r \<or> row_backed (fst ` set es) k r) \<and>
     (\<forall>x\<in>set (lw_logins w'). x \<in> set (lw_logins w) \<or> login_backed (fst ` set es) x) \<and>
     (lp_step p' = ''confirmation'' \<longrightarrow> known_names p')"
  using assms by (rule password_run)

subsection \<open>The OAuth flow\<close>

lemma folders_keep_oauth:
  assumes "UpdateMonitoredFolders S' db k' fs tab = (err, t)"
  shows "GetOAuthAccount S q k t = GetOAuthAccount S q k tab"
proof (cases db)
  case None
  with assms have t: "t = update_row k' (ar_folders_update (\<lambda>_. Some (GetMonitoredFoldersJSON S' fs))) tab"
    by (simp add: UpdateMonitoredFolders_def exec_def)
  show ?thesis
    by (cases q; cases "k = k'"; cases "map_of tab k") (simp_all add: GetOAuthAccount_def t stored_scope_def)
next
  case (Some e)
  with assms show ?thesis by (simp add: UpdateMonitoredFolders_def exec_def)
qed

lemma save_step_keeps_oauth:
  assumes "save_step E p tab = (err, t)"
  shows "GetOAuthAccount S q k t = GetOAuthAccount S q k tab"
proof (cases "lp_flowID p = LoginFlowIDOAuthGmail")
  case True
  with assms obtain err' where "UpdateMonitoredFolders (le_store E) (le_folders_db E) (le_user E, lp_email p) (lp_names p) tab = (err', t)"
    by (auto simp: save_step_def split: prod.splits option.splits)
  then show ?thesis by (rule folders_keep_oauth)
next
  case False
  with assms obtain err' where s: "saveAccount E p tab = (err', t)"
    by (auto simp: save_step_def split: prod.splits option.splits)
  show ?thesis
  proof (cases err')
    case None
    with s obtain a rnd db where "UpsertAccount (le_store E) db rnd a tab = (None, t)"
      by (auto simp: saveAccount_def split: list.splits)
    then show ?thesis by (rule upsert_keeps_oauth)
  next
    case (Some e)
    with s show ?thesis by (cases rule: saveAccount_result) simp_all
  qed
qed

lemma completeLogin_keeps_oauth:
  "GetOAuthAccount S q k (lw_table (snd (snd (completeLogin E p w)))) = GetOAuthAccount S q k (lw_table w)"
  by (cases rule: completeLogin_cases [of E p w]) (simp_all add: save_step_keeps_oauth)

lemma choose_folders_keeps_oauth:
  "GetOAuthAccount S q k (lw_table (snd (snd (choose_folders E tok p w)))) = GetOAuthAccount S q k (lw_table w)"
  unfolding choose_folders_def Let_def
  by (simp add: offer_folders_def completeLogin_keeps_oauth split: attempt.split)

lemma SaveToken_other:
  assumes "SaveOAuthTokenWithScope S' db rnds tm k' prov scope otok tab = (err, t)"
  shows "k \<noteq> k' \<Longrightarrow> map_of t k = map_of tab k" and "err \<noteq> None \<Longrightarrow> map_of t = map_of tab"
proof -
  have u: "map_of (update_row k' f tab) k = map_of tab k" if "k \<noteq> k'" for f k using that by simp
  have n: "map_of (update_row k' f tab) = map_of tab" if "map_of tab k' = None" for f using that by (auto simp: fun_eq_iff)
  show "k \<noteq> k' \<Longrightarrow> map_of t k = map_of tab k"
    using assms u by (auto simp: SaveOAuthTokenWithScope_def saveOAuthTokenInternal_def Let_def split: option.splits sum.splits if_splits)
  show "err \<noteq> None \<Longrightarrow> map_of t = map_of tab"
    using assms n by (auto simp: SaveOAuthTokenWithScope_def saveOAuthTokenInternal_def Let_def simp del: map_of_update_row
        split: option.splits sum.splits if_splits)
qed

lemma GetOAuthAccount_row: "map_of t k = map_of tab k \<Longrightarrow> GetOAuthAccount S q k t = GetOAuthAccount S q k tab"
  by (cases q) (simp_all add: GetOAuthAccount_def)

lemma authorize_writes:
  assumes "authorize E code redirect p tab = (r, t)" and "GetOAuthAccount S q k t \<noteq> GetOAuthAccount S q k tab"
  shows "k = (le_user E, lp_email p) \<and> (\<exists>tok address.
     ExchangeCode (le_google E) (le_oauth E) code (lp_verifier p) redirect = Inr tok \<and>
     le_profile E tok = Inr address \<and> equal_fold address (lp_email p))"
proof -
  have "t \<noteq> tab" using assms(2) by auto
  then obtain tok address err where x: "ExchangeCode (le_google E) (le_oauth E) code (lp_verifier p) redirect = Inr tok"
      "le_profile E tok = Inr address" "equal_fold address (lp_email p)"
    and sv: "SaveOAuthTokenWithScope (le_store E) (le_token_db E) (le_token_nonces E) (le_now E)
      (le_user E, lp_email p) OAuthProviderGoogle (lp_scope p) (Some tok) tab = (err, t)"
    using assms(1) by (auto simp: authorize_def split: sum.splits option.splits if_splits prod.splits)
  have "k = (le_user E, lp_email p)"
    using SaveToken_other(1) [OF sv, of k] GetOAuthAccount_row assms(2) by metis
  with x show ?thesis by blast
qed

lemma Wait_keeps_redirect: "listener_Wait ctx ready l = (r, l') \<Longrightarrow> redirectURI l' = redirectURI l"
  by (cases ready; cases "codeCh l"; cases "errCh l"; cases ctx)
     (auto simp: listener_Wait_def map_filter_id Let_def)

lemma release_table [simp]: "lw_table (release_listener u i w) = lw_table w" "lw_table (on_listener i f w) = lw_table w"
  by (simp_all add: release_listener_def on_listener_def unregister_def)

lemma finish_writes:
  assumes "GetOAuthAccount S q k (lw_table (snd (snd (finishOAuthExchange E code redirect p w)))) \<noteq> GetOAuthAccount S q k (lw_table w)"
  shows "k = (le_user E, lp_email p) \<and> (\<exists>tok address.
     ExchangeCode (le_google E) (le_oauth E) code (lp_verifier p) redirect = Inr tok \<and>
     le_profile E tok = Inr address \<and> equal_fold address (lp_email p))"
proof -
  obtain r t where a: "authorize E code redirect p (lw_table w) = (r, t)" by fastforce
  have "GetOAuthAccount S q k t \<noteq> GetOAuthAccount S q k (lw_table w)"
    using assms a by (cases r) (simp_all add: finishOAuthExchange_def choose_folders_keeps_oauth)
  with authorize_writes [OF a] show ?thesis by blast
qed

text \<open>
  C27: waiting for the browser changes what the bridge knows of an OAuth account only for the user
  and the address that was typed, and only when the code the listener holds was exchanged, with
  the verifier of this login, for a token whose Gmail profile has that address.
\<close>

theorem oauth_token_for_confirmed_address:
  assumes "login_Wait E ctx ready p w = (res, p', w')"
    and "GetOAuthAccount S q k (lw_table w') \<noteq> GetOAuthAccount S q k (lw_table w)"
  shows "k = (le_user E, lp_email p) \<and> (\<exists>i code tok address. lp_listener p = Some i \<and>
     codeCh (lw_listeners w ! i) = Some code \<and>
     ExchangeCode (le_google E) (le_oauth E) code (lp_verifier p) (redirectURI (lw_listeners w ! i)) = Inr tok \<and>
     le_profile E tok = Inr address \<and> equal_fold address (lp_email p))"
proof -
  have "w' \<noteq> w" using assms(2) by auto
  then obtain i where i: "lp_listener p = Some i"
    using assms(1) by (auto simp: login_Wait_def split: option.splits)
  obtain r l where wt: "listener_Wait ctx ready (lw_listeners w ! i) = (r, l)" by fastforce
  let ?w = "on_listener i (\<lambda>_. l) w"
  have uri: "redirectURI (lw_listeners ?w ! i) = redirectURI (lw_listeners w ! i)"
    using Wait_keeps_redirect [OF wt]
    by (cases "i < length (lw_listeners w)") (simp_all add: on_listener_def list_update_beyond)
  obtain x where x: "r = Some x" and aw: "after_wait E i x p ?w = (res, p', w')"
    using assms(1) i wt \<open>w' \<noteq> w\<close> by (cases r) (auto simp: login_Wait_def)
  obtain code where c: "x = Inr code"
    and ch: "GetOAuthAccount S q k (lw_table (snd (snd (finishOAuthExchange E code (redirectURI (lw_listeners ?w ! i)) p ?w))))
      \<noteq> GetOAuthAccount S q k (lw_table w)"
    using aw assms(2) by (cases x) (auto simp: after_wait_def split: prod.splits)
  have "codeCh (lw_listeners w ! i) = Some code" using Wait_effect(3) [OF wt] x c by simp
  with finish_writes [of S q k E code _ p ?w] ch i uri show ?thesis by simp
qed

text \<open>Asking for the authorisation URL overwrites the password of an existing account with the empty
  one; its authentication type stays as it was.\<close>

lemma open_listener_table: "lw_table (snd (snd (open_listener E ch p w))) = lw_table w"
  by (simp add: open_listener_def Let_def registerOAuthListener_def split: sum.split)

lemma start_oauth_table: "lw_table (snd (snd (start_oauth E p w))) = lw_table w"
  by (simp add: start_oauth_def open_listener_table split: sum.split prod.split)

lemma open_listener_email: "lp_email (fst (snd (open_listener E ch p w))) = lp_email p"
  by (simp add: open_listener_def Let_def split: sum.split)

lemma start_oauth_email: "lp_email (fst (snd (start_oauth E p w))) = lp_email p"
  by (simp add: start_oauth_def open_listener_email split: sum.split prod.split)

lemma precreate_result:
  assumes "precreate_account E p tab = (None, t)"
  obtains a where "UpsertAccount (le_store E) (le_upsert_db E) (le_nonce E) a tab = (None, t)"
    and "ea_Password a = []" and "ea_UserMXID a = le_user E" and "ea_Email a = lp_email p"
  using assms
  by (auto simp: precreate_account_def login_account_fields split: list.splits prod.splits option.splits)

theorem oauth_start_loses_password:
  assumes "handleOAuthEmail E input p w = (NextStep st, p', w')"
    and "store_laws (le_store E)" and "nonce_read (le_nonce E)"
    and "map_of (lw_table w) (le_user E, lp_email p') = Some r"
  shows "\<exists>b. GetAccount_db (le_store E) QueryWorks (le_user E, lp_email p') (lw_table w') = Inr (Some b) \<and>
     ea_Password b = [] \<and> ea_AuthType b = ar_auth_type r"
proof -
  obtain p2 t where pre: "precreate_account E p2 (lw_table w) = (None, t)"
    and so: "start_oauth E p2 (w\<lparr>lw_table := t\<rparr>) = (NextStep st, p', w')"
    using assms(1) by (auto simp: handleOAuthEmail_def Let_def split: prod.splits option.splits if_splits)
  have "lp_email p' = lp_email p2" using start_oauth_email [of E p2 "w\<lparr>lw_table := t\<rparr>"] so by simp
  moreover have t: "lw_table w' = t" using start_oauth_table [of E p2 "w\<lparr>lw_table := t\<rparr>"] so by simp
  moreover obtain a where up: "UpsertAccount (le_store E) (le_upsert_db E) (le_nonce E) a (lw_table w) = (None, t)"
    and a: "ea_Password a = []" "ea_UserMXID a = le_user E" "ea_Email a = lp_email p2"
    using precreate_result [OF pre] by metis
  ultimately have k: "(le_user E, lp_email p') = (ea_UserMXID a, ea_Email a)" by simp
  obtain enc where e: "encrypt (le_store E) (le_nonce E) [] = Inr enc" "decrypt (le_store E) enc = Inr []"
    using encrypt_works [OF assms(2,3)] by metis
  then obtain js where "t = insert_or_update (ea_UserMXID a, ea_Email a) (new_row a enc js) (conflict_row a enc js) (lw_table w)"
    using up a(1) by (auto simp: UpsertAccount_def exec_def Let_def split: option.splits)
  then show ?thesis
    using assms(4) e(2) unfolding k t
    by (simp add: GetAccount_db_def load_row_def) (simp add: fill_account_def conflict_row_def)
qed

subsection \<open>Concrete runs\<close>

definition login_net :: "unit net_env" where
  "login_net = \<lparr>ne_addr = ''imap.x:993'', ne_noop = (\<lambda>_. None), ne_dial = (\<lambda>_. None), ne_oauth = False,
     ne_static_token = [], ne_provider = None, ne_auth = (\<lambda>_. AuthOk), ne_select = (\<lambda>_. None),
     ne_mail = (\<lambda>_. \<lparr>answer_select = None, answer_status = Inr 0, answer_search = (\<lambda>_ _. Inr []),
       answer_late = False, answer_now = 0\<rparr>), ne_idle = (\<lambda>_. None), ne_process = (\<lambda>_ w. (None, w)),
     ne_sentFolder = ''Sent'', ne_ctx = None, ne_delay = (\<lambda>_. 0), ne_coordinated = False\<rparr>"

definition sample_token :: oauth_token where
  "sample_token = \<lparr>tok_Access = ''a'', tok_Refresh = ''r'', tok_Expiry = 10 ^ 9\<rparr>"

definition sample_google :: google where
  "sample_google = \<lparr>g_post = (\<lambda>url form. Inr \<lparr>ha_code = 200, ha_status = ''200 OK'', ha_body = ''b''\<rparr>),
     g_json = (\<lambda>b. (None, \<lparr>tr_access = ''a'', tr_refresh = ''r'', tr_expires_in = 1, tr_error = [], tr_error_desc = []\<rparr>)),
     g_now = 0\<rparr>"

definition sample_login_env :: login_env where
  "sample_login_env = \<lparr>le_user = ''@u'', le_store = sample_store, le_upsert_db = None, le_token_db = None,
     le_folders_db = None, le_nonce = sample_nonce, le_token_nonces = (sample_nonce, sample_nonce), le_now = 7,
     le_lookupMX = (\<lambda>_. Inl (Err ''mx'')), le_net = (\<lambda>_. login_net), le_listing = (\<lambda>_. Inl (Err ''list'')),
     le_sort = (\<lambda>lt xs. xs), le_clock = 0, le_backfillSeconds = 0, le_backfillMax = 0, le_idleSeconds = 0,
     le_newLogin = None, le_oauth = sample_oauth, le_google = sample_google,
     le_pkce = Inr (''ver'', ''ch''), le_newState = Inr ''st'', le_ipLoopback = (\<lambda>_. False), le_quote = (\<lambda>s. s),
     le_listen = (\<lambda>_. Inr (Some 7)), le_duration = (\<lambda>_. ''10m0s''), le_service = None,
     le_profile = (\<lambda>_. Inr ''U@x''), le_labels = Inl (Err ''labels'')\<rparr>"

definition empty_world :: login_world where
  "empty_world = \<lparr>lw_table = [], lw_listeners = [], lw_registry = Map.empty, lw_logins = []\<rparr>"

definition filled_form :: "gostring \<rightharpoonup> gostring" where
  "filled_form = [''email'' \<mapsto> ''u@x'', ''password'' \<mapsto> ''pw'']"

lemma trim_plain: "trim_space ''u@x'' = ''u@x''" "trim_space ''pw'' = ''pw''"
  by (rule trim_space_graphic; simp add: graphic_def)+

lemma sample_typed: "lp_email (typed filled_form (new_login flow)) = ''u@x''"
  "lp_password (typed filled_form (new_login flow)) = ''pw''" "lp_username (typed filled_form (new_login flow)) = ''u@x''"
  by (simp_all add: typed_def Let_def new_login_def filled_form_def read_input_def trim_plain)

lemma sample_accepted: "\<exists>en s. NewClient (\<lambda>_. Inl (Err ''mx'')) ''u@x'' ''u@x'' ''pw'' 0 = Some en \<and>
    Connect login_net (fresh_conn 0 0 0 ()) = Done None s"
proof -
  have "\<exists>en. NewClient (\<lambda>_. Inl (Err ''mx'')) ''u@x'' ''u@x'' ''pw'' 0 = Some en"
    using NewClient_iff [of "\<lambda>_. Inl (Err ''mx'')" "''u@x''" "''u@x''" "''pw''" 0] by fastforce
  moreover have "\<exists>s. Connect login_net (fresh_conn 0 0 0 ()) = Done None s"
    by (simp add: Connect_def with_connectingMu_def guarded_def fresh_conn_def client_breaker_def newCircuitBreaker_def
        checkStateAndIncrement_def connectInternal_def with_mu_def connect_body_def fresh_box_def set_box_def Let_def
        login_net_def authenticate_def put_breaker_def report_if_def recordResult_def release_slot_def)
  ultimately show ?thesis by blast
qed

theorem credentials_panic_iff_no_at_witness:
  "fst (handleCredentials sample_login_env [''email'' \<mapsto> ''pw'', ''password'' \<mapsto> ''pw''] (new_login LoginFlowIDPassword) empty_world) = LoginPanic"
  using credentials_panic_iff_no_at [of sample_login_env "[''email'' \<mapsto> ''pw'', ''password'' \<mapsto> ''pw'']"
      "new_login LoginFlowIDPassword" empty_world]
  by (simp add: typed_fields read_input_def new_login_def trim_plain)

theorem password_login_saves_accepted_credentials_witness:
  "\<exists>p' w' rs. run_steps login_step_fun [(sample_login_env, TakeCode, filled_form)] (new_login LoginFlowIDPassword, empty_world) =
       ((p', w'), rs) \<and>
     (\<forall>k r. map_of (lw_table w') k = Some r \<longrightarrow> row_backed {sample_login_env} k r) \<and>
     lw_logins w' = [(login_id ''u@x'', ''u@x'', ''u@x'')]"
proof -
  let ?p = "new_login LoginFlowIDPassword" and ?E = sample_login_env
  obtain p' w' rs where r: "run_steps login_step_fun [(?E, TakeCode, filled_form)] (?p, empty_world) = ((p', w'), rs)"
    by (metis surj_pair)
  from password_login_saves_accepted_credentials [OF r]
  have rows: "\<forall>k r. map_of (lw_table w') k = Some r \<longrightarrow> row_backed {?E} k r"
    by (simp add: empty_world_def)
  obtain en s where en: "NewClient (\<lambda>_. Inl (Err ''mx'')) ''u@x'' ''u@x'' ''pw'' 0 = Some en"
    and s: "Connect login_net (fresh_conn 0 0 0 ()) = Done None s" using sample_accepted by blast
  have h: "SubmitUserInput ?E TakeCode filled_form ?p empty_world = handleCredentials ?E filled_form ?p empty_world"
    using flow_ids by (simp add: SubmitUserInput_def new_login_def)
  let ?q = "(typed filled_form ?p)\<lparr>lp_provider := (case detectEmailProvider ''u@x'' of Some pr \<Rightarrow> pr_Name pr | None \<Rightarrow> ''Email'')\<rparr>"
  have t: "testIMAPConnectionAndKeep ?E ?q = Worked (en, s)"
    using en s by (simp add: testIMAPConnectionAndKeep_def sample_typed) (simp add: sample_login_env_def)
  have "handleCredentials ?E filled_form ?p empty_world = connected_step ?E ?q en s empty_world"
    using t unfolding handleCredentials_def
    by (simp add: typed_def Let_def new_login_def filled_form_def read_input_def trim_plain)
  moreover have "\<exists>e. ListFolders (le_sort ?E) (le_listing ?E en) s = Inl e"
    by (simp add: ListFolders_def sample_login_env_def)
  then obtain e where "ListFolders (le_sort ?E) (le_listing ?E en) s = Inl e" ..
  ultimately have c: "handleCredentials ?E filled_form ?p empty_world = completeLogin ?E (only_inbox ?q) empty_world"
    by (simp add: connected_step_def)
  have "snd (snd (completeLogin ?E (only_inbox ?q) empty_world)) = w'"
    using r h c by (auto simp: login_step_fun_def run_steps_Cons_iff simp del: run_steps.simps(2) split: prod.splits)
  moreover have "fst (save_step ?E (only_inbox ?q) []) = None"
  proof -
    have "split_on CHR ''@'' (lp_email (only_inbox ?q)) = [''u'', ''x'']" by (simp add: only_inbox_def sample_typed)
    moreover obtain enc where "encrypt sample_store sample_nonce ''pw'' = Inr enc"
      using encrypt_works [OF sample_store_laws sample_nonce_read] by metis
    then have up: "fst (UpsertAccount sample_store None sample_nonce a []) = None" if "ea_Password a = ''pw''" for a
      using that by (simp add: UpsertAccount_def exec_def Let_def)
    have env: "le_store ?E = sample_store" "le_upsert_db ?E = None" "le_nonce ?E = sample_nonce"
      "lp_password (only_inbox ?q) = ''pw''"
      by (simp_all add: sample_login_env_def only_inbox_def sample_typed)
    ultimately have "fst (saveAccount ?E (only_inbox ?q) []) = None"
      by (simp add: saveAccount_def env up login_account_fields)
    moreover have "lp_flowID (only_inbox ?q) \<noteq> LoginFlowIDOAuthGmail"
      using flow_ids by (simp add: only_inbox_def typed_fields new_login_def)
    ultimately show ?thesis by (cases "saveAccount ?E (only_inbox ?q) []") (simp add: save_step_def)
  qed
  ultimately have "lw_logins w' = [(login_id ''u@x'', ''u@x'', ''u@x'')]"
    by (cases "save_step ?E (only_inbox ?q) []")
       (auto simp: completeLogin_def empty_world_def sample_login_env_def only_inbox_def sample_typed)
  with r rows show ?thesis by blast
qed

definition waiting_world :: login_world where
  "waiting_world = \<lparr>lw_table = [((''@u'', ''u@x''), new_row sample_account ''v2:'' ''x'')],
     lw_listeners = [sample_listener\<lparr>codeCh := Some ''c''\<rparr>], lw_registry = [''@u'' \<mapsto> 0], lw_logins = []\<rparr>"

definition waiting_login :: login_proc where
  "waiting_login = (new_login LoginFlowIDOAuthGmail)\<lparr>lp_email := ''u@x'', lp_step := ''oauth_wait'', lp_listener := Some 0,
     lp_verifier := ''ver'', lp_state := ''st'', lp_scope := ScopeModeModify\<rparr>"

theorem oauth_token_for_confirmed_address_witness:
  "\<exists>res p' w'. login_Wait sample_login_env None TakeCode waiting_login waiting_world = (res, p', w') \<and>
     GetOAuthAccount sample_store QueryWorks (''@u'', ''u@x'') (lw_table w') \<noteq>
       GetOAuthAccount sample_store QueryWorks (''@u'', ''u@x'') (lw_table waiting_world) \<and>
     (\<exists>address. le_profile sample_login_env sample_token = Inr address \<and> equal_fold address ''u@x'')"
proof -
  let ?E = sample_login_env and ?k = "(''@u'', ''u@x'')" and ?tab = "lw_table waiting_world"
  let ?w = "on_listener 0 (\<lambda>_. (sample_listener\<lparr>codeCh := None\<rparr>)) waiting_world"
  have tab: "lw_table ?w = ?tab" by simp
  obtain er where er: "encrypt sample_store sample_nonce ''r'' = Inr er" "er \<noteq> []"
    using encrypt_works [OF sample_store_laws sample_nonce_read] by metis
  obtain ea where ea: "encrypt sample_store sample_nonce ''a'' = Inr ea"
    using encrypt_works [OF sample_store_laws sample_nonce_read] by metis
  have exch: "ExchangeCode (le_google ?E) (le_oauth ?E) ''c'' (lp_verifier waiting_login) (redirectURI sample_listener) = Inr sample_token"
    by (simp add: ExchangeCode_def exchange_checks_def sample_login_env_def sample_google_def sample_oauth_def
        waiting_login_def new_login_def sample_listener_def sample_token_def http_ok_def expiry_of_def wrap64_def)
  have fold: "equal_fold ''U@x'' ''u@x''" by (simp add: equal_fold_def to_lower_def lower_char_def char_of_def bit_iff_odd)
  let ?t = "update_row ?k (scope_row ScopeModeModify (UnixNano 7) \<circ> token_row OAuthProviderGoogle er ea (tok_Expiry sample_token)) ?tab"
  have fields: "tok_Refresh sample_token = ''r''" "tok_Access sample_token = ''a''" "OAuthProviderGoogle \<noteq> []"
    "map_of ?tab ?k \<noteq> None"
    by (simp_all add: sample_token_def auth_constants waiting_world_def)
  have save: "SaveOAuthTokenWithScope sample_store None (sample_nonce, sample_nonce) 7 ?k OAuthProviderGoogle
      ScopeModeModify (Some sample_token) ?tab = (None, ?t)"
    using er ea fields by (simp add: SaveOAuthTokenWithScope_def saveOAuthTokenInternal_def Let_def scope_nonempty)
  have env: "le_store ?E = sample_store" "le_token_db ?E = None" "le_token_nonces ?E = (sample_nonce, sample_nonce)"
    "le_now ?E = 7" "le_user ?E = ''@u''" "le_service ?E = None" "le_profile ?E sample_token = Inr ''U@x''"
    "lp_email waiting_login = ''u@x''" "lp_scope waiting_login = ScopeModeModify"
    by (simp_all add: sample_login_env_def waiting_login_def)
  obtain t where t: "t = ?t" by simp
  have au: "authorize ?E ''c'' (redirectURI sample_listener) waiting_login ?tab = (Inr sample_token, t)"
    using exch fold save t by (simp add: authorize_def env)
  have "is_oauth (ar_auth_type r')" if "map_of t ?k = Some r'" for r'
    using that t by (auto simp: waiting_world_def update_row_def scope_row_def token_row_def is_oauth_def)
  moreover obtain r' where "map_of t ?k = Some r'" using t by (auto simp: waiting_world_def update_row_def)
  ultimately have new: "GetOAuthAccount sample_store QueryWorks ?k t \<noteq> Inr None"
    by (cases "stored_token sample_store r'") (simp_all add: GetOAuthAccount_def)
  have old: "GetOAuthAccount sample_store QueryWorks ?k ?tab = Inr None"
    by (simp add: GetOAuthAccount_def waiting_world_def new_row_def is_oauth_def auth_constants)
  obtain res p' w' where wt: "login_Wait ?E None TakeCode waiting_login waiting_world = (res, p', w')"
    by (metis prod_cases3)
  have "listener_Wait None TakeCode (lw_listeners waiting_world ! 0) = (Some (Inr ''c''), sample_listener\<lparr>codeCh := None\<rparr>)"
    by (simp add: waiting_world_def listener_Wait_def map_filter_id sample_listener_def)
  then have "login_Wait ?E None TakeCode waiting_login waiting_world = after_wait ?E 0 (Inr ''c'') waiting_login ?w"
    by (simp add: login_Wait_def waiting_login_def)
  moreover have "redirectURI (lw_listeners ?w ! 0) = redirectURI sample_listener"
    by (simp add: on_listener_def waiting_world_def)
  ultimately have "lw_table w' = lw_table (snd (snd (choose_folders ?E (tok_Access sample_token) waiting_login (?w\<lparr>lw_table := t\<rparr>))))"
    using wt au by (auto simp: after_wait_def finishOAuthExchange_def split: prod.splits)
  then have g: "GetOAuthAccount sample_store QueryWorks ?k (lw_table w') = GetOAuthAccount sample_store QueryWorks ?k t"
    by (simp add: choose_folders_keeps_oauth)
  with new old have ne: "GetOAuthAccount sample_store QueryWorks ?k (lw_table w') \<noteq> GetOAuthAccount sample_store QueryWorks ?k ?tab" by simp
  from oauth_token_for_confirmed_address [OF wt ne] have "\<exists>tok address. ExchangeCode (le_google ?E) (le_oauth ?E) ''c''
      (lp_verifier waiting_login) (redirectURI sample_listener) = Inr tok \<and> le_profile ?E tok = Inr address \<and> equal_fold address ''u@x''"
    by (auto simp: waiting_login_def waiting_world_def)
  with exch wt ne show ?thesis by auto
qed

end
