(* ===== verification/Reauth.thy ===== *)
theory Reauth
  imports AccountDB OAuth Coordinator
begin

text \<open>
  What happens when an OAuth refresh fails (\<open>pkg/connector/reauth.go\<close>,
  \<open>pkg/connector/reauth_tokensource.go\<close>): the account is flagged in the table, the user gets a notice
  at most once an hour, the bridge state of the account is reported.  \<open>rw_memo\<close> is the package
  variable \<open>reauthMemo\<close>, which a restart empties; \<open>rw_notices\<close> are the notices that reached a
  management room: when, for which account, which room, which text.  A connector without a
  database does not occur.
\<close>

subsection \<open>Notices\<close>

definition EmailReauthRequired :: gostring where "EmailReauthRequired = ''E-EMAIL-006''"

definition reauthDebounceWindow :: int where "reauthDebounceWindow = 3600 * 10 ^ 9"

definition reauthMemoKey :: "account_key \<Rightarrow> gostring" where
  "reauthMemoKey k = fst k @ ''|'' @ snd k"

record reauth_world =
  rw_table :: account_table
  rw_memo :: "gostring \<rightharpoonup> gotime"
  rw_notices :: "(gotime \<times> account_key \<times> gostring \<times> gostring) list"

text \<open>The user and the bot's homeserver, as \<open>sendBridgeNotice\<close> meets them.\<close>

record notice_env =
  nv_user :: bool
  nv_room :: "go_error + gostring"
  nv_bot :: bool
  nv_send :: "go_error option"

definition sendBridgeNotice :: "notice_env \<Rightarrow> go_error + gostring" where
  "sendBridgeNotice N =
     (if \<not> nv_user N then Inl (Err ''sendBridgeNotice: nil user'')
      else case nv_room N of
        Inl e \<Rightarrow> Inl (Errorf ''get management room'' e)
      | Inr room \<Rightarrow>
          if room = [] then Inl (Err ''user has no management room'')
          else if \<not> nv_bot N then Inl (Err ''bridge bot intent unavailable'')
          else case nv_send N of
            Some e \<Rightarrow> Inl (Errorf ''send notice'' e)
          | None \<Rightarrow> Inr room)"

definition buildReauthMessage :: "gostring \<Rightarrow> gostring \<Rightarrow> gostring" where
  "buildReauthMessage emailAddr scopeMode =
     (let base = bytes [240, 159, 148, 144] @ '' **Matrimail needs you to re-authorize Google for '' @ emailAddr @
     ''**'' @ bytes [10, 10] @
     ''The OAuth refresh token for this account is no longer valid. This usually means:'' @
     bytes [10, 10] @ ''- You revoked matrimail'' @ bytes [39] @
     ''s access at https://myaccount.google.com/permissions, or'' @ bytes [10] @
     ''- You changed your Google password / security settings, or'';
          full = (if scopeMode = ScopeModeFull then base @
            bytes [10] @ ''- The 7-day refresh-token expiry kicked in (your OAuth project is in '' @
     bytes [34] @ ''Testing'' @ bytes [34, 10] @
     ''  publishing status; `mail.google.com` is a restricted scope so escaping'' @ bytes [10] @
     ''  Testing requires Google verification + CASA assessment '' @ bytes [226, 128, 148] @
     '' switching to'' @ bytes [10] @ ''  `scope_mode: modify` is usually a better answer).'' else base)
      in full @
        bytes [10, 10] @ ''Run `!matrimail login` to reconnect this account. Until then, this'' @
     bytes [10] @ ''account is paused '' @ bytes [226, 128, 148] @
     '' the bridge will not retry and will not lose any messages'' @ bytes [10] @
     ''that arrive while it'' @ bytes [39] @ ''s paused.'')"

text \<open>What one failed refresh meets: the answers of the statements, the clock, the user.\<close>

record reauth_env =
  rv_mark_db :: "go_error option"
  rv_read :: query_result
  rv_notice_db :: "go_error option"
  rv_save_db :: "go_error option"
  rv_nonces :: "(go_error + gostring) \<times> (go_error + gostring)"
  rv_store :: store_env
  rv_now :: gotime
  rv_notice :: notice_env

definition MarkAccountNeedsReauth ::
  "go_error option \<Rightarrow> account_key \<Rightarrow> account_table \<Rightarrow> go_error option \<times> account_table" where
  "MarkAccountNeedsReauth db k tab = SetAuthType db k AuthTypeOAuthGmailNeedsReauth tab"

text \<open>\<open>NotifyReauthRequired\<close> after the two debounce checks.\<close>

definition send_notice :: "reauth_env \<Rightarrow> account_key \<Rightarrow> gostring \<Rightarrow> ('a) reauth_world_scheme \<Rightarrow> 'a reauth_world_scheme" where
  "send_notice R k scope w =
     (let msg = buildReauthMessage (snd k) scope;
          w1 = (if nv_user (rv_notice R) then
                  (case sendBridgeNotice (rv_notice R) of
                     Inl e \<Rightarrow> w
                   | Inr room \<Rightarrow> w\<lparr>rw_notices := rw_notices w @ [(rv_now R, k, room, msg)]\<rparr>)
                else w)
      in w1\<lparr>rw_table := snd (MarkReauthNotified (rv_notice_db R) k (rv_now R) (rw_table w1))\<rparr>)"

definition noticed_lately :: "reauth_env \<Rightarrow> account_key \<Rightarrow> account_table \<Rightarrow> bool" where
  "noticed_lately R k tab =
     (case LastReauthNotifiedAt (rv_read R) k tab of
        Inl e \<Rightarrow> False
      | Inr t \<Rightarrow> t \<noteq> 0 \<and> rv_now R - t < reauthDebounceWindow)"

definition NotifyReauthRequired :: "reauth_env \<Rightarrow> account_key \<Rightarrow> gostring \<Rightarrow> ('a) reauth_world_scheme \<Rightarrow> 'a reauth_world_scheme" where
  "NotifyReauthRequired R k scope w =
     (let key = reauthMemoKey k in
      if (case rw_memo w key of None \<Rightarrow> False | Some t \<Rightarrow> rv_now R - t < reauthDebounceWindow) then w
      else let w1 = w\<lparr>rw_memo := (rw_memo w)(key \<mapsto> rv_now R)\<rparr> in
        if noticed_lately R k (rw_table w1) then w1 else send_notice R k scope w1)"

text \<open>\<open>retrieve\<close> is the code of an \<open>oauth2.RetrieveError\<close> inside the error, if there is one.\<close>

definition HandleRefreshError ::
  "reauth_env \<Rightarrow> account_key \<Rightarrow> gostring \<Rightarrow> gostring option \<Rightarrow> go_error \<Rightarrow> ('a) reauth_world_scheme \<Rightarrow> bool \<times> 'a reauth_world_scheme" where
  "HandleRefreshError R k scope retrieve err w =
     (if \<not> IsRefreshError retrieve (Some err) then (False, w)
      else let w1 = w\<lparr>rw_table := snd (MarkAccountNeedsReauth (rv_mark_db R) k (rw_table w))\<rparr>
           in (True, NotifyReauthRequired R k scope w1))"

subsection \<open>Bridge state\<close>

text \<open>A coordinator with the states it has handed to the bridge; the login may have none.\<close>

type_synonym told_coordinator = "(state_coordinator \<times> gostring bridge_state list) option"

definition tell ::
  "int \<Rightarrow> gostring \<Rightarrow> bool \<Rightarrow> gostring \<Rightarrow> (gostring \<rightharpoonup> gostring) option \<Rightarrow> told_coordinator \<Rightarrow> told_coordinator" where
  "tell now event conn code md coord =
     map_option (\<lambda>(sc, out). case ReportSimpleEvent now ''inbox'' event conn code md sc of
        (sc', None) \<Rightarrow> (sc', out) | (sc', Some b) \<Rightarrow> (sc', out @ [b])) coord"

definition ReportReauthBridgeState :: "int \<Rightarrow> gostring \<Rightarrow> told_coordinator \<Rightarrow> told_coordinator" where
  "ReportReauthBridgeState now emailAddr coord =
     tell now ''reauth_required'' False EmailReauthRequired (Some [''email'' \<mapsto> emailAddr]) coord"

subsection \<open>Token sources\<close>

text \<open>An answer of the underlying \<open>oauth2.TokenSource\<close>.\<close>

datatype token_answer = Minted oauth_token | Refused go_error "gostring option"

definition save_refreshed ::
  "reauth_env \<Rightarrow> account_key \<Rightarrow> gostring \<Rightarrow> oauth_token \<Rightarrow> ('a) reauth_world_scheme \<Rightarrow> go_error option \<times> 'a reauth_world_scheme" where
  "save_refreshed R k provider tok w =
     (case SaveOAuthToken (rv_store R) (rv_save_db R) (rv_nonces R) (rv_now R) k provider (Some tok) (rw_table w) of
        (err, t) \<Rightarrow> (err, w\<lparr>rw_table := t\<rparr>))"

text \<open>The provider \<open>createIMAPClient\<close> gives to the IMAP client: every token is saved.\<close>

definition imap_token_provider ::
  "reauth_env \<Rightarrow> int \<Rightarrow> account_key \<Rightarrow> gostring \<Rightarrow> gostring \<Rightarrow> token_answer \<Rightarrow> told_coordinator \<times> reauth_world \<Rightarrow>
     (go_error + gostring) \<times> told_coordinator \<times> reauth_world" where
  "imap_token_provider R now k provider scope answer cw =
     (case (answer, cw) of
        (Refused err retrieve, (coord, w)) \<Rightarrow>
          (case HandleRefreshError R k scope retrieve err w of
             (permanent, w1) \<Rightarrow>
               (Inl err, (if permanent then ReportReauthBridgeState now (snd k) coord else coord), w1))
      | (Minted fresh, (coord, w)) \<Rightarrow>
          (Inr (tok_Access fresh), coord, snd (save_refreshed R k provider fresh w)))"

text \<open>\<open>reauthAwareTokenSource\<close>: a token is saved when its access token is new to the wrapper.\<close>

record token_source =
  ts_key :: account_key
  ts_provider :: gostring
  ts_scope :: gostring
  ts_persisted :: "oauth_token option"

definition newReauthAwareTokenSource :: "account_key \<Rightarrow> gostring \<Rightarrow> gostring \<Rightarrow> token_source" where
  "newReauthAwareTokenSource k provider scope = \<lparr>ts_key = k, ts_provider = provider, ts_scope = scope, ts_persisted = None\<rparr>"

definition source_Token ::
  "reauth_env \<Rightarrow> token_answer \<Rightarrow> token_source \<times> reauth_world \<Rightarrow> (go_error + oauth_token) \<times> token_source \<times> reauth_world" where
  "source_Token R answer rw =
     (case (answer, rw) of
        (Refused err retrieve, (r, w)) \<Rightarrow>
          (Inl err, r, snd (HandleRefreshError R (ts_key r) (ts_scope r) retrieve err w))
      | (Minted tok, (r, w)) \<Rightarrow>
          (Inr tok,
           (if map_option tok_Access (ts_persisted r) = Some (tok_Access tok) then (r, w)
            else case save_refreshed R (ts_key r) (ts_provider r) tok w of
              (Some e, w1) \<Rightarrow> (r, w1)
            | (None, w1) \<Rightarrow> (r\<lparr>ts_persisted := Some tok\<rparr>, w1))))"

end
