(* ===== verification/Client.thy ===== *)
theory Client
  imports Login Reauth GmailPollers ImapManager Processor
begin

text \<open>
  The life of one account in the bridge (\<open>pkg/connector/client.go\<close>): what \<open>LoadUserLogin\<close> builds for
  it out of its login and its row (an IMAP client, a Gmail poller, a sender, the Gmail signature),
  how it connects, reconnects, disconnects and logs out.  The IMAP clients live in the heap of
  \<open>ImapManager\<close>, which the manager's map, its watchdogs and the client share.  The events reported
  to the account's state coordinator are kept in order; what the user is then shown is
  \<open>Coordinator\<close> run on them.
\<close>

subsection \<open>State\<close>

definition EmailNotLoggedIn :: gostring where "EmailNotLoggedIn = ''E-EMAIL-001''"

record client_config =
  RegistrationWaitTime :: int
  ReconnectionSleepTime :: int
  PeriodicSyncInterval :: int
  SyncThrottleTime :: int

definition DefaultClientConfig :: client_config where
  "DefaultClientConfig = \<lparr>RegistrationWaitTime = 2 * second, ReconnectionSleepTime = 2 * second,
     PeriodicSyncInterval = 5 * 60 * second, SyncThrottleTime = 60 * second\<rparr>"

text \<open>A login of the bridge: its user, its ID and, when it is the connector's, its metadata.\<close>

record user_login =
  ul_User :: gostring
  ul_ID :: gostring
  ul_Meta :: "(gostring \<times> gostring) option"   \<comment> \<open>address, user name\<close>

text \<open>\<open>GmailSendAs\<close>; an entry of the API's answer may be nil.\<close>

record gmail_send_as =
  gs_Email :: gostring
  gs_Name :: gostring
  gs_IsPrimary :: bool
  gs_Signature :: gostring

type_synonym send_as_answer = "go_error + gmail_send_as option list"

type_synonym client_event = "gostring \<times> gostring \<times> bool \<times> gostring"

record loaded_client =
  cl_login :: user_login
  cl_Email :: gostring
  cl_Username :: gostring
  cl_Password :: gostring
  cl_Folders :: "gostring list"
  cl_IMAP :: "(imap_endpoint \<times> client_ref) option"
  cl_GmailAPIInbound :: bool
  cl_Sender :: "(mail_transport \<times> token_source option) option"
  cl_Signature :: gostring
  cl_SendAs :: "gmail_send_as list"
  cl_events :: "client_event list"        \<comment> \<open>reported while there is no IMAP client\<close>
  cl_isConnected :: bool
  cl_loops :: bool
  cl_cancelled :: bool
  cl_lastSync :: gotime
  cl_deleted :: bool                       \<comment> \<open>the login was deleted from the bridge\<close>

definition new_client :: "user_login \<Rightarrow> loaded_client" where
  "new_client login = \<lparr>cl_login = login, cl_Email = [], cl_Username = [], cl_Password = [], cl_Folders = [],
     cl_IMAP = None, cl_GmailAPIInbound = False, cl_Sender = None, cl_Signature = [], cl_SendAs = [],
     cl_events = [], cl_isConnected = False, cl_loops = False, cl_cancelled = False, cl_lastSync = 0, cl_deleted = False\<rparr>"

text \<open>What the accounts share.\<close>

record 'w client_world =
  cw_table :: account_table
  cw_pollers :: "token_source gmail_inbound"
  cw_imap :: "'w imap_manager"

text \<open>Every read of the account's row may work or fail on its own.\<close>

datatype row_read = ReadAccount | ReadForIMAP | ReadForSender | ReadForSignature | ReadForPoller

record 'w client_env =
  ce_read :: "row_read \<Rightarrow> query_result"
  ce_store :: store_env
  ce_lookupMX :: "gostring \<Rightarrow> go_error + gostring list"
  ce_oauth :: oauth_config
  ce_backfillSeconds :: int
  ce_backfillMax :: int
  ce_idleSeconds :: int
  ce_clock :: int
  ce_world :: 'w
  ce_service :: "go_error option"
  ce_sendAs :: "send_as_answer \<times> send_as_answer"    \<comment> \<open>two calls of the API\<close>

abbreviation account_of :: "loaded_client \<Rightarrow> account_key" where
  "account_of c \<equiv> (ul_User (cl_login c), cl_Email c)"

subsection \<open>Credentials\<close>

definition extractEmailCredentials :: "user_login \<Rightarrow> go_error + gostring \<times> gostring" where
  "extractEmailCredentials login =
     (let (email, username) = (case ul_Meta login of Some (e, u) \<Rightarrow> if e \<noteq> [] then (e, u) else ([], []) | None \<Rightarrow> ([], []));
          (email, username) =
            (if email = [] \<and> length (ul_ID login) > 6 \<and> take 6 (ul_ID login) = ''email:''
             then (drop 6 (ul_ID login), drop 6 (ul_ID login)) else (email, username))
      in if email = []
         then Inl (Err (''invalid login: no email found in metadata or login ID '' @ ul_ID login))
         else Inr (email, username))"

definition loadAccountCredentials ::
  "store_env \<Rightarrow> query_result \<Rightarrow> account_key \<Rightarrow> account_table \<Rightarrow> go_error + email_account" where
  "loadAccountCredentials E q k tab =
     (case GetAccount_db E q k tab of
        Inl e \<Rightarrow> Inl (Errorf ''failed to load email account'' e)
      | Inr None \<Rightarrow> Inl (Err (''no account credentials found for email '' @ snd k))
      | Inr (Some a) \<Rightarrow> Inr a)"

subsection \<open>The IMAP client\<close>

text \<open>
  \<open>createIMAPClient\<close> goes on after an error of \<open>GetOAuthAccount\<close> with the record it returned: the
  record without a token when only the refresh token could not be decrypted, none otherwise.
\<close>

definition oauth_row :: "store_env \<Rightarrow> query_result \<Rightarrow> account_key \<Rightarrow> account_table \<Rightarrow> oauth_info option" where
  "oauth_row E q k tab =
     (case GetOAuthAccount E q k tab of
        Inr info \<Rightarrow> info
      | Inl e \<Rightarrow> (case q of
          QueryWorks \<Rightarrow> map_option (\<lambda>r. \<lparr>oi_AuthType = ar_auth_type r, oi_Provider = coalesce [] (ar_provider r),
            oi_ScopeMode = stored_scope r, oi_Token = None, oi_IssuedAt = stored_time (ar_issued_at r)\<rparr>) (map_of tab k)
        | _ \<Rightarrow> None))"

definition no_oauth_config :: "oauth_config \<Rightarrow> bool" where
  "no_oauth_config g \<longleftrightarrow> oc_client_id g = [] \<or> oc_client_secret g = []"

definition event :: "gostring \<Rightarrow> bool \<Rightarrow> gostring \<Rightarrow> loaded_client \<Rightarrow> 'w client_world \<Rightarrow> loaded_client \<times> 'w client_world" where
  "event name conn code c w =
     (case cl_IMAP c of
        None \<Rightarrow> (c\<lparr>cl_events := cl_events c @ [(''inbox'', name, conn, code)]\<rparr>, w)
      | Some (en, r) \<Rightarrow>
          (c, w\<lparr>cw_imap := (cw_imap w)\<lparr>conns := (conns (cw_imap w))(r := map_option (report ''inbox'' name conn code) (conns (cw_imap w) r))\<rparr>\<rparr>))"

definition set_client :: "'w client_env \<Rightarrow> imap_endpoint \<Rightarrow> loaded_client \<Rightarrow> 'w client_world \<Rightarrow> loaded_client \<times> 'w client_world" where
  "set_client E en c w =
     (let m = cw_imap w; r = next_conn m;
          s = (fresh_conn (ce_backfillSeconds E) (ce_backfillMax E) (ce_clock E) (ce_world E))\<lparr>reports := cl_events c\<rparr>
      in (c\<lparr>cl_IMAP := Some (en, r)\<rparr>, w\<lparr>cw_imap := put_conn r s (m\<lparr>next_conn := Suc r\<rparr>)\<rparr>))"

definition createIMAPClient ::
  "'w client_env \<Rightarrow> loaded_client \<Rightarrow> 'w client_world \<Rightarrow> (loaded_client \<times> 'w client_world) attempt" where
  "createIMAPClient E c w =
     (case oauth_row (ce_store E) (ce_read E ReadForIMAP) (account_of c) (cw_table w) of
        Some info \<Rightarrow>
          if oi_AuthType info = AuthTypeOAuthGmailNeedsReauth
          then Worked (event ''reauth_required'' False EmailReauthRequired c w)
          else if oi_ScopeMode info = ScopeModeModify then Worked (c, w)
          else (case oi_Token info of
            None \<Rightarrow> Failed (Err (''account '' @ cl_Email c @ '' is OAuth-full but has no stored token''))
          | Some tok \<Rightarrow>
              if no_oauth_config (ce_oauth E)
              then Failed (Err (''account '' @ cl_Email c @ '' is OAuth but bridge has no gmail_oauth config''))
              else case NewClientOAuth (ce_lookupMX E) (cl_Email c) (cl_Username c) (tok_Access tok) (ce_idleSeconds E) of
                None \<Rightarrow> Panicking
              | Some en \<Rightarrow> Worked (set_client E en c w))
      | None \<Rightarrow>
          (case NewClient (ce_lookupMX E) (cl_Email c) (cl_Username c) (cl_Password c) (ce_idleSeconds E) of
             None \<Rightarrow> Panicking
           | Some en \<Rightarrow> Worked (set_client E en c w)))"

subsection \<open>The sender and the signature\<close>

definition after_last_at :: "gostring \<Rightarrow> gostring" where
  "after_last_at s = rev (takeWhile (\<lambda>c. c \<noteq> CHR ''@'') (rev s))"

definition password_account :: "'w client_env \<Rightarrow> loaded_client \<Rightarrow> sender_account" where
  "password_account E c =
     \<lparr>sa_Email = cl_Email c, sa_IsGmail = IsGmailDomain (cl_Email c),
      sa_IsGoogleWorkspace = (\<not> IsGmailDomain (cl_Email c) \<and> CHR ''@'' \<in> set (cl_Email c) \<and>
        IsGoogleWorkspaceDomain (ce_lookupMX E) (after_last_at (cl_Email c))),
      sa_AppPassword = cl_Password c, sa_HasToken = False\<rparr>"

definition buildSender ::
  "'w client_env \<Rightarrow> loaded_client \<Rightarrow> email_account \<Rightarrow> account_table \<Rightarrow> go_error + mail_transport \<times> token_source option" where
  "buildSender E c a tab =
     (if is_oauth (ea_AuthType a) then
        (if no_oauth_config (ce_oauth E)
         then Inl (Err (''account '' @ cl_Email c @ '' is OAuth but bridge has no gmail_oauth config''))
         else case GetOAuthAccount (ce_store E) (ce_read E ReadForSender) (account_of c) tab of
           Inl e \<Rightarrow> Inl (Errorf ''load oauth token'' e)
         | Inr oinfo \<Rightarrow>
             (case oinfo of
                Some info \<Rightarrow>
                  if oi_Token info = None then Inl (Err (''account '' @ cl_Email c @ '' is OAuth but has no stored token''))
                  else if oi_AuthType info = AuthTypeOAuthGmailNeedsReauth
                  then Inl (Err (''account '' @ cl_Email c @ '' needs re-auth; run !matrimail login''))
                  else Inr (PickSender ((password_account E c)\<lparr>sa_HasToken := True, sa_IsGmail := True\<rparr>),
                            Some (newReauthAwareTokenSource (account_of c) (oi_Provider info) (oi_ScopeMode info)))
              | None \<Rightarrow> Inl (Err (''account '' @ cl_Email c @ '' is OAuth but has no stored token''))))
      else Inr (PickSender (password_account E c), None))"

text \<open>\<open>pkg/email/gmail_signature.go\<close>: the two readings of the send-as list.\<close>

fun first_signature :: "(gmail_send_as \<Rightarrow> bool) \<Rightarrow> gmail_send_as option list \<Rightarrow> gostring option attempt" where
  "first_signature P [] = Worked None"
| "first_signature P (None # sas) = Panicking"
| "first_signature P (Some sa # sas) = (if P sa then Worked (Some (gs_Signature sa)) else first_signature P sas)"

definition FetchGmailSignature :: "send_as_answer \<Rightarrow> gostring \<Rightarrow> gostring attempt" where
  "FetchGmailSignature answer email =
     (case answer of
        Inl e \<Rightarrow> Failed (Errorf ''list send-as'' e)
      | Inr sas \<Rightarrow>
          (case first_signature (\<lambda>sa. equal_fold (gs_Email sa) email) sas of
             Worked (Some sig) \<Rightarrow> Worked sig
           | Worked None \<Rightarrow>
               (case first_signature gs_IsPrimary sas of
                  Worked None \<Rightarrow> Worked []
                | Worked (Some sig) \<Rightarrow> Worked sig
                | Failed e \<Rightarrow> Failed e | Panicking \<Rightarrow> Panicking | Hanging \<Rightarrow> Hanging)
           | Failed e \<Rightarrow> Failed e | Panicking \<Rightarrow> Panicking | Hanging \<Rightarrow> Hanging))"

definition FetchGmailSendAsList :: "send_as_answer \<Rightarrow> go_error + gmail_send_as list" where
  "FetchGmailSendAsList answer =
     (case answer of
        Inl e \<Rightarrow> Inl (Errorf ''list send-as'' e)
      | Inr sas \<Rightarrow> Inr (filter (\<lambda>sa. gs_Email sa \<noteq> []) (concat (map (\<lambda>x. case x of None \<Rightarrow> [] | Some sa \<Rightarrow> [sa]) sas))))"

definition loadGmailSignature :: "'w client_env \<Rightarrow> loaded_client \<Rightarrow> account_table \<Rightarrow> loaded_client attempt" where
  "loadGmailSignature E c tab =
     (case GetOAuthAccount (ce_store E) (ce_read E ReadForSignature) (account_of c) tab of
        Inl e \<Rightarrow> Failed (Errorf ''get oauth account'' e)
      | Inr None \<Rightarrow> Worked c
      | Inr (Some info) \<Rightarrow>
          if oi_Token info = None then Worked c
          else case ce_service E of
            Some e \<Rightarrow> Failed (Errorf ''create gmail service'' e)
          | None \<Rightarrow>
              (case FetchGmailSignature (fst (ce_sendAs E)) (cl_Email c) of
                 Failed e \<Rightarrow> Failed (Errorf ''fetch signature'' e)
               | Panicking \<Rightarrow> Panicking
               | Hanging \<Rightarrow> Hanging
               | Worked sig \<Rightarrow>
                   Worked (c\<lparr>cl_Signature := sig,
                     cl_SendAs := (case FetchGmailSendAsList (snd (ce_sendAs E)) of Inl e \<Rightarrow> [] | Inr as \<Rightarrow> as)\<rparr>)))"

subsection \<open>The Gmail poller\<close>

definition startGmailInboundIfApplicable ::
  "'w client_env \<Rightarrow> email_account \<Rightarrow> loaded_client \<Rightarrow> 'w client_world \<Rightarrow> go_error option \<times> loaded_client \<times> 'w client_world" where
  "startGmailInboundIfApplicable E a c w =
     (if ea_AuthType a \<noteq> AuthTypeOAuthGmail then (None, c, w)
      else case GetOAuthAccount (ce_store E) (ce_read E ReadForPoller) (account_of c) (cw_table w) of
        Inl e \<Rightarrow> (Some (Errorf ''get oauth account'' e), c, w)
      | Inr None \<Rightarrow> (None, c, w)
      | Inr (Some info) \<Rightarrow>
          if oi_Token info = None \<or> oi_ScopeMode info \<noteq> ScopeModeModify then (None, c, w)
          else if no_oauth_config (ce_oauth E)
          then (Some (Err (''gmail_oauth not configured but account '' @ cl_Email c @ '' is OAuth'')), c, w)
          else
            let ts = newReauthAwareTokenSource (account_of c) (oi_Provider info) (oi_ScopeMode info)
            in (None, c\<lparr>cl_GmailAPIInbound := True\<rparr>,
                w\<lparr>cw_pollers := inbound_Start (fst (account_of c)) (snd (account_of c)) (ea_MonitoredFolders a) ts (cw_pollers w)\<rparr>))"

subsection \<open>Loading a login\<close>

definition account_client :: "user_login \<Rightarrow> gostring \<Rightarrow> gostring \<Rightarrow> email_account \<Rightarrow> loaded_client" where
  "account_client login email username a =
     (new_client login)\<lparr>cl_Email := email, cl_Username := username, cl_Password := ea_Password a,
       cl_Folders := (if ea_MonitoredFolders a = [] then [''INBOX''] else ea_MonitoredFolders a)\<rparr>"

definition with_sender :: "'w client_env \<Rightarrow> email_account \<Rightarrow> account_table \<Rightarrow> loaded_client \<Rightarrow> loaded_client" where
  "with_sender E a tab c = (case buildSender E c a tab of Inl e \<Rightarrow> c | Inr s \<Rightarrow> c\<lparr>cl_Sender := Some s\<rparr>)"

definition with_signature :: "'w client_env \<Rightarrow> email_account \<Rightarrow> account_table \<Rightarrow> loaded_client \<Rightarrow> loaded_client attempt" where
  "with_signature E a tab c =
     (if ea_AuthType a = AuthTypeOAuthGmail
      then (case loadGmailSignature E c tab of Failed e \<Rightarrow> Worked c | r \<Rightarrow> r)
      else Worked c)"

definition LoadUserLogin ::
  "'w client_env \<Rightarrow> user_login \<Rightarrow> 'w client_world \<Rightarrow> (loaded_client \<times> 'w client_world) attempt" where
  "LoadUserLogin E login w =
     (case extractEmailCredentials login of
        Inl e \<Rightarrow> Failed e
      | Inr (email, username) \<Rightarrow>
          (case loadAccountCredentials (ce_store E) (ce_read E ReadAccount) (ul_User login, email) (cw_table w) of
             Inl e \<Rightarrow> Failed e
           | Inr a \<Rightarrow>
               (case createIMAPClient E (account_client login email username a) w of
                  Failed e \<Rightarrow> Failed e
                | Panicking \<Rightarrow> Panicking
                | Hanging \<Rightarrow> Hanging
                | Worked (c1, w1) \<Rightarrow>
                    (case with_signature E a (cw_table w1) (with_sender E a (cw_table w1) c1) of
                       Failed e \<Rightarrow> Failed e
                     | Panicking \<Rightarrow> Panicking
                     | Hanging \<Rightarrow> Hanging
                     | Worked c2 \<Rightarrow>
                         (case startGmailInboundIfApplicable E a c2 w1 of (err, c3, w2) \<Rightarrow> Worked (c3, w2))))))"

text \<open>The goroutine that registers the client, two seconds after it was loaded.\<close>

definition register_connected :: "loaded_client \<Rightarrow> 'w client_world \<Rightarrow> 'w client_world" where
  "register_connected c w =
     (if cl_cancelled c \<or> \<not> cl_isConnected c then w
      else case cl_IMAP c of
        None \<Rightarrow> w
      | Some (en, r) \<Rightarrow> w\<lparr>cw_imap := RegisterClient (fst (account_of c)) (snd (account_of c)) r (cw_imap w)\<rparr>)"

subsection \<open>Connecting\<close>

type_synonym 'w client_result = "(go_error option, loaded_client \<times> 'w client_world) outcome"

text \<open>An operation of the account's IMAP client, on its connection in the heap.\<close>

definition on_imap ::
  "('w imap_conn \<Rightarrow> 'w conn_result) \<Rightarrow> loaded_client \<times> 'w client_world \<Rightarrow> 'w client_result" where
  "on_imap f cw =
     (case cw of (c, w) \<Rightarrow>
        (case Option.bind (cl_IMAP c) (conns (cw_imap w) \<circ> snd) of
           None \<Rightarrow> Done None (c, w)
         | Some s \<Rightarrow>
             (let r = snd (the (cl_IMAP c)); put = (\<lambda>s'. (c, w\<lparr>cw_imap := put_conn r s' (cw_imap w)\<rparr>))
              in case f s of Done err s' \<Rightarrow> Done err (put s') | Blocked s' \<Rightarrow> Blocked (put s'))))"

definition reconnectIMAPClient :: "'w net_env \<Rightarrow> 'w imap_conn \<Rightarrow> 'w conn_result" where
  "reconnectIMAPClient env s =
     and_then (StopIDLE s) (\<lambda>_ s1.
       and_then (Disconnect env s1) (\<lambda>_ s2.
         and_then (Connect env (s2\<lparr>now := now s2 + ReconnectionSleepTime DefaultClientConfig\<rparr>)) (\<lambda>err s3.
           Done (map_option (Errorf ''failed to reconnect IMAP'') err) s3)))"

definition idle_conflict :: "go_error \<Rightarrow> bool" where
  "idle_conflict e = (contains_sub (to_lower (error_text e)) ''idle already'' \<or>
     contains_sub (to_lower (error_text e)) ''already running'')"

definition idle_attempt :: "'w net_env \<Rightarrow> 'w imap_conn \<Rightarrow> 'w conn_result" where
  "idle_attempt env s =
     and_then (TestConnection env s) (\<lambda>err s1. case err of
       Some e \<Rightarrow> Done (Some e) s1
     | None \<Rightarrow> and_then (StartIDLE env s1) (\<lambda>err s2. case err of
         None \<Rightarrow> Done None s2
       | Some e \<Rightarrow>
           if idle_conflict e then and_then (reconnectIMAPClient env s2) (\<lambda>_ s3. Done (Some e) s3)
           else Done (Some e) s2))"

text \<open>The delays of this retry loop and its context (45 s and the client's own) come in as \<open>delay\<close>, \<open>ctx\<close>.\<close>

definition startIDLEWithRetry ::
  "(nat \<Rightarrow> int) \<Rightarrow> go_error option \<Rightarrow> 'w net_env \<Rightarrow> 'w imap_conn \<Rightarrow> 'w conn_result" where
  "startIDLEWithRetry delay ctx env s =
     retry_in (env\<lparr>ne_delay := delay, ne_ctx := ctx\<rparr>) (nat (MaxAttempts (normalize_config IDLEStartupRetryConfig))) 0
       (idle_attempt env) s"

definition client_Connect ::
  "(nat \<Rightarrow> int) \<Rightarrow> go_error option \<Rightarrow> 'w net_env \<Rightarrow> loaded_client \<times> 'w client_world \<Rightarrow> 'w client_result" where
  "client_Connect delay ctx env cw =
     (case cw of (c, w) \<Rightarrow>
        if cl_IMAP c = None then
          (if cl_GmailAPIInbound c
           then (case event ''connection_established'' True [] c w of (c1, w1) \<Rightarrow>
                   Done None (event ''idle_started'' True [] c1 w1))
           else Done None (event ''auth_failure'' False EmailNotLoggedIn c w))
        else
          and_then (on_imap (Connect env) (event ''connection_started'' False [] c w)) (\<lambda>err (c1, w1). case err of
            Some e \<Rightarrow> Done None (event ''connection_lost'' False EmailConnectionFailed c1 w1)
          | None \<Rightarrow>
              and_then (on_imap (startIDLEWithRetry delay ctx env) (c1, w1)) (\<lambda>err (c2, w2). case err of
                Some e \<Rightarrow>
                  and_then (on_imap (Disconnect env) (c2\<lparr>cl_isConnected := False\<rparr>, w2)) (\<lambda>_ (c3, w3).
                    Done None (event ''idle_failed'' False EmailIdleFailed c3 w3))
              | None \<Rightarrow>
                  Done None (event ''idle_started'' True [] (c2\<lparr>cl_isConnected := True, cl_loops := True\<rparr>) w2))))"

subsection \<open>Disconnecting and logging out\<close>

definition disconnectIMAPClient :: "'w net_env \<Rightarrow> loaded_client \<times> 'w client_world \<Rightarrow> 'w client_result" where
  "disconnectIMAPClient env cw = and_then (on_imap StopIDLE cw) (\<lambda>_. on_imap (Disconnect env))"

definition client_Disconnect :: "'w net_env \<Rightarrow> loaded_client \<times> 'w client_world \<Rightarrow> 'w client_result" where
  "client_Disconnect env cw =
     (case cw of (c, w) \<Rightarrow>
        and_then (disconnectIMAPClient env (c\<lparr>cl_isConnected := False, cl_loops := False\<rparr>, w)) (\<lambda>_ (c1, w1).
          Done None (c1\<lparr>cl_cancelled := True\<rparr>, w1)))"

definition client_Stop :: "'w net_env \<Rightarrow> loaded_client \<times> 'w client_world \<Rightarrow> 'w client_result" where
  "client_Stop env cw =
     (case cw of (c, w) \<Rightarrow>
        and_then (disconnectIMAPClient env (c\<lparr>cl_isConnected := False, cl_loops := False\<rparr>, w)) (\<lambda>_ (c1, w1).
          Done None (c1\<lparr>cl_cancelled := True\<rparr>, w1)))"

definition LogoutRemote ::
  "go_error option \<Rightarrow> 'w net_env \<Rightarrow> loaded_client \<times> 'w client_world \<Rightarrow> 'w client_result" where
  "LogoutRemote db env cw =
     (case cw of (c, w) \<Rightarrow>
        and_then (client_Disconnect env (c, w\<lparr>cw_table := snd (DeleteAccount db (account_of c) (cw_table w))\<rparr>)) (\<lambda>_ (c1, w1).
          case RemoveAccount env (fst (account_of c1)) (snd (account_of c1)) (cw_imap w1) of
            Blocked m \<Rightarrow> Blocked (c1, w1\<lparr>cw_imap := m\<rparr>)
          | Done err m \<Rightarrow> Done None (c1\<lparr>cl_Password := [], cl_IMAP := None, cl_deleted := True\<rparr>, w1\<lparr>cw_imap := m\<rparr>)))"

definition IsLoggedIn :: "loaded_client \<Rightarrow> bool" where
  "IsLoggedIn c = (cl_IMAP c \<noteq> None \<or> cl_Sender c \<noteq> None)"

definition client_IsConnected :: "loaded_client \<Rightarrow> bool" where
  "client_IsConnected c = cl_isConnected c"

definition IsThisUser :: "loaded_client \<Rightarrow> gostring \<Rightarrow> bool" where
  "IsThisUser c userID = (userID = EmailToGhostID (cl_Email c))"

subsection \<open>Periodic sync\<close>

text \<open>
  \<open>performPeriodicSync\<close>: \<open>before\<close> and \<open>after\<close> are the two clock readings, \<open>check\<close> is \<open>CheckNewMessages\<close> of the
  IMAP client, \<open>cancelled\<close> whether the loop's context is done.
\<close>

definition imap_connected :: "loaded_client \<times> 'w client_world \<Rightarrow> bool" where
  "imap_connected cw =
     (case Option.bind (cl_IMAP (fst cw)) (conns (cw_imap (snd cw)) \<circ> snd) of
        None \<Rightarrow> False | Some s \<Rightarrow> connected_inbox (box s))"

definition performPeriodicSync ::
  "bool \<Rightarrow> gotime \<Rightarrow> gotime \<Rightarrow> ('w imap_conn \<Rightarrow> 'w conn_result) \<Rightarrow> loaded_client \<times> 'w client_world \<Rightarrow> 'w client_result" where
  "performPeriodicSync cancelled before after check cw =
     (if cancelled then Done None cw
      else if before - cl_lastSync (fst cw) < SyncThrottleTime DefaultClientConfig then Done None cw
      else and_then (if imap_connected cw then on_imap check cw else Done None cw) (\<lambda>_ (c, w).
        Done None (c\<lparr>cl_lastSync := after\<rparr>, w)))"

end
