(* ===== verification/ReauthFacts.thy ===== *)
theory ReauthFacts
  imports Reauth AccountFacts
begin

text \<open>
  The re-auth notices: at most one an hour for an account, whatever fails, as long as the process
  lives, and across restarts as long as the statements on the notice column work.  Then what a
  failed and a successful refresh leave in the account table.
\<close>

subsection \<open>Runs\<close>

text \<open>
  Failed refreshes, saved tokens, any other statement on the table, restarts; in any order and for
  any accounts.
\<close>

datatype reauth_event =
    RefreshFails reauth_env account_key gostring "gostring option" go_error
  | TokenSaved reauth_env account_key gostring oauth_token
  | TableStatement store_env "go_error option" account_op
  | ProcessRestart

fun reauth_step :: "reauth_event \<Rightarrow> reauth_world \<Rightarrow> reauth_world \<times> bool" where
  "reauth_step (RefreshFails R k scope retrieve err) w = prod.swap (HandleRefreshError R k scope retrieve err w)"
| "reauth_step (TokenSaved R k provider tok) w = (snd (save_refreshed R k provider tok w), False)"
| "reauth_step (TableStatement E db op) w = (w\<lparr>rw_table := fst (account_step E (db, op) (rw_table w))\<rparr>, False)"
| "reauth_step ProcessRestart w = (w\<lparr>rw_memo := Map.empty\<rparr>, False)"

definition notice_times :: "account_key \<Rightarrow> reauth_world \<Rightarrow> gotime list" where
  "notice_times k w = map fst (filter (\<lambda>(t, k', room, msg). k' = k) (rw_notices w))"

definition hour_apart :: "gotime list \<Rightarrow> bool" where
  "hour_apart ts \<longleftrightarrow> sorted_wrt (\<lambda>a b. a + reauthDebounceWindow \<le> b) ts"

lemma hour_apart_snoc:
  "hour_apart ts \<Longrightarrow> \<forall>t \<in> set ts. t + reauthDebounceWindow \<le> now' \<Longrightarrow> hour_apart (ts @ [now'])"
  by (simp add: hour_apart_def sorted_wrt_append)

lemma notice_times_snoc:
  "rw_notices w' = rw_notices w @ [(t, k', room, msg)] \<Longrightarrow>
     notice_times k w' = notice_times k w @ (if k' = k then [t] else [])"
  by (simp add: notice_times_def)

subsection \<open>One failed refresh\<close>

definition memo_allows :: "'a reauth_world_scheme \<Rightarrow> account_key \<Rightarrow> gotime \<Rightarrow> bool" where
  "memo_allows w k t \<longleftrightarrow> (\<forall>m. rw_memo w (reauthMemoKey k) = Some m \<longrightarrow> m + reauthDebounceWindow \<le> t)"

lemma send_notice_cases:
  obtains "rw_notices (send_notice R k scope w) = rw_notices w"
  | room msg where "rw_notices (send_notice R k scope w) = rw_notices w @ [(rv_now R, k, room, msg)]"
  by (cases "sendBridgeNotice (rv_notice R)"; cases "nv_user (rv_notice R)") (simp_all add: send_notice_def Let_def)

lemma send_notice_fields:
  "rw_memo (send_notice R k scope w) = rw_memo w"
  "rw_table (send_notice R k scope w) = snd (MarkReauthNotified (rv_notice_db R) k (rv_now R) (rw_table w))"
  by (auto simp: send_notice_def Let_def split: sum.splits)

lemma Notify_cases:
  obtains (memo) "NotifyReauthRequired R k scope w = w"
  | (disk) "memo_allows w k (rv_now R)" and "noticed_lately R k (rw_table w)"
      and "NotifyReauthRequired R k scope w = w\<lparr>rw_memo := (rw_memo w)(reauthMemoKey k \<mapsto> rv_now R)\<rparr>"
  | (send) "memo_allows w k (rv_now R)" and "\<not> noticed_lately R k (rw_table w)"
      and "NotifyReauthRequired R k scope w =
        send_notice R k scope (w\<lparr>rw_memo := (rw_memo w)(reauthMemoKey k \<mapsto> rv_now R)\<rparr>)"
proof (cases "memo_allows w k (rv_now R)")
  case True
  then show thesis
    using disk send by (cases "rw_memo w (reauthMemoKey k)"; cases "noticed_lately R k (rw_table w)")
      (auto simp: NotifyReauthRequired_def memo_allows_def Let_def)
next
  case False
  then have "NotifyReauthRequired R k scope w = w"
    by (auto simp: NotifyReauthRequired_def memo_allows_def)
  with memo show thesis .
qed

lemma marked_fields:
  "rw_notices (w\<lparr>rw_table := t\<rparr>) = rw_notices w" "rw_memo (w\<lparr>rw_table := t\<rparr>) = rw_memo w"
  "notice_times k (w\<lparr>rw_table := t\<rparr>) = notice_times k w" "memo_allows (w\<lparr>rw_table := t\<rparr>) k = memo_allows w k"
  "notice_times k (w\<lparr>rw_memo := m\<rparr>) = notice_times k w"
  by (simp_all add: notice_times_def memo_allows_def fun_eq_iff)

subsection \<open>Within one process\<close>

definition memo_inv :: "account_key \<Rightarrow> reauth_world \<Rightarrow> bool" where
  "memo_inv k w \<longleftrightarrow> hour_apart (notice_times k w) \<and>
     (\<forall>t \<in> set (notice_times k w). \<exists>m. rw_memo w (reauthMemoKey k) = Some m \<and> t \<le> m)"

fun in_process :: "reauth_event \<Rightarrow> bool" where
  "in_process ProcessRestart = False"
| "in_process e = True"

lemma memo_inv_cong:
  "memo_inv k w \<Longrightarrow> rw_notices w' = rw_notices w \<Longrightarrow> rw_memo w' = rw_memo w \<Longrightarrow> memo_inv k w'"
  by (simp add: memo_inv_def notice_times_def)

lemma memo_inv_debounced:
  assumes inv: "memo_inv k w" and a: "memo_allows w k' (rv_now R)"
    and m: "rw_memo w' = (rw_memo w)(reauthMemoKey k' \<mapsto> rv_now R)"
    and n: "rw_notices w' = rw_notices w \<or> (\<exists>room msg. rw_notices w' = rw_notices w @ [(rv_now R, k', room, msg)])"
  shows "memo_inv k w'"
proof (cases "reauthMemoKey k' = reauthMemoKey k")
  case True
  then have old: "\<forall>t \<in> set (notice_times k w). t + reauthDebounceWindow \<le> rv_now R"
    using inv a by (fastforce simp: memo_inv_def memo_allows_def)
  then have le: "\<forall>t \<in> set (notice_times k w). t \<le> rv_now R" by (force simp: reauthDebounceWindow_def)
  have "notice_times k w' = notice_times k w \<or> notice_times k w' = notice_times k w @ [rv_now R]"
    using n by (auto simp: notice_times_def)
  then consider "notice_times k w' = notice_times k w" | "notice_times k w' = notice_times k w @ [rv_now R]" by blast
  then show ?thesis
    by cases (use inv old le m True in \<open>auto simp: memo_inv_def intro: hour_apart_snoc\<close>)
next
  case False
  then have "notice_times k w' = notice_times k w" using n by (auto simp: notice_times_def)
  then show ?thesis using inv False by (simp add: memo_inv_def m)
qed

lemma memo_inv_refresh_fails:
  assumes inv: "memo_inv k w" shows "memo_inv k (snd (HandleRefreshError R k' scope retrieve err w))"
proof -
  let ?w = "w\<lparr>rw_table := snd (MarkAccountNeedsReauth (rv_mark_db R) k' (rw_table w))\<rparr>"
  have i: "memo_inv k ?w" using inv by (rule memo_inv_cong) simp_all
  have "memo_inv k (NotifyReauthRequired R k' scope ?w)"
  proof (cases rule: Notify_cases [of R k' scope ?w])
    case memo
    with i show ?thesis by simp
  next
    case disk
    then show ?thesis by (intro memo_inv_debounced [OF i disk(1)]) simp_all
  next
    case send
    show ?thesis
    proof (rule memo_inv_debounced [OF i send(1)])
      let ?v = "?w\<lparr>rw_memo := (rw_memo ?w)(reauthMemoKey k' \<mapsto> rv_now R)\<rparr>"
      show "rw_memo (NotifyReauthRequired R k' scope ?w) = (rw_memo ?w)(reauthMemoKey k' \<mapsto> rv_now R)"
        unfolding send(3) by (simp add: send_notice_fields)
      show "rw_notices (NotifyReauthRequired R k' scope ?w) = rw_notices ?w \<or>
          (\<exists>room msg. rw_notices (NotifyReauthRequired R k' scope ?w) = rw_notices ?w @ [(rv_now R, k', room, msg)])"
        unfolding send(3) by (rule send_notice_cases [of R k' scope ?v]) auto
    qed
  qed
  with inv show ?thesis by (simp add: HandleRefreshError_def Let_def)
qed

interpretation notices: machine reauth_step in_process "memo_inv k"
proof unfold_locales
  fix w :: reauth_world and e w' r
  assume inv: "memo_inv k w" and ok: "in_process e" and st: "reauth_step e w = (w', r)"
  show "memo_inv k w'"
  proof (cases e)
    case (RefreshFails R k' scope retrieve err)
    with st have "w' = snd (HandleRefreshError R k' scope retrieve err w)"
      by (cases "HandleRefreshError R k' scope retrieve err w") auto
    with inv show ?thesis by (simp add: memo_inv_refresh_fails)
  next
    case (TokenSaved R k' provider tok)
    with st inv show ?thesis
      by (auto simp: save_refreshed_def split: prod.splits intro: memo_inv_cong)
  qed (use st ok inv in \<open>auto intro: memo_inv_cong\<close>)
qed

text \<open>
  Whatever the database, the homeserver and the clock do, and whatever else happens to the
  account table, two re-auth notices for the same account that reach the user within one run of
  the process are at least an hour apart.
\<close>

theorem reauth_notices_hour_apart:
  assumes "list_all in_process es" and "rw_notices w = []"
    and "run_steps reauth_step es w = (w', rs)"
  shows "hour_apart (notice_times k w')"
proof -
  have "memo_inv k w" using assms(2) by (simp add: memo_inv_def notice_times_def hour_apart_def)
  from notices.run_inv [OF this assms(1,3)] show ?thesis by (simp add: memo_inv_def)
qed

subsection \<open>Across restarts\<close>

text \<open>
  What the second debounce needs of one account: its row is there, the statements on its notice
  column work, the clock lies within the years an \<open>int64\<close> of nanoseconds counts, and no new login
  clears the column.
\<close>

fun quiet_op :: "account_key \<Rightarrow> account_op \<Rightarrow> bool" where
  "quiet_op k (Delete k') = (k' \<noteq> k)"
| "quiet_op k (LoginToken rnds t k' provider scope tok) = (k' \<noteq> k)"
| "quiet_op k (Notified k' t) = (k' \<noteq> k)"
| "quiet_op k op = True"

fun disk_works :: "account_key \<Rightarrow> reauth_event \<Rightarrow> bool" where
  "disk_works k (RefreshFails R k' scope retrieve err) \<longleftrightarrow>
     k' = k \<longrightarrow> rv_read R = QueryWorks \<and> rv_notice_db R = None \<and>
                 unix_epoch < rv_now R \<and> rv_now R < unix_epoch + 2 ^ 63"
| "disk_works k (TableStatement E db op) = quiet_op k op"
| "disk_works k e = True"

definition notice_column :: "account_key \<Rightarrow> account_table \<Rightarrow> int option" where
  "notice_column k tab = map_option (\<lambda>r. coalesce 0 (ar_notice_at r)) (map_of tab k)"

lemma notice_column_update:
  "(\<And>r. k' = k \<Longrightarrow> ar_notice_at (f r) = ar_notice_at r) \<Longrightarrow> notice_column k (update_row k' f tab) = notice_column k tab"
  by (cases "map_of tab k") (auto simp: notice_column_def)

lemma notice_column_other [simp]: "k' \<noteq> k \<Longrightarrow> notice_column k (update_row k' f tab) = notice_column k tab"
  by (rule notice_column_update) simp

lemma notice_column_exec:
  "notice_column k (f tab) = c \<Longrightarrow> notice_column k tab = c \<Longrightarrow> notice_column k (snd (exec db f tab)) = c"
  by (simp add: exec_def split: option.split)

lemma notice_column_saved:
  assumes "scope = [] \<or> k' \<noteq> k"
  shows "notice_column k (snd (saveOAuthTokenInternal E db rnds t k' provider scope tok stamp tab)) = notice_column k tab"
proof -
  obtain o1 tab' where s: "saveOAuthTokenInternal E db rnds t k' provider scope tok stamp tab = (o1, tab')" by fastforce
  from saved_token_cases [OF s] show ?thesis
    using assms by (auto simp: s token_row_def intro!: notice_column_update split: if_splits)
qed

lemma notice_column_op:
  assumes "quiet_op k op" and c: "notice_column k tab = Some c"
  shows "notice_column k (fst (account_step E (db, op) tab)) = Some c"
proof (cases op)
  case (Upsert rnd a)
  have "notice_column k (insert_or_update k' (new_row a enc js) (conflict_row a enc js) tab) = Some c" for k' enc js
    using c by (auto simp: notice_column_def conflict_row_def split: option.splits)
  then show ?thesis using c Upsert
    by (auto simp: account_step_def UpsertAccount_def Let_def intro!: notice_column_exec split: sum.splits)
next
  case (Delete k')
  with assms(1) have "notice_column k (filter (\<lambda>(k'', r). k'' \<noteq> k') tab) = notice_column k tab"
    by (simp add: notice_column_def)
  with Delete c show ?thesis by (simp add: account_step_def DeleteAccount_def notice_column_exec)
next
  case (LoginToken rnds t k' provider scope tok)
  with assms show ?thesis by (simp add: account_step_def SaveOAuthTokenWithScope_def notice_column_saved)
next
  case (RefreshToken rnds k' provider tok)
  with assms show ?thesis by (simp add: account_step_def SaveOAuthToken_def notice_column_saved)
qed (use assms in \<open>auto simp: account_step_def UpdateLastSync_def UpdateMonitoredFolders_def SetAuthType_def
       MarkReauthNotified_def SetGmailHistoryID_def intro!: notice_column_exec notice_column_update [THEN trans]\<close>)

lemma UnixNano_id: "unix_epoch < t \<Longrightarrow> t < unix_epoch + 2 ^ 63 \<Longrightarrow> UnixNano t = t - unix_epoch"
  unfolding UnixNano_def by (rule wrap64_id) (simp add: int64_def)

lemma noticed_lately_column:
  assumes "rv_read R = QueryWorks" and "notice_column k tab = Some c" and "0 < c" and "\<not> noticed_lately R k tab"
  shows "c + unix_epoch + reauthDebounceWindow \<le> rv_now R"
  using assms by (auto simp: noticed_lately_def LastReauthNotifiedAt_def read_column_def notice_column_def
      fromUnixNano_def unix_epoch_def)

definition disk_inv :: "account_key \<Rightarrow> reauth_world \<Rightarrow> bool" where
  "disk_inv k w \<longleftrightarrow> hour_apart (notice_times k w) \<and>
     (\<exists>c. notice_column k (rw_table w) = Some c \<and>
          (\<forall>t \<in> set (notice_times k w). 0 < c \<and> t \<le> c + unix_epoch))"

lemma disk_inv_cong:
  "disk_inv k w \<Longrightarrow> notice_times k w' = notice_times k w \<Longrightarrow>
     notice_column k (rw_table w') = notice_column k (rw_table w) \<Longrightarrow> disk_inv k w'"
  by (simp add: disk_inv_def)

lemma disk_inv_sent:
  assumes inv: "disk_inv k w" and n: "\<not> noticed_lately R k (rw_table w)"
    and R: "rv_read R = QueryWorks" "rv_notice_db R = None" "unix_epoch < rv_now R" "rv_now R < unix_epoch + 2 ^ 63"
  shows "disk_inv k (send_notice R k scope w)"
proof -
  obtain c where c: "notice_column k (rw_table w) = Some c"
    and ts: "\<forall>t \<in> set (notice_times k w). 0 < c \<and> t \<le> c + unix_epoch"
    using inv by (auto simp: disk_inv_def)
  have late: "\<forall>t \<in> set (notice_times k w). t + reauthDebounceWindow \<le> rv_now R"
    using ts noticed_lately_column [OF R(1) c _ n] by fastforce
  then have le: "\<forall>t \<in> set (notice_times k w). t \<le> rv_now R" by (force simp: reauthDebounceWindow_def)
  have col: "notice_column k (rw_table (send_notice R k scope w)) = Some (rv_now R - unix_epoch)"
    using c by (auto simp: send_notice_fields MarkReauthNotified_def exec_def R(2) UnixNano_id [OF R(3,4)] notice_column_def coalesce_def)
  have "notice_times k (send_notice R k scope w) = notice_times k w \<or>
      notice_times k (send_notice R k scope w) = notice_times k w @ [rv_now R]"
    by (rule send_notice_cases [of R k scope w]) (auto simp: notice_times_def)
  then show ?thesis
    using inv late le R(3) by (auto simp: disk_inv_def col intro: hour_apart_snoc)
qed

lemma other_account_untouched:
  assumes "k' \<noteq> k"
  shows "notice_times k (NotifyReauthRequired R k' scope w) = notice_times k w \<and>
    notice_column k (rw_table (NotifyReauthRequired R k' scope w)) = notice_column k (rw_table w)"
proof (cases rule: Notify_cases [of R k' scope w])
  case send
  let ?v = "w\<lparr>rw_memo := (rw_memo w)(reauthMemoKey k' \<mapsto> rv_now R)\<rparr>"
  have "notice_times k (send_notice R k' scope ?v) = notice_times k w"
    using assms by (cases rule: send_notice_cases [of R k' scope ?v]) (auto simp: notice_times_def)
  moreover have "notice_column k (rw_table (send_notice R k' scope ?v)) = notice_column k (rw_table w)"
    using assms by (simp add: send_notice_fields MarkReauthNotified_def exec_def notice_column_update split: option.split)
  ultimately show ?thesis by (simp add: send(3))
qed (simp_all add: notice_times_def)

lemma disk_inv_refresh_fails:
  assumes inv: "disk_inv k w" and ok: "disk_works k (RefreshFails R k' scope retrieve err)"
  shows "disk_inv k (snd (HandleRefreshError R k' scope retrieve err w))"
proof -
  let ?w = "w\<lparr>rw_table := snd (MarkAccountNeedsReauth (rv_mark_db R) k' (rw_table w))\<rparr>"
  have i: "disk_inv k ?w"
    by (rule disk_inv_cong [OF inv])
       (simp_all add: notice_times_def MarkAccountNeedsReauth_def SetAuthType_def notice_column_exec notice_column_update)
  have "disk_inv k (NotifyReauthRequired R k' scope ?w)"
  proof (cases "k' = k")
    case True
    have i': "disk_inv k (?w\<lparr>rw_memo := m\<rparr>)" for m by (rule disk_inv_cong [OF i]) (simp_all add: notice_times_def)
    show ?thesis
    proof (cases rule: Notify_cases [of R k' scope ?w])
      case send
      from ok True have "rv_read R = QueryWorks" "rv_notice_db R = None" "unix_epoch < rv_now R" "rv_now R < unix_epoch + 2 ^ 63"
        by simp_all
      with send(2) True show ?thesis unfolding send(3) by (auto intro!: disk_inv_sent i' [unfolded True])
    qed (use i i' in simp_all)
  next
    case False
    with other_account_untouched i show ?thesis by (metis disk_inv_cong)
  qed
  with inv show ?thesis by (simp add: HandleRefreshError_def Let_def)
qed

interpretation restarts: machine reauth_step "disk_works k" "disk_inv k"
proof unfold_locales
  fix w :: reauth_world and e w' r
  assume inv: "disk_inv k w" and ok: "disk_works k e" and st: "reauth_step e w = (w', r)"
  show "disk_inv k w'"
  proof (cases e)
    case (RefreshFails R k' scope retrieve err)
    with st have "w' = snd (HandleRefreshError R k' scope retrieve err w)"
      by (cases "HandleRefreshError R k' scope retrieve err w") auto
    with inv ok RefreshFails show ?thesis by (simp add: disk_inv_refresh_fails)
  next
    case (TokenSaved R k' provider tok)
    have "notice_column k (snd (SaveOAuthToken (rv_store R) (rv_save_db R) (rv_nonces R) (rv_now R) k' provider (Some tok)
        (rw_table w))) = notice_column k (rw_table w)"
      by (simp add: SaveOAuthToken_def notice_column_saved)
    with st TokenSaved show ?thesis
      by (auto simp: save_refreshed_def notice_times_def split: prod.splits intro!: disk_inv_cong [OF inv])
  next
    case (TableStatement E db op)
    with inv ok st show ?thesis by (auto simp: disk_inv_def marked_fields notice_column_op)
  next
    case ProcessRestart
    with st show ?thesis by (auto simp: notice_times_def intro!: disk_inv_cong [OF inv])
  qed
qed

text \<open>
  C30: restarts, which forget the notices sent, do not make them more frequent: for an account whose
  row stays in the table, as long as its notice column can be read and written and no new login
  clears it, any two of its notices are at least an hour apart.
\<close>

theorem reauth_notices_across_restarts:
  assumes "list_all (disk_works k) es" and "rw_notices w = []" and "map_of (rw_table w) k \<noteq> None"
    and "run_steps reauth_step es w = (w', rs)"
  shows "hour_apart (notice_times k w')"
proof -
  have "disk_inv k w"
    using assms(2,3) by (auto simp: disk_inv_def notice_times_def hour_apart_def notice_column_def)
  from restarts.run_inv [OF this assms(1,4)] show ?thesis by (simp add: disk_inv_def)
qed

subsection \<open>The flag in the account table\<close>

text \<open>
  A permanent failure flags the account when the statement works: it stays in the table, with its
  tokens, as one that needs a new login.
\<close>

lemma permanent_failure_flags:
  assumes "IsRefreshError retrieve (Some err)" and "rv_mark_db R = None"
    and "map_of (rw_table w) k = Some r"
    and "HandleRefreshError R k scope retrieve err w = (permanent, w')"
  shows "permanent \<and> (\<exists>r'. map_of (rw_table w') k = Some r' \<and> ar_auth_type r' = AuthTypeOAuthGmailNeedsReauth \<and>
    ar_refresh r' = ar_refresh r \<and> ar_password r' = ar_password r)"
proof -
  let ?w = "w\<lparr>rw_table := snd (MarkAccountNeedsReauth (rv_mark_db R) k (rw_table w))\<rparr>"
  have w': "permanent" "w' = NotifyReauthRequired R k scope ?w"
    using assms(1,4) by (auto simp: HandleRefreshError_def Let_def)
  have m: "map_of (rw_table ?w) k = Some (r\<lparr>ar_auth_type := AuthTypeOAuthGmailNeedsReauth\<rparr>)"
    using assms(2,3) by (simp add: MarkAccountNeedsReauth_def SetAuthType_def exec_def)
  have "\<exists>r'. map_of (rw_table w') k = Some r' \<and> ar_auth_type r' = AuthTypeOAuthGmailNeedsReauth \<and>
      ar_refresh r' = ar_refresh r \<and> ar_password r' = ar_password r"
  proof (cases rule: Notify_cases [of R k scope ?w])
    case send
    then show ?thesis using m
      by (auto simp: w'(2) send_notice_fields MarkReauthNotified_def exec_def split: option.split)
  qed (use m in \<open>simp_all add: w'(2)\<close>)
  with w'(1) show ?thesis by blast
qed

text \<open>
  Saving a refreshed token takes the flag off again, and puts back the refresh token the source was
  made with: a source that outlives a new login (the poller and the sender keep theirs) replaces
  the token of that login by its own.
\<close>

lemma refreshed_token_unflags:
  assumes "store_laws (rv_store R)" and "nonce_read (fst (rv_nonces R))" and "nonce_read (snd (rv_nonces R))"
    and "rv_save_db R = None" and "map_of (rw_table w) (ts_key s) = Some r"
    and "map_option tok_Access (ts_persisted s) \<noteq> Some (tok_Access tok)"
    and "source_Token R (Minted tok) (s, w) = (res, s', w')"
  shows "\<exists>r'. map_of (rw_table w') (ts_key s) = Some r' \<and> ar_auth_type r' = AuthTypeOAuthGmail \<and>
    stored_token (rv_store R) r' = Inr (Some (tok\<lparr>tok_Expiry := kept_time (tok_Expiry tok)\<rparr>))"
proof -
  obtain er where er: "encrypt (rv_store R) (fst (rv_nonces R)) (tok_Refresh tok) = Inr er"
      "decrypt (rv_store R) er = Inr (tok_Refresh tok)" "er \<noteq> []"
    using encrypt_works [OF assms(1,2)] .
  obtain ea where ea: "encrypt (rv_store R) (snd (rv_nonces R)) (tok_Access tok) = Inr ea"
      "decrypt (rv_store R) ea = Inr (tok_Access tok)" "ea \<noteq> []"
    using encrypt_works [OF assms(1,3)] .
  let ?p = "if ts_provider s = [] then OAuthProviderGoogle else ts_provider s"
  have w': "rw_table w' = update_row (ts_key s) (token_row ?p er ea (tok_Expiry tok)) (rw_table w)"
    using assms(5,6,7) er(1) ea(1)
    by (auto simp: source_Token_def save_refreshed_def SaveOAuthToken_def saveOAuthTokenInternal_def Let_def
        assms(4) split: prod.splits if_splits option.splits)
  have "stored_token (rv_store R) (token_row ?p er ea (tok_Expiry tok) r) =
      Inr (Some (tok\<lparr>tok_Expiry := kept_time (tok_Expiry tok)\<rparr>))"
    using er ea by (simp add: stored_token_def token_row_def coalesce_def kept_time_def stored_time_def Let_def)
  moreover have "ar_auth_type (token_row ?p er ea (tok_Expiry tok) r) = AuthTypeOAuthGmail"
    by (simp add: token_row_def)
  ultimately show ?thesis using assms(5) by (simp add: w')
qed

subsection \<open>Concrete runs\<close>

definition sample_reauth :: "gotime \<Rightarrow> reauth_env" where
  "sample_reauth t = \<lparr>rv_mark_db = None, rv_read = QueryWorks, rv_notice_db = None, rv_save_db = None,
     rv_nonces = (sample_nonce, sample_nonce), rv_store = sample_store, rv_now = unix_epoch + t,
     rv_notice = \<lparr>nv_user = True, nv_room = Inr ''!mgmt'', nv_bot = True, nv_send = None\<rparr>\<rparr>"

definition sample_key :: account_key where "sample_key = (''@u'', ''u@x'')"

definition sample_failure :: "gotime \<Rightarrow> reauth_event" where
  "sample_failure t = RefreshFails (sample_reauth t) sample_key ''modify'' (Some ''invalid_grant'') (Err ''oauth2'')"

definition sample_reauth_world :: reauth_world where
  "sample_reauth_world = \<lparr>rw_table = [(sample_key, new_row sample_account ''x'' ''[]'')], rw_memo = Map.empty, rw_notices = []\<rparr>"

theorem reauth_notices_hour_apart_witness:
  "hour_apart (notice_times sample_key
     (fst (run_steps reauth_step [sample_failure 5, sample_failure 6, sample_failure (2 * reauthDebounceWindow)]
        sample_reauth_world)))"
proof -
  have "list_all in_process [sample_failure 5, sample_failure 6, sample_failure (2 * reauthDebounceWindow)]"
    by (simp add: sample_failure_def)
  moreover have "rw_notices sample_reauth_world = []" by (simp add: sample_reauth_world_def)
  ultimately show ?thesis by (rule reauth_notices_hour_apart [OF _ _ surjective_pairing])
qed

lemma sample_disk_works: "0 < t \<Longrightarrow> t < 2 ^ 63 \<Longrightarrow> disk_works sample_key (sample_failure t)"
  by (simp add: sample_failure_def sample_reauth_def)

theorem reauth_notices_across_restarts_witness:
  "hour_apart (notice_times sample_key
     (fst (run_steps reauth_step [sample_failure 5, ProcessRestart, sample_failure 6] sample_reauth_world)))"
proof -
  have "list_all (disk_works sample_key) [sample_failure 5, ProcessRestart, sample_failure 6]"
    by (simp add: sample_disk_works)
  moreover have "rw_notices sample_reauth_world = []" "map_of (rw_table sample_reauth_world) sample_key \<noteq> None"
    by (simp_all add: sample_reauth_world_def)
  ultimately show ?thesis by (rule reauth_notices_across_restarts [OF _ _ _ surjective_pairing])
qed

end
