(* ===== verification/ClientFacts.thy ===== *)
theory ClientFacts
  imports Client ReauthFacts OAuthFacts
begin

text \<open>
  What an account is served by: exactly one way in for a working account, none for one that waits for
  a new login.  What stays behind when an account logs out, and what the user is shown when a
  token is revoked.
\<close>

subsection \<open>Transports\<close>

lemma event_fields [simp]:
  "cl_login (fst (event n b k c w)) = cl_login c" "cl_Email (fst (event n b k c w)) = cl_Email c"
  "cl_IMAP (fst (event n b k c w)) = cl_IMAP c" "cl_Sender (fst (event n b k c w)) = cl_Sender c"
  "cl_GmailAPIInbound (fst (event n b k c w)) = cl_GmailAPIInbound c" "cl_isConnected (fst (event n b k c w)) = cl_isConnected c"
  "cw_table (snd (event n b k c w)) = cw_table w" "cw_pollers (snd (event n b k c w)) = cw_pollers w"
  by (simp_all add: event_def split: option.split prod.split)

text \<open>The client \<open>createIMAPClient\<close> leaves: its IMAP client is new or still absent.\<close>

lemma createIMAPClient_cases:
  assumes "createIMAPClient E c w = Worked (c', w')" and "cl_IMAP c = None"
  obtains (paused) info where "oauth_row (ce_store E) (ce_read E ReadForIMAP) (account_of c) (cw_table w) = Some info"
      and "oi_AuthType info = AuthTypeOAuthGmailNeedsReauth" and "c' = fst (event ''reauth_required'' False EmailReauthRequired c w)"
      and "w' = snd (event ''reauth_required'' False EmailReauthRequired c w)"
  | (modify) info where "oauth_row (ce_store E) (ce_read E ReadForIMAP) (account_of c) (cw_table w) = Some info"
      and "oi_AuthType info \<noteq> AuthTypeOAuthGmailNeedsReauth" and "oi_ScopeMode info = ScopeModeModify"
      and "c' = c" and "w' = w"
  | (full) info tok en where "oauth_row (ce_store E) (ce_read E ReadForIMAP) (account_of c) (cw_table w) = Some info"
      and "oi_AuthType info \<noteq> AuthTypeOAuthGmailNeedsReauth" and "oi_ScopeMode info \<noteq> ScopeModeModify"
      and "oi_Token info = Some tok"
      and "NewClientOAuth (ce_lookupMX E) (cl_Email c) (cl_Username c) (tok_Access tok) (ce_idleSeconds E) = Some en"
      and "c' = fst (set_client E en c w)" and "w' = snd (set_client E en c w)"
  | (password) en where "oauth_row (ce_store E) (ce_read E ReadForIMAP) (account_of c) (cw_table w) = None"
      and "NewClient (ce_lookupMX E) (cl_Email c) (cl_Username c) (cl_Password c) (ce_idleSeconds E) = Some en"
      and "c' = fst (set_client E en c w)" and "w' = snd (set_client E en c w)"
proof -
  have "thesis" if "event ''reauth_required'' False EmailReauthRequired c w = (c', w')" "oi_AuthType info = AuthTypeOAuthGmailNeedsReauth"
    "oauth_row (ce_store E) (ce_read E ReadForIMAP) (account_of c) (cw_table w) = Some info" for info
    using paused that by (metis fst_conv snd_conv)
  moreover have "thesis" if "set_client E en c w = (c', w')" "oauth_row (ce_store E) (ce_read E ReadForIMAP) (account_of c) (cw_table w) = None"
    "NewClient (ce_lookupMX E) (cl_Email c) (cl_Username c) (cl_Password c) (ce_idleSeconds E) = Some en" for en
    using password that by (metis fst_conv snd_conv)
  moreover have "thesis" if "set_client E en c w = (c', w')" "oauth_row (ce_store E) (ce_read E ReadForIMAP) (account_of c) (cw_table w) = Some info"
    "oi_AuthType info \<noteq> AuthTypeOAuthGmailNeedsReauth" "oi_ScopeMode info \<noteq> ScopeModeModify" "oi_Token info = Some tok"
    "NewClientOAuth (ce_lookupMX E) (cl_Email c) (cl_Username c) (tok_Access tok) (ce_idleSeconds E) = Some en" for info tok en
    using full that by (metis fst_conv snd_conv)
  ultimately show thesis
    using assms(1) modify by (simp add: createIMAPClient_def split: option.splits if_splits)
qed

lemma set_client_fields [simp]:
  "cl_login (fst (set_client E en c w)) = cl_login c" "cl_Email (fst (set_client E en c w)) = cl_Email c"
  "cl_Sender (fst (set_client E en c w)) = cl_Sender c" "cl_GmailAPIInbound (fst (set_client E en c w)) = cl_GmailAPIInbound c"
  "cl_IMAP (fst (set_client E en c w)) = Some (en, next_conn (cw_imap w))" "cl_Password (fst (set_client E en c w)) = cl_Password c"
  "cw_table (snd (set_client E en c w)) = cw_table w" "cw_pollers (snd (set_client E en c w)) = cw_pollers w"
  by (simp_all add: set_client_def Let_def)

lemma createIMAPClient_fields:
  assumes "createIMAPClient E c w = Worked (c', w')" and "cl_IMAP c = None"
  shows "cl_login c' = cl_login c \<and> cl_Email c' = cl_Email c \<and> cl_Sender c' = cl_Sender c \<and>
    cl_GmailAPIInbound c' = cl_GmailAPIInbound c \<and> cw_table w' = cw_table w \<and> cw_pollers w' = cw_pollers w"
  using assms by (cases rule: createIMAPClient_cases) simp_all

lemma NewClient_credentials:
  "NewClient mx email u p i = Some en \<Longrightarrow> en_XOAUTH2 en = False \<and> en_Email en = email \<and> en_Username en = u \<and> en_Password en = p"
  by (auto simp: NewClient_def Let_def split: list.splits prod.splits)

lemma NewClientOAuth_credentials:
  "NewClientOAuth mx email u t i = Some en \<Longrightarrow> en_XOAUTH2 en = True \<and> en_Email en = email \<and> en_AccessToken en = t"
  by (auto simp: NewClientOAuth_def dest!: NewClient_credentials)

lemma oauth_row_fields:
  assumes "oauth_row E QueryWorks k tab = oinfo" and "map_of tab k = Some r"
  shows "oinfo = None \<longleftrightarrow> \<not> is_oauth (ar_auth_type r)"
    and "oinfo = Some info \<Longrightarrow> oi_AuthType info = ar_auth_type r \<and> oi_ScopeMode info = stored_scope r"
  using assms by (auto simp: oauth_row_def GetOAuthAccount_def map_sum_def split: sum.splits if_splits)

lemma with_signature_fields:
  assumes "with_signature E a tab c = Worked c'"
  shows "cl_IMAP c' = cl_IMAP c \<and> cl_Sender c' = cl_Sender c \<and> cl_GmailAPIInbound c' = cl_GmailAPIInbound c \<and>
    account_of c' = account_of c"
  using assms by (auto simp: with_signature_def loadGmailSignature_def split: if_splits sum.splits option.splits attempt.splits)

lemma startGmail_fields:
  assumes "startGmailInboundIfApplicable E a c w = (err, c', w')"
  shows "cl_IMAP c' = cl_IMAP c \<and> cl_Sender c' = cl_Sender c \<and> account_of c' = account_of c \<and> cw_table w' = cw_table w"
    and "ea_AuthType a \<noteq> AuthTypeOAuthGmail \<Longrightarrow> c' = c \<and> w' = w"
  using assms by (auto simp: startGmailInboundIfApplicable_def Let_def split: if_splits sum.splits option.splits)

text \<open>The parts of a loaded login.\<close>

lemma LoadUserLogin_cases:
  assumes "LoadUserLogin E login w = Worked (c, w')"
  obtains email username a c1 w1 c2 err where
    "extractEmailCredentials login = Inr (email, username)"
    and "GetAccount_db (ce_store E) (ce_read E ReadAccount) (ul_User login, email) (cw_table w) = Inr (Some a)"
    and "createIMAPClient E (account_client login email username a) w = Worked (c1, w1)"
    and "with_signature E a (cw_table w1) (with_sender E a (cw_table w1) c1) = Worked c2"
    and "startGmailInboundIfApplicable E a c2 w1 = (err, c, w')"
  using assms by (auto simp: LoadUserLogin_def loadAccountCredentials_def split: sum.splits option.splits prod.splits attempt.splits)

lemma GetAccount_row:
  assumes "GetAccount_db E QueryWorks k tab = Inr (Some a)"
  obtains r where "map_of tab k = Some r" and "ea_AuthType a = ar_auth_type r" and "decrypt E (ar_password r) = Inr (ea_Password a)"
  using assms by (auto simp: GetAccount_db_def load_row_def fill_account_def split: option.splits sum.splits)

text \<open>How the row of an account says it is to be served.\<close>

datatype way_in = ByPassword | ByXOAUTH2 | ByGmailAPI | Paused

definition way_in_of :: "account_row \<Rightarrow> way_in" where
  "way_in_of r =
     (if \<not> is_oauth (ar_auth_type r) then ByPassword
      else if ar_auth_type r = AuthTypeOAuthGmailNeedsReauth then Paused
      else if stored_scope r = ScopeModeModify then ByGmailAPI else ByXOAUTH2)"

lemma way_in_oauth:
  "is_oauth a \<Longrightarrow> a \<noteq> AuthTypeOAuthGmailNeedsReauth \<Longrightarrow> a = AuthTypeOAuthGmail"
  by (auto simp: is_oauth_def)

lemma inbound_row:
  assumes "startGmailInboundIfApplicable E a c w = (err, c', w')" and "ce_read E ReadForPoller = QueryWorks"
    and "map_of (cw_table w) (account_of c) = Some r" and "stored_scope r \<noteq> ScopeModeModify"
  shows "c' = c \<and> w' = w"
  using assms
  by (auto simp: startGmailInboundIfApplicable_def GetOAuthAccount_def map_sum_def Let_def
      split: if_splits sum.splits option.splits)

lemma inbound_started:
  assumes "startGmailInboundIfApplicable E a c w = (err, c', w')" and "\<not> cl_GmailAPIInbound c"
  shows "cl_GmailAPIInbound c' \<longrightarrow> gi_runners (cw_pollers w') (runner_key (fst (account_of c)) (snd (account_of c))) \<noteq> None"
  using assms
  by (auto simp: startGmailInboundIfApplicable_def inbound_Start_def Let_def split: if_splits sum.splits option.splits)

lemma paused_sender:
  assumes "ce_read E ReadForSender = QueryWorks" and "map_of tab (account_of c) = Some r"
    and "ea_AuthType a = ar_auth_type r" and "ar_auth_type r = AuthTypeOAuthGmailNeedsReauth"
  shows "with_sender E a tab c = c"
  using assms
  by (auto simp: with_sender_def buildSender_def GetOAuthAccount_def is_oauth_def map_sum_def
      split: sum.splits option.splits if_splits)

lemma with_sender_fields [simp]:
  "cl_IMAP (with_sender E a tab c) = cl_IMAP c" "cl_GmailAPIInbound (with_sender E a tab c) = cl_GmailAPIInbound c"
  "cl_login (with_sender E a tab c) = cl_login c" "cl_Email (with_sender E a tab c) = cl_Email c"
  by (simp_all add: with_sender_def split: sum.split)

lemma account_client_fields [simp]:
  "cl_IMAP (account_client login email username a) = None" "cl_Sender (account_client login email username a) = None"
  "cl_GmailAPIInbound (account_client login email username a) = False" "cl_login (account_client login email username a) = login"
  "cl_Email (account_client login email username a) = email" "cl_Password (account_client login email username a) = ea_Password a"
  by (simp_all add: account_client_def new_client_def)

lemma loaded_account:
  assumes reads: "ce_read E = (\<lambda>_. QueryWorks)" and load: "LoadUserLogin E login w = Worked (c, w')"
    and row: "map_of (cw_table w) (account_of c) = Some r"
  shows "case way_in_of r of
      ByPassword \<Rightarrow> (\<exists>en ref. cl_IMAP c = Some (en, ref) \<and> \<not> en_XOAUTH2 en \<and>
          decrypt (ce_store E) (ar_password r) = Inr (en_Password en)) \<and>
        \<not> cl_GmailAPIInbound c \<and> cw_pollers w' = cw_pollers w
    | ByXOAUTH2 \<Rightarrow> (\<exists>en ref. cl_IMAP c = Some (en, ref) \<and> en_XOAUTH2 en) \<and>
        \<not> cl_GmailAPIInbound c \<and> cw_pollers w' = cw_pollers w
    | ByGmailAPI \<Rightarrow> cl_IMAP c = None \<and>
        (cl_GmailAPIInbound c \<longrightarrow> gi_runners (cw_pollers w') (runner_key (fst (account_of c)) (snd (account_of c))) \<noteq> None)
    | Paused \<Rightarrow> cl_IMAP c = None \<and> cl_Sender c = None \<and> \<not> cl_GmailAPIInbound c \<and> cw_pollers w' = cw_pollers w"
proof -
  obtain email username a c1 w1 c2 err where
    acc: "GetAccount_db (ce_store E) QueryWorks (ul_User login, email) (cw_table w) = Inr (Some a)"
    and cre: "createIMAPClient E (account_client login email username a) w = Worked (c1, w1)"
    and sig: "with_signature E a (cw_table w1) (with_sender E a (cw_table w1) c1) = Worked c2"
    and gm: "startGmailInboundIfApplicable E a c2 w1 = (err, c, w')"
    using LoadUserLogin_cases [OF load] unfolding reads by metis
  let ?c0 = "account_client login email username a"
  obtain r' where r': "map_of (cw_table w) (ul_User login, email) = Some r'" "ea_AuthType a = ar_auth_type r'"
      "decrypt (ce_store E) (ar_password r') = Inr (ea_Password a)"
    using GetAccount_row [OF acc] .
  have w1: "cw_table w1 = cw_table w" and c1: "cl_login c1 = login" "cl_Email c1 = email" "\<not> cl_GmailAPIInbound c1"
      "cl_Sender c1 = None" and p1: "cw_pollers w1 = cw_pollers w"
    using createIMAPClient_fields [OF cre] by simp_all
  have s: "cl_IMAP c2 = cl_IMAP c1" "account_of c2 = (ul_User login, email)" "\<not> cl_GmailAPIInbound c2"
      "cl_Sender c2 = cl_Sender (with_sender E a (cw_table w1) c1)"
    using with_signature_fields [OF sig] c1 by simp_all
  have c: "cl_IMAP c = cl_IMAP c1" "cl_Sender c = cl_Sender c2" "account_of c = (ul_User login, email)"
    using startGmail_fields(1) [OF gm] s by simp_all
  have rr: "r' = r" using row r' by (simp add: c(3))
  note info = oauth_row_fields [of "ce_store E" "(ul_User login, email)" "cw_table w", OF refl r'(1)]
  note cases = createIMAPClient_cases [OF cre, unfolded reads, simplified]
  note read = reads [THEN fun_cong, of ReadForPoller] reads [THEN fun_cong, of ReadForSender]
  show ?thesis
  proof (cases "way_in_of r")
    case ByPassword
    then have no: "\<not> is_oauth (ar_auth_type r)" by (auto simp: way_in_of_def split: if_splits)
    then have "\<exists>en. c1 = fst (set_client E en ?c0 w) \<and> NewClient (ce_lookupMX E) email (cl_Username ?c0) (ea_Password a)
        (ce_idleSeconds E) = Some en"
      using cases info by (auto simp: rr)
    moreover have "c = c2 \<and> w' = w1"
      using startGmail_fields(2) [OF gm] no r'(2) by (auto simp: rr is_oauth_def)
    ultimately show ?thesis
      using ByPassword s c p1 r'(3) by (auto simp: rr dest!: NewClient_credentials)
  next
    case ByXOAUTH2
    then have ox: "is_oauth (ar_auth_type r)" "ar_auth_type r \<noteq> AuthTypeOAuthGmailNeedsReauth" "stored_scope r \<noteq> ScopeModeModify"
      by (auto simp: way_in_of_def split: if_splits)
    have "\<exists>en t. c1 = fst (set_client E en ?c0 w) \<and> NewClientOAuth (ce_lookupMX E) email (cl_Username ?c0) t
        (ce_idleSeconds E) = Some en"
      by (rule cases) (use info ox in \<open>auto simp: rr\<close>)
    moreover have "c = c2 \<and> w' = w1"
      using inbound_row [OF gm read(1)] ox(3) r'(1) by (simp add: rr w1 s(2))
    ultimately show ?thesis
      using ByXOAUTH2 s c p1 by (auto dest!: NewClientOAuth_credentials)
  next
    case ByGmailAPI
    then have ox: "is_oauth (ar_auth_type r)" "ar_auth_type r \<noteq> AuthTypeOAuthGmailNeedsReauth" "stored_scope r = ScopeModeModify"
      by (auto simp: way_in_of_def split: if_splits)
    then have "c1 = ?c0" using cases info by (auto simp: rr)
    then show ?thesis using ByGmailAPI c inbound_started [OF gm s(3)] by (simp add: s(2))
  next
    case Paused
    then have ox: "is_oauth (ar_auth_type r)" "ar_auth_type r = AuthTypeOAuthGmailNeedsReauth"
      by (auto simp: way_in_of_def split: if_splits)
    then have "c1 = fst (event ''reauth_required'' False EmailReauthRequired ?c0 w)"
      using cases info by (auto simp: rr)
    then have "cl_IMAP c1 = None" by simp
    moreover have "cl_Sender c = None"
      using paused_sender [OF read(2), of "cw_table w1" c1 r a] r'(1,2) ox(2) c1 c s by (simp add: rr w1)
    moreover have "c = c2 \<and> w' = w1"
      using startGmail_fields(2) [OF gm] ox(2) r'(2) by (simp add: rr auth_constants)
    ultimately show ?thesis using Paused c s p1 by simp
  qed
qed


text \<open>The events of a paused account: only the request for a new login.\<close>

lemma with_signature_more:
  assumes "with_signature E a tab c = Worked c'"
  shows "cl_events c' = cl_events c \<and> cl_isConnected c' = cl_isConnected c"
  using assms by (auto simp: with_signature_def loadGmailSignature_def split: if_splits sum.splits option.splits attempt.splits)

lemma paused_events:
  assumes reads: "ce_read E = (\<lambda>_. QueryWorks)" and load: "LoadUserLogin E login w = Worked (c, w')"
    and row: "map_of (cw_table w) (account_of c) = Some r" and auth: "ar_auth_type r = AuthTypeOAuthGmailNeedsReauth"
  shows "\<exists>evs. cl_events c = evs \<and> evs = [(''inbox'', ''reauth_required'', False, EmailReauthRequired)] \<and> \<not> cl_isConnected c"
proof -
  obtain email username a c1 w1 c2 err where
    acc: "GetAccount_db (ce_store E) QueryWorks (ul_User login, email) (cw_table w) = Inr (Some a)"
    and cre: "createIMAPClient E (account_client login email username a) w = Worked (c1, w1)"
    and sig: "with_signature E a (cw_table w1) (with_sender E a (cw_table w1) c1) = Worked c2"
    and gm: "startGmailInboundIfApplicable E a c2 w1 = (err, c, w')"
    using LoadUserLogin_cases [OF load] unfolding reads by metis
  let ?c0 = "account_client login email username a"
  obtain r' where r': "map_of (cw_table w) (ul_User login, email) = Some r'" "ea_AuthType a = ar_auth_type r'"
    using GetAccount_row [OF acc] .
  have "account_of c2 = (ul_User login, email)"
    using with_signature_fields [OF sig] createIMAPClient_fields [OF cre] by simp
  then have "account_of c = (ul_User login, email)" using startGmail_fields(1) [OF gm] by simp
  then have rr: "r' = r" using row r' by simp
  note info = oauth_row_fields [of "ce_store E" "(ul_User login, email)" "cw_table w", OF refl r'(1)]
  have "c1 = fst (event ''reauth_required'' False EmailReauthRequired ?c0 w)"
    by (rule createIMAPClient_cases [OF cre, unfolded reads, simplified])
       (use info auth in \<open>auto simp: rr is_oauth_def\<close>)
  then have c1: "cl_events c1 = [(''inbox'', ''reauth_required'', False, EmailReauthRequired)]" "\<not> cl_isConnected c1"
    by (simp_all add: event_def account_client_def new_client_def)
  have "cl_events c2 = cl_events c1 \<and> cl_isConnected c2 = cl_isConnected c1"
    using with_signature_more [OF sig] by (simp add: with_sender_def split: sum.split)
  moreover have "c = c2" using startGmail_fields(2) [OF gm] r'(2) auth by (simp add: rr auth_constants)
  ultimately show ?thesis using c1 by simp
qed

subsection \<open>What the user is shown\<close>

text \<open>The coordinator of a login after its events, whenever they came.\<close>

definition coordinator_after :: "client_event list \<Rightarrow> state_coordinator" where
  "coordinator_after evs = fold (\<lambda>(component, name, conn, code) sc.
     fst (ReportSimpleEvent 0 component name conn code (None :: (gostring \<rightharpoonup> gostring) option) sc)) evs (NewStateCoordinator True)"

lemmas coordinator_run = coordinator_after_def ReportSimpleEvent_def ReportEvent_def updateComponentState_def
  update_connection_def computeBridgeState_def shouldSendState_def sendBridgeState_def NewStateCoordinator_def
  zero_connection_def event_names since_exceeds_def shown_state_def Let_def

lemma gmail_client_connected:
  assumes "cl_IMAP c = None" and "cl_GmailAPIInbound c" and "cl_events c = []"
  shows "\<exists>c'. client_Connect delay ctx env (c, w) = Done None (c', w) \<and>
    shown_state (coordinator_after (cl_events c')) = (StateConnected, [])"
  using assms by (simp add: client_Connect_def event_def coordinator_run)

text \<open>
  The report of a revoked token changes the error of the connection, not its flags: while the
  connection still counts as up and idling the account is shown as connected.
\<close>

lemma reauth_report_not_shown:
  assumes "connected (inbox sc)" and "idleRunning (inbox sc)" and "circuitState sc \<noteq> ''open''"
    and "ReportReauthBridgeState t addr (Some (sc, out)) = Some (sc', out')"
  shows "computeBridgeState sc' = (StateConnected, [])"
  using assms
  by (auto simp: ReportReauthBridgeState_def tell_def ReportSimpleEvent_def ReportEvent_def updateComponentState_def
      update_connection_def computeBridgeState_def sendBridgeState_def event_names Let_def split: if_splits option.splits)


subsection \<open>Logging out\<close>

lemma on_imap_fields:
  "on_imap f (c, w) = Done err (c', w') \<Longrightarrow> c' = c \<and> cw_table w' = cw_table w \<and> cw_pollers w' = cw_pollers w"
  by (auto simp: on_imap_def Let_def split: option.splits outcome.splits)

lemma and_then_Done:
  "and_then r f = Done a s \<Longrightarrow> (\<And>b t. r = Done b t \<Longrightarrow> f b t = Done a s \<Longrightarrow> thesis) \<Longrightarrow> thesis"
  by (cases r) auto

lemma client_Disconnect_fields:
  assumes "client_Disconnect env (c, w) = Done err (c', w')"
  shows "c' = c\<lparr>cl_isConnected := False, cl_loops := False, cl_cancelled := True\<rparr> \<and> cw_table w' = cw_table w \<and>
    cw_pollers w' = cw_pollers w"
  using assms
  by (auto simp: client_Disconnect_def disconnectIMAPClient_def elim!: and_then_Done dest!: on_imap_fields split: prod.splits)

text \<open>
  Logging out takes the account out of the table and closes its IMAP connection, but it never
  reaches the Gmail pollers: an account served by the Gmail API keeps its poller, and a client that
  had a sender still counts as logged in.
\<close>

theorem logout_leaves_poller:
  assumes "LogoutRemote None env (c, w) = Done err (c', w')" and "cl_Sender c \<noteq> None"
  shows "map_of (cw_table w') (account_of c) = None \<and> cl_IMAP c' = None \<and> cl_deleted c' \<and>
    cw_pollers w' = cw_pollers w \<and> IsLoggedIn c'"
  using assms
  by (auto simp: LogoutRemote_def IsLoggedIn_def DeleteAccount_def exec_def elim!: and_then_Done
      dest!: client_Disconnect_fields split: outcome.splits)

subsection \<open>Concrete accounts\<close>

definition sample_login :: user_login where
  "sample_login = \<lparr>ul_User = ''@u'', ul_ID = ''email:u@x'', ul_Meta = None\<rparr>"

definition sample_client_env :: "uid list client_env" where
  "sample_client_env = \<lparr>ce_read = (\<lambda>_. QueryWorks), ce_store = sample_store, ce_lookupMX = (\<lambda>_. Inr []),
     ce_oauth = sample_oauth, ce_backfillSeconds = 0, ce_backfillMax = 0, ce_idleSeconds = 0, ce_clock = 0,
     ce_world = [], ce_service = None, ce_sendAs = (Inr [], Inr [])\<rparr>"

definition sample_manager :: "uid list imap_manager" where
  "sample_manager = \<lparr>conns = Map.empty, next_conn = 0, clients = [], watchdogs = [], has_processor = True\<rparr>"

definition world_with :: "account_table \<Rightarrow> uid list client_world" where
  "world_with tab = \<lparr>cw_table = tab, cw_pollers = NewGmailInboundManager, cw_imap = sample_manager\<rparr>"

lemma sample_credentials: "extractEmailCredentials sample_login = Inr (''u@x'', ''u@x'')"
  by (simp add: extractEmailCredentials_def sample_login_def Let_def)

lemma sample_password: obtains ct where "decrypt sample_store ct = Inr ''pw''"
  using encrypt_works [OF sample_store_laws sample_nonce_read] by metis

lemma sample_account_row:
  assumes "decrypt sample_store (ar_password r) = Inr ''pw''" and "map_of tab (''@u'', ''u@x'') = Some r"
  shows "loadAccountCredentials sample_store QueryWorks (ul_User sample_login, ''u@x'') tab =
    Inr (fill_account sample_store (''@u'', ''u@x'') r ''pw'')"
  using assms by (simp add: loadAccountCredentials_def GetAccount_db_def load_row_def sample_login_def)

lemma LoadUserLogin_plain:
  assumes "extractEmailCredentials login = Inr (email, username)"
    and "loadAccountCredentials (ce_store E) (ce_read E ReadAccount) (ul_User login, email) (cw_table w) = Inr a"
    and "createIMAPClient E (account_client login email username a) w = Worked (c1, w1)"
    and "ea_AuthType a \<noteq> AuthTypeOAuthGmail"
  shows "LoadUserLogin E login w = Worked (with_sender E a (cw_table w1) c1, w1)"
  using assms by (simp add: LoadUserLogin_def with_signature_def startGmailInboundIfApplicable_def)

lemma sample_env_fields [simp]:
  "ce_read sample_client_env = (\<lambda>_. QueryWorks)" "ce_store sample_client_env = sample_store"
  "ce_lookupMX sample_client_env = (\<lambda>_. Inr [])" "ce_idleSeconds sample_client_env = 0"
  by (simp_all add: sample_client_env_def)


text \<open>A client without IMAP, with the sender and the poller of a Gmail account.\<close>

definition gmail_source :: token_source where
  "gmail_source = newReauthAwareTokenSource (''@u'', ''u@x'') ''google'' ''modify''"

definition gmail_client :: loaded_client where
  "gmail_client = (new_client sample_login)\<lparr>cl_Email := ''u@x'', cl_GmailAPIInbound := True,
     cl_Sender := Some (GmailAPISender, Some gmail_source)\<rparr>"

definition polled_world :: "uid list client_world" where
  "polled_world = (world_with [])\<lparr>cw_pollers := inbound_Start ''@u'' ''u@x'' [] gmail_source NewGmailInboundManager\<rparr>"

lemma gmail_logout: "\<exists>c' w'. LogoutRemote None sample_net (gmail_client, polled_world) = Done None (c', w')"
  by (simp add: LogoutRemote_def client_Disconnect_def disconnectIMAPClient_def on_imap_def gmail_client_def
      new_client_def polled_world_def world_with_def RemoveAccount_def sample_manager_def sample_login_def)

theorem logout_leaves_poller_witness:
  "\<exists>c' w'. LogoutRemote None sample_net (gmail_client, polled_world) = Done None (c', w') \<and>
     gi_runners (cw_pollers w') (runner_key ''@u'' ''u@x'') = Some 0 \<and> IsLoggedIn c'"
proof -
  obtain c' w' where l: "LogoutRemote None sample_net (gmail_client, polled_world) = Done None (c', w')"
    using gmail_logout by blast
  have "cl_Sender gmail_client \<noteq> None" by (simp add: gmail_client_def)
  from logout_leaves_poller [OF l this] l show ?thesis
    by (auto simp: polled_world_def inbound_Start_def NewGmailInboundManager_def Let_def)
qed

lemma paused_loads:
  assumes r: "map_of tab (''@u'', ''u@x'') = Some r" "ar_auth_type r = AuthTypeOAuthGmailNeedsReauth"
      "decrypt sample_store (ar_password r) = Inr ''pw''" and t: "cw_table w = tab"
  shows "\<exists>c w'. LoadUserLogin sample_client_env sample_login w = Worked (c, w') \<and> account_of c = (''@u'', ''u@x'')"
proof -
  let ?a = "fill_account sample_store (''@u'', ''u@x'') r ''pw''"
  let ?c0 = "account_client sample_login ''u@x'' ''u@x'' ?a"
  have a: "ea_AuthType ?a = AuthTypeOAuthGmailNeedsReauth" by (simp add: fill_account_def r(2))
  have k: "account_of ?c0 = (''@u'', ''u@x'')" by (simp add: sample_login_def)
  have "is_oauth (ar_auth_type r)" by (simp add: r(2) is_oauth_def)
  then have "\<exists>info. oauth_row sample_store QueryWorks (''@u'', ''u@x'') tab = Some info \<and> oi_AuthType info = AuthTypeOAuthGmailNeedsReauth"
    using oauth_row_fields [OF refl r(1), of sample_store] r(2) by fastforce
  then have cre: "createIMAPClient sample_client_env ?c0 w = Worked (event ''reauth_required'' False EmailReauthRequired ?c0 w)"
    using k by (auto simp: createIMAPClient_def t)
  obtain c1 w1 where s1: "event ''reauth_required'' False EmailReauthRequired ?c0 w = (c1, w1)" by fastforce
  have c1: "account_of c1 = (''@u'', ''u@x'')"
    using arg_cong [OF s1, of "account_of \<circ> fst"] k by simp
  have "LoadUserLogin sample_client_env sample_login w = Worked (with_sender sample_client_env ?a (cw_table w1) c1, w1)"
    by (rule LoadUserLogin_plain [OF sample_credentials])
       (use sample_account_row [OF r(3,1)] a cre s1 in \<open>simp_all add: auth_constants t\<close>)
  then show ?thesis using c1 by auto
qed


end
