(* ===== verification/Regex.thy ===== *)
theory Regex
  imports Quote
begin

text \<open>
  The regular expressions of Go's \<open>regexp\<close> as far as the HTML code uses them: a backtracking matcher,
  whose first result is the leftmost-first match \<open>regexp\<close> promises, and the replacement of all
  matches.  Expressions work on bytes; the classes used are ASCII characters or complements of
  ASCII characters, so bytes and runes agree.  \<open>(?i)\<close> folds ASCII letters.
\<close>

subsection \<open>Expressions\<close>

datatype rx =
    Empty
  | Cls "char \<Rightarrow> bool"
  | Cat rx rx
  | Alt rx rx
  | Rep bool rx          \<comment> \<open>greedy or lazy\<close>
  | Cap nat rx
  | WordBoundary

definition rx_lit :: "gostring \<Rightarrow> rx" where
  "rx_lit s = foldr (\<lambda>c. Cat (Cls (\<lambda>d. lower_char d = lower_char c))) s Empty"

definition rx_cat :: "rx list \<Rightarrow> rx" where "rx_cat rs = foldr Cat rs Empty"

definition rx_any :: "gostring list \<Rightarrow> rx" where
  "rx_any ws = foldr Alt (map rx_lit (butlast ws)) (rx_lit (last ws))"

definition rx_plus :: "rx \<Rightarrow> rx" where "rx_plus r = Cat r (Rep True r)"

definition rx_opt :: "rx \<Rightarrow> rx" where "rx_opt r = Alt r Empty"

definition one_of :: "gostring \<Rightarrow> rx" where "one_of cs = Cls (\<lambda>c. c \<in> set cs)"

definition none_of :: "gostring \<Rightarrow> rx" where "none_of cs = Cls (\<lambda>c. c \<notin> set cs)"

definition rx_ws :: rx where "rx_ws = Rep True (one_of re_space)"

definition word_char :: "char \<Rightarrow> bool" where
  "word_char c \<longleftrightarrow> in_range 48 57 c \<or> in_range 65 90 c \<or> in_range 97 122 c \<or> c = CHR ''_''"

subsection \<open>Matching\<close>

text \<open>A position: what is behind it (reversed), what is ahead, the groups so far.\<close>

record rx_pos =
  behind :: gostring
  ahead :: gostring
  groups :: "nat \<Rightarrow> gostring"

fun rx_iter :: "bool \<Rightarrow> (rx_pos \<Rightarrow> rx_pos list) \<Rightarrow> nat \<Rightarrow> rx_pos \<Rightarrow> rx_pos list" where
  "rx_iter greedy step 0 p = [p]"
| "rx_iter greedy step (Suc n) p =
     (let further = concat (map (rx_iter greedy step n) (filter (\<lambda>q. length (ahead q) < length (ahead p)) (step p)))
      in if greedy then further @ [p] else p # further)"

definition at_boundary :: "rx_pos \<Rightarrow> bool" where
  "at_boundary p \<longleftrightarrow>
     (behind p \<noteq> [] \<and> word_char (hd (behind p))) \<noteq> (ahead p \<noteq> [] \<and> word_char (hd (ahead p)))"

primrec rx_match :: "rx \<Rightarrow> rx_pos \<Rightarrow> rx_pos list" where
  "rx_match Empty p = [p]"
| "rx_match (Cls P) p =
     (case ahead p of
        [] \<Rightarrow> []
      | c # t \<Rightarrow> if P c then [p\<lparr>behind := c # behind p, ahead := t\<rparr>] else [])"
| "rx_match (Cat a b) p = concat (map (rx_match b) (rx_match a p))"
| "rx_match (Alt a b) p = rx_match a p @ rx_match b p"
| "rx_match (Rep greedy a) p = rx_iter greedy (rx_match a) (Suc (length (ahead p))) p"
| "rx_match (Cap k a) p =
     map (\<lambda>q. q\<lparr>groups := (groups q)(k := take (length (ahead p) - length (ahead q)) (ahead p))\<rparr>) (rx_match a p)"
| "rx_match WordBoundary p = (if at_boundary p then [p] else [])"

definition rx_at :: "rx \<Rightarrow> gostring \<Rightarrow> gostring \<Rightarrow> rx_pos option" where
  "rx_at r past s =
     (case rx_match r \<lparr>behind = past, ahead = s, groups = (\<lambda>_. [])\<rparr> of [] \<Rightarrow> None | q # qs \<Rightarrow> Some q)"

text \<open>\<open>FindStringSubmatch\<close>: the groups of the leftmost match.\<close>

fun rx_find :: "rx \<Rightarrow> gostring \<Rightarrow> gostring \<Rightarrow> (nat \<Rightarrow> gostring) option" where
  "rx_find r past [] = map_option groups (rx_at r past [])"
| "rx_find r past (c # s) =
     (case rx_at r past (c # s) of Some q \<Rightarrow> Some (groups q) | None \<Rightarrow> rx_find r (c # past) s)"

abbreviation submatch :: "rx \<Rightarrow> gostring \<Rightarrow> (nat \<Rightarrow> gostring) option" where
  "submatch r s \<equiv> rx_find r [] s"

text \<open>
  \<open>ReplaceAllStringFunc\<close> for an expression that never matches the empty string, with a replacement
  that may change a state.
\<close>

function rx_replace_from ::
  "rx \<Rightarrow> (gostring \<Rightarrow> 's \<Rightarrow> gostring \<times> 's) \<Rightarrow> gostring \<Rightarrow> gostring \<Rightarrow> 's \<Rightarrow> gostring \<times> 's" where
  "rx_replace_from r f past s st =
     (if s = [] then ([], st)
      else case rx_at r past s of
        Some q \<Rightarrow>
          (if length (ahead q) < length s then
             (let (t, st1) = f (take (length s - length (ahead q)) s) st;
                  (u, st2) = rx_replace_from r f (behind q) (ahead q) st1
              in (t @ u, st2))
           else (s, st))
      | None \<Rightarrow> (let (u, st1) = rx_replace_from r f (hd s # past) (tl s) st in (hd s # u, st1)))"
  by pat_completeness auto
termination
  by (relation "measure (\<lambda>(r, f, past, s, st). length s)") auto

declare rx_replace_from.simps [simp del]

definition rx_replace :: "rx \<Rightarrow> (gostring \<Rightarrow> 's \<Rightarrow> gostring \<times> 's) \<Rightarrow> gostring \<Rightarrow> 's \<Rightarrow> gostring \<times> 's" where
  "rx_replace r f s st = rx_replace_from r f [] s st"

text \<open>\<open>ReplaceAllString\<close> with a constant.\<close>

definition rx_replace_const :: "rx \<Rightarrow> gostring \<Rightarrow> gostring \<Rightarrow> gostring" where
  "rx_replace_const r t s = fst (rx_replace r (\<lambda>m st. (t, st)) s ())"

subsection \<open>Facts\<close>

text \<open>A match only moves forward.\<close>

definition moves :: "rx_pos \<Rightarrow> rx_pos \<Rightarrow> bool" where
  "moves p q \<longleftrightarrow> (\<exists>t. ahead p = t @ ahead q \<and> behind q = rev t @ behind p)"

lemma moves_refl [simp]: "moves p p"
  by (simp add: moves_def)

lemma moves_trans: "moves p q \<Longrightarrow> moves q r \<Longrightarrow> moves p r"
  by (force simp: moves_def)

lemma rx_iter_moves:
  assumes "\<And>p q. q \<in> set (step p) \<Longrightarrow> moves p q"
  shows "q \<in> set (rx_iter greedy step n p) \<Longrightarrow> moves p q"
proof (induction n arbitrary: p)
  case (Suc n)
  then show ?case using assms moves_trans by (auto simp: Let_def split: if_splits) blast+
qed simp

lemma rx_match_moves: "q \<in> set (rx_match r p) \<Longrightarrow> moves p q"
proof (induction r arbitrary: p q)
  case (Cls P)
  then show ?case by (auto simp: moves_def split: list.splits if_splits)
next
  case (Cat a b)
  then show ?case using moves_trans by force
next
  case (Rep greedy a)
  then show ?case using rx_iter_moves [of "rx_match a"] by (metis rx_match.simps(5))
next
  case (Cap k a)
  then show ?case by (auto simp: moves_def)
qed (auto split: if_splits)

text \<open>Replacing keeps what the replacement keeps.\<close>

lemma rx_replace_inv:
  assumes "\<And>m st. I st \<Longrightarrow> I (snd (f m st))"
  shows "I st \<Longrightarrow> I (snd (rx_replace r f s st))"
proof -
  have step: "I st \<Longrightarrow> I (snd (rx_replace_from r f past s st))" if "\<And>m st. I st \<Longrightarrow> I (snd (f m st))" for r f past s st
    using that
  proof (induction r f past s st rule: rx_replace_from.induct)
    case (1 r f past s st)
    show ?case
    proof (cases "rx_at r past s")
      case None
      with 1 show ?thesis by (subst rx_replace_from.simps) (auto simp: Let_def split: prod.split)
    next
      case (Some q)
      let ?m = "take (length s - length (ahead q)) s"
      have i: "I (snd (f ?m st))" using 1(3,4) by blast
      have "I (snd (rx_replace_from r f (behind q) (ahead q) (snd (f ?m st))))"
        if "s \<noteq> []" "length (ahead q) < length s"
        by (rule 1(2) [OF that(1) Some that(2) refl prod.collapse i 1(4)])
      with i Some 1(3) show ?thesis
        by (subst rx_replace_from.simps) (simp add: Let_def case_prod_unfold)
    qed
  qed
  show "I st \<Longrightarrow> I (snd (rx_replace r f s st))" unfolding rx_replace_def by (rule step) (rule assms)
qed

end
