(* ===== verification/MatrixText.thy ===== *)
theory MatrixText
  imports Regex Threading
begin

text \<open>
  The text side of sending an email to a Matrix room (\<open>pkg/email/processor.go\<close>,
  \<open>pkg/email/html_hygiene.go\<close>): the size of an event as JSON, cutting a text at a rune and a word,
  the HTML minifier, the plain text of an HTML body, file names and references of attachments, the
  heuristics for marketing mail and decorative images.  Lower-casing is that of ASCII letters.
  Unicode tables (\<open>unicode.Cf\<close>, \<open>unicode.Mn\<close>) and \<open>html.UnescapeString\<close> are parameters.
\<close>

subsection \<open>Runes\<close>

text \<open>The runes of a string as \<open>range\<close> gives them: an invalid byte stands alone.\<close>

function runes :: "gostring \<Rightarrow> gostring list" where
  "runes [] = []"
| "runes (c # s) = take (rune_len (c # s)) (c # s) # runes (drop (rune_len (c # s)) (c # s))"
  by pat_completeness auto
termination
  by (relation "measure length") (simp_all add: diff_less del: rune_len.simps)

declare runes.simps(2) [simp del]

lemma concat_runes: "concat (runes s) = s"
  by (induction s rule: runes.induct) (simp_all add: runes.simps(2) del: rune_len.simps)

definition bad_rune :: "gostring \<Rightarrow> bool" where
  "bad_rune r \<longleftrightarrow> length r = 1 \<and> \<not> ascii (hd r)"

definition ValidString :: "gostring \<Rightarrow> bool" where
  "ValidString s = list_all (\<lambda>r. \<not> bad_rune r) (runes s)"

text \<open>\<open>WriteRune\<close> of a rune read from a string.\<close>

definition put_rune :: "gostring \<Rightarrow> gostring" where
  "put_rune r = (if bad_rune r then bytes [239, 191, 189] else r)"

subsection \<open>The size of an event\<close>

definition MaxMatrixContentSize :: nat where "MaxMatrixContentSize = 48 * 1024"
definition HTMLMinificationTarget :: nat where "HTMLMinificationTarget = 24 * 1024"
definition PerEventTarget :: nat where "PerEventTarget = 16 * 1024"

record message_content =
  mc_MsgType :: gostring
  mc_Body :: gostring
  mc_Format :: gostring
  mc_FormattedBody :: gostring
  mc_URL :: gostring
  mc_Info :: "(gostring \<times> int) option"     \<comment> \<open>type and size\<close>

definition text_message :: "gostring \<Rightarrow> gostring \<Rightarrow> message_content" where
  "text_message msgtype body = \<lparr>mc_MsgType = msgtype, mc_Body = body, mc_Format = [], mc_FormattedBody = [],
     mc_URL = [], mc_Info = None\<rparr>"

text \<open>What \<open>encoding/json\<close> writes for a rune inside a string literal, by its length.\<close>

definition json_rune :: "gostring \<Rightarrow> nat" where
  "json_rune r =
     (if bad_rune r then 6
      else if length r = 1 then
        (let c = hd r in
         if c = CHR 0x22 \<or> c = CHR 0x5C \<or> c \<in> set (bytes [8, 12, 10, 13, 9]) then 2
         else if c \<in> set ''<>&'' \<or> (of_char c :: nat) < 32 then 6
         else 1)
      else if r = bytes [226, 128, 168] \<or> r = bytes [226, 128, 169] then 6
      else length r)"

definition json_string :: "gostring \<Rightarrow> nat" where
  "json_string s = 2 + sum_list (map json_rune (runes s))"

text \<open>A field with its quoted key and colon, left out when empty.\<close>

definition json_field :: "gostring \<Rightarrow> gostring \<Rightarrow> nat list" where
  "json_field key v = (if v = [] then [] else [length key + 3 + json_string v])"

text \<open>\<open>info_json\<close>: the length of the bridge library's \<open>FileInfo\<close> as JSON.\<close>

definition json_size :: "(gostring \<times> int \<Rightarrow> nat) \<Rightarrow> message_content \<Rightarrow> nat" where
  "json_size info_json m =
     (let parts = json_field ''msgtype'' (mc_MsgType m) @ json_field ''body'' (mc_Body m) @ json_field ''format'' (mc_Format m) @
            json_field ''formatted_body'' (mc_FormattedBody m) @ json_field ''url'' (mc_URL m) @
            (case mc_Info m of None \<Rightarrow> [] | Some i \<Rightarrow> [length ''info'' + 3 + info_json i])
      in 2 + sum_list parts + (length parts - 1))"

definition withinMatrixLimit :: "(gostring \<times> int \<Rightarrow> nat) \<Rightarrow> message_content \<Rightarrow> nat \<Rightarrow> bool" where
  "withinMatrixLimit info_json m limit \<longleftrightarrow> json_size info_json m \<le> limit"

subsection \<open>Cutting\<close>

fun valid_cut :: "gostring \<Rightarrow> nat \<Rightarrow> nat" where
  "valid_cut s 0 = 0"
| "valid_cut s (Suc n) = (if ValidString (take (Suc n) s) then Suc n else valid_cut s n)"

definition truncateUTF8PreserveWords :: "gostring \<Rightarrow> nat \<Rightarrow> gostring \<times> bool" where
  "truncateUTF8PreserveWords s maxBytes =
     (if length s \<le> maxBytes then (s, False)
      else
        let cut0 = valid_cut s maxBytes;
            cut = (if cut0 = 0 then maxBytes else cut0);
            cut' = (case last_index (CHR '' '') (take cut s) of
                      Some i \<Rightarrow> if 0 < i \<and> cut - i < 512 then i else cut
                    | None \<Rightarrow> cut)
        in (take cut' s, True))"

subsection \<open>HTML\<close>

function removeHTMLComments :: "gostring \<Rightarrow> gostring" where
  "removeHTMLComments s =
     (case index_of s ''<!--'' of
        None \<Rightarrow> s
      | Some start \<Rightarrow>
          (case index_of (drop (start + 4) s) ''-->'' of
             None \<Rightarrow> s
           | Some e \<Rightarrow> removeHTMLComments (take start s @ drop (start + 4 + e + 3) s)))"
  by pat_completeness auto
termination
proof (relation "measure length", simp)
  fix s start e
  assume "index_of s ''<!--'' = Some start" and "index_of (drop (start + 4) s) ''-->'' = Some e"
  from this [THEN index_of_Some]
  show "(take start s @ drop (start + 4 + e + 3) s, s) \<in> measure length" by auto
qed

declare removeHTMLComments.simps [simp del]

function stripTagContent :: "gostring \<Rightarrow> gostring \<Rightarrow> gostring" where
  "stripTagContent s tag =
     (case index_of (to_lower s) (''<'' @ tag) of
        None \<Rightarrow> s
      | Some start \<Rightarrow>
          (case index_of (to_lower (drop start s)) (''</'' @ tag @ ''>'') of
             None \<Rightarrow> take start s
           | Some e \<Rightarrow> stripTagContent (take start s @ drop (start + e + length (''</'' @ tag @ ''>'')) s) tag))"
  by pat_completeness auto
termination
proof (relation "measure (\<lambda>(s, tag). length s)", simp)
  fix s tag start e
  assume "index_of (to_lower s) (''<'' @ tag) = Some start"
    and "index_of (to_lower (drop start s)) (''</'' @ tag @ ''>'') = Some e"
  from this [THEN index_of_Some]
  show "((take start s @ drop (start + e + length (''</'' @ tag @ ''>'')) s, tag), s, tag) \<in> measure (\<lambda>(s, tag). length s)"
    by auto
qed

declare stripTagContent.simps [simp del]

fun collapse_runes :: "bool \<Rightarrow> gostring list \<Rightarrow> gostring" where
  "collapse_runes prevWS [] = []"
| "collapse_runes prevWS (r # rs) =
     (if r \<in> {'' '', [newline], [CHR 0x09], [CHR 0x0D]}
      then (if prevWS then [] else '' '') @ collapse_runes True rs
      else put_rune r @ collapse_runes False rs)"

definition collapseWhitespace :: "gostring \<Rightarrow> gostring" where
  "collapseWhitespace s = collapse_runes False (runes s)"

text \<open>The cut of \<open>boundedMinifyHTML\<close>: back to the last \<open>>\<close>, newline or space.\<close>

fun tag_cut :: "gostring \<Rightarrow> nat \<Rightarrow> nat" where
  "tag_cut html 0 = 0"
| "tag_cut html (Suc n) = (if html ! n \<in> {CHR ''>'', newline, CHR '' ''} then Suc n else tag_cut html n)"

definition boundedMinifyHTML :: "gostring \<Rightarrow> nat \<Rightarrow> gostring \<times> bool" where
  "boundedMinifyHTML html0 maxBytes =
     (let html = collapseWhitespace (stripTagContent (stripTagContent (removeHTMLComments html0) ''script'') ''style'') in
      if length html \<le> maxBytes then (html, True)
      else
        let cut0 = tag_cut html maxBytes; cut = (if cut0 < 1 then maxBytes else cut0)
        in (take cut html @ [newline] @ ''<!-- truncated -->'', True))"

definition lightMinifyHTML :: "gostring \<Rightarrow> gostring" where
  "lightMinifyHTML s = collapseWhitespace (removeHTMLComments s)"

text \<open>\<open>invisible\<close>: the runes of the categories Cf and Mn.\<close>

definition filterInvisibleUnicode :: "(gostring \<Rightarrow> bool) \<Rightarrow> gostring \<Rightarrow> gostring" where
  "filterInvisibleUnicode invisible s = concat (map put_rune (filter (\<lambda>r. \<not> invisible r) (runes s)))"

definition reBR :: rx where
  "reBR = rx_cat [rx_lit ''<'', rx_ws, rx_lit ''br'', rx_ws, rx_opt (rx_lit ''/''), rx_lit ''>'']"

definition reP :: rx where
  "reP = rx_cat [rx_lit ''<'', rx_ws, rx_opt (rx_lit ''/''), rx_lit ''p'', rx_ws, rx_lit ''>'']"

definition reTags :: rx where
  "reTags = rx_cat [rx_lit ''<'', rx_plus (none_of ''>''), rx_lit ''>'']"

record html_lib =
  hl_unescape :: "gostring \<Rightarrow> gostring"
  hl_invisible :: "gostring \<Rightarrow> bool"

definition simpleHTMLToText :: "html_lib \<Rightarrow> gostring \<Rightarrow> gostring" where
  "simpleHTMLToText L s =
     (let s1 = stripTagContent (stripTagContent s ''script'') ''style'';
          s2 = rx_replace_const reP [newline] (rx_replace_const reBR [newline] s1);
          s3 = filterInvisibleUnicode (hl_invisible L) (hl_unescape L (rx_replace_const reTags [] s2))
      in trim_space (collapseWhitespace s3))"

text \<open>\<open>html.EscapeString\<close>.\<close>

definition EscapeString :: "gostring \<Rightarrow> gostring" where
  "EscapeString s = replace_chars [(CHR ''&'', ''&amp;''), (CHR 0x27, ''&#39;''), (CHR ''<'', ''&lt;''),
     (CHR ''>'', ''&gt;''), (CHR 0x22, ''&#34;'')] s"

subsection \<open>Attachments\<close>

record email_attachment =
  at_Filename :: gostring
  at_ContentType :: gostring
  at_Size :: int
  at_Data :: gostring
  at_ContentID :: gostring
  at_ContentLocation :: gostring

definition normalizeCIDHeader :: "gostring \<Rightarrow> gostring" where
  "normalizeCIDHeader s = to_lower (trim_suffix (trim_prefix (trim_space s) ''<'') ''>'')"

definition normalizeCIDRef :: "gostring \<Rightarrow> gostring" where
  "normalizeCIDRef s = trim_suffix (trim_prefix (trim_prefix (to_lower (trim_space s)) ''cid:'') ''<'') ''>''"

definition normalizeContentLocation :: "gostring \<Rightarrow> gostring" where
  "normalizeContentLocation s = trim_space s"

definition first_index :: "('a \<Rightarrow> bool) \<Rightarrow> 'a list \<Rightarrow> nat option" where
  "first_index P xs = find (\<lambda>i. P (xs ! i)) [0..<length xs]"

text \<open>An attachment of the list may be nil.\<close>

definition findAttachmentByCID :: "email_attachment option list \<Rightarrow> gostring \<Rightarrow> nat option" where
  "findAttachmentByCID atts cid =
     first_index (\<lambda>oa. case oa of None \<Rightarrow> False
       | Some a \<Rightarrow> at_ContentID a \<noteq> [] \<and> normalizeCIDRef (at_ContentID a) = normalizeCIDRef cid) atts"

definition findAttachmentByContentLocation :: "email_attachment option list \<Rightarrow> gostring \<Rightarrow> nat option" where
  "findAttachmentByContentLocation atts loc =
     first_index (\<lambda>oa. case oa of None \<Rightarrow> False
       | Some a \<Rightarrow> at_ContentLocation a \<noteq> [] \<and> equal_fold (at_ContentLocation a) loc) atts"

definition bestFilename :: "email_attachment \<Rightarrow> gostring \<Rightarrow> gostring" where
  "bestFilename a fallback =
     (if at_Filename a \<noteq> [] then at_Filename a else if fallback \<noteq> [] then fallback else ''inline'')"

definition sanitizeFilename :: "gostring \<Rightarrow> gostring" where
  "sanitizeFilename name =
     (let n1 = map (\<lambda>c. if c = CHR 0x5C \<or> c = CHR ''/'' then CHR ''_'' else c) (trim_space name);
          n2 = concat (map put_rune (filter (\<lambda>r. \<not> (length r = 1 \<and> ((of_char (hd r) :: nat) < 32 \<or> (of_char (hd r) :: nat) = 127))) (runes n1)))
      in if length n2 > 128 then take 128 n2 else n2)"

definition getMessageTypeForAttachment :: "gostring \<Rightarrow> gostring" where
  "getMessageTypeForAttachment contentType =
     (if has_prefix contentType ''image/'' then ''m.image''
      else if has_prefix contentType ''video/'' then ''m.video''
      else if has_prefix contentType ''audio/'' then ''m.audio''
      else ''m.file'')"

subsection \<open>Heuristics\<close>

record inline_image =
  im_Index :: nat
  im_Label :: gostring
  im_MXC :: gostring
  im_Mime :: gostring
  im_Size :: int

definition DecorativeImageMaxBytes :: int where "DecorativeImageMaxBytes = 16 * 1024"

definition decorativeLabelMarkers :: "gostring list" where
  "decorativeLabelMarkers = [''spacer'', ''pixel'', ''tracking'', ''transparent'', ''divider'', ''separator'',
     ''clear.gif'', ''clear.png'', ''1x1'']"

definition isLikelyDecorativeImage :: "inline_image \<Rightarrow> bool" where
  "isLikelyDecorativeImage im \<longleftrightarrow>
     0 < im_Size im \<and> im_Size im < DecorativeImageMaxBytes \<or>
     list_ex (contains_sub (to_lower (im_Label im))) decorativeLabelMarkers"

definition IsLikelyMarketingHTML :: "gostring \<Rightarrow> gostring \<Rightarrow> bool" where
  "IsLikelyMarketingHTML html plainText =
     (if length html < 16 * 1024 then False
      else
        let lowered = to_lower html;
            tableCount = count_sub lowered ''<table'';
            bgCSSCount = count_sub lowered ''background-image'';
            bgAttrCount = count_sub lowered ('' background='' @ [CHR 0x22]) + count_sub lowered ('' background='' @ [CHR 0x27]);
            imgCount = count_sub lowered ''<img'';
            signals = tableCount + bgCSSCount + bgAttrCount
        in if (signals < 8 \<or> bgCSSCount + bgAttrCount < 2) \<and> imgCount < 12 then False
           else \<not> length (trim_space plainText) > 800)"

definition generateParticipantChangeMessage :: "email_thread \<Rightarrow> gostring" where
  "generateParticipantChangeMessage th =
     (if AddedParticipants th = [] \<and> RemovedParticipants th = [] then []
      else join_with [newline]
        ((if AddedParticipants th = [] then []
          else [let who = join_with '', '' (AddedParticipants th) in bytes [240, 159, 147, 167] @ '' '' @ who @ '' joined the conversation'']) @
         (if RemovedParticipants th = [] then []
          else if length (RemovedParticipants th) = 1
          then [let who = hd (RemovedParticipants th) in bytes [240, 159, 147, 167] @ '' '' @ who @ '' was removed from the conversation'']
          else [let who = join_with '', '' (RemovedParticipants th) in bytes [240, 159, 147, 167] @ '' '' @ who @ '' were removed from the conversation''])))"

end
