(* ===== verification/Convert.thy ===== *)
theory Convert
  imports MatrixText Breaker
begin

text \<open>
  \<open>ConvertMessage\<close> of \<open>pkg/email/processor.go\<close>: how an email becomes the events of its Matrix room: the
  body with its HTML, notices, chunks, inline images, attachments.  The phases are the blocks of
  the function in its order.  The homeserver's \<open>UploadMedia\<close>, gzip and base64 are parameters; the
  uploads made so far are part of the state, and the answer to an upload may depend on their
  number.
\<close>

subsection \<open>State\<close>

record convert_env =
  cv_upload :: "nat \<Rightarrow> gostring \<Rightarrow> gostring \<Rightarrow> gostring \<Rightarrow> go_error + gostring"   \<comment> \<open>data, file name, type\<close>
  cv_MaxUpload :: nat                \<comment> \<open>\<open>MaxUploadBytes\<close>, 0 for no limit\<close>
  cv_GzipLarge :: bool
  cv_gzip :: "gostring \<Rightarrow> gostring option"
  cv_unbase64 :: "gostring \<Rightarrow> go_error + gostring"
  cv_html :: html_lib
  cv_info_json :: "gostring \<times> int \<Rightarrow> nat"

text \<open>A part of the message: its ID (empty when it has none) and its content.\<close>

type_synonym message_part = "gostring \<times> message_content"

record convert_state =
  cs_parts :: "message_part list"
  cs_uploads :: "(gostring \<times> gostring \<times> gostring) list"
  cs_used :: "nat list"                        \<comment> \<open>\<open>usedInline\<close>\<close>
  cs_cid :: "gostring \<rightharpoonup> gostring"             \<comment> \<open>\<open>cidToMXC\<close>\<close>
  cs_loc :: "gostring \<rightharpoonup> gostring"             \<comment> \<open>\<open>locToMXC\<close>\<close>
  cs_images :: "inline_image list"
  cs_next :: nat
  cs_replaced :: nat
  cs_failed :: nat
  cs_metas :: "inline_image list"

definition start_state :: convert_state where
  "start_state = \<lparr>cs_parts = [], cs_uploads = [], cs_used = [], cs_cid = Map.empty, cs_loc = Map.empty,
     cs_images = [], cs_next = 1, cs_replaced = 0, cs_failed = 0, cs_metas = []\<rparr>"

definition appendPart :: "gostring \<Rightarrow> message_content \<Rightarrow> convert_state \<Rightarrow> convert_state" where
  "appendPart pid content st = st\<lparr>cs_parts := cs_parts st @ [(pid, content)]\<rparr>"

definition notice :: "gostring \<Rightarrow> message_content" where "notice body = text_message ''m.notice'' body"

definition UploadMedia ::
  "convert_env \<Rightarrow> gostring \<Rightarrow> gostring \<Rightarrow> gostring \<Rightarrow> convert_state \<Rightarrow> (go_error + gostring) \<times> convert_state" where
  "UploadMedia E data name mime st =
     (cv_upload E (length (cs_uploads st)) data name mime, st\<lparr>cs_uploads := cs_uploads st @ [(data, name, mime)]\<rparr>)"

definition too_large :: "convert_env \<Rightarrow> int \<Rightarrow> bool" where
  "too_large E n \<longleftrightarrow> 0 < cv_MaxUpload E \<and> int (cv_MaxUpload E) < n"

abbreviation within :: "convert_env \<Rightarrow> message_content \<Rightarrow> bool" where
  "within E m \<equiv> withinMatrixLimit (cv_info_json E) m MaxMatrixContentSize"

definition quote_chars :: gostring where "quote_chars = [CHR 0x27, CHR 0x22]"

definition quotes :: rx where "quotes = one_of quote_chars"

subsection \<open>Embedded data\<close>

definition mime_char :: "char \<Rightarrow> bool" where
  "mime_char c \<longleftrightarrow> in_range 48 57 c \<or> in_range 65 90 c \<or> in_range 97 122 c \<or> c \<in> set ''!#$&^_.+-''"

definition rx_mime :: rx where
  "rx_mime = rx_cat [rx_plus (Cls mime_char), rx_lit ''/'', rx_plus (Cls mime_char)]"

definition rx_base64 :: rx where
  "rx_base64 = rx_plus (Cls (\<lambda>c. in_range 48 57 c \<or> in_range 65 90 c \<or> in_range 97 122 c \<or> c \<in> set ''+/=''))"

definition reDataImg :: rx where
  "reDataImg = rx_cat [Cap 1 (rx_cat [rx_lit ''src'', rx_ws, rx_lit ''='', rx_ws]), Cap 2 quotes, rx_ws,
     rx_lit ''data:'', Cap 3 rx_mime, rx_lit '';base64,'', Cap 4 rx_base64, rx_ws, quotes]"

definition reDataCSS :: rx where
  "reDataCSS = rx_cat [rx_lit ''url('', rx_ws, rx_lit ''data:'', Cap 1 rx_mime, rx_lit '';base64,'', Cap 2 rx_base64,
     rx_ws, rx_lit '')'']"

text \<open>One data URI: decoded, checked, uploaded, noted; \<open>wrap\<close> makes the text that replaces it.\<close>

definition data_uri ::
  "convert_env \<Rightarrow> gostring \<Rightarrow> gostring \<Rightarrow> gostring \<Rightarrow> gostring \<Rightarrow> (gostring \<Rightarrow> gostring) \<Rightarrow> convert_state \<Rightarrow> gostring \<times> convert_state" where
  "data_uri E m mimeType b64 name wrap st =
     (let failed = (m, st\<lparr>cs_failed := Suc (cs_failed st)\<rparr>) in
      case cv_unbase64 E b64 of
        Inl e \<Rightarrow> failed
      | Inr data \<Rightarrow>
          if too_large E (int (length data)) then failed
          else (case UploadMedia E data name mimeType st of
            (Inl e, st1) \<Rightarrow> (m, st1\<lparr>cs_failed := Suc (cs_failed st1)\<rparr>)
          | (Inr mxc, st1) \<Rightarrow>
              (wrap mxc, st1\<lparr>cs_replaced := Suc (cs_replaced st1),
                 cs_metas := cs_metas st1 @ [\<lparr>im_Index = 0, im_Label = name, im_MXC = mxc, im_Mime = mimeType, im_Size = int (length data)\<rparr>]\<rparr>)))"

definition data_img :: "convert_env \<Rightarrow> gostring \<Rightarrow> convert_state \<Rightarrow> gostring \<times> convert_state" where
  "data_img E m st =
     (case submatch reDataImg m of
        None \<Rightarrow> (m, st)
      | Some g \<Rightarrow>
          (let mimeType = to_lower (g 3);
               name = sanitizeFilename (if has_prefix mimeType ''image/'' then ''inline.'' @ trim_prefix mimeType ''image/'' else ''inline'')
           in data_uri E m mimeType (g 4) name (\<lambda>mxc. g 1 @ g 2 @ mxc @ g 2) st))"

definition data_css :: "convert_env \<Rightarrow> gostring \<Rightarrow> convert_state \<Rightarrow> gostring \<times> convert_state" where
  "data_css E m st =
     (case submatch reDataCSS m of
        None \<Rightarrow> (m, st)
      | Some g \<Rightarrow> data_uri E m (to_lower (g 1)) (g 2) (sanitizeFilename ''inline'') (\<lambda>mxc. ''url('' @ mxc @ '')'') st)"

definition externalizeDataURIs :: "convert_env \<Rightarrow> gostring \<Rightarrow> convert_state \<Rightarrow> gostring \<times> convert_state" where
  "externalizeDataURIs E html st =
     (let (out, st1) = rx_replace reDataImg (data_img E) html st
      in rx_replace reDataCSS (data_css E) out st1)"

text \<open>The notices about embedded data.\<close>

definition data_notices :: "convert_state \<Rightarrow> convert_state" where
  "data_notices st =
     (let st1 = (if cs_replaced st > 0 then appendPart ''html-inline-optimized''
            (notice (''Optimized inline resources: moved '' @ itoa_go (int (cs_replaced st)) @
     '' embedded data URLs to media.'')) st else st)
      in if cs_failed st > 0 then appendPart ''html-inline-omitted''
           (notice (''Some embedded data URLs were too large or invalid and were omitted ('' @
     itoa_go (int (cs_failed st)) @ '').'')) st1 else st1)"

subsection \<open>Image tags\<close>

definition reImgTag :: rx where
  "reImgTag = rx_cat [rx_lit ''<'', rx_ws, rx_lit ''img'', WordBoundary, Rep True (none_of ''>''), rx_lit ''>'']"

definition reAttr :: "gostring \<Rightarrow> rx" where
  "reAttr name = rx_cat [rx_lit name, rx_ws, rx_lit ''='', rx_ws,
     Cap 1 (Alt (rx_cat [quotes, Rep True (none_of quote_chars), quotes]) (rx_plus (none_of (re_space @ ''>''))))]"

definition unquote :: "char \<Rightarrow> gostring \<Rightarrow> gostring" where
  "unquote q v = (if has_prefix v [q] \<and> has_suffix v [q] then trim_suffix (trim_prefix v [q]) [q] else v)"

definition extractAttr :: "gostring \<Rightarrow> gostring \<Rightarrow> gostring" where
  "extractAttr tag name =
     (case submatch (reAttr name) tag of
        None \<Rightarrow> []
      | Some g \<Rightarrow> unquote (CHR 0x27) (unquote (CHR 0x22) (trim_space (g 1))))"

definition add_image ::
  "gostring \<Rightarrow> gostring \<Rightarrow> gostring \<Rightarrow> int \<Rightarrow> gostring \<Rightarrow> convert_state \<Rightarrow> gostring \<times> convert_state" where
  "add_image alt mxc mime sz defaultLabel st =
     (let label = (if alt \<noteq> [] then alt else defaultLabel) in
      (''<img src='' @ [CHR 0x22] @ mxc @ [CHR 0x22] @ '' alt='' @ [CHR 0x22] @ EscapeString label @ [CHR 0x22] @ ''>'',
       st\<lparr>cs_images := cs_images st @ [\<lparr>im_Index = cs_next st, im_Label = label, im_MXC = mxc, im_Mime = mime, im_Size = sz\<rparr>],
          cs_next := Suc (cs_next st)\<rparr>))"

text \<open>An attachment an image tag refers to; \<open>note\<close> records its new address.\<close>

definition inline_attachment ::
  "convert_env \<Rightarrow> email_attachment option list \<Rightarrow> nat option \<Rightarrow> gostring \<Rightarrow> gostring \<Rightarrow> (gostring \<Rightarrow> convert_state \<Rightarrow> convert_state) \<Rightarrow>
     convert_state \<Rightarrow> gostring \<times> convert_state" where
  "inline_attachment E atts idx alt fallback note_at st =
     (case idx of
        None \<Rightarrow> (''[Image]'', st)
      | Some i \<Rightarrow>
          (case atts ! i of
             None \<Rightarrow> (''[Image]'', st)
           | Some a \<Rightarrow>
               if too_large E (at_Size a) then (''[Image omitted: too large]'', st)
               else (case UploadMedia E (at_Data a) (bestFilename a fallback) (at_ContentType a) st of
                 (Inl e, st1) \<Rightarrow> (''[Image]'', st1)
               | (Inr mxc, st1) \<Rightarrow>
                   add_image alt mxc (at_ContentType a) (at_Size a) (bestFilename a fallback)
                     (note_at mxc (st1\<lparr>cs_used := i # cs_used st1\<rparr>)))))"

definition img_tag :: "convert_env \<Rightarrow> email_attachment option list \<Rightarrow> gostring \<Rightarrow> convert_state \<Rightarrow> gostring \<times> convert_state" where
  "img_tag E atts tag st =
     (let src = trim_space (extractAttr tag ''src'');
          alt0 = trim_space (extractAttr tag ''alt'');
          alt = (if alt0 = [] then trim_space (extractAttr tag ''title'') else alt0);
          low = to_lower src
      in if has_prefix low ''http:'' \<or> has_prefix low ''https:'' then ([], st)
         else if has_prefix low ''mxc://'' then
           (case find (\<lambda>dm. equal_fold (im_MXC dm) src) (cs_metas st) of
              Some dm \<Rightarrow> add_image alt (im_MXC dm) (im_Mime dm) (im_Size dm) (im_Label dm) st
            | None \<Rightarrow> (''[Image]'', st))
         else if has_prefix low ''cid:'' then
           (let cid = normalizeCIDRef src
            in inline_attachment E atts (findAttachmentByCID atts cid) alt cid
                 (\<lambda>mxc st. st\<lparr>cs_cid := (cs_cid st)(cid \<mapsto> mxc)\<rparr>) st)
         else if low \<noteq> [] \<and> \<not> has_prefix low ''data:'' then
           (let key = normalizeContentLocation src
            in inline_attachment E atts (findAttachmentByContentLocation atts key) alt key
                 (\<lambda>mxc st. st\<lparr>cs_loc := (cs_loc st)(key \<mapsto> mxc)\<rparr>) st)
         else (''[Image]'', st))"

subsection \<open>References in styles and attributes\<close>

definition reImgCidSrc :: rx where
  "reImgCidSrc = rx_cat [Cap 1 (rx_cat [rx_lit ''src'', rx_ws, rx_lit ''='', rx_ws]), Cap 2 quotes, rx_ws, rx_lit ''cid:'',
     Cap 3 (rx_plus (none_of (quote_chars @ re_space @ '')'')))]"

definition reCSSCidURL :: rx where
  "reCSSCidURL = rx_cat [rx_lit ''url('', rx_ws, rx_lit ''cid:'', Cap 1 (rx_plus (none_of ('') '' @ [CHR 0x09, CHR 0x0D, newline]))),
     rx_ws, rx_lit '')'']"

definition reLoc :: rx where
  "reLoc = rx_cat [rx_lit ''src'', rx_ws, rx_lit ''='', rx_ws, Cap 1 quotes, Cap 2 (rx_plus (none_of quote_chars)), Cap 3 quotes]"

definition known :: "(gostring \<rightharpoonup> gostring) \<Rightarrow> gostring \<Rightarrow> gostring" where
  "known m k = (case m k of None \<Rightarrow> [] | Some mxc \<Rightarrow> mxc)"

definition rewrite_with :: "rx \<Rightarrow> ((nat \<Rightarrow> gostring) \<Rightarrow> gostring option) \<Rightarrow> gostring \<Rightarrow> gostring" where
  "rewrite_with r f html =
     fst (rx_replace r (\<lambda>m st. (case Option.bind (submatch r m) f of None \<Rightarrow> m | Some t \<Rightarrow> t, st)) html ())"

definition rewriteHTMLInline :: "(gostring \<rightharpoonup> gostring) \<Rightarrow> (gostring \<rightharpoonup> gostring) \<Rightarrow> gostring \<Rightarrow> gostring" where
  "rewriteHTMLInline cids locs html =
     (let o1 = rewrite_with reImgCidSrc (\<lambda>g. let mxc = known cids (normalizeCIDRef (g 3)) in
            if mxc \<noteq> [] then Some (g 1 @ g 2 @ mxc @ g 2) else None) html;
          o2 = rewrite_with reCSSCidURL (\<lambda>g. let mxc = known cids (normalizeCIDRef (g 1)) in
            if mxc \<noteq> [] then Some (''url('' @ mxc @ '')'') else None) o1
      in rewrite_with reLoc (\<lambda>g.
           let low = to_lower (g 2); mxc = known locs (normalizeContentLocation (g 2)) in
           if g 1 \<noteq> g 3 \<or> list_ex (has_prefix low) [''http:'', ''https:'', ''data:'', ''cid:''] \<or> mxc = [] then None
           else Some (''src='' @ g 1 @ mxc @ g 3)) o2)"

definition reBackgroundImageCSS :: rx where
  "reBackgroundImageCSS = rx_cat [rx_lit ''<'',
     Cap 1 (rx_any [''td'', ''table'', ''div'', ''tr'', ''th'', ''p'', ''a'', ''span'', ''section'', ''article'']), WordBoundary,
     Cap 2 (rx_cat [Rep False (none_of ''>''), WordBoundary, rx_lit ''style'', rx_ws, rx_lit ''='', rx_ws, quotes,
       Rep True (none_of quote_chars), rx_lit ''background-image'', rx_ws, rx_lit '':'', rx_ws, rx_lit ''url('', rx_ws,
       rx_opt quotes, rx_lit ''cid:'', Cap 3 (rx_plus (none_of ('')'' @ re_space @ quote_chars))), rx_opt quotes, rx_ws,
       rx_lit '')'', Rep True (none_of quote_chars), quotes, Rep True (none_of ''>'')]), rx_lit ''>'']"

definition reBackgroundAttr :: rx where
  "reBackgroundAttr = rx_cat [rx_lit ''<'', Cap 1 (rx_any [''td'', ''table'', ''tr'', ''th'', ''div'']), WordBoundary,
     Cap 2 (rx_cat [Rep False (none_of ''>''), WordBoundary, rx_lit ''background'', rx_ws, rx_lit ''='', rx_ws, quotes,
       rx_lit ''cid:'', Cap 3 (rx_plus (none_of (quote_chars @ re_space @ ''>''))), quotes, Rep True (none_of ''>'')]), rx_lit ''>'']"

text \<open>\<open>uploadBG\<close>: the address of a background image, empty when there is none.\<close>

definition uploadBG :: "convert_env \<Rightarrow> email_attachment option list \<Rightarrow> gostring \<Rightarrow> convert_state \<Rightarrow> gostring \<times> convert_state" where
  "uploadBG E atts cid st =
     (case findAttachmentByCID atts cid of
        None \<Rightarrow> ([], st)
      | Some i \<Rightarrow>
          (case atts ! i of
             None \<Rightarrow> ([], st)
           | Some a \<Rightarrow>
               if too_large E (at_Size a) then ([], st)
               else (case UploadMedia E (at_Data a) (bestFilename a cid) (at_ContentType a) st of
                 (Inl e, st1) \<Rightarrow> ([], st1)
               | (Inr mxc, st1) \<Rightarrow>
                   (mxc, st1\<lparr>cs_used := i # cs_used st1,
                      cs_images := cs_images st1 @ [\<lparr>im_Index = cs_next st1, im_Label = bestFilename a cid, im_MXC = mxc,
                        im_Mime = at_ContentType a, im_Size = at_Size a\<rparr>],
                      cs_next := Suc (cs_next st1)\<rparr>))))"

definition inject :: "convert_env \<Rightarrow> email_attachment option list \<Rightarrow> rx \<Rightarrow> gostring \<Rightarrow> convert_state \<Rightarrow> gostring \<times> convert_state" where
  "inject E atts r m st =
     (case submatch r m of
        None \<Rightarrow> (m, st)
      | Some g \<Rightarrow>
          (let cid = normalizeCIDRef (g 3);
               (mxc, st1) = (if known (cs_cid st) cid \<noteq> [] then (known (cs_cid st) cid, st)
                 else case uploadBG E atts cid st of
                   (got, st1) \<Rightarrow> (got, if got \<noteq> [] then st1\<lparr>cs_cid := (cs_cid st1)(cid \<mapsto> got)\<rparr> else st1))
           in if mxc = [] then (m, st1)
              else (m @ ''<img src='' @ bytes [34] @ mxc @ bytes [34] @ '' alt='' @ bytes [34, 34] @ '' style='' @
     bytes [34] @ ''max-width:100%'' @ bytes [34] @ ''>'', st1)))"

definition MaterializeBackgroundImages ::
  "convert_env \<Rightarrow> email_attachment option list \<Rightarrow> gostring \<Rightarrow> convert_state \<Rightarrow> gostring \<times> convert_state" where
  "MaterializeBackgroundImages E atts htmlIn st =
     (if htmlIn = [] then ([], st)
      else let (out, st1) = rx_replace reBackgroundImageCSS (inject E atts reBackgroundImageCSS) htmlIn st
           in rx_replace reBackgroundAttr (inject E atts reBackgroundAttr) out st1)"

text \<open>All that is done to the HTML before the body is put together.\<close>

definition prepare_html ::
  "convert_env \<Rightarrow> email_attachment option list \<Rightarrow> gostring \<Rightarrow> convert_state \<Rightarrow> gostring \<times> convert_state" where
  "prepare_html E atts html0 st =
     (if html0 = [] then ([], st)
      else
        let html1 = (if length html0 > 30 * 1024 then lightMinifyHTML html0 else html0);
            (html2, st1) = externalizeDataURIs E html1 st;
            (html3, st2) = rx_replace reImgTag (img_tag E atts) html2 (data_notices st1)
        in MaterializeBackgroundImages E atts (rewriteHTMLInline (cs_cid st2) (cs_loc st2) html3) st2)"

subsection \<open>The body\<close>

definition is_reply :: "parsed_email \<Rightarrow> bool" where
  "is_reply email \<longleftrightarrow> pe_InReplyTo email \<noteq> [] \<or> pe_References email \<noteq> []"

definition or_else :: "gostring \<Rightarrow> gostring \<Rightarrow> gostring" where
  "or_else stripped s = (if stripped \<noteq> [] then stripped else s)"

definition reply_text :: "parsed_email \<Rightarrow> gostring" where
  "reply_text email =
     (let t = pe_TextContent email in if is_reply email then or_else (StripQuotedReply t) t else t)"

definition reply_html :: "parsed_email \<Rightarrow> gostring \<Rightarrow> gostring" where
  "reply_html email html =
     (if is_reply email \<and> html \<noteq> [] then or_else (StripQuotedReplyHTML html) html else html)"

definition shorten :: "gostring \<Rightarrow> gostring \<Rightarrow> gostring" where
  "shorten html body =
     (if html \<noteq> [] \<and> length body > 2048
      then fst (truncateUTF8PreserveWords body 1000) @ bytes [10, 10] @ ''[HTML version included below]''
      else body)"

definition with_listing :: "inline_image list \<Rightarrow> gostring \<Rightarrow> gostring" where
  "with_listing images body =
     (if images = [] then body
      else trim_right_set [newline]
        (body @ (if body \<noteq> [] then [newline, newline] else []) @ ''Images:'' @ [newline] @
         concat (map (\<lambda>im. '' - Image '' @ itoa_go (int (im_Index im)) @ '': '' @ im_Label im @ bytes [10]) images)))"

definition formatted_body :: "convert_env \<Rightarrow> gostring \<Rightarrow> gostring" where
  "formatted_body E html = filterInvisibleUnicode (hl_invisible (cv_html E)) (hl_unescape (cv_html E) html)"

definition nonempty_body :: "convert_env \<Rightarrow> gostring \<Rightarrow> gostring \<Rightarrow> gostring" where
  "nonempty_body E html body =
     (if body = [] \<and> html \<noteq> [] then
        (let t = simpleHTMLToText (cv_html E) html
         in if trim_space t = [] then ''[Email content is HTML-only - check formatted version]'' else t)
      else if body = [] then ''[No text content]''
      else body)"

definition main_content :: "convert_env \<Rightarrow> parsed_email \<Rightarrow> gostring \<Rightarrow> inline_image list \<Rightarrow> message_content" where
  "main_content E email html images =
     (let body = with_listing images (shorten html (reply_text email));
          has_html = (html \<noteq> [] \<and> html \<noteq> pe_TextContent email)
      in \<lparr>mc_MsgType = ''m.text'', mc_Body = nonempty_body E html body,
          mc_Format = (if has_html then ''org.matrix.custom.html'' else []),
          mc_FormattedBody = (if has_html then formatted_body E html else []), mc_URL = [], mc_Info = None\<rparr>)"

subsection \<open>Fitting the size limit\<close>

definition file_message :: "gostring \<Rightarrow> gostring \<Rightarrow> gostring \<Rightarrow> nat \<Rightarrow> message_content" where
  "file_message filename url mime n =
     (text_message ''m.file'' filename)\<lparr>mc_URL := url, mc_Info := Some (mime, int n)\<rparr>"

text \<open>An oversized body is compressed when that makes it fit: data, name, type, whether it was.\<close>

definition compressed :: "convert_env \<Rightarrow> gostring \<Rightarrow> gostring \<Rightarrow> gostring \<Rightarrow> gostring \<times> gostring \<times> gostring \<times> bool" where
  "compressed E data name mime =
     (if too_large E (int (length data)) \<and> cv_GzipLarge E then
        (case cv_gzip E data of
           Some gz \<Rightarrow> if length gz \<le> cv_MaxUpload E then (gz, name @ ''.gz'', ''application/gzip'', True) else (data, name, mime, False)
         | None \<Rightarrow> (data, name, mime, False))
      else (data, name, mime, False))"

definition attach_html :: "convert_env \<Rightarrow> gostring \<Rightarrow> convert_state \<Rightarrow> bool \<times> convert_state" where
  "attach_html E html st =
     (case compressed E html ''original-email.html'' ''text/html'' of
        (data, filename, mime, gz) \<Rightarrow>
          if too_large E (int (length data))
          then (False, appendPart ''html-oversize-omitted'' (notice ''HTML body too large to attach; content was omitted.'') st)
          else (case UploadMedia E data filename mime st of
            (Inl e, st1) \<Rightarrow> (False, appendPart [] (notice ''Failed to upload full HTML content.'') st1)
          | (Inr mxc, st1) \<Rightarrow>
              (True, appendPart ''html-attachment'' (file_message filename mxc mime (length data))
                 (if gz then appendPart ''html-inline-notice''
                    (notice (''HTML body exceeded upload limit '' @ bytes [226, 128, 148] @ '' compressed and attached as .gz for review.'')) st1
                  else appendPart [] (notice (''Full HTML was too large to send inline '' @ bytes [226, 128, 148] @ '' attached for review.'')) st1))))"

definition drop_html_notice :: "bool \<Rightarrow> gostring" where
  "drop_html_notice marketing =
     (if marketing then ''[Marketing-style HTML kept as attachment '' @ bytes [226, 128, 148] @ '' open it to see the full design]''
      else ''[Full HTML too large to send inline '' @ bytes [226, 128, 148] @ '' attached below]'')"

definition fit_html ::
  "convert_env \<Rightarrow> gostring \<Rightarrow> bool \<Rightarrow> message_content \<Rightarrow> convert_state \<Rightarrow> message_content \<times> bool \<times> convert_state" where
  "fit_html E html marketing content st =
     (if (marketing \<or> \<not> within E content) \<and> mc_FormattedBody content \<noteq> [] then
        (let c1 = (if marketing then content
               else case boundedMinifyHTML (mc_FormattedBody content) HTMLMinificationTarget of
                 (minified, ok) \<Rightarrow> if ok then content\<lparr>mc_FormattedBody := minified\<rparr> else content)
         in if marketing \<or> \<not> within E c1 then
              (let nt = drop_html_notice marketing;
                   c2 = c1\<lparr>mc_FormattedBody := [],
                     mc_Body := (if mc_Body c1 \<noteq> [] then mc_Body c1 @ [newline, newline] @ nt else nt)\<rparr>;
                   (attached, st1) = attach_html E html st
               in (c2, attached, st1))
            else (c1, False, st))
      else (content, False, st))"

definition attach_text :: "convert_env \<Rightarrow> gostring \<Rightarrow> convert_state \<Rightarrow> convert_state" where
  "attach_text E fullText st =
     (case compressed E fullText ''original-email.txt'' ''text/plain'' of
        (data, filename, mime, gz) \<Rightarrow>
          if too_large E (int (length data))
          then appendPart ''text-oversize-omitted'' (notice ''Text body too large to attach; only truncated body was sent.'') st
          else (case UploadMedia E data filename mime st of
            (Inl e, st1) \<Rightarrow> st1
          | (Inr mxc, st1) \<Rightarrow>
              appendPart ''text-attachment'' (file_message filename mxc mime (length data))
                (appendPart ''text-attachment-notice''
                  (notice (if gz then ''Text body exceeded upload limit '' @ bytes [226, 128, 148] @ '' compressed and attached as .gz for review.''
                    else ''Full text was too large to send inline '' @ bytes [226, 128, 148] @ '' attached for review.'')) st1)))"

definition fit_text :: "convert_env \<Rightarrow> message_content \<Rightarrow> convert_state \<Rightarrow> message_content \<times> convert_state" where
  "fit_text E content st =
     (if within E content then (content, st)
      else
        let fullText = mc_Body content;
            maxBody = (if MaxMatrixContentSize - 2048 < 1024 then 1024 else MaxMatrixContentSize - 2048);
            body = (case truncateUTF8PreserveWords fullText maxBody of
                (trunc, True) \<Rightarrow> trunc @ bytes [10, 10] @ ''[Message truncated '' @ bytes [226, 128, 148] @ '' full text attached]''
              | (trunc, False) \<Rightarrow> if length fullText > maxBody then take maxBody fullText @ bytes [10, 10] @ ''[Message truncated]'' else fullText)
        in (content\<lparr>mc_Body := body\<rparr>, attach_text E fullText st))"

definition drop_oversized_html :: "convert_env \<Rightarrow> message_content \<Rightarrow> message_content" where
  "drop_oversized_html E content =
     (if mc_FormattedBody content \<noteq> [] \<and> \<not> within E content then content\<lparr>mc_FormattedBody := []\<rparr> else content)"

subsection \<open>The parts\<close>

definition participant_notice :: "email_thread \<Rightarrow> convert_state \<Rightarrow> email_thread \<times> convert_state" where
  "participant_notice th st =
     (let msg = generateParticipantChangeMessage th in
      if msg \<noteq> [] then (th\<lparr>AddedParticipants := [], RemovedParticipants := []\<rparr>, appendPart ''participant-change'' (notice msg) st)
      else (th, st))"

definition maxChunks :: nat where "maxChunks = 50"

definition cut_chunk :: "gostring \<Rightarrow> gostring" where
  "cut_chunk remaining =
     (let chunk = fst (truncateUTF8PreserveWords remaining PerEventTarget)
      in if chunk = [] then take PerEventTarget remaining else chunk)"

function shrink_chunk :: "convert_env \<Rightarrow> gostring \<Rightarrow> gostring" where
  "shrink_chunk E chunk =
     (if \<not> within E (text_message ''m.text'' chunk) \<and> 0 < length chunk then
        (let reduceBy = max (length chunk div 10) 256;
             newLen = (if length chunk \<le> reduceBy then length chunk - 1 else length chunk - reduceBy)
         in shrink_chunk E (take newLen chunk))
      else chunk)"
  by pat_completeness auto
termination
  by (relation "measure (\<lambda>(E, chunk). length chunk)") (auto simp: Let_def)

declare shrink_chunk.simps [simp del]

definition after_chunk :: "gostring \<Rightarrow> gostring \<Rightarrow> gostring" where
  "after_chunk chunk remaining =
     (if length chunk \<ge> length remaining then []
      else dropWhile (\<lambda>c. c \<in> set blanks_nl) (drop (length chunk) remaining))"

fun chunk_parts :: "convert_env \<Rightarrow> nat \<Rightarrow> nat \<Rightarrow> gostring \<Rightarrow> message_part list \<times> gostring" where
  "chunk_parts E 0 idx remaining = ([], remaining)"
| "chunk_parts E (Suc n) idx remaining =
     (if remaining = [] then ([], [])
      else
        let chunk = shrink_chunk E (cut_chunk remaining);
            (ps, r) = chunk_parts E n (Suc idx) (after_chunk chunk remaining)
        in ((''body-chunk-'' @ itoa_go (int idx), text_message ''m.text'' chunk) # ps, r))"

definition add_body :: "convert_env \<Rightarrow> message_content \<Rightarrow> convert_state \<Rightarrow> convert_state" where
  "add_body E content st =
     (if within E content \<and> length (mc_Body content) \<le> PerEventTarget then appendPart ''body'' content st
      else
        let (ps, r) = chunk_parts E maxChunks 1 (mc_Body content); st1 = st\<lparr>cs_parts := cs_parts st @ ps\<rparr>
        in if r \<noteq> [] then appendPart ''truncate-notice''
             (notice (''Message was too large and has been truncated. '' @ itoa_go (int (length r)) @
     '' characters omitted to prevent server overload.'')) st1
           else st1)"

definition sidecar :: "inline_image \<Rightarrow> message_part" where
  "sidecar im = (''inline-image-'' @ itoa_go (int (im_Index im)),
     \<lparr>mc_MsgType = ''m.image'', mc_Body = ''Image '' @ itoa_go (int (im_Index im)) @ '': '' @ im_Label im,
      mc_Format = [], mc_FormattedBody = [], mc_URL = im_MXC im, mc_Info = Some (im_Mime im, im_Size im)\<rparr>)"

definition add_sidecars :: "message_content \<Rightarrow> bool \<Rightarrow> convert_state \<Rightarrow> convert_state" where
  "add_sidecars content attached st =
     (if mc_FormattedBody content = [] \<and> \<not> attached
      then st\<lparr>cs_parts := cs_parts st @ map sidecar (filter (\<lambda>im. \<not> isLikelyDecorativeImage im) (cs_images st))\<rparr>
      else st)"

definition convertAttachmentToMatrix ::
  "convert_env \<Rightarrow> email_attachment \<Rightarrow> convert_state \<Rightarrow> (go_error + message_content) \<times> convert_state" where
  "convertAttachmentToMatrix E a st =
     (if too_large E (at_Size a) then
        (Inl (Err (''attachment exceeds upload limit ('' @ itoa_go (at_Size a) @ '' bytes > '' @
     itoa_go (int (cv_MaxUpload E)) @ '' bytes)'')), st)
      else
        let safe0 = sanitizeFilename (at_Filename a);
            safeName = (if safe0 = [] then sanitizeFilename (bestFilename a ''attachment'') else safe0)
        in case UploadMedia E (at_Data a) safeName (at_ContentType a) st of
             (Inl e, st1) \<Rightarrow> (Inl (Errorf ''failed to upload attachment to Matrix'' e), st1)
           | (Inr mxc, st1) \<Rightarrow>
               (Inr \<lparr>mc_MsgType = getMessageTypeForAttachment (at_ContentType a), mc_Body = at_Filename a, mc_Format = [],
                     mc_FormattedBody = [], mc_URL = mxc, mc_Info = Some (at_ContentType a, at_Size a)\<rparr>, st1))"

definition att_id :: "nat \<Rightarrow> gostring \<Rightarrow> gostring" where
  "att_id idx filename = ''att-'' @ itoa_go (int idx + 1) @ ''-'' @ sanitizeFilename filename"

definition failed_attachment :: "email_attachment \<Rightarrow> message_content" where
  "failed_attachment a = notice (bytes [240, 159, 147, 142] @ '' Attachment failed to upload: '' @ at_Filename a @ '' ('' @
     at_ContentType a @ '')'')"

text \<open>The attachments not used inline; a nil one is dereferenced and panics (None).\<close>

fun add_attachments :: "convert_env \<Rightarrow> nat \<Rightarrow> email_attachment option list \<Rightarrow> convert_state \<Rightarrow> bool \<times> convert_state" where
  "add_attachments E idx [] st = (True, st)"
| "add_attachments E idx (oa # oas) st =
     (if idx \<in> set (cs_used st) then add_attachments E (Suc idx) oas st
      else case oa of
        None \<Rightarrow> (False, st)
      | Some a \<Rightarrow>
          (case convertAttachmentToMatrix E a st of
             (Inr content, st1) \<Rightarrow> add_attachments E (Suc idx) oas (appendPart (att_id idx (at_Filename a)) content st1)
           | (Inl e, st1) \<Rightarrow> add_attachments E (Suc idx) oas (appendPart [] (failed_attachment a) st1)))"

definition error_placeholder :: message_content where
  "error_placeholder = notice (bytes [226, 154, 160, 239, 184, 143] @ '' Your email could not be fully processed by the bridge. The original message may have been dropped. Please report this to the bridge maintainers.'')"

definition ConvertMessage ::
  "convert_env \<Rightarrow> parsed_email \<Rightarrow> email_attachment option list \<Rightarrow> email_thread \<Rightarrow> email_thread \<times> convert_state" where
  "ConvertMessage E email atts th =
     (let (html1, st1) = prepare_html E atts (pe_HTMLContent email) start_state;
          html = reply_html email html1;
          content0 = main_content E email html (cs_images st1);
          marketing = (html \<noteq> [] \<and> mc_FormattedBody content0 \<noteq> [] \<and> IsLikelyMarketingHTML html (shorten html (reply_text email)));
          (content1, attached, st2) = fit_html E html marketing content0 st1;
          (content2, st3) = fit_text E content1 st2;
          content3 = drop_oversized_html E content2;
          (th', st4) = participant_notice th st3;
          (ok, st5) = add_attachments E 0 atts (add_sidecars content3 attached (add_body E content3 st4))
      in (th', if ok then st5 else appendPart ''error-placeholder'' error_placeholder st5))"

end
