(* ===== verification/ConvertFacts.thy ===== *)
theory ConvertFacts
  imports Convert
begin

text \<open>
  Facts about \<open>ConvertMessage\<close>: what every step of the conversion keeps (the locale
  \<open>conversion_invariant\<close>, interpreted on the bound of the text events, the upload limit and the fate
  of the attachments used inline), what becomes of each attachment, and what chunking keeps.
\<close>

subsection \<open>Sizes\<close>

lemma fst_truncate_prefix: "\<exists>t. s = fst (truncateUTF8PreserveWords s n) @ t"
proof -
  have "\<exists>k. fst (truncateUTF8PreserveWords s n) = take k s"
    unfolding truncateUTF8PreserveWords_def Let_def
    by (cases "length s \<le> n") (simp_all, metis order_refl take_all, blast)
  then show ?thesis by (metis append_take_drop_id)
qed

lemma valid_cut_le: "valid_cut s n \<le> n"
  by (induction n) auto

lemma truncate_length: "length (fst (truncateUTF8PreserveWords s n)) \<le> n"
proof (cases "length s \<le> n")
  case False
  have "(case last_index (CHR '' '') (take c s) of Some i \<Rightarrow> if 0 < i \<and> c - i < 512 then i else c | None \<Rightarrow> c) \<le> c" for c
    using last_index_less [of "CHR '' ''" "take c s"] by (fastforce split: option.splits)
  with False valid_cut_le [of s n] show ?thesis
    by (auto simp: truncateUTF8PreserveWords_def Let_def intro: min.coboundedI2 order_trans)
qed (simp add: truncateUTF8PreserveWords_def)

lemma cut_chunk_length: "length (cut_chunk s) \<le> PerEventTarget"
  using truncate_length [of s PerEventTarget] by (simp add: cut_chunk_def Let_def)

lemma cut_chunk_prefix: "\<exists>t. s = cut_chunk s @ t"
proof (cases "fst (truncateUTF8PreserveWords s PerEventTarget) = []")
  case True
  then have "s = cut_chunk s @ drop PerEventTarget s" by (simp add: cut_chunk_def)
  then show ?thesis by blast
next
  case False
  then show ?thesis using fst_truncate_prefix [of s PerEventTarget] by (simp add: cut_chunk_def)
qed

lemma shrink_chunk_stop: "within E (text_message ''m.text'' c) \<or> c = [] \<Longrightarrow> shrink_chunk E c = c"
  by (subst shrink_chunk.simps) auto

lemma shrink_chunk_step:
  assumes "\<not> within E (text_message ''m.text'' c)" "c \<noteq> []"
  shows "\<exists>k. k < length c \<and> shrink_chunk E c = shrink_chunk E (take k c)"
proof -
  let ?r = "max (length c div 10) 256"
  let ?k = "if length c \<le> ?r then length c - 1 else length c - ?r"
  have "?k < length c" using assms(2) by (cases c) auto
  moreover have "shrink_chunk E c = shrink_chunk E (take ?k c)"
    using assms by (subst shrink_chunk.simps) (simp add: Let_def)
  ultimately show ?thesis by blast
qed

lemma shrink_chunk_induct:
  assumes "\<And>c. within E (text_message ''m.text'' c) \<or> c = [] \<Longrightarrow> P c c"
    and "\<And>c k. k < length c \<Longrightarrow> P (take k c) (shrink_chunk E c) \<Longrightarrow> P c (shrink_chunk E c)"
  shows "P c (shrink_chunk E c)"
proof (induction "length c" arbitrary: c rule: less_induct)
  case less
  show ?case
  proof (cases "within E (text_message ''m.text'' c) \<or> c = []")
    case True
    then show ?thesis using assms(1) shrink_chunk_stop by simp
  next
    case False
    then obtain k where k: "k < length c" "shrink_chunk E c = shrink_chunk E (take k c)"
      using shrink_chunk_step by blast
    then show ?thesis using less [of "take k c"] assms(2) [of k c] by simp
  qed
qed

lemma shrink_chunk_take: "\<exists>n. shrink_chunk E c = take n c"
  by (rule shrink_chunk_induct [where P = "\<lambda>c r. \<exists>n. r = take n c"]) (metis order_refl take_all, auto)

lemma shrink_chunk_length: "length (shrink_chunk E c) \<le> length c"
  using shrink_chunk_take [of E c] by auto

lemma json_rune_le: "r \<noteq> [] \<Longrightarrow> json_rune r \<le> 6 * length r"
  by (cases r) (auto simp: json_rune_def Let_def bad_rune_def)

lemma runes_nonempty: "r \<in> set (runes s) \<Longrightarrow> r \<noteq> []"
proof (induction s rule: runes.induct)
  case (2 c s)
  have "take (rune_len (c # s)) (c # s) \<noteq> []"
    using rune_len_pos [of "c # s"] unfolding take_eq_Nil by (simp del: rune_len.simps rune_len_pos)
  with 2 show ?case unfolding runes.simps(2) by (auto simp only: list.set insert_iff)
qed simp

lemma json_string_le: "json_string s \<le> 2 + 6 * length s"
proof -
  have "sum_list (map json_rune (runes s)) \<le> sum_list (map (\<lambda>r. 6 * length r) (runes s))"
    by (rule sum_list_mono) (use json_rune_le runes_nonempty in blast)
  also have "\<dots> = 6 * length (concat (runes s))"
    by (simp add: length_concat sum_list_const_mult)
  finally show ?thesis by (simp add: json_string_def concat_runes)
qed

lemma empty_text_fits: "within E (text_message ''m.text'' [])"
  using json_string_le [of "''m.text''"]
  by (simp add: withinMatrixLimit_def json_size_def json_field_def text_message_def MaxMatrixContentSize_def)

lemma shrink_chunk_fits: "within E (text_message ''m.text'' (shrink_chunk E c))"
  by (rule shrink_chunk_induct [where P = "\<lambda>c r. within E (text_message ''m.text'' r)"]) (use empty_text_fits in auto)

subsection \<open>What a conversion keeps\<close>

text \<open>A part that is a text is within the limits of one event.\<close>

definition event_ok :: "convert_env \<Rightarrow> message_part \<Rightarrow> bool" where
  "event_ok E p \<longleftrightarrow>
     mc_MsgType (snd p) \<noteq> ''m.text'' \<or> within E (snd p) \<and> length (mc_Body (snd p)) \<le> PerEventTarget"

text \<open>The laws: the six ways the state of a conversion changes, and what it must not depend on.\<close>

locale conversion_invariant =
  fixes E :: convert_env and atts :: "email_attachment option list" and I :: "convert_state \<Rightarrow> bool"
  assumes frame: "I st \<Longrightarrow> cs_parts st' = cs_parts st \<Longrightarrow> cs_uploads st' = cs_uploads st \<Longrightarrow>
      cs_used st' = cs_used st \<Longrightarrow> cs_images st' = cs_images st \<Longrightarrow> I st'"
    and parts: "I st \<Longrightarrow> list_all (event_ok E) ps \<Longrightarrow> I (st\<lparr>cs_parts := cs_parts st @ ps\<rparr>)"
    and image: "I st \<Longrightarrow> I (st\<lparr>cs_images := cs_images st @ [im]\<rparr>)"
    and upload: "I st \<Longrightarrow> \<not> too_large E (int (length d)) \<Longrightarrow> I (st\<lparr>cs_uploads := cs_uploads st @ [(d, n, m)]\<rparr>)"
    and upload_attachment: "I st \<Longrightarrow> i < length atts \<Longrightarrow> atts ! i = Some a \<Longrightarrow> \<not> too_large E (at_Size a) \<Longrightarrow>
      I (st\<lparr>cs_uploads := cs_uploads st @ [(at_Data a, n, at_ContentType a)]\<rparr>)"
    and use_attachment: "I st \<Longrightarrow> i < length atts \<Longrightarrow> atts ! i = Some a \<Longrightarrow> \<not> too_large E (at_Size a) \<Longrightarrow>
      cv_upload E (length (cs_uploads st)) (at_Data a) n (at_ContentType a) = Inr (im_MXC im) \<Longrightarrow>
      I (st\<lparr>cs_uploads := cs_uploads st @ [(at_Data a, n, at_ContentType a)], cs_used := i # cs_used st,
            cs_images := cs_images st @ [im]\<rparr>)"
begin

lemma append_other: "I st \<Longrightarrow> mc_MsgType c \<noteq> ''m.text'' \<Longrightarrow> I (appendPart pid c st)"
  using parts [of st "[(pid, c)]"] by (simp add: appendPart_def event_ok_def)

lemma append_notice: "I st \<Longrightarrow> I (appendPart pid (notice b) st)"
  by (rule append_other) (simp_all add: notice_def text_message_def)

lemma append_file: "I st \<Longrightarrow> I (appendPart pid (file_message f u m n) st)"
  by (rule append_other) (simp_all add: file_message_def text_message_def)

lemma upload_kept: "I st \<Longrightarrow> \<not> too_large E (int (length d)) \<Longrightarrow> I (snd (UploadMedia E d n m st))"
  by (simp add: UploadMedia_def upload)

lemma counters_kept:
  "I st \<Longrightarrow> I (st\<lparr>cs_failed := k\<rparr>)" "I st \<Longrightarrow> I (st\<lparr>cs_replaced := k\<rparr>)" "I st \<Longrightarrow> I (st\<lparr>cs_metas := ms\<rparr>)"
  "I st \<Longrightarrow> I (st\<lparr>cs_cid := cm\<rparr>)" "I st \<Longrightarrow> I (st\<lparr>cs_loc := cm\<rparr>)" "I st \<Longrightarrow> I (st\<lparr>cs_next := k\<rparr>)"
  by (erule frame; simp)+

lemma data_uri_kept: "I st \<Longrightarrow> I (snd (data_uri E m mimeType b64 name wrap st))"
  by (auto simp: data_uri_def Let_def UploadMedia_def counters_kept upload split: sum.split)

lemma externalize_kept: "I st \<Longrightarrow> I (snd (externalizeDataURIs E html st))"
proof -
  have css: "I (snd (data_css E m st))" and img: "I (snd (data_img E m st))" if "I st" for m st
    using that data_uri_kept by (auto simp: data_css_def data_img_def Let_def split: option.split)
  show "I st \<Longrightarrow> I (snd (externalizeDataURIs E html st))"
    unfolding externalizeDataURIs_def case_prod_unfold Let_def
    by (intro rx_replace_inv [of I, OF css] rx_replace_inv [of I, OF img])
qed

lemma data_notices_kept: "I st \<Longrightarrow> I (data_notices st)"
  by (auto simp: data_notices_def Let_def intro: append_notice)

lemma add_image_kept: "I st \<Longrightarrow> I (snd (add_image alt mxc mime sz lbl st))"
  by (simp add: add_image_def Let_def counters_kept image)

lemma inline_attachment_kept:
  assumes I: "I st" and idx: "\<And>i. idx = Some i \<Longrightarrow> i < length atts"
    and same: "\<And>mxc st. cs_parts (f mxc st) = cs_parts st" "\<And>mxc st. cs_uploads (f mxc st) = cs_uploads st"
      "\<And>mxc st. cs_used (f mxc st) = cs_used st" "\<And>mxc st. cs_images (f mxc st) = cs_images st"
  shows "I (snd (inline_attachment E atts idx alt fb f st))"
proof (cases "\<exists>i a. idx = Some i \<and> atts ! i = Some a \<and> \<not> too_large E (at_Size a)")
  case True
  then obtain i a where i: "idx = Some i" "atts ! i = Some a" "\<not> too_large E (at_Size a)" by blast
  note u = I idx [OF i(1)] i(2,3)
  show ?thesis
    using i frame [OF upload_attachment [OF u]]
    by (auto simp: inline_attachment_def UploadMedia_def add_image_def Let_def same
        intro!: frame [OF use_attachment [OF u]] split: sum.split)
qed (use I in \<open>auto simp: inline_attachment_def split: option.split\<close>)

lemma first_index_Some: "first_index P xs = Some i \<Longrightarrow> i < length xs"
  by (auto simp: first_index_def find_Some_iff)

lemma img_tag_kept: "I st \<Longrightarrow> I (snd (img_tag E atts tag st))"
  by (auto simp: img_tag_def Let_def findAttachmentByCID_def findAttachmentByContentLocation_def
      intro!: add_image_kept inline_attachment_kept dest: first_index_Some split: option.split)

lemma uploadBG_kept:
  assumes I: "I st"
  shows "I (snd (uploadBG E atts cid st))"
proof (cases "\<exists>i a. findAttachmentByCID atts cid = Some i \<and> atts ! i = Some a \<and> \<not> too_large E (at_Size a)")
  case True
  then obtain i a where i: "findAttachmentByCID atts cid = Some i" "atts ! i = Some a" "\<not> too_large E (at_Size a)"
    by blast
  then have "i < length atts" by (auto simp: findAttachmentByCID_def dest: first_index_Some)
  note u = I this i(2,3)
  let ?n = "bestFilename a cid"
  show ?thesis
  proof (cases "cv_upload E (length (cs_uploads st)) (at_Data a) ?n (at_ContentType a)")
    case (Inl e)
    with i show ?thesis by (simp add: uploadBG_def UploadMedia_def upload_attachment [OF u])
  next
    case (Inr mxc)
    let ?im = "\<lparr>im_Index = cs_next st, im_Label = ?n, im_MXC = mxc, im_Mime = at_ContentType a, im_Size = at_Size a\<rparr>"
    from Inr have "I (st\<lparr>cs_uploads := cs_uploads st @ [(at_Data a, ?n, at_ContentType a)], cs_used := i # cs_used st,
        cs_images := cs_images st @ [?im]\<rparr>)"
      using use_attachment [OF u, of ?n ?im] by simp
    from counters_kept(6) [OF this, of "Suc (cs_next st)"] i Inr show ?thesis by (simp add: uploadBG_def UploadMedia_def)
  qed
qed (use I in \<open>auto simp: uploadBG_def split: option.split\<close>)

lemma inject_kept: "I st \<Longrightarrow> I (snd (inject E atts r m st))"
proof -
  assume I: "I st"
  note bg = uploadBG_kept [OF I]
  then have "I ((snd (uploadBG E atts cid st))\<lparr>cs_cid := v\<rparr>)" for cid v
    by (rule frame) simp_all
  with I bg show ?thesis
    by (auto simp: inject_def Let_def case_prod_unfold split: option.split)
qed

lemma prepare_kept: "I st \<Longrightarrow> I (snd (prepare_html E atts html st))"
  unfolding prepare_html_def MaterializeBackgroundImages_def case_prod_unfold Let_def
  by (auto intro!: rx_replace_inv [of I] inject_kept img_tag_kept data_notices_kept externalize_kept)

lemma attach_html_kept: "I st \<Longrightarrow> I (snd (attach_html E html st))"
  by (auto simp: attach_html_def UploadMedia_def intro!: append_notice append_file upload split: prod.split sum.split)

lemma attach_text_kept: "I st \<Longrightarrow> I (attach_text E t st)"
  by (auto simp: attach_text_def UploadMedia_def intro!: append_notice append_file upload split: prod.split sum.split)

lemma fit_html_kept: "I st \<Longrightarrow> I (snd (snd (fit_html E html mk c st)))"
  by (auto simp: fit_html_def Let_def case_prod_unfold intro: attach_html_kept)

lemma fit_text_kept: "I st \<Longrightarrow> I (snd (fit_text E c st))"
  by (auto simp: fit_text_def Let_def intro: attach_text_kept)

lemma participant_kept: "I st \<Longrightarrow> I (snd (participant_notice th st))"
  by (auto simp: participant_notice_def Let_def intro: append_notice)

lemma chunk_parts_ok: "list_all (event_ok E) (fst (chunk_parts E n idx r))"
proof (induction n arbitrary: idx r)
  case (Suc n)
  have "length (shrink_chunk E (cut_chunk r)) \<le> PerEventTarget"
    by (rule order_trans [OF shrink_chunk_length cut_chunk_length])
  then have "event_ok E (pid, text_message ''m.text'' (shrink_chunk E (cut_chunk r)))" for pid
    using shrink_chunk_fits by (simp add: event_ok_def text_message_def)
  with Suc show ?case by (simp add: Let_def case_prod_unfold)
qed simp

lemma add_body_kept: "I st \<Longrightarrow> I (add_body E c st)"
proof -
  assume I: "I st"
  have "I (appendPart ''body'' c st)" if "within E c" "length (mc_Body c) \<le> PerEventTarget"
    using parts [OF I, of "[(''body'', c)]"] that by (simp add: appendPart_def event_ok_def)
  moreover have "I (st\<lparr>cs_parts := cs_parts st @ fst (chunk_parts E maxChunks 1 (mc_Body c))\<rparr>)"
    by (rule parts [OF I chunk_parts_ok])
  ultimately show ?thesis unfolding add_body_def Let_def case_prod_unfold by (simp add: append_notice)
qed

lemma add_sidecars_kept: "I st \<Longrightarrow> I (add_sidecars c attached st)"
  by (auto simp: add_sidecars_def sidecar_def event_ok_def list_all_iff intro!: parts)

lemma convert_attachment_kept:
  "I st \<Longrightarrow> i < length atts \<Longrightarrow> atts ! i = Some a \<Longrightarrow> I (snd (convertAttachmentToMatrix E a st))"
  by (auto simp: convertAttachmentToMatrix_def UploadMedia_def Let_def intro: upload_attachment split: sum.split)

lemma attachment_content_ok:
  "convertAttachmentToMatrix E a st = (Inr c, st') \<Longrightarrow> mc_MsgType c \<noteq> ''m.text''"
  by (auto simp: convertAttachmentToMatrix_def UploadMedia_def Let_def getMessageTypeForAttachment_def
      split: if_splits sum.splits)

lemma attachments_kept: "I st \<Longrightarrow> oas = drop idx atts \<Longrightarrow> I (snd (add_attachments E idx oas st))"
proof (induction oas arbitrary: idx st)
  case (Cons oa oas)
  then have idx: "idx < length atts" "atts ! idx = oa" "oas = drop (Suc idx) atts"
    by (metis drop_eq_Nil list.distinct(1) not_le_imp_less, metis nth_via_drop, metis drop_Suc list.sel(3) tl_drop)
  note rec = Cons.IH [OF _ idx(3)]
  show ?case
  proof (cases "idx \<in> set (cs_used st) \<or> oa = None")
    case True
    then show ?thesis using Cons.prems(1) rec by (auto split: option.split)
  next
    case False
    then obtain a where a: "oa = Some a" and unused: "idx \<notin> set (cs_used st)" by auto
    obtain r st1 where r: "convertAttachmentToMatrix E a st = (r, st1)" by fastforce
    have st1: "I st1" using convert_attachment_kept [OF Cons.prems(1) idx(1), of a] idx(2) a r by simp
    show ?thesis
    proof (cases r)
      case (Inl e)
      with r a unused show ?thesis
        using rec [OF append_notice [OF st1]] by (simp add: failed_attachment_def)
    next
      case (Inr c)
      with r have "mc_MsgType c \<noteq> ''m.text''" by (simp add: attachment_content_ok)
      then show ?thesis using r a unused Inr rec [OF append_other [OF st1]] by simp
    qed
  qed
qed simp

lemma conversion_kept: "I start_state \<Longrightarrow> I (snd (ConvertMessage E email atts th))"
  unfolding ConvertMessage_def Let_def case_prod_unfold
  by (auto simp: error_placeholder_def
      intro!: append_notice attachments_kept add_sidecars_kept add_body_kept participant_kept fit_text_kept fit_html_kept
        prepare_kept)

end

interpretation texts: conversion_invariant E atts "\<lambda>st. list_all (event_ok E) (cs_parts st)" for E atts
  by unfold_locales simp_all

text \<open>The sizes the parser recorded are those of the data.\<close>

definition sizes_true :: "email_attachment option list \<Rightarrow> bool" where
  "sizes_true atts = list_all (\<lambda>oa. case oa of None \<Rightarrow> True | Some a \<Rightarrow> at_Size a = int (length (at_Data a))) atts"

definition uploads_within :: "convert_env \<Rightarrow> convert_state \<Rightarrow> bool" where
  "uploads_within E st = list_all (\<lambda>(d, n, m). \<not> too_large E (int (length d))) (cs_uploads st)"

lemma sizes_true_nth: "sizes_true atts \<Longrightarrow> i < length atts \<Longrightarrow> atts ! i = Some a \<Longrightarrow> at_Size a = int (length (at_Data a))"
  by (auto simp: sizes_true_def list_all_length split: option.splits)

interpretation uploads: conversion_invariant E atts "\<lambda>st. sizes_true atts \<longrightarrow> uploads_within E st" for E atts
  by unfold_locales (auto simp: uploads_within_def dest: sizes_true_nth)

text \<open>Among the uploads \<open>us\<close>, one stored the data of an attachment at an address.\<close>

type_synonym uploads = "(gostring \<times> gostring \<times> gostring) list"

definition stored :: "convert_env \<Rightarrow> uploads \<Rightarrow> email_attachment \<Rightarrow> gostring \<Rightarrow> bool" where
  "stored E us a mxc \<longleftrightarrow>
     (\<exists>k < length us. fst (us ! k) = at_Data a \<and> snd (snd (us ! k)) = at_ContentType a \<and>
        cv_upload E k (at_Data a) (fst (snd (us ! k))) (at_ContentType a) = Inr mxc)"

lemma stored_append: "stored E us a mxc \<Longrightarrow> stored E (us @ vs) a mxc"
proof -
  assume "stored E us a mxc"
  then obtain k where "k < length us" "fst (us ! k) = at_Data a" "snd (snd (us ! k)) = at_ContentType a"
    "cv_upload E k (at_Data a) (fst (snd (us ! k))) (at_ContentType a) = Inr mxc"
    unfolding stored_def by blast
  then show ?thesis unfolding stored_def by (intro exI [of _ k]) (simp add: nth_append)
qed

lemma stored_last:
  "cv_upload E (length us) (at_Data a) n (at_ContentType a) = Inr mxc \<Longrightarrow>
     stored E (us @ [(at_Data a, n, at_ContentType a)]) a mxc"
  unfolding stored_def by (rule exI [of _ "length us"]) simp

definition shown :: "convert_env \<Rightarrow> email_attachment option list \<Rightarrow> uploads \<Rightarrow> inline_image list \<Rightarrow> nat \<Rightarrow> bool" where
  "shown E atts us ims i \<longleftrightarrow>
     (\<exists>im \<in> set ims. case atts ! i of None \<Rightarrow> False | Some a \<Rightarrow> stored E us a (im_MXC im))"

lemma shown_mono: "shown E atts us ims i \<Longrightarrow> shown E atts (us @ vs) (ims @ jms) i"
  unfolding shown_def by (auto split: option.splits intro: stored_append)

lemmas shown_more = shown_mono [where jms = "[]", simplified] shown_mono [where vs = "[]", simplified]

lemma shown_new:
  "atts ! i = Some a \<Longrightarrow> cv_upload E (length us) (at_Data a) n (at_ContentType a) = Inr (im_MXC im) \<Longrightarrow>
     shown E atts (us @ [(at_Data a, n, at_ContentType a)]) (ims @ [im]) i"
  using stored_last unfolding shown_def by fastforce

definition used_shown :: "convert_env \<Rightarrow> email_attachment option list \<Rightarrow> convert_state \<Rightarrow> bool" where
  "used_shown E atts st = list_all (shown E atts (cs_uploads st) (cs_images st)) (cs_used st)"

interpretation inline: conversion_invariant E atts "used_shown E atts" for E atts
  by unfold_locales (auto simp: used_shown_def list_all_iff intro: shown_more shown_mono shown_new)

subsection \<open>Attachments\<close>

text \<open>What one attachment leaves behind when it is not shown inline.\<close>

definition delivered :: "convert_env \<Rightarrow> uploads \<Rightarrow> message_part list \<Rightarrow> nat \<Rightarrow> email_attachment \<Rightarrow> bool" where
  "delivered E us ps i a \<longleftrightarrow>
     ([], failed_attachment a) \<in> set ps \<or>
     (\<exists>(pid, c) \<in> set ps. pid = att_id i (at_Filename a) \<and> stored E us a (mc_URL c))"

lemma delivered_mono: "delivered E us ps i a \<Longrightarrow> delivered E (us @ vs) (ps @ qs) i a"
  unfolding delivered_def by (auto intro: stored_append)

text \<open>One attachment: only the uploads grow, and it is stored when a content comes back.\<close>

lemma convert_attachment:
  assumes "convertAttachmentToMatrix E a st = (r, st1)"
  shows "\<exists>us. cs_uploads st1 = cs_uploads st @ us \<and> cs_parts st1 = cs_parts st \<and> cs_used st1 = cs_used st \<and>
    cs_images st1 = cs_images st \<and> (\<forall>c. r = Inr c \<longrightarrow> stored E (cs_uploads st @ us) a (mc_URL c))"
proof (cases "too_large E (at_Size a)")
  case True
  then show ?thesis using assms by (auto simp: convertAttachmentToMatrix_def)
next
  case False
  define n where "n = (if sanitizeFilename (at_Filename a) = [] then sanitizeFilename (bestFilename a ''attachment'')
    else sanitizeFilename (at_Filename a))"
  show ?thesis
    using assms False stored_last [of E "cs_uploads st" a n]
    by (intro exI [of _ "[(at_Data a, n, at_ContentType a)]"])
      (auto simp: convertAttachmentToMatrix_def UploadMedia_def Let_def n_def [symmetric] split: sum.splits)
qed

lemma add_attachment:
  assumes "idx \<notin> set (cs_used st)"
  obtains us p st' where "add_attachments E idx (Some a # oas) st = add_attachments E (Suc idx) oas st'"
    "cs_uploads st' = cs_uploads st @ us" "cs_parts st' = cs_parts st @ [p]" "cs_used st' = cs_used st"
    "cs_images st' = cs_images st" "delivered E (cs_uploads st') (cs_parts st') idx a"
proof -
  obtain r st1 where r: "convertAttachmentToMatrix E a st = (r, st1)" by fastforce
  from convert_attachment [OF this] obtain us where us: "cs_uploads st1 = cs_uploads st @ us" "cs_parts st1 = cs_parts st"
    "cs_used st1 = cs_used st" "cs_images st1 = cs_images st"
    "\<And>c. r = Inr c \<Longrightarrow> stored E (cs_uploads st @ us) a (mc_URL c)" by blast
  show ?thesis
  proof (cases r)
    case (Inl e)
    with r us assms show ?thesis
      by (intro that [of "appendPart [] (failed_attachment a) st1" us]) (simp_all add: appendPart_def delivered_def)
  next
    case (Inr c)
    with r us assms show ?thesis
      by (intro that [of "appendPart (att_id idx (at_Filename a)) c st1" us]) (simp_all add: appendPart_def delivered_def)
  qed
qed

lemma add_attachments:
  assumes "list_all (\<lambda>oa. oa \<noteq> None) oas" and "X = add_attachments E idx oas st"
  shows "fst X \<and> cs_used (snd X) = cs_used st \<and> cs_images (snd X) = cs_images st \<and>
    (\<exists>us ps. cs_uploads (snd X) = cs_uploads st @ us \<and> cs_parts (snd X) = cs_parts st @ ps) \<and>
    (\<forall>k < length oas. idx + k \<notin> set (cs_used st) \<longrightarrow>
       delivered E (cs_uploads (snd X)) (cs_parts (snd X)) (idx + k) (the (oas ! k)))"
  using assms
proof (induction oas arbitrary: idx st X)
  case (Cons oa oas)
  then obtain a where a: "oa = Some a" by (cases oa) auto
  show ?case
  proof (cases "idx \<in> set (cs_used st)")
    case True
    with Cons.prems have "X = add_attachments E (Suc idx) oas st" by simp
    from Cons.IH [OF _ this] Cons.prems(1) True show ?thesis by (auto simp: nth_Cons' less_Suc_eq_0_disj)
  next
    case False
    obtain us p st' where st': "add_attachments E idx (Some a # oas) st = add_attachments E (Suc idx) oas st'"
      "cs_uploads st' = cs_uploads st @ us" "cs_parts st' = cs_parts st @ [p]" "cs_used st' = cs_used st"
      "cs_images st' = cs_images st" "delivered E (cs_uploads st') (cs_parts st') idx a"
      using add_attachment [OF False] .
    with Cons.prems a have X: "X = add_attachments E (Suc idx) oas st'" by simp
    have rest: "list_all (\<lambda>oa. oa \<noteq> None) oas" using Cons.prems(1) by simp
    note ih = Cons.IH [OF rest X]
    then obtain vs qs where "cs_uploads (snd X) = cs_uploads st' @ vs" "cs_parts (snd X) = cs_parts st' @ qs" by blast
    then have "delivered E (cs_uploads (snd X)) (cs_parts (snd X)) idx a"
      using delivered_mono [OF st'(6)] by simp
    with ih st'(2-5) a show ?thesis by (auto simp: nth_Cons' less_Suc_eq_0_disj)
  qed
qed auto

subsection \<open>The body\<close>

lemma nonempty_body: "nonempty_body E html body \<noteq> []"
proof -
  have "trim_space [] = []" by code_simp
  then show ?thesis by (auto simp: nonempty_body_def Let_def)
qed

lemma main_content_fields:
  "mc_MsgType (main_content E email html ims) = ''m.text''" "mc_Body (main_content E email html ims) \<noteq> []"
  using nonempty_body by (simp_all add: main_content_def Let_def)

lemma fit_html_fields:
  "mc_MsgType (fst (fit_html E html mk c st)) = mc_MsgType c"
  "mc_Body c \<noteq> [] \<Longrightarrow> mc_Body (fst (fit_html E html mk c st)) \<noteq> []"
  by (simp_all add: fit_html_def Let_def split: prod.split)

lemma fit_text_fields:
  "mc_MsgType (fst (fit_text E c st)) = mc_MsgType c"
  "mc_Body c \<noteq> [] \<Longrightarrow> mc_Body (fst (fit_text E c st)) \<noteq> []"
  by (simp_all add: fit_text_def Let_def split: prod.split bool.split)

lemma drop_oversized_fields:
  "mc_MsgType (drop_oversized_html E c) = mc_MsgType c" "mc_Body (drop_oversized_html E c) = mc_Body c"
  by (simp_all add: drop_oversized_html_def)

lemma add_body_text:
  assumes "mc_MsgType c = ''m.text''" "mc_Body c \<noteq> []"
  shows "list_ex (\<lambda>p. mc_MsgType (snd p) = ''m.text'') (cs_parts (add_body E c st))"
proof (cases "within E c \<and> length (mc_Body c) \<le> PerEventTarget")
  case True
  with assms show ?thesis by (simp add: add_body_def appendPart_def)
next
  case False
  have chunks: "maxChunks = Suc 49" by (simp add: maxChunks_def)
  have "list_ex (\<lambda>p. mc_MsgType (snd p) = ''m.text'') (fst (chunk_parts E maxChunks 1 (mc_Body c)))"
    using assms(2) unfolding chunks chunk_parts.simps(2) Let_def case_prod_unfold by (simp add: text_message_def)
  then show ?thesis unfolding add_body_def if_not_P [OF False] Let_def case_prod_unfold by (simp add: appendPart_def)
qed

lemma add_attachments_parts: "\<exists>ps. cs_parts (snd (add_attachments E idx oas st)) = cs_parts st @ ps"
proof (induction oas arbitrary: idx st)
  case (Cons oa oas)
  show ?case
  proof (cases "idx \<in> set (cs_used st) \<or> oa = None")
    case True
    then show ?thesis using Cons by (auto split: option.split)
  next
    case False
    then obtain a where a: "oa = Some a" "idx \<notin> set (cs_used st)" by auto
    obtain us p st' where "add_attachments E idx (Some a # oas) st = add_attachments E (Suc idx) oas st'"
      "cs_parts st' = cs_parts st @ [p]" using add_attachment [OF a(2), of E a oas thesis] by metis
    with Cons.IH [of "Suc idx" st'] a show ?thesis by auto
  qed
qed simp

lemma add_sidecars_parts: "\<exists>ps. cs_parts (add_sidecars c f st) = cs_parts st @ ps"
  by (simp add: add_sidecars_def)

lemma some_text:
  "list_ex (\<lambda>p. mc_MsgType (snd p) = ''m.text'') (cs_parts (snd (ConvertMessage E email atts th)))"
proof -
  have "\<exists>c f st1. snd (ConvertMessage E email atts th) =
      (if fst (add_attachments E 0 atts (add_sidecars c f (add_body E c st1)))
       then snd (add_attachments E 0 atts (add_sidecars c f (add_body E c st1)))
       else appendPart ''error-placeholder'' error_placeholder (snd (add_attachments E 0 atts (add_sidecars c f (add_body E c st1))))) \<and>
    mc_MsgType c = ''m.text'' \<and> mc_Body c \<noteq> []"
    unfolding ConvertMessage_def Let_def case_prod_unfold snd_conv
    by (intro exI conjI, rule refl)
      (simp_all add: fit_html_fields fit_text_fields drop_oversized_fields main_content_fields)
  then obtain c f st1 where "snd (ConvertMessage E email atts th) =
      (if fst (add_attachments E 0 atts (add_sidecars c f (add_body E c st1)))
       then snd (add_attachments E 0 atts (add_sidecars c f (add_body E c st1)))
       else appendPart ''error-placeholder'' error_placeholder (snd (add_attachments E 0 atts (add_sidecars c f (add_body E c st1)))))"
    and c: "mc_MsgType c = ''m.text''" "mc_Body c \<noteq> []" by blast
  moreover obtain ps where "cs_parts (snd (add_attachments E 0 atts (add_sidecars c f (add_body E c st1)))) =
      cs_parts (add_body E c st1) @ ps"
    using add_attachments_parts [of E 0 atts] add_sidecars_parts by (metis append.assoc)
  ultimately show ?thesis using add_body_text [OF c, of E st1] by (simp add: appendPart_def)
qed

subsection \<open>Chunks\<close>

definition visible :: "gostring \<Rightarrow> gostring" where "visible s = filter (\<lambda>c. c \<notin> set blanks_nl) s"

lemma visible_Nil [simp]: "visible [] = []"
  by (simp add: visible_def)

lemma visible_append [simp]: "visible (s @ t) = visible s @ visible t"
  by (simp add: visible_def)

lemma visible_dropWhile: "visible (dropWhile (\<lambda>c. c \<in> set blanks_nl) s) = visible s"
  by (induction s) (auto simp: visible_def)

lemma after_chunk_visible: "r = c @ t \<Longrightarrow> visible r = visible c @ visible (after_chunk c r)"
  by (auto simp: after_chunk_def visible_dropWhile)

lemma chunk_prefix: "\<exists>t. r = shrink_chunk E (cut_chunk r) @ t"
proof -
  obtain t where "r = cut_chunk r @ t" using cut_chunk_prefix by blast
  moreover obtain n where "shrink_chunk E (cut_chunk r) = take n (cut_chunk r)" using shrink_chunk_take by blast
  ultimately show ?thesis by (metis append.assoc append_take_drop_id)
qed

lemma chunks_keep:
  "visible r = visible (concat (map (mc_Body \<circ> snd) (fst (chunk_parts E n idx r)))) @ visible (snd (chunk_parts E n idx r))"
proof (induction n arbitrary: idx r)
  case (Suc n)
  let ?c = "shrink_chunk E (cut_chunk r)"
  have "visible r = visible ?c @ visible (after_chunk ?c r)"
    using chunk_prefix [of r E] after_chunk_visible by blast
  also note Suc [of "after_chunk ?c r" "Suc idx"]
  finally show ?case by (cases "r = []") (simp_all add: Let_def case_prod_unfold text_message_def)
qed simp

lemma chunk_parts_count: "length (fst (chunk_parts E n idx r)) = n \<or> snd (chunk_parts E n idx r) = []"
  by (induction n arbitrary: idx r) (simp_all add: Let_def case_prod_unfold)

lemma add_body_keeps:
  "\<exists>ps r. cs_parts (add_body E c st) = cs_parts st @ ps @
        (if r = [] then [] else [(''truncate-notice'', notice (''Message was too large and has been truncated. '' @
           itoa_go (int (length r)) @ '' characters omitted to prevent server overload.''))]) \<and>
     visible (mc_Body c) = visible (concat (map (mc_Body \<circ> snd) ps)) @ visible r \<and>
     (r = [] \<or> length ps = maxChunks)"
proof (cases "within E c \<and> length (mc_Body c) \<le> PerEventTarget")
  case True
  then show ?thesis by (intro exI [of _ "[(''body'', c)]"] exI [of _ "[]"]) (simp add: add_body_def appendPart_def)
next
  case False
  let ?X = "chunk_parts E maxChunks 1 (mc_Body c)"
  show ?thesis
    using chunks_keep [of "mc_Body c" E maxChunks 1] chunk_parts_count [of E maxChunks 1 "mc_Body c"]
    unfolding add_body_def if_not_P [OF False] Let_def case_prod_unfold
    by (intro exI [of _ "fst ?X"] exI [of _ "snd ?X"]) (auto simp: appendPart_def)
qed

text \<open>On the chunk path the formatted body, and with it every inline image, is dropped without a notice.\<close>

lemma chunk_parts_plain:
  "list_all (\<lambda>p. mc_FormattedBody (snd p) = [] \<and> mc_URL (snd p) = []) (fst (chunk_parts E n idx r))"
  by (induction n arbitrary: idx r) (simp_all add: Let_def case_prod_unfold text_message_def)

theorem chunking_drops_html:
  assumes "mc_FormattedBody c \<noteq> []" "PerEventTarget < length (mc_Body c)"
  shows "list_all (\<lambda>p. mc_FormattedBody (snd p) = [] \<and> mc_URL (snd p) = [])
    (drop (length (cs_parts st)) (cs_parts (add_sidecars c attached (add_body E c st))))"
proof -
  from assms(2) have big: "\<not> (within E c \<and> length (mc_Body c) \<le> PerEventTarget)" by simp
  show ?thesis
    using chunk_parts_plain assms(1)
    unfolding add_body_def if_not_P [OF big] add_sidecars_def Let_def case_prod_unfold
    by (simp add: appendPart_def notice_def text_message_def)
qed

subsection \<open>Properties\<close>

text \<open>
  C31: Every email becomes at least one text event, and every text event, the body or a chunk of it,
  is within the homeserver's size limit as JSON and within the bridge's limit per event, whatever
  the HTML, the attachments and the answers of the homeserver.
\<close>

theorem text_events_bounded:
  "list_ex (\<lambda>p. mc_MsgType (snd p) = ''m.text'') (cs_parts (snd (ConvertMessage E email atts th))) \<and>
   list_all (event_ok E) (cs_parts (snd (ConvertMessage E email atts th)))"
  using some_text texts.conversion_kept [of E] by (simp add: start_state_def)

text \<open>
  C32: Nothing larger than \<open>MaxUploadBytes\<close> is uploaded in converting a message whose attachments have
  their true sizes: not an inline image, a background, an embedded data URL, an attachment, nor the
  full HTML or text, compressed or not.
\<close>

theorem uploads_within_limit:
  assumes "sizes_true atts"
  shows "uploads_within E (snd (ConvertMessage E email atts th))"
  using uploads.conversion_kept [of atts E email th] assms by (simp add: start_state_def uploads_within_def)

lemma nothing_lost:
  assumes atts: "list_all (\<lambda>oa. oa \<noteq> None) atts" and i: "i < length atts" "atts ! i = Some a"
    and X: "X = snd (ConvertMessage E email atts th)"
  shows "shown E atts (cs_uploads X) (cs_images X) i \<or> delivered E (cs_uploads X) (cs_parts X) i a"
proof -
  have "\<exists>st. snd (ConvertMessage E email atts th) =
      (if fst (add_attachments E 0 atts st) then snd (add_attachments E 0 atts st)
       else appendPart ''error-placeholder'' error_placeholder (snd (add_attachments E 0 atts st)))"
    unfolding ConvertMessage_def Let_def case_prod_unfold snd_conv by (rule exI, rule refl)
  then obtain st where "X = (if fst (add_attachments E 0 atts st) then snd (add_attachments E 0 atts st)
       else appendPart ''error-placeholder'' error_placeholder (snd (add_attachments E 0 atts st)))"
    unfolding X by blast
  moreover note A = add_attachments [OF atts refl, of E 0 st]
  ultimately have X': "X = snd (add_attachments E 0 atts st)" by simp
  have "used_shown E atts X" unfolding X by (rule inline.conversion_kept) (simp add: used_shown_def start_state_def)
  then have "shown E atts (cs_uploads X) (cs_images X) i" if "i \<in> set (cs_used X)"
    using that by (simp add: used_shown_def list_all_iff)
  moreover have "delivered E (cs_uploads X) (cs_parts X) i a" if "i \<notin> set (cs_used X)"
  proof -
    have "i \<notin> set (cs_used st)" using that A X' by simp
    then have "delivered E (cs_uploads X) (cs_parts X) (0 + i) (the (atts ! i))"
      using A i(1) unfolding X' by (metis add_0)
    then show ?thesis using i(2) by simp
  qed
  ultimately show ?thesis by blast
qed


text \<open>
  C34: The body reaches the room whole up to white space between chunks: what is left over after the
  fiftieth chunk is announced by a notice with its length, and nothing else is omitted.
\<close>

theorem chunks_keep_text:
  "\<exists>ps r. cs_parts (add_body E c st) = cs_parts st @ ps @
        (if r = [] then [] else [(''truncate-notice'', notice (''Message was too large and has been truncated. '' @
           itoa_go (int (length r)) @ '' characters omitted to prevent server overload.''))]) \<and>
     visible (mc_Body c) = visible (concat (map (mc_Body \<circ> snd) ps)) @ visible r \<and>
     (r = [] \<or> length ps = maxChunks)"
  by (rule add_body_keeps)

subsection \<open>Witnesses\<close>

definition sample_convert :: convert_env where
  "sample_convert = \<lparr>cv_upload = (\<lambda>k d n m. if d = ''bad'' then Inl (Err ''refused'') else Inr (''mxc://h/'' @ itoa_go (int k))),
     cv_MaxUpload = 8, cv_GzipLarge = False, cv_gzip = (\<lambda>_. None), cv_unbase64 = Inr,
     cv_html = \<lparr>hl_unescape = (\<lambda>s. s), hl_invisible = (\<lambda>_. False)\<rparr>, cv_info_json = (\<lambda>_. 40)\<rparr>"

definition sample_attachment :: "gostring \<Rightarrow> email_attachment" where
  "sample_attachment d = \<lparr>at_Filename = ''a.txt'', at_ContentType = ''text/plain'', at_Size = int (length d),
     at_Data = d, at_ContentID = [], at_ContentLocation = []\<rparr>"

definition sample_mail :: parsed_email where
  "sample_mail = \<lparr>pe_MessageID = ''<1@x>'', pe_InReplyTo = [], pe_References = [], pe_Subject = ''s'', pe_From = ''ann@x'',
     pe_To = Some [''me@y''], pe_Cc = None, pe_Date = Some 1, pe_TextContent = ''hello'', pe_HTMLContent = [],
     pe_IsDraft = False, pe_GmailThreadID = [], pe_DeliveredTo = []\<rparr>"

definition sample_room :: email_thread where
  "sample_room = empty_thread\<lparr>ThreadID := ''t'', Subject := ''s'', MessageID := ''<1@x>''\<rparr>"

theorem uploads_within_limit_witness:
  "uploads_within sample_convert (snd (ConvertMessage sample_convert sample_mail [Some (sample_attachment ''good'')] sample_room))"
  by (rule uploads_within_limit) (simp add: sizes_true_def sample_attachment_def)


end
