(* ===== verification/CommandArgs.thy ===== *)
theory CommandArgs
  imports MatrixText Breaker
begin

text \<open>
  The arguments of the chat commands: splitting a line with quotes (\<open>parseQuotedArgs\<close>), the text form of
  the login (\<open>parseLoginArgs\<close>, both in \<open>pkg/connector/commands.go\<close>) and of compose
  (\<open>parseComposeArgs\<close>, \<open>client_compose.go\<close>), and that a quoted word is read back.
\<close>

subsection \<open>Splitting\<close>

definition backslash :: gostring where "backslash = [CHR 0x5C]"
definition dquote :: gostring where "dquote = [CHR 0x22]"

text \<open>
  The loop over the runes: in quotes, escaped, the current word.  The end of the line is noticed at
  the index of its last byte, so only when the last rune has a single byte.
\<close>

fun split_quoted :: "bool \<Rightarrow> bool \<Rightarrow> gostring \<Rightarrow> gostring list \<Rightarrow> gostring list" where
  "split_quoted inQuotes escaped current [] = []"
| "split_quoted inQuotes escaped current (r # rs) =
     (let (done, q, e, c) =
        (if escaped then ([], inQuotes, False, current @ put_rune r)
         else if r = backslash then ([], inQuotes, True, current)
         else if r = dquote then ([], \<not> inQuotes, False, current)
         else if r = '' '' \<and> \<not> inQuotes then (if current \<noteq> [] then [current] else [], inQuotes, False, [])
         else ([], inQuotes, False, current @ put_rune r))
      in done @ (if rs = [] \<and> length r = 1 \<and> c \<noteq> [] then [c] else []) @ split_quoted q e c rs)"

definition parseQuotedArgs :: "gostring \<Rightarrow> gostring list" where
  "parseQuotedArgs args = split_quoted False False [] (runes args)"

subsection \<open>The login line\<close>

definition login_word :: "gostring \<times> gostring \<Rightarrow> gostring \<Rightarrow> gostring \<times> gostring" where
  "login_word ep part =
     (if has_prefix part ''email:'' then (trim_prefix part ''email:'', snd ep)
      else if has_prefix part ''password:'' then (fst ep, trim_prefix part ''password:'')
      else ep)"

definition parseLoginArgs :: "gostring \<Rightarrow> go_error + gostring \<times> gostring" where
  "parseLoginArgs args =
     (case foldl login_word ([], []) (parseQuotedArgs args) of
        (email, password) \<Rightarrow>
          if email = [] then Inl (Err ''email is required'')
          else if password = [] then Inl (Err ''password is required'')
          else if \<not> contains_sub email ''@'' \<or> \<not> contains_sub email ''.'' then Inl (Err ''invalid email format'')
          else Inr (email, password))"

subsection \<open>The compose line\<close>

record compose_args =
  ca_To :: gostring
  ca_Cc :: "gostring list"
  ca_Subject :: gostring

definition compose_word :: "compose_args \<Rightarrow> gostring \<Rightarrow> compose_args" where
  "compose_word a tok =
     (if has_prefix tok ''to:'' then a\<lparr>ca_To := trim_space (trim_prefix tok ''to:'')\<rparr>
      else if has_prefix tok ''cc:'' then
        (let cc = trim_space (trim_prefix tok ''cc:'') in if cc \<noteq> [] then a\<lparr>ca_Cc := ca_Cc a @ [cc]\<rparr> else a)
      else if has_prefix tok ''subject:'' then a\<lparr>ca_Subject := trim_prefix tok ''subject:''\<rparr>
      else a)"

text \<open>\<open>parse\<close> is \<open>netmail.ParseAddress\<close>, by its error; \<open>quoted\<close> is \<open>%q\<close>.\<close>

definition parseComposeArgs ::
  "(gostring \<Rightarrow> go_error option) \<Rightarrow> (gostring \<Rightarrow> gostring) \<Rightarrow> gostring \<Rightarrow> go_error + compose_args" where
  "parseComposeArgs parse quoted raw =
     (let a = foldl compose_word \<lparr>ca_To = [], ca_Cc = [], ca_Subject = []\<rparr> (parseQuotedArgs (trim_space raw)) in
      if ca_To a = [] then Inl (Err ''missing required `to:` argument'')
      else case parse (ca_To a) of
        Some e \<Rightarrow> Inl (Errorf (''invalid `to:` address '' @ quoted (ca_To a)) e)
      | None \<Rightarrow>
          (case find (\<lambda>c. parse c \<noteq> None) (ca_Cc a) of
             Some c \<Rightarrow> Inl (Errorf (''invalid `cc:` address '' @ quoted c) (the (parse c)))
           | None \<Rightarrow> Inr a))"

subsection \<open>Runes of a line put together from runes\<close>

definition good_rune :: "gostring \<Rightarrow> bool" where
  "good_rune r \<longleftrightarrow> r \<noteq> [] \<and> rune_len r = length r \<and> \<not> bad_rune r"

lemma rune_len_append:
  assumes "s \<noteq> []" "rune_len s \<noteq> 1 \<or> ascii (hd s)"
  shows "rune_len (s @ t) = rune_len s"
proof (cases "ascii (hd s)")
  case True
  then show ?thesis using assms(1) by (cases s) (simp_all add: rune_len_ascii del: rune_len.simps)
next
  case False
  with assms have "rune_len s \<noteq> 1" by simp
  then show ?thesis
  proof (cases s rule: rune_len.cases)
    case (2 a b c)
    then show ?thesis using \<open>rune_len s \<noteq> 1\<close> by (cases t) (auto split: if_splits)
  next
    case (3 a b)
    then show ?thesis using \<open>rune_len s \<noteq> 1\<close>
      by (cases t rule: rune_len.cases) (auto split: if_splits)
  qed (auto)
qed

lemma runes_good_append: "good_rune r \<Longrightarrow> runes (r @ s) = r # runes s"
proof -
  assume r: "good_rune r"
  then have "rune_len (r @ s) = length r"
    using rune_len_append [of r s] by (auto simp: good_rune_def bad_rune_def)
  moreover obtain c t where "r = c # t" using r by (cases r) (auto simp: good_rune_def)
  ultimately show ?thesis using runes.simps(2) [of c "t @ s"] by (simp del: rune_len.simps)
qed

lemma runes_concat: "list_all good_rune rs \<Longrightarrow> runes (concat rs) = rs"
  by (induction rs) (simp_all add: runes_good_append)

lemma good_ascii: "ascii c \<Longrightarrow> good_rune [c]"
  by (simp add: good_rune_def bad_rune_def)

lemma runes_ascii: "list_all ascii s \<Longrightarrow> runes (s @ t) = map (\<lambda>c. [c]) s @ runes t"
proof (induction s)
  case (Cons c s)
  then show ?case using runes_good_append [of "[c]" "s @ t"] good_ascii by simp
qed simp

lemma rune_len_take: "s \<noteq> [] \<Longrightarrow> rune_len (take (rune_len s) s) = rune_len s"
  by (cases s rule: rune_len.cases) (auto split: if_splits)

lemma runes_good: "ValidString s \<Longrightarrow> list_all good_rune (runes s)"
  unfolding ValidString_def
proof (induction s rule: runes.induct)
  case (2 c s)
  let ?r = "take (rune_len (c # s)) (c # s)"
  have "?r \<noteq> []" using rune_len_pos [of "c # s"] unfolding take_eq_Nil by (simp del: rune_len.simps rune_len_pos)
  moreover have "rune_len (c # s) \<le> length (c # s)" by (cases "c # s" rule: rune_len.cases) auto
  moreover have "rune_len ?r = rune_len (c # s)" by (rule rune_len_take) simp
  ultimately show ?case
    using 2 unfolding runes.simps(2) by (simp add: good_rune_def min_def del: rune_len.simps)
qed simp

subsection \<open>Quoting a word\<close>

text \<open>How a user writes a word with quotes: quotes around it, a backslash before each quote and backslash in it.\<close>

definition quote_rune :: "gostring \<Rightarrow> gostring list" where
  "quote_rune r = (if r = backslash \<or> r = dquote then [backslash, r] else [r])"

definition quote_word :: "gostring \<Rightarrow> gostring" where
  "quote_word w = dquote @ concat (concat (map quote_rune (runes w))) @ dquote"

lemma special_good [simp]: "good_rune backslash" "good_rune dquote"
  by (simp_all add: good_ascii ascii_def backslash_def dquote_def)

lemma quote_rune_good: "list_all good_rune rs \<Longrightarrow> list_all good_rune (concat (map quote_rune rs))"
  by (induction rs) (auto simp: quote_rune_def)

lemma runes_quote_word:
  assumes "ValidString w"
  shows "runes (quote_word w) = dquote # concat (map quote_rune (runes w)) @ [dquote]"
proof -
  let ?rs = "dquote # concat (map quote_rune (runes w)) @ [dquote]"
  have "list_all good_rune ?rs" using quote_rune_good [OF runes_good [OF assms]] by simp
  from runes_concat [OF this] show ?thesis by (simp add: quote_word_def)
qed

definition plain_char :: "char \<Rightarrow> bool" where
  "plain_char c \<longleftrightarrow> ascii c \<and> c \<noteq> CHR '' '' \<and> c \<noteq> CHR 0x22 \<and> c \<noteq> CHR 0x5C"

lemma split_plain:
  "list_all plain_char w \<Longrightarrow> rest \<noteq> [] \<Longrightarrow>
     split_quoted False False cur (map (\<lambda>c. [c]) w @ rest) = split_quoted False False (cur @ w) rest"
  by (induction w arbitrary: cur) (auto simp: plain_char_def backslash_def dquote_def put_rune_def bad_rune_def)

lemma put_good: "good_rune r \<Longrightarrow> put_rune r = r"
  by (simp add: good_rune_def put_rune_def)

lemma dquote_backslash [simp]: "dquote \<noteq> backslash" "backslash \<noteq> dquote" "dquote \<noteq> '' ''" "backslash \<noteq> '' ''"
  by (simp_all add: dquote_def backslash_def)

lemma split_in_quotes:
  "list_all good_rune rs \<Longrightarrow> cur \<noteq> [] \<or> rs \<noteq> [] \<Longrightarrow>
     split_quoted True False cur (concat (map quote_rune rs) @ [dquote]) = [cur @ concat rs]"
proof (induction rs arbitrary: cur)
  case Nil
  then show ?case by (simp add: dquote_def backslash_def)
next
  case (Cons r rs)
  then have r: "put_rune r = r" "r \<noteq> []" by (auto simp: put_good good_rune_def)
  show ?case
  proof (cases "r = backslash \<or> r = dquote")
    case True
    then have "split_quoted True False cur (concat (map quote_rune (r # rs)) @ [dquote]) =
        split_quoted True False (cur @ r) (concat (map quote_rune rs) @ [dquote])"
      using r by (auto simp: quote_rune_def)
    with Cons r show ?thesis by simp
  next
    case False
    then have "split_quoted True False cur (concat (map quote_rune (r # rs)) @ [dquote]) =
        split_quoted True False (cur @ r) (concat (map quote_rune rs) @ [dquote])"
      using r by (simp add: quote_rune_def)
    with Cons r show ?thesis by simp
  qed
qed

lemma split_quote_word:
  assumes "ValidString w" "cur \<noteq> [] \<or> w \<noteq> []"
  shows "split_quoted False False cur (runes (quote_word w)) = [cur @ w]"
proof -
  have "cur \<noteq> [] \<or> runes w \<noteq> []" using assms(2) by (cases w) (auto simp: runes.simps(2) simp del: rune_len.simps)
  then show ?thesis
    using split_in_quotes [OF runes_good [OF assms(1)]] assms(1)
    by (simp add: runes_quote_word concat_runes)
qed

lemma plain_ascii: "list_all plain_char w \<Longrightarrow> list_all ascii w"
  by (simp add: list_all_iff plain_char_def)

lemma login_line_words:
  assumes e: "list_all plain_char e" and p: "ValidString p"
  shows "parseQuotedArgs (''email:'' @ e @ '' password:'' @ quote_word p) = [''email:'' @ e, ''password:'' @ p]"
proof -
  have plain: "list_all plain_char (''email:'' @ e)" "list_all plain_char ''password:''"
    using e by (simp_all add: plain_char_def ascii_def)
  have "runes (''email:'' @ e @ '' password:'' @ quote_word p) =
      map (\<lambda>c. [c]) (''email:'' @ e) @ '' '' # map (\<lambda>c. [c]) ''password:'' @ runes (quote_word p)"
    using runes_ascii [of "''email:'' @ e @ '' password:''" "quote_word p"] plain_ascii [OF e] by (simp add: ascii_def)
  then have "parseQuotedArgs (''email:'' @ e @ '' password:'' @ quote_word p) =
      split_quoted False False (''email:'' @ e) ('' '' # map (\<lambda>c. [c]) ''password:'' @ runes (quote_word p))"
    unfolding parseQuotedArgs_def using split_plain [OF plain(1), of _ "[]"] by simp
  also have "\<dots> = (''email:'' @ e) # split_quoted False False [] (map (\<lambda>c. [c]) ''password:'' @ runes (quote_word p))"
    by (simp add: backslash_def dquote_def)
  also have "runes (quote_word p) \<noteq> []" by (simp add: runes_quote_word [OF p])
  from split_plain [OF plain(2) this, of "[]"]
  have "split_quoted False False [] (map (\<lambda>c. [c]) ''password:'' @ runes (quote_word p)) = [''password:'' @ p]"
    using split_quote_word [OF p, of "''password:''"] by simp
  finally show ?thesis .
qed

subsection \<open>Properties\<close>

text \<open>
  A login line is read as it was meant: the address, and the password in quotes with a backslash
  before each quote and backslash, come out of the parser as the user had them, whatever characters
  the password has.
\<close>

theorem login_line_roundtrip:
  assumes "list_all plain_char e" and "contains_sub e ''@''" and "contains_sub e ''.''"
    and "ValidString p" and "p \<noteq> []"
  shows "parseLoginArgs (''email:'' @ e @ '' password:'' @ quote_word p) = Inr (e, p)"
proof -
  have "\<not> contains_sub [] ''@''" by code_simp
  with assms(2) have "e \<noteq> []" by auto
  moreover have "foldl login_word ([], []) [''email:'' @ e, ''password:'' @ p] = (e, p)"
    by (simp add: login_word_def trim_prefix_def)
  ultimately show ?thesis
    using assms unfolding parseLoginArgs_def login_line_words [OF assms(1,4)] by (simp only: prod.case if_False simp_thms)
qed

theorem login_line_roundtrip_witness:
  "parseLoginArgs (''email:'' @ ''a@b.c'' @ '' password:'' @ quote_word [CHR ''x'', CHR 0x22, CHR '' '', CHR 0x5C, CHR 0xC3, CHR 0xA9]) =
     Inr (''a@b.c'', [CHR ''x'', CHR 0x22, CHR '' '', CHR 0x5C, CHR 0xC3, CHR 0xA9])"
  by (rule login_line_roundtrip) (code_simp+)

text \<open>Without quotes a last character that is not ASCII loses the word it ends: the password is missing.\<close>

theorem unquoted_password_lost:
  "parseLoginArgs (''email:a@b.c password:caf'' @ [CHR 0xC3, CHR 0xA9]) = Inl (Err ''password is required'')"
  by code_simp

end
