(* ===== verification/Commands.thy ===== *)
theory Commands
  imports Client CommandArgs
begin

text \<open>
  The chat commands about accounts (\<open>pkg/connector/commands.go\<close>): status, list, logout, sync and
  reconnect.  A command reads the user's logins, changes them and the world
  they share, and answers with replies.  A login whose client is not the connector's own is None.  The
  connector itself is never nil here.  A command whose IMAP operation never returns is \<open>Blocked\<close>.
\<close>

subsection \<open>State\<close>

type_synonym logins = "(gostring \<times> loaded_client option) list"

record 'w command_world =
  kw_logins :: logins
  kw_world :: "'w client_world"
  kw_replies :: "gostring list"

record command_event =
  cm_user :: gostring
  cm_args :: "gostring list"
  cm_raw :: gostring

definition Reply :: "gostring \<Rightarrow> 'w command_world \<Rightarrow> 'w command_world" where
  "Reply msg w = w\<lparr>kw_replies := kw_replies w @ [msg]\<rparr>"

definition count :: "'a list \<Rightarrow> gostring" where "count xs = itoa_go (int (length xs))"

definition is_account :: "gostring \<Rightarrow> gostring \<times> loaded_client option \<Rightarrow> bool" where
  "is_account addr login = (case snd login of None \<Rightarrow> False | Some c \<Rightarrow> cl_Email c = addr)"

text \<open>The first login of an address, by its place in the list, with its client.\<close>

definition find_account :: "gostring \<Rightarrow> logins \<Rightarrow> (nat \<times> loaded_client) option" where
  "find_account addr ls =
     (case first_index (is_account addr) ls of
        None \<Rightarrow> None
      | Some i \<Rightarrow> map_option (Pair i) (snd (ls ! i)))"

definition put_client :: "nat \<Rightarrow> loaded_client \<times> 'w client_world \<Rightarrow> 'w command_world \<Rightarrow> 'w command_world" where
  "put_client i cw w = w\<lparr>kw_logins := (kw_logins w)[i := (fst (kw_logins w ! i), Some (fst cw))], kw_world := snd cw\<rparr>"

text \<open>An operation on the client of the i-th login.\<close>

definition on_login ::
  "nat \<Rightarrow> (loaded_client \<times> 'w client_world \<Rightarrow> ('a, loaded_client \<times> 'w client_world) outcome) \<Rightarrow> loaded_client \<Rightarrow>
     'w command_world \<Rightarrow> ('a, 'w command_world) outcome" where
  "on_login i f c w =
     (case f (c, kw_world w) of Done a cw \<Rightarrow> Done a (put_client i cw w) | Blocked cw \<Rightarrow> Blocked (put_client i cw w))"

definition not_connected_text :: gostring where
  "not_connected_text = bytes [226, 132, 185, 239, 184, 143] @ '' You'' @ bytes [39] @
     ''re not connected to any email accounts. Use `!matrimail login` to get started.''"

definition not_found_text :: "gostring \<Rightarrow> gostring" where
  "not_found_text addr = bytes [226, 157, 140] @ '' Email account **'' @ addr @
     ''** not found in your connected accounts.''"

definition fnPing :: "'w command_world \<Rightarrow> 'w command_world" where
  "fnPing = Reply (bytes [240, 159, 143, 147] @ '' **Pong!** Matrimail is alive and running.'')"

subsection \<open>Status and list\<close>

record account_status =
  as_Email :: gostring
  as_Host :: gostring
  as_Port :: int
  as_Connected :: bool
  as_IDLEActive :: bool

text \<open>\<open>settings\<close> gives the server settings a client of the heap was made with.\<close>

definition GetAccountStatus :: "(client_ref \<Rightarrow> imap_endpoint) \<Rightarrow> gostring \<Rightarrow> 'w imap_manager \<Rightarrow> account_status list" where
  "GetAccountStatus settings user m =
     map (\<lambda>r. case conns m r of
          None \<Rightarrow> \<lparr>as_Email = en_Email (settings r), as_Host = en_Host (settings r), as_Port = en_Port (settings r),
            as_Connected = False, as_IDLEActive = False\<rparr>
        | Some s \<Rightarrow> \<lparr>as_Email = en_Email (settings r), as_Host = en_Host (settings r), as_Port = en_Port (settings r),
            as_Connected = connected_inbox (box s), as_IDLEActive = idling (box s)\<rparr>) (ListAccounts user m)"

definition status_icon :: "account_status \<Rightarrow> gostring" where
  "status_icon s =
     (if as_Connected s \<and> as_IDLEActive s then bytes [226, 156, 133]
      else if as_Connected s then bytes [240, 159, 148, 132]
      else bytes [226, 157, 140])"

definition status_text :: "account_status \<Rightarrow> gostring" where
  "status_text s =
     (if as_Connected s \<and> as_IDLEActive s then ''Connected, monitoring''
      else if as_Connected s then ''Connected, starting monitoring''
      else ''Disconnected'')"

definition status_line :: "account_status \<Rightarrow> gostring" where
  "status_line s = bytes [240, 159, 147, 167] @ '' '' @ status_icon s @ '' **'' @ as_Email s @ ''** ('' @ as_Host s @
     '':'' @ itoa_go (as_Port s) @ '') - '' @ status_text s @ bytes [10]"

definition status_verdict :: "account_status list \<Rightarrow> gostring" where
  "status_verdict ss =
     (if length (filter as_Connected ss) = length ss \<and> length (filter as_IDLEActive ss) = length ss
      then bytes [226, 156, 133] @
     '' **All systems operational!** Your emails are being monitored in real-time.''
      else if filter as_Connected ss \<noteq> [] then bytes [226, 154, 160, 239, 184, 143] @
     '' **Partial connectivity** - Some accounts may need attention.''
      else bytes [226, 157, 140] @ '' **No active connections** - Use `!matrimail login` to reconnect.'')"

definition fnStatus :: "(client_ref \<Rightarrow> imap_endpoint) \<Rightarrow> command_event \<Rightarrow> 'w command_world \<Rightarrow> 'w command_world" where
  "fnStatus settings ev w =
     (if kw_logins w = [] then Reply (bytes [10] @ ''**Matrimail Status**'' @ bytes [10, 10] @
     ''**Connection Status:** Not connected'' @ bytes [10] @ ''**Email Accounts:** 0'' @ bytes [10] @
     ''**Matrix Rooms:** 0 email rooms'' @ bytes [10, 10] @
     ''**Bridge is ready!** Use `!matrimail login` to connect your first email account.'' @
     bytes [10]) w
      else
        let ss = GetAccountStatus settings (cm_user ev) (cw_imap (kw_world w)) in
        if ss = [] then Reply (bytes [10] @ ''**Matrimail Status**'' @ bytes [10, 10] @
     ''**Connection Status:** No active email connections'' @ bytes [10] @
     ''**Email Accounts:** 0 monitoring'' @ bytes [10] @ ''**Matrix Rooms:** 0 email rooms'' @
     bytes [10, 10] @
     ''**Note:** You have bridge login(s) but no active IMAP connections. Use `!matrimail login` to add email accounts.'' @
     bytes [10]) w
        else Reply (bytes [10] @ ''**Matrimail Status**'' @ bytes [10, 10] @ concat (map status_line ss) @
          bytes [10] @ ''**Summary:**'' @ bytes [10] @ ''**Email Accounts:** '' @ count ss @ '' total, '' @
     count (filter as_Connected ss) @ '' connected'' @ bytes [10] @ ''**Real-time Monitoring:** '' @
     count (filter as_IDLEActive ss) @ '' active IMAP IDLE sessions'' @ bytes [10] @
     ''**Matrix Rooms:** Calculating...'' @ bytes [10, 10] @ status_verdict ss) w)"

text \<open>
  The list.  \<open>date\<close> writes a day.  The address is indexed after its @ sign; without one the command
  panics (None).  When several clients of the manager have an address, the last one counts.
\<close>

definition list_line :: "(gotime \<Rightarrow> gostring) \<Rightarrow> account_status list \<Rightarrow> email_account \<Rightarrow> gostring option" where
  "list_line date ss a =
     (case split_on CHR ''@'' (ea_Email a) of
        x # d # _ \<Rightarrow>
          (let provider = (case CommonProviders (to_lower d) of Some p \<Rightarrow> ep_Name p | None \<Rightarrow> ''Custom IMAP'');
               st = find (\<lambda>s. as_Email s = ea_Email a) (rev ss);
               icon = (case st of Some s \<Rightarrow> status_icon s | None \<Rightarrow> bytes [226, 154, 160, 239, 184, 143]);
               text = (case st of Some s \<Rightarrow> status_text s | None \<Rightarrow> ''Status unknown'')
           in Some (bytes [226, 128, 162] @ '' '' @ icon @ '' **'' @ ea_Email a @ ''** ('' @ provider @ '') - '' @
     text @ bytes [10] @
                (case st of
                   Some s \<Rightarrow> if as_Host s \<noteq> [] then ''    Server: '' @ as_Host s @ '':'' @ itoa_go (as_Port s) @ bytes [10] else []
                 | None \<Rightarrow> []) @
                (if ea_MonitoredFolders a \<noteq> [] then ''    '' @ bytes [240, 159, 147, 129] @ '' Folders: '' @
     join_with '', '' (ea_MonitoredFolders a) @ bytes [10] else []) @
                ''    Added: '' @ date (ea_CreatedAt a) @ bytes [10, 10]))
      | _ \<Rightarrow> None)"

fun all_lines :: "gostring option list \<Rightarrow> gostring option" where
  "all_lines [] = Some []"
| "all_lines (None # ls) = None"
| "all_lines (Some l # ls) = map_option (append l) (all_lines ls)"

definition fnList ::
  "store_env \<Rightarrow> query_result \<Rightarrow> (gotime \<Rightarrow> gostring) \<Rightarrow> (client_ref \<Rightarrow> imap_endpoint) \<Rightarrow> command_event \<Rightarrow>
     'w command_world \<Rightarrow> 'w command_world option" where
  "fnList S q date settings ev w =
     (if kw_logins w = [] then Some (Reply (bytes [10, 240, 159, 147, 173] @ '' **No email accounts connected**'' @ bytes [10, 10] @
     ''To get started:'' @ bytes [10] @
     ''1. Use `!matrimail login` to connect your first email account'' @ bytes [10] @
     ''2. The bridge supports Gmail, Outlook, Yahoo, FastMail, and custom IMAP servers'' @ bytes [10] @
     ''3. Once connected, new emails will automatically create Matrix rooms'' @ bytes [10, 10] @
     ''Need help? Use `!matrimail help` for more information.'' @ bytes [10]) w)
      else case GetUserAccountsBasic S q (cm_user ev) (cw_table (kw_world w)) of
        Inl e \<Rightarrow> Some (Reply (bytes [226, 157, 140] @ '' Failed to get account list: '' @ error_text e) w)
      | Inr [] \<Rightarrow> Some (Reply (bytes [240, 159, 147, 173] @
     '' No email accounts found in database. Use `!matrimail login` to add one.'') w)
      | Inr accounts \<Rightarrow>
          (let ss = GetAccountStatus settings (cm_user ev) (cw_imap (kw_world w))
           in map_option (\<lambda>ls. Reply (bytes [240, 159, 147, 167] @ '' **Connected Email Accounts:** '' @ count accounts @
     bytes [10, 10] @ ls @ bytes [240, 159, 146, 161] @ '' Use `!matrimail logout <email>` to remove a specific account.'') w)
                (all_lines (map (list_line date ss) accounts))))"

subsection \<open>Logout\<close>

text \<open>\<open>db\<close>, \<open>env\<close>: the answers of the database and of the network to each \<open>LogoutRemote\<close>.\<close>

fun logout_all ::
  "(nat \<Rightarrow> go_error option) \<Rightarrow> (nat \<Rightarrow> 'w net_env) \<Rightarrow> nat \<Rightarrow> logins \<Rightarrow> gostring list \<Rightarrow> 'w command_world \<Rightarrow>
     (gostring list, 'w command_world) outcome" where
  "logout_all db env i [] bads w = Done bads w"
| "logout_all db env i ((lid, None) # ls) bads w =
     logout_all db env (Suc i) ls (bads @ [''Invalid client type for login '' @ lid]) w"
| "logout_all db env i ((lid, Some c) # ls) bads w =
     and_then (on_login i (LogoutRemote (db i) (env i)) c w) (\<lambda>_. logout_all db env (Suc i) ls bads)"

definition fnLogout ::
  "(nat \<Rightarrow> go_error option) \<Rightarrow> (nat \<Rightarrow> 'w net_env) \<Rightarrow> command_event \<Rightarrow> 'w command_world \<Rightarrow> (unit, 'w command_world) outcome" where
  "fnLogout db env ev w =
     (let ls = kw_logins w in
      if ls = [] then Done () (Reply not_connected_text w)
      else case cm_args ev of
        addr # _ \<Rightarrow>
          (let w1 = Reply (bytes [240, 159, 148, 140] @ '' Disconnecting from **'' @ addr @ ''**...'') w in
           case find_account addr ls of
             None \<Rightarrow> Done () (Reply (not_found_text addr) w1)
           | Some (i, c) \<Rightarrow>
               and_then (on_login i (LogoutRemote (db i) (env i)) c w1) (\<lambda>_ w2.
                 Done () (Reply (bytes [226, 156, 133] @ '' Successfully disconnected from **'' @ addr @ ''**'') w2)))
      | [] \<Rightarrow>
          and_then (logout_all db env 0 ls [] (Reply (bytes [240, 159, 148, 140] @ '' Disconnecting from all '' @ count ls @ '' email account(s)...'') w))
            (\<lambda>bads w2. Done () (Reply
              (if bads = [] then bytes [226, 156, 133] @ '' Successfully disconnected from all email accounts.''
               else bytes [226, 154, 160, 239, 184, 143] @ '' Logout completed with some issues:'' @
     bytes [10, 226, 128, 162] @ '' '' @ join_with ([newline] @ bytes [226, 128, 162] @ '' '') bads) w2)))"

subsection \<open>Sync\<close>

text \<open>
  One account: the check runs in the command.  All accounts: each check has thirty seconds, all
  together sixty; \<open>late i\<close> says that the i-th check did not answer in time, in which case its effect
  comes all the same.  A check that never returns is late.
\<close>

definition fnSync_one :: "(nat \<Rightarrow> 'w net_env) \<Rightarrow> gostring \<Rightarrow> 'w command_world \<Rightarrow> (unit, 'w command_world) outcome" where
  "fnSync_one env addr w =
     (case find_account addr (kw_logins w) of
        None \<Rightarrow> Done () (Reply (not_found_text addr) w)
      | Some (i, c) \<Rightarrow>
          (let w1 = Reply (bytes [240, 159, 148, 132] @ '' Forcing sync for **'' @ addr @ ''**...'') w in
           if imap_connected (c, kw_world w1) then
             and_then (on_login i (on_imap (CheckNewMessages (env i))) c w1) (\<lambda>err w2. Done () (Reply
               (case err of Some e \<Rightarrow> bytes [226, 157, 140] @ '' Sync failed for **'' @ addr @ ''**: '' @ error_text e
                | None \<Rightarrow> bytes [226, 156, 133] @ '' Sync completed for **'' @ addr @ ''**'') w2))
           else Done () (Reply (bytes [226, 154, 160, 239, 184, 143] @ '' **'' @ addr @ ''** is not connected to IMAP server'') w1)))"

fun sync_all ::
  "(nat \<Rightarrow> 'w net_env) \<Rightarrow> (nat \<Rightarrow> bool) \<Rightarrow> nat \<Rightarrow> logins \<Rightarrow> gostring list \<Rightarrow> gostring list \<Rightarrow> 'w command_world \<Rightarrow>
     gostring list \<times> gostring list \<times> 'w command_world" where
  "sync_all env late i [] good bad w = (good, bad, w)"
| "sync_all env late i ((lid, None) # ls) good bad w = sync_all env late (Suc i) ls good bad w"
| "sync_all env late i ((lid, Some c) # ls) good bad w =
     (let addr = cl_Email c; timed_out = addr @ '': sync timed out after 30 seconds'' in
      if imap_connected (c, kw_world w) then
        (case on_login i (on_imap (CheckNewMessages (env i))) c w of
           Blocked w1 \<Rightarrow> sync_all env late (Suc i) ls good (bad @ [timed_out]) w1
         | Done err w1 \<Rightarrow>
             if late i then sync_all env late (Suc i) ls good (bad @ [timed_out]) w1
             else (case err of
               Some e \<Rightarrow> sync_all env late (Suc i) ls good (bad @ [addr @ '': '' @ error_text e]) w1
             | None \<Rightarrow> sync_all env late (Suc i) ls (good @ [addr]) bad w1))
      else sync_all env late (Suc i) ls good (bad @ [addr @ '': not connected'']) w)"

definition summary :: "gostring \<Rightarrow> gostring \<Rightarrow> gostring list \<Rightarrow> gostring list \<Rightarrow> gostring" where
  "summary ok_text bad_text good bad =
     (if good \<noteq> [] then ok_text @ join_with '', '' good @ [newline] else []) @
     (if bad \<noteq> [] then bad_text @ join_with ''; '' bad else [])"

definition fnSync :: "(nat \<Rightarrow> 'w net_env) \<Rightarrow> (nat \<Rightarrow> bool) \<Rightarrow> command_event \<Rightarrow> 'w command_world \<Rightarrow> (unit, 'w command_world) outcome" where
  "fnSync env late ev w =
     (let ls = kw_logins w in
      if ls = [] then Done () (Reply not_connected_text w)
      else case cm_args ev of
        addr # _ \<Rightarrow> fnSync_one env addr w
      | [] \<Rightarrow>
          (case sync_all env late 0 ls [] [] (Reply (bytes [240, 159, 148, 132] @ '' Forcing sync for all '' @ count ls @ '' email account(s)...'') w) of
             (good, bad, w1) \<Rightarrow> Done () (Reply (summary (bytes [226, 156, 133] @ '' Successfully synced: '')
               (bytes [226, 157, 140] @ '' Failed to sync: '') good bad) w1)))"

subsection \<open>Reconnect\<close>

definition Reconnect :: "'w net_env \<Rightarrow> 'w imap_conn \<Rightarrow> 'w conn_result" where
  "Reconnect env s = reconnectClient env s"

definition fnReconnect_one :: "(nat \<Rightarrow> 'w net_env) \<Rightarrow> gostring \<Rightarrow> 'w command_world \<Rightarrow> (unit, 'w command_world) outcome" where
  "fnReconnect_one env addr w =
     (case find_account addr (kw_logins w) of
        None \<Rightarrow> Done () (Reply (not_found_text addr) w)
      | Some (i, c) \<Rightarrow>
          (let w1 = Reply (bytes [240, 159, 148, 140] @ '' Reconnecting **'' @ addr @ ''**...'') w in
           if cl_IMAP c = None then Done () (Reply (bytes [226, 157, 140] @ '' No IMAP client found for **'' @ addr @ ''**'') w1)
           else and_then (on_login i (on_imap (Reconnect (env i))) c w1) (\<lambda>err w2. case err of
             Some e \<Rightarrow> Done () (Reply (bytes [226, 157, 140] @ '' Reconnection failed for **'' @ addr @ ''**: '' @ error_text e) w2)
           | None \<Rightarrow>
               and_then (on_login i (on_imap (StartIDLE (env i))) c w2) (\<lambda>err w3. Done () (Reply
                 (case err of Some e \<Rightarrow> bytes [226, 154, 160, 239, 184, 143] @ '' Reconnected **'' @ addr @
     ''** but IDLE failed to start: '' @ error_text e
                  | None \<Rightarrow> bytes [226, 156, 133] @ '' Successfully reconnected **'' @ addr @ ''**'') w3)))))"

fun reconnect_all ::
  "(nat \<Rightarrow> 'w net_env) \<Rightarrow> nat \<Rightarrow> logins \<Rightarrow> gostring list \<Rightarrow> gostring list \<Rightarrow> 'w command_world \<Rightarrow>
     (gostring list \<times> gostring list, 'w command_world) outcome" where
  "reconnect_all env i [] good bad w = Done (good, bad) w"
| "reconnect_all env i ((lid, None) # ls) good bad w = reconnect_all env (Suc i) ls good bad w"
| "reconnect_all env i ((lid, Some c) # ls) good bad w =
     (if cl_IMAP c = None then reconnect_all env (Suc i) ls good bad w
      else and_then (on_login i (on_imap (Reconnect (env i))) c w) (\<lambda>err w1. case err of
        Some e \<Rightarrow> reconnect_all env (Suc i) ls good (bad @ [cl_Email c @ '': '' @ error_text e]) w1
      | None \<Rightarrow>
          and_then (on_login i (on_imap (StartIDLE (env i))) c w1) (\<lambda>err w2. case err of
            Some e \<Rightarrow> reconnect_all env (Suc i) ls good (bad @ [cl_Email c @ '': IDLE failed - '' @ error_text e]) w2
          | None \<Rightarrow> reconnect_all env (Suc i) ls (good @ [cl_Email c]) bad w2)))"

definition fnReconnect :: "(nat \<Rightarrow> 'w net_env) \<Rightarrow> command_event \<Rightarrow> 'w command_world \<Rightarrow> (unit, 'w command_world) outcome" where
  "fnReconnect env ev w =
     (let ls = kw_logins w in
      if ls = [] then Done () (Reply not_connected_text w)
      else case cm_args ev of
        addr # _ \<Rightarrow> fnReconnect_one env addr w
      | [] \<Rightarrow>
          and_then (reconnect_all env 0 ls [] [] (Reply (bytes [240, 159, 148, 140] @ '' Reconnecting all '' @ count ls @ '' email account(s)...'') w)) (\<lambda>(good, bad) w1.
            Done () (Reply (summary (bytes [226, 156, 133] @ '' Successfully reconnected: '')
              (bytes [226, 157, 140] @ '' Failed to reconnect: '') good bad) w1)))"

end
