(* ===== verification/CommandFlows.thy ===== *)
theory CommandFlows
  imports Commands
begin

text \<open>
  The chat commands that log in, authorise and change the passphrase (\<open>pkg/connector/commands.go\<close>,
  \<open>CreateLogin\<close> and \<open>GetLoginFlows\<close> of \<open>connector.go\<close>).  An interactive login is a session: the login
  process, what the next message of the user will be taken for (the framework's command state), and
  the answers so far.  The text form of the login submits the credentials and forgets the process.
\<close>

subsection \<open>Login flows\<close>

definition not_configured_text :: gostring where
  "not_configured_text = ''gmail_oauth not configured on this bridge; see docs/gmail-oauth-setup.md, or use the email-password flow''"

definition CreateLogin :: "oauth_config \<Rightarrow> gostring \<Rightarrow> go_error + login_proc" where
  "CreateLogin cfg flow0 =
     (let flow = (if flow0 = [] then LoginFlowIDPassword else flow0) in
      if flow = LoginFlowIDOAuthGmail \<and> no_oauth_config cfg then Inl (Err not_configured_text)
      else Inr (new_login flow))"

definition GetLoginFlows :: "oauth_config \<Rightarrow> gostring list" where
  "GetLoginFlows cfg = [LoginFlowIDPassword] @ (if no_oauth_config cfg then [] else [LoginFlowIDOAuthGmail])"

definition pickInteractiveLoginFlow :: "oauth_config \<Rightarrow> gostring" where
  "pickInteractiveLoginFlow cfg =
     (if oc_client_id cfg \<noteq> [] \<and> oc_client_secret cfg \<noteq> [] then LoginFlowIDOAuthGmail else LoginFlowIDPassword)"

definition buildEnhancedLoginInstructions :: "gostring \<Rightarrow> gostring" where
  "buildEnhancedLoginInstructions original =
     (if trim_space original \<noteq> [] then trim_space original @ [newline, newline] else []) @
     bytes [240, 159, 148, 144] @ '' **Email Bridge Login**'' @ bytes [10, 10] @
     ''**Method 1: Quick Command**'' @ bytes [10] @
     ''`!matrimail login email:your@email.com password:yourpassword`'' @ bytes [10] @
     ''`!matrimail login email:your@email.com password:'' @ bytes [34] @ ''password with spaces'' @
     bytes [34] @ ''`'' @ bytes [10, 10] @
     ''**Method 2: Form Fields (if supported by your client)**'' @ bytes [10, 240, 159, 147, 167] @
     '' **Please enter your email credentials using the form fields below.**'' @ bytes [10, 10] @
     ''**Important Notes:**'' @ bytes [10, 226, 128, 162] @
     '' For Gmail/Yahoo/Outlook: Use an **App Password** (not your regular password)'' @
     bytes [10, 226, 128, 162] @
     '' The bridge will automatically detect your email provider settings'' @
     bytes [10, 226, 128, 162] @ '' Your password will be encrypted and stored securely'' @
     bytes [10, 10] @ ''**App Password Setup Guide:**'' @ bytes [10] @ ''**Gmail:** Settings '' @
     bytes [226, 134, 146] @ '' Security '' @ bytes [226, 134, 146] @ '' 2-Step Verification '' @
     bytes [226, 134, 146] @ '' App passwords'' @ bytes [10] @ ''**Yahoo:** Account Info '' @
     bytes [226, 134, 146] @ '' Account security '' @ bytes [226, 134, 146] @
     '' Generate app password  '' @ bytes [10] @ ''**Outlook:** Security '' @ bytes [226, 134, 146] @
     '' Sign-in options '' @ bytes [226, 134, 146] @ '' App passwords'' @ bytes [10] @
     ''**iCloud:** Sign-In and Security '' @ bytes [226, 134, 146] @ '' App-Specific Passwords'' @
     bytes [10, 10] @ ''**Popular Providers Supported:**'' @ bytes [10, 226, 156, 133] @
     '' Gmail, Yahoo, Outlook, iCloud, FastMail - Auto-configured'' @ bytes [10, 226, 156, 133] @
     '' Custom IMAP servers - Auto-detected'' @ bytes [10, 10] @
     ''*The bridge will test your IMAP connection automatically after you submit your credentials.*'' @
     bytes [10, 10] @
     ''**Need help?** Use `!matrimail help` for more information or `!matrimail status` to check connection status.''"

subsection \<open>The text form\<close>

datatype command_end = Answered "gostring list" | Panicked | Hangs

definition processTextLogin ::
  "login_env \<Rightarrow> wait_choice \<Rightarrow> gostring \<Rightarrow> gostring \<Rightarrow> login_world \<Rightarrow> gostring attempt \<times> login_world" where
  "processTextLogin E ready email0 password0 w =
     (case CreateLogin (le_oauth E) ''email-password'' of
        Inl e \<Rightarrow> (Failed (Errorf ''failed to create login process'' e), w)
      | Inr p0 \<Rightarrow>
          (let email = trim_space email0; password = trim_space password0 in
           if length email > 256 then (Failed (Err ''email address too long (max 256 characters)''), w)
           else if length password > 1024 then (Failed (Err ''password too long (max 1024 characters)''), w)
           else if password = [] then (Failed (Err ''password cannot be empty''), w)
           else
             (case SubmitUserInput E ready [''email'' \<mapsto> email, ''password'' \<mapsto> password]
                     (p0\<lparr>lp_email := email, lp_username := email, lp_password := password\<rparr>) w of
                (NextStep step, p, w1) \<Rightarrow> (Worked (ls_Instructions step), w1)
              | (LoginError e, p, w1) \<Rightarrow> (Failed e, w1)
              | (LoginPanic, p, w1) \<Rightarrow> (Panicking, w1)
              | (LoginBlocked, p, w1) \<Rightarrow> (Hanging, w1))))"

definition login_usage :: "go_error \<Rightarrow> gostring" where
  "login_usage e = bytes [226, 157, 140] @ '' '' @ error_text e @ bytes [10, 10] @
     ''**Usage:** `!matrimail login email:your@email.com password:yourpassword`'' @ bytes [10] @
     ''**Or:** `!matrimail login email:your@email.com password:'' @ bytes [34] @
     ''password with spaces'' @ bytes [34] @ ''`''"

definition text_login :: "login_env \<Rightarrow> wait_choice \<Rightarrow> gostring \<Rightarrow> login_world \<Rightarrow> command_end \<times> login_world" where
  "text_login E ready args w =
     (case parseLoginArgs args of
        Inl e \<Rightarrow> (Answered [login_usage e], w)
      | Inr (email, password) \<Rightarrow>
          (case processTextLogin E ready email password w of
             (Failed e, w1) \<Rightarrow> (Answered [bytes [226, 157, 140] @ '' Login failed: '' @ error_text e], w1)
           | (Worked text, w1) \<Rightarrow> (Answered [text], w1)
           | (Panicking, w1) \<Rightarrow> (Panicked, w1)
           | (Hanging, w1) \<Rightarrow> (Hangs, w1)))"

subsection \<open>The interactive form\<close>

text \<open>
  What the user's next message is taken for.  The first field of a step is asked by the step's own
  instructions; the flag tells it from the later ones, which are asked by a prompt.
\<close>

datatype command_state =
    NoCommand
  | AskField bool "input_field list" "gostring \<rightharpoonup> gostring"
  | WaitForLogin

record login_session =
  se_flow :: gostring
  se_proc :: login_proc
  se_pending :: command_state
  se_said :: "gostring list"
  se_redacted :: nat
  se_world :: login_world

definition say :: "gostring \<Rightarrow> login_session \<Rightarrow> login_session" where
  "say msg s = s\<lparr>se_said := se_said s @ [msg]\<rparr>"

definition dispatchLoginStep :: "login_step \<Rightarrow> login_session \<Rightarrow> login_session" where
  "dispatchLoginStep step s =
     (let s1 = (if ls_Instructions step = [] then s
            else if se_flow s = LoginFlowIDPassword \<and> ls_Type step = UserInput
            then say (buildEnhancedLoginInstructions (ls_Instructions step)) s
            else say (ls_Instructions step) s)
      in case ls_Type step of
           UserInput \<Rightarrow> s1\<lparr>se_pending := AskField True (ls_Fields step) Map.empty\<rparr>
         | DisplayAndWait \<Rightarrow> s1\<lparr>se_pending := WaitForLogin\<rparr>
         | CompleteStep \<Rightarrow> say (bytes [226, 156, 133] @ '' Login complete.'') (s1\<lparr>se_pending := NoCommand\<rparr>))"

text \<open>A session's step may panic or hang.\<close>

definition ask_next :: "input_field list \<Rightarrow> (gostring \<rightharpoonup> gostring) \<Rightarrow> login_session \<Rightarrow> login_session" where
  "ask_next flds data s =
     (case hd flds of (ty, fid, name, descr) \<Rightarrow>
        (say (if descr \<noteq> [] then ''Please enter your '' @ name @ bytes [10] @ descr else ''Please enter your '' @ name) s)
          \<lparr>se_pending := AskField False flds data\<rparr>)"

definition submit_step :: "login_env \<Rightarrow> wait_choice \<Rightarrow> (gostring \<rightharpoonup> gostring) \<Rightarrow> login_session \<Rightarrow> login_session attempt" where
  "submit_step E ready data s =
     (case SubmitUserInput E ready data (se_proc s) (se_world s) of
        (LoginPanic, p, w) \<Rightarrow> Panicking
      | (LoginBlocked, p, w) \<Rightarrow> Hanging
      | (LoginError e, p, w) \<Rightarrow>
          Worked (say (bytes [226, 157, 140] @ '' Failed to submit input: '' @ error_text e) (s\<lparr>se_proc := p, se_world := w\<rparr>))
      | (NextStep next, p, w) \<Rightarrow>
          Worked (dispatchLoginStep next (s\<lparr>se_proc := p, se_world := w, se_pending := NoCommand\<rparr>)))"

text \<open>
  A message of the user.  \<open>validate\<close> is the framework's check of a field.  A wrong value is asked for
  again, except for the first field, which just stays open.  The map of the values is shared, so a
  failed submission keeps them.
\<close>

definition login_message ::
  "(input_field \<Rightarrow> gostring \<Rightarrow> go_error + gostring) \<Rightarrow> login_env \<Rightarrow> wait_choice \<Rightarrow> gostring \<Rightarrow> login_session \<Rightarrow> login_session attempt" where
  "login_message validate E ready raw s =
     (case se_pending s of
        AskField first [] data \<Rightarrow> Panicking
      | AskField first (fld # rest) data \<Rightarrow>
          (case fld of (ty, fid, name, descr) \<Rightarrow>
            (let s1 = (if ty = ''password'' \<or> ty = ''token'' then s\<lparr>se_redacted := Suc (se_redacted s)\<rparr> else s) in
             case validate fld raw of
               Inl e \<Rightarrow>
                 (let s2 = say (bytes [226, 157, 140] @ '' Invalid value for '' @ name @ '': '' @ error_text e) s1
                  in Worked (if first then s2 else ask_next (fld # rest) data s2))
             | Inr val \<Rightarrow>
                 (let data1 = data(fid \<mapsto> val) in
                  if rest \<noteq> [] then Worked (ask_next rest data1 s1)
                  else submit_step E ready data1 (s1\<lparr>se_pending := AskField first [fld] data1\<rparr>))))
      | _ \<Rightarrow> Worked s)"

definition login_waited :: "login_env \<Rightarrow> go_error option \<Rightarrow> wait_choice \<Rightarrow> login_session \<Rightarrow> login_session attempt" where
  "login_waited E ctx ready s =
     (case login_Wait E ctx ready (se_proc s) (se_world s) of
        (LoginPanic, p, w) \<Rightarrow> Panicking
      | (LoginBlocked, p, w) \<Rightarrow> Hanging
      | (LoginError e, p, w) \<Rightarrow>
          Worked (say (bytes [226, 157, 140] @ '' Login wait failed: '' @ error_text e) (s\<lparr>se_proc := p, se_world := w, se_pending := NoCommand\<rparr>))
      | (NextStep next, p, w) \<Rightarrow>
          Worked (dispatchLoginStep next (s\<lparr>se_proc := p, se_world := w, se_pending := NoCommand\<rparr>)))"

definition start_session :: "login_env \<Rightarrow> login_world \<Rightarrow> gostring list + login_session" where
  "start_session E w =
     (let flow = pickInteractiveLoginFlow (le_oauth E) in
      case CreateLogin (le_oauth E) flow of
        Inl e \<Rightarrow> Inl [bytes [226, 157, 140] @ '' Failed to start login process: '' @ error_text e]
      | Inr p \<Rightarrow> Inr (dispatchLoginStep (login_Start E p)
          \<lparr>se_flow = flow, se_proc = p, se_pending = NoCommand, se_said = [], se_redacted = 0, se_world = w\<rparr>))"

definition already_text :: "logins \<Rightarrow> gostring list" where
  "already_text ls = (if ls = [] then [] else [bytes [226, 132, 185, 239, 184, 143] @ '' You already have '' @ count ls @
     '' email account(s) connected '' @ bytes [226, 128, 148] @
     '' starting a new login to add another. Use `!matrimail list` to see existing accounts, or `!matrimail logout <email>` to remove one.''])"

text \<open>\<open>fnLogin\<close>: with arguments the text form, without the start of a session.\<close>

definition fnLogin ::
  "login_env \<Rightarrow> wait_choice \<Rightarrow> logins \<Rightarrow> command_event \<Rightarrow> login_world \<Rightarrow> gostring list \<times> (command_end \<times> login_world + gostring list + login_session)" where
  "fnLogin E ready ls ev w =
     (already_text ls,
      if trim_space (cm_raw ev) \<noteq> [] then Inl (text_login E ready (trim_space (cm_raw ev)) w)
      else Inr (start_session E w))"

subsection \<open>OAuth\<close>

definition fnOAuthPasteCode ::
  "(gostring \<Rightarrow> go_error + gostring) \<Rightarrow> (gostring \<Rightarrow> gostring) \<Rightarrow> command_event \<Rightarrow> login_world \<Rightarrow> gostring \<times> login_world" where
  "fnOAuthPasteCode raw_query quote ev w =
     (if length (cm_args ev) < 2 then (''Usage: `!matrimail oauth paste-code <redirect-url>`'' @ bytes [10, 10] @
     ''After authorizing in your browser, the page will fail to load (because the'' @ bytes [10] @
     ''loopback redirect points at the bridge host, not your laptop). Copy the'' @ bytes [10] @
     ''**full URL** from your browser'' @ bytes [39] @ ''s address bar '' @ bytes [226, 128, 148] @
     '' it looks like:'' @ bytes [10, 10] @
     ''    http://127.0.0.1:NNNNN/callback?code=4/0AY...&state=...'' @ bytes [10, 10, 226, 128, 166] @
     ''and pass it to this command. The bridge already has the matching state and'' @ bytes [10] @
     ''PKCE verifier in memory and will exchange the code for a refresh token.'' @ bytes [10, 10] @
     ''This is for truly headless deployments where you can'' @ bytes [39] @ ''t SSH-tunnel the'' @
     bytes [10] @ ''loopback port either. If you can SSH-tunnel, just open the URL on your'' @
     bytes [10] @ ''workstation and the normal flow completes itself.'', w)
      else case parseOAuthCallbackURL raw_query quote (trim_space (concat (tl (cm_args ev)))) of
        Inl e \<Rightarrow> (bytes [226, 157, 140] @ '' Could not parse that URL: '' @ error_text e @ bytes [10, 10] @
     ''Make sure you copied the full `http://127.0.0.1:NNNN/callback?code=...&state=...` URL from your browser, including the `?` and everything after.'', w)
      | Inr (code, state) \<Rightarrow>
          (case lookupOAuthListener (cm_user ev) w of
             None \<Rightarrow> (bytes [226, 157, 140] @ '' No in-progress OAuth login found for your account.'' @ bytes [10, 10] @
     ''Run `!matrimail login` first, complete Step 2 by opening the URL Google gives you, then come back and paste the redirect URL here.'', w)
           | Some i \<Rightarrow>
               (case Inject code state (lw_listeners w ! i) of
                  (Some e, l) \<Rightarrow> (bytes [226, 157, 140] @ '' Code injection failed: '' @ error_text e @ bytes [10, 10] @
     ''If this says '' @ bytes [34] @ ''state mismatch'' @ bytes [34] @
     '', the URL is from an older login session '' @ bytes [226, 128, 148] @
     '' run `!matrimail login` again to start a fresh one and use the new URL it gives you.'', on_listener i (\<lambda>_. l) w)
                | (None, l) \<Rightarrow> (bytes [226, 156, 133] @ '' **Authorization code accepted.** Watch the login DM '' @
     bytes [226, 128, 148] @
     '' the bridge will continue with profile verification and folder selection.'', on_listener i (\<lambda>_. l) w))))"

definition pasted_account :: "login_env \<Rightarrow> gostring \<Rightarrow> email_account" where
  "pasted_account E emailAddr =
     \<lparr>ea_UserMXID = le_user E, ea_Email = emailAddr, ea_Username = emailAddr, ea_Password = [], ea_Host = ''imap.gmail.com'',
      ea_Port = 993, ea_TLS = True, ea_CreatedAt = le_now E, ea_LastSyncTime = le_now E,
      ea_MonitoredFolders = [''INBOX''], ea_AuthType = []\<rparr>"

definition fnOAuthPasteToken :: "login_env \<Rightarrow> command_event \<Rightarrow> login_world \<Rightarrow> gostring \<times> login_world" where
  "fnOAuthPasteToken E ev w =
     (if length (cm_args ev) < 3 then (''Usage: `!matrimail oauth paste-token <email> <refresh_token>`'' @ bytes [10, 10] @
     ''Get a refresh token by running the OAuth authorization flow on a machine that'' @ bytes [10] @
     ''has a browser and can reach a loopback port. matrimail uses the standard'' @ bytes [10] @
     ''Google '' @ bytes [34] @ ''Desktop app'' @ bytes [34] @
     '' client; any tool that does authorization-code + PKCE'' @ bytes [10] @
     ''against your gmail_oauth.client_id will produce a compatible refresh token'' @ bytes [10] @
     ''(e.g. `oauth2l`, `mutt_oauth2.py`, etc.).'' @ bytes [10, 10] @
     ''The token will be validated against Google before being stored.'', w)
      else
        let emailAddr = trim_space (cm_args ev ! 1); refreshToken = trim_space (cm_args ev ! 2) in
        if emailAddr = [] \<or> refreshToken = [] then (bytes [226, 157, 140] @ '' Email and refresh token are both required.'', w)
        else if no_oauth_config (le_oauth E) then (bytes [226, 157, 140] @
     '' `gmail_oauth.client_id` / `client_secret` are not configured on this bridge. Ask your admin to set them in `config.yaml`.'', w)
        else case ExchangeRefreshToken (le_google E) (le_oauth E) refreshToken of
          Inl e \<Rightarrow> (bytes [226, 157, 140] @ '' Refresh token validation failed: '' @ error_text e @ bytes [10, 10] @
     ''Double-check that the token was issued by the same `client_id` configured on this bridge, and that the user hasn'' @
     bytes [39] @ ''t revoked matrimail'' @ bytes [39] @ ''s access.'', w)
        | Inr tok \<Rightarrow>
            (case le_service E of
               Some e \<Rightarrow> (bytes [226, 157, 140] @ '' Could not construct Gmail client: '' @ error_text e, w)
             | None \<Rightarrow>
                 (case le_profile E tok of
                    Inl e \<Rightarrow> (bytes [226, 157, 140] @ '' Gmail profile lookup failed: '' @ error_text e, w)
                  | Inr address \<Rightarrow>
                      if \<not> equal_fold address emailAddr
                      then (bytes [226, 157, 140] @ '' Authorized account is **'' @ address @
     ''**, not the email you specified (**'' @ emailAddr @ ''**). Aborting.'', w)
                      else
                        (case UpsertAccount (le_store E) (le_upsert_db E) (le_nonce E) (pasted_account E emailAddr) (lw_table w) of
                           (Some e, t) \<Rightarrow> (bytes [226, 157, 140] @ '' Failed to create account row: '' @ error_text e, w\<lparr>lw_table := t\<rparr>)
                         | (None, t) \<Rightarrow>
                             (let scopeMode = EffectiveDefaultScopeMode (le_oauth E) in
                              case SaveOAuthTokenWithScope (le_store E) (le_token_db E) (le_token_nonces E) (le_now E)
                                     (le_user E, emailAddr) OAuthProviderGoogle scopeMode (Some tok) t of
                                (Some e, t1) \<Rightarrow> (bytes [226, 157, 140] @ '' Failed to persist OAuth token: '' @ error_text e, w\<lparr>lw_table := t1\<rparr>)
                              | (None, t1) \<Rightarrow> (bytes [226, 156, 133] @ '' **Account registered:** '' @ emailAddr @ '' (scope_mode='' @
     scopeMode @ '')'' @ bytes [10, 10] @
     ''Run `!matrimail status` to confirm the bridge picked up the new account.'', w\<lparr>lw_table := t1\<rparr>))))))"

text \<open>Revoking works on the account table and the pollers.\<close>

definition fnOAuthRevoke ::
  "store_env \<Rightarrow> query_result \<Rightarrow> go_error option \<Rightarrow> google \<Rightarrow> command_event \<Rightarrow> 'w client_world \<Rightarrow> gostring \<times> 'w client_world" where
  "fnOAuthRevoke S q db g ev w =
     (if length (cm_args ev) < 2 then (''Usage: `!matrimail oauth revoke <email>`'', w)
      else
        let emailAddr = trim_space (cm_args ev ! 1); k = (cm_user ev, emailAddr) in
        if emailAddr = [] then (bytes [226, 157, 140] @ '' Email is required.'', w)
        else case GetOAuthAccount S q k (cw_table w) of
          Inl e \<Rightarrow> (bytes [226, 157, 140] @ '' Failed to load account: '' @ error_text e, w)
        | Inr info \<Rightarrow>
            (case Option.bind info oi_Token of
               None \<Rightarrow> (bytes [226, 157, 140] @ '' No OAuth account found for **'' @ emailAddr @ ''**.'', w)
             | Some tok \<Rightarrow>
                 (let revoked = RevokeToken g (tok_Refresh tok) in
                  case MarkAccountNeedsReauth db k (cw_table w) of
                    (Some e, t) \<Rightarrow> (bytes [226, 154, 160, 239, 184, 143] @ '' Token revoked at Google but local flag failed: '' @
     error_text e, w\<lparr>cw_table := t\<rparr>)
                  | (None, t) \<Rightarrow>
                      (bytes [240, 159, 148, 144] @ '' **OAuth access revoked for '' @ emailAddr @ ''.**'' @
     bytes [10, 10] @ ''The refresh token has been invalidated at Google and the account is paused'' @
     bytes [10] @ ''locally. To use this account again, run `!matrimail login`. To delete it'' @
     bytes [10] @ ''entirely, run `!matrimail logout '' @ emailAddr @ ''`.'',
                       w\<lparr>cw_table := t, cw_pollers := inbound_Stop (cm_user ev) emailAddr (cw_pollers w)\<rparr>))))"

definition oauth_help :: gostring where
  "oauth_help = ''**!matrimail oauth '' @ bytes [226, 128, 148] @ '' subcommands**'' @ bytes [10, 10] @
     ''- `!matrimail oauth paste-code <redirect-url>` '' @ bytes [226, 128, 148] @
     '' finish a headless'' @ bytes [10] @
     ''  OAuth login by pasting the URL your browser was redirected to (the page'' @ bytes [10] @
     ''  that failed to load with '' @ bytes [34] @ ''can'' @ bytes [39] @
     ''t connect to 127.0.0.1:NNNN'' @ bytes [34] @ '').'' @ bytes [10] @
     ''- `!matrimail oauth paste-token <email> <refresh_token>` '' @ bytes [226, 128, 148] @
     '' register'' @ bytes [10] @
     ''  an account using a refresh token you obtained out-of-band on another'' @ bytes [10] @
     ''  machine. Token is validated against Google before being stored.'' @ bytes [10] @
     ''- `!matrimail oauth revoke <email>` '' @ bytes [226, 128, 148] @ '' revoke matrimail'' @
     bytes [39] @ ''s access at'' @ bytes [10] @
     ''  Google and clear the local OAuth state for the account.''"

datatype oauth_command = OAuthHelp | PasteCode | PasteToken | RevokeAccess | OAuthUnknown gostring

definition fnOAuth :: "gostring list \<Rightarrow> oauth_command" where
  "fnOAuth args =
     (case args of
        [] \<Rightarrow> OAuthHelp
      | a # _ \<Rightarrow>
          (let sub = to_lower a in
           if sub = ''paste-code'' \<or> sub = ''code'' then PasteCode
           else if sub = ''paste-token'' \<or> sub = ''paste'' then PasteToken
           else if sub = ''revoke'' then RevokeAccess
           else OAuthUnknown sub))"

subsection \<open>The passphrase\<close>

definition yes_no :: "gostring \<Rightarrow> gostring \<Rightarrow> bool \<Rightarrow> gostring" where
  "yes_no yes no b = (if b then yes else no)"

definition passphrase_status :: "host_env \<Rightarrow> files \<Rightarrow> gostring" where
  "passphrase_status env fs =
     (case getPassphraseFilePath env of
        Inl e \<Rightarrow> bytes [226, 157, 140] @ '' Failed to get passphrase file path: '' @ error_text e
      | Inr path \<Rightarrow>
          bytes [240, 159, 148, 144] @ '' **Encryption Passphrase Status**'' @ bytes [10, 10] @
     ''**Environment Variable:** '' @ yes_no (bytes [226, 156, 133] @
     '' Set'') (bytes [226, 157, 140] @ '' Not set'') (trim_space (passphrase_env env) \<noteq> []) @
     bytes [10] @ ''**Passphrase File:** '' @ yes_no (bytes [226, 156, 133] @
     '' Exists'') (bytes [226, 157, 140] @ '' Not found'') (fs path \<noteq> None) @ bytes [10] @
     ''**File Location:** '' @ path @ bytes [10, 10] @ ''**Usage:**'' @ bytes [10, 226, 128, 162] @
     '' `!matrimail passphrase generate` - Generate new secure passphrase'' @
     bytes [10, 226, 128, 162] @
     '' `!matrimail passphrase show-location` - Show passphrase file path  '' @
     bytes [10, 226, 128, 162] @
     '' `!matrimail passphrase set <passphrase>` - Set custom passphrase'' @ bytes [10, 10] @
     ''**Security Note:** Your email passwords are encrypted using this passphrase. Matrimail automatically generates one if neither environment variable nor file exists.'')"

definition passphrase_generate :: "crypto \<Rightarrow> host_env \<Rightarrow> host_io \<Rightarrow> files \<Rightarrow> gostring \<times> files" where
  "passphrase_generate c env io fs =
     (case generateAndStorePassphrase c env io fs of
        (Inl e, fs1) \<Rightarrow> (bytes [226, 157, 140] @ '' Failed to generate passphrase: '' @ error_text e, fs1)
      | (Inr p, fs1) \<Rightarrow>
          (let path = (case getPassphraseFilePath env of Inr x \<Rightarrow> x | Inl e \<Rightarrow> [])
           in (bytes [226, 156, 133] @ '' **New secure passphrase generated!**'' @ bytes [10, 10] @
     ''**Passphrase:** `'' @ p @ ''`'' @ bytes [10] @ ''**Stored at:** '' @ path @ bytes [10] @
     ''**Permissions:** 0600 (owner read/write only)'' @ bytes [10, 10, 226, 154, 160, 239, 184, 143] @
     '' **Important:** This passphrase encrypts your email passwords. Keep it secure!'' @
     bytes [10, 10] @ ''**Next Steps:**'' @ bytes [10, 226, 128, 162] @
     '' Your existing email accounts will continue to work'' @ bytes [10, 226, 128, 162] @
     '' New logins will use this passphrase for encryption'' @ bytes [10, 226, 128, 162] @
     '' You can also set MATRIMAIL_PASSPHRASE environment variable for production use'', fs1)))"

definition passphrase_location :: "host_env \<Rightarrow> files \<Rightarrow> gostring" where
  "passphrase_location env fs =
     (case getPassphraseFilePath env of
        Inl e \<Rightarrow> bytes [226, 157, 140] @ '' Failed to get passphrase file path: '' @ error_text e
      | Inr path \<Rightarrow> bytes [240, 159, 147, 141] @ '' **Passphrase File Location**'' @ bytes [10, 10] @ ''**Path:** '' @
     path @ bytes [10] @ ''**Status:** '' @ yes_no (bytes [226, 156, 133] @
     '' File exists'') (bytes [226, 157, 140] @ '' File not found'') (fs path \<noteq> None) @
     bytes [10, 10] @ ''**Platform-specific locations:**'' @ bytes [10, 226, 128, 162] @
     '' **Linux:** ~/.config/matrimail/passphrase'' @ bytes [10, 226, 128, 162] @
     '' **macOS:** ~/Library/Application Support/Matrimail/passphrase'' @ bytes [10, 226, 128, 162] @
     '' **Windows:** %APPDATA%'' @ bytes [92] @ ''Roaming'' @ bytes [92] @ ''Matrimail'' @ bytes [92] @
     ''passphrase'' @ bytes [10, 10] @
     ''You can also set the MATRIMAIL_PASSPHRASE environment variable instead of using a file.'')"

definition passphrase_set :: "host_env \<Rightarrow> host_io \<Rightarrow> gostring list \<Rightarrow> files \<Rightarrow> gostring \<times> files" where
  "passphrase_set env io args fs =
     (if length args < 2 then (bytes [226, 157, 140] @ '' Missing passphrase argument.'' @ bytes [10, 10] @
     ''**Usage:** `!matrimail passphrase set <your-passphrase>`'', fs)
      else
        let passphrase = join_with '' '' (tl args) in
        if length passphrase < 8 then (bytes [226, 157, 140] @ '' Passphrase must be at least 8 characters long for security.'', fs)
        else case getPassphraseFilePath env of
          Inl e \<Rightarrow> (bytes [226, 157, 140] @ '' Failed to get passphrase file path: '' @ error_text e, fs)
        | Inr path \<Rightarrow>
            (case mkdir_fails io (path_dir path) of
               Some e \<Rightarrow> (bytes [226, 157, 140] @ '' Failed to create config directory: '' @ error_text e, fs)
             | None \<Rightarrow>
                 (case write_fails io path of
                    Some e \<Rightarrow> (bytes [226, 157, 140] @ '' Failed to write passphrase file: '' @ error_text e, fs)
                  | None \<Rightarrow> (bytes [226, 156, 133] @ '' **Custom passphrase set successfully!**'' @ bytes [10, 10] @
     ''**Stored at:** '' @ path @ bytes [10] @ ''**Permissions:** 0600 (owner read/write only)'' @
     bytes [10, 10, 226, 154, 160, 239, 184, 143] @ '' **Important:** '' @ bytes [10, 226, 128, 162] @
     '' This passphrase now encrypts your email passwords'' @ bytes [10, 226, 128, 162] @
     '' Existing email accounts will continue to work'' @ bytes [10, 226, 128, 162] @
     '' Make sure to remember this passphrase or store it securely'' @ bytes [10, 226, 128, 162] @
     '' You can override this by setting MATRIMAIL_PASSPHRASE environment variable'', fs(path \<mapsto> passphrase)))))"

definition fnPassphrase :: "crypto \<Rightarrow> host_env \<Rightarrow> host_io \<Rightarrow> command_event \<Rightarrow> files \<Rightarrow> gostring \<times> files" where
  "fnPassphrase c env io ev fs =
     (case cm_args ev of
        [] \<Rightarrow> (passphrase_status env fs, fs)
      | a # _ \<Rightarrow>
          (let command = to_lower a in
           if command = ''generate'' then passphrase_generate c env io fs
           else if command = ''show-location'' then (passphrase_location env fs, fs)
           else if command = ''set'' then passphrase_set env io (cm_args ev) fs
           else (bytes [226, 157, 140] @ '' Unknown command: '' @ command @ bytes [10, 10] @
     ''**Available commands:**'' @ bytes [10, 226, 128, 162] @
     '' `generate` - Generate new secure passphrase'' @ bytes [10, 226, 128, 162] @
     '' `show-location` - Show passphrase file location'' @ bytes [10, 226, 128, 162] @
     '' `set <passphrase>` - Set custom passphrase'', fs)))"

end
