(* ===== verification/CommandFacts.thy ===== *)
theory CommandFacts
  imports CommandFlows LoginFacts ClientFacts
begin

text \<open>
  What the chat commands do.  The text form of the login offers the folders and forgets the process;
  a new passphrase leaves the running bridge with the old key; a revoked account is paused; a sync of
  all accounts answers whatever the servers do and names every login once.
\<close>

subsection \<open>The text form of the login\<close>

lemma credentials_offer:
  assumes offer: "\<And>p en s. testIMAPConnectionAndKeep E p = Worked (en, s) \<Longrightarrow>
      \<exists>f fs. ListFolders (le_sort E) (le_listing E en) s = Inr (f # fs)"
  shows "snd (snd (handleCredentials E input p w)) = w"
proof -
  have c: "snd (snd (connected_step E q en s w)) = w" if "testIMAPConnectionAndKeep E q = Worked (en, s)" for q en s
    using offer [OF that] by (auto simp: connected_step_def offer_folders_def)
  show ?thesis
    unfolding handleCredentials_def Let_def by (auto split: attempt.split prod.split simp: c)
qed

lemma new_login_fields [simp]: "lp_flowID (new_login flow) = flow" "lp_step (new_login flow) = []"
  by (simp_all add: new_login_def)

lemma submit_password:
  assumes "lp_flowID p = LoginFlowIDPassword" and "lp_step p = []"
  shows "SubmitUserInput E ready input p w = handleCredentials E input p w"
  using assms flow_ids by (simp add: SubmitUserInput_def)

lemma processTextLogin_world:
  assumes "\<And>input p. snd (snd (handleCredentials E input p w)) = w"
  shows "snd (processTextLogin E ready email password w) = w"
proof -
  have sub: "snd (snd (SubmitUserInput E ready input ((new_login LoginFlowIDPassword)\<lparr>lp_email := e, lp_username := e, lp_password := pw\<rparr>) w)) = w"
    for input e pw
    using assms by (simp add: submit_password)
  have p: "CreateLogin cfg ''email-password'' = Inr (new_login LoginFlowIDPassword)" for cfg
    using flow_ids by (simp add: CreateLogin_def LoginFlowIDPassword_def)
  show ?thesis
    unfolding processTextLogin_def p sum.case Let_def
    by (auto split: login_result.split prod.split dest: arg_cong [where f = "snd \<circ> snd"] simp: sub)
qed

lemma tested_connected:
  assumes "testIMAPConnectionAndKeep E p = Worked (en, s)"
  shows "connected_inbox (box s) \<and> client_inbox (box s)"
proof -
  obtain err s' where "Connect (le_net E en)
      (fresh_conn (le_backfillSeconds E) (le_backfillMax E) (le_clock E) ()) = Done err s' \<and>
      (err = None \<longrightarrow> connected_inbox (box s') \<and> client_inbox (box s'))"
    using Connect_fresh [of "le_net E en" "le_backfillSeconds E" "le_backfillMax E" "le_clock E" "()"] by blast
  with assms show ?thesis
    by (auto simp: testIMAPConnectionAndKeep_def split: option.splits outcome.splits)
qed


definition listing_env :: login_env where
  "listing_env = sample_login_env\<lparr>le_listing := (\<lambda>_. Inr [(''INBOX'', [])])\<rparr>"


subsection \<open>A new passphrase\<close>

text \<open>What a start reads after the passphrase file has been written again.\<close>

lemma new_passphrase_read:
  assumes "trim_space (passphrase_env env) = []" and "getPassphraseFilePath env = Inr path" and "trim_space v \<noteq> []"
  shows "choose_passphrase c env io (fs(path \<mapsto> v)) = (Inr (trim_space v), fs(path \<mapsto> v))"
  unfolding choose_passphrase_def assms(1) Let_def using assms(2,3) by (simp add: readPassphraseFile_def)

lemma salt_kept:
  assumes "\<And>io. getSalt c env io fs = (Inr s, fs)" and "getPassphraseFilePath env = Inr path"
  shows "getSalt c env io' (fs(path \<mapsto> v)) = (Inr s, fs(path \<mapsto> v))"
proof -
  obtain cwd where cwd: "working_dir env = Inr cwd" and path: "path = path_join [cwd, ''data'', ''passphrase'']"
    using assms(2) by (auto simp: getPassphraseFilePath_def split: sum.splits)
  have "stored_salt c (fs (path_join [path_join [cwd, ''data''], ''matrimail.salt''])) = Some s"
    using assms(1) [of "\<lparr>rand_pass = Inl no_such_file, rand_salt = Inl no_such_file, mkdir_fails = (\<lambda>_. None), write_fails = (\<lambda>_. None)\<rparr>"]
    by (simp add: getSalt_def cwd Let_def split: option.splits)
  then show ?thesis
    using salt_path_apart(1) [of "path_join [cwd, ''data'']" cwd "''data''"] by (simp add: getSalt_def cwd path Let_def)
qed

lemma new_passphrase_key:
  assumes "crypto_laws c" and "io_laws io" and first: "getDBKey c env io (None, fs) = (Inr k, st, fs')"
    and env: "trim_space (passphrase_env env) = []" and path: "getPassphraseFilePath env = Inr path" and v: "trim_space v \<noteq> []"
  shows "\<exists>p salt. k = pbkdf2 c p salt \<and> getDBKey c env io' (st, fs'(path \<mapsto> v)) = (Inr k, st, fs'(path \<mapsto> v)) \<and>
    fst (getDBKey c env io' (None, fs'(path \<mapsto> v))) = Inr (pbkdf2 c (trim_space v) salt)"
proof -
  obtain p fs1 salt where "choose_passphrase c env io fs = (Inr p, fs1)"
    and sl: "getSalt c env io fs1 = (Inr salt, fs')" and k: "k = pbkdf2 c p salt" "st = Some (Inr k)"
    using first by (auto simp: getDBKey_def derive_key_def checked_key_def split: prod.splits sum.splits if_splits)
  have "getSalt c env io' (fs'(path \<mapsto> v)) = (Inr salt, fs'(path \<mapsto> v))"
    by (rule salt_kept [OF getSalt_stored(1) [OF assms(1,2) sl] path])
  then have "derive_key c env io' (fs'(path \<mapsto> v)) = (Inr (pbkdf2 c (trim_space v) salt), fs'(path \<mapsto> v))"
    using new_passphrase_read [OF env path v] by (simp add: derive_key_def)
  then show ?thesis
    using k crypto_lawsD(5) [OF assms(1)] by (intro exI [of _ p] exI [of _ salt]) (simp add: getDBKey_def checked_key_def)
qed

lemma fnPassphrase_files:
  assumes "fnPassphrase c env io ev fs = (reply, fs')" and "getPassphraseFilePath env = Inr path"
  shows "fs' = fs \<or> (\<exists>v. fs' = fs(path \<mapsto> v))"
proof -
  have "snd (passphrase_generate c env io fs) = fs \<or> (\<exists>v. snd (passphrase_generate c env io fs) = fs(path \<mapsto> v))"
    using assms(2) by (auto simp: passphrase_generate_def generateAndStorePassphrase_def write_under_def
        split: sum.split option.split)
  moreover have "snd (passphrase_set env io args fs) = fs \<or> (\<exists>v. snd (passphrase_set env io args fs) = fs(path \<mapsto> v))" for args
    unfolding passphrase_set_def using assms(2) by (auto simp: Let_def split: option.split)
  moreover have "fs' = snd (fnPassphrase c env io ev fs)" by (simp add: assms(1))
  ultimately show ?thesis
    by (auto simp: fnPassphrase_def Let_def split: list.split)
qed



subsection \<open>The interactive form of the login\<close>

type_synonym chat_message =
  "(input_field \<Rightarrow> gostring \<Rightarrow> go_error + gostring) \<times> login_env \<times> wait_choice \<times> gostring"

definition login_front :: "chat_message \<Rightarrow> login_session \<Rightarrow> login_session option" where
  "login_front m s = (case m of (validate, E, ready, raw) \<Rightarrow>
     (case login_message validate E ready raw s of Worked s' \<Rightarrow> Some s' | _ \<Rightarrow> None))"

definition login_core :: "login_session \<Rightarrow> login_proc \<times> login_world" where
  "login_core s = (se_proc s, se_world s)"

definition submits :: "chat_message \<Rightarrow> login_env \<times> wait_choice \<times> (gostring \<rightharpoonup> gostring) \<Rightarrow> bool" where
  "submits m e \<longleftrightarrow> fst e = fst (snd m)"

lemma say_core [simp]: "login_core (say msg s) = login_core s"
  by (simp add: login_core_def say_def)

lemma pending_core [simp]: "login_core (s\<lparr>se_pending := x\<rparr>) = login_core s" "login_core (s\<lparr>se_redacted := n\<rparr>) = login_core s"
  by (simp_all add: login_core_def)

lemma ask_core [simp]: "login_core (ask_next flds data s) = login_core s"
  by (simp add: ask_next_def split: prod.split)

lemma dispatch_core [simp]: "login_core (dispatchLoginStep step s) = login_core s"
  by (simp add: dispatchLoginStep_def Let_def split: step_type.split)

lemma submit_step_core:
  assumes "submit_step E ready data s = Worked s'"
  shows "login_core s' = fst (login_step_fun (E, ready, data) (login_core s))"
proof -
  obtain res p w where sub: "SubmitUserInput E ready data (se_proc s) (se_world s) = (res, p, w)"
    by (metis surj_pair)
  have core: "login_core (s\<lparr>se_proc := p, se_world := w\<rparr>) = (p, w)" by (simp add: login_core_def)
  have "login_core s' = (p, w)"
    using assms sub core by (cases res) (auto simp: submit_step_def)
  then show ?thesis using sub by (simp add: login_step_fun_def login_core_def)
qed

interpretation chat: front_end login_step_fun login_front login_core submits
proof
  fix m s s'
  assume "login_front m s = Some s'"
  moreover obtain validate E ready raw where m: "m = (validate, E, ready, raw)" by (metis surj_pair)
  ultimately have w: "login_message validate E ready raw s = Worked s'"
    by (auto simp: login_front_def split: attempt.splits)
  show "login_core s' = login_core s \<or> (\<exists>e. submits m e \<and> login_core s' = fst (login_step_fun e (login_core s)))"
  proof (cases "\<exists>data s1. submit_step E ready data s1 = Worked s' \<and> login_core s1 = login_core s")
    case True
    then obtain data s1 where "submit_step E ready data s1 = Worked s'" and c: "login_core s1 = login_core s" by blast
    then have "login_core s' = fst (login_step_fun (E, ready, data) (login_core s))"
      using submit_step_core by metis
    then show ?thesis by (auto simp: submits_def m)
  next
    case False
    then have no: "submit_step E ready data s1 = Worked s' \<Longrightarrow> login_core s1 \<noteq> login_core s" for data s1 by blast
    have "login_core s' = login_core s"
      using w unfolding login_message_def Let_def
      by (auto dest!: no split: command_state.splits list.splits sum.splits prod.splits if_splits)
    then show ?thesis ..
  qed
qed

lemma row_backed_mono: "row_backed Es k r \<Longrightarrow> Es \<subseteq> Fs \<Longrightarrow> row_backed Fs k r"
  by (meson row_backed_def subsetD)

lemma login_backed_mono: "login_backed Es x \<Longrightarrow> Es \<subseteq> Fs \<Longrightarrow> login_backed Fs x"
  by (meson login_backed_def subsetD)

lemma start_session_core:
  assumes "no_oauth_config (le_oauth E)" and "start_session E w = Inr s"
  shows "login_core s = (new_login LoginFlowIDPassword, w)"
proof -
  have "pickInteractiveLoginFlow (le_oauth E) = LoginFlowIDPassword"
    using assms(1) by (auto simp: pickInteractiveLoginFlow_def no_oauth_config_def)
  moreover have "LoginFlowIDPassword \<noteq> []" by (simp add: LoginFlowIDPassword_def)
  ultimately have "CreateLogin (le_oauth E) (pickInteractiveLoginFlow (le_oauth E)) = Inr (new_login LoginFlowIDPassword)"
    using flow_ids by (simp add: CreateLogin_def)
  then have "s = dispatchLoginStep (login_Start E (new_login LoginFlowIDPassword))
      \<lparr>se_flow = pickInteractiveLoginFlow (le_oauth E), se_proc = new_login LoginFlowIDPassword, se_pending = NoCommand,
       se_said = [], se_redacted = 0, se_world = w\<rparr>"
    using assms(2) by (simp add: start_session_def Let_def)
  then show ?thesis by (simp add: login_core_def [of "login_session_ext _ _ _ _ _ _ _"])
qed


definition password_bridge :: login_env where
  "password_bridge = sample_login_env\<lparr>le_oauth := sample_oauth\<lparr>oc_client_id := []\<rparr>\<rparr>"


subsection \<open>Revoking and logging out\<close>

text \<open>
  C36: after a revoke that the database took, the account has no entry among the pollers, and a client
  loaded from its row has no IMAP connection, no sender and no poller, whether or not Google accepted
  the revocation.
\<close>

theorem revoked_account_is_paused:
  assumes args: "cm_args ev = sub # arg # rest" and k: "k = (cm_user ev, trim_space arg)" and "snd k \<noteq> []"
    and row: "GetOAuthAccount S QueryWorks k (cw_table w) = Inr (Some info)" "oi_Token info \<noteq> None"
    and revoke: "fnOAuthRevoke S QueryWorks None g ev w = (reply, w')"
    and load: "ce_read E = (\<lambda>_. QueryWorks)" "LoadUserLogin E login w' = Worked (c, w2)" "account_of c = k"
  shows "gi_runners (cw_pollers w') (runner_key (fst k) (snd k)) = None \<and>
    cl_IMAP c = None \<and> cl_Sender c = None \<and> \<not> cl_GmailAPIInbound c \<and> cw_pollers w2 = cw_pollers w'"
proof -
  obtain tok where tok: "oi_Token info = Some tok" using row(2) by blast
  have w': "w' = w\<lparr>cw_table := update_row k (ar_auth_type_update (\<lambda>_. AuthTypeOAuthGmailNeedsReauth)) (cw_table w),
      cw_pollers := inbound_Stop (fst k) (snd k) (cw_pollers w)\<rparr>"
    using revoke row(1) tok \<open>snd k \<noteq> []\<close>
    by (auto simp: fnOAuthRevoke_def args k Let_def MarkAccountNeedsReauth_def SetAuthType_def exec_def)
  obtain r where r: "map_of (cw_table w) k = Some r"
    using row(1) by (auto simp: GetOAuthAccount_def split: option.splits)
  let ?r = "r\<lparr>ar_auth_type := AuthTypeOAuthGmailNeedsReauth\<rparr>"
  have "map_of (cw_table w') (account_of c) = Some ?r" by (simp add: w' r load(3))
  moreover have "way_in_of ?r = Paused" by (simp add: way_in_of_def is_oauth_def)
  moreover have "gi_runners (cw_pollers w') (runner_key (fst k) (snd k)) = None"
    by (simp add: w' inbound_Stop_def Let_def stop_poller_def split: option.split)
  ultimately show ?thesis using loaded_account [OF load(1,2)] by fastforce
qed

text \<open>A logout answers that it succeeded also when the row could not be deleted, and the account stays.\<close>

theorem logout_reports_success:
  assumes "cm_args ev = addr # rest" and "find_account addr (kw_logins w) = Some (i, c)"
    and "db i = Some e" and "fnLogout db env ev w = Done () w'"
  shows "last (kw_replies w') = bytes [226, 156, 133] @ '' Successfully disconnected from **'' @ addr @ ''**'' \<and>
    cw_table (kw_world w') = cw_table (kw_world w)"
proof -
  have ne: "kw_logins w \<noteq> []" using assms(2) by (auto simp: find_account_def first_index_def)
  obtain w1 u b where l: "on_login i (LogoutRemote (Some e) (env i)) c (Reply u w) = Done b w1"
    and w': "w' = Reply (bytes [226, 156, 133] @ '' Successfully disconnected from **'' @ addr @ ''**'') w1"
    using assms ne by (auto simp: fnLogout_def Let_def elim!: and_then_Done)
  have "cw_table (kw_world w1) = cw_table (kw_world w)"
    using l by (auto simp: on_login_def put_client_def Reply_def LogoutRemote_def DeleteAccount_def exec_def
        elim!: and_then_Done dest!: client_Disconnect_fields split: outcome.splits)
  then show ?thesis by (simp add: w' Reply_def)
qed

theorem revoked_account_is_paused_witness:
  "\<exists>r reply w' c w2. fnOAuthRevoke sample_store QueryWorks None sample_google \<lparr>cm_user = ''@u'', cm_args = [''revoke'', ''u@x''], cm_raw = ''''\<rparr>
       (world_with [((''@u'', ''u@x''), r)]) = (reply, w') \<and>
     LoadUserLogin sample_client_env sample_login w' = Worked (c, w2) \<and> cl_IMAP c = None \<and> cl_Sender c = None"
proof -
  let ?k = "(''@u'', ''u@x'')" and ?ev = "\<lparr>cm_user = ''@u'', cm_args = [''revoke'', ''u@x''], cm_raw = ''''\<rparr>"
  obtain ct where ct: "decrypt sample_store ct = Inr ''pw''" "ct \<noteq> []"
    using encrypt_works [OF sample_store_laws sample_nonce_read] by metis
  let ?r = "(new_row sample_account ct [])\<lparr>ar_auth_type := AuthTypeOAuthGmail, ar_refresh := Some ct, ar_access := None\<rparr>"
  let ?w = "world_with [(?k, ?r)]"
  have "is_oauth AuthTypeOAuthGmail" by (simp add: is_oauth_def)
  then obtain info where info: "GetOAuthAccount sample_store QueryWorks ?k (cw_table ?w) = Inr (Some info)" "oi_Token info \<noteq> None"
    using ct by (simp add: GetOAuthAccount_def world_with_def stored_token_def Let_def coalesce_def)
  obtain reply w' where rev: "fnOAuthRevoke sample_store QueryWorks None sample_google ?ev ?w = (reply, w')" by fastforce
  have w': "cw_table w' = update_row ?k (ar_auth_type_update (\<lambda>_. AuthTypeOAuthGmailNeedsReauth)) (cw_table ?w)"
    using rev info
    by (auto simp: fnOAuthRevoke_def trim_plain Let_def MarkAccountNeedsReauth_def SetAuthType_def exec_def)
  have "map_of (cw_table w') ?k = Some (?r\<lparr>ar_auth_type := AuthTypeOAuthGmailNeedsReauth\<rparr>)"
    by (simp add: w' world_with_def update_row_def)
  moreover have "decrypt sample_store (ar_password ?r) = Inr ''pw''" using ct by (simp add: new_row_def)
  ultimately obtain c w2 where c: "LoadUserLogin sample_client_env sample_login w' = Worked (c, w2)" "account_of c = ?k"
    using paused_loads [of "cw_table w'" _ w'] by fastforce
  have k: "?k = (cm_user ?ev, trim_space ''u@x'')" by (simp add: trim_plain)
  have "cl_IMAP c = None \<and> cl_Sender c = None"
    using revoked_account_is_paused [OF _ k _ info rev sample_env_fields(1) c] by simp
  with rev c(1) show ?thesis by blast
qed

end
