(* ===== verification/Rooms.thy ===== *)
theory Rooms
  imports SendFlow
begin

text \<open>
  The room of an email thread: its name, members and power levels (\<open>pkg/matrix/room_manager.go\<close>), the
  room information and the ghosts' names (\<open>GetChatInfo\<close>, \<open>GetUserInfo\<close> of \<open>connector.go\<close>).  The member
  map is an association list without double keys; the key of the Matrix user is empty.
\<close>

subsection \<open>The name\<close>

definition name_prefixes :: "gostring list" where
  "name_prefixes = [''Re: '', ''RE: '', ''Fwd: '', ''FWD: '', ''Fw: '', ''FW: '']"

definition subject_prefix :: "gostring \<Rightarrow> gostring option" where
  "subject_prefix subject = find (has_prefix subject) name_prefixes"

lemma subject_prefix_length:
  assumes "subject_prefix s = Some p" shows "p \<noteq> [] \<and> length p \<le> length s"
proof -
  have "has_prefix s p \<and> p \<in> set name_prefixes"
    using assms by (auto simp: subject_prefix_def find_Some_iff)
  then show ?thesis using has_prefix_length by (auto simp: name_prefixes_def)
qed

function strip_prefixes :: "gostring \<Rightarrow> gostring" where
  "strip_prefixes subject =
     (case subject_prefix subject of
        None \<Rightarrow> subject
      | Some p \<Rightarrow> strip_prefixes (trim_space (drop (length p) subject)))"
  by pat_completeness auto

termination
proof (relation "measure length")
  fix s p assume "subject_prefix s = Some p"
  then have "p \<noteq> []" "length p \<le> length s" using subject_prefix_length by blast+
  then have "length (drop (length p) s) < length s" by (cases p) auto
  then show "(trim_space (drop (length p) s), s) \<in> measure length"
    using length_trim_space [of "drop (length p) s"] by simp
qed simp

declare strip_prefixes.simps [simp del]

definition formatRoomName :: "gostring \<Rightarrow> gostring" where
  "formatRoomName subject =
     (let s = strip_prefixes (trim_space subject);
          s1 = (if length s > 80 then take 77 s @ ''...'' else s)
      in if s1 = [] then ''Email Thread'' else s1)"

subsection \<open>Members and power levels\<close>

text \<open>A member without a power level of its own has the default level of a user, zero.\<close>

record chat_member =
  mb_IsFromMe :: bool
  mb_Sender :: gostring
  mb_PowerLevel :: "int option"

record power_levels =
  pl_EventsDefault :: int
  pl_StateDefault :: int
  pl_Ban :: int
  pl_Kick :: int
  pl_Invite :: int
  pl_Redact :: int
  pl_Events :: "(gostring \<times> int) list"

definition BuildReadOnlyPowerLevels :: power_levels where
  "BuildReadOnlyPowerLevels = \<lparr>pl_EventsDefault = 0, pl_StateDefault = 101, pl_Ban = 101, pl_Kick = 101,
     pl_Invite = 101, pl_Redact = 101,
     pl_Events = [(''m.room.name'', 101), (''m.room.topic'', 101), (''m.room.avatar'', 101),
       (''m.room.message'', 101), (''m.reaction'', 101), (''m.room.redaction'', 101)]\<rparr>"

record chat_info =
  ri_Name :: gostring
  ri_Topic :: gostring
  ri_Members :: "chat_member list"
  ri_MemberMap :: "(gostring \<times> chat_member) list"
  ri_PowerLevels :: "power_levels option"
  ri_LowPriority :: bool
  ri_CanBackfill :: bool

definition own_member :: chat_member where
  "own_member = \<lparr>mb_IsFromMe = True, mb_Sender = [], mb_PowerLevel = None\<rparr>"

definition ghost_member :: "gostring \<Rightarrow> chat_member" where
  "ghost_member g = \<lparr>mb_IsFromMe = False, mb_Sender = g, mb_PowerLevel = Some 0\<rparr>"

definition clean_addr :: "gostring \<Rightarrow> gostring" where
  "clean_addr a = to_lower (trim_space a)"

text \<open>The participants and the monitored address, each once, without empty ones.\<close>

definition room_addresses :: "gostring \<Rightarrow> email_thread \<Rightarrow> gostring list" where
  "room_addresses login th =
     remdups (filter (\<lambda>a. a \<noteq> []) (map clean_addr (Participants th) @ [clean_addr (trim_prefix login ''email:'')]))"

definition member_map :: "gostring list \<Rightarrow> (gostring \<times> chat_member) list" where
  "member_map addrs =
     fold (\<lambda>a. AList.update (EmailToGhostID a) (ghost_member (EmailToGhostID a))) addrs [([], own_member)]"

definition GetChatInfoForThread :: "gostring \<Rightarrow> email_thread \<Rightarrow> chat_info" where
  "GetChatInfoForThread login th =
     \<lparr>ri_Name = formatRoomName (Subject th), ri_Topic = ''Email thread: '' @ ThreadID th,
      ri_Members = [own_member], ri_MemberMap = member_map (room_addresses login th),
      ri_PowerLevels = Some BuildReadOnlyPowerLevels, ri_LowPriority = True, ri_CanBackfill = True\<rparr>"

definition fallback_info :: "gostring \<Rightarrow> chat_info" where
  "fallback_info threadID =
     \<lparr>ri_Name = ''Email Thread: '' @ threadID,
      ri_Topic = ''Email thread - messages will appear here when emails are received'',
      ri_Members = [], ri_MemberMap = [], ri_PowerLevels = None, ri_LowPriority = True, ri_CanBackfill = False\<rparr>"

definition GetChatInfo ::
  "send_env \<Rightarrow> gostring \<Rightarrow> gostring \<Rightarrow> portal_metadata option \<Rightarrow> thread_manager \<Rightarrow> chat_info \<times> thread_manager" where
  "GetChatInfo env login portal meta tm =
     (case chat_info_thread env login portal meta tm of
        (Some r, tm1) \<Rightarrow> (GetChatInfoForThread login (deref tm1 r), tm1)
      | (None, tm1) \<Rightarrow>
          (fallback_info (if 7 < length portal \<and> take 7 portal = ''thread:'' then drop 7 portal else portal), tm1))"

text \<open>\<open>GetUserInfo\<close>: the name of a ghost, also its only identifier.\<close>

definition GetUserInfo :: "gostring \<Rightarrow> gostring" where
  "GetUserInfo ghost = (if 6 < length ghost \<and> take 6 ghost = ''email:'' then drop 6 ghost else ghost)"

definition MakeUserID :: "gostring \<Rightarrow> gostring" where
  "MakeUserID email = EmailToGhostID email"

subsection \<open>Lemmas\<close>

lemma no_prefix_iff: "subject_prefix s = None \<longleftrightarrow> (\<forall>p\<in>set name_prefixes. \<not> has_prefix s p)"
  by (auto simp: subject_prefix_def find_None_iff)

lemma strip_prefixes_clean: "subject_prefix (strip_prefixes s) = None"
  by (induction s rule: strip_prefixes.induct) (subst strip_prefixes.simps, simp split: option.split)

lemma has_prefix_cut:
  assumes "\<not> has_prefix s p" and "length p \<le> n" and "n \<le> length s"
  shows "\<not> has_prefix (take n s @ t) p"
proof
  assume "has_prefix (take n s @ t) p"
  then obtain r where "take n s @ t = p @ r" by (auto simp only: has_prefix_iff)
  then have "take (length p) (take n s @ t) = p" by (metis append_eq_conv_conj)
  then have "take (length p) s = p" using assms(2,3) by (simp add: min_def)
  then have "s = p @ drop (length p) s" by (metis append_take_drop_id)
  with assms(1) show False by (metis has_prefix_append)
qed

lemma room_name_facts:
  "formatRoomName s \<noteq> [] \<and> length (formatRoomName s) \<le> 80 \<and> subject_prefix (formatRoomName s) = None"
proof -
  let ?s = "strip_prefixes (trim_space s)"
  have clean: "\<not> has_prefix ?s p" if "p \<in> set name_prefixes" for p
    using strip_prefixes_clean no_prefix_iff that by blast
  have short: "length p \<le> 77" if "p \<in> set name_prefixes" for p
    using that by (auto simp: name_prefixes_def)
  have "subject_prefix (take 77 ?s @ ''...'') = None" if "80 < length ?s"
    unfolding no_prefix_iff using has_prefix_cut [OF clean short] that by simp
  moreover have "subject_prefix ''Email Thread'' = None" by code_simp
  ultimately show ?thesis
    using strip_prefixes_clean by (auto simp: formatRoomName_def Let_def)
qed

lemma ghost_id_nonempty: "EmailToGhostID a \<noteq> []"
  by (simp add: EmailToGhostID_def)

lemma member_map_lookup:
  "map_of (member_map addrs) k =
     (if k = [] then Some own_member else if k \<in> EmailToGhostID ` set addrs then Some (ghost_member k) else None)"
proof -
  have "map_of (fold (\<lambda>a. AList.update (EmailToGhostID a) (ghost_member (EmailToGhostID a))) addrs m) k =
     (if k \<in> EmailToGhostID ` set addrs then Some (ghost_member k) else map_of m k)" for m
    by (induction addrs arbitrary: m) (auto simp: update_conv')
  moreover have "[] \<notin> EmailToGhostID ` set addrs" using ghost_id_nonempty [of _] by (metis imageE)
  ultimately show ?thesis by (simp add: member_map_def)
qed

lemma member_map_distinct: "distinct (map fst (member_map addrs))"
proof -
  have "distinct (map fst m) \<Longrightarrow>
      distinct (map fst (fold (\<lambda>a. AList.update (EmailToGhostID a) (ghost_member (EmailToGhostID a))) addrs m))" for m
    by (induction addrs arbitrary: m) (simp_all add: distinct_update)
  then show ?thesis by (simp add: member_map_def)
qed

text \<open>What the rules of a room ask of the sender of an event.\<close>

definition may_send :: "power_levels \<Rightarrow> chat_member \<Rightarrow> gostring \<Rightarrow> bool" where
  "may_send pl m ev \<longleftrightarrow>
     (case map_of (pl_Events pl) ev of None \<Rightarrow> pl_EventsDefault pl | Some n \<Rightarrow> n) \<le>
     (case mb_PowerLevel m of None \<Rightarrow> 0 | Some n \<Rightarrow> n)"


text \<open>The cut at seventy-seven bytes may split a character.\<close>

theorem room_name_splits_rune:
  "formatRoomName (replicate 76 CHR ''x'' @ concat (replicate 3 [CHR 0xC3, CHR 0xA9])) =
     replicate 76 CHR ''x'' @ [CHR 0xC3] @ ''...''"
  by code_simp

end
