(* ===== verification/Compose.thy ===== *)
theory Compose
  imports Rooms Commands
begin

text \<open>
  Starting a conversation from Matrix: resolving an address to a ghost and a new room
  (\<open>client_compose.go\<close>), the compose command, the reply-only toggle and the config command
  (\<open>commands.go\<close>).  \<open>parse\<close> is \<open>netmail.ParseAddress\<close>: the name and the address, or the
  error; \<open>quoted\<close> is \<open>%q\<close>.
\<close>

subsection \<open>Resolving an address\<close>

type_synonym address_parser = "gostring \<Rightarrow> go_error + (gostring \<times> gostring)"

definition ValidateUserID :: "address_parser \<Rightarrow> gostring \<Rightarrow> bool" where
  "ValidateUserID parse uid =
     (let s = trim_prefix uid ''email:'' in if s = uid then False else \<not> isl (parse s))"

record resolved =
  rs_UserID :: gostring
  rs_Name :: gostring
  rs_Identifier :: gostring
  rs_Portal :: "gostring option"

definition compose_id :: "int \<Rightarrow> gostring \<Rightarrow> gostring" where
  "compose_id nano target = ''compose-'' @ itoa_go nano @ ''-'' @ target"

definition synthetic_thread :: "int \<Rightarrow> gostring \<Rightarrow> gostring \<Rightarrow> email_thread" where
  "synthetic_thread nano target own =
     empty_thread\<lparr>ThreadID := compose_id nano target, Participants := [target, own], IsDraft := True, LastAccessed := nano\<rparr>"

definition ResolveIdentifier ::
  "address_parser \<Rightarrow> (gostring \<Rightarrow> gostring) \<Rightarrow> send_env \<Rightarrow> loaded_client \<Rightarrow> gostring \<Rightarrow> bool \<Rightarrow> thread_manager \<Rightarrow>
     (go_error + resolved) \<times> thread_manager" where
  "ResolveIdentifier parse quoted env c identifier createChat tm =
     (case parse (trim_space identifier) of
        Inl e \<Rightarrow> (Inl (Errorf (''matrimail: invalid email address '' @ quoted identifier) e), tm)
      | Inr (name, address) \<Rightarrow>
          (let target = to_lower address;
               res = \<lparr>rs_UserID = EmailToGhostID target, rs_Name = (if name = [] then target else name),
                      rs_Identifier = ''email:'' @ target, rs_Portal = None\<rparr>
           in if \<not> createChat then (Inr res, tm)
           else let (r, tm1) = alloc (synthetic_thread (se_clock env) target (cl_Email c)) tm
                in (Inr (res\<lparr>rs_Portal := Some (MakePortalID (compose_id (se_clock env) target))\<rparr>),
                    cacheThread (se_range env) (se_clock env) (ul_ID (cl_login c)) (Some r) tm1)))"

subsection \<open>The compose command\<close>

text \<open>
  What the framework answers: the portal (its room, empty when there is none yet) and a new room.
  The portal's metadata are set before the room is made.
\<close>

record portal_env =
  pv_portal :: "go_error + gostring"
  pv_create :: "go_error + gostring"
  pv_link :: "gostring \<Rightarrow> gostring"

definition compose_thread :: "compose_args \<Rightarrow> email_thread \<Rightarrow> email_thread" where
  "compose_thread a th =
     th\<lparr>Subject := ca_Subject a, CcList := ca_Cc a, Participants := Participants th @ map to_lower (ca_Cc a)\<rparr>"

definition attach_fields :: "send_env \<Rightarrow> gostring \<Rightarrow> gostring \<Rightarrow> compose_args \<Rightarrow> thread_manager \<Rightarrow> thread_manager" where
  "attach_fields env login tid a tm =
     (case GetThreadByID (se_clock env) login tid tm of
        (None, tm1) \<Rightarrow> tm1
      | (Some r, tm1) \<Rightarrow>
          cacheThread (se_range env) (se_clock env) login (Some r) (store r (compose_thread a (deref tm1 r)) tm1))"

definition compose_metadata :: "gostring \<Rightarrow> compose_args \<Rightarrow> portal_metadata" where
  "compose_metadata tid a =
     metadata_of (empty_thread\<lparr>ThreadID := tid, Subject := ca_Subject a,
       Participants := to_lower (ca_To a) # ca_Cc a, IsDraft := True\<rparr>)"

definition compose_reply :: "portal_env \<Rightarrow> compose_args \<Rightarrow> gostring \<Rightarrow> gostring" where
  "compose_reply P a room =
     (let subjLine = (if ca_Subject a = [] then ''(no subject)'' else ca_Subject a);
          ccLine = (if ca_Cc a \<noteq> [] then bytes [10] @ ''**Cc:** '' @ join_with '', '' (ca_Cc a) else [])
      in bytes [226, 156, 137, 239, 184, 143] @ '' **New email thread ready**'' @ bytes [10, 10] @
     ''**To:** '' @ ca_To a @ ccLine @ bytes [10] @ ''**Subject:** '' @ subjLine @ bytes [10, 10] @
     ''Open the new room and type your message '' @ bytes [226, 128, 148] @
     '' it will be sent as the first email in the thread.'' @ bytes [10, 10] @ ''Room: ['' @ room @
     '']('' @ pv_link P room @ '')'')"

definition first_client :: "logins \<Rightarrow> loaded_client option" where
  "first_client ls = Option.bind (find (\<lambda>l. snd l \<noteq> None) ls) snd"

definition fnCompose ::
  "address_parser \<Rightarrow> (gostring \<Rightarrow> gostring) \<Rightarrow> send_env \<Rightarrow> portal_env \<Rightarrow> logins \<Rightarrow> command_event \<Rightarrow> send_state \<Rightarrow>
     gostring \<times> send_state" where
  "fnCompose parse quoted env P ls ev st =
     (if ls = [] then (bytes [226, 132, 185, 239, 184, 143] @ '' You'' @ bytes [39] @ ''re not connected to any email accounts. Use `!matrimail login` first.'', st)
      else case parseComposeArgs (\<lambda>s. case parse s of Inl e \<Rightarrow> Some e | Inr _ \<Rightarrow> None) quoted (cm_raw ev) of
        Inl e \<Rightarrow> (bytes [226, 157, 140] @ '' '' @ error_text e @ bytes [10, 10] @
     ''**Usage:** `!matrimail compose to:alice@example.com [cc:bob@example.com] [subject:'' @
     bytes [34] @ ''hello'' @ bytes [34] @ '']`'', st)
      | Inr a \<Rightarrow>
          (case first_client ls of
             None \<Rightarrow> (bytes [226, 157, 140] @ '' Internal error: no usable EmailClient found among your logins.'', st)
           | Some c \<Rightarrow>
               (case ResolveIdentifier parse quoted env c (ca_To a) True (ss_tm st) of
                  (Inl e, tm) \<Rightarrow> (bytes [226, 157, 140] @ '' Failed to start compose thread: '' @ error_text e, st\<lparr>ss_tm := tm\<rparr>)
                | (Inr res, tm) \<Rightarrow>
                    (case rs_Portal res of
                       None \<Rightarrow> (bytes [226, 157, 140] @ '' Internal error: ResolveIdentifier returned no chat.'', st\<lparr>ss_tm := tm\<rparr>)
                     | Some portal \<Rightarrow>
                         (let tid = trim_prefix portal ''thread:''; login = ul_ID (cl_login c);
                              st1 = st\<lparr>ss_tm := attach_fields env login tid a tm\<rparr>
                          in case pv_portal P of
                               Inl e \<Rightarrow> (bytes [226, 157, 140] @ '' Failed to get portal: '' @ error_text e, st1)
                             | Inr room \<Rightarrow>
                                 (let st2 = st1\<lparr>ss_meta := (ss_meta st1)(portal \<mapsto> compose_metadata tid a)\<rparr>;
                                      (info, tm2) = GetChatInfo env login portal (ss_meta st2 portal) (ss_tm st2);
                                      st3 = st2\<lparr>ss_tm := tm2\<rparr>
                                  in if room \<noteq> [] then (compose_reply P a room, st3)
                                     else case pv_create P of
                                       Inl e \<Rightarrow> (bytes [226, 157, 140] @ '' Failed to create Matrix room: '' @ error_text e, st3)
                                     | Inr new \<Rightarrow> (compose_reply P a new, st3)))))))"

subsection \<open>Replying to the sender only\<close>

text \<open>The thread is looked up for each login until one has it; the answer names its last sender.\<close>

fun reply_target :: "int \<Rightarrow> gostring \<Rightarrow> gostring list \<Rightarrow> thread_manager \<Rightarrow> gostring \<times> thread_manager" where
  "reply_target clk tid [] tm = ([], tm)"
| "reply_target clk tid (login # ls) tm =
     (case GetThreadByID clk login tid tm of
        (Some r, tm1) \<Rightarrow> (LastFrom (deref tm1 r), tm1)
      | (None, tm1) \<Rightarrow> reply_target clk tid ls tm1)"

definition fnReplyOnly :: "send_env \<Rightarrow> logins \<Rightarrow> gostring option \<Rightarrow> send_state \<Rightarrow> gostring \<times> send_state" where
  "fnReplyOnly env ls portal st =
     (case portal of
        None \<Rightarrow> (bytes [226, 157, 140] @ '' `!matrimail reply-only` must be run inside an email portal room.'', st)
      | Some p \<Rightarrow>
          (let st1 = MarkPortalNextReplyDM p st;
               (target, tm) = reply_target (se_clock env) (portal_thread_id p) (map fst ls) (ss_tm st1)
           in (if target = [] then bytes [226, 156, 133] @ '' Next reply in this room will go to the original sender only (DM mode).''
               else bytes [226, 156, 133] @ '' Next reply in this room will go to **'' @ target @
     ''** only (DM mode).'',
               st1\<lparr>ss_tm := tm\<rparr>)))"

subsection \<open>Configuration\<close>

definition config_help :: gostring where
  "config_help = bytes [226, 154, 153, 239, 184, 143] @ '' **Bridge Configuration**'' @ bytes [10, 10] @
     ''**Available subcommands:**'' @ bytes [10, 226, 128, 162] @
     '' `!matrimail config folders` - Change which folders to monitor'' @ bytes [10, 10] @
     ''**Current status:**'' @ bytes [10] @
     ''Use `!matrimail list` to see your connected accounts and their settings.''"

definition folders_reply :: "logins \<Rightarrow> gostring list \<Rightarrow> gostring list" where
  "folders_reply ls args =
     (if ls = [] then [not_connected_text]
      else if length ls > 1 \<and> length args < 2 then
        [bytes [240, 159, 147, 167] @
     '' You have multiple email accounts. Please specify which account to reconfigure:'' @
     bytes [10, 10] @ concat (map (\<lambda>l. case snd l of None \<Rightarrow> []
           | Some c \<Rightarrow> bytes [226, 128, 162] @ '' `!matrimail config folders '' @ cl_Email c @ ''`'' @ bytes [10]) ls)]
      else
        let target = (if length args \<ge> 2 then args ! 1 else case snd (hd ls) of None \<Rightarrow> [] | Some c \<Rightarrow> cl_Email c)
        in case find_account target ls of
             None \<Rightarrow> [not_found_text target]
           | Some _ \<Rightarrow> [bytes [240, 159, 148, 144] @ '' **Folder Reconfiguration**'' @ bytes [10, 10] @
     ''To change the monitored folders for **'' @ target @ ''**, you'' @ bytes [39] @
     ''ll need to re-authenticate.'' @ bytes [10, 10] @
     ''**Why?** Re-authentication ensures your credentials are still valid and allows us to fetch the current folder list.'' @
     bytes [10, 10] @ ''**To proceed:**'' @ bytes [10] @ ''1. Use `!matrimail logout '' @ target @
     ''` to disconnect'' @ bytes [10] @
     ''2. Use `!matrimail login` to reconnect and choose new folders'' @
     bytes [10, 10, 240, 159, 146, 161] @
     '' **Tip:** Your existing Matrix rooms will remain - only the folders being monitored will change.''])"

definition fnConfig :: "logins \<Rightarrow> gostring list \<Rightarrow> gostring list" where
  "fnConfig ls args =
     (case args of
        [] \<Rightarrow> [config_help]
      | sub # _ \<Rightarrow>
          if to_lower sub = ''folders'' then folders_reply ls args
          else [bytes [226, 157, 140] @ '' Unknown config subcommand: `'' @ to_lower sub @ ''`'' @
     bytes [10, 10] @ ''**Available subcommands:**'' @ bytes [10, 226, 128, 162] @
     '' `folders` - Change which folders to monitor''])"

end
