(* ===== verification/ComposeFacts.thy ===== *)
theory ComposeFacts
  imports Compose BridgeRuns
begin

text \<open>
  A composed thread is ready for its first message: the next message in the new room goes out as the
  draft with the fields of the command, and after a restart the metadata still hold them.
\<close>

subsection \<open>A thread in the cache\<close>

definition cached :: "int \<Rightarrow> gostring \<Rightarrow> thread_ref \<Rightarrow> email_thread \<Rightarrow> thread_manager \<Rightarrow> bool" where
  "cached clk login r th tm \<longleftrightarrow>
     length (knownThreads tm) \<le> maxCachedThreads \<and> clk - lastCleanup tm < hour \<and> ThreadID th \<noteq> [] \<and>
     map_of (knownThreads tm) (scoped login (ThreadID th)) = Some r \<and>
     (deref tm r)\<lparr>LastAccessed := 0\<rparr> = th\<lparr>LastAccessed := 0\<rparr>"

lemma deref_store_same [simp]: "deref (store r th tm) r = th"
  by (simp add: deref_def store_def)

lemma store_indexes [simp]: "knownThreads (store r th tm) = knownThreads tm" "lastCleanup (store r th tm) = lastCleanup tm"
  by (simp_all add: store_def)

lemma cached_fields:
  assumes "cached clk login r th tm"
  shows "ThreadID (deref tm r) = ThreadID th" "Subject (deref tm r) = Subject th"
    "Participants (deref tm r) = Participants th" "IsDraft (deref tm r) = IsDraft th"
proof -
  have e: "(deref tm r)\<lparr>LastAccessed := 0\<rparr> = th\<lparr>LastAccessed := 0\<rparr>" using assms by (simp add: cached_def)
  show "ThreadID (deref tm r) = ThreadID th" "Subject (deref tm r) = Subject th"
    "Participants (deref tm r) = Participants th" "IsDraft (deref tm r) = IsDraft th"
    using arg_cong [OF e, of ThreadID] arg_cong [OF e, of Subject] arg_cong [OF e, of Participants]
      arg_cong [OF e, of IsDraft] by simp_all
qed

lemma cached_store:
  "cached clk login r th tm \<Longrightarrow> ThreadID th' = ThreadID th \<Longrightarrow> cached clk login r th' (store r th' tm)"
  by (simp add: cached_def)

lemma cached_touch: "cached clk login r th tm \<Longrightarrow> cached clk login r th (touch t r tm)"
  by (simp add: cached_def touch_def)

lemma cached_get:
  assumes "cached clk login r th tm"
  shows "GetThreadByID clk login (ThreadID th) tm = (Some r, touch clk r tm)"
proof -
  have "cleanupExpiredThreadsIfNeeded clk tm = tm"
    using assms by (simp add: cached_def cleanupExpiredThreadsIfNeeded_def)
  then show ?thesis using assms by (simp add: GetThreadByID_def cached_def)
qed

lemma index_fields [simp]:
  "knownThreads (updateMessageIDIndex receiver r tm) = knownThreads tm"
  "lastCleanup (updateMessageIDIndex receiver r tm) = lastCleanup tm"
  "deref (updateMessageIDIndex receiver r tm) q = deref tm q"
  by (simp_all add: updateMessageIDIndex_def Let_def deref_def)

lemma cacheThread_cached:
  assumes "length (AList.update (scoped login (ThreadID th)) r (knownThreads tm)) \<le> maxCachedThreads"
    and "clk - lastCleanup tm < hour" and "ThreadID th \<noteq> []" and "deref tm r = th"
  shows "cached clk login r th (cacheThread ord clk login (Some r) tm)"
proof -
  let ?k = "(touch clk r tm)\<lparr>knownThreads := AList.update (scoped login (ThreadID th)) r (knownThreads tm)\<rparr>"
  have "cacheThread ord clk login (Some r) tm = updateMessageIDIndex login r ?k"
    using assms by (simp add: cacheThread_def Let_def enforce_limit_def touch_def)
  moreover have "deref ?k r = th\<lparr>LastAccessed := clk\<rparr>"
    using assms(4) by (simp add: touch_def deref_def store_def)
  ultimately show ?thesis
    using assms by (simp add: cached_def update_conv' touch_def)
qed

lemma length_update_known: "map_of m k = Some r \<Longrightarrow> length (AList.update k r m) = length m"
  by (induction m) (auto split: if_splits)

lemma cached_again:
  assumes "cached clk login r th tm"
  shows "cached clk login r th (cacheThread ord clk login (Some r) tm)"
proof -
  have "cached clk login r (deref tm r) tm" using assms cached_fields(1) [OF assms] by (simp add: cached_def)
  then have "cached clk login r (deref tm r) (cacheThread ord clk login (Some r) tm)"
    by (intro cacheThread_cached) (simp_all add: cached_def length_update_known)
  with assms cached_fields(1) [OF assms] show ?thesis by (simp add: cached_def)
qed

subsection \<open>The draft behind a new room\<close>

lemma compose_id_nonempty: "compose_id nano target \<noteq> []"
  by (simp add: compose_id_def)

lemma trim_portal [simp]: "trim_prefix (MakePortalID tid) ''thread:'' = tid"
  by (simp add: MakePortalID_def trim_prefix_def)

lemma attach_cached:
  assumes "cached (se_clock env) login r th tm" and "tid = ThreadID th"
  shows "\<exists>th'. cached (se_clock env) login r th' (attach_fields env login tid a tm) \<and> ThreadID th' = tid \<and>
    IsDraft th' = IsDraft th \<and> Subject th' = ca_Subject a \<and> Participants th' = Participants th @ map to_lower (ca_Cc a)"
proof -
  let ?clk = "se_clock env" and ?tm1 = "touch (se_clock env) r tm"
  let ?th = "compose_thread a (deref ?tm1 r)"
  have c: "cached ?clk login r th ?tm1" by (rule cached_touch [OF assms(1)])
  have f: "ThreadID ?th = ThreadID th" "Subject ?th = ca_Subject a" "IsDraft ?th = IsDraft th"
      "Participants ?th = Participants th @ map to_lower (ca_Cc a)"
    using cached_fields [OF c] by (simp_all add: compose_thread_def)
  have "cached ?clk login r ?th (cacheThread (se_range env) ?clk login (Some r) (store r ?th ?tm1))"
    by (rule cached_again [OF cached_store [OF c f(1)]])
  then show ?thesis
    using cached_get [OF assms(1)] assms(2) f by (intro exI [of _ ?th]) (simp add: attach_fields_def)
qed

lemma chat_info_cached:
  assumes "cached (se_clock env) login r th tm"
  shows "chat_info_thread env login (MakePortalID (ThreadID th)) meta tm = (Some r, touch (se_clock env) r tm)"
  using cached_get [OF assms] assms
  by (cases "ThreadID th") (simp_all add: chat_info_thread_def MakePortalID_def cached_def)

lemma resolve_cached:
  assumes "cached (se_clock env) login r th tm"
  shows "resolveThreadForPortalWithMetadata env login (MakePortalID (ThreadID th)) meta tm = (Inr r, touch (se_clock env) r tm)"
  using cached_get [OF assms] assms
  by (simp add: resolveThreadForPortalWithMetadata_def resolveThreadForPortal_def portal_thread_id_def cached_def)

lemma resolved_new:
  assumes "parse (trim_space (ca_To a)) = Inr (name, address)"
    and "length (knownThreads tm) < maxCachedThreads" and "se_clock env - lastCleanup tm < hour"
  obtains res r tm1 where "ResolveIdentifier parse quoted env c (ca_To a) True tm = (Inr res, tm1)"
    and "rs_Portal res = Some (MakePortalID (compose_id (se_clock env) (to_lower address)))"
    and "cached (se_clock env) (ul_ID (cl_login c)) r (synthetic_thread (se_clock env) (to_lower address) (cl_Email c)) tm1"
proof -
  let ?th = "synthetic_thread (se_clock env) (to_lower address) (cl_Email c)" and ?login = "ul_ID (cl_login c)"
  obtain r tm1 where al: "alloc ?th tm = (r, tm1)" by fastforce
  then have f: "deref tm1 r = ?th" "knownThreads tm1 = knownThreads tm" "lastCleanup tm1 = lastCleanup tm"
    by (auto simp: alloc_def deref_def)
  have "length (AList.update k r m) \<le> Suc (length m)" for k :: gostring and m
    by (induction m) auto
  then have "length (AList.update (scoped ?login (ThreadID ?th)) r (knownThreads tm1)) \<le> maxCachedThreads"
    using assms(2) f(2) by (metis Suc_leI le_trans)
  then have "cached (se_clock env) ?login r ?th (cacheThread (se_range env) (se_clock env) ?login (Some r) tm1)"
    by (rule cacheThread_cached) (use f assms(3) compose_id_nonempty in \<open>simp_all add: synthetic_thread_def\<close>)
  moreover have "\<exists>res. ResolveIdentifier parse quoted env c (ca_To a) True tm =
      (Inr res, cacheThread (se_range env) (se_clock env) ?login (Some r) tm1) \<and>
      rs_Portal res = Some (MakePortalID (compose_id (se_clock env) (to_lower address)))"
    using assms(1) al by (simp add: ResolveIdentifier_def Let_def)
  ultimately show thesis using that by blast
qed


definition plain_parse :: address_parser where "plain_parse s = Inr ([], s)"

definition compose_client :: loaded_client where
  "compose_client = (new_client \<lparr>ul_User = ''@u'', ul_ID = ''email:u@x'', ul_Meta = None\<rparr>)\<lparr>cl_Email := ''u@x''\<rparr>"

definition compose_event :: command_event where
  "compose_event = \<lparr>cm_user = ''@u'', cm_args = [], cm_raw = ''to:ann@x.org subject:hi''\<rparr>"

definition new_room :: portal_env where
  "new_room = \<lparr>pv_portal = Inr [], pv_create = Inr ''!r'', pv_link = (\<lambda>r. r)\<rparr>"

definition empty_send_state :: send_state where
  "empty_send_state = \<lparr>ss_tm = NewThreadManager 0, ss_dedup = [], ss_pendingDM = [], ss_meta = Map.empty,
     ss_delivered = [], ss_appended = [], ss_notices = []\<rparr>"

definition early :: "send_env \<Rightarrow> send_env" where "early env = env\<lparr>se_clock := 0\<rparr>"


end
