(* ===== verification/Drafts.thy ===== *)
theory Drafts
  imports Compose CommandFlows GmailPoll
begin

text \<open>
  Drafts by an external workflow (\<open>draft_webhook.go\<close>, the draft commands of \<open>commands.go\<close>),
  the backlog and nuke commands.  JSON, the webhook's answer, the Gmail API and the base64 decoder are
  arguments.  Times are nanoseconds.
\<close>

subsection \<open>The webhook\<close>

record draft_config =
  dw_URL :: gostring
  dw_Secret :: gostring
  dw_TimeoutSeconds :: int

definition webhook_timeout :: "draft_config \<Rightarrow> int" where
  "webhook_timeout cfg = (if dw_TimeoutSeconds cfg \<le> 0 then 10 * 10 ^ 9 else wrap64 (dw_TimeoutSeconds cfg * 10 ^ 9))"

record draft_request =
  dq_Account :: gostring
  dq_UserMXID :: gostring
  dq_ThreadID :: gostring
  dq_MessageID :: gostring
  dq_Subject :: gostring
  dq_Participants :: "gostring list"
  dq_Instruction :: gostring
  dq_Source :: gostring
  dq_RoomID :: gostring

text \<open>Of the answer only the message is read; a body that is not JSON decodes to what was read of it.\<close>

record webhook_env =
  we_marshal :: "draft_request \<Rightarrow> go_error + gostring"
  we_build :: "go_error option"
  we_post :: "int \<Rightarrow> gostring \<Rightarrow> (gostring \<times> gostring) list \<Rightarrow> gostring \<Rightarrow> go_error + int \<times> gostring"
  we_message :: "gostring \<Rightarrow> gostring"

definition webhook_headers :: "draft_config \<Rightarrow> (gostring \<times> gostring) list" where
  "webhook_headers cfg = [(''Content-Type'', ''application/json''), (''User-Agent'', ''matrimail/draft-trigger'')] @
     (if dw_Secret cfg \<noteq> [] then [(''Authorization'', ''Bearer '' @ dw_Secret cfg)] else [])"

definition triggerDraftWebhook :: "webhook_env \<Rightarrow> draft_config \<Rightarrow> draft_request \<Rightarrow> go_error + gostring" where
  "triggerDraftWebhook W cfg req =
     (if trim_space (dw_URL cfg) = [] then Inl (Err ''draft webhook not configured (set draft_webhook.url in config.yaml)'')
      else case we_marshal W req of
        Inl e \<Rightarrow> Inl (Errorf ''marshal draft request'' e)
      | Inr body \<Rightarrow>
          (case we_build W of
             Some e \<Rightarrow> Inl (Errorf ''build draft request'' e)
           | None \<Rightarrow>
               (case we_post W (webhook_timeout cfg) (dw_URL cfg) (webhook_headers cfg) body of
                  Inl e \<Rightarrow> Inl (Errorf ''draft webhook POST'' e)
                | Inr (status, answer) \<Rightarrow>
                    (let read = take 8192 answer in
                     if status < 200 \<or> status \<ge> 300
                     then Inl (Err (''draft webhook returned HTTP '' @ itoa_go status @ '': '' @ trim_space read))
                     else Inr (if read \<noteq> [] then we_message W read else [])))))"

subsection \<open>The draft command\<close>

record draft_room =
  dr_ID :: gostring
  dr_Receiver :: gostring
  dr_MXID :: gostring

definition receiver_client :: "gostring \<Rightarrow> logins \<Rightarrow> loaded_client option" where
  "receiver_client receiver ls = Option.bind (find (\<lambda>l. fst l = receiver \<and> snd l \<noteq> None) ls) snd"

text \<open>The request: what the metadata have, then the cached thread, then the portal itself.\<close>

definition from_metadata :: "portal_metadata option \<Rightarrow> draft_request \<Rightarrow> draft_request" where
  "from_metadata meta q =
     (case meta of None \<Rightarrow> q
      | Some pm \<Rightarrow> q\<lparr>dq_ThreadID := pm_ThreadID pm, dq_MessageID := pm_LastMessageID pm, dq_Subject := pm_Subject pm,
          dq_Participants := pm_Participants pm\<rparr>)"

definition from_thread :: "email_thread \<Rightarrow> draft_request \<Rightarrow> draft_request" where
  "from_thread th q =
     q\<lparr>dq_ThreadID := (if dq_ThreadID q = [] then ThreadID th else dq_ThreadID q),
       dq_MessageID := (if dq_MessageID q = [] then MessageID th else dq_MessageID q),
       dq_Subject := (if dq_Subject q = [] then Subject th else dq_Subject q),
       dq_Participants := (if dq_Participants q = [] then Participants th else dq_Participants q)\<rparr>"

definition from_portal :: "gostring \<Rightarrow> draft_request \<Rightarrow> draft_request" where
  "from_portal tid q =
     (let q1 = (if dq_ThreadID q = [] then q\<lparr>dq_ThreadID := tid\<rparr> else q)
      in if dq_MessageID q1 = [] then q1\<lparr>dq_MessageID := dq_ThreadID q1\<rparr> else q1)"

definition draft_request_for ::
  "int \<Rightarrow> loaded_client \<Rightarrow> command_event \<Rightarrow> draft_room \<Rightarrow> portal_metadata option \<Rightarrow> thread_manager \<Rightarrow>
     draft_request \<times> thread_manager" where
  "draft_request_for clk c ev room meta tm =
     (let q0 = \<lparr>dq_Account = cl_Email c, dq_UserMXID = cm_user ev, dq_ThreadID = [], dq_MessageID = [], dq_Subject = [],
            dq_Participants = [], dq_Instruction = [], dq_Source = ''command'', dq_RoomID = dr_MXID room\<rparr>;
          q1 = from_metadata meta q0;
          tid = portal_thread_id (dr_ID room);
          (q2, tm1) = (if tid = [] then (q1, tm)
             else case GetThreadByID clk (dr_Receiver room) tid tm of
               (None, t) \<Rightarrow> (q1, t) | (Some r, t) \<Rightarrow> (from_thread (deref t r) q1, t));
          q3 = from_portal tid q2
      in (q3\<lparr>dq_Instruction := (if cm_args ev \<noteq> [] then trim_space (join_with '' '' (cm_args ev)) else [])\<rparr>, tm1))"

text \<open>The answer of the command, and the request whose draft is then waited for.\<close>

definition fnDraft ::
  "webhook_env \<Rightarrow> draft_config \<Rightarrow> int \<Rightarrow> logins \<Rightarrow> draft_room option \<Rightarrow> command_event \<Rightarrow> send_state \<Rightarrow>
     gostring \<times> draft_request option \<times> send_state" where
  "fnDraft W cfg clk ls portal ev st =
     (case portal of
        None \<Rightarrow> (bytes [226, 157, 140] @
     '' `!matrimail draft` must be run inside an email portal room (the thread you want a draft for), not the management room.'', None, st)
      | Some room \<Rightarrow>
          if trim_space (dw_URL cfg) = [] then (bytes [226, 157, 140] @
     '' Draft webhook is not configured. Ask the bridge admin to set `draft_webhook.url` in `config.yaml`.'', None, st)
          else case receiver_client (dr_Receiver room) ls of
            None \<Rightarrow> (bytes [226, 157, 140] @ '' Couldn'' @ bytes [39] @
     ''t resolve which email account owns this room (portal receiver: `'' @ dr_Receiver room @
     ''`). Are you logged in to that account?'', None, st)
          | Some c \<Rightarrow>
              (let (req, tm) = draft_request_for clk c ev room (ss_meta st (dr_ID room)) (ss_tm st); st1 = st\<lparr>ss_tm := tm\<rparr>
               in case triggerDraftWebhook W cfg req of
                    Inl e \<Rightarrow> (bytes [226, 157, 140] @ '' Draft request failed: '' @ error_text e, None, st1)
                  | Inr msg \<Rightarrow>
                      ((if trim_space msg \<noteq> [] then bytes [226, 156, 143, 239, 184, 143] @ '' '' @ trim_space msg
                        else bytes [226, 156, 143, 239, 184, 143] @ '' Draft requested '' @ bytes [226, 128, 148] @
     '' agent is researching context; the draft will appear here when ready (~30-90s).'') @
                       (if dq_Instruction req \<noteq> [] then bytes [10] @ ''_Instruction:_ '' @ dq_Instruction req else []),
                       Some req, st1)))"

subsection \<open>The text of a draft\<close>

fun pick_latest :: "gmail_message option \<Rightarrow> gmail_message list \<Rightarrow> gmail_message option" where
  "pick_latest latest [] = latest"
| "pick_latest latest (m # msgs) =
     (if list_ex (\<lambda>l. equal_fold l ''DRAFT'') (gm_LabelIds m) \<and>
         (case latest of None \<Rightarrow> True | Some x \<Rightarrow> gm_InternalDate m > gm_InternalDate x)
      then pick_latest (Some m) msgs else pick_latest latest msgs)"

definition pickLatestDraft :: "gmail_message list \<Rightarrow> gmail_message option" where
  "pickLatestDraft = pick_latest None"

definition std_padded :: "gostring \<Rightarrow> gostring" where
  "std_padded data =
     (let s = map (\<lambda>c. if c = CHR ''-'' then CHR ''+'' else if c = CHR ''_'' then CHR ''/'' else c) data
      in if length s mod 4 \<noteq> 0 then s @ replicate (4 - length s mod 4) CHR ''='' else s)"

fun walkGmailPart :: "(gostring \<Rightarrow> gostring option) \<Rightarrow> gostring \<Rightarrow> gmail_part \<Rightarrow> gostring"
  and walk_parts :: "(gostring \<Rightarrow> gostring option) \<Rightarrow> gostring \<Rightarrow> gmail_part list \<Rightarrow> gostring" where
  "walkGmailPart decode want NilPart = []"
| "walkGmailPart decode want (GmailPart mime file headers body children) =
     (if equal_fold mime want \<and> (case body of None \<Rightarrow> False | Some (sz, data) \<Rightarrow> data \<noteq> [])
      then (case decode (std_padded (snd (the body))) of None \<Rightarrow> [] | Some t \<Rightarrow> t)
      else walk_parts decode want children)"
| "walk_parts decode want [] = []"
| "walk_parts decode want (p # ps) =
     (let t = walkGmailPart decode want p in if t \<noteq> [] then t else walk_parts decode want ps)"

text \<open>One tag, from the first opening bracket to the next closing one, becomes a space.\<close>

definition blank_tag :: "gostring \<Rightarrow> gostring option" where
  "blank_tag s =
     (case index_of s ''<'' of
        None \<Rightarrow> None
      | Some i \<Rightarrow> (case index_of (drop i s) ''>'' of
            None \<Rightarrow> None
          | Some j \<Rightarrow> Some (take i s @ '' '' @ drop (i + j + 1) s)))"

lemma blank_tag_shorter:
  assumes "blank_tag s = Some t" shows "length t < length s"
proof -
  obtain i j where i: "index_of s ''<'' = Some i" and j: "index_of (drop i s) ''>'' = Some j"
    and t: "t = take i s @ '' '' @ drop (i + j + 1) s"
    using assms by (auto simp: blank_tag_def split: option.splits)
  have "drop i s = ''<'' @ drop (i + 1) s"
    using index_of_Some [OF i] append_take_drop_id [of i s] by (metis One_nat_def length_Cons list.size(3) same_append_eq)
  then have "j \<noteq> 0" using j by (cases "drop i s") auto
  moreover have "Suc i \<le> length s" "Suc j \<le> length s - i"
    using index_of_Some [OF i] index_of_Some [OF j] by simp_all
  ultimately show ?thesis by (simp add: t)
qed

function blank_tags :: "gostring \<Rightarrow> gostring" where
  "blank_tags s = (case blank_tag s of None \<Rightarrow> s | Some t \<Rightarrow> blank_tags t)"
  by pat_completeness auto

termination by (relation "measure length") (simp_all add: blank_tag_shorter)

declare blank_tags.simps [simp del]

definition extractGmailMessageText :: "(gostring \<Rightarrow> gostring option) \<Rightarrow> gmail_message \<Rightarrow> gostring" where
  "extractGmailMessageText decode m =
     (let plain = walkGmailPart decode ''text/plain'' (gm_Payload m);
          html = walkGmailPart decode ''text/html'' (gm_Payload m)
      in if plain \<noteq> [] then plain
         else if html \<noteq> [] then trim_space (blank_tags html)
         else trim_space (gm_Snippet m))"

text \<open>A nil header before the subject is a panic of the goroutine (None).\<close>

fun draft_subject_header :: "gmail_headers \<Rightarrow> gostring option" where
  "draft_subject_header [] = Some []"
| "draft_subject_header (None # hs) = None"
| "draft_subject_header (Some (n, v) # hs) = (if equal_fold n ''Subject'' then Some v else draft_subject_header hs)"

definition draft_notice :: "gostring \<Rightarrow> gmail_message \<Rightarrow> gostring option" where
  "draft_notice body m =
     map_option (\<lambda>subject.
       (if subject \<noteq> [] then ''**'' @ bytes [240, 159, 147, 157] @ '' Draft reply** '' @ bytes [226, 128, 148] @ '' `'' @
     subject @ ''`'' else ''**'' @ bytes [240, 159, 147, 157] @ '' Draft reply**'') @ [newline, newline] @
       ''> '' @ concat (map (\<lambda>c. if c = newline then newline # ''> '' else [c]) (trim_space body)) @
       bytes [10, 10] @ ''_The draft is also saved in Gmail; edit and send from there._'')
     (case gm_Payload m of NilPart \<Rightarrow> Some [] | GmailPart mime file headers body children \<Rightarrow> draft_subject_header headers)"

subsection \<open>Waiting for the draft\<close>

definition trim_brackets :: "gostring \<Rightarrow> gostring" where
  "trim_brackets s =
     (let cut = dropWhile (\<lambda>c. c \<in> {CHR ''<'', CHR ''>'', CHR '' '', CHR 0x09}) in rev (cut (rev (cut s))))"

text \<open>The thread of the first message found for a Message-ID; an error counts as nothing found.\<close>

definition resolve_try :: "(gostring \<Rightarrow> go_error + gostring list) \<Rightarrow> gostring \<Rightarrow> gostring" where
  "resolve_try search msgID =
     (case search (''rfc822msgid:'' @ trim_brackets msgID) of Inr (t # _) \<Rightarrow> t | _ \<Rightarrow> [])"

definition draft_thread :: "(gostring \<Rightarrow> go_error + gostring list) \<Rightarrow> gostring \<Rightarrow> gostring \<Rightarrow> gostring" where
  "draft_thread search threadHint messageHint =
     (let t = resolve_try search messageHint in
      if t = [] \<and> threadHint \<noteq> [] \<and> threadHint \<noteq> messageHint then resolve_try search threadHint else t)"

text \<open>
  The tries that are left, the answers of the thread by try, and whether the context has ended after a
  try.  The result is the draft that is posted.
\<close>

fun poll_draft ::
  "(gostring \<Rightarrow> gostring option) \<Rightarrow> (nat \<Rightarrow> go_error + gmail_message list) \<Rightarrow> (nat \<Rightarrow> bool) \<Rightarrow> nat \<Rightarrow> nat \<Rightarrow>
     (gostring \<times> gmail_message) option" where
  "poll_draft decode gets ended n 0 = None"
| "poll_draft decode gets ended n (Suc k) =
     (let again = (if ended n then None else poll_draft decode gets ended (Suc n) k) in
      case gets n of
        Inl e \<Rightarrow> again
      | Inr msgs \<Rightarrow>
          (case pickLatestDraft msgs of
             None \<Rightarrow> again
           | Some m \<Rightarrow>
               (let body = extractGmailMessageText decode m in
                if gm_InternalDate m > 0 \<and> trim_space body \<noteq> [] then Some (body, m) else again)))"

definition pollAndPostGmailDraft ::
  "(go_error + oauth_info option) \<Rightarrow> go_error option \<Rightarrow> (gostring \<Rightarrow> go_error + gostring list) \<Rightarrow>
     (gostring \<Rightarrow> gostring option) \<Rightarrow> (gostring \<Rightarrow> nat \<Rightarrow> go_error + gmail_message list) \<Rightarrow> (nat \<Rightarrow> bool) \<Rightarrow>
     draft_request \<Rightarrow> (gostring \<times> gmail_message) option" where
  "pollAndPostGmailDraft account service search decode gets ended q =
     (case account of
        Inr (Some info) \<Rightarrow>
          if oi_Token info = None \<or> service \<noteq> None then None
          else let t = draft_thread search (dq_ThreadID q) (dq_MessageID q)
               in if t = [] then None else poll_draft decode (gets t) ended 0 12
      | _ \<Rightarrow> None)"

subsection \<open>The backlog command\<close>

definition backlogMaxDays :: int where "backlogMaxDays = 30"

text \<open>\<open>Sscanf\<close> with \<open>%d\<close>: an optional sign and digits, whatever follows them.\<close>

definition scan_days :: "gostring \<Rightarrow> int option" where
  "scan_days s0 =
     (let s = dropWhile (\<lambda>c. c = CHR '' '') s0;
          neg = has_prefix s ''-'';
          ds = takeWhile is_digit (if neg \<or> has_prefix s ''+'' then tl s else s);
          n = foldl (\<lambda>n c. 10 * n + (int (of_char c) - 48)) 0 ds;
          v = (if neg then - n else n)
      in if ds = [] \<or> v < - (2 ^ 63) \<or> v \<ge> 2 ^ 63 then None else Some v)"

definition backlog_targets :: "gostring \<Rightarrow> logins \<Rightarrow> gostring list" where
  "backlog_targets wanted ls =
     concat (map (\<lambda>l. case snd l of None \<Rightarrow> []
       | Some c \<Rightarrow> if cl_GmailAPIInbound c \<and> (wanted = [] \<or> cl_Email c = wanted) then [cl_Email c] else []) ls)"

text \<open>The manager hands the scan to the poller of the account.  \<open>run i days\<close> is \<open>Backlog\<close> of poller i.\<close>

definition manager_Backlog ::
  "(nat \<Rightarrow> int \<Rightarrow> 'w \<Rightarrow> (go_error + nat) \<times> 'w) \<Rightarrow> gostring \<Rightarrow> gostring \<Rightarrow> int \<Rightarrow> 't gmail_inbound \<Rightarrow> 'w \<Rightarrow> (go_error + nat) \<times> 'w" where
  "manager_Backlog run user addr days m w =
     (case gi_runners m (runner_key user addr) of
        None \<Rightarrow> (Inl (Err (''no Gmail-API poller registered for '' @ addr @ '' (account may be password-mode, full-scope, or needs-reauth)'')), w)
      | Some i \<Rightarrow> run i days w)"

fun backlog_accounts ::
  "(gostring \<Rightarrow> 'w \<Rightarrow> (go_error + nat) \<times> 'w) \<Rightarrow> gostring list \<Rightarrow> 'w \<Rightarrow> nat \<times> gostring list \<times> 'w" where
  "backlog_accounts scan [] w = (0, [], w)"
| "backlog_accounts scan (a # as) w =
     (case scan a w of
        (Inl e, w1) \<Rightarrow> (case backlog_accounts scan as w1 of (n, ls, w2) \<Rightarrow> (n, (bytes [226, 128, 162] @ '' '' @ bytes [226, 157, 140] @ '' **'' @ a @ ''**: '' @ error_text e) # ls, w2))
      | (Inr fed, w1) \<Rightarrow> (case backlog_accounts scan as w1 of (n, ls, w2) \<Rightarrow>
          (fed + n, (bytes [226, 128, 162] @ '' '' @ bytes [226, 156, 133] @ '' **'' @ a @ ''**: queued '' @
     itoa_go (int fed) @ '' message(s)'') # ls, w2)))"

definition backlog_scan ::
  "(gostring \<Rightarrow> int \<Rightarrow> 'w \<Rightarrow> (go_error + nat) \<times> 'w) \<Rightarrow> gostring \<Rightarrow> int \<Rightarrow> logins \<Rightarrow> 'w \<Rightarrow> gostring list \<times> 'w" where
  "backlog_scan scan wanted days ls w =
     (let targets = backlog_targets wanted ls in
      if targets = [] then
        ([if wanted \<noteq> [] then bytes [226, 157, 140] @ '' No modify-scope Gmail account matching **'' @ wanted @
     ''** is connected. (`!matrimail list` to inspect.)''
          else bytes [226, 157, 140] @ '' No modify-scope Gmail accounts connected '' @ bytes [226, 128, 148] @
     '' backlog only works for Gmail OAuth in modify scope.''], w)
      else case backlog_accounts (\<lambda>a. scan a days) targets w of
        (fedAll, report_lines, w1) \<Rightarrow>
          ([bytes [240, 159, 148, 129] @ '' Scanning last **'' @ itoa_go days @
     '' day(s)** of monitored labels on '' @ count targets @ '' account(s): '' @
     join_with '', '' targets @ '' '' @ bytes [226, 128, 166],
            ''Backlog scan complete '' @ bytes [226, 128, 148] @ '' '' @ itoa_go (int fedAll) @
     '' message(s) queued total. Existing rooms will get the missing messages; new threads will create rooms as usual.'' @
     bytes [10, 10] @ join_with [newline] report_lines], w1))"

definition fnBacklog ::
  "(gostring \<Rightarrow> int \<Rightarrow> 'w \<Rightarrow> (go_error + nat) \<times> 'w) \<Rightarrow> logins \<Rightarrow> gostring list \<Rightarrow> 'w \<Rightarrow> gostring list \<times> 'w" where
  "fnBacklog scan ls args w =
     (if ls = [] then ([not_connected_text], w)
      else case args of
        [] \<Rightarrow> backlog_scan scan [] 1 ls w
      | a # rest \<Rightarrow>
          (case scan_days a of
             None \<Rightarrow> ([bytes [226, 157, 140] @
     '' First argument must be a positive number of days. Usage: `!matrimail backlog [days] [email]`''], w)
           | Some n \<Rightarrow>
               if n \<le> 0 then ([bytes [226, 157, 140] @
     '' First argument must be a positive number of days. Usage: `!matrimail backlog [days] [email]`''], w)
               else if n > backlogMaxDays then ([bytes [226, 157, 140] @ '' Lookback capped at '' @ itoa_go backlogMaxDays @ '' days (got '' @
     itoa_go n @ ''). Run multiple smaller backlogs if you need more history.''], w)
               else backlog_scan scan (case rest of [] \<Rightarrow> [] | b # _ \<Rightarrow> trim_space b) n ls w))"

subsection \<open>The nuke command\<close>

definition database_names :: "gostring list" where
  "database_names = concat (map (\<lambda>p. concat (map (\<lambda>s. [p @ s]) ['''', ''-wal'', ''-shm'']))
     [''matrimail.db'', ''data/matrimail.db'', ''sh-matrimail.db'', ''emaildawg.db'', ''data/emaildawg.db'', ''sh-emaildawg.db''])"

definition database_files :: "gostring \<Rightarrow> gostring list" where
  "database_files cwd =
     filter (\<lambda>p. has_prefix p cwd) (map (\<lambda>n. path_clean (path_join [cwd, n])) database_names)"

text \<open>Removing the files that are there; \<open>refuses p\<close>: the host does not remove p.\<close>

fun remove_files :: "(gostring \<Rightarrow> bool) \<Rightarrow> gostring list \<Rightarrow> files \<Rightarrow> nat \<times> files" where
  "remove_files refuses [] fs = (0, fs)"
| "remove_files refuses (p # ps) fs =
     (if fs p \<noteq> None \<and> \<not> refuses p
      then (case remove_files refuses ps (fs(p := None)) of (n, fs1) \<Rightarrow> (Suc n, fs1))
      else remove_files refuses ps fs)"

definition fnNuke ::
  "'w net_env \<Rightarrow> host_env \<Rightarrow> (gostring \<Rightarrow> bool) \<Rightarrow> gostring list \<Rightarrow> 'w imap_manager \<times> files \<Rightarrow>
     (gostring, 'w imap_manager \<times> files) outcome" where
  "fnNuke env host refuses args s =
     (case s of (m, fs) \<Rightarrow>
      if args = [] \<or> to_lower (hd args) \<noteq> ''confirm'' then Done (bytes [226, 154, 160, 239, 184, 143] @
     '' This will DELETE the bridge database files and cannot be undone.'' @ bytes [10] @
     ''Confirm with: `!matrimail nuke confirm`.'') s
      else case StopAll env m of
        Blocked m1 \<Rightarrow> Blocked (m1, fs)
      | Done u m1 \<Rightarrow>
          (case working_dir host of
             Inl e \<Rightarrow> Done (bytes [226, 157, 140] @ '' Failed to get current directory: '' @ error_text e) (m1, fs)
           | Inr cwd \<Rightarrow>
               (case remove_files refuses (database_files cwd) fs of (removed, fs1) \<Rightarrow>
                  if removed = 0 then Done (bytes [226, 132, 185, 239, 184, 143] @ '' No bridge DB files found to delete.'') (m1, fs1)
                  else Done (bytes [240, 159, 167, 168] @ '' Bridge database deleted ('' @ itoa_go (int removed) @
     '' file(s)). Please restart the bridge service.'') (m1, fs1))))"

end
