(* ===== verification/DraftFacts.thy ===== *)
theory DraftFacts
  imports Drafts
begin

text \<open>
  What the draft, backlog and nuke commands do: the draft that is posted is the latest one of the
  thread, however old; the request names a message whenever the portal names a thread; nuke removes
  files of the database only.
\<close>

subsection \<open>The latest draft\<close>

definition is_draft :: "gmail_message \<Rightarrow> bool" where
  "is_draft m \<longleftrightarrow> list_ex (\<lambda>l. equal_fold l ''DRAFT'') (gm_LabelIds m)"

lemma pick_latest_some:
  assumes "pick_latest latest msgs = Some m"
  shows "(latest = Some m \<or> m \<in> set msgs \<and> is_draft m) \<and>
    (\<forall>x. latest = Some x \<or> x \<in> set msgs \<and> is_draft x \<longrightarrow> gm_InternalDate x \<le> gm_InternalDate m)"
  using assms
proof (induction msgs arbitrary: latest)
  case (Cons a msgs)
  show ?case
  proof (cases "is_draft a \<and> (case latest of None \<Rightarrow> True | Some x \<Rightarrow> gm_InternalDate a > gm_InternalDate x)")
    case True
    with Cons.prems have "pick_latest (Some a) msgs = Some m" by (simp add: is_draft_def)
    from Cons.IH [OF this] True show ?thesis by (cases latest) fastforce+
  next
    case False
    with Cons.prems have "pick_latest latest msgs = Some m" by (auto simp: is_draft_def split: if_splits)
    from Cons.IH [OF this] False show ?thesis by (cases latest) fastforce+
  qed
qed simp

lemma pick_latest_none: "pick_latest latest msgs = None \<longleftrightarrow> latest = None \<and> (\<forall>m\<in>set msgs. \<not> is_draft m)"
  by (induction msgs arbitrary: latest) (auto simp: is_draft_def)

text \<open>The draft that is picked is a draft of the thread and no draft of it is later.\<close>

theorem picked_draft_is_latest:
  "case pickLatestDraft msgs of
      None \<Rightarrow> \<forall>m\<in>set msgs. \<not> is_draft m
    | Some m \<Rightarrow> m \<in> set msgs \<and> is_draft m \<and> (\<forall>x\<in>set msgs. is_draft x \<longrightarrow> gm_InternalDate x \<le> gm_InternalDate m)"
  using pick_latest_some [of None msgs] pick_latest_none [of None msgs]
  by (auto simp: pickLatestDraft_def split: option.split)

text \<open>A draft that was in the thread before the command is posted as the answer to it, at the first try.\<close>

theorem old_draft_is_posted:
  assumes "gets 0 = Inr msgs" and "pickLatestDraft msgs = Some m" and "gm_InternalDate m > 0"
    and "trim_space (extractGmailMessageText decode m) \<noteq> []"
  shows "poll_draft decode gets ended 0 12 = Some (extractGmailMessageText decode m, m)"
  using assms by (simp add: eval_nat_numeral Let_def del: trim_space_def)

subsection \<open>The text\<close>

lemma blank_tags_done: "blank_tag (blank_tags s) = None"
  by (induction s rule: blank_tags.induct) (subst blank_tags.simps, simp split: option.split)

subsection \<open>The request\<close>

lemma request_layers [simp]:
  "dq_Account (from_metadata meta q) = dq_Account q" "dq_UserMXID (from_metadata meta q) = dq_UserMXID q"
  "dq_Account (from_thread th q) = dq_Account q" "dq_UserMXID (from_thread th q) = dq_UserMXID q"
  "dq_Account (from_portal tid q) = dq_Account q" "dq_UserMXID (from_portal tid q) = dq_UserMXID q"
  by (simp_all add: from_metadata_def from_thread_def from_portal_def Let_def split: option.split)

lemma from_portal_names: "tid \<noteq> [] \<Longrightarrow> dq_ThreadID (from_portal tid q) \<noteq> [] \<and> dq_MessageID (from_portal tid q) \<noteq> []"
  by (simp add: from_portal_def Let_def)

text \<open>A request always names a thread and a message when the portal names a thread.\<close>

theorem draft_request_names_message:
  assumes "draft_request_for clk c ev room meta tm = (q, tm')" and "portal_thread_id (dr_ID room) \<noteq> []"
  shows "dq_ThreadID q \<noteq> [] \<and> dq_MessageID q \<noteq> [] \<and> dq_Account q = cl_Email c \<and> dq_UserMXID q = cm_user ev"
proof -
  obtain q2 i where q: "q = (from_portal (portal_thread_id (dr_ID room)) q2)\<lparr>dq_Instruction := i\<rparr>"
    and q2: "dq_Account q2 = cl_Email c" "dq_UserMXID q2 = cm_user ev"
  proof (cases "GetThreadByID clk (dr_Receiver room) (portal_thread_id (dr_ID room)) tm")
    case (Pair r t)
    from assms Pair that show thesis
      unfolding draft_request_for_def Let_def by (cases r) (auto simp del: trim_space_def)
  qed
  show ?thesis unfolding q using from_portal_names [OF assms(2)] q2 by simp
qed

subsection \<open>Nuke\<close>

lemma remove_files_other: "p \<notin> set ps \<Longrightarrow> snd (remove_files refuses ps fs) p = fs p"
  by (induction ps arbitrary: fs) (auto simp: case_prod_unfold)

lemma remove_files_count:
  "remove_files refuses ps fs = (n, fs') \<Longrightarrow> n \<le> length ps \<and> (n = 0 \<longrightarrow> fs' = fs)"
  by (induction ps arbitrary: fs n) (fastforce split: if_splits prod.splits)+

text \<open>
  Nuke without the word that confirms it changes nothing; with it, no file but those of the database
  below the working directory is removed, and none when it answers that it found none.
\<close>

theorem nuke_removes_database_only:
  assumes "fnNuke env host refuses args (m, fs) = Done reply (m', fs')"
  shows "(args = [] \<or> to_lower (hd args) \<noteq> ''confirm'' \<longrightarrow> m' = m \<and> fs' = fs) \<and>
    (\<forall>p. fs' p \<noteq> fs p \<longrightarrow> (\<exists>cwd. working_dir host = Inr cwd \<and> p \<in> set (database_files cwd)))"
proof (cases "args = [] \<or> to_lower (hd args) \<noteq> ''confirm''")
  case True
  with assms show ?thesis unfolding fnNuke_def by (simp del: to_lower_def)
next
  case False
  then obtain m1 where m1: "StopAll env m = Done () m1"
    using assms unfolding fnNuke_def by (cases "StopAll env m") (simp_all del: to_lower_def)
  show ?thesis
  proof (cases "working_dir host")
    case (Inl e)
    with assms False m1 show ?thesis unfolding fnNuke_def by (simp del: to_lower_def)
  next
    case (Inr cwd)
    have "fs' = snd (remove_files refuses (database_files cwd) fs)"
      using assms False m1 Inr unfolding fnNuke_def by (auto simp del: to_lower_def split: prod.splits if_splits)
    then show ?thesis using remove_files_other [of _ "database_files cwd" refuses fs] False Inr by auto
  qed
qed

subsection \<open>Backlog\<close>

text \<open>A scan looks back at least one day and at most thirty.\<close>

theorem backlog_days_bounded:
  assumes "\<And>a d w. 1 \<le> d \<Longrightarrow> d \<le> backlogMaxDays \<Longrightarrow> scan a d w = scan' a d w"
  shows "fnBacklog scan ls args w = fnBacklog scan' ls args w"
proof -
  have "backlog_scan scan x d ls w = backlog_scan scan' x d ls w" if "1 \<le> d" "d \<le> backlogMaxDays" for x d w
  proof -
    have "(\<lambda>a. scan a d) = (\<lambda>a. scan' a d)" using assms [OF that] by (intro ext) simp
    then show ?thesis by (simp add: backlog_scan_def Let_def)
  qed
  then show ?thesis
    unfolding fnBacklog_def by (auto simp: backlogMaxDays_def split: list.split option.split)
qed

end
