(* ===== verification/Spec2Isabelle.thy ===== *)
theory Spec2Isabelle
  imports BreakerConc Retry Coordinator ThreadRuns QuoteFacts FolderFacts SenderFacts GmailDelivery
    GmailPollers ImapManager LoginFacts ClientFacts ConvertFacts CommandFacts ComposeFacts DraftFacts
begin

text \<open>
  A verification library for matrimail, a bridge between mailboxes and Matrix rooms written in Go
  (\<open>pkg/\<close> of the repository).

  The program.  A user logs a mail account in (\<open>pkg/connector/login.go\<close>); its row, with encrypted
  credentials, is kept in a table (\<open>database.go\<close>).  For each account \<open>client.go\<close> builds one way in,
  an IMAP client (\<open>pkg/imap/client.go\<close>) or a poller of the Gmail history
  (\<open>pkg/email/inbound_gmail_api.go\<close>), and one way out, an SMTP or a Gmail sender
  (\<open>pkg/email/sender*.go\<close>).  An inbound email is parsed and filtered (\<open>pkg/email/processor.go\<close>), put
  into a conversation (\<open>threading.go\<close>) and turned into the events of the conversation's room
  (\<open>ConvertMessage\<close>, \<open>html_hygiene.go\<close>).  A Matrix message becomes an email (\<open>client_send.go\<close>,
  \<open>outbound.go\<close>, \<open>quote.go\<close>), its identity is remembered so that its copy in the Sent folder is not
  bridged back (\<open>sent_dedup.go\<close>), and the thread is saved with the room (\<open>portal_metadata.go\<close>).  A
  circuit breaker and a retry loop (\<open>pkg/reliability\<close>) guard the connection; a coordinator
  (\<open>pkg/coordinator\<close>) folds connection events into the state shown to the user; \<open>reauth.go\<close>
  pauses an account whose OAuth token was revoked; \<open>commands.go\<close> is the chat interface.

  How the theories model it.

  \<open>GoPrelude\<close>: strings as byte lists, the functions of \<open>strings\<close>, integers that wrap at 64 bits,
  maps with Go's iteration order as a parameter.  \<open>Machines\<close>: the interfaces as locales, \<open>machine\<close>
  (an invariant kept by every step), its refinement and the traces of a machine.

  \<open>Breaker\<close>, \<open>BreakerConc\<close> (\<open>circuit_breaker.go\<close>): \<open>Execute\<close> as one step, and cut at each lock
  release for interleaved callers.  The first refines a three-state specification, the second never
  wedges.  \<open>Retry\<close> (\<open>retry.go\<close>): the loop, its delays over Go's floats as reals, error categories.

  \<open>Threading\<close>, \<open>ThreadFacts\<close>, \<open>ThreadRuns\<close> (\<open>threading.go\<close>): the thread tables and every
  operation on them; soundness and bounds over all runs, where replies land, what eviction removes.
  \<open>Quote\<close>, \<open>QuoteFacts\<close> (\<open>quote.go\<close>): cutting and building quotes, and that they undo each other.

  \<open>Processor\<close> (\<open>processor.go\<close>, after parsing), \<open>Regex\<close>, \<open>MatrixText\<close>, \<open>Convert\<close>, \<open>ConvertFacts\<close>
  (\<open>processor.go\<close> from \<open>ConvertMessage\<close> on, \<open>html_hygiene.go\<close>): outcomes of the pipeline; sizes of
  events and uploads, the fate of every attachment, chunking.

  \<open>Outbound\<close>, \<open>OutboundFacts\<close> (\<open>outbound.go\<close>), \<open>SentDedup\<close> (\<open>sent_dedup.go\<close>), \<open>SendFlow\<close>,
  \<open>SendFacts\<close> (\<open>client_send.go\<close>, \<open>portal_metadata.go\<close>), \<open>Senders\<close>, \<open>SenderFacts\<close> (the
  transports), \<open>BridgeRuns\<close>: recipients, headers, at most one email per event, echoes, restarts;
  \<open>BridgeRuns\<close> composes inbound, outbound, rooms, clean-up and restart into one machine.

  \<open>ImapMailbox\<close>, \<open>ImapSync\<close>, \<open>ImapDelivery\<close>, \<open>ImapConn\<close>, \<open>ImapRuns\<close>, \<open>ImapManager\<close>,
  \<open>ImapClient\<close> (\<open>pkg/imap\<close>): mailbox checks, delivery of a UID, connection and IDLE with their
  locks, the manager and its watchdogs over a heap of clients, making a client.  An operation that
  needs a lock that is held returns \<open>Blocked\<close>.
  \<open>GmailParse\<close>, \<open>GmailPoll\<close>, \<open>GmailFacts\<close>, \<open>GmailDelivery\<close>, \<open>GmailPollers\<close>
  (\<open>parse_gmail_api.go\<close>, \<open>inbound_gmail_api.go\<close>, \<open>gmail_inbound.go\<close>): the same for Gmail.
  \<open>Coordinator\<close> (\<open>state_coordinator.go\<close>): refines an abstract view.  \<open>Folders\<close>, \<open>FolderFacts\<close>
  (\<open>folders.go\<close>, \<open>gmail_labels.go\<close>, \<open>login_validation.go\<close>): what is offered and selected.

  \<open>KeyStore\<close>, \<open>AccountDB\<close>, \<open>AccountFacts\<close> (\<open>database.go\<close>): the key, the envelope, the account
  rows; the encrypted table refines a plain store.  \<open>OAuth\<close>, \<open>OAuthFacts\<close> (\<open>oauth_authcode.go\<close>,
  \<open>oauth_listener.go\<close>), \<open>Login\<close>, \<open>LoginFacts\<close> (\<open>login.go\<close>), \<open>Reauth\<close>, \<open>ReauthFacts\<close>
  (\<open>reauth.go\<close>, \<open>reauth_tokensource.go\<close>), \<open>Client\<close>, \<open>ClientFacts\<close> (\<open>client.go\<close>): what a login may
  write, which transports an account has, how often a user is told to log in again.

  \<open>Rooms\<close> (\<open>room_manager.go\<close>, the room information of \<open>connector.go\<close>): name, members and power
  levels of a room.  \<open>CommandArgs\<close>, \<open>Commands\<close>, \<open>CommandFlows\<close>, \<open>CommandFacts\<close>, \<open>Compose\<close>,
  \<open>ComposeFacts\<close>, \<open>Drafts\<close>, \<open>DraftFacts\<close> (\<open>commands.go\<close>, \<open>client_compose.go\<close>,
  \<open>draft_webhook.go\<close>): every chat command as a function from the logins, the event and the world to
  replies and a new world.  An interactive login is a front end of the login process (locale
  \<open>front_end\<close> of \<open>Machines\<close>), so what holds of the process holds of the conversation.

  How to read it.  A Go struct is a record, an enumeration a datatype or its string, an error a
  \<open>go_error\<close> with its text, a pair of value and error a sum.  Effects are explicit state passing;
  a panic and a blocked lock are results.  Services and libraries (IMAP and SMTP servers, Google,
  SQLite, the Matrix framework, AES-GCM, HTML and MIME libraries, the clock, randomness) are
  parameters, records of functions called the environment; what a property needs of them is a named
  definition in its hypotheses, with a witness on a concrete environment.  Loops are structural
  recursions or functions with a measure.  The only bounds are the code's own (attempts of a retry,
  pages of a listing, fifty chunks); the matcher of \<open>Regex\<close> iterates once per byte left, which is
  enough because an iteration that consumes nothing is not repeated.

  Not modelled.  Logging, \<open>cmd/matrimail/main.go\<close> and the registration of commands and event handlers are
  glue; the Gmail IMAP token of \<open>oauth_gmail.go\<close> and the migrations of tables are calls into
  libraries.  Lower-casing is that of ASCII letters outside the places named in the theories.
  Goroutines are modelled where their interleaving matters (\<open>BreakerConc\<close>, \<open>ImapRuns\<close>,
  \<open>GmailPollers\<close>), and run to completion elsewhere.  The data races Go's memory model would allow
  are not modelled.
\<close>

end
